(* ===== verification/Kernel_Prelude.thy ===== *)
theory Kernel_Prelude
  imports Main "HOL-Library.Word" "HOL-Library.State_Monad" "HOL-Library.Signed_Division"
begin

unbundle bit_operations_syntax

text \<open>
  Shared vocabulary of the development: the C integer types the drivers use, errno values,
  C's truncating division, results of fallible kernel calls, and a small weakest-precondition
  calculus for stateful code.

  A C function that touches hardware is a value of type \<open>('w, 'a) state\<close>
  (HOL-Library's state monad): \<open>'w\<close> is everything outside the driver. A function with the
  C shape ``0 or a negative errno, and an output parameter'' returns \<open>int + 'a\<close>:
  \<open>Inl e\<close> is the non-zero return code \<open>e\<close> and \<open>Inr v\<close> is return code 0 with
  the output \<open>v\<close>. Functions that return a number or a negative errno in one \<open>int\<close>
  keep that \<open>int\<close>.
\<close>

section \<open>Machine integers and errno\<close>

type_synonym u8 = "8 word"
type_synonym u16 = "16 word"
type_synonym u32 = "32 word"

text \<open>Positive errno numbers of \<open>linux/errno.h\<close>; the code returns their negation.\<close>

abbreviation ENXIO :: int where "ENXIO \<equiv> 6"
abbreviation EAGAIN :: int where "EAGAIN \<equiv> 11"
abbreviation ENOMEM :: int where "ENOMEM \<equiv> 12"
abbreviation EBUSY :: int where "EBUSY \<equiv> 16"
abbreviation ENODEV :: int where "ENODEV \<equiv> 19"
abbreviation EINVAL :: int where "EINVAL \<equiv> 22"
abbreviation ETIMEDOUT :: int where "ETIMEDOUT \<equiv> 110"
abbreviation ERESTARTSYS :: int where "ERESTARTSYS \<equiv> 512"

text \<open>Conversion to a 32-bit C \<open>int\<close> and to an \<open>s16\<close>: two's complement truncation.\<close>

definition c_int :: "int \<Rightarrow> int" where
  "c_int x = signed_take_bit 31 x"

definition c_s16 :: "int \<Rightarrow> int" where
  "c_s16 x = signed_take_bit 15 x"

lemma c_int_id: "- (2 ^ 31) \<le> x \<Longrightarrow> x < 2 ^ 31 \<Longrightarrow> c_int x = x"
  unfolding c_int_def by (rule signed_take_bit_int_eq_self) auto

lemma c_s16_range: "- 32768 \<le> c_s16 x \<and> c_s16 x \<le> 32767"
  using signed_take_bit_int_greater_eq_minus_exp [of 15 x] signed_take_bit_int_less_exp [of 15 x]
  by (simp add: c_s16_def)

text \<open>The C truth value of an integer expression \<open>x & bit\<close>.\<close>

definition has :: "'a::len word \<Rightarrow> 'a word \<Rightarrow> bool" where
  "has x m \<longleftrightarrow> x AND m \<noteq> 0"

text \<open>Masked update \<open>reg &= ~mask; reg |= val & mask;\<close>.\<close>

definition masked :: "'a::len word \<Rightarrow> 'a word \<Rightarrow> 'a word \<Rightarrow> 'a word" where
  "masked r m v = (r AND NOT m) OR (v AND m)"

lemma bit_masked:
  fixes r m v :: "'a::len word"
  assumes "n < LENGTH('a)"
  shows "bit (masked r m v) n \<longleftrightarrow> (if bit m n then bit v n else bit r n)"
  using assms by (auto simp: masked_def bit_and_iff bit_or_iff bit_not_iff)

lemma masked_and_mask [simp]: "masked r m v AND m = v AND m"
  by (rule bit_word_eqI) (auto simp: bit_masked bit_and_iff)

lemma masked_and_other: "m AND k = 0 \<Longrightarrow> masked r m v AND k = r AND k"
proof (rule bit_word_eqI)
  fix n assume d: "m AND k = 0" and n: "n < LENGTH('a)"
  have "\<not> bit (m AND k) n" by (simp add: d)
  with n show "bit (masked r m v AND k) n = bit (r AND k) n"
    by (auto simp: bit_masked bit_and_iff)
qed

lemma masked_and_sub: "k AND m = k \<Longrightarrow> masked r m v AND k = v AND k"
proof (rule bit_word_eqI)
  fix n assume d: "k AND m = k" and n: "n < LENGTH('a)"
  have "bit k n \<Longrightarrow> bit m n" using d by (metis bit_and_iff)
  with n show "bit (masked r m v AND k) n = bit (v AND k) n"
    by (auto simp: bit_masked bit_and_iff)
qed

lemma masked_id [simp]: "masked r 0 v = r"
  by (simp add: masked_def)

lemma masked_idem [simp]: "masked (masked r m v) m v = masked r m v"
  by (rule bit_word_eqI) (auto simp: bit_masked)

text \<open>Adding an offset to a page-aligned base keeps the low byte of the offset.\<close>

lemma low_byte_add: "b AND 0xff = 0 \<Longrightarrow> (b + a) AND 0xff = a AND 0xff" for a b :: u32
proof -
  have ff: "x AND 0xff = take_bit 8 x" for x :: u32
    by (simp add: take_bit_eq_mask mask_eq_exp_minus_1)
  assume "b AND 0xff = 0"
  then have "uint (take_bit 8 b) = 0" by (simp add: ff)
  then have "take_bit 8 (uint b) = 0" by (simp add: unsigned_take_bit_eq)
  then have "take_bit 8 (uint b + uint a) = take_bit 8 (uint a)"
    using take_bit_add [of 8 "uint b" "uint a"] by simp
  then have "uint (take_bit 8 (b + a)) = uint (take_bit 8 a)"
    by (simp add: unsigned_take_bit_eq uint_word_arith_bintrs)
  then have "take_bit 8 (b + a) = take_bit 8 a" by (simp only: word_uint_eq_iff)
  then show ?thesis by (simp add: ff)
qed

section \<open>Stateful code\<close>

lemma no_Inl_unit [simp]: "(\<forall>e. r \<noteq> Inl e) \<longleftrightarrow> r = Inr ()" for r :: "'e + unit"
  by (cases r) auto

abbreviation ret :: "'a \<Rightarrow> ('w, 'a) state" where
  "ret \<equiv> State_Monad.return"

text \<open>\<open>ret = f(...); if (ret) return ret; ...\<close>\<close>

definition ok_then :: "('w, 'e + 'a) state \<Rightarrow> ('a \<Rightarrow> ('w, 'e + 'b) state) \<Rightarrow> ('w, 'e + 'b) state" where
  "ok_then m f = State_Monad.bind m (case_sum (\<lambda>e. ret (Inl e)) f)"

definition wp :: "('w, 'a) state \<Rightarrow> ('a \<Rightarrow> 'w \<Rightarrow> bool) \<Rightarrow> 'w \<Rightarrow> bool" where
  "wp m Q w = (case run_state m w of (r, w') \<Rightarrow> Q r w')"

named_theorems wp_rules \<open>weakest preconditions of program constructs and operations\<close>

lemma wp_return [simp]: "wp (ret x) Q = Q x"
  by (rule ext) (simp add: wp_def)

lemma wp_bind [simp]: "wp (State_Monad.bind m f) Q w = wp m (\<lambda>x. wp (f x) Q) w"
  by (simp add: wp_def split: prod.splits)

lemma wp_ok_then [simp]:
  "wp (ok_then m f) Q w = wp m (case_sum (\<lambda>e. Q (Inl e)) (\<lambda>v. wp (f v) Q)) w"
  by (simp add: wp_def ok_then_def split: prod.splits sum.splits)

lemma wp_if [simp]: "wp (if b then m else n) Q w = (if b then wp m Q w else wp n Q w)"
  by simp

lemma wp_get [simp]: "wp State_Monad.get Q w = Q w w"
  by (simp add: wp_def)

lemma wp_set [simp]: "wp (State_Monad.set w') Q w = Q () w'"
  by (simp add: wp_def)

lemma wp_mono: "wp m Q w \<Longrightarrow> (\<And>r w'. Q r w' \<Longrightarrow> R r w') \<Longrightarrow> wp m R w"
  by (auto simp: wp_def split: prod.splits)

lemma wp_conj: "wp m (\<lambda>r w'. Q r w' \<and> R r w') w \<longleftrightarrow> wp m Q w \<and> wp m R w"
  by (auto simp: wp_def split: prod.splits)

lemma wp_run: "run_state m w = (r, w') \<Longrightarrow> wp m Q w \<Longrightarrow> Q r w'"
  by (simp add: wp_def)

lemma wpI: "(\<And>r w'. run_state m w = (r, w') \<Longrightarrow> Q r w') \<Longrightarrow> wp m Q w"
  by (simp add: wp_def split: prod.splits)

lemma wp_True [simp]: "wp m (\<lambda>_ _. True) w"
  by (simp add: wp_def split: prod.splits)

text \<open>Running a sum-returning step and going on.\<close>

lemma run_ok_then:
  "run_state (ok_then m f) w =
     (case run_state m w of (Inl e, w') \<Rightarrow> (Inl e, w') | (Inr v, w') \<Rightarrow> run_state (f v) w')"
  by (auto simp: ok_then_def split: prod.splits sum.splits)

lemma ok_then_Inl [simp]: "ok_then (ret (Inl e)) f = ret (Inl e)"
  and ok_then_Inr [simp]: "ok_then (ret (Inr v)) f = f v"
  by (simp_all add: ok_then_def)

lemma ok_then_assoc: "ok_then (ok_then m f) g = ok_then m (\<lambda>x. ok_then (f x) g)"
  by (rule state_ext) (simp add: run_ok_then split: prod.splits sum.splits)

lemma ok_then_cong [fundef_cong]:
  "m = m' \<Longrightarrow> (\<And>v. f v = f' v) \<Longrightarrow> ok_then m f = ok_then m' f'"
  by (rule arg_cong2 [where f = ok_then]) (simp, rule ext, simp)

text \<open>
  \<open>keeps I m\<close>: the code \<open>m\<close> preserves the predicate \<open>I\<close> on the outside world, on every
  path. The rules decompose code by its structure.
\<close>

definition keeps :: "('w \<Rightarrow> bool) \<Rightarrow> ('w, 'a) state \<Rightarrow> bool" where
  "keeps I m \<longleftrightarrow> (\<forall>w. I w \<longrightarrow> wp m (\<lambda>_. I) w)"

named_theorems keeps_rules \<open>structural preservation rules\<close>

lemma keepsD: "keeps I m \<Longrightarrow> I w \<Longrightarrow> run_state m w = (r, w') \<Longrightarrow> I w'"
  by (auto simp: keeps_def wp_def)

lemma keepsI: "(\<And>w. I w \<Longrightarrow> wp m (\<lambda>_. I) w) \<Longrightarrow> keeps I m"
  by (simp add: keeps_def)

lemma keeps_get [keeps_rules]: "keeps I State_Monad.get"
  by (simp add: keeps_def)

lemma keeps_return [keeps_rules]: "keeps I (ret x)"
  by (simp add: keeps_def)

lemma keeps_bind [keeps_rules]:
  "keeps I m \<Longrightarrow> (\<And>x. keeps I (f x)) \<Longrightarrow> keeps I (State_Monad.bind m f)"
  unfolding keeps_def by (auto intro: wp_mono)

lemma keeps_ok_then [keeps_rules]:
  "keeps I m \<Longrightarrow> (\<And>x. keeps I (f x)) \<Longrightarrow> keeps I (ok_then m f)"
  unfolding ok_then_def by (rule keeps_bind) (auto intro: keeps_return split: sum.split)

lemma keeps_if [keeps_rules]:
  "(b \<Longrightarrow> keeps I m) \<Longrightarrow> (\<not> b \<Longrightarrow> keeps I n) \<Longrightarrow> keeps I (if b then m else n)"
  by simp

lemma keeps_case_sum [keeps_rules]:
  "(\<And>e. keeps I (f e)) \<Longrightarrow> (\<And>v. keeps I (g v)) \<Longrightarrow> keeps I (case r of Inl e \<Rightarrow> f e | Inr v \<Rightarrow> g v)"
  by (cases r) auto

lemma keeps_case_option [keeps_rules]:
  "keeps I m \<Longrightarrow> (\<And>v. keeps I (g v)) \<Longrightarrow> keeps I (case r of None \<Rightarrow> m | Some v \<Rightarrow> g v)"
  by (cases r) auto

lemma keeps_case_prod [keeps_rules]:
  "(\<And>a b. keeps I (f a b)) \<Longrightarrow> keeps I (case p of (a, b) \<Rightarrow> f a b)"
  by (cases p) auto

lemma keeps_Let [keeps_rules]: "(\<And>x. keeps I (f x)) \<Longrightarrow> keeps I (let x = v in f x)"
  by simp

text \<open>Code on a component of a larger state.\<close>

definition on_part :: "('s \<Rightarrow> 'w) \<Rightarrow> ('w \<Rightarrow> 's \<Rightarrow> 's) \<Rightarrow> ('w, 'a) state \<Rightarrow> ('s, 'a) state" where
  "on_part get_part put_part m =
     State (\<lambda>s. case run_state m (get_part s) of (r, w') \<Rightarrow> (r, put_part w' s))"

lemma run_on_part [simp]:
  "run_state (on_part g p m) s = (case run_state m (g s) of (r, w') \<Rightarrow> (r, p w' s))"
  by (simp add: on_part_def)

lemma wp_on_part [simp]: "wp (on_part g p m) Q s = wp m (\<lambda>r w'. Q r (p w' s)) (g s)"
  by (simp add: wp_def split: prod.splits)

definition modify_st :: "('s \<Rightarrow> 's) \<Rightarrow> ('s, unit) state" where
  "modify_st f = State (\<lambda>s. ((), f s))"

lemma run_modify_st [simp]: "run_state (modify_st f) s = ((), f s)"
  by (simp add: modify_st_def)

lemma wp_modify_st [simp]: "wp (modify_st f) Q s = Q () (f s)"
  by (simp add: wp_def)

text \<open>A \<open>for\<close> loop over a list that stops at the first error.\<close>

fun for_each :: "('a \<Rightarrow> ('w, 'e + unit) state) \<Rightarrow> 'a list \<Rightarrow> ('w, 'e + unit) state" where
  "for_each f [] = ret (Inr ())"
| "for_each f (x # xs) = ok_then (f x) (\<lambda>_. for_each f xs)"

lemma keeps_for_each [keeps_rules]: "(\<And>x. keeps I (f x)) \<Longrightarrow> keeps I (for_each f xs)"
  by (induction xs) (auto intro!: keeps_rules)

lemma wp_for_each:
  assumes step: "\<And>x w. x \<in> set xs \<Longrightarrow> I w \<Longrightarrow> wp (f x) (\<lambda>_. I) w" and "I w"
  shows "wp (for_each f xs) (\<lambda>_. I) w"
  using assms
proof (induction xs arbitrary: w)
  case Nil
  then show ?case by simp
next
  case (Cons x xs)
  have "wp (f x) (\<lambda>_. I) w" using Cons.prems by simp
  then show ?case
    by (simp, elim wp_mono) (auto split: sum.split intro!: Cons.IH Cons.prems(1))
qed

end
