(* ===== verification/Regmap.thy ===== *)
theory Regmap
  imports Kernel_Prelude
begin

text \<open>
  The register map the PMIC drivers talk through. The Linux regmap API is not part of the
  repository, so it is a parameter of the model: a record \<open>regmap\<close> of the five calls the
  drivers make, over an arbitrary outside world \<open>'w\<close>. What the drivers rely on is the locale
  \<open>regmap_bus\<close> (the documented behaviour of the API on byte-wide registers): a call that
  fails returns a negative errno (a failed update has happened or not), a call that succeeds has
  done its transfer, and no call touches other driver-owned registers. Registers in \<open>vol\<close> belong to the hardware, which may
  change them at any moment; nothing is assumed about their values.

  \<open>traced\<close> wraps any register map so that it also records the calls made, in order: the
  statements about which transfers a driver issues need no law of the bus at all.
  \<open>sim_regmap\<close> is an executable bus with scripted failures and scripted hardware activity;
  it shows that the laws can hold, also on the failing paths, and it is what the witnesses run on.
\<close>

section \<open>The interface\<close>

record 'w regmap =
  regmap_read :: "u32 \<Rightarrow> ('w, int + u32) state"
  regmap_write :: "u32 \<Rightarrow> u32 \<Rightarrow> ('w, int + unit) state"
  regmap_bulk_read :: "u32 \<Rightarrow> nat \<Rightarrow> ('w, int + u8 list) state"
  regmap_bulk_write :: "u32 \<Rightarrow> u8 list \<Rightarrow> ('w, int + unit) state"
  regmap_update_bits :: "u32 \<Rightarrow> u32 \<Rightarrow> u32 \<Rightarrow> ('w, int + unit) state"

definition span :: "u32 \<Rightarrow> nat \<Rightarrow> u32 set" where
  "span a n = (\<lambda>i. a + of_nat i) ` {..<n}"

lemma span_0 [simp]: "span a 0 = {}"
  and span_Suc: "span a (Suc n) = insert (a + of_nat n) (span a n)"
  by (auto simp: span_def less_Suc_eq)

lemma span_1 [simp]: "span a (Suc 0) = {a}"
  by (simp add: span_Suc)

lemma span_2 [simp]: "span a 2 = {a, a + 1}"
  by (auto simp: span_Suc numeral_2_eq_2)

definition unchanged :: "('w \<Rightarrow> u32 \<Rightarrow> u8) \<Rightarrow> u32 set \<Rightarrow> u32 set \<Rightarrow> 'w \<Rightarrow> 'w \<Rightarrow> bool" where
  "unchanged reg vol A w w' \<longleftrightarrow> (\<forall>a. a \<notin> vol \<longrightarrow> a \<notin> A \<longrightarrow> reg w' a = reg w a)"

lemma unchanged_refl [simp]: "unchanged reg vol A w w"
  by (simp add: unchanged_def)

lemma unchanged_trans:
  "unchanged reg vol A w w' \<Longrightarrow> unchanged reg vol B w' w'' \<Longrightarrow> unchanged reg vol (A \<union> B) w w''"
  by (simp add: unchanged_def)

lemma unchanged_mono: "unchanged reg vol A w w' \<Longrightarrow> A \<subseteq> B \<Longrightarrow> unchanged reg vol B w w'"
  by (auto simp: unchanged_def)

locale regmap_bus =
  fixes rm :: "'w regmap"
    and reg :: "'w \<Rightarrow> u32 \<Rightarrow> u8"
    and vol :: "u32 set"
  assumes read_law: "run_state (regmap_read rm a) w = (r, w') \<Longrightarrow>
      unchanged reg vol {} w w' \<and>
      (case r of Inl e \<Rightarrow> e < 0 | Inr v \<Rightarrow> (\<exists>x. v = ucast x \<and> (a \<notin> vol \<longrightarrow> x = reg w a)))"
    and write_law: "run_state (regmap_write rm a v) w = (s, w') \<Longrightarrow>
      unchanged reg vol {a} w w' \<and>
      (case s of Inl e \<Rightarrow> e < 0 | Inr _ \<Rightarrow> a \<notin> vol \<longrightarrow> reg w' a = ucast v)"
    and bulk_read_law: "run_state (regmap_bulk_read rm a n) w = (t, w') \<Longrightarrow>
      unchanged reg vol {} w w' \<and>
      (case t of Inl e \<Rightarrow> e < 0 | Inr bs \<Rightarrow>
         length bs = n \<and> (\<forall>i<n. a + of_nat i \<notin> vol \<longrightarrow> bs ! i = reg w (a + of_nat i)))"
    and bulk_write_law: "run_state (regmap_bulk_write rm a bs) w = (s, w') \<Longrightarrow> length bs \<le> 256 \<Longrightarrow>
      unchanged reg vol (span a (length bs)) w w' \<and>
      (case s of Inl e \<Rightarrow> e < 0 | Inr _ \<Rightarrow>
         \<forall>i<length bs. a + of_nat i \<notin> vol \<longrightarrow> reg w' (a + of_nat i) = bs ! i)"
    and update_bits_law: "run_state (regmap_update_bits rm a m v) w = (s, w') \<Longrightarrow>
      unchanged reg vol {a} w w' \<and>
      (case s of
         Inl e \<Rightarrow> e < 0 \<and> (a \<notin> vol \<longrightarrow>
           reg w' a = reg w a \<or> reg w' a = masked (reg w a) (ucast m) (ucast v))
       | Inr _ \<Rightarrow> a \<notin> vol \<longrightarrow> reg w' a = masked (reg w a) (ucast m) (ucast v))"
begin

text \<open>The laws as weakest preconditions, one branch per outcome.\<close>

lemma wp_read [wp_rules]:
  assumes "\<And>e w'. e < 0 \<Longrightarrow> unchanged reg vol {} w w' \<Longrightarrow> Q (Inl e) w'"
    and "\<And>x w'. unchanged reg vol {} w w' \<Longrightarrow> (a \<notin> vol \<Longrightarrow> x = reg w a) \<Longrightarrow> Q (Inr (ucast x)) w'"
  shows "wp (regmap_read rm a) Q w"
proof (rule wpI)
  fix r w' assume "run_state (regmap_read rm a) w = (r, w')"
  from read_law [OF this] show "Q r w'" by (cases r) (auto intro: assms)
qed

lemma wp_write [wp_rules]:
  assumes "\<And>e w'. e < 0 \<Longrightarrow> unchanged reg vol {a} w w' \<Longrightarrow> Q (Inl e) w'"
    and "\<And>w'. unchanged reg vol {a} w w' \<Longrightarrow> (a \<notin> vol \<Longrightarrow> reg w' a = ucast v) \<Longrightarrow> Q (Inr ()) w'"
  shows "wp (regmap_write rm a v) Q w"
proof (rule wpI)
  fix r w' assume "run_state (regmap_write rm a v) w = (r, w')"
  from write_law [OF this] show "Q r w'" by (cases r) (auto intro: assms)
qed

lemma wp_bulk_read [wp_rules]:
  assumes "\<And>e w'. e < 0 \<Longrightarrow> unchanged reg vol {} w w' \<Longrightarrow> Q (Inl e) w'"
    and "\<And>bs w'. unchanged reg vol {} w w' \<Longrightarrow> length bs = n \<Longrightarrow>
      (\<And>i. i < n \<Longrightarrow> a + of_nat i \<notin> vol \<Longrightarrow> bs ! i = reg w (a + of_nat i)) \<Longrightarrow> Q (Inr bs) w'"
  shows "wp (regmap_bulk_read rm a n) Q w"
proof (rule wpI)
  fix r w' assume "run_state (regmap_bulk_read rm a n) w = (r, w')"
  from bulk_read_law [OF this] show "Q r w'" by (cases r) (auto intro: assms)
qed

lemma wp_bulk_write:
  assumes "length bs \<le> 256"
    and "\<And>e w'. e < 0 \<Longrightarrow> unchanged reg vol (span a (length bs)) w w' \<Longrightarrow> Q (Inl e) w'"
    and "\<And>w'. unchanged reg vol (span a (length bs)) w w' \<Longrightarrow>
      (\<And>i. i < length bs \<Longrightarrow> a + of_nat i \<notin> vol \<Longrightarrow> reg w' (a + of_nat i) = bs ! i) \<Longrightarrow> Q (Inr ()) w'"
  shows "wp (regmap_bulk_write rm a bs) Q w"
proof (rule wpI)
  fix r w' assume "run_state (regmap_bulk_write rm a bs) w = (r, w')"
  from bulk_write_law [OF this assms(1)] show "Q r w'" by (cases r) (auto intro: assms)
qed

text \<open>The common case of one byte.\<close>

lemma wp_bulk_write1 [wp_rules]:
  assumes "\<And>e w'. e < 0 \<Longrightarrow> unchanged reg vol {a} w w' \<Longrightarrow> Q (Inl e) w'"
    and "\<And>w'. unchanged reg vol {a} w w' \<Longrightarrow> (a \<notin> vol \<Longrightarrow> reg w' a = x) \<Longrightarrow> Q (Inr ()) w'"
  shows "wp (regmap_bulk_write rm a [x]) Q w"
proof (rule wp_bulk_write)
  fix w' assume u: "unchanged reg vol (span a (length [x])) w w'"
    and r: "\<And>i. i < length [x] \<Longrightarrow> a + of_nat i \<notin> vol \<Longrightarrow> reg w' (a + of_nat i) = [x] ! i"
  from u r [of 0] show "Q (Inr ()) w'" by (intro assms(2)) auto
qed (auto intro: assms)

lemma wp_update_bits [wp_rules]:
  assumes "\<And>e w'. e < 0 \<Longrightarrow> unchanged reg vol {a} w w' \<Longrightarrow>
      (a \<notin> vol \<Longrightarrow> reg w' a = reg w a \<or> reg w' a = masked (reg w a) (ucast m) (ucast v)) \<Longrightarrow> Q (Inl e) w'"
    and "\<And>w'. unchanged reg vol {a} w w' \<Longrightarrow>
      (a \<notin> vol \<Longrightarrow> reg w' a = masked (reg w a) (ucast m) (ucast v)) \<Longrightarrow> Q (Inr ()) w'"
  shows "wp (regmap_update_bits rm a m v) Q w"
proof (rule wpI)
  fix r w' assume "run_state (regmap_update_bits rm a m v) w = (r, w')"
  from update_bits_law [OF this] show "Q r w'" by (cases r) (auto intro: assms)
qed

end

section \<open>Recording the transfers\<close>

datatype bus_op =
    Read u32
  | Write u32 u32
  | BulkRead u32 nat
  | BulkWrite u32 "u8 list"
  | UpdateBits u32 u32 u32

definition log_op :: "bus_op \<Rightarrow> ('w, 'a) state \<Rightarrow> (bus_op list \<times> 'w, 'a) state" where
  "log_op x m = State (\<lambda>(l, w). case run_state m w of (r, w') \<Rightarrow> (r, (l @ [x], w')))"

definition traced :: "'w regmap \<Rightarrow> (bus_op list \<times> 'w) regmap" where
  "traced rm =
     \<lparr>regmap_read = (\<lambda>a. log_op (Read a) (regmap_read rm a)),
      regmap_write = (\<lambda>a v. log_op (Write a v) (regmap_write rm a v)),
      regmap_bulk_read = (\<lambda>a n. log_op (BulkRead a n) (regmap_bulk_read rm a n)),
      regmap_bulk_write = (\<lambda>a bs. log_op (BulkWrite a bs) (regmap_bulk_write rm a bs)),
      regmap_update_bits = (\<lambda>a m v. log_op (UpdateBits a m v) (regmap_update_bits rm a m v))\<rparr>"

lemma run_log_op [simp]:
  "run_state (log_op x m) (l, w) = (case run_state m w of (r, w') \<Rightarrow> (r, (l @ [x], w')))"
  by (simp add: log_op_def)

lemma wp_log_op [simp]: "wp (log_op x m) Q (l, w) = wp m (\<lambda>r w'. Q r (l @ [x], w')) w"
  by (simp add: wp_def split: prod.splits)

lemma traced_simps [simp]:
  "regmap_read (traced rm) a = log_op (Read a) (regmap_read rm a)"
  "regmap_write (traced rm) a v = log_op (Write a v) (regmap_write rm a v)"
  "regmap_bulk_read (traced rm) a n = log_op (BulkRead a n) (regmap_bulk_read rm a n)"
  "regmap_bulk_write (traced rm) a bs = log_op (BulkWrite a bs) (regmap_bulk_write rm a bs)"
  "regmap_update_bits (traced rm) a m v = log_op (UpdateBits a m v) (regmap_update_bits rm a m v)"
  by (simp_all add: traced_def)

text \<open>A property of the recorded transfers that no recorded transfer can break.\<close>

lemma keeps_log_op: "(\<And>l w. I (l, w) \<Longrightarrow> \<forall>w'. I (l @ [x], w')) \<Longrightarrow> keeps I (log_op x m)"
  by (rule keepsI) (auto simp: wp_def split: prod.splits)

section \<open>An executable bus\<close>

record sim =
  sim_reg :: "u32 \<Rightarrow> u8"
  sim_err :: "int list"
  sim_hw :: "(u32 \<times> u8) list list"

fun hw_apply :: "u32 set \<Rightarrow> (u32 \<times> u8) list \<Rightarrow> (u32 \<Rightarrow> u8) \<Rightarrow> (u32 \<Rightarrow> u8)" where
  "hw_apply vol [] f = f"
| "hw_apply vol ((a, v) # xs) f = hw_apply vol xs (if a \<in> vol then f(a := v) else f)"

definition sim_tick :: "u32 set \<Rightarrow> sim \<Rightarrow> sim" where
  "sim_tick vol s = s\<lparr>sim_reg := (case sim_hw s of [] \<Rightarrow> sim_reg s | x # _ \<Rightarrow> hw_apply vol x (sim_reg s)),
     sim_hw := tl (sim_hw s), sim_err := tl (sim_err s)\<rparr>"

text \<open>
  Each transfer first lets the hardware act, then fails if the failure script says so (a
  negative number), and otherwise does its work.
\<close>

definition sim_transfer :: "u32 set \<Rightarrow> ((u32 \<Rightarrow> u8) \<Rightarrow> 'a \<times> (u32 \<Rightarrow> u8)) \<Rightarrow> (sim, int + 'a) state" where
  "sim_transfer vol f = State (\<lambda>s.
     let s' = sim_tick vol s; e = (case sim_err s of [] \<Rightarrow> 0 | x # _ \<Rightarrow> x)
     in if e < 0 then (Inl e, s')
        else (case f (sim_reg s') of (v, g) \<Rightarrow> (Inr v, s'\<lparr>sim_reg := g\<rparr>)))"

fun poke :: "u32 \<Rightarrow> u8 list \<Rightarrow> (u32 \<Rightarrow> u8) \<Rightarrow> (u32 \<Rightarrow> u8)" where
  "poke a [] f = f"
| "poke a (b # bs) f = (poke (a + 1) bs f)(a := b)"

definition sim_regmap :: "u32 set \<Rightarrow> sim regmap" where
  "sim_regmap vol =
     \<lparr>regmap_read = (\<lambda>a. sim_transfer vol (\<lambda>f. (ucast (f a), f))),
      regmap_write = (\<lambda>a v. sim_transfer vol (\<lambda>f. ((), f(a := ucast v)))),
      regmap_bulk_read = (\<lambda>a n. sim_transfer vol (\<lambda>f. (map (\<lambda>i. f (a + of_nat i)) [0..<n], f))),
      regmap_bulk_write = (\<lambda>a bs. sim_transfer vol (\<lambda>f. ((), poke a bs f))),
      regmap_update_bits =
        (\<lambda>a m v. sim_transfer vol (\<lambda>f. ((), f(a := masked (f a) (ucast m) (ucast v)))))\<rparr>"

lemma hw_apply_other: "a \<notin> vol \<Longrightarrow> hw_apply vol xs f a = f a"
  by (induction vol xs f rule: hw_apply.induct) auto

lemma sim_tick_other: "a \<notin> vol \<Longrightarrow> sim_reg (sim_tick vol s) a = sim_reg s a"
  by (simp add: sim_tick_def hw_apply_other split: list.split)

lemma run_sim_transfer:
  "run_state (sim_transfer vol f) s =
     (let s' = sim_tick vol s; e = (case sim_err s of [] \<Rightarrow> 0 | x # _ \<Rightarrow> x)
      in if e < 0 then (Inl e, s')
         else (case f (sim_reg s') of (v, g) \<Rightarrow> (Inr v, s'\<lparr>sim_reg := g\<rparr>)))"
  by (simp add: sim_transfer_def)

lemma poke_outside: "b \<notin> span a (length bs) \<Longrightarrow> poke a bs f b = f b"
proof (induction a bs f rule: poke.induct)
  case (2 a x bs f)
  have "span a (length (x # bs)) = insert a (span (a + 1) (length bs))"
    unfolding span_def by (force simp: image_iff less_Suc_eq_0_disj)
  with 2 show ?case by auto
qed simp

lemma poke_inside: "length bs \<le> 256 \<Longrightarrow> i < length bs \<Longrightarrow> poke a bs f (a + of_nat i) = bs ! i"
proof (induction a bs f arbitrary: i rule: poke.induct)
  case (2 a x bs f)
  show ?case
  proof (cases i)
    case 0
    then show ?thesis by simp
  next
    case (Suc j)
    have "(of_nat (Suc j) :: u32) \<noteq> 0"
    proof -
      have "unat (of_nat (Suc j) :: u32) = Suc j"
        using 2 Suc by (simp add: unat_of_nat del: of_nat_Suc)
      then show ?thesis by (metis nat.distinct(1) unat_0)
    qed
    then have "a + of_nat i \<noteq> a" using Suc by simp
    moreover have "a + of_nat i = (a + 1) + of_nat j" using Suc by (simp add: algebra_simps)
    ultimately show ?thesis using 2 Suc by (simp add: algebra_simps)
  qed
qed simp

interpretation sim: regmap_bus "sim_regmap vol" sim_reg vol
  by unfold_locales
    (auto simp: sim_regmap_def run_sim_transfer Let_def unchanged_def sim_tick_other
       poke_outside poke_inside split: if_splits sum.split)

end
