(* ===== verification/Pmic_Sec_Write.thy ===== *)
theory Pmic_Sec_Write
  imports Regmap
begin

text \<open>
  \<open>drivers/soc/qcom/pmic-sec-write.c\<close>: writes to PMIC registers that must be unlocked
  first. Both functions take the register map as their argument. \<open>sec_access_lock\<close> is held
  from the unlock to the write, so the two transfers of \<open>qcom_pmic_sec_write\<close> are one step
  with respect to other secure writes; the model is that step. The read of the masked variant
  happens before the lock is taken, as in the code.
\<close>

section \<open>The two functions\<close>

definition SEC_ACCESS_ADDR :: u32 where "SEC_ACCESS_ADDR = 0x00d0"
definition SEC_ACCESS_VALUE :: u32 where "SEC_ACCESS_VALUE = 0x00a5"
definition PERPH_BASE_MASK :: u16 where "PERPH_BASE_MASK = 0xff00"

text \<open>The unlock register of the peripheral that \<open>addr\<close> belongs to.\<close>

definition sec_reg :: "u16 \<Rightarrow> u32" where
  "sec_reg addr = ucast (addr AND PERPH_BASE_MASK) + SEC_ACCESS_ADDR"

definition qcom_pmic_sec_write :: "'w regmap \<Rightarrow> u16 \<Rightarrow> u8 list \<Rightarrow> ('w, int + unit) state" where
  "qcom_pmic_sec_write rm addr val =
     ok_then (regmap_write rm (sec_reg addr) SEC_ACCESS_VALUE) (\<lambda>_.
     regmap_bulk_write rm (ucast addr) val)"

text \<open>
  \<open>reg\<close> is a C \<open>int\<close> whose first byte in memory (the low byte: the CPU is little-endian)
  is what \<open>(u8 *)&reg\<close> passes on.
\<close>

definition qcom_pmic_sec_masked_write ::
    "'w regmap \<Rightarrow> u16 \<Rightarrow> u8 \<Rightarrow> u8 \<Rightarrow> ('w, int + unit) state" where
  "qcom_pmic_sec_masked_write rm addr m val =
     ok_then (regmap_read rm (ucast addr)) (\<lambda>reg.
     qcom_pmic_sec_write rm addr [ucast (masked reg (ucast m) (ucast val))])"

lemma ucast_masked:
  "(ucast (masked (ucast r :: u32) (ucast m) (ucast v)) :: u8) = masked r m v"
  for r m v :: u8
  by (rule bit_word_eqI) (auto simp: bit_masked bit_ucast_iff)

section \<open>What a masked writer promises\<close>

text \<open>
  The contract the charger driver uses: a failing write returns a negative errno and touches
  nothing but the target and its unlock register; a successful one has replaced exactly the
  bits of the mask.
\<close>

locale masked_writer =
  fixes mw :: "u16 \<Rightarrow> u8 \<Rightarrow> u8 \<Rightarrow> ('w, int + unit) state"
    and reg :: "'w \<Rightarrow> u32 \<Rightarrow> u8"
    and vol :: "u32 set"
  assumes mw_law: "run_state (mw a m v) w = (r, w') \<Longrightarrow>
      unchanged reg vol {sec_reg a, ucast a} w w' \<and>
      (case r of Inl e \<Rightarrow> e < 0 | Inr _ \<Rightarrow>
         ucast a \<notin> vol \<longrightarrow> reg w' (ucast a) = masked (reg w (ucast a)) m v)"
begin

lemma wp_mw [wp_rules]:
  assumes "\<And>e w'. e < 0 \<Longrightarrow> unchanged reg vol {sec_reg a, ucast a} w w' \<Longrightarrow> Q (Inl e) w'"
    and "\<And>w'. unchanged reg vol {sec_reg a, ucast a} w w' \<Longrightarrow>
      (ucast a \<notin> vol \<Longrightarrow> reg w' (ucast a) = masked (reg w (ucast a)) m v) \<Longrightarrow> Q (Inr ()) w'"
  shows "wp (mw a m v) Q w"
proof (rule wpI)
  fix r w' assume "run_state (mw a m v) w = (r, w')"
  from mw_law [OF this] show "Q r w'" by (cases r) (auto intro: assms)
qed

text \<open>Writing the same field twice leaves the register as the first write did.\<close>

lemma mw_twice:
  assumes "ucast a \<notin> vol"
    and "run_state (mw a m v) w = (Inr (), w1)" and "run_state (mw a m v) w1 = (Inr (), w2)"
  shows "reg w2 (ucast a) = reg w1 (ucast a)"
  using mw_law [OF assms(2)] mw_law [OF assms(3)] assms(1) by simp

lemma mw_field:
  assumes "ucast a \<notin> vol" and "run_state (mw a m v) w = (Inr (), w')"
  shows "reg w' (ucast a) AND m = v AND m" and "k AND m = 0 \<Longrightarrow> reg w' (ucast a) AND k = reg w (ucast a) AND k"
  using mw_law [OF assms(2)] assms(1) masked_and_other [of m k] by (simp_all add: and.commute [of k m])

end

section \<open>The functions over a lawful bus\<close>

context regmap_bus
begin

lemma wp_sec_write1 [wp_rules]:
  assumes "\<And>e w'. e < 0 \<Longrightarrow> unchanged reg vol {sec_reg a, ucast a} w w' \<Longrightarrow> Q (Inl e) w'"
    and "\<And>w'. unchanged reg vol {sec_reg a, ucast a} w w' \<Longrightarrow>
      (ucast a \<notin> vol \<Longrightarrow> reg w' (ucast a) = x) \<Longrightarrow> Q (Inr ()) w'"
  shows "wp (qcom_pmic_sec_write rm a [x]) Q w"
  unfolding qcom_pmic_sec_write_def wp_ok_then
  by (intro wp_write wp_bulk_write1; simp; intro wp_bulk_write1 assms)
    (auto simp: unchanged_def)

lemma sec_masked_write_law:
  assumes "run_state (qcom_pmic_sec_masked_write rm a m v) w = (r, w')"
  shows "unchanged reg vol {sec_reg a, ucast a} w w' \<and>
      (case r of Inl e \<Rightarrow> e < 0 | Inr _ \<Rightarrow>
         ucast a \<notin> vol \<longrightarrow> reg w' (ucast a) = masked (reg w (ucast a)) m v)"
  (is "?Q r w'")
proof (rule wp_run [OF assms, of ?Q])
  show "wp (qcom_pmic_sec_masked_write rm a m v) ?Q w"
    unfolding qcom_pmic_sec_masked_write_def wp_ok_then
    by (rule wp_read) (auto intro!: wp_sec_write1 simp: unchanged_def ucast_masked)
qed

end

sublocale regmap_bus \<subseteq> sec: masked_writer "qcom_pmic_sec_masked_write rm" reg vol
  by unfold_locales (rule sec_masked_write_law)

section \<open>Which transfers are made\<close>

text \<open>
  \<open>secured p l\<close>: after the transfer \<open>p\<close>, every bulk write of the trace \<open>l\<close> comes
  immediately after the unlock of its own peripheral.
\<close>

definition unlock_of :: "u32 \<Rightarrow> bus_op" where
  "unlock_of a = Write ((a AND 0xff00) + SEC_ACCESS_ADDR) SEC_ACCESS_VALUE"

fun secured :: "bus_op option \<Rightarrow> bus_op list \<Rightarrow> bool" where
  "secured p [] = True"
| "secured p (x # l) =
     ((case x of BulkWrite a _ \<Rightarrow> p = Some (unlock_of a) | _ \<Rightarrow> True) \<and> secured (Some x) l)"

lemma secured_append:
  "secured p (k @ l) \<longleftrightarrow> secured p k \<and> secured (if k = [] then p else Some (last k)) l"
  by (induction p k rule: secured.induct) auto

lemma ucast_and: "(ucast (a AND b) :: u32) = ucast a AND ucast b" for a b :: u16
  by (rule bit_word_eqI) (auto simp: bit_and_iff bit_ucast_iff)

lemma unlock_of_ucast: "unlock_of (ucast a) = Write (sec_reg a) SEC_ACCESS_VALUE" for a :: u16
proof -
  have "(ucast a :: u32) AND 0xff00 = ucast (a AND PERPH_BASE_MASK)"
    using ucast_and [of a "0xff00"] by (simp add: PERPH_BASE_MASK_def)
  then show ?thesis by (simp add: unlock_of_def sec_reg_def)
qed

abbreviation secure_trace :: "bus_op list \<times> 'w \<Rightarrow> bool" where
  "secure_trace lw \<equiv> secured None (fst lw)"

lemma keeps_secure_log [keeps_rules]:
  "keeps secure_trace (log_op (Read a) m)"
  "keeps secure_trace (log_op (Write a v) n)"
  "keeps secure_trace (log_op (BulkRead a k) p)"
  "keeps secure_trace (log_op (UpdateBits a x y) n)"
  by (rule keeps_log_op, simp add: secured_append)+

lemma keeps_secure_sec_write [keeps_rules]:
  "keeps secure_trace (qcom_pmic_sec_write (traced rm) a bs)"
proof (rule keepsI)
  fix lw :: "bus_op list \<times> 'a" assume "secure_trace lw"
  then show "wp (qcom_pmic_sec_write (traced rm) a bs) (\<lambda>_. secure_trace) lw"
    by (cases lw)
      (auto simp: qcom_pmic_sec_write_def wp_def run_ok_then secured_append unlock_of_ucast split: prod.splits sum.splits)
qed

lemma keeps_secure_sec_masked_write [keeps_rules]:
  "keeps secure_trace (qcom_pmic_sec_masked_write (traced rm) a m v)"
  unfolding qcom_pmic_sec_masked_write_def by (auto intro!: keeps_rules)

end
