(* ===== verification/Power_Supply.thy ===== *)
theory Power_Supply
  imports Kernel_Prelude
begin

text \<open>
  The parts of the power-supply class (\<open>linux/power_supply.h\<close>) that the fuel gauge and the
  charger name: the properties a supply can be asked for, the values it answers with, and the
  battery data of the device tree. Kernel enumerators are constructors; a property no driver of
  the repository knows is \<open>PROP_OTHER n\<close>.
\<close>

datatype power_supply_property =
    PROP_STATUS | PROP_CHARGE_TYPE | PROP_HEALTH | PROP_PRESENT | PROP_ONLINE
  | PROP_TECHNOLOGY | PROP_CAPACITY | PROP_CURRENT_NOW | PROP_VOLTAGE_NOW
  | PROP_VOLTAGE_MIN_DESIGN | PROP_VOLTAGE_MAX_DESIGN | PROP_CHARGE_FULL_DESIGN
  | PROP_TEMP | PROP_TEMP_MIN | PROP_TEMP_MAX | PROP_TEMP_ALERT_MIN | PROP_TEMP_ALERT_MAX
  | PROP_CONSTANT_CHARGE_CURRENT | PROP_CONSTANT_CHARGE_CURRENT_MAX
  | PROP_INPUT_CURRENT_LIMIT | PROP_USB_TYPE | PROP_CHARGE_TERM_CURRENT
  | PROP_OTHER nat

datatype psy_status =
  STATUS_UNKNOWN | STATUS_CHARGING | STATUS_DISCHARGING | STATUS_NOT_CHARGING | STATUS_FULL

datatype psy_charge_type =
  CHARGE_TYPE_UNKNOWN | CHARGE_TYPE_NONE | CHARGE_TYPE_TRICKLE | CHARGE_TYPE_FAST

datatype psy_health =
    HEALTH_UNKNOWN | HEALTH_GOOD | HEALTH_OVERHEAT | HEALTH_COLD | HEALTH_WARM | HEALTH_COOL
  | HEALTH_NO_BATTERY

datatype psy_usb_type = USB_TYPE_UNKNOWN | USB_TYPE_SDP | USB_TYPE_DCP | USB_TYPE_CDP

datatype propval =
    Intval int
  | Statusval psy_status
  | Chargeval psy_charge_type
  | Healthval psy_health
  | Usbval psy_usb_type
  | Tech_Lion

record battery_info =
  voltage_min_design_uv :: int
  voltage_max_design_uv :: int
  charge_full_design_uah :: int
  charge_term_current_ua :: int
  constant_charge_current_max_ua :: int

end
