(* ===== verification/Fuel_Gauge_Io.thy ===== *)
theory Fuel_Gauge_Io
  imports Pmic_Sec_Write Power_Supply
begin

text \<open>
  \<open>drivers/power/supply/qcom_fg.c\<close>, first part: register access of the fuel gauge and its
  SRAM (memory interface) protocol as one caller sees it. The chip is its base address and the
  register layout of the memory interface (and whether its work queue exists); the register map and the kernel services are
  parameters. Functions that only transfer are in the state monad over the outside world;
  functions that wait are partial (\<open>option\<close>), because the wait is retried for as long as it
  is interrupted.
\<close>

section \<open>Registers and state\<close>

record fg_sram_regs =
  sr_cfg :: u32
  sr_ctl :: u32
  sr_addr :: u32
  sr_wr0 :: u32
  sr_rd0 :: u32

record fg_chip =
  fg_base :: u32
  fg_sram_regs :: "fg_sram_regs option"
  fg_sram_wq :: bool

definition sram_regs_rev1 :: fg_sram_regs where
  "sram_regs_rev1 =
     \<lparr>sr_cfg = 0x440, sr_ctl = 0x441, sr_addr = 0x442, sr_wr0 = 0x448, sr_rd0 = 0x44c\<rparr>"

definition sram_regs_rev3 :: fg_sram_regs where
  "sram_regs_rev3 =
     \<lparr>sr_cfg = 0x450, sr_ctl = 0x451, sr_addr = 0x461, sr_wr0 = 0x463, sr_rd0 = 0x467\<rparr>"

definition BATT_MONOTONIC_SOC :: u16 where "BATT_MONOTONIC_SOC = 0x009"
definition MEM_INTF_STS :: u16 where "MEM_INTF_STS = 0x410"
definition MEM_INTF_AVAIL :: u8 where "MEM_INTF_AVAIL = 0x01"
definition MEM_INTF_CTL_BURST :: u8 where "MEM_INTF_CTL_BURST = 0x80"
definition MEM_INTF_CTL_WR_EN :: u8 where "MEM_INTF_CTL_WR_EN = 0x40"
definition RIF_MEM_ACCESS_REQ :: u8 where "RIF_MEM_ACCESS_REQ = 0x80"
definition MEM_IF_TIMEOUT_MS :: nat where "MEM_IF_TIMEOUT_MS = 5000"
definition SRAM_ACCESS_RELEASE_DELAY_MS :: nat where "SRAM_ACCESS_RELEASE_DELAY_MS = 500"

section \<open>Register access\<close>

definition fg_address :: "fg_chip \<Rightarrow> u16 \<Rightarrow> u32" where
  "fg_address chip addr = fg_base chip + ucast addr"

definition qcom_fg_read :: "'w regmap \<Rightarrow> fg_chip \<Rightarrow> u16 \<Rightarrow> nat \<Rightarrow> ('w, int + u8 list) state" where
  "qcom_fg_read rm chip addr len =
     (if fg_address chip addr AND 0xff00 = 0 then ret (Inl (- EINVAL))
      else regmap_bulk_read rm (fg_address chip addr) len)"

definition qcom_fg_write :: "'w regmap \<Rightarrow> fg_chip \<Rightarrow> u8 list \<Rightarrow> u16 \<Rightarrow> ('w, int + unit) state" where
  "qcom_fg_write rm chip val addr =
     (if fg_address chip addr AND 0xff00 = 0 then ret (Inl (- EINVAL))
      else ok_then
        (if (addr AND 0xff) > 0xd0
         then regmap_bulk_write rm ((fg_address chip addr AND 0xff00) OR 0xd0) [0xa5]
         else ret (Inr ())) (\<lambda>_.
        regmap_bulk_write rm (fg_address chip addr) val))"

definition qcom_fg_masked_write ::
    "'w regmap \<Rightarrow> fg_chip \<Rightarrow> u16 \<Rightarrow> u8 \<Rightarrow> u8 \<Rightarrow> ('w, int + unit) state" where
  "qcom_fg_masked_write rm chip addr m val =
     ok_then (qcom_fg_read rm chip addr 1) (\<lambda>reg.
     qcom_fg_write rm chip [masked (hd reg) m val] addr)"

section \<open>The memory interface\<close>

definition qcom_fg_sram_check_access ::
    "'w regmap \<Rightarrow> fg_chip \<Rightarrow> fg_sram_regs \<Rightarrow> ('w, bool) state" where
  "qcom_fg_sram_check_access rm chip regs = do {
     r \<leftarrow> qcom_fg_read rm chip MEM_INTF_STS 1;
     case r of
       Inl _ \<Rightarrow> ret False
     | Inr sts \<Rightarrow>
         if \<not> has (hd sts) MEM_INTF_AVAIL then ret False
         else do {
           r \<leftarrow> qcom_fg_read rm chip (ucast (sr_cfg regs)) 1;
           case r of
             Inl _ \<Rightarrow> ret False
           | Inr cfg \<Rightarrow> ret (has (hd cfg) RIF_MEM_ACCESS_REQ)
         }
   }"

definition qcom_fg_sram_config_access ::
    "'w regmap \<Rightarrow> fg_chip \<Rightarrow> fg_sram_regs \<Rightarrow> bool \<Rightarrow> bool \<Rightarrow> ('w, int + unit) state" where
  "qcom_fg_sram_config_access rm chip regs wr burst =
     qcom_fg_write rm chip
       [(if wr then MEM_INTF_CTL_WR_EN else 0) OR (if burst then MEM_INTF_CTL_BURST else 0)]
       (ucast (sr_ctl regs))"

text \<open>The bytes of a \<open>u16\<close> in memory (little-endian).\<close>

definition le16 :: "u16 \<Rightarrow> u8 list" where
  "le16 a = [ucast a, ucast (drop_bit 8 a)]"

text \<open>\<open>store_at buf pos bs\<close>: the buffer after \<open>bs\<close> was stored from position \<open>pos\<close>.\<close>

definition store_at :: "'a list \<Rightarrow> nat \<Rightarrow> 'a list \<Rightarrow> 'a list" where
  "store_at buf pos bs = take pos buf @ bs @ drop (pos + length bs) buf"

text \<open>
  The loop of \<open>qcom_fg_sram_read\<close>. Every round sets the SRAM address and then reads all
  \<open>len\<close> bytes that are still missing, not only the \<open>4 - offset\<close> of the current word;
  the surplus is overwritten by the following rounds.
\<close>

function sram_read_loop ::
    "'w regmap \<Rightarrow> fg_chip \<Rightarrow> fg_sram_regs \<Rightarrow> u16 \<Rightarrow> int \<Rightarrow> int \<Rightarrow> u8 list \<Rightarrow> int
     \<Rightarrow> ('w, int + u8 list) state" where
  "sram_read_loop rm chip regs addr len offset buf pos =
     (if len > 0 then
        ok_then (qcom_fg_write rm chip (le16 addr) (ucast (sr_addr regs))) (\<lambda>_.
        ok_then (qcom_fg_read rm chip (ucast (sr_rd0 regs + word_of_int offset)) (nat len)) (\<lambda>bs.
        sram_read_loop rm chip regs (addr + 4) (len - (4 - offset)) 0
          (store_at buf (nat pos) bs) (pos + (4 - offset))))
      else ret (Inr buf))"
  by pat_completeness auto
termination
  by (relation "measures [\<lambda>(rm, chip, regs, addr, len, offset, buf, pos). if offset = 0 then 0 else 1,
       \<lambda>(rm, chip, regs, addr, len, offset, buf, pos). nat len]") auto

declare sram_read_loop.simps [simp del]

function sram_write_loop ::
    "'w regmap \<Rightarrow> fg_chip \<Rightarrow> fg_sram_regs \<Rightarrow> u8 list \<Rightarrow> u16 \<Rightarrow> int \<Rightarrow> int \<Rightarrow> ('w, int + unit) state" where
  "sram_write_loop rm chip regs wr_data addr len offset =
     (if len > 0 then
        ok_then (qcom_fg_write rm chip (le16 addr) (ucast (sr_addr regs))) (\<lambda>_.
        ok_then (qcom_fg_write rm chip (take (nat len) wr_data)
                   (ucast (sr_wr0 regs + word_of_int offset))) (\<lambda>_.
        sram_write_loop rm chip regs (drop (nat (4 - offset)) wr_data) (addr + 4)
          (len - (4 - offset)) 0))
      else ret (Inr ()))"
  by pat_completeness auto
termination
  by (relation "measures [\<lambda>(rm, chip, regs, wr, addr, len, offset). if offset = 0 then 0 else 1,
       \<lambda>(rm, chip, regs, wr, addr, len, offset). nat len]") auto

declare sram_write_loop.simps [simp del]

section \<open>Waiting for access\<close>

datatype completion = Sram_Access_Granted | Sram_Access_Revoked

text \<open>
  The mutable part of the driver is the request counter. Everything else a call can change is
  the outside world: the bus, the completions and the work queue.
\<close>

record 'w fg_state =
  fg_world :: 'w
  sram_requests :: int

text \<open>
  Kernel services, not part of the repository: the wait for a completion (\<open>k_wait\<close>, with the
  timeout in milliseconds; it returns what \<open>wait_for_completion_interruptible_timeout\<close>
  returns, and other threads may run meanwhile), \<open>reinit_completion\<close>, \<open>init_completion\<close>,
  \<open>complete_all\<close>, \<open>queue_delayed_work\<close> of the release worker,
  \<open>destroy_workqueue\<close>, \<open>power_supply_changed\<close> on the battery,
  \<open>power_supply_get_property\<close> on the charger supply, and the rounding divisions.
\<close>

record 'w fg_kernel =
  k_regmap :: "'w regmap"
  k_wait :: "completion \<Rightarrow> nat \<Rightarrow> 'w fg_state \<Rightarrow> int \<times> 'w fg_state"
  k_reinit :: "completion \<Rightarrow> 'w \<Rightarrow> 'w"
  k_init :: "completion \<Rightarrow> 'w \<Rightarrow> 'w"
  k_complete_all :: "completion \<Rightarrow> 'w \<Rightarrow> 'w"
  k_queue_release :: "nat \<Rightarrow> 'w \<Rightarrow> 'w"
  k_destroy_wq :: "'w \<Rightarrow> 'w"
  k_psy_changed :: "'w \<Rightarrow> 'w"
  k_charger_property :: "power_supply_property \<Rightarrow> ('w, int + propval) state"
  k_div_round_closest :: "int \<Rightarrow> int \<Rightarrow> int"
  k_div_s64 :: "int \<Rightarrow> int \<Rightarrow> int"
  k_div_u64 :: "int \<Rightarrow> int \<Rightarrow> int"

text \<open>\<open>do ret = wait(...); while (ret == -ERESTARTSYS);\<close>\<close>

partial_function (option) wait_retry :: "('s \<Rightarrow> int \<times> 's) \<Rightarrow> 's \<Rightarrow> (int \<times> 's) option" where
  "wait_retry wait s =
     (case wait s of (r, s') \<Rightarrow> if r = - ERESTARTSYS then wait_retry wait s' else Some (r, s'))"

declare wait_retry.simps [code]

text \<open>Running a transfer from code that may also wait.\<close>

definition fg_io :: "('w, 'a) state \<Rightarrow> 'w fg_state \<Rightarrow> 'a \<times> 'w fg_state" where
  "fg_io m s = (case run_state m (fg_world s) of (r, w') \<Rightarrow> (r, s\<lparr>fg_world := w'\<rparr>))"

text \<open>
  \<open>qcom_fg_sram_request_access\<close> in its three parts: the section under
  \<open>sram_request_lock\<close>, the wait, and what follows the wait. Other threads can run between the
  parts; the protocol theory interleaves them.
\<close>

definition request_start ::
    "'w fg_kernel \<Rightarrow> fg_chip \<Rightarrow> fg_sram_regs \<Rightarrow> 'w fg_state \<Rightarrow> (int + unit) \<times> 'w fg_state" where
  "request_start k chip regs s =
     (let (sram_accessible, s) = fg_io (qcom_fg_sram_check_access (k_regmap k) chip regs) s;
          (r, s) = (if \<not> sram_accessible \<and> sram_requests s = 0
            then fg_io (qcom_fg_masked_write (k_regmap k) chip (ucast (sr_cfg regs))
                   RIF_MEM_ACCESS_REQ RIF_MEM_ACCESS_REQ) s
            else (Inr (), s))
      in case r of
        Inl e \<Rightarrow> (Inl e, s)
      | Inr _ \<Rightarrow> (Inr (), s\<lparr>sram_requests := sram_requests s + 1\<rparr>))"

definition request_finish :: "'w fg_kernel \<Rightarrow> int \<Rightarrow> 'w fg_state \<Rightarrow> (int + unit) \<times> 'w fg_state" where
  "request_finish k w s =
     (if w \<le> 0
      then (Inl (- ETIMEDOUT), s\<lparr>sram_requests := sram_requests s - 1\<rparr>)
      else (Inr (), s\<lparr>fg_world := k_reinit k Sram_Access_Revoked (fg_world s)\<rparr>))"

definition qcom_fg_sram_request_access ::
    "'w fg_kernel \<Rightarrow> fg_chip \<Rightarrow> fg_sram_regs \<Rightarrow> 'w fg_state \<Rightarrow> ((int + unit) \<times> 'w fg_state) option" where
  "qcom_fg_sram_request_access k chip regs s =
     (case request_start k chip regs s of
        (Inl e, s) \<Rightarrow> Some (Inl e, s)
      | (Inr _, s) \<Rightarrow> do {
          (w, s) \<leftarrow> wait_retry (k_wait k Sram_Access_Granted MEM_IF_TIMEOUT_MS) s;
          Some (request_finish k w s)
        })"

definition qcom_fg_sram_release_access :: "'w fg_kernel \<Rightarrow> 'w fg_state \<Rightarrow> 'w fg_state" where
  "qcom_fg_sram_release_access k s =
     (let n = sram_requests s - 1; n = (if n < 0 then 0 else n); s = s\<lparr>sram_requests := n\<rparr>
      in if n = 0
         then s\<lparr>fg_world := k_queue_release k SRAM_ACCESS_RELEASE_DELAY_MS (fg_world s)\<rparr>
         else s)"

definition release_start ::
    "'w fg_kernel \<Rightarrow> fg_chip \<Rightarrow> fg_sram_regs \<Rightarrow> 'w fg_state \<Rightarrow> bool \<times> 'w fg_state" where
  "release_start k chip regs s =
     (if sram_requests s = 0
      then (case fg_io (qcom_fg_masked_write (k_regmap k) chip (ucast (sr_cfg regs)) RIF_MEM_ACCESS_REQ 0) s of
              (_, s) \<Rightarrow> (True, s))
      else (False, s))"

definition release_finish :: "'w fg_kernel \<Rightarrow> 'w fg_state \<Rightarrow> 'w fg_state" where
  "release_finish k s = s\<lparr>fg_world := k_reinit k Sram_Access_Granted (fg_world s)\<rparr>"

definition qcom_fg_sram_release_access_worker ::
    "'w fg_kernel \<Rightarrow> fg_chip \<Rightarrow> fg_sram_regs \<Rightarrow> 'w fg_state \<Rightarrow> 'w fg_state option" where
  "qcom_fg_sram_release_access_worker k chip regs s =
     (case release_start k chip regs s of
        (False, s) \<Rightarrow> Some s
      | (True, s) \<Rightarrow> do {
          (_, s) \<leftarrow> wait_retry (k_wait k Sram_Access_Revoked MEM_IF_TIMEOUT_MS) s;
          Some (release_finish k s)
        })"

definition qcom_fg_sram_read ::
    "'w fg_kernel \<Rightarrow> fg_chip \<Rightarrow> fg_sram_regs \<Rightarrow> u16 \<Rightarrow> int \<Rightarrow> int
     \<Rightarrow> 'w fg_state \<Rightarrow> ((int + u8 list) \<times> 'w fg_state) option" where
  "qcom_fg_sram_read k chip regs addr len offset s = do {
     (r, s) \<leftarrow> qcom_fg_sram_request_access k chip regs s;
     case r of
       Inl e \<Rightarrow> Some (Inl e, s)
     | Inr _ \<Rightarrow>
         (case fg_io (ok_then (qcom_fg_sram_config_access (k_regmap k) chip regs False (len > 4)) (\<lambda>_.
                  sram_read_loop (k_regmap k) chip regs addr len offset (replicate (nat len) 0) 0)) s of
            (v, s) \<Rightarrow> Some (v, qcom_fg_sram_release_access k s))
   }"

definition qcom_fg_sram_write ::
    "'w fg_kernel \<Rightarrow> fg_chip \<Rightarrow> fg_sram_regs \<Rightarrow> u8 list \<Rightarrow> u16 \<Rightarrow> int \<Rightarrow> int
     \<Rightarrow> 'w fg_state \<Rightarrow> ((int + unit) \<times> 'w fg_state) option" where
  "qcom_fg_sram_write k chip regs val addr len offset s = do {
     (r, s) \<leftarrow> qcom_fg_sram_request_access k chip regs s;
     case r of
       Inl e \<Rightarrow> Some (Inl e, s)
     | Inr _ \<Rightarrow>
         (case fg_io (ok_then (qcom_fg_sram_config_access (k_regmap k) chip regs True (len > 4)) (\<lambda>_.
                  sram_write_loop (k_regmap k) chip regs val addr len offset)) s of
            (v, s) \<Rightarrow> Some (v, qcom_fg_sram_release_access k s))
   }"


section \<open>Which transfers the gauge makes\<close>

text \<open>
  \<open>fg_secured p l\<close>: no transfer of \<open>l\<close> addresses page 0, and every bulk write to a
  locked register (offset above \<open>0xd0\<close>) comes immediately after the unlock of its page.
\<close>

primrec op_addr :: "bus_op \<Rightarrow> u32" where
  "op_addr (Read a) = a"
| "op_addr (Write a v) = a"
| "op_addr (BulkRead a n) = a"
| "op_addr (BulkWrite a bs) = a"
| "op_addr (UpdateBits a m v) = a"

definition fg_unlock_of :: "u32 \<Rightarrow> bus_op" where
  "fg_unlock_of a = BulkWrite ((a AND 0xff00) OR 0xd0) [0xa5]"

fun fg_secured :: "bus_op option \<Rightarrow> bus_op list \<Rightarrow> bool" where
  "fg_secured p [] = True"
| "fg_secured p (x # l) =
     (op_addr x AND 0xff00 \<noteq> 0 \<and>
      (case x of BulkWrite a _ \<Rightarrow> a AND 0xff > 0xd0 \<longrightarrow> p = Some (fg_unlock_of a) | _ \<Rightarrow> True) \<and>
      fg_secured (Some x) l)"

lemma fg_secured_append:
  "fg_secured p (k @ l) \<longleftrightarrow> fg_secured p k \<and> fg_secured (if k = [] then p else Some (last k)) l"
  by (induction p k rule: fg_secured.induct) auto

abbreviation fg_trace_ok :: "bus_op list \<times> 'w \<Rightarrow> bool" where
  "fg_trace_ok lw \<equiv> fg_secured None (fst lw)"

text \<open>A gauge whose base is the start of a page: its registers keep their offset in the page.\<close>

lemma ucast_low_byte: "ucast (a :: u16) AND (0xff :: u32) = ucast (a AND 0xff)"
  using ucast_and [of a "0xff"] by simp

lemma ucast_less_iff: "(ucast a :: u32) < ucast b \<longleftrightarrow> a < b" for a b :: u16
  by transfer simp

lemma fg_low_byte:
  assumes "fg_base chip AND 0xff = 0"
  shows "fg_address chip a AND 0xff = ucast (a AND 0xff)"
  using low_byte_add [OF assms, of "ucast a"] by (simp add: fg_address_def ucast_low_byte)

lemma fg_locked_iff:
  assumes "fg_base chip AND 0xff = 0"
  shows "fg_address chip a AND 0xff > 0xd0 \<longleftrightarrow> a AND 0xff > 0xd0"
  unfolding fg_low_byte [OF assms] using ucast_less_iff [of "0xd0" "a AND 0xff"] by simp

lemma unlock_page: "((a AND 0xff00) OR 0xd0) AND 0xff00 = a AND 0xff00"
  "((a AND 0xff00) OR 0xd0) AND 0xff = 0xd0" for a :: u32
  by (simp_all add: bit.conj_disj_distrib2 and.assoc)

lemma keeps_fg_read [keeps_rules]: "keeps fg_trace_ok (qcom_fg_read (traced rm) chip a n)"
  unfolding qcom_fg_read_def
  by (rule keepsI) (auto simp: wp_def fg_secured_append split: prod.splits)

lemma keeps_fg_write:
  assumes "fg_base chip AND 0xff = 0"
  shows "keeps fg_trace_ok (qcom_fg_write (traced rm) chip bs a)"
proof (rule keepsI)
  fix lw :: "bus_op list \<times> 'a" assume "fg_trace_ok lw"
  then show "wp (qcom_fg_write (traced rm) chip bs a) (\<lambda>_. fg_trace_ok) lw"
    by (cases lw)
      (auto simp: qcom_fg_write_def wp_def run_ok_then fg_secured_append fg_unlock_of_def unlock_page
         fg_locked_iff [OF assms] split: prod.splits sum.splits)
qed

lemma keeps_fg_masked_write:
  "fg_base chip AND 0xff = 0 \<Longrightarrow> keeps fg_trace_ok (qcom_fg_masked_write (traced rm) chip a m v)"
  unfolding qcom_fg_masked_write_def by (auto intro!: keeps_rules keeps_fg_write)

lemma keeps_fg_check_access [keeps_rules]:
  "keeps fg_trace_ok (qcom_fg_sram_check_access (traced rm) chip regs)"
  unfolding qcom_fg_sram_check_access_def by (intro keeps_rules)

lemma keeps_fg_config_access:
  "fg_base chip AND 0xff = 0 \<Longrightarrow> keeps fg_trace_ok (qcom_fg_sram_config_access (traced rm) chip regs wr b)"
  unfolding qcom_fg_sram_config_access_def by (rule keeps_fg_write)

lemma keeps_sram_read_loop:
  assumes "fg_base chip AND 0xff = 0"
  shows "keeps fg_trace_ok (sram_read_loop (traced rm) chip regs addr len offset buf pos)"
  using assms
proof (induction "traced rm" chip regs addr len offset buf pos rule: sram_read_loop.induct)
  case (1 chip regs addr len offset buf pos)
  then show ?case
    by (subst sram_read_loop.simps) (auto intro!: keeps_rules keeps_fg_write)
qed

end
