(* ===== verification/Fuel_Gauge_Sram.thy ===== *)
theory Fuel_Gauge_Sram
  imports Fuel_Gauge_Io
begin

text \<open>
  What the SRAM functions of \<open>qcom_fg.c\<close> deliver. The memory interface is hardware: the
  locale \<open>sram_window\<close> states what its registers do (writing the address register selects a
  word, the read registers show that word, the write registers store into it) and that nothing
  else run meanwhile changes the SRAM. Under it, \<open>qcom_fg_sram_read\<close> returns the requested
  bytes and \<open>qcom_fg_sram_write\<close> stores bytes that fit into the word.
\<close>

fun sram_store :: "u16 \<Rightarrow> u8 list \<Rightarrow> (u16 \<Rightarrow> u8) \<Rightarrow> (u16 \<Rightarrow> u8)" where
  "sram_store a [] f = f"
| "sram_store a (b # bs) f = (sram_store (a + 1) bs f)(a := b)"

definition sram_regs_known :: "fg_sram_regs \<Rightarrow> bool" where
  "sram_regs_known regs \<longleftrightarrow> regs = sram_regs_rev1 \<or> regs = sram_regs_rev3"

abbreviation rd_reg :: "fg_chip \<Rightarrow> fg_sram_regs \<Rightarrow> nat \<Rightarrow> u32" where
  "rd_reg chip regs i \<equiv> fg_address chip (ucast (sr_rd0 regs + word_of_int (int i)))"

abbreviation wr_reg :: "fg_chip \<Rightarrow> fg_sram_regs \<Rightarrow> nat \<Rightarrow> u32" where
  "wr_reg chip regs i \<equiv> fg_address chip (ucast (sr_wr0 regs + word_of_int (int i)))"

locale sram_window =
  fixes k :: "'w fg_kernel" and chip :: fg_chip and regs :: fg_sram_regs
    and sram :: "'w \<Rightarrow> u16 \<Rightarrow> u8" and win :: "'w \<Rightarrow> u16"
  assumes known: "sram_regs_known regs"
    and addr_law: "run_state (regmap_bulk_write (k_regmap k) (fg_address chip (ucast (sr_addr regs))) (le16 a)) w
        = (Inr (), w') \<Longrightarrow> win w' = a \<and> sram w' = sram w"
    and rd_law: "i < 4 \<Longrightarrow> run_state (regmap_bulk_read (k_regmap k) (rd_reg chip regs i) n) w = (Inr bs, w') \<Longrightarrow>
        length bs = n \<and> (\<forall>j<n. i + j < 4 \<longrightarrow> bs ! j = sram w (win w + of_nat (i + j)))"
    and read_keeps: "run_state (regmap_bulk_read (k_regmap k) b n) w = (t, w') \<Longrightarrow> sram w' = sram w"
    and wr_law: "i + length bs \<le> 4 \<Longrightarrow>
        run_state (regmap_bulk_write (k_regmap k) (wr_reg chip regs i) bs) w = (Inr (), w') \<Longrightarrow>
        sram w' = sram_store (win w + of_nat i) bs (sram w)"
    and ctl_keeps: "c = ucast (sr_cfg regs) \<or> c = ucast (sr_ctl regs) \<Longrightarrow>
        run_state (regmap_bulk_write (k_regmap k) (fg_address chip c) bs) w = (s, w') \<Longrightarrow> sram w' = sram w"
    and wait_keeps: "k_wait k cm t' st = (r, st') \<Longrightarrow> sram (fg_world st') = sram (fg_world st)"
    and reinit_keeps: "sram (k_reinit k cm w) = sram w"
    and init_keeps: "sram (k_init k cm w) = sram w"
    and queue_keeps: "sram (k_queue_release k t' w) = sram w"
begin

abbreviation (input) rm :: "'w regmap" where "rm \<equiv> k_regmap k"

lemma open_regs:
  "\<not> (ucast (sr_addr regs) AND 0xff) > (0xd0 :: u16)" "\<not> (ucast (sr_ctl regs) AND 0xff) > (0xd0 :: u16)"
  "\<not> (ucast (sr_cfg regs) AND 0xff) > (0xd0 :: u16)"
  using known by (auto simp: sram_regs_known_def sram_regs_rev1_def sram_regs_rev3_def)

lemma open_wr_regs:
  assumes "i < 4"
  shows "\<not> (ucast (sr_wr0 regs + word_of_int (int i)) AND 0xff) > (0xd0 :: u16)"
proof -
  from assms consider "i = 0" | "i = 1" | "i = 2" | "i = 3" by linarith
  then show ?thesis
    by cases (use known in \<open>auto simp: sram_regs_known_def sram_regs_rev1_def sram_regs_rev3_def\<close>)
qed

lemma fg_write_open:
  "\<not> (a AND 0xff) > 0xd0 \<Longrightarrow> run_state (qcom_fg_write rm chip bs a) w = (Inr (), w') \<Longrightarrow>
     run_state (regmap_bulk_write rm (fg_address chip a) bs) w = (Inr (), w')"
  by (auto simp: qcom_fg_write_def split: if_splits)

lemma fg_read_ok:
  "run_state (qcom_fg_read rm chip a n) w = (Inr bs, w') \<Longrightarrow>
     run_state (regmap_bulk_read rm (fg_address chip a) n) w = (Inr bs, w')"
  by (auto simp: qcom_fg_read_def split: if_splits)

lemma set_address:
  "run_state (qcom_fg_write rm chip (le16 a) (ucast (sr_addr regs))) w = (Inr (), w') \<Longrightarrow>
     win w' = a \<and> sram w' = sram w"
  by (rule addr_law) (rule fg_write_open [OF open_regs(1)])

lemma read_step:
  assumes "0 < n" and "run_state (sram_read_loop rm chip regs addr (int n) (int i) buf (int p)) w = (Inr buf', w')"
  obtains w1 w2 bs where
    "win w1 = addr" "sram w1 = sram w" "run_state (regmap_bulk_read rm (rd_reg chip regs i) n) w1 = (Inr bs, w2)"
    "run_state (sram_read_loop rm chip regs (addr + 4) (int n - (4 - int i)) 0 (store_at buf p bs)
       (int p + (4 - int i))) w2 = (Inr buf', w')"
proof -
  from assms obtain w1 w2 bs where
    "run_state (qcom_fg_write rm chip (le16 addr) (ucast (sr_addr regs))) w = (Inr (), w1)"
    "run_state (qcom_fg_read rm chip (ucast (sr_rd0 regs + word_of_int (int i))) n) w1 = (Inr bs, w2)"
    "run_state (sram_read_loop rm chip regs (addr + 4) (int n - (4 - int i)) 0 (store_at buf p bs)
       (int p + (4 - int i))) w2 = (Inr buf', w')"
    by (subst (asm) sram_read_loop.simps) (auto simp: run_ok_then split: prod.splits sum.splits)
  with set_address fg_read_ok that show ?thesis by blast
qed

lemma sram_read_loop_correct:
  assumes "run_state (sram_read_loop rm chip regs addr (int n) (int i) buf (int p)) w = (Inr buf', w')"
    and "i < 4" and "length buf = p + n"
  shows "sram w' = sram w \<and> length buf' = p + n \<and> take p buf' = take p buf \<and>
    (\<forall>j<n. buf' ! (p + j) = sram w (addr + of_nat (i + j)))"
  using assms
proof (induction n arbitrary: addr i buf p w rule: less_induct)
  case (less n)
  show ?case
  proof (cases "n = 0")
    case True
    with less.prems show ?thesis by (subst (asm) sram_read_loop.simps) auto
  next
    case False
    then have "0 < n" by simp
    then obtain w1 w2 bs where
      w1: "win w1 = addr" "sram w1 = sram w"
      and rd: "run_state (regmap_bulk_read rm (rd_reg chip regs i) n) w1 = (Inr bs, w2)"
      and rest: "run_state (sram_read_loop rm chip regs (addr + 4) (int n - (4 - int i)) 0
         (store_at buf p bs) (int p + (4 - int i))) w2 = (Inr buf', w')"
      by (rule read_step [OF _ less.prems(1)])
    have bs: "length bs = n" "\<And>j. j < n \<Longrightarrow> i + j < 4 \<Longrightarrow> bs ! j = sram w (addr + of_nat (i + j))"
      using rd_law [OF less.prems(2) rd] w1 by auto
    have w2: "sram w2 = sram w" using read_keeps [OF rd] w1 by simp
    have buf1: "store_at buf p bs = take p buf @ bs"
      using less.prems(3) bs(1) by (simp add: store_at_def)
    show ?thesis
    proof (cases "n \<le> 4 - i")
      case True
      then have "\<not> 0 < int n - (4 - int i)" using less.prems(2) by linarith
      with rest have "buf' = take p buf @ bs" "w' = w2"
        by (simp_all add: buf1 sram_read_loop.simps)
      with bs True less.prems(2,3) w2 show ?thesis by (auto simp: nth_append)
    next
      case False
      let ?m = "n - (4 - i)"
      from False less.prems(2) have ints: "int n - (4 - int i) = int ?m" "int p + (4 - int i) = int (p + (4 - i))"
        by auto
      have "sram w' = sram w2 \<and> length buf' = p + (4 - i) + ?m \<and>
        take (p + (4 - i)) buf' = take (p + (4 - i)) (take p buf @ bs) \<and>
        (\<forall>j<?m. buf' ! (p + (4 - i) + j) = sram w2 (addr + 4 + of_nat (0 + j)))"
        using rest False less.prems(2,3) bs(1) unfolding ints buf1
        by (intro less.IH) auto
      then have IH: "sram w' = sram w" "length buf' = p + n"
        "take (p + (4 - i)) buf' = take (p + (4 - i)) (take p buf @ bs)"
        "\<And>j. j < ?m \<Longrightarrow> buf' ! (p + (4 - i) + j) = sram w (addr + 4 + of_nat j)"
        using False w2 by auto
      have "buf' ! (p + j) = sram w (addr + of_nat (i + j))" if "j < n" for j
      proof (cases "j < 4 - i")
        case True
        then have "buf' ! (p + j) = (take p buf @ bs) ! (p + j)"
          using IH(3) by (metis add_less_cancel_left nth_take)
        with True that bs less.prems(3) show ?thesis by (simp add: nth_append)
      next
        case False
        define q where "q = j - (4 - i)"
        from False that less.prems(2) have q: "q < ?m" "p + (4 - i) + q = p + j" "4 + q = i + j"
          by (auto simp: q_def)
        have "addr + 4 + of_nat q = addr + of_nat (4 + q)" by (simp add: algebra_simps)
        with IH(4) [OF q(1)] q(2,3) show ?thesis by (simp only:)
      qed
      moreover have "take p buf' = take p buf"
        using arg_cong [OF IH(3), of "take p"] less.prems(3) by (simp add: min_def)
      ultimately show ?thesis using IH(1,2) by auto
    qed
  qed
qed

end


section \<open>Waiting\<close>

text \<open>An invariant of single waits is an invariant of the retried wait.\<close>

lemma wait_retry_inv:
  assumes "wait_retry wait s = Some (r, s')" and "I s"
    and "\<And>s r s'. wait s = (r, s') \<Longrightarrow> I s \<Longrightarrow> I s'"
  shows "I s'"
proof -
  have "wait = wait \<longrightarrow> I s \<longrightarrow> I (snd (r, s'))"
  proof (rule wait_retry.raw_induct [where P = "\<lambda>w s x. w = wait \<longrightarrow> I s \<longrightarrow> I (snd x)", OF _ assms(1)])
    fix f w s x
    assume IH: "\<And>w s x. f w s = Some x \<Longrightarrow> w = wait \<longrightarrow> I s \<longrightarrow> I (snd x)"
      and eq: "(case w s of (r, s') \<Rightarrow> if r = - ERESTARTSYS then f w s' else Some (r, s')) = Some x"
    show "w = wait \<longrightarrow> I s \<longrightarrow> I (snd x)"
    proof (intro impI)
      assume w: "w = wait" and "I s"
      obtain r s' where r: "w s = (r, s')" by (cases "w s")
      with w \<open>I s\<close> assms(3) have "I s'" by blast
      show "I (snd x)"
      proof (cases "r = - ERESTARTSYS")
        case True
        with IH [of w s' x] eq r w \<open>I s'\<close> show ?thesis by simp
      next
        case False
        with eq r have "x = (r, s')" by simp
        with \<open>I s'\<close> show ?thesis by simp
      qed
    qed
  qed
  with assms(2) show ?thesis by simp
qed

text \<open>The retry ends if every interruption uses up something finite.\<close>

lemma wait_retry_returns:
  fixes pending :: "'s \<Rightarrow> nat"
  assumes "\<And>s s'. wait s = (- ERESTARTSYS, s') \<Longrightarrow> pending s' < pending s"
  shows "\<exists>r s'. wait_retry wait s = Some (r, s')"
proof (induction "pending s" arbitrary: s rule: less_induct)
  case less
  obtain r s' where "wait s = (r, s')" by (cases "wait s")
  with assms less show ?case
    by (cases "r = - ERESTARTSYS") (auto simp: wait_retry.simps [of wait s])
qed

lemma fg_io_requests [simp]: "fg_io m s = (r, s') \<Longrightarrow> sram_requests s' = sram_requests s"
  by (auto simp: fg_io_def split: prod.splits)

lemma fg_io_run: "fg_io m s = (r, s') \<Longrightarrow> run_state m (fg_world s) = (r, fg_world s')"
  by (auto simp: fg_io_def split: prod.splits)

section \<open>The request counter is balanced\<close>

text \<open>
  \<open>wait_keeps_requests k\<close>: no other thread asks for the SRAM while this one waits. (The
  interleaving with other threads is the subject of the protocol theory.)
\<close>

definition wait_keeps_requests :: "'w fg_kernel \<Rightarrow> bool" where
  "wait_keeps_requests k \<longleftrightarrow>
     (\<forall>c t s r s'. k_wait k c t s = (r, s') \<longrightarrow> sram_requests s' = sram_requests s)"

lemma retried_wait_keeps_requests:
  "wait_keeps_requests k \<Longrightarrow> wait_retry (k_wait k c t) s = Some (r, s') \<Longrightarrow> sram_requests s' = sram_requests s"
  by (erule wait_retry_inv [where I = "\<lambda>x. sram_requests x = sram_requests s"])
    (auto simp: wait_keeps_requests_def)

lemma request_access_requests:
  assumes "wait_keeps_requests k" and "qcom_fg_sram_request_access k chip regs s = Some (r, s')"
  shows "sram_requests s' = sram_requests s + (case r of Inl _ \<Rightarrow> 0 | Inr _ \<Rightarrow> 1)"
  using assms(2) retried_wait_keeps_requests [OF assms(1)]
  by (auto simp: qcom_fg_sram_request_access_def request_start_def request_finish_def Let_def bind_eq_Some_conv
      split: prod.splits sum.splits if_splits dest!: fg_io_requests)

lemma release_access_requests:
  "sram_requests (qcom_fg_sram_release_access k s) = max 0 (sram_requests s - 1)"
  by (simp add: qcom_fg_sram_release_access_def Let_def)

lemma sram_read_requests:
  assumes "wait_keeps_requests k" and "0 \<le> sram_requests s"
    and "qcom_fg_sram_read k chip regs addr len offset s = Some (r, s')"
  shows "sram_requests s' = sram_requests s"
proof -
  from assms(3) obtain r1 s1 where req: "qcom_fg_sram_request_access k chip regs s = Some (r1, s1)"
    by (auto simp: qcom_fg_sram_read_def bind_eq_Some_conv)
  from request_access_requests [OF assms(1) req] assms(2,3) req show ?thesis
    by (cases r1)
      (auto simp: qcom_fg_sram_read_def release_access_requests split: prod.splits dest!: fg_io_requests)
qed

lemma sram_write_requests:
  assumes "wait_keeps_requests k" and "0 \<le> sram_requests s"
    and "qcom_fg_sram_write k chip regs val addr len offset s = Some (r, s')"
  shows "sram_requests s' = sram_requests s"
proof -
  from assms(3) obtain r1 s1 where req: "qcom_fg_sram_request_access k chip regs s = Some (r1, s1)"
    by (auto simp: qcom_fg_sram_write_def bind_eq_Some_conv)
  from request_access_requests [OF assms(1) req] assms(2,3) req show ?thesis
    by (cases r1)
      (auto simp: qcom_fg_sram_write_def release_access_requests split: prod.splits dest!: fg_io_requests)
qed

section \<open>Whole reads and writes\<close>

context sram_window
begin

lemma sram_masked_cfg:
  assumes "run_state (qcom_fg_masked_write rm chip (ucast (sr_cfg regs)) m v) w = (r, w')"
  shows "sram w' = sram w"
proof -
  have rd: "run_state (qcom_fg_read rm chip a n) w = (t, w1) \<Longrightarrow> sram w1 = sram w" for a n t w w1
    using read_keeps by (auto simp: qcom_fg_read_def split: if_splits)
  have wr: "run_state (qcom_fg_write rm chip bs (ucast (sr_cfg regs))) w = (t, w1) \<Longrightarrow> sram w1 = sram w"
    for bs t w w1
    using ctl_keeps [OF disjI1 [OF refl]] open_regs(3) by (auto simp: qcom_fg_write_def split: if_splits)
  from assms show ?thesis
    by (auto simp: qcom_fg_masked_write_def run_ok_then dest!: rd wr split: prod.splits sum.splits)
qed

lemma sram_check_access:
  "run_state (qcom_fg_sram_check_access rm chip regs) w = (r, w') \<Longrightarrow> sram w' = sram w"
  using read_keeps
  by (fastforce simp: qcom_fg_sram_check_access_def qcom_fg_read_def split: prod.splits sum.splits if_splits)

lemma sram_request_access:
  assumes "qcom_fg_sram_request_access k chip regs s = Some (r, s')"
  shows "sram (fg_world s') = sram (fg_world s)"
proof -
  have wait: "wait_retry (k_wait k c t) x = Some (y, x') \<Longrightarrow> sram (fg_world x') = sram (fg_world x)"
    for c t x y x'
    by (erule wait_retry_inv [where I = "\<lambda>z. sram (fg_world z) = sram (fg_world x)"]) (auto dest: wait_keeps)
  from assms show ?thesis
    by (auto simp: qcom_fg_sram_request_access_def request_start_def request_finish_def Let_def bind_eq_Some_conv reinit_keeps
        split: prod.splits sum.splits if_splits
        dest!: fg_io_run wait sram_check_access sram_masked_cfg)
qed

lemma config_access_ok:
  "run_state (qcom_fg_sram_config_access rm chip regs wr b) w = (r, w') \<Longrightarrow> sram w' = sram w"
  using ctl_keeps [OF disjI2 [OF refl]] open_regs(2)
  by (auto simp: qcom_fg_sram_config_access_def qcom_fg_write_def split: if_splits)

lemma release_keeps: "sram (fg_world (qcom_fg_sram_release_access k s)) = sram (fg_world s)"
  by (simp add: qcom_fg_sram_release_access_def Let_def queue_keeps)

lemma sram_read_correct:
  assumes "qcom_fg_sram_read k chip regs addr (int n) (int i) s = Some (Inr bs, s')" and "i < 4"
  shows "bs = map (\<lambda>j. sram (fg_world s) (addr + of_nat (i + j))) [0..<n]"
    and "sram (fg_world s') = sram (fg_world s)"
proof -
  from assms(1) obtain s1 s2 where
    req: "qcom_fg_sram_request_access k chip regs s = Some (Inr (), s1)" and
    io: "fg_io (ok_then (qcom_fg_sram_config_access rm chip regs False (int n > 4)) (\<lambda>_.
      sram_read_loop rm chip regs addr (int n) (int i) (replicate n 0) 0)) s1 = (Inr bs, s2)" and
    s': "s' = qcom_fg_sram_release_access k s2"
    by (auto simp: qcom_fg_sram_read_def bind_eq_Some_conv split: sum.splits prod.splits)
  from fg_io_run [OF io] obtain w2 where
    cfg: "run_state (qcom_fg_sram_config_access rm chip regs False (int n > 4)) (fg_world s1) = (Inr (), w2)" and
    loop: "run_state (sram_read_loop rm chip regs addr (int n) (int i) (replicate n 0) (int 0)) w2
      = (Inr bs, fg_world s2)"
    by (auto simp: run_ok_then split: prod.splits sum.splits)
  have "sram w2 = sram (fg_world s)"
    using sram_request_access [OF req] config_access_ok [OF cfg] by simp
  with sram_read_loop_correct [OF loop assms(2)] s' release_keeps
  show "bs = map (\<lambda>j. sram (fg_world s) (addr + of_nat (i + j))) [0..<n]"
    and "sram (fg_world s') = sram (fg_world s)"
    by (auto intro!: nth_equalityI)
qed

lemma sram_write_loop_word:
  assumes "run_state (sram_write_loop rm chip regs bs addr (int (length bs)) (int i)) w = (Inr (), w')"
    and "i + length bs \<le> 4" and "bs \<noteq> []"
  shows "sram w' = sram_store (addr + of_nat i) bs (sram w)"
proof -
  have len: "0 < int (length bs)" "\<not> 0 < int (length bs) - (4 - int i)" "i < 4"
    using assms(2,3) by (cases bs; auto)+
  from assms(1) len obtain w1 where
    "run_state (qcom_fg_write rm chip (le16 addr) (ucast (sr_addr regs))) w = (Inr (), w1)"
    "run_state (qcom_fg_write rm chip bs (ucast (sr_wr0 regs + word_of_int (int i)))) w1 = (Inr (), w')"
    by (subst (asm) sram_write_loop.simps)
      (auto simp: run_ok_then sram_write_loop.simps split: prod.splits sum.splits)
  with set_address fg_write_open [OF open_wr_regs [OF len(3)]] wr_law [OF assms(2)] show ?thesis by metis
qed

lemma sram_write_correct:
  assumes "qcom_fg_sram_write k chip regs bs addr (int (length bs)) (int i) s = Some (Inr (), s')"
    and "i + length bs \<le> 4" and "bs \<noteq> []"
  shows "sram (fg_world s') = sram_store (addr + of_nat i) bs (sram (fg_world s))"
proof -
  from assms(1) obtain s1 s2 where
    req: "qcom_fg_sram_request_access k chip regs s = Some (Inr (), s1)" and
    io: "fg_io (ok_then (qcom_fg_sram_config_access rm chip regs True (int (length bs) > 4)) (\<lambda>_.
      sram_write_loop rm chip regs bs addr (int (length bs)) (int i))) s1 = (Inr (), s2)" and
    s': "s' = qcom_fg_sram_release_access k s2"
    by (auto simp: qcom_fg_sram_write_def bind_eq_Some_conv split: sum.splits prod.splits)
  from fg_io_run [OF io] obtain w2 where
    cfg: "run_state (qcom_fg_sram_config_access rm chip regs True (int (length bs) > 4)) (fg_world s1) = (Inr (), w2)" and
    loop: "run_state (sram_write_loop rm chip regs bs addr (int (length bs)) (int i)) w2 = (Inr (), fg_world s2)"
    by (auto simp: run_ok_then split: prod.splits sum.splits)
  have "sram w2 = sram (fg_world s)"
    using sram_request_access [OF req] config_access_ok [OF cfg] by simp
  with sram_write_loop_word [OF loop assms(2,3)] s' release_keeps show ?thesis by simp
qed

end

end
