(* ===== verification/Fuel_Gauge_Sim.thy ===== *)
theory Fuel_Gauge_Sim
  imports Fuel_Gauge_Sram
begin

text \<open>
  An executable environment for the PMI8996 gauge at base \<open>0x4000\<close>: byte registers, an SRAM
  behind the memory-interface registers, a script of failing transfers and a script of wait
  results (1 when it is used up). It satisfies the laws of \<open>sram_window\<close> and is what the
  witnesses run on.
\<close>

record gauge =
  ga_reg :: "u32 \<Rightarrow> u8"
  ga_sram :: "u16 \<Rightarrow> u8"
  ga_err :: "int list"
  ga_wait :: "int list"
  ga_revoke_queued :: nat

definition gauge_chip :: fg_chip where
  "gauge_chip = \<lparr>fg_base = 0x4000, fg_sram_regs = Some sram_regs_rev3, fg_sram_wq = True\<rparr>"

definition ga_win :: "gauge \<Rightarrow> u16" where
  "ga_win g = ucast (ga_reg g 0x4461) OR push_bit 8 (ucast (ga_reg g 0x4462))"

definition ga_transfer :: "(gauge \<Rightarrow> 'a \<times> gauge) \<Rightarrow> (gauge, int + 'a) state" where
  "ga_transfer f = State (\<lambda>g.
     let e = (case ga_err g of [] \<Rightarrow> 0 | x # _ \<Rightarrow> x); g' = g\<lparr>ga_err := tl (ga_err g)\<rparr>
     in if e < 0 then (Inl e, g') else (case f g' of (v, h) \<Rightarrow> (Inr v, h)))"

definition ga_peek :: "u32 \<Rightarrow> nat \<Rightarrow> gauge \<Rightarrow> u8" where
  "ga_peek a j g = (let i = unat (a - 0x4467) in
     if i < 4 \<and> i + j < 4 then ga_sram g (ga_win g + of_nat (i + j)) else ga_reg g (a + of_nat j))"

definition ga_put :: "u32 \<Rightarrow> u8 list \<Rightarrow> gauge \<Rightarrow> gauge" where
  "ga_put a bs g = (let i = unat (a - 0x4463) in
     g\<lparr>ga_reg := poke a bs (ga_reg g),
       ga_sram := (if i < 4 \<and> i + length bs \<le> 4 then sram_store (ga_win g + of_nat i) bs (ga_sram g)
                   else ga_sram g)\<rparr>)"

definition gauge_regmap :: "gauge regmap" where
  "gauge_regmap =
     \<lparr>regmap_read = (\<lambda>a. ga_transfer (\<lambda>g. (ucast (ga_peek a 0 g), g))),
      regmap_write = (\<lambda>a v. ga_transfer (\<lambda>g. ((), ga_put a [ucast v] g))),
      regmap_bulk_read = (\<lambda>a n. ga_transfer (\<lambda>g. (map (\<lambda>j. ga_peek a j g) [0..<n], g))),
      regmap_bulk_write = (\<lambda>a bs. ga_transfer (\<lambda>g. ((), ga_put a bs g))),
      regmap_update_bits =
        (\<lambda>a m v. ga_transfer (\<lambda>g. ((), ga_put a [masked (ga_reg g a) (ucast m) (ucast v)] g)))\<rparr>"

definition gauge_wait :: "completion \<Rightarrow> nat \<Rightarrow> gauge fg_state \<Rightarrow> int \<times> gauge fg_state" where
  "gauge_wait c t s =
     (case ga_wait (fg_world s) of [] \<Rightarrow> 1 | x # _ \<Rightarrow> x,
      s\<lparr>fg_world := (fg_world s)\<lparr>ga_wait := tl (ga_wait (fg_world s))\<rparr>\<rparr>)"

definition gauge_kernel :: "gauge fg_kernel" where
  "gauge_kernel =
     \<lparr>k_regmap = gauge_regmap, k_wait = gauge_wait,
      k_reinit = (\<lambda>_ w. w), k_init = (\<lambda>_ w. w), k_complete_all = (\<lambda>_ w. w),
      k_queue_release = (\<lambda>_ w. w\<lparr>ga_revoke_queued := Suc (ga_revoke_queued w)\<rparr>),
      k_destroy_wq = (\<lambda>w. w), k_psy_changed = (\<lambda>w. w),
      k_charger_property = (\<lambda>_. ret (Inr (Statusval STATUS_CHARGING))),
      k_div_round_closest = (\<lambda>x d. (2 * x + d) div (2 * d)),
      k_div_s64 = (\<lambda>x d. x sdiv d), k_div_u64 = (\<lambda>x d. x div d)\<rparr>"

definition gauge0 :: gauge where
  "gauge0 = \<lparr>ga_reg = (\<lambda>_. 0), ga_sram = (\<lambda>a. ucast a), ga_err = [], ga_wait = [], ga_revoke_queued = 0\<rparr>"

definition gauge_state0 :: "gauge fg_state" where
  "gauge_state0 = \<lparr>fg_world = gauge0, sram_requests = 0\<rparr>"

lemma run_ga_transfer [simp]:
  "run_state (ga_transfer f) g =
     (let e = (case ga_err g of [] \<Rightarrow> 0 | x # _ \<Rightarrow> x); g' = g\<lparr>ga_err := tl (ga_err g)\<rparr>
      in if e < 0 then (Inl e, g') else (case f g' of (v, h) \<Rightarrow> (Inr v, h)))"
  by (simp add: ga_transfer_def)

lemma gauge_kernel_simps [simp]:
  "k_regmap gauge_kernel = gauge_regmap" "k_wait gauge_kernel = gauge_wait"
  "k_reinit gauge_kernel c w = w" "k_init gauge_kernel c w = w"
  "k_queue_release gauge_kernel t w = w\<lparr>ga_revoke_queued := Suc (ga_revoke_queued w)\<rparr>"
  "regmap_bulk_read gauge_regmap a n = ga_transfer (\<lambda>g. (map (\<lambda>j. ga_peek a j g) [0..<n], g))"
  "regmap_bulk_write gauge_regmap a bs = ga_transfer (\<lambda>g. ((), ga_put a bs g))"
  by (simp_all add: gauge_kernel_def gauge_regmap_def)

lemma le16_bytes: "ucast (ucast a :: u8) OR push_bit 8 (ucast (ucast (drop_bit 8 a) :: u8)) = a" for a :: u16
  by (rule bit_word_eqI) (auto simp: bit_or_iff bit_push_bit_iff bit_ucast_iff bit_drop_bit_eq)

lemma ga_win_put [simp]: "ga_win (ga_put 0x4461 (le16 a) g) = a"
  by (simp add: ga_win_def ga_put_def le16_def le16_bytes)

lemma ga_sram_put [simp]:
  "ga_sram (ga_put 0x4461 bs g) = ga_sram g" "ga_sram (ga_put 0x4450 bs g) = ga_sram g"
  "ga_sram (ga_put 0x4451 bs g) = ga_sram g"
  by (simp_all add: ga_put_def)

lemma ga_addresses [simp]:
  "fg_address gauge_chip (ucast (sr_addr sram_regs_rev3)) = 0x4461"
  "fg_address gauge_chip (ucast (sr_cfg sram_regs_rev3)) = 0x4450"
  "fg_address gauge_chip (ucast (sr_ctl sram_regs_rev3)) = 0x4451"
  by (simp_all add: fg_address_def gauge_chip_def sram_regs_rev3_def)

lemma ga_windows:
  assumes "i < 4"
  shows "fg_address gauge_chip (ucast (sr_rd0 sram_regs_rev3 + of_nat i)) - 0x4467 = of_nat i"
    and "fg_address gauge_chip (ucast (sr_wr0 sram_regs_rev3 + of_nat i)) - 0x4463 = of_nat i"
proof -
  from assms consider "i = 0" | "i = 1" | "i = 2" | "i = 3" by linarith
  then show "fg_address gauge_chip (ucast (sr_rd0 sram_regs_rev3 + of_nat i)) - 0x4467 = of_nat i"
    and "fg_address gauge_chip (ucast (sr_wr0 sram_regs_rev3 + of_nat i)) - 0x4463 = of_nat i"
    by (cases; simp add: fg_address_def gauge_chip_def sram_regs_rev3_def)+
qed

lemma unat_small: "i < 4 \<Longrightarrow> unat (of_nat i :: u32) = i"
  by (simp add: unat_of_nat)

interpretation gauge: sram_window gauge_kernel gauge_chip sram_regs_rev3 ga_sram ga_win
proof unfold_locales
  show "sram_regs_known sram_regs_rev3" by (simp add: sram_regs_known_def)
next
  fix i n bs w w' assume "i < (4::nat)"
    "run_state (regmap_bulk_read (k_regmap gauge_kernel) (rd_reg gauge_chip sram_regs_rev3 i) n) w = (Inr bs, w')"
  then show "length bs = n \<and> (\<forall>j<n. i + j < 4 \<longrightarrow> bs ! j = ga_sram w (ga_win w + of_nat (i + j)))"
    by (auto simp: Let_def ga_peek_def ga_windows unat_small ga_win_def split: if_splits)
next
  fix i bs w w' assume "i + length bs \<le> (4::nat)"
    "run_state (regmap_bulk_write (k_regmap gauge_kernel) (wr_reg gauge_chip sram_regs_rev3 i) bs) w = (Inr (), w')"
  then show "ga_sram w' = sram_store (ga_win w + of_nat i) bs (ga_sram w)"
    by (cases "i < 4"; cases bs)
      (auto simp: Let_def ga_put_def ga_windows unat_small ga_win_def split: if_splits)
qed (auto simp: Let_def gauge_wait_def split: if_splits)

section \<open>Runs without failures\<close>

text \<open>
  With both scripts empty every transfer of the gauge succeeds, and so do whole SRAM reads and
  writes: this is how the witnesses of later theorems obtain their runs.
\<close>

definition ga_ready :: "gauge \<Rightarrow> bool" where
  "ga_ready g \<longleftrightarrow> ga_err g = [] \<and> ga_wait g = []"

definition ga_ok :: "(gauge, int + 'a) state \<Rightarrow> bool" where
  "ga_ok m \<longleftrightarrow> (\<forall>g. ga_ready g \<longrightarrow> (\<exists>v g'. run_state m g = (Inr v, g') \<and> ga_ready g'))"

named_theorems ga_ok_rules \<open>transfers of the scripted gauge that succeed\<close>

lemma ga_okD: "ga_ok m \<Longrightarrow> ga_ready g \<Longrightarrow> \<exists>v g'. run_state m g = (Inr v, g') \<and> ga_ready g'"
  by (simp add: ga_ok_def)

lemma ga_ok_ret [ga_ok_rules]: "ga_ok (ret (Inr v))"
  by (simp add: ga_ok_def)

lemma ga_ok_then [ga_ok_rules]:
  assumes "ga_ok m" and "\<And>v. ga_ok (f v)"
  shows "ga_ok (ok_then m f)"
  unfolding ga_ok_def
proof (intro allI impI)
  fix g assume "ga_ready g"
  with ga_okD [OF assms(1)] obtain v g1 where "run_state m g = (Inr v, g1)" "ga_ready g1" by blast
  with ga_okD [OF assms(2), of g1 v]
  show "\<exists>v g'. run_state (ok_then m f) g = (Inr v, g') \<and> ga_ready g'" by (simp add: run_ok_then)
qed

lemma ga_ok_if [ga_ok_rules]: "ga_ok m \<Longrightarrow> ga_ok n \<Longrightarrow> ga_ok (if b then m else n)"
  by simp

lemma ga_put_ready [simp]: "ga_ready (ga_put a bs g) = ga_ready g"
  by (simp add: ga_ready_def ga_put_def Let_def)

lemma ga_ok_transfer:
  assumes "\<And>g. ga_ready (snd (f g)) = ga_ready g"
  shows "ga_ok (ga_transfer f)"
proof -
  have "ga_err g = []" "ga_ready (g\<lparr>ga_err := []\<rparr>)" if "ga_ready g" for g
    using that by (simp_all add: ga_ready_def)
  with assms show ?thesis by (simp add: ga_ok_def Let_def split: prod.splits) (metis snd_conv)
qed

lemma ga_ok_bulk [ga_ok_rules]:
  "ga_ok (regmap_bulk_read gauge_regmap a n)" "ga_ok (regmap_bulk_write gauge_regmap a bs)"
  by (simp_all add: ga_ok_transfer)

definition ga_page_ok :: "u16 \<Rightarrow> bool" where
  "ga_page_ok a \<longleftrightarrow> fg_address gauge_chip a AND 0xff00 \<noteq> 0"

lemma ga_ok_read [ga_ok_rules]: "ga_page_ok a \<Longrightarrow> ga_ok (qcom_fg_read gauge_regmap gauge_chip a n)"
  unfolding qcom_fg_read_def ga_page_ok_def by (simp only: if_False) (rule ga_ok_rules)

lemma ga_ok_write [ga_ok_rules]: "ga_page_ok a \<Longrightarrow> ga_ok (qcom_fg_write gauge_regmap gauge_chip bs a)"
  unfolding qcom_fg_write_def ga_page_ok_def by (simp only: if_False) (intro ga_ok_rules)

lemma ga_ok_masked_write [ga_ok_rules]:
  "ga_page_ok a \<Longrightarrow> ga_ok (qcom_fg_masked_write gauge_regmap gauge_chip a m v)"
  by (auto simp: qcom_fg_masked_write_def intro!: ga_ok_rules)

lemma ga_pages [simp]:
  "ga_page_ok (ucast (sr_addr sram_regs_rev3))" "ga_page_ok (ucast (sr_cfg sram_regs_rev3))"
  "ga_page_ok (ucast (sr_ctl sram_regs_rev3))" "ga_page_ok MEM_INTF_STS"
  by (simp_all add: ga_page_ok_def fg_address_def gauge_chip_def sram_regs_rev3_def MEM_INTF_STS_def)

lemma ga_page_windows:
  assumes "i < (4::nat)"
  shows "ga_page_ok (ucast (sr_rd0 sram_regs_rev3 + of_nat i))"
    and "ga_page_ok (ucast (sr_wr0 sram_regs_rev3 + of_nat i))"
proof -
  from assms consider "i = 0" | "i = 1" | "i = 2" | "i = 3" by linarith
  then show "ga_page_ok (ucast (sr_rd0 sram_regs_rev3 + of_nat i))"
    and "ga_page_ok (ucast (sr_wr0 sram_regs_rev3 + of_nat i))"
    by (cases; simp add: ga_page_ok_def fg_address_def gauge_chip_def sram_regs_rev3_def)+
qed

lemma ga_ok_read_loop:
  assumes "i < 4"
  shows "ga_ok (sram_read_loop gauge_regmap gauge_chip sram_regs_rev3 addr n (int i) buf p)"
  using assms
proof (induction "nat n" arbitrary: addr n i buf p rule: less_induct)
  case less
  have tl: "ga_ok (sram_read_loop gauge_regmap gauge_chip sram_regs_rev3 (addr + 4) (n - (4 - int i)) 0 b q)"
    if "0 < n" for b q
    using less.hyps [of "n - (4 - int i)" 0] that less.prems by simp
  show ?case
    by (subst sram_read_loop.simps)
      (auto intro!: ga_ok_rules tl ga_page_windows [OF less.prems])
qed

lemma ga_ok_write_loop:
  assumes "i < 4"
  shows "ga_ok (sram_write_loop gauge_regmap gauge_chip sram_regs_rev3 bs addr n (int i))"
  using assms
proof (induction "nat n" arbitrary: addr n i bs rule: less_induct)
  case less
  have tl: "ga_ok (sram_write_loop gauge_regmap gauge_chip sram_regs_rev3 b (addr + 4) (n - (4 - int i)) 0)"
    if "0 < n" for b
    using less.hyps [of "n - (4 - int i)" 0] that less.prems by simp
  show ?case
    by (subst sram_write_loop.simps)
      (auto intro!: ga_ok_rules tl ga_page_windows [OF less.prems])
qed

lemma ga_io:
  assumes "ga_ok m" and "ga_ready (fg_world s)"
  obtains v s' where "fg_io m s = (Inr v, s')" "ga_ready (fg_world s')"
  using ga_okD [OF assms] that by (auto simp: fg_io_def)

lemma ga_check_access:
  assumes "ga_ready (fg_world s)"
  obtains b s' where "fg_io (qcom_fg_sram_check_access gauge_regmap gauge_chip sram_regs_rev3) s = (b, s')"
    "ga_ready (fg_world s')"
proof -
  obtain v w where w: "run_state (qcom_fg_read gauge_regmap gauge_chip MEM_INTF_STS 1) (fg_world s) = (Inr v, w)"
    "ga_ready w" using ga_okD [OF ga_ok_read assms] by (metis ga_pages(4))
  moreover obtain v' w' where "run_state (qcom_fg_read gauge_regmap gauge_chip (ucast (sr_cfg sram_regs_rev3)) 1) w = (Inr v', w')"
    "ga_ready w'" using ga_okD [OF ga_ok_read w(2)] by (metis ga_pages(2))
  ultimately show ?thesis
    by (intro that [OF prod.collapse [symmetric]])
      (simp add: fg_io_def qcom_fg_sram_check_access_def split: if_splits)
qed

lemma ga_request_access:
  assumes "ga_ready (fg_world s)"
  obtains s' where "qcom_fg_sram_request_access gauge_kernel gauge_chip sram_regs_rev3 s = Some (Inr (), s')"
    "ga_ready (fg_world s')"
proof -
  obtain b s1 where s1: "fg_io (qcom_fg_sram_check_access gauge_regmap gauge_chip sram_regs_rev3) s = (b, s1)"
    "ga_ready (fg_world s1)" by (rule ga_check_access [OF assms])
  obtain s2 where s2: "(if \<not> b \<and> sram_requests s1 = 0
            then fg_io (qcom_fg_masked_write gauge_regmap gauge_chip (ucast (sr_cfg sram_regs_rev3))
                   RIF_MEM_ACCESS_REQ RIF_MEM_ACCESS_REQ) s1
            else (Inr (), s1)) = (Inr (), s2)" "ga_ready (fg_world s2)"
  proof (cases "\<not> b \<and> sram_requests s1 = 0")
    case True
    obtain v s2 where "fg_io (qcom_fg_masked_write gauge_regmap gauge_chip (ucast (sr_cfg sram_regs_rev3))
        RIF_MEM_ACCESS_REQ RIF_MEM_ACCESS_REQ) s1 = (Inr v, s2)" "ga_ready (fg_world s2)"
      by (rule ga_io [OF ga_ok_masked_write [OF ga_pages(2)] s1(2)])
    with True that show ?thesis by simp
  next
    case False
    with s1(2) that show ?thesis by auto
  qed
  show ?thesis
    by (rule that [of "s2\<lparr>sram_requests := sram_requests s2 + 1, fg_world := (fg_world s2)\<lparr>ga_wait := []\<rparr>\<rparr>"])
      (use s2(2) in \<open>auto simp only: qcom_fg_sram_request_access_def request_start_def gauge_kernel_simps s1(1) Let_def prod.case s2(1) sum.case\<close>,
       use s2(2) in \<open>simp_all add: request_finish_def wait_retry.simps gauge_wait_def ga_ready_def\<close>)
qed

lemma gauge_reads:
  assumes "ga_ready (fg_world s)" and "i < 4"
  obtains bs s' where "qcom_fg_sram_read gauge_kernel gauge_chip sram_regs_rev3 addr n (int i) s = Some (Inr bs, s')"
    "ga_ready (fg_world s')"
proof -
  obtain s1 where s1: "qcom_fg_sram_request_access gauge_kernel gauge_chip sram_regs_rev3 s = Some (Inr (), s1)"
    "ga_ready (fg_world s1)" by (rule ga_request_access [OF assms(1)])
  have "ga_ok (ok_then (qcom_fg_sram_config_access gauge_regmap gauge_chip sram_regs_rev3 False (n > 4)) (\<lambda>_.
      sram_read_loop gauge_regmap gauge_chip sram_regs_rev3 addr n (int i) (replicate (nat n) 0) 0))"
    unfolding qcom_fg_sram_config_access_def by (intro ga_ok_rules ga_ok_read_loop assms) simp
  then obtain bs s2 where "fg_io (ok_then (qcom_fg_sram_config_access gauge_regmap gauge_chip sram_regs_rev3 False (n > 4)) (\<lambda>_.
      sram_read_loop gauge_regmap gauge_chip sram_regs_rev3 addr n (int i) (replicate (nat n) 0) 0)) s1 = (Inr bs, s2)"
    "ga_ready (fg_world s2)" by (rule ga_io) (rule s1)
  with s1 that show ?thesis
    by (auto simp: qcom_fg_sram_read_def qcom_fg_sram_release_access_def Let_def ga_ready_def)
qed

lemma gauge_writes:
  assumes "ga_ready (fg_world s)" and "i < 4"
  obtains s' where "qcom_fg_sram_write gauge_kernel gauge_chip sram_regs_rev3 bs addr n (int i) s = Some (Inr (), s')"
    "ga_ready (fg_world s')"
proof -
  obtain s1 where s1: "qcom_fg_sram_request_access gauge_kernel gauge_chip sram_regs_rev3 s = Some (Inr (), s1)"
    "ga_ready (fg_world s1)" by (rule ga_request_access [OF assms(1)])
  have "ga_ok (ok_then (qcom_fg_sram_config_access gauge_regmap gauge_chip sram_regs_rev3 True (n > 4)) (\<lambda>_.
      sram_write_loop gauge_regmap gauge_chip sram_regs_rev3 bs addr n (int i)))"
    unfolding qcom_fg_sram_config_access_def by (intro ga_ok_rules ga_ok_write_loop assms) simp
  then obtain s2 where "fg_io (ok_then (qcom_fg_sram_config_access gauge_regmap gauge_chip sram_regs_rev3 True (n > 4)) (\<lambda>_.
      sram_write_loop gauge_regmap gauge_chip sram_regs_rev3 bs addr n (int i))) s1 = (Inr (), s2)"
    "ga_ready (fg_world s2)" using ga_io [OF _ s1(2)] by (metis (full_types) unit.exhaust)
  with s1 that show ?thesis
    by (auto simp: qcom_fg_sram_write_def qcom_fg_sram_release_access_def Let_def ga_ready_def)
qed


end
