(* ===== verification/Fuel_Gauge.thy ===== *)
theory Fuel_Gauge
  imports Fuel_Gauge_Sim
begin

text \<open>
  \<open>drivers/power/supply/qcom_fg.c\<close>, second part: battery readings of both generations, the
  power-supply interface, the start-up sequence, the interrupt handlers and \<open>probe\<close>. An
  operation is a partial function of the driver state; it has no result when it waits for ever
  or dereferences the missing SRAM layout of the Gen3 gauge (a kernel oops).
\<close>

section \<open>Operations and how they are put together\<close>

type_synonym ('w, 'a) fg_op = "'w fg_state \<Rightarrow> ((int + 'a) \<times> 'w fg_state) option"

definition ok_bind ::
    "((int + 'a) \<times> 's) option \<Rightarrow> ('a \<Rightarrow> 's \<Rightarrow> ((int + 'b) \<times> 's) option) \<Rightarrow> ((int + 'b) \<times> 's) option" where
  "ok_bind m f = (case m of None \<Rightarrow> None | Some (Inl e, s) \<Rightarrow> Some (Inl e, s) | Some (Inr v, s) \<Rightarrow> f v s)"

lemma ok_bind_simps [simp]:
  "ok_bind None f = None" "ok_bind (Some (Inl e, s)) f = Some (Inl e, s)"
  "ok_bind (Some (Inr v, s)) f = f v s"
  by (simp_all add: ok_bind_def)

lemma ok_bind_Inr:
  "ok_bind m f = Some (Inr v, t) \<longleftrightarrow> (\<exists>x s. m = Some (Inr x, s) \<and> f x s = Some (Inr v, t))"
  by (auto simp: ok_bind_def split: option.splits sum.splits)

text \<open>The fuel gauge's \<open>struct qcom_fg_ops\<close>.\<close>

record 'w fg_ops =
  get_capacity :: "('w, int) fg_op"
  get_temperature :: "('w, int) fg_op"
  get_current :: "('w, int) fg_op"
  get_voltage :: "('w, int) fg_op"
  get_temp_threshold :: "power_supply_property \<Rightarrow> ('w, int) fg_op"
  set_temp_threshold :: "(power_supply_property \<Rightarrow> int \<Rightarrow> ('w, unit) fg_op) option"

text \<open>\<open>chip->sram_regs->...\<close> with a null \<open>sram_regs\<close> has no result.\<close>

definition with_sram :: "fg_chip \<Rightarrow> (fg_sram_regs \<Rightarrow> 'b option) \<Rightarrow> 'b option" where
  "with_sram chip f = (case fg_sram_regs chip of None \<Rightarrow> None | Some regs \<Rightarrow> f regs)"

definition TEMP_THRESHOLD :: u16 where "TEMP_THRESHOLD = 0x454"
definition BATT_TEMP :: u16 where "BATT_TEMP = 0x550"
definition BATT_VOLTAGE_CURRENT :: u16 where "BATT_VOLTAGE_CURRENT = 0x5cc"
definition PARAM_ADDR_BATT_TEMP :: u16 where "PARAM_ADDR_BATT_TEMP = 0x150"
definition PARAM_ADDR_BATT_VOLTAGE :: u16 where "PARAM_ADDR_BATT_VOLTAGE = 0x1a0"
definition PARAM_ADDR_BATT_CURRENT :: u16 where "PARAM_ADDR_BATT_CURRENT = 0x1a2"
definition BATT_TEMP_LSB_MASK :: int where "BATT_TEMP_LSB_MASK = 0xff"
definition BATT_TEMP_MSB_MASK :: int where "BATT_TEMP_MSB_MASK = 0x07"

section \<open>Battery readings\<close>

text \<open>\<open>readval[1] << 8 | readval[0]\<close> in \<open>int\<close> arithmetic.\<close>

definition word_of_bytes :: "u8 list \<Rightarrow> int" where
  "word_of_bytes bs = push_bit 8 (uint (bs ! 1)) OR uint (bs ! 0)"

definition qcom_fg_get_capacity :: "'w fg_kernel \<Rightarrow> fg_chip \<Rightarrow> ('w, int) fg_op" where
  "qcom_fg_get_capacity k chip s =
     ok_bind (Some (fg_io (qcom_fg_read (k_regmap k) chip BATT_MONOTONIC_SOC 2) s)) (\<lambda>cap s.
       let cap0 = (if cap ! 0 \<noteq> cap ! 1
                   then (if cap ! 0 < cap ! 1 then cap ! 0 else cap ! 1) else cap ! 0)
       in Some (Inr (k_div_round_closest k ((uint cap0 - 1) * 98) (0xff - 2) + 1), s))"

definition qcom_fg_get_temperature :: "'w fg_kernel \<Rightarrow> fg_chip \<Rightarrow> ('w, int) fg_op" where
  "qcom_fg_get_temperature k chip s = with_sram chip (\<lambda>regs.
     ok_bind (qcom_fg_sram_read k chip regs BATT_TEMP 2 2 s) (\<lambda>readval s.
       let temp = word_of_bytes readval in Some (Inr (temp * 625 sdiv 1000 - 2730), s)))"

definition qcom_fg_get_current :: "'w fg_kernel \<Rightarrow> fg_chip \<Rightarrow> ('w, int) fg_op" where
  "qcom_fg_get_current k chip s = with_sram chip (\<lambda>regs.
     ok_bind (qcom_fg_sram_read k chip regs BATT_VOLTAGE_CURRENT 2 3 s) (\<lambda>readval s.
       let temp = c_s16 (word_of_bytes readval)
       in Some (Inr (c_int (k_div_s64 k (temp * 152587) 1000)), s)))"

definition qcom_fg_get_voltage :: "'w fg_kernel \<Rightarrow> fg_chip \<Rightarrow> ('w, int) fg_op" where
  "qcom_fg_get_voltage k chip s = with_sram chip (\<lambda>regs.
     ok_bind (qcom_fg_sram_read k chip regs BATT_VOLTAGE_CURRENT 2 1 s) (\<lambda>readval s.
       let temp = word_of_bytes readval
       in Some (Inr (c_int (k_div_u64 k (temp * 152587) 1000)), s)))"

fun threshold_offset :: "power_supply_property \<Rightarrow> int option" where
  "threshold_offset PROP_TEMP_MIN = Some 0"
| "threshold_offset PROP_TEMP_MAX = Some 1"
| "threshold_offset PROP_TEMP_ALERT_MIN = Some 2"
| "threshold_offset PROP_TEMP_ALERT_MAX = Some 3"
| "threshold_offset _ = None"

definition qcom_fg_get_temp_threshold ::
    "'w fg_kernel \<Rightarrow> fg_chip \<Rightarrow> power_supply_property \<Rightarrow> ('w, int) fg_op" where
  "qcom_fg_get_temp_threshold k chip psp s =
     (case threshold_offset psp of
        None \<Rightarrow> Some (Inl (- EINVAL), s)
      | Some offset \<Rightarrow> with_sram chip (\<lambda>regs.
          ok_bind (qcom_fg_sram_read k chip regs TEMP_THRESHOLD 1 offset s) (\<lambda>temp s.
            Some (Inr ((uint (temp ! 0) - 30) * 10), s))))"

definition qcom_fg_set_temp_threshold ::
    "'w fg_kernel \<Rightarrow> fg_chip \<Rightarrow> power_supply_property \<Rightarrow> int \<Rightarrow> ('w, unit) fg_op" where
  "qcom_fg_set_temp_threshold k chip psp val s =
     (case threshold_offset psp of
        None \<Rightarrow> Some (Inl (- EINVAL), s)
      | Some offset \<Rightarrow> with_sram chip (\<lambda>regs.
          let temp = word_of_int (val sdiv 10 + 30)
          in qcom_fg_sram_write k chip regs [temp] TEMP_THRESHOLD 1 offset s))"

section \<open>Gen3 readings\<close>

definition qcom_fg_gen3_get_temperature :: "'w fg_kernel \<Rightarrow> fg_chip \<Rightarrow> ('w, int) fg_op" where
  "qcom_fg_gen3_get_temperature k chip s =
     ok_bind (Some (fg_io (qcom_fg_read (k_regmap k) chip PARAM_ADDR_BATT_TEMP 2) s)) (\<lambda>readval s.
       let temp = push_bit 8 (uint (readval ! 1) AND BATT_TEMP_MSB_MASK)
                    OR (uint (readval ! 0) AND BATT_TEMP_LSB_MASK);
           temp = k_div_round_closest k (temp * 10) 4
       in Some (Inr (temp - 2730), s))"

definition qcom_fg_gen3_get_current :: "'w fg_kernel \<Rightarrow> fg_chip \<Rightarrow> ('w, int) fg_op" where
  "qcom_fg_gen3_get_current k chip s =
     ok_bind (Some (fg_io (qcom_fg_read (k_regmap k) chip PARAM_ADDR_BATT_CURRENT 2) s)) (\<lambda>readval s.
       let temp = c_s16 (word_of_bytes readval)
       in Some (Inr (c_int (k_div_s64 k (temp * 488281) 1000)), s))"

definition qcom_fg_gen3_get_voltage :: "'w fg_kernel \<Rightarrow> fg_chip \<Rightarrow> ('w, int) fg_op" where
  "qcom_fg_gen3_get_voltage k chip s =
     ok_bind (Some (fg_io (qcom_fg_read (k_regmap k) chip PARAM_ADDR_BATT_VOLTAGE 2) s)) (\<lambda>readval s.
       let temp = word_of_bytes readval
       in Some (Inr (c_int (k_div_u64 k (temp * 122070) 1000)), s))"

fun gen3_threshold_reg :: "power_supply_property \<Rightarrow> u16 option" where
  "gen3_threshold_reg PROP_TEMP_MIN = Some 0x162"
| "gen3_threshold_reg PROP_TEMP_MAX = Some 0x165"
| "gen3_threshold_reg PROP_TEMP_ALERT_MIN = Some 0x163"
| "gen3_threshold_reg PROP_TEMP_ALERT_MAX = Some 0x164"
| "gen3_threshold_reg _ = None"

definition qcom_fg_gen3_get_temp_threshold ::
    "'w fg_kernel \<Rightarrow> fg_chip \<Rightarrow> power_supply_property \<Rightarrow> ('w, int) fg_op" where
  "qcom_fg_gen3_get_temp_threshold k chip psp s =
     (case gen3_threshold_reg psp of
        None \<Rightarrow> Some (Inl (- EINVAL), s)
      | Some reg \<Rightarrow>
          ok_bind (Some (fg_io (qcom_fg_read (k_regmap k) chip reg 1) s)) (\<lambda>temp s.
            Some (Inr (((5 * uint (temp ! 0)) sdiv 10 - 30) * 10), s)))"

section \<open>The two tables of operations\<close>

definition ops_fg :: "'w fg_kernel \<Rightarrow> fg_chip \<Rightarrow> 'w fg_ops" where
  "ops_fg k chip =
     \<lparr>get_capacity = qcom_fg_get_capacity k chip,
      get_temperature = qcom_fg_get_temperature k chip,
      get_current = qcom_fg_get_current k chip,
      get_voltage = qcom_fg_get_voltage k chip,
      get_temp_threshold = qcom_fg_get_temp_threshold k chip,
      set_temp_threshold = Some (qcom_fg_set_temp_threshold k chip)\<rparr>"

definition ops_fg_gen3 :: "'w fg_kernel \<Rightarrow> fg_chip \<Rightarrow> 'w fg_ops" where
  "ops_fg_gen3 k chip =
     \<lparr>get_capacity = qcom_fg_get_capacity k chip,
      get_temperature = qcom_fg_gen3_get_temperature k chip,
      get_current = qcom_fg_gen3_get_current k chip,
      get_voltage = qcom_fg_gen3_get_voltage k chip,
      get_temp_threshold = qcom_fg_gen3_get_temp_threshold k chip,
      set_temp_threshold = None\<rparr>"

datatype fg_variant = PMI8994_FG | PMI8996_FG | PMI8998_FG

fun fg_data_ops :: "fg_variant \<Rightarrow> 'w fg_kernel \<Rightarrow> fg_chip \<Rightarrow> 'w fg_ops" where
  "fg_data_ops PMI8994_FG = ops_fg"
| "fg_data_ops PMI8996_FG = ops_fg"
| "fg_data_ops PMI8998_FG = ops_fg_gen3"

fun fg_data_sram_regs :: "fg_variant \<Rightarrow> fg_sram_regs option" where
  "fg_data_sram_regs PMI8994_FG = Some sram_regs_rev1"
| "fg_data_sram_regs PMI8996_FG = Some sram_regs_rev3"
| "fg_data_sram_regs PMI8998_FG = None"

section \<open>The power-supply interface\<close>

definition intval_of :: "((int + int) \<times> 's) option \<Rightarrow> ((int + propval) \<times> 's) option" where
  "intval_of m = ok_bind m (\<lambda>v s. Some (Inr (Intval v), s))"

definition qcom_fg_get_property ::
    "'w fg_kernel \<Rightarrow> 'w fg_ops \<Rightarrow> battery_info \<Rightarrow> power_supply_property \<Rightarrow> ('w, propval) fg_op" where
  "qcom_fg_get_property k ops batt psp s =
     (case psp of
        PROP_STATUS \<Rightarrow> Some (fg_io (k_charger_property k psp) s)
      | PROP_HEALTH \<Rightarrow> Some (fg_io (k_charger_property k psp) s)
      | PROP_TECHNOLOGY \<Rightarrow> Some (Inr Tech_Lion, s)
      | PROP_CAPACITY \<Rightarrow> intval_of (get_capacity ops s)
      | PROP_CURRENT_NOW \<Rightarrow> intval_of (get_current ops s)
      | PROP_VOLTAGE_NOW \<Rightarrow> intval_of (get_voltage ops s)
      | PROP_VOLTAGE_MIN_DESIGN \<Rightarrow> Some (Inr (Intval (voltage_min_design_uv batt)), s)
      | PROP_VOLTAGE_MAX_DESIGN \<Rightarrow> Some (Inr (Intval (voltage_max_design_uv batt)), s)
      | PROP_CHARGE_FULL_DESIGN \<Rightarrow> Some (Inr (Intval (charge_full_design_uah batt)), s)
      | PROP_TEMP \<Rightarrow> intval_of (get_temperature ops s)
      | PROP_TEMP_MIN \<Rightarrow> intval_of (get_temp_threshold ops psp s)
      | PROP_TEMP_MAX \<Rightarrow> intval_of (get_temp_threshold ops psp s)
      | PROP_TEMP_ALERT_MIN \<Rightarrow> intval_of (get_temp_threshold ops psp s)
      | PROP_TEMP_ALERT_MAX \<Rightarrow> intval_of (get_temp_threshold ops psp s)
      | _ \<Rightarrow> Some (Inl (- EINVAL), s))"

definition qcom_fg_props :: "power_supply_property list" where
  "qcom_fg_props =
     [PROP_STATUS, PROP_HEALTH, PROP_TECHNOLOGY, PROP_CAPACITY, PROP_CURRENT_NOW, PROP_VOLTAGE_NOW,
      PROP_VOLTAGE_MIN_DESIGN, PROP_VOLTAGE_MAX_DESIGN, PROP_CHARGE_FULL_DESIGN, PROP_TEMP,
      PROP_TEMP_MIN, PROP_TEMP_MAX, PROP_TEMP_ALERT_MIN, PROP_TEMP_ALERT_MAX]"

definition qcom_fg_external_power_changed :: "'w fg_kernel \<Rightarrow> 'w fg_state \<Rightarrow> 'w fg_state" where
  "qcom_fg_external_power_changed k s = s\<lparr>fg_world := k_psy_changed k (fg_world s)\<rparr>"

section \<open>Start-up and interrupts\<close>

definition MEM_INTF_IMA_CFG :: u16 where "MEM_INTF_IMA_CFG = 0x452"
definition MEM_INTF_IMA_EXP_STS :: u16 where "MEM_INTF_IMA_EXP_STS = 0x455"
definition MEM_INTF_IMA_HW_STS :: u16 where "MEM_INTF_IMA_HW_STS = 0x456"
definition MEM_INTF_IMA_ERR_STS :: u16 where "MEM_INTF_IMA_ERR_STS = 0x45f"
definition MEM_IF_DMA_STS :: u16 where "MEM_IF_DMA_STS = 0x470"
definition MEM_IF_DMA_CTL :: u16 where "MEM_IF_DMA_CTL = 0x471"

definition qcom_fg_iacs_clear_sequence ::
    "'w regmap \<Rightarrow> fg_chip \<Rightarrow> fg_sram_regs \<Rightarrow> ('w, int + unit) state" where
  "qcom_fg_iacs_clear_sequence rm chip regs =
     ok_then (qcom_fg_masked_write rm chip MEM_INTF_IMA_CFG 0x04 0x04) (\<lambda>_.
     ok_then (qcom_fg_write rm chip [0x4] (ucast (sr_addr regs + 1))) (\<lambda>_.
     ok_then (qcom_fg_write rm chip [0x0] (ucast (sr_wr0 regs + 3))) (\<lambda>_.
     ok_then (qcom_fg_read rm chip (ucast (sr_rd0 regs + 3)) 1) (\<lambda>_.
     qcom_fg_masked_write rm chip MEM_INTF_IMA_CFG 0x04 0))))"

definition qcom_fg_clear_ima :: "'w fg_kernel \<Rightarrow> fg_chip \<Rightarrow> bool \<Rightarrow> ('w, unit) fg_op" where
  "qcom_fg_clear_ima k chip check_hw_sts s =
     ok_bind (Some (fg_io (qcom_fg_read (k_regmap k) chip MEM_INTF_IMA_ERR_STS 1) s)) (\<lambda>err_sts s.
     ok_bind (Some (fg_io (qcom_fg_read (k_regmap k) chip MEM_INTF_IMA_EXP_STS 1) s)) (\<lambda>exp_sts s.
     ok_bind (if check_hw_sts
              then ok_bind (Some (fg_io (qcom_fg_read (k_regmap k) chip MEM_INTF_IMA_HW_STS 1) s))
                     (\<lambda>hw_sts s. Some (Inr (hd hw_sts AND 0x0f \<noteq> drop_bit 4 (hd hw_sts)), s))
              else Some (Inr False, s)) (\<lambda>hw_bad s.
       if hw_bad \<or> has (hd exp_sts) 0xfb
       then with_sram chip (\<lambda>regs.
         case fg_io (qcom_fg_iacs_clear_sequence (k_regmap k) chip regs) s of
           (Inr _, s) \<Rightarrow> Some (Inl (- EAGAIN), s)
         | (Inl _, s) \<Rightarrow> Some (Inr (), s))
       else Some (Inr (), s))))"

definition qcom_fg_handle_soc_delta :: "'w fg_kernel \<Rightarrow> 'w fg_state \<Rightarrow> 'w fg_state" where
  "qcom_fg_handle_soc_delta k s = s\<lparr>fg_world := k_psy_changed k (fg_world s)\<rparr>"

definition qcom_fg_handle_mem_avail ::
    "'w fg_kernel \<Rightarrow> fg_chip \<Rightarrow> fg_sram_regs \<Rightarrow> 'w fg_state \<Rightarrow> 'w fg_state" where
  "qcom_fg_handle_mem_avail k chip regs s =
     (case fg_io (qcom_fg_sram_check_access (k_regmap k) chip regs) s of (accessible, s) \<Rightarrow>
        s\<lparr>fg_world := k_complete_all k
            (if accessible then Sram_Access_Granted else Sram_Access_Revoked) (fg_world s)\<rparr>)"

text \<open>
  What \<open>probe\<close> gets from the kernel: allocation, the parent's register map, the address in the
  device tree, the charger supply, registration, the battery data, interrupt numbers (negative:
  an errno), the result of requesting them, and whether a work queue could be created.
\<close>

record fg_probe_env =
  pe_alloc_ok :: bool
  pe_regmap_found :: bool
  pe_reg_address :: "u32 option"
  pe_chg_psy :: "int + unit"
  pe_register :: "int + unit"
  pe_batt_info :: "int + battery_info"
  pe_irq :: "string \<Rightarrow> int"
  pe_request_irq :: "string \<Rightarrow> int + unit"
  pe_workqueue :: bool

definition irq_byname :: "fg_probe_env \<Rightarrow> string \<Rightarrow> int + unit" where
  "irq_byname env name = (if pe_irq env name < 0 then Inl (pe_irq env name) else Inr ())"

definition BATT_TEMP_JEITA_COLD :: int where "BATT_TEMP_JEITA_COLD = 100"
definition BATT_TEMP_JEITA_COOL :: int where "BATT_TEMP_JEITA_COOL = 50"
definition BATT_TEMP_JEITA_WARM :: int where "BATT_TEMP_JEITA_WARM = 400"
definition BATT_TEMP_JEITA_HOT :: int where "BATT_TEMP_JEITA_HOT = 450"

definition set_default_thresholds :: "'w fg_ops \<Rightarrow> ('w, unit) fg_op" where
  "set_default_thresholds ops s =
     (case set_temp_threshold ops of
        None \<Rightarrow> Some (Inr (), s)
      | Some set_th \<Rightarrow>
          ok_bind (set_th PROP_TEMP_MIN BATT_TEMP_JEITA_COLD s) (\<lambda>_ s.
          ok_bind (set_th PROP_TEMP_MAX BATT_TEMP_JEITA_WARM s) (\<lambda>_ s.
          ok_bind (set_th PROP_TEMP_ALERT_MIN BATT_TEMP_JEITA_COOL s) (\<lambda>_ s.
          set_th PROP_TEMP_ALERT_MAX BATT_TEMP_JEITA_HOT s))))"

text \<open>The block ``initialize SRAM if available'' of \<open>probe\<close>.\<close>

definition qcom_fg_init_sram ::
    "'w fg_kernel \<Rightarrow> fg_probe_env \<Rightarrow> fg_chip \<Rightarrow> ('w, fg_chip) fg_op" where
  "qcom_fg_init_sram k env chip s =
     ok_bind (Some (irq_byname env ''mem-avail'', s)) (\<lambda>_ s.
     (let s = s\<lparr>fg_world := k_init k Sram_Access_Revoked (k_init k Sram_Access_Granted (fg_world s))\<rparr>;
          chip = chip\<lparr>fg_sram_wq := pe_workqueue env\<rparr> in
      ok_bind (Some (pe_request_irq env ''mem-avail'', s)) (\<lambda>_ s.
      Some (Inr chip, s\<lparr>sram_requests := 0\<rparr>))))"

definition qcom_fg_probe ::
    "'w fg_kernel \<Rightarrow> fg_probe_env \<Rightarrow> fg_variant \<Rightarrow> ('w, fg_chip \<times> battery_info) fg_op" where
  "qcom_fg_probe k env data s =
     (if \<not> pe_alloc_ok env then Some (Inl (- ENOMEM), s)
      else if \<not> pe_regmap_found env then Some (Inl (- ENODEV), s)
      else case pe_reg_address env of
        None \<Rightarrow> Some (Inl (- EINVAL), s)
      | Some base \<Rightarrow>
     (let chip = \<lparr>fg_base = base, fg_sram_regs = fg_data_sram_regs data, fg_sram_wq = False\<rparr>;
          rm = k_regmap k in
      ok_bind (Some (fg_io (qcom_fg_masked_write rm chip MEM_INTF_IMA_CFG 0x08 0x08) s)) (\<lambda>_ s.
      ok_bind (case qcom_fg_clear_ima k chip True s of
                 None \<Rightarrow> None
               | Some (r, s) \<Rightarrow> Some (if r = Inl (- EAGAIN) then Inr () else r, s)) (\<lambda>_ s.
      ok_bind (Some (fg_io (qcom_fg_read rm chip MEM_IF_DMA_STS 1) s)) (\<lambda>dma_status s.
      ok_bind (Some (fg_io (qcom_fg_masked_write rm chip MEM_IF_DMA_CTL 0x01
                 (if has (hd dma_status) 0x06 then 0x01 else 0)) s)) (\<lambda>_ s.
      ok_bind (Some (pe_chg_psy env, s)) (\<lambda>_ s.
      ok_bind (Some (pe_register env, s)) (\<lambda>_ s.
      ok_bind (Some (pe_batt_info env, s)) (\<lambda>batt s.
      ok_bind (case fg_sram_regs chip of
                 None \<Rightarrow> Some (Inr chip, s)
               | Some _ \<Rightarrow> qcom_fg_init_sram k env chip s) (\<lambda>chip s.
      ok_bind (set_default_thresholds (fg_data_ops data k chip) s) (\<lambda>_ s.
      ok_bind (Some (irq_byname env ''soc-delta'', s)) (\<lambda>_ s.
      ok_bind (Some (pe_request_irq env ''soc-delta'', s)) (\<lambda>_ s.
      Some (Inr (chip, batt), s))))))))))))))"

definition qcom_fg_remove :: "'w fg_kernel \<Rightarrow> fg_chip \<Rightarrow> 'w fg_state \<Rightarrow> 'w fg_state" where
  "qcom_fg_remove k chip s =
     (if fg_sram_wq chip then s\<lparr>fg_world := k_destroy_wq k (fg_world s)\<rparr> else s)"

end
