(* ===== verification/Fuel_Gauge_Correct.thy ===== *)
theory Fuel_Gauge_Correct
  imports Fuel_Gauge
begin

text \<open>
  What the fuel gauge driver gets right: the transfers it makes, the values it reports and their
  ranges, the temperature thresholds it stores and reads back, the state it leaves after
  \<open>probe\<close>, and its answers through the power-supply interface. The kernel's rounding
  divisions appear through their documented meaning (\<open>rounds_closest\<close>, \<open>divides\<close>).
\<close>

section \<open>Documented behaviour of the kernel's divisions\<close>

definition rounds_closest :: "(int \<Rightarrow> int \<Rightarrow> int) \<Rightarrow> bool" where
  "rounds_closest f \<longleftrightarrow> (\<forall>x d. 0 < d \<longrightarrow> \<bar>2 * (x - d * f x d)\<bar> \<le> d)"

definition divides :: "(int \<Rightarrow> int \<Rightarrow> int) \<Rightarrow> bool" where
  "divides f \<longleftrightarrow> (\<forall>x d. 0 < d \<longrightarrow> f x d = x sdiv d)"

definition divides_unsigned :: "(int \<Rightarrow> int \<Rightarrow> int) \<Rightarrow> bool" where
  "divides_unsigned f \<longleftrightarrow> (\<forall>x d. 0 \<le> x \<longrightarrow> 0 < d \<longrightarrow> f x d = x div d)"

lemma divides_1000:
  "divides f \<Longrightarrow> f x 1000 = x sdiv 1000"
  "divides_unsigned g \<Longrightarrow> 0 \<le> x \<Longrightarrow> g x 1000 = x sdiv 1000"
  by (auto simp: divides_def divides_unsigned_def signed_divide_int_def sgn_if)

lemma gauge_rounds: "rounds_closest (k_div_round_closest gauge_kernel)"
  unfolding rounds_closest_def gauge_kernel_def
proof (simp, intro allI impI)
  fix x d :: int assume "0 < d"
  let ?q = "(2 * x + d) div (2 * d)"
  have "(2 * x + d) = 2 * d * ?q + (2 * x + d) mod (2 * d)" by simp
  moreover have "0 \<le> (2 * x + d) mod (2 * d)" "(2 * x + d) mod (2 * d) < 2 * d"
    using \<open>0 < d\<close> by simp_all
  ultimately show "\<bar>2 * x - 2 * (d * ?q)\<bar> \<le> d" by (simp add: mult.assoc)
qed

lemma gauge_divides: "divides (k_div_s64 gauge_kernel)"
  by (simp add: divides_def gauge_kernel_def)

lemma gauge_divides_unsigned: "divides_unsigned (k_div_u64 gauge_kernel)"
  by (simp add: divides_unsigned_def gauge_kernel_def)

section \<open>Transfers\<close>

lemma keeps_iacs_clear_sequence:
  "fg_base chip AND 0xff = 0 \<Longrightarrow> keeps fg_trace_ok (qcom_fg_iacs_clear_sequence (traced rm) chip regs)"
  unfolding qcom_fg_iacs_clear_sequence_def
  by (auto intro!: keeps_rules keeps_fg_write keeps_fg_masked_write)

lemma keeps_sram_write_loop:
  "fg_base chip AND 0xff = 0 \<Longrightarrow> keeps fg_trace_ok (sram_write_loop (traced rm) chip regs wr addr len offset)"
proof (induction "traced rm" chip regs wr addr len offset rule: sram_write_loop.induct)
  case (1 chip regs wr addr len offset)
  then show ?case
    by (subst sram_write_loop.simps) (auto intro!: keeps_rules keeps_fg_write)
qed



section \<open>Readings\<close>

lemma word_of_bytes_range: "0 \<le> word_of_bytes bs" "word_of_bytes bs < 65536"
proof -
  have "push_bit 8 (uint (bs ! 1)) < 2 ^ 16" "uint (bs ! 0) < 2 ^ 16"
    using uint_lt2p [of "bs ! 1"] uint_lt2p [of "bs ! 0"] by (simp_all add: push_bit_eq_mult)
  then have "push_bit 8 (uint (bs ! 1)) OR uint (bs ! 0) < 2 ^ 16"
    by (intro OR_upper) (simp_all add: push_bit_eq_mult)
  then show "word_of_bytes bs < 65536" by (simp add: word_of_bytes_def)
  show "0 \<le> word_of_bytes bs" by (simp add: word_of_bytes_def push_bit_eq_mult)
qed

lemma word_of_bytes_eq: "word_of_bytes bs = 256 * uint (bs ! 1) + uint (bs ! 0)"
proof -
  have "push_bit 8 (uint (bs ! 1)) AND uint (bs ! 0) = 0"
  proof (rule bit_eqI)
    fix n
    have "bit (uint (bs ! 0)) n \<Longrightarrow> n < 8" by (simp add: bit_uint_iff)
    then show "bit (push_bit 8 (uint (bs ! 1)) AND uint (bs ! 0)) n = bit (0 :: int) n"
      by (auto simp: bit_and_iff bit_push_bit_iff)
  qed
  then show ?thesis
    by (simp add: word_of_bytes_def disjunctive_add_eq_or push_bit_eq_mult flip: disjunctive_add_eq_or)
qed

text \<open>Scaling a 16-bit reading stays far inside \<open>int\<close>.\<close>

lemma scale_bound:
  assumes "\<bar>t\<bar> \<le> 65535" and "0 \<le> m" and "m \<le> 488281"
  shows "c_int ((t * m) sdiv 1000) = (t * m) sdiv 1000"
    and "\<bar>(t * m) sdiv 1000\<bar> = \<bar>t\<bar> * m div 1000"
proof -
  show abs: "\<bar>(t * m) sdiv 1000\<bar> = \<bar>t\<bar> * m div 1000"
    using assms(2) pos_imp_zdiv_nonneg_iff [of 1000 "\<bar>t\<bar> * m"]
    by (auto simp: signed_divide_int_def abs_mult abs_sgn_eq)
  have "\<bar>t\<bar> * m \<le> 65535 * 488281" using assms by (intro mult_mono) auto
  then have "\<bar>t\<bar> * m div 1000 \<le> 65535 * 488281 div 1000" by (rule zdiv_mono1) simp
  then have "\<bar>(t * m) sdiv 1000\<bar> < 2 ^ 31" by (simp add: abs)
  then show "c_int ((t * m) sdiv 1000) = (t * m) sdiv 1000"
    by (intro c_int_id) linarith+
qed

lemma percent_range:
  fixes u q :: int
  assumes "\<bar>2 * ((u - 1) * 98 - 253 * q)\<bar> \<le> 253" and "0 \<le> u" and "u \<le> 255"
  shows "0 \<le> q" and "q \<le> 98"
  using assms by (auto simp: abs_le_iff)

text \<open>
  C9. The capacity that is reported is the smaller of the two copies of the monotonic
  state of charge, mapped linearly from 1..255 onto 1..99 and rounded to the nearest integer; it
  is between 1 and 99 whatever the gauge returns (so neither an empty nor a full battery is ever
  reported as 0 or 100 percent).
\<close>

theorem capacity_reading:
  assumes "rounds_closest (k_div_round_closest k)"
    and "run_state (qcom_fg_read (k_regmap k) chip BATT_MONOTONIC_SOC 2) (fg_world s) = (Inr [a, b], w')"
  shows "\<exists>v. qcom_fg_get_capacity k chip s = Some (Inr v, s\<lparr>fg_world := w'\<rparr>) \<and>
    1 \<le> v \<and> v \<le> 99 \<and> \<bar>2 * ((uint (min a b) - 1) * 98 - 253 * (v - 1))\<bar> \<le> 253"
proof -
  let ?c = "if a \<noteq> b then if a < b then a else b else a"
  let ?q = "k_div_round_closest k ((uint ?c - 1) * 98) 253"
  have c: "?c = min a b" by (auto simp: min_def)
  have q: "\<bar>2 * ((uint (min a b) - 1) * 98 - 253 * ?q)\<bar> \<le> 253"
    using assms(1) [unfolded rounds_closest_def, rule_format, of 253 "(uint ?c - 1) * 98"]
    unfolding c by simp
  have "0 \<le> uint (min a b)" "uint (min a b) \<le> 255"
    using uint_lt2p [of "min a b"] by simp_all
  with q have "0 \<le> ?q" "?q \<le> 98" using percent_range c by metis+
  moreover have "qcom_fg_get_capacity k chip s = Some (Inr (?q + 1), s\<lparr>fg_world := w'\<rparr>)"
    using assms(2) by (simp add: qcom_fg_get_capacity_def fg_io_def Let_def)
  ultimately show ?thesis using q by (intro exI [of _ "?q + 1"]) (simp add: c)
qed

theorem capacity_reading_witness:
  "\<exists>v s'. qcom_fg_get_capacity gauge_kernel gauge_chip
      (gauge_state0\<lparr>fg_world := gauge0\<lparr>ga_reg := (\<lambda>_. 255)\<rparr>\<rparr>) = Some (Inr v, s') \<and> v = 99"
proof -
  let ?s = "gauge_state0\<lparr>fg_world := gauge0\<lparr>ga_reg := (\<lambda>_. 255)\<rparr>\<rparr>"
  have "run_state (qcom_fg_read (k_regmap gauge_kernel) gauge_chip BATT_MONOTONIC_SOC 2) (fg_world ?s)
      = (Inr [255, 255], gauge0\<lparr>ga_reg := (\<lambda>_. 255)\<rparr>)"
    by (simp add: qcom_fg_read_def fg_address_def gauge_chip_def BATT_MONOTONIC_SOC_def Let_def
        gauge_state0_def gauge0_def ga_peek_def ga_win_def upt_rec)
  from capacity_reading [OF gauge_rounds this] show ?thesis by auto
qed

text \<open>Readings through the SRAM, in terms of its contents.\<close>

definition sram_word :: "(u16 \<Rightarrow> u8) \<Rightarrow> u16 \<Rightarrow> int" where
  "sram_word m a = 256 * uint (m (a + 1)) + uint (m a)"

lemma sram_word_range: "0 \<le> sram_word m a" "sram_word m a < 65536"
  using uint_lt2p [of "m (a + 1)"] uint_lt2p [of "m a"] by (simp_all add: sram_word_def)

context sram_window
begin

lemma sram_read2:
  assumes "qcom_fg_sram_read k chip regs addr 2 (int i) s = Some (Inr bs, s')" and "i < 4"
  shows "word_of_bytes bs = sram_word (sram (fg_world s)) (addr + of_nat i)"
  using sram_read_correct(1) [of addr 2 i s bs s'] assms
  by (simp add: upt_rec word_of_bytes_eq sram_word_def algebra_simps)

lemma sram_read1:
  assumes "qcom_fg_sram_read k chip regs addr 1 (int i) s = Some (Inr bs, s')" and "i < 4"
  shows "bs ! 0 = sram (fg_world s) (addr + of_nat i)"
  using sram_read_correct(1) [of addr 1 i s bs s'] assms by (simp add: upt_rec)

lemma sram_readings:
  assumes "fg_sram_regs chip = Some regs" and "divides (k_div_s64 k)" and "divides_unsigned (k_div_u64 k)"
  shows "qcom_fg_get_temperature k chip s = Some (Inr v, s') \<Longrightarrow>
      v = sram_word (sram (fg_world s)) 0x552 * 625 sdiv 1000 - 2730"
    and "qcom_fg_get_current k chip s = Some (Inr v, s') \<Longrightarrow>
      v = c_s16 (sram_word (sram (fg_world s)) 0x5cf) * 152587 sdiv 1000"
    and "qcom_fg_get_voltage k chip s = Some (Inr v, s') \<Longrightarrow>
      v = sram_word (sram (fg_world s)) 0x5cd * 152587 sdiv 1000"
proof -
  assume "qcom_fg_get_temperature k chip s = Some (Inr v, s')"
  then obtain bs s1 where "qcom_fg_sram_read k chip regs BATT_TEMP 2 (int 2) s = Some (Inr bs, s1)"
    and "v = word_of_bytes bs * 625 sdiv 1000 - 2730"
    by (auto simp: qcom_fg_get_temperature_def with_sram_def assms(1) ok_bind_Inr Let_def)
  with sram_read2 show "v = sram_word (sram (fg_world s)) 0x552 * 625 sdiv 1000 - 2730"
    by (fastforce simp: BATT_TEMP_def)
next
  assume "qcom_fg_get_current k chip s = Some (Inr v, s')"
  then obtain bs s1 where rd: "qcom_fg_sram_read k chip regs BATT_VOLTAGE_CURRENT 2 (int 3) s = Some (Inr bs, s1)"
    and v: "v = c_int (k_div_s64 k (c_s16 (word_of_bytes bs) * 152587) 1000)"
    by (auto simp: qcom_fg_get_current_def with_sram_def assms(1) ok_bind_Inr Let_def)
  have "word_of_bytes bs = sram_word (sram (fg_world s)) 0x5cf"
    using sram_read2 [OF rd] by (simp add: BATT_VOLTAGE_CURRENT_def)
  with v scale_bound(1) [of "c_s16 (word_of_bytes bs)" 152587] c_s16_range [of "word_of_bytes bs"] divides_1000(1) [OF assms(2)]
  show "v = c_s16 (sram_word (sram (fg_world s)) 0x5cf) * 152587 sdiv 1000" by auto
next
  assume "qcom_fg_get_voltage k chip s = Some (Inr v, s')"
  then obtain bs s1 where rd: "qcom_fg_sram_read k chip regs BATT_VOLTAGE_CURRENT 2 (int 1) s = Some (Inr bs, s1)"
    and v: "v = c_int (k_div_u64 k (word_of_bytes bs * 152587) 1000)"
    by (auto simp: qcom_fg_get_voltage_def with_sram_def assms(1) ok_bind_Inr Let_def)
  have "word_of_bytes bs = sram_word (sram (fg_world s)) 0x5cd"
    using sram_read2 [OF rd] by (simp add: BATT_VOLTAGE_CURRENT_def)
  with v scale_bound(1) [of "word_of_bytes bs" 152587] word_of_bytes_range [of bs] divides_1000(2) [OF assms(3), of "word_of_bytes bs * 152587"]
  show "v = sram_word (sram (fg_world s)) 0x5cd * 152587 sdiv 1000" by auto
qed

text \<open>Thresholds: what \<open>set\<close> stores and \<open>get\<close> reads.\<close>

lemma set_threshold_sram:
  assumes "fg_sram_regs chip = Some regs" and "threshold_offset psp = Some (int i)" and "i < 4"
    and "qcom_fg_set_temp_threshold k chip psp val s = Some (Inr (), s')"
  shows "sram (fg_world s') = (sram (fg_world s))(TEMP_THRESHOLD + of_nat i := word_of_int (val sdiv 10 + 30))"
  using sram_write_correct [of "[word_of_int (val sdiv 10 + 30)]" TEMP_THRESHOLD i s s'] assms
  by (simp add: qcom_fg_set_temp_threshold_def with_sram_def Let_def)

lemma get_threshold_sram:
  assumes "fg_sram_regs chip = Some regs" and "threshold_offset psp = Some (int i)" and "i < 4"
    and "qcom_fg_get_temp_threshold k chip psp s = Some (Inr v, s')"
  shows "v = (uint (sram (fg_world s) (TEMP_THRESHOLD + of_nat i)) - 30) * 10"
proof -
  from assms obtain bs s1 where "qcom_fg_sram_read k chip regs TEMP_THRESHOLD 1 (int i) s = Some (Inr bs, s1)"
    and "v = (uint (bs ! 0) - 30) * 10"
    by (auto simp: qcom_fg_get_temp_threshold_def with_sram_def ok_bind_Inr)
  with sram_read1 assms(3) show ?thesis by simp
qed

end

lemma threshold_offset_range:
  "threshold_offset psp = Some x \<Longrightarrow> \<exists>i<4. x = int i"
  by (cases psp) (auto intro: exI [of _ 0] exI [of _ 1] exI [of _ 2] exI [of _ 3])

lemma threshold_offset_inj:
  "threshold_offset p = Some x \<Longrightarrow> threshold_offset q = Some x \<Longrightarrow> p = q"
  by (cases p; cases q) auto

lemma threshold_addr_inj:
  "i < 4 \<Longrightarrow> j < 4 \<Longrightarrow> TEMP_THRESHOLD + of_nat i = TEMP_THRESHOLD + of_nat j \<Longrightarrow> i = j"
  by (drule add_left_imp_eq, drule arg_cong [where f = unat]) (simp add: unat_of_nat)

section \<open>Properties of the SRAM interface\<close>

text \<open>
  C2. Reading the fuel gauge SRAM delivers exactly the requested bytes: a successful
  \<open>qcom_fg_sram_read\<close> of any length from any in-word offset returns the SRAM contents at the
  word address plus offset, byte by byte, although each round reads past the window, and it
  leaves the SRAM unchanged.
\<close>

theorem fg_sram_read_exact:
  assumes "sram_window k chip regs sram win" and "i < 4"
    and "qcom_fg_sram_read k chip regs addr (int n) (int i) s = Some (Inr bs, s')"
  shows "bs = map (\<lambda>j. sram (fg_world s) (addr + of_nat (i + j))) [0..<n] \<and>
    sram (fg_world s') = sram (fg_world s)"
  using sram_window.sram_read_correct [OF assms(1,3,2)] by blast

lemma gauge_state0_ready [simp]: "ga_ready (fg_world gauge_state0)"
  by (simp add: gauge_state0_def gauge0_def ga_ready_def)

theorem fg_sram_read_exact_witness:
  "\<exists>s'. qcom_fg_sram_read gauge_kernel gauge_chip sram_regs_rev3 0x454 6 3 gauge_state0
     = Some (Inr [0x57, 0x58, 0x59, 0x5a, 0x5b, 0x5c], s')"
proof -
  obtain bs s' where rd: "qcom_fg_sram_read gauge_kernel gauge_chip sram_regs_rev3 0x454 (int 6) (int 3) gauge_state0
      = Some (Inr bs, s')"
    by (rule gauge_reads [OF gauge_state0_ready, of 3 "0x454" "int 6"]) auto
  from fg_sram_read_exact [OF gauge.sram_window_axioms _ this]
  have "bs = [0x57, 0x58, 0x59, 0x5a, 0x5b, 0x5c]"
    by (simp add: upt_rec gauge_state0_def gauge0_def)
  with rd show ?thesis by auto
qed

lemma threshold_known_set:
  assumes "qcom_fg_set_temp_threshold k chip psp val s = Some (Inr (), s1)"
  obtains i where "i < 4" "threshold_offset psp = Some (int i)"
  using assms that threshold_offset_range
  by (fastforce simp: qcom_fg_set_temp_threshold_def split: option.splits)

lemma threshold_known_get:
  assumes "qcom_fg_get_temp_threshold k chip psp s = Some (Inr v, s1)"
  obtains i where "i < 4" "threshold_offset psp = Some (int i)"
  using assms that threshold_offset_range
  by (fastforce simp: qcom_fg_get_temp_threshold_def split: option.splits)

lemma uint_byte: "0 \<le> x \<Longrightarrow> x < 256 \<Longrightarrow> uint (word_of_int x :: u8) = x"
  by (simp add: uint_word_of_int)

lemma sdiv10: "- 309 \<le> v \<Longrightarrow> v \<le> 2259 \<Longrightarrow> 0 \<le> v sdiv 10 + 30 \<and> v sdiv 10 + 30 < (256::int)"
  by (cases "0 \<le> v") (auto simp: signed_divide_int_def sgn_if)

text \<open>
  C5. Temperature thresholds round-trip: after a successful \<open>set_temp_threshold\<close> with a
  temperature between -30.9 and 225.9 degrees (in tenths), reading the same threshold gives the
  temperature truncated to whole degrees, reading any other threshold gives what it gave before,
  and only the one SRAM byte of that threshold has changed.
\<close>

theorem fg_threshold_roundtrip:
  assumes "sram_window k chip regs sram win" and "fg_sram_regs chip = Some regs"
    and "- 309 \<le> val" and "val \<le> 2259"
    and "qcom_fg_set_temp_threshold k chip psp val s = Some (Inr (), s1)"
    and "qcom_fg_get_temp_threshold k chip q s = Some (Inr before, s0)"
    and "qcom_fg_get_temp_threshold k chip q s1 = Some (Inr v, s2)"
  shows "v = (if q = psp then (val sdiv 10) * 10 else before) \<and>
    (\<exists>i<4. \<forall>a. a \<noteq> TEMP_THRESHOLD + of_nat i \<longrightarrow> sram (fg_world s1) a = sram (fg_world s) a)"
proof -
  obtain i where i: "i < 4" "threshold_offset psp = Some (int i)"
    by (rule threshold_known_set [OF assms(5)])
  obtain j where j: "j < 4" "threshold_offset q = Some (int j)"
    by (rule threshold_known_get [OF assms(6)])
  note set' = sram_window.set_threshold_sram [OF assms(1,2) i(2,1) assms(5)]
  note get' = sram_window.get_threshold_sram [OF assms(1,2) j(2,1)]
  have byte: "uint (word_of_int (val sdiv 10 + 30) :: u8) = val sdiv 10 + 30"
    using sdiv10 [OF assms(3,4)] by (blast intro: uint_byte)
  have "v = (if q = psp then (val sdiv 10) * 10 else before)"
  proof (cases "q = psp")
    case True
    then have "j = i" using i j by simp
    with get' [OF assms(7)] set' byte True show ?thesis by simp
  next
    case False
    then have "i \<noteq> j" using i j threshold_offset_inj by blast
    then have "TEMP_THRESHOLD + of_nat j \<noteq> TEMP_THRESHOLD + of_nat i"
      using threshold_addr_inj i j by metis
    with get' [OF assms(6)] get' [OF assms(7)] set' False show ?thesis by simp
  qed
  with i(1) set' show ?thesis by (auto intro!: exI [of _ i])
qed

lemma gauge_sets_threshold:
  assumes "ga_ready (fg_world s)" and "threshold_offset psp = Some (int i)" and "i < 4"
  obtains s' where "qcom_fg_set_temp_threshold gauge_kernel gauge_chip psp val s = Some (Inr (), s')"
    "ga_ready (fg_world s')"
  using gauge_writes [OF assms(1,3), of "[word_of_int (val sdiv 10 + 30)]" TEMP_THRESHOLD 1] assms(2) that
  by (auto simp: qcom_fg_set_temp_threshold_def with_sram_def Let_def gauge_chip_def)

lemma gauge_gets_threshold:
  assumes "ga_ready (fg_world s)" and "threshold_offset psp = Some (int i)" and "i < 4"
  obtains v s' where "qcom_fg_get_temp_threshold gauge_kernel gauge_chip psp s = Some (Inr v, s')"
    "ga_ready (fg_world s')"
proof -
  obtain bs s' where "qcom_fg_sram_read gauge_kernel gauge_chip sram_regs_rev3 TEMP_THRESHOLD 1 (int i) s = Some (Inr bs, s')"
    "ga_ready (fg_world s')" by (rule gauge_reads [OF assms(1,3)])
  moreover have "fg_sram_regs gauge_chip = Some sram_regs_rev3" by (simp add: gauge_chip_def)
  ultimately show ?thesis
    using assms(2) that by (auto simp: qcom_fg_get_temp_threshold_def with_sram_def)
qed

theorem fg_threshold_roundtrip_witness:
  "\<exists>s1 s2. qcom_fg_set_temp_threshold gauge_kernel gauge_chip PROP_TEMP_ALERT_MAX 457 gauge_state0 = Some (Inr (), s1) \<and>
     qcom_fg_get_temp_threshold gauge_kernel gauge_chip PROP_TEMP_ALERT_MAX s1 = Some (Inr 450, s2)"
proof -
  have off: "threshold_offset PROP_TEMP_ALERT_MAX = Some (int 3)" "3 < (4::nat)" by simp_all
  obtain s1 where s1: "qcom_fg_set_temp_threshold gauge_kernel gauge_chip PROP_TEMP_ALERT_MAX 457 gauge_state0 = Some (Inr (), s1)"
    "ga_ready (fg_world s1)" by (rule gauge_sets_threshold [OF gauge_state0_ready off])
  obtain v s2 where s2: "qcom_fg_get_temp_threshold gauge_kernel gauge_chip PROP_TEMP_ALERT_MAX s1 = Some (Inr v, s2)"
    by (rule gauge_gets_threshold [OF s1(2) off])
  obtain v0 s0 where s0: "qcom_fg_get_temp_threshold gauge_kernel gauge_chip PROP_TEMP_ALERT_MAX gauge_state0 = Some (Inr v0, s0)"
    by (rule gauge_gets_threshold [OF gauge_state0_ready off])
  have "fg_sram_regs gauge_chip = Some sram_regs_rev3" by (simp add: gauge_chip_def)
  from fg_threshold_roundtrip [OF gauge.sram_window_axioms this _ _ s1(1) s0 s2]
  have "v = 450" by (simp add: signed_divide_int_def)
  with s1 s2 show ?thesis by blast
qed

section \<open>Physical readings\<close>

lemma sdiv_1000_bounds:
  "0 \<le> a \<Longrightarrow> a \<le> b \<Longrightarrow> 0 \<le> a sdiv 1000 \<and> a sdiv 1000 \<le> b div (1000 :: int)"
  by (simp add: signed_divide_int_def sgn_if zdiv_mono1 pos_imp_zdiv_nonneg_iff)

text \<open>
  C10. The physical readings of the first-generation gauge are exact linear functions of the SRAM
  words at 0x552 (temperature), 0x5cf (current, signed) and 0x5cd (voltage), with no overflow of
  the C types they are computed in: temperature in tenths of a degree from Kelvin units of
  0.0625, current and voltage in units of 152.587 micro-amperes and micro-volts.
\<close>

theorem fg_sram_readings:
  assumes "sram_window k chip regs sram win" and "fg_sram_regs chip = Some regs"
    and "divides (k_div_s64 k)" and "divides_unsigned (k_div_u64 k)"
    and "qcom_fg_get_temperature k chip s = Some (Inr t, st)"
    and "qcom_fg_get_current k chip s = Some (Inr c, sc)"
    and "qcom_fg_get_voltage k chip s = Some (Inr v, sv)"
  shows "t = sram_word (sram (fg_world s)) 0x552 * 625 sdiv 1000 - 2730 \<and> - 2730 \<le> t \<and> t \<le> 38229 \<and>
    c = c_s16 (sram_word (sram (fg_world s)) 0x5cf) * 152587 sdiv 1000 \<and> \<bar>c\<bar> \<le> 4999970 \<and>
    v = sram_word (sram (fg_world s)) 0x5cd * 152587 sdiv 1000 \<and> 0 \<le> v \<and> v \<le> 9999789"
proof -
  note eqs = sram_window.sram_readings [OF assms(1-4)]
  let ?m = "sram (fg_world s)"
  have t: "t = sram_word ?m 0x552 * 625 sdiv 1000 - 2730" by (rule eqs(1) [OF assms(5)])
  have v: "v = sram_word ?m 0x5cd * 152587 sdiv 1000" by (rule eqs(3) [OF assms(7)])
  have c: "c = c_s16 (sram_word ?m 0x5cf) * 152587 sdiv 1000" by (rule eqs(2) [OF assms(6)])
  have "\<bar>c\<bar> = \<bar>c_s16 (sram_word ?m 0x5cf)\<bar> * 152587 div 1000"
    unfolding c by (rule scale_bound(2)) (use c_s16_range [of "sram_word ?m 0x5cf"] in auto)
  moreover have "\<bar>c_s16 (sram_word ?m 0x5cf)\<bar> * 152587 \<le> 32768 * 152587"
    using c_s16_range [of "sram_word ?m 0x5cf"] by auto
  ultimately have "\<bar>c\<bar> \<le> 4999970" by linarith
  with t v c sdiv_1000_bounds [of "sram_word ?m 0x552 * 625" "65535 * 625"]
    sdiv_1000_bounds [of "sram_word ?m 0x5cd * 152587" "65535 * 152587"]
    sram_word_range [of ?m "0x552"] sram_word_range [of ?m "0x5cd"]
  show ?thesis by auto
qed

lemma gauge_answers:
  assumes "ga_ready (fg_world s)"
  shows "\<exists>v s'. qcom_fg_get_temperature gauge_kernel gauge_chip s = Some (Inr v, s')"
    and "\<exists>v s'. qcom_fg_get_current gauge_kernel gauge_chip s = Some (Inr v, s')"
    and "\<exists>v s'. qcom_fg_get_voltage gauge_kernel gauge_chip s = Some (Inr v, s')"
proof -
  have regs: "fg_sram_regs gauge_chip = Some sram_regs_rev3" by (simp add: gauge_chip_def)
  show "\<exists>v s'. qcom_fg_get_temperature gauge_kernel gauge_chip s = Some (Inr v, s')"
    by (rule gauge_reads [OF assms, of 2 BATT_TEMP 2])
      (auto simp: qcom_fg_get_temperature_def with_sram_def regs Let_def)
  show "\<exists>v s'. qcom_fg_get_current gauge_kernel gauge_chip s = Some (Inr v, s')"
    by (rule gauge_reads [OF assms, of 3 BATT_VOLTAGE_CURRENT 2])
      (auto simp: qcom_fg_get_current_def with_sram_def regs Let_def)
  show "\<exists>v s'. qcom_fg_get_voltage gauge_kernel gauge_chip s = Some (Inr v, s')"
    by (rule gauge_reads [OF assms, of 1 BATT_VOLTAGE_CURRENT 2])
      (auto simp: qcom_fg_get_voltage_def with_sram_def regs Let_def)
qed

theorem fg_sram_readings_witness:
  "\<exists>s'. qcom_fg_get_voltage gauge_kernel gauge_chip gauge_state0 = Some (Inr 8078108, s')"
proof -
  have regs: "fg_sram_regs gauge_chip = Some sram_regs_rev3" by (simp add: gauge_chip_def)
  obtain t st c sc v sv where
    "qcom_fg_get_temperature gauge_kernel gauge_chip gauge_state0 = Some (Inr t, st)"
    "qcom_fg_get_current gauge_kernel gauge_chip gauge_state0 = Some (Inr c, sc)"
    and sv: "qcom_fg_get_voltage gauge_kernel gauge_chip gauge_state0 = Some (Inr v, sv)"
    using gauge_answers [OF gauge_state0_ready] by metis
  from fg_sram_readings [OF gauge.sram_window_axioms regs gauge_divides gauge_divides_unsigned this]
  have "v = 8078108" by (simp add: sram_word_def gauge_state0_def gauge0_def signed_divide_int_def)
  with sv show ?thesis by blast
qed

section \<open>Probe\<close>

context sram_window
begin

lemma set_default_thresholds_sram:
  assumes "fg_sram_regs chip = Some regs"
    and "set_default_thresholds (ops_fg k chip) s = Some (Inr (), s')"
  shows "map (sram (fg_world s')) [0x454, 0x455, 0x456, 0x457] = [40, 70, 35, 75]"
    and "a \<notin> {0x454, 0x455, 0x456, 0x457} \<Longrightarrow> sram (fg_world s') a = sram (fg_world s) a"
proof -
  from assms(2) obtain s1 s2 s3 where sets:
    "qcom_fg_set_temp_threshold k chip PROP_TEMP_MIN BATT_TEMP_JEITA_COLD s = Some (Inr (), s1)"
    "qcom_fg_set_temp_threshold k chip PROP_TEMP_MAX BATT_TEMP_JEITA_WARM s1 = Some (Inr (), s2)"
    "qcom_fg_set_temp_threshold k chip PROP_TEMP_ALERT_MIN BATT_TEMP_JEITA_COOL s2 = Some (Inr (), s3)"
    "qcom_fg_set_temp_threshold k chip PROP_TEMP_ALERT_MAX BATT_TEMP_JEITA_HOT s3 = Some (Inr (), s')"
    by (auto simp: set_default_thresholds_def ops_fg_def ok_bind_Inr)
  have off: "threshold_offset PROP_TEMP_MIN = Some (int 0)" "threshold_offset PROP_TEMP_MAX = Some (int 1)"
    "threshold_offset PROP_TEMP_ALERT_MIN = Some (int 2)" "threshold_offset PROP_TEMP_ALERT_MAX = Some (int 3)"
    by simp_all
  have "sram (fg_world s') =
    (sram (fg_world s))(0x454 := 40, 0x455 := 70, 0x456 := 35, 0x457 := 75)"
    using set_threshold_sram [OF assms(1) off(1) _ sets(1)] set_threshold_sram [OF assms(1) off(2) _ sets(2)]
      set_threshold_sram [OF assms(1) off(3) _ sets(3)] set_threshold_sram [OF assms(1) off(4) _ sets(4)]
    by (simp add: TEMP_THRESHOLD_def BATT_TEMP_JEITA_COLD_def BATT_TEMP_JEITA_WARM_def
        BATT_TEMP_JEITA_COOL_def BATT_TEMP_JEITA_HOT_def signed_divide_int_def)
  then show "map (sram (fg_world s')) [0x454, 0x455, 0x456, 0x457] = [40, 70, 35, 75]"
    and "a \<notin> {0x454, 0x455, 0x456, 0x457} \<Longrightarrow> sram (fg_world s') a = sram (fg_world s) a"
    by simp_all
qed

end

lemma set_threshold_requests:
  assumes "wait_keeps_requests k" and "0 \<le> sram_requests s"
    and "qcom_fg_set_temp_threshold k chip psp val s = Some (r, s')"
  shows "sram_requests s' = sram_requests s"
  using assms sram_write_requests [OF assms(1,2)]
  by (auto simp: qcom_fg_set_temp_threshold_def with_sram_def Let_def split: option.splits)

lemma set_default_thresholds_requests:
  assumes "wait_keeps_requests k" and "0 \<le> sram_requests s"
    and "set_default_thresholds (ops_fg k chip) s = Some (Inr (), s')"
  shows "sram_requests s' = sram_requests s"
  using assms(2,3) set_threshold_requests [OF assms(1)]
  by (auto simp: set_default_thresholds_def ops_fg_def ok_bind_Inr) metis

text \<open>The last steps of a successful \<open>probe\<close> of a gauge with an SRAM.\<close>

lemma init_sram_result:
  "qcom_fg_init_sram k env chip s = Some (Inr chip', s') \<Longrightarrow>
     fg_sram_regs chip' = fg_sram_regs chip \<and> fg_base chip' = fg_base chip \<and> sram_requests s' = 0"
  by (auto simp: qcom_fg_init_sram_def ok_bind_Inr Let_def)

lemma sram_ops: "fg_data_sram_regs data = Some regs \<Longrightarrow> fg_data_ops data = ops_fg"
  by (cases data) simp_all

lemma probe_steps:
  assumes "qcom_fg_probe k env data s = Some (Inr (chip, batt), s')"
    and "fg_data_sram_regs data = Some regs"
  obtains s1 where "pe_batt_info env = Inr batt" "pe_reg_address env = Some (fg_base chip)"
    "fg_sram_regs chip = Some regs" "sram_requests s1 = 0"
    "set_default_thresholds (ops_fg k chip) s1 = Some (Inr (), s')"
  using assms(1) that
  by (auto simp: qcom_fg_probe_def ok_bind_Inr Let_def assms(2) sram_ops [OF assms(2)] dest!: init_sram_result split: if_splits option.splits)

text \<open>
  C11. Start-up of a gauge with an SRAM: whenever \<open>probe\<close> succeeds, no SRAM request is
  outstanding and the four temperature thresholds hold the driver's defaults, stored in SRAM as
  whole degrees plus 30: 0x454 (lower limit) 10, 0x455 (upper limit) 40, 0x456 (lower alert) 5
  and 0x457 (upper alert) 45 degrees. (The alert range is the wider one: the JEITA constants are
  handed out crosswise.)
\<close>

theorem fg_probe_thresholds:
  assumes "sram_window k chip regs sram win" and "fg_data_sram_regs data = Some regs"
    and "wait_keeps_requests k"
    and "qcom_fg_probe k env data s = Some (Inr (chip, batt), s')"
  shows "map (sram (fg_world s')) [0x454, 0x455, 0x456, 0x457] = [10 + 30, 40 + 30, 5 + 30, 45 + 30] \<and>
    sram_requests s' = 0 \<and> fg_sram_regs chip = Some regs \<and> pe_batt_info env = Inr batt"
proof -
  obtain s1 where s1: "pe_batt_info env = Inr batt" "fg_sram_regs chip = Some regs" "sram_requests s1 = 0"
    "set_default_thresholds (ops_fg k chip) s1 = Some (Inr (), s')"
    by (rule probe_steps [OF assms(4,2)])
  with sram_window.set_default_thresholds_sram(1) [OF assms(1) s1(2,4)]
    set_default_thresholds_requests [OF assms(3) _ s1(4)]
  show ?thesis by simp
qed

lemma gauge_sets_defaults:
  assumes "ga_ready (fg_world s)"
  obtains s' where "set_default_thresholds (ops_fg gauge_kernel gauge_chip) s = Some (Inr (), s')"
proof -
  have off: "threshold_offset PROP_TEMP_MIN = Some (int 0)" "threshold_offset PROP_TEMP_MAX = Some (int 1)"
    "threshold_offset PROP_TEMP_ALERT_MIN = Some (int 2)" "threshold_offset PROP_TEMP_ALERT_MAX = Some (int 3)"
    by simp_all
  obtain s1 where s1: "qcom_fg_set_temp_threshold gauge_kernel gauge_chip PROP_TEMP_MIN BATT_TEMP_JEITA_COLD s = Some (Inr (), s1)"
    "ga_ready (fg_world s1)" by (rule gauge_sets_threshold [OF assms off(1)]) auto
  obtain s2 where s2: "qcom_fg_set_temp_threshold gauge_kernel gauge_chip PROP_TEMP_MAX BATT_TEMP_JEITA_WARM s1 = Some (Inr (), s2)"
    "ga_ready (fg_world s2)" by (rule gauge_sets_threshold [OF s1(2) off(2)]) auto
  obtain s3 where s3: "qcom_fg_set_temp_threshold gauge_kernel gauge_chip PROP_TEMP_ALERT_MIN BATT_TEMP_JEITA_COOL s2 = Some (Inr (), s3)"
    "ga_ready (fg_world s3)" by (rule gauge_sets_threshold [OF s2(2) off(3)]) auto
  obtain s4 where s4: "qcom_fg_set_temp_threshold gauge_kernel gauge_chip PROP_TEMP_ALERT_MAX BATT_TEMP_JEITA_HOT s3 = Some (Inr (), s4)"
    by (rule gauge_sets_threshold [OF s3(2) off(4)]) auto
  show ?thesis
    by (rule that [of s4]) (simp add: set_default_thresholds_def ops_fg_def s1 s2 s3 s4)
qed

lemma ga_probe_pages [simp]:
  "ga_page_ok MEM_INTF_IMA_CFG" "ga_page_ok MEM_INTF_IMA_EXP_STS" "ga_page_ok MEM_INTF_IMA_HW_STS"
  "ga_page_ok MEM_INTF_IMA_ERR_STS" "ga_page_ok MEM_IF_DMA_STS" "ga_page_ok MEM_IF_DMA_CTL"
  "ga_page_ok (ucast (sr_addr sram_regs_rev3 + 1))" "ga_page_ok (ucast (sr_wr0 sram_regs_rev3 + 3))"
  "ga_page_ok (ucast (sr_rd0 sram_regs_rev3 + 3))"
  by (simp_all add: ga_page_ok_def fg_address_def gauge_chip_def sram_regs_rev3_def MEM_INTF_IMA_CFG_def
      MEM_INTF_IMA_EXP_STS_def MEM_INTF_IMA_HW_STS_def MEM_INTF_IMA_ERR_STS_def MEM_IF_DMA_STS_def MEM_IF_DMA_CTL_def)

definition gauge_env :: fg_probe_env where
  "gauge_env = \<lparr>pe_alloc_ok = True, pe_regmap_found = True, pe_reg_address = Some 0x4000,
     pe_chg_psy = Inr (), pe_register = Inr (),
     pe_batt_info = Inr \<lparr>voltage_min_design_uv = 3400000, voltage_max_design_uv = 4400000,
       charge_full_design_uah = 3000000, charge_term_current_ua = 100000,
       constant_charge_current_max_ua = 2000000\<rparr>,
     pe_irq = (\<lambda>_. 7), pe_request_irq = (\<lambda>_. Inr ()), pe_workqueue = True\<rparr>"

text \<open>The chip before its work queue exists behaves as \<open>gauge_chip\<close>.\<close>

lemma sram_wq_irrelevant:
  "fg_address (chip\<lparr>fg_sram_wq := b\<rparr>) a = fg_address chip a"
  "qcom_fg_read rm (chip\<lparr>fg_sram_wq := b\<rparr>) a n = qcom_fg_read rm chip a n"
  "qcom_fg_write rm (chip\<lparr>fg_sram_wq := b\<rparr>) bs a = qcom_fg_write rm chip bs a"
  by (simp_all add: fg_address_def qcom_fg_read_def qcom_fg_write_def fun_eq_iff)

lemma sram_wq_irrelevant2:
  "qcom_fg_masked_write rm (chip\<lparr>fg_sram_wq := b\<rparr>) a m v = qcom_fg_masked_write rm chip a m v"
  "qcom_fg_clear_ima k (chip\<lparr>fg_sram_wq := b\<rparr>) c s = qcom_fg_clear_ima k chip c s"
  by (simp_all add: qcom_fg_masked_write_def qcom_fg_clear_ima_def qcom_fg_iacs_clear_sequence_def
      with_sram_def sram_wq_irrelevant cong: if_cong)

lemma gauge_clear_ima:
  assumes "ga_ready (fg_world s)"
  obtains r s' where "qcom_fg_clear_ima gauge_kernel gauge_chip c s = Some (r, s')"
    "r = Inr () \<or> r = Inl (- EAGAIN)" "ga_ready (fg_world s')"
proof -
  let ?rd = "\<lambda>a. qcom_fg_read gauge_regmap gauge_chip a 1"
  obtain e s1 where s1: "fg_io (?rd MEM_INTF_IMA_ERR_STS) s = (Inr e, s1)" "ga_ready (fg_world s1)"
    using ga_io [OF ga_ok_read assms] by (metis ga_probe_pages)
  obtain x s2 where s2: "fg_io (?rd MEM_INTF_IMA_EXP_STS) s1 = (Inr x, s2)" "ga_ready (fg_world s2)"
    using ga_io [OF ga_ok_read s1(2)] by (metis ga_probe_pages)
  obtain h s3 where s3: "fg_io (?rd MEM_INTF_IMA_HW_STS) s2 = (Inr h, s3)" "ga_ready (fg_world s3)"
    using ga_io [OF ga_ok_read s2(2)] by (metis ga_probe_pages)
  have clr: "ga_ok (qcom_fg_iacs_clear_sequence gauge_regmap gauge_chip sram_regs_rev3)"
    unfolding qcom_fg_iacs_clear_sequence_def by (intro ga_ok_rules) simp_all
  have regs: "fg_sram_regs gauge_chip = Some sram_regs_rev3" by (simp add: gauge_chip_def)
  obtain v2 t2 where c2: "fg_io (qcom_fg_iacs_clear_sequence gauge_regmap gauge_chip sram_regs_rev3) s2 = (Inr v2, t2)"
    "ga_ready (fg_world t2)" by (rule ga_io [OF clr s2(2)])
  obtain v3 t3 where c3: "fg_io (qcom_fg_iacs_clear_sequence gauge_regmap gauge_chip sram_regs_rev3) s3 = (Inr v3, t3)"
    "ga_ready (fg_world t3)" by (rule ga_io [OF clr s3(2)])
  show ?thesis
    using s1 s2 s3 c2 c3 that
    by (cases c; cases "hd h AND 0x0f \<noteq> drop_bit 4 (hd h)"; cases "has (hd x) 0xfb")
      (auto simp: qcom_fg_clear_ima_def with_sram_def regs)
qed

lemma gauge_probes:
  "\<exists>s'. qcom_fg_probe gauge_kernel gauge_env PMI8996_FG gauge_state0 = Some (Inr (gauge_chip, the_battery), s')"
  if "pe_batt_info gauge_env = Inr the_battery" for the_battery
proof -
  obtain v1 s1 where s1: "fg_io (qcom_fg_masked_write gauge_regmap gauge_chip MEM_INTF_IMA_CFG 8 8) gauge_state0 = (Inr v1, s1)"
    "ga_ready (fg_world s1)"
    by (rule ga_io [OF ga_ok_masked_write [OF ga_probe_pages(1)] gauge_state0_ready]) blast
  obtain r s2 where s2: "qcom_fg_clear_ima gauge_kernel gauge_chip True s1 = Some (r, s2)"
    "r = Inr () \<or> r = Inl (- EAGAIN)" "ga_ready (fg_world s2)" by (rule gauge_clear_ima [OF s1(2)])
  obtain d s3 where s3: "fg_io (qcom_fg_read gauge_regmap gauge_chip MEM_IF_DMA_STS 1) s2 = (Inr d, s3)"
    "ga_ready (fg_world s3)" by (rule ga_io [OF ga_ok_read [OF ga_probe_pages(5)] s2(3)]) blast
  obtain v4 s4 where s4: "fg_io (qcom_fg_masked_write gauge_regmap gauge_chip MEM_IF_DMA_CTL 1
      (if has (hd d) 6 then 1 else 0)) s3 = (Inr v4, s4)"
    "ga_ready (fg_world s4)" by (rule ga_io [OF ga_ok_masked_write [OF ga_probe_pages(6)] s3(2)]) blast
  obtain s5 where s5: "set_default_thresholds (ops_fg gauge_kernel gauge_chip) (s4\<lparr>sram_requests := 0\<rparr>) = Some (Inr (), s5)"
    by (rule gauge_sets_defaults [of "s4\<lparr>sram_requests := 0\<rparr>"]) (simp_all add: s4)
  have chip: "\<lparr>fg_base = 0x4000, fg_sram_regs = Some sram_regs_rev3, fg_sram_wq = b\<rparr> = gauge_chip\<lparr>fg_sram_wq := b\<rparr>" for b
    by (simp add: gauge_chip_def)
  have regs: "fg_sram_regs gauge_chip = Some sram_regs_rev3" by (simp add: gauge_chip_def)
  have wq: "gauge_chip\<lparr>fg_sram_wq := True\<rparr> = gauge_chip" by (simp add: gauge_chip_def)
  have env: "pe_alloc_ok gauge_env" "pe_regmap_found gauge_env" "pe_reg_address gauge_env = Some 0x4000"
    "pe_chg_psy gauge_env = Inr ()" "pe_register gauge_env = Inr ()" "irq_byname gauge_env n = Inr ()"
    "pe_request_irq gauge_env n = Inr ()" "pe_workqueue gauge_env" for n
    by (simp_all add: gauge_env_def irq_byname_def)
  show ?thesis
    using s2(2) by (elim disjE) (simp_all add: qcom_fg_probe_def env that chip sram_wq_irrelevant sram_wq_irrelevant2
      Let_def s1 s2 s3 s4 s5 wq regs qcom_fg_init_sram_def del: One_nat_def)
qed

theorem fg_probe_thresholds_witness:
  "\<exists>chip batt s'. qcom_fg_probe gauge_kernel gauge_env PMI8996_FG gauge_state0 = Some (Inr (chip, batt), s') \<and>
     ga_sram (fg_world s') 0x457 = 75"
proof -
  obtain batt where "pe_batt_info gauge_env = Inr batt" by (simp add: gauge_env_def)
  then obtain s' where run: "qcom_fg_probe gauge_kernel gauge_env PMI8996_FG gauge_state0 = Some (Inr (gauge_chip, batt), s')"
    using gauge_probes by blast
  have "wait_keeps_requests gauge_kernel" by (simp add: wait_keeps_requests_def gauge_wait_def)
  from fg_probe_thresholds [OF gauge.sram_window_axioms _ this run] run
  show ?thesis by auto
qed

section \<open>The request counter\<close>

text \<open>
  C12. Every SRAM access gives its request back: on each path, errors and timeouts included, a
  read or a write of any length ends with the request counter it started with.
\<close>

theorem fg_requests_balanced:
  assumes "wait_keeps_requests k" and "0 \<le> sram_requests s"
  shows "(qcom_fg_sram_read k chip regs addr len offset s = Some (r, s') \<longrightarrow> sram_requests s' = sram_requests s) \<and>
    (qcom_fg_sram_write k chip regs val addr len offset s = Some (w, s'') \<longrightarrow> sram_requests s'' = sram_requests s)"
  using sram_read_requests [OF assms] sram_write_requests [OF assms] by blast

theorem fg_requests_balanced_witness:
  "\<exists>s'. qcom_fg_sram_write gauge_kernel gauge_chip sram_regs_rev3 [1, 2] 0x454 2 1 gauge_state0 = Some (Inr (), s') \<and>
     sram_requests s' = 0"
proof -
  obtain s' where run: "qcom_fg_sram_write gauge_kernel gauge_chip sram_regs_rev3 [1, 2] 0x454 2 (int 1) gauge_state0
      = Some (Inr (), s')"
    by (rule gauge_writes [OF gauge_state0_ready, of 1 "[1, 2]" "0x454" 2]) auto
  have "wait_keeps_requests gauge_kernel" by (simp add: wait_keeps_requests_def gauge_wait_def)
  from fg_requests_balanced [OF this, of gauge_state0] run show ?thesis by (force simp: gauge_state0_def)
qed

section \<open>Masked writes on a lawful bus\<close>

context regmap_bus
begin

lemma wp_fg_write1:
  assumes "\<And>e w'. e < 0 \<Longrightarrow> unchanged reg vol {(fg_address chip a AND 0xff00) OR 0xd0, fg_address chip a} w w' \<Longrightarrow> Q (Inl e) w'"
    and "\<And>w'. unchanged reg vol {(fg_address chip a AND 0xff00) OR 0xd0, fg_address chip a} w w' \<Longrightarrow>
      (fg_address chip a \<notin> vol \<Longrightarrow> reg w' (fg_address chip a) = x) \<Longrightarrow> Q (Inr ()) w'"
  shows "wp (qcom_fg_write rm chip [x] a) Q w"
proof -
  let ?u = "(fg_address chip a AND 0xff00) OR 0xd0" and ?a = "fg_address chip a"
  have last: "wp (regmap_bulk_write rm ?a [x]) Q w1" if "unchanged reg vol {?u} w w1" for w1
    using that by (intro wp_bulk_write1 assms) (auto simp: unchanged_def)
  have first: "wp (regmap_bulk_write rm ?u [0xa5]) (case_sum (\<lambda>e. Q (Inl e)) (\<lambda>_. wp (regmap_bulk_write rm ?a [x]) Q)) w"
    by (rule wp_bulk_write1) (auto intro: last assms(1) elim: unchanged_mono)
  have invalid: "Q (Inl (- EINVAL)) w" by (rule assms(1)) simp_all
  show ?thesis
    using first last [of w] invalid by (simp add: qcom_fg_write_def)
qed

lemma fg_masked_write_law:
  assumes "run_state (qcom_fg_masked_write rm chip a m v) w = (r, w')"
  shows "unchanged reg vol {(fg_address chip a AND 0xff00) OR 0xd0, fg_address chip a} w w' \<and>
    (case r of Inl e \<Rightarrow> e < 0 | Inr _ \<Rightarrow>
       fg_address chip a \<notin> vol \<longrightarrow> reg w' (fg_address chip a) = masked (reg w (fg_address chip a)) m v)"
  (is "?Q r w'")
proof (rule wp_run [OF assms, of ?Q])
  let ?a = "fg_address chip a" and ?A = "{(fg_address chip a AND 0xff00) OR 0xd0, fg_address chip a}"
  have rest: "wp (qcom_fg_write rm chip [masked (hd bs) m v] a) ?Q w1"
    if "unchanged reg vol {} w w1" "?a \<notin> vol \<Longrightarrow> hd bs = reg w ?a" for bs w1
  proof (rule wp_fg_write1)
    fix e w2 assume "e < (0::int)" "unchanged reg vol ?A w1 w2"
    with unchanged_trans [OF that(1)] show "?Q (Inl e) w2" by simp
  next
    fix w2 assume "unchanged reg vol ?A w1 w2" "?a \<notin> vol \<Longrightarrow> reg w2 ?a = masked (hd bs) m v"
    with unchanged_trans [OF that(1)] that(2) show "?Q (Inr ()) w2" by simp
  qed
  have "wp (regmap_bulk_read rm ?a 1) (case_sum (\<lambda>e. ?Q (Inl e)) (\<lambda>bs. wp (qcom_fg_write rm chip [masked (hd bs) m v] a) ?Q)) w"
  proof (rule wp_bulk_read)
    fix bs w1 assume "unchanged reg vol {} w w1" "length bs = 1"
      "\<And>i. i < 1 \<Longrightarrow> ?a + of_nat i \<notin> vol \<Longrightarrow> bs ! i = reg w (?a + of_nat i)"
    then have "wp (qcom_fg_write rm chip [masked (hd bs) m v] a) ?Q w1"
      by (intro rest) (cases bs; auto)+
    then show "case_sum (\<lambda>e. ?Q (Inl e)) (\<lambda>bs. wp (qcom_fg_write rm chip [masked (hd bs) m v] a) ?Q) (Inr bs) w1"
      by simp
  qed (auto elim: unchanged_mono)
  then show "wp (qcom_fg_masked_write rm chip a m v) ?Q w"
    unfolding qcom_fg_masked_write_def qcom_fg_read_def wp_ok_then by simp
qed

end

text \<open>
  A masked write of the gauge is a read-modify-write of one register: on a lawful bus it
  touches at most that register and the unlock register of its page; when it succeeds the bits
  of the mask hold the new value and all others the old one.
\<close>

theorem fg_masked_write_effect:
  assumes "regmap_bus rm reg vol"
    and "run_state (qcom_fg_masked_write rm chip a m v) w = (r, w')"
  shows "unchanged reg vol {(fg_address chip a AND 0xff00) OR 0xd0, fg_address chip a} w w' \<and>
    (case r of Inl e \<Rightarrow> e < 0 | Inr _ \<Rightarrow>
       fg_address chip a \<notin> vol \<longrightarrow> reg w' (fg_address chip a) = masked (reg w (fg_address chip a)) m v)"
  by (rule regmap_bus.fg_masked_write_law [OF assms])

theorem fg_masked_write_effect_witness:
  "\<exists>w'. run_state (qcom_fg_masked_write (sim_regmap {}) gauge_chip 0x4e2 0x0f 0x05)
     \<lparr>sim_reg = (\<lambda>_. 0xa3), sim_err = [], sim_hw = []\<rparr> = (Inr (), w') \<and> sim_reg w' 0x44e2 = 0xa5"
proof -
  let ?w = "\<lparr>sim_reg = (\<lambda>_. 0xa3), sim_err = [], sim_hw = []\<rparr>"
  obtain r w' where run: "run_state (qcom_fg_masked_write (sim_regmap {}) gauge_chip 0x4e2 0x0f 0x05) ?w = (r, w')"
    by (cases "run_state (qcom_fg_masked_write (sim_regmap {}) gauge_chip 0x4e2 0x0f 0x05) ?w")
  then have "r = Inr ()"
    by (auto simp: qcom_fg_masked_write_def qcom_fg_read_def qcom_fg_write_def run_ok_then fg_address_def
        gauge_chip_def sim_regmap_def run_sim_transfer sim_tick_def Let_def)
  with fg_masked_write_effect [OF sim.regmap_bus_axioms run] run show ?thesis
    by (simp add: fg_address_def gauge_chip_def masked_def)
qed

section \<open>Error clearing\<close>

text \<open>
  Clearing an IMA exception: once the three status registers are read, the outcome is
  decided by the exception bits and the hardware status. Without an exception nothing is written
  and the result is 0; with one, the clear sequence runs, and the result is -EAGAIN exactly when
  that sequence succeeds: a failing sequence is reported as success, and a gauge without SRAM
  registers (PMI8998) has no outcome at all, because the sequence dereferences a null pointer.
\<close>

theorem fg_clear_ima_outcome:
  assumes "fg_io (qcom_fg_read (k_regmap k) chip MEM_INTF_IMA_ERR_STS 1) s = (Inr err, s1)"
    and "fg_io (qcom_fg_read (k_regmap k) chip MEM_INTF_IMA_EXP_STS 1) s1 = (Inr exp, s2)"
    and "fg_io (qcom_fg_read (k_regmap k) chip MEM_INTF_IMA_HW_STS 1) s2 = (Inr hw, s3)"
  shows "qcom_fg_clear_ima k chip True s =
    (if hd hw AND 0x0f = drop_bit 4 (hd hw) \<and> \<not> has (hd exp) 0xfb then Some (Inr (), s3)
     else case fg_sram_regs chip of
       None \<Rightarrow> None
     | Some regs \<Rightarrow> (case fg_io (qcom_fg_iacs_clear_sequence (k_regmap k) chip regs) s3 of
         (r, s4) \<Rightarrow> Some (if isl r then Inr () else Inl (- EAGAIN), s4)))"
  using assms by (auto simp: qcom_fg_clear_ima_def with_sram_def split: option.splits sum.splits prod.splits)

theorem fg_clear_ima_outcome_witness:
  "\<exists>s1 s2 s3. fst (fg_io (qcom_fg_read gauge_regmap gauge_chip MEM_INTF_IMA_EXP_STS 1) s1) = Inr [0] \<and>
     qcom_fg_clear_ima gauge_kernel gauge_chip True gauge_state0 = Some (Inr (), s3) \<and> s2 = s3"
proof -
  note [simp] = qcom_fg_read_def fg_io_def fg_address_def gauge_chip_def gauge_state0_def gauge0_def Let_def
    ga_peek_def ga_win_def upt_rec MEM_INTF_IMA_ERR_STS_def MEM_INTF_IMA_EXP_STS_def MEM_INTF_IMA_HW_STS_def
  have rd: "fg_io (qcom_fg_read (k_regmap gauge_kernel) gauge_chip MEM_INTF_IMA_ERR_STS 1) gauge_state0 = (Inr [0], gauge_state0)"
    "fg_io (qcom_fg_read (k_regmap gauge_kernel) gauge_chip MEM_INTF_IMA_EXP_STS 1) gauge_state0 = (Inr [0], gauge_state0)"
    "fg_io (qcom_fg_read (k_regmap gauge_kernel) gauge_chip MEM_INTF_IMA_HW_STS 1) gauge_state0 = (Inr [0], gauge_state0)"
    by simp_all
  from fg_clear_ima_outcome [OF rd] have "qcom_fg_clear_ima gauge_kernel gauge_chip True gauge_state0 = Some (Inr (), gauge_state0)"
    by (simp add: has_def)
  moreover have "fst (fg_io (qcom_fg_read gauge_regmap gauge_chip MEM_INTF_IMA_EXP_STS 1) gauge_state0) = Inr [0]"
    using rd(2) by simp
  ultimately show ?thesis by blast
qed

section \<open>The power-supply interface\<close>

definition answering_ops :: "'w fg_ops" where
  "answering_ops = \<lparr>get_capacity = (\<lambda>s. Some (Inr 0, s)), get_temperature = (\<lambda>s. Some (Inr 0, s)),
     get_current = (\<lambda>s. Some (Inr 0, s)), get_voltage = (\<lambda>s. Some (Inr 0, s)),
     get_temp_threshold = (\<lambda>p s. Some (Inr 0, s)), set_temp_threshold = None\<rparr>"

text \<open>
  The battery supply implements exactly the properties it advertises: a property is missing
  from \<open>qcom_fg_props\<close> if and only if \<open>get_property\<close> answers -EINVAL to it, with the
  state unchanged, whatever operations and state the driver has.
\<close>

theorem fg_properties_advertised:
  "psp \<notin> set qcom_fg_props \<longleftrightarrow>
     (\<forall>k ops s. qcom_fg_get_property k ops batt psp (s :: gauge fg_state) = Some (Inl (- EINVAL), s))"
proof
  assume "psp \<notin> set qcom_fg_props"
  then show "\<forall>k ops s. qcom_fg_get_property k ops batt psp (s :: gauge fg_state) = Some (Inl (- EINVAL), s)"
    by (cases psp) (simp_all add: qcom_fg_props_def qcom_fg_get_property_def)
next
  assume a: "\<forall>k ops s. qcom_fg_get_property k ops batt psp (s :: gauge fg_state) = Some (Inl (- EINVAL), s)"
  have "\<exists>v s. qcom_fg_get_property gauge_kernel answering_ops batt psp gauge_state0 = Some (Inr v, s)"
    if "psp \<in> set qcom_fg_props"
    using that by (auto simp: qcom_fg_props_def qcom_fg_get_property_def answering_ops_def intval_of_def fg_io_def gauge_kernel_def)
  with a show "psp \<notin> set qcom_fg_props" by fastforce
qed

end
