(* ===== verification/Fuel_Gauge_Protocol.thy ===== *)
theory Fuel_Gauge_Protocol
  imports Fuel_Gauge
begin

text \<open>
  The SRAM access protocol of \<open>qcom_fg.c\<close> with several threads, the release worker, the
  \<open>mem-avail\<close> interrupt and the hardware running in any order. A step runs one section of the
  code that is atomic there: the section of \<open>qcom_fg_sram_request_access\<close> under
  \<open>sram_request_lock\<close>, the end of its wait, what it does after the wait, a release, the two
  halves of the release worker around its wait, and the interrupt handler. The steps use the
  functions of the driver model as they are.

  \<open>memif\<close> states what the memory interface and the completions do: its status register shows
  whether access is available, its configuration register holds the request bit, and the hardware
  does not take access away while it is requested.
\<close>

section \<open>Threads, worker and steps\<close>

datatype phase = Idle | Waiting | Woken bool | Holding bool
datatype worker = Worker_Idle | Worker_Waiting | Worker_Done

record 'w memif_view =
  v_req :: "'w \<Rightarrow> bool"
  v_avail :: "'w \<Rightarrow> bool"
  v_done :: "completion \<Rightarrow> 'w \<Rightarrow> bool"
  v_queued :: "'w \<Rightarrow> bool"

record 'w fg_system =
  sys_state :: "'w fg_state"
  sys_threads :: "nat \<Rightarrow> phase"
  sys_worker :: worker

text \<open>The \<open>bool\<close> of a woken or holding thread: its wait ended while the worker was idle.\<close>

definition hw_allowed :: "'w memif_view \<Rightarrow> 'w \<Rightarrow> 'w \<Rightarrow> bool" where
  "hw_allowed v w w' \<longleftrightarrow> v_req v w' = v_req v w \<and> (\<forall>c. v_done v c w' = v_done v c w) \<and>
     (v_avail v w \<and> v_req v w \<longrightarrow> v_avail v w')"

inductive fg_step ::
    "'w memif_view \<Rightarrow> 'w fg_kernel \<Rightarrow> fg_chip \<Rightarrow> fg_sram_regs \<Rightarrow> 'w fg_system \<Rightarrow> 'w fg_system \<Rightarrow> bool"
  for v k chip regs where
  request: "p t = Idle \<Longrightarrow> request_start k chip regs s = (Inr (), s') \<Longrightarrow>
     fg_step v k chip regs \<lparr>sys_state = s, sys_threads = p, sys_worker = wk\<rparr>
       \<lparr>sys_state = s', sys_threads = p(t := Waiting), sys_worker = wk\<rparr>"
| request_fails: "p t = Idle \<Longrightarrow> request_start k chip regs s = (Inl e, s') \<Longrightarrow>
     fg_step v k chip regs \<lparr>sys_state = s, sys_threads = p, sys_worker = wk\<rparr>
       \<lparr>sys_state = s', sys_threads = p, sys_worker = wk\<rparr>"
| wakes: "p t = Waiting \<Longrightarrow> v_done v Sram_Access_Granted (fg_world s) \<Longrightarrow>
     fg_step v k chip regs \<lparr>sys_state = s, sys_threads = p, sys_worker = wk\<rparr>
       \<lparr>sys_state = s, sys_threads = p(t := Woken (wk = Worker_Idle)), sys_worker = wk\<rparr>"
| gets_access: "p t = Woken b \<Longrightarrow> 0 < i \<Longrightarrow> request_finish k i s = (Inr (), s') \<Longrightarrow>
     fg_step v k chip regs \<lparr>sys_state = s, sys_threads = p, sys_worker = wk\<rparr>
       \<lparr>sys_state = s', sys_threads = p(t := Holding b), sys_worker = wk\<rparr>"
| times_out: "p t = Waiting \<Longrightarrow> i \<le> 0 \<Longrightarrow> request_finish k i s = (Inl e, s') \<Longrightarrow>
     fg_step v k chip regs \<lparr>sys_state = s, sys_threads = p, sys_worker = wk\<rparr>
       \<lparr>sys_state = s', sys_threads = p(t := Idle), sys_worker = wk\<rparr>"
| releases: "p t = Holding b \<Longrightarrow>
     fg_step v k chip regs \<lparr>sys_state = s, sys_threads = p, sys_worker = wk\<rparr>
       \<lparr>sys_state = qcom_fg_sram_release_access k s, sys_threads = p(t := Idle), sys_worker = wk\<rparr>"
| worker_starts: "v_queued v (fg_world s) \<Longrightarrow> release_start k chip regs s = (wait, s') \<Longrightarrow>
     fg_step v k chip regs \<lparr>sys_state = s, sys_threads = p, sys_worker = Worker_Idle\<rparr>
       \<lparr>sys_state = s', sys_threads = p, sys_worker = (if wait then Worker_Waiting else Worker_Idle)\<rparr>"
| worker_wakes:
     "fg_step v k chip regs \<lparr>sys_state = s, sys_threads = p, sys_worker = Worker_Waiting\<rparr>
       \<lparr>sys_state = s, sys_threads = p, sys_worker = Worker_Done\<rparr>"
| worker_ends:
     "fg_step v k chip regs \<lparr>sys_state = s, sys_threads = p, sys_worker = Worker_Done\<rparr>
       \<lparr>sys_state = release_finish k s, sys_threads = p, sys_worker = Worker_Idle\<rparr>"
| mem_avail:
     "fg_step v k chip regs \<lparr>sys_state = s, sys_threads = p, sys_worker = wk\<rparr>
       \<lparr>sys_state = qcom_fg_handle_mem_avail k chip regs s, sys_threads = p, sys_worker = wk\<rparr>"
| hardware: "hw_allowed v (fg_world s) w' \<Longrightarrow>
     fg_step v k chip regs \<lparr>sys_state = s, sys_threads = p, sys_worker = wk\<rparr>
       \<lparr>sys_state = s\<lparr>fg_world := w'\<rparr>, sys_threads = p, sys_worker = wk\<rparr>"

inductive_cases fg_stepE: "fg_step v k chip regs x y"

inductive fg_reach :: "'w memif_view \<Rightarrow> 'w fg_kernel \<Rightarrow> fg_chip \<Rightarrow> fg_sram_regs \<Rightarrow> 'w fg_system \<Rightarrow> bool"
  for v k chip regs where
  reach_init: "sram_requests s = 0 \<Longrightarrow> \<not> v_done v Sram_Access_Granted (fg_world s) \<Longrightarrow>
     fg_reach v k chip regs \<lparr>sys_state = s, sys_threads = (\<lambda>_. Idle), sys_worker = Worker_Idle\<rparr>"
| reach_step: "fg_reach v k chip regs x \<Longrightarrow> fg_step v k chip regs x y \<Longrightarrow> fg_reach v k chip regs y"

section \<open>What the hardware and the completions promise\<close>

definition same_view :: "'w memif_view \<Rightarrow> 'w \<Rightarrow> 'w \<Rightarrow> bool" where
  "same_view v w w' \<longleftrightarrow> v_req v w' = v_req v w \<and> v_avail v w' = v_avail v w \<and>
     (\<forall>c. v_done v c w' = v_done v c w)"

locale memif =
  fixes v :: "'w memif_view" and k :: "'w fg_kernel" and chip :: fg_chip and regs :: fg_sram_regs
  assumes cfg_open: "\<not> (ucast (sr_cfg regs) AND 0xff) > (0xd0 :: u16)"
    and reads: "run_state (regmap_bulk_read (k_regmap k) a 1) w = (r, w') \<Longrightarrow> same_view v w w' \<and>
      (a = fg_address chip MEM_INTF_STS \<longrightarrow> (\<forall>bs. r = Inr bs \<longrightarrow> has (hd bs) MEM_INTF_AVAIL = v_avail v w)) \<and>
      (a = fg_address chip (ucast (sr_cfg regs)) \<longrightarrow> (\<forall>bs. r = Inr bs \<longrightarrow> has (hd bs) RIF_MEM_ACCESS_REQ = v_req v w))"
    and cfg_write: "run_state (regmap_bulk_write (k_regmap k) (fg_address chip (ucast (sr_cfg regs))) [x]) w = (u, w') \<Longrightarrow>
      v_avail v w' = v_avail v w \<and> (\<forall>c. v_done v c w' = v_done v c w) \<and>
      (v_req v w' = has x RIF_MEM_ACCESS_REQ \<or> isl u \<and> v_req v w' = v_req v w)"
    and reinit: "v_req v (k_reinit k c w) = v_req v w" "v_avail v (k_reinit k c w) = v_avail v w"
      "v_done v d (k_reinit k c w) = (d \<noteq> c \<and> v_done v d w)"
    and complete: "v_req v (k_complete_all k c w) = v_req v w" "v_avail v (k_complete_all k c w) = v_avail v w"
      "v_done v d (k_complete_all k c w) = (d = c \<or> v_done v d w)"
    and queue: "same_view v w (k_queue_release k t w)"
begin

lemma fg_read_view:
  "run_state (qcom_fg_read (k_regmap k) chip a 1) w = (r, w') \<Longrightarrow> same_view v w w'"
  using reads by (auto simp: qcom_fg_read_def same_view_def split: if_splits)

lemma check_view:
  assumes "run_state (qcom_fg_sram_check_access (k_regmap k) chip regs) w = (b, w')"
  shows "same_view v w w'" and "b \<Longrightarrow> v_req v w \<and> v_avail v w"
proof -
  obtain r w1 where r: "run_state (qcom_fg_read (k_regmap k) chip MEM_INTF_STS 1) w = (r, w1)" by force
  obtain r' w2 where r': "run_state (qcom_fg_read (k_regmap k) chip (ucast (sr_cfg regs)) 1) w1 = (r', w2)" by force
  have same: "same_view v w w1" "same_view v w1 w2" using fg_read_view r r' by blast+
  have avail: "has (hd bs) MEM_INTF_AVAIL = v_avail v w" if "r = Inr bs" for bs
    using r reads that by (auto simp: qcom_fg_read_def split: if_splits)
  have req: "has (hd bs) RIF_MEM_ACCESS_REQ = v_req v w" if "r' = Inr bs" for bs
    using r' reads that same(1) by (auto simp: qcom_fg_read_def same_view_def split: if_splits)
  show "same_view v w w'" "b \<Longrightarrow> v_req v w \<and> v_avail v w"
    using assms r r' same avail req
    by (auto simp: qcom_fg_sram_check_access_def same_view_def split: sum.splits if_splits)
qed

lemma has_masked: "has (masked x RIF_MEM_ACCESS_REQ y) RIF_MEM_ACCESS_REQ = has y RIF_MEM_ACCESS_REQ"
  by (simp add: has_def)

lemma masked_view:
  assumes "run_state (qcom_fg_masked_write (k_regmap k) chip (ucast (sr_cfg regs)) RIF_MEM_ACCESS_REQ y) w = (u, w')"
  shows "v_avail v w' = v_avail v w" "v_done v c w' = v_done v c w"
    "v_req v w' = has y RIF_MEM_ACCESS_REQ \<or> isl u \<and> v_req v w' = v_req v w"
proof -
  obtain r w1 where r: "run_state (qcom_fg_read (k_regmap k) chip (ucast (sr_cfg regs)) 1) w = (r, w1)" by force
  have s: "same_view v w w1" by (rule fg_read_view [OF r])
  show "v_avail v w' = v_avail v w" "v_done v c w' = v_done v c w"
    "v_req v w' = has y RIF_MEM_ACCESS_REQ \<or> isl u \<and> v_req v w' = v_req v w"
    using assms r s cfg_open
    by (auto simp: qcom_fg_masked_write_def run_ok_then qcom_fg_write_def same_view_def has_masked
        split: sum.splits if_splits dest!: cfg_write)
qed

end

section \<open>The invariant\<close>

definition active :: "(nat \<Rightarrow> phase) \<Rightarrow> nat set" where
  "active p = {t. p t \<noteq> Idle}"

definition safe_phase :: "phase \<Rightarrow> bool" where
  "safe_phase x \<longleftrightarrow> x = Woken True \<or> x = Holding True"

definition fg_inv :: "'w memif_view \<Rightarrow> 'w fg_system \<Rightarrow> bool" where
  "fg_inv v x \<longleftrightarrow>
     (let w = fg_world (sys_state x); p = sys_threads x in
      finite (active p) \<and> sram_requests (sys_state x) = int (card (active p)) \<and>
      (active p \<noteq> {} \<longrightarrow> v_req v w) \<and>
      (sys_worker x = Worker_Idle \<longrightarrow> v_done v Sram_Access_Granted w \<longrightarrow> v_req v w \<and> v_avail v w) \<and>
      ((\<exists>t. safe_phase (p t)) \<longrightarrow> v_avail v w))"

lemma active_set:
  "active (p(t := x)) = (if x = Idle then active p - {t} else insert t (active p))"
  by (auto simp: active_def)

lemma safe_not_idle: "safe_phase (p t) \<Longrightarrow> active p \<noteq> {}"
  by (auto simp: safe_phase_def active_def intro: exI [of _ t])

lemma active_member: "p t \<noteq> Idle \<Longrightarrow> active p \<noteq> {}"
  by (auto simp: active_def)

lemma safe_upd: "(\<exists>u. safe_phase ((p(t := x)) u)) \<Longrightarrow> (\<exists>u. safe_phase (p u)) \<or> safe_phase x"
  by (auto split: if_splits)

lemma card_enter: "finite (active p) \<Longrightarrow> p t = Idle \<Longrightarrow> card (insert t (active p)) = card (active p) + 1"
  by (simp add: active_def)

lemma card_stay: "p t \<noteq> Idle \<Longrightarrow> insert t (active p) = active p"
  by (auto simp: active_def)

lemma card_leave: "finite (active p) \<Longrightarrow> p t \<noteq> Idle \<Longrightarrow> int (card (active p - {t})) = int (card (active p)) - 1"
  using card_Suc_Diff1 [of "active p" t] by (simp add: active_def)

context memif
begin

lemma request_start_view:
  assumes "request_start k chip regs s = (r, s')" and "0 \<le> sram_requests s"
    and "0 < sram_requests s \<Longrightarrow> v_req v (fg_world s)"
  shows "v_avail v (fg_world s') = v_avail v (fg_world s)"
    and "v_done v c (fg_world s') = v_done v c (fg_world s)"
    and "v_req v (fg_world s) \<Longrightarrow> v_req v (fg_world s')"
    and "r = Inr () \<Longrightarrow> v_req v (fg_world s') \<and> sram_requests s' = sram_requests s + 1"
    and "r = Inl e \<Longrightarrow> sram_requests s' = sram_requests s"
proof -
  obtain b s1 where b: "fg_io (qcom_fg_sram_check_access (k_regmap k) chip regs) s = (b, s1)" by force
  from b obtain chk: "run_state (qcom_fg_sram_check_access (k_regmap k) chip regs) (fg_world s) = (b, fg_world s1)"
    and n1: "sram_requests s1 = sram_requests s" by (simp add: fg_io_run)
  obtain u s2 where u: "fg_io (qcom_fg_masked_write (k_regmap k) chip (ucast (sr_cfg regs))
      RIF_MEM_ACCESS_REQ RIF_MEM_ACCESS_REQ) s1 = (u, s2)" by force
  from u have wr: "run_state (qcom_fg_masked_write (k_regmap k) chip (ucast (sr_cfg regs))
      RIF_MEM_ACCESS_REQ RIF_MEM_ACCESS_REQ) (fg_world s1) = (u, fg_world s2)"
    and n2: "sram_requests s2 = sram_requests s1" by (simp_all add: fg_io_run)
  have req: "has RIF_MEM_ACCESS_REQ RIF_MEM_ACCESS_REQ" by (simp add: has_def RIF_MEM_ACCESS_REQ_def)
  have s1: "v_req v (fg_world s1) = v_req v (fg_world s)" "v_avail v (fg_world s1) = v_avail v (fg_world s)"
    "v_done v d (fg_world s1) = v_done v d (fg_world s)" for d
    using check_view(1) [OF chk] by (simp_all add: same_view_def)
  have s2: "v_avail v (fg_world s2) = v_avail v (fg_world s)" "v_done v d (fg_world s2) = v_done v d (fg_world s)"
    "v_req v (fg_world s2) \<or> isl u \<and> v_req v (fg_world s2) = v_req v (fg_world s)" for d
    using masked_view [OF wr] s1 req by simp_all
  consider (asks) "sram_requests s = 0" "\<not> b" "u = Inr ()" "r = Inr ()" "s' = s2\<lparr>sram_requests := sram_requests s2 + 1\<rparr>"
    | (fails) f where "sram_requests s = 0" "\<not> b" "u = Inl f" "r = Inl f" "s' = s2"
    | (joins) "b \<or> sram_requests s \<noteq> 0" "r = Inr ()" "s' = s1\<lparr>sram_requests := sram_requests s1 + 1\<rparr>"
    using assms(1) b u n1 by (cases u) (auto simp: request_start_def split: if_splits)
  then have "v_avail v (fg_world s') = v_avail v (fg_world s) \<and>
    (\<forall>c. v_done v c (fg_world s') = v_done v c (fg_world s)) \<and>
    (v_req v (fg_world s) \<longrightarrow> v_req v (fg_world s')) \<and>
    (r = Inr () \<longrightarrow> v_req v (fg_world s') \<and> sram_requests s' = sram_requests s + 1) \<and>
    (r = Inl e \<longrightarrow> sram_requests s' = sram_requests s)"
  proof cases
    case asks
    with s2 n1 n2 show ?thesis by simp
  next
    case fails
    with s2 n1 n2 show ?thesis by auto
  next
    case joins
    then have "v_req v (fg_world s)" using assms(2,3) check_view(2) [OF chk] by linarith
    with joins s1 n1 show ?thesis by simp
  qed
  then show "v_avail v (fg_world s') = v_avail v (fg_world s)"
    and "v_done v c (fg_world s') = v_done v c (fg_world s)"
    and "v_req v (fg_world s) \<Longrightarrow> v_req v (fg_world s')"
    and "r = Inr () \<Longrightarrow> v_req v (fg_world s') \<and> sram_requests s' = sram_requests s + 1"
    and "r = Inl e \<Longrightarrow> sram_requests s' = sram_requests s"
    by blast+
qed

lemma handle_view:
  "sram_requests (qcom_fg_handle_mem_avail k chip regs s) = sram_requests s"
  "v_req v (fg_world (qcom_fg_handle_mem_avail k chip regs s)) = v_req v (fg_world s)"
  "v_avail v (fg_world (qcom_fg_handle_mem_avail k chip regs s)) = v_avail v (fg_world s)"
  "v_done v Sram_Access_Granted (fg_world (qcom_fg_handle_mem_avail k chip regs s)) \<Longrightarrow>
     v_done v Sram_Access_Granted (fg_world s) \<or> v_req v (fg_world s) \<and> v_avail v (fg_world s)"
proof -
  obtain b s1 where b: "fg_io (qcom_fg_sram_check_access (k_regmap k) chip regs) s = (b, s1)" by force
  note chk = check_view [OF fg_io_run [OF b]]
  have n: "sram_requests s1 = sram_requests s" using b by simp
  show "sram_requests (qcom_fg_handle_mem_avail k chip regs s) = sram_requests s"
    "v_req v (fg_world (qcom_fg_handle_mem_avail k chip regs s)) = v_req v (fg_world s)"
    "v_avail v (fg_world (qcom_fg_handle_mem_avail k chip regs s)) = v_avail v (fg_world s)"
    "v_done v Sram_Access_Granted (fg_world (qcom_fg_handle_mem_avail k chip regs s)) \<Longrightarrow>
     v_done v Sram_Access_Granted (fg_world s) \<or> v_req v (fg_world s) \<and> v_avail v (fg_world s)"
    using chk n by (auto simp: qcom_fg_handle_mem_avail_def b complete same_view_def split: if_splits)
qed

end

context memif
begin

lemma release_start_view:
  assumes "release_start k chip regs s = (wait, s')"
  shows "sram_requests s' = sram_requests s" and "v_avail v (fg_world s') = v_avail v (fg_world s)"
    and "wait = (sram_requests s = 0)"
    and "\<not> wait \<Longrightarrow> s' = s"
proof -
  obtain u s1 where u: "fg_io (qcom_fg_masked_write (k_regmap k) chip (ucast (sr_cfg regs)) RIF_MEM_ACCESS_REQ 0) s = (u, s1)"
    by force
  from fg_io_run [OF u] masked_view(1) have "v_avail v (fg_world s1) = v_avail v (fg_world s)" by blast
  then show "sram_requests s' = sram_requests s" "v_avail v (fg_world s') = v_avail v (fg_world s)"
    "wait = (sram_requests s = 0)" "\<not> wait \<Longrightarrow> s' = s"
    using assms u by (auto simp: release_start_def split: if_splits)
qed

lemma release_access_view:
  "v_req v (fg_world (qcom_fg_sram_release_access k s)) = v_req v (fg_world s)"
  "v_avail v (fg_world (qcom_fg_sram_release_access k s)) = v_avail v (fg_world s)"
  "v_done v c (fg_world (qcom_fg_sram_release_access k s)) = v_done v c (fg_world s)"
  using queue by (simp_all add: qcom_fg_sram_release_access_def Let_def same_view_def)

lemma inv_step:
  assumes "fg_step v k chip regs x y" and "fg_inv v x"
  shows "fg_inv v y"
  using assms
proof (cases rule: fg_step.cases)
  case (request p t s s' wk)
  let ?w = "fg_world s"
  have x: "finite (active p)" "sram_requests s = int (card (active p))" "active p \<noteq> {} \<longrightarrow> v_req v ?w"
    "wk = Worker_Idle \<longrightarrow> v_done v Sram_Access_Granted ?w \<longrightarrow> v_req v ?w \<and> v_avail v ?w"
    "(\<exists>t. safe_phase (p t)) \<longrightarrow> v_avail v ?w"
    using assms(2) request by (auto simp: fg_inv_def Let_def)
  have "0 < sram_requests s \<Longrightarrow> v_req v ?w" using x by (simp add: card_gt_0_iff)
  note v = request_start_view [OF request(4) _ this]
  have "\<not> safe_phase Waiting" by (simp add: safe_phase_def)
  with safe_upd [of p t Waiting] x v request show ?thesis
    by (simp add: fg_inv_def Let_def active_set card_enter)
next
  case (request_fails p t s e s' wk)
  let ?w = "fg_world s"
  have x: "finite (active p)" "sram_requests s = int (card (active p))" "active p \<noteq> {} \<longrightarrow> v_req v ?w"
    "wk = Worker_Idle \<longrightarrow> v_done v Sram_Access_Granted ?w \<longrightarrow> v_req v ?w \<and> v_avail v ?w"
    "(\<exists>t. safe_phase (p t)) \<longrightarrow> v_avail v ?w"
    using assms(2) request_fails by (auto simp: fg_inv_def Let_def)
  have "0 < sram_requests s \<Longrightarrow> v_req v ?w" using x by (simp add: card_gt_0_iff)
  note v = request_start_view [OF request_fails(4) _ this]
  from x v request_fails show ?thesis by (simp add: fg_inv_def Let_def)
next
  case (wakes p t s wk)
  have "active (p(t := Woken (wk = Worker_Idle))) = active p"
    using wakes by (simp add: active_set card_stay)
  moreover have "(\<exists>u. safe_phase ((p(t := Woken (wk = Worker_Idle))) u)) \<Longrightarrow> v_avail v (fg_world s)"
    using safe_upd [of p t "Woken (wk = Worker_Idle)"] assms(2) wakes
    by (auto simp: fg_inv_def Let_def safe_phase_def)
  ultimately show ?thesis using assms(2) wakes(1,2) by (simp add: fg_inv_def Let_def)
next
  case (gets_access p t b i s s' wk)
  have p: "active (p(t := Holding b)) = active p" using gets_access by (simp add: active_set card_stay)
  have "safe_phase (Holding b) \<Longrightarrow> safe_phase (p t)" using gets_access by (simp add: safe_phase_def)
  then have safe: "(\<exists>u. safe_phase ((p(t := Holding b)) u)) \<longrightarrow> (\<exists>u. safe_phase (p u))"
    by (metis fun_upd_apply)
  have w: "fg_world s' = k_reinit k Sram_Access_Revoked (fg_world s)" "sram_requests s' = sram_requests s"
    using gets_access(4,5) by (auto simp: request_finish_def split: if_splits)
  show ?thesis
    using assms(2) safe unfolding gets_access(1,2) fg_inv_def Let_def by (auto simp: p w reinit simp del: fun_upd_apply)
next
  case (times_out p t i s e s' wk)
  have "fg_world s' = fg_world s" "sram_requests s' = sram_requests s - 1"
    using times_out(4,5) by (auto simp: request_finish_def split: if_splits)
  moreover have "active p \<noteq> {}" "p t \<noteq> Idle" using times_out active_member [of p t] by simp_all
  moreover have "(\<exists>u. safe_phase ((p(t := Idle)) u)) \<longrightarrow> (\<exists>u. safe_phase (p u))"
    using safe_upd [of p t Idle] by (auto simp: safe_phase_def)
  ultimately show ?thesis
    using assms(2) card_leave [of p t] unfolding times_out(1,2) fg_inv_def Let_def
    by (auto simp: active_set simp del: fun_upd_apply)
next
  case (releases p t b s wk)
  have a: "active p \<noteq> {}" "p t \<noteq> Idle" using releases active_member [of p t] by simp_all
  then have "0 < card (active p)" using assms(2) releases by (simp add: fg_inv_def Let_def card_gt_0_iff)
  then have "sram_requests (qcom_fg_sram_release_access k s) = sram_requests s - 1"
    using assms(2) releases by (simp add: release_access_requests fg_inv_def Let_def)
  moreover have "(\<exists>u. safe_phase ((p(t := Idle)) u)) \<longrightarrow> (\<exists>u. safe_phase (p u))"
    using safe_upd [of p t Idle] by (auto simp: safe_phase_def)
  ultimately show ?thesis
    using a assms(2) card_leave [of p t] unfolding releases(1,2) fg_inv_def Let_def
    by (auto simp: active_set release_access_view simp del: fun_upd_apply)
next
  case (worker_starts s wait s' p)
  note v = release_start_view [OF worker_starts(4)]
  show ?thesis
  proof (cases wait)
    case True
    then have "active p = {}" using v(3) assms(2) worker_starts(1) by (auto simp: fg_inv_def Let_def)
    moreover from this have "\<not> safe_phase (p t)" for t using safe_not_idle by blast
    moreover have "sram_requests s' = 0" using v(1,3) True by simp
    ultimately show ?thesis unfolding worker_starts(2) fg_inv_def Let_def by (simp add: True)
  next
    case False
    with v(4) have "y = x" by (simp add: worker_starts(1,2))
    with assms(2) show ?thesis by simp
  qed
next
  case (worker_wakes s p)
  then show ?thesis using assms(2) by (simp add: fg_inv_def Let_def)
next
  case (worker_ends s p)
  then show ?thesis using assms(2) by (simp add: fg_inv_def Let_def release_finish_def reinit)
next
  case (mem_avail s p wk)
  show ?thesis
    using assms(2) handle_view [of s] unfolding mem_avail fg_inv_def Let_def by auto
next
  case (hardware s w' p wk)
  have "safe_phase (p t) \<Longrightarrow> v_req v (fg_world s)" for t
    using assms(2) hardware safe_not_idle [of p t] by (auto simp: fg_inv_def Let_def)
  with assms(2) hardware(3) show ?thesis
    unfolding hardware(1,2) fg_inv_def Let_def hw_allowed_def by auto
qed

lemma inv_reach: "fg_reach v k chip regs x \<Longrightarrow> fg_inv v x"
proof (induction rule: fg_reach.induct)
  case (reach_init s)
  then show ?case by (simp add: fg_inv_def Let_def active_def safe_phase_def)
next
  case (reach_step x y)
  then show ?case by (blast intro: inv_step)
qed

end

section \<open>A concrete memory interface\<close>

text \<open>
  A gauge at base \<open>0x4000\<close> with only the registers the protocol uses, the completions, and a
  flag for the queued release work. Every transfer succeeds.
\<close>

record pmem =
  pm_cfg :: u8
  pm_avail :: bool
  pm_done :: "completion \<Rightarrow> bool"
  pm_queued :: bool

definition pm_peek :: "u32 \<Rightarrow> pmem \<Rightarrow> u8" where
  "pm_peek a w = (if a = 0x4410 then (if pm_avail w then 1 else 0) else if a = 0x4450 then pm_cfg w else 0)"

definition pm_poke :: "u32 \<Rightarrow> u8 \<Rightarrow> pmem \<Rightarrow> pmem" where
  "pm_poke a x w = (if a = 0x4450 then w\<lparr>pm_cfg := x\<rparr> else w)"

definition pm_regmap :: "pmem regmap" where
  "pm_regmap =
     \<lparr>regmap_read = (\<lambda>a. State (\<lambda>w. (Inr (ucast (pm_peek a w)), w))),
      regmap_write = (\<lambda>a x. State (\<lambda>w. (Inr (), pm_poke a (ucast x) w))),
      regmap_bulk_read = (\<lambda>a n. State (\<lambda>w. (Inr (replicate n (pm_peek a w)), w))),
      regmap_bulk_write = (\<lambda>a bs. State (\<lambda>w. (Inr (), pm_poke a (hd bs) w))),
      regmap_update_bits = (\<lambda>a m x. State (\<lambda>w. (Inr (), pm_poke a (masked (pm_peek a w) (ucast m) (ucast x)) w)))\<rparr>"

definition pm_kernel :: "pmem fg_kernel" where
  "pm_kernel =
     \<lparr>k_regmap = pm_regmap, k_wait = (\<lambda>c t s. (if pm_done (fg_world s) c then 1 else 0, s)),
      k_reinit = (\<lambda>c w. w\<lparr>pm_done := (pm_done w)(c := False)\<rparr>),
      k_init = (\<lambda>c w. w\<lparr>pm_done := (pm_done w)(c := False)\<rparr>),
      k_complete_all = (\<lambda>c w. w\<lparr>pm_done := (pm_done w)(c := True)\<rparr>),
      k_queue_release = (\<lambda>_ w. w\<lparr>pm_queued := True\<rparr>),
      k_destroy_wq = (\<lambda>w. w), k_psy_changed = (\<lambda>w. w),
      k_charger_property = (\<lambda>_. ret (Inr (Statusval STATUS_CHARGING))),
      k_div_round_closest = (\<lambda>x d. (2 * x + d) div (2 * d)),
      k_div_s64 = (\<lambda>x d. x sdiv d), k_div_u64 = (\<lambda>x d. x div d)\<rparr>"

definition pm_view :: "pmem memif_view" where
  "pm_view = \<lparr>v_req = (\<lambda>w. has (pm_cfg w) RIF_MEM_ACCESS_REQ), v_avail = pm_avail,
     v_done = (\<lambda>c w. pm_done w c), v_queued = pm_queued\<rparr>"

lemma pm_simps [simp]:
  "k_regmap pm_kernel = pm_regmap"
  "run_state (regmap_bulk_read pm_regmap a n) w = (Inr (replicate n (pm_peek a w)), w)"
  "run_state (regmap_bulk_write pm_regmap a bs) w = (Inr (), pm_poke a (hd bs) w)"
  "k_reinit pm_kernel c w = w\<lparr>pm_done := (pm_done w)(c := False)\<rparr>"
  "k_complete_all pm_kernel c w = w\<lparr>pm_done := (pm_done w)(c := True)\<rparr>"
  "k_queue_release pm_kernel t w = w\<lparr>pm_queued := True\<rparr>"
  "v_req pm_view w = has (pm_cfg w) RIF_MEM_ACCESS_REQ" "v_avail pm_view w = pm_avail w"
  "v_done pm_view c w = pm_done w c" "v_queued pm_view w = pm_queued w"
  by (simp_all add: pm_kernel_def pm_regmap_def pm_view_def)

lemma pm_addresses:
  "fg_address gauge_chip MEM_INTF_STS = 0x4410"
  by (simp add: fg_address_def gauge_chip_def MEM_INTF_STS_def)

interpretation pm: memif pm_view pm_kernel gauge_chip sram_regs_rev3
proof unfold_locales
  show "\<not> (ucast (sr_cfg sram_regs_rev3) AND 0xff) > (0xd0 :: u16)" by (simp add: sram_regs_rev3_def)
qed (auto simp: same_view_def pm_peek_def pm_poke_def pm_addresses has_def MEM_INTF_AVAIL_def)

section \<open>Runs of the concrete system\<close>

definition pm_state :: "bool \<Rightarrow> bool \<Rightarrow> bool \<Rightarrow> bool \<Rightarrow> int \<Rightarrow> pmem fg_state" where
  "pm_state req avail granted queued n =
     \<lparr>fg_world = \<lparr>pm_cfg = (if req then 0x80 else 0), pm_avail = avail,
        pm_done = (\<lambda>_. False)(Sram_Access_Granted := granted), pm_queued = queued\<rparr>, sram_requests = n\<rparr>"

lemma pm_request:
  "request_start pm_kernel gauge_chip sram_regs_rev3 (pm_state r a g q 0) = (Inr (), pm_state True a g q 1)"
  by (cases r; cases a)
    (simp_all add: request_start_def pm_state_def fg_io_def qcom_fg_sram_check_access_def qcom_fg_read_def
      qcom_fg_masked_write_def qcom_fg_write_def run_ok_then pm_addresses pm_peek_def pm_poke_def has_def
      MEM_INTF_AVAIL_def RIF_MEM_ACCESS_REQ_def masked_def sram_regs_rev3_def fg_address_def gauge_chip_def MEM_INTF_STS_def)

lemma pm_io:
  "fg_address gauge_chip (ucast (sr_cfg sram_regs_rev3)) = 0x4450"
  by (simp add: fg_address_def gauge_chip_def sram_regs_rev3_def)

lemma pm_worker:
  "release_start pm_kernel gauge_chip sram_regs_rev3 (pm_state True a g q 0) = (True, pm_state False a g q 0)"
  by (simp add: release_start_def pm_state_def fg_io_def qcom_fg_read_def
      qcom_fg_masked_write_def qcom_fg_write_def run_ok_then pm_peek_def pm_poke_def
      RIF_MEM_ACCESS_REQ_def masked_def sram_regs_rev3_def fg_address_def gauge_chip_def)

lemma pm_irq:
  "qcom_fg_handle_mem_avail pm_kernel gauge_chip sram_regs_rev3 (pm_state True True g q n) = pm_state True True True q n"
  by (simp add: qcom_fg_handle_mem_avail_def pm_state_def fg_io_def qcom_fg_sram_check_access_def qcom_fg_read_def
      pm_peek_def has_def MEM_INTF_AVAIL_def RIF_MEM_ACCESS_REQ_def sram_regs_rev3_def fg_address_def
      gauge_chip_def MEM_INTF_STS_def)

lemma pm_release:
  "qcom_fg_sram_release_access pm_kernel (pm_state r a g q 1) = pm_state r a g True 0"
  by (simp add: qcom_fg_sram_release_access_def pm_state_def Let_def)

lemma pm_finish:
  "request_finish pm_kernel 1 (pm_state r a g q n) = (Inr (), pm_state r a g q n)"
  by (simp add: request_finish_def pm_state_def fun_eq_iff)

abbreviation pm_sys :: "bool \<Rightarrow> bool \<Rightarrow> bool \<Rightarrow> bool \<Rightarrow> int \<Rightarrow> phase \<Rightarrow> worker \<Rightarrow> pmem fg_system" where
  "pm_sys r a g q n x wk \<equiv>
     \<lparr>sys_state = pm_state r a g q n, sys_threads = (\<lambda>_. Idle)(0 := x), sys_worker = wk\<rparr>"

abbreviation pm_reach :: "pmem fg_system \<Rightarrow> bool" where
  "pm_reach \<equiv> fg_reach pm_view pm_kernel gauge_chip sram_regs_rev3"

lemma pm_reach_step:
  "pm_reach x \<Longrightarrow> fg_step pm_view pm_kernel gauge_chip sram_regs_rev3 x y \<Longrightarrow> pm_reach y"
  by (rule fg_reach.reach_step)

lemma pm_start: "pm_reach (pm_sys False False False False 0 Idle Worker_Idle)"
  using fg_reach.reach_init [of "pm_state False False False False 0" pm_view pm_kernel gauge_chip sram_regs_rev3]
  by (simp add: pm_state_def fun_upd_idem)

text \<open>The first access: request, grant, interrupt, access.\<close>

lemma pm_first_access: "pm_reach (pm_sys True True True False 1 (Holding True) Worker_Idle)"
proof -
  have 1: "pm_reach (pm_sys True False False False 1 Waiting Worker_Idle)"
    using pm_reach_step [OF pm_start fg_step.request [of _ 0, OF _ pm_request]] by simp
  have "hw_allowed pm_view (fg_world (pm_state True False False False 1)) (fg_world (pm_state True True False False 1))"
    by (simp add: hw_allowed_def pm_state_def)
  from pm_reach_step [OF 1 fg_step.hardware [OF this]]
  have 2: "pm_reach (pm_sys True True False False 1 Waiting Worker_Idle)"
    by (simp add: pm_state_def)
  have 3: "pm_reach (pm_sys True True True False 1 Waiting Worker_Idle)"
    using pm_reach_step [OF 2 fg_step.mem_avail] by (simp add: pm_irq)
  have 4: "pm_reach (pm_sys True True True False 1 (Woken True) Worker_Idle)"
    using pm_reach_step [OF 3 fg_step.wakes [of _ 0]] by (simp add: pm_state_def)
  show ?thesis
    using pm_reach_step [OF 4 fg_step.gets_access [OF _ _ pm_finish, of _ 0 True]] by simp
qed

text \<open>
  C1. The SRAM access protocol, for any number of threads and any order of requests, waits,
  releases, worker runs, interrupts and hardware activity: the request counter is exactly the
  number of threads inside the protocol (so it is never negative and the warning in
  \<open>qcom_fg_sram_release_access\<close> cannot fire), the request bit stays set as long as there is
  one, and a thread whose wait ended while the release worker was idle has access to the SRAM
  until it releases it.
\<close>

theorem fg_protocol_safe:
  assumes "memif v k chip regs" and "fg_reach v k chip regs x"
  shows "finite (active (sys_threads x)) \<and>
    sram_requests (sys_state x) = int (card (active (sys_threads x))) \<and>
    (active (sys_threads x) \<noteq> {} \<longrightarrow> v_req v (fg_world (sys_state x))) \<and>
    (sys_threads x t = Holding True \<longrightarrow>
       v_req v (fg_world (sys_state x)) \<and> v_avail v (fg_world (sys_state x)) \<and> 1 \<le> sram_requests (sys_state x))"
proof -
  have inv: "fg_inv v x" by (rule memif.inv_reach [OF assms])
  have "t \<in> active (sys_threads x)" if "sys_threads x t = Holding True" using that by (simp add: active_def)
  with inv show ?thesis
    by (auto simp: fg_inv_def Let_def safe_phase_def Suc_le_eq card_gt_0_iff)
qed

theorem fg_protocol_safe_witness:
  "pm_reach (pm_sys True True True False 1 (Holding True) Worker_Idle) \<and>
   card (active ((\<lambda>_. Idle)(0 := Holding True))) = 1"
  using fg_protocol_safe [OF pm.memif_axioms pm_first_access, of 0] pm_first_access
  by (simp add: pm_state_def)

text \<open>
  C13. The protocol does not protect a thread whose wait ends while the release worker runs:
  the worker clears the request bit and resets the \<open>granted\<close> completion only after its own
  wait, so a thread that asks in between returns from its wait at once on the old completion and
  uses the SRAM although access has been withdrawn.
\<close>

theorem fg_protocol_race:
  "\<exists>x t. fg_reach pm_view pm_kernel gauge_chip sram_regs_rev3 x \<and> sys_threads x t = Holding False \<and>
     \<not> v_avail pm_view (fg_world (sys_state x))"
proof -
  have 1: "pm_reach (pm_sys True True True True 0 Idle Worker_Idle)"
    using pm_reach_step [OF pm_first_access fg_step.releases [of _ 0 True]] by (simp add: pm_release)
  have q: "v_queued pm_view (fg_world (pm_state True True True True 0))" by (simp add: pm_state_def)
  have 2: "pm_reach (pm_sys False True True True 0 Idle Worker_Waiting)"
    using pm_reach_step [OF 1 fg_step.worker_starts [OF q pm_worker]] by simp
  have "hw_allowed pm_view (fg_world (pm_state False True True True 0)) (fg_world (pm_state False False True True 0))"
    by (simp add: hw_allowed_def pm_state_def has_def)
  from pm_reach_step [OF 2 fg_step.hardware [OF this]]
  have 3: "pm_reach (pm_sys False False True True 0 Idle Worker_Waiting)"
    by (simp add: pm_state_def)
  have 4: "pm_reach (pm_sys True False True True 1 Waiting Worker_Waiting)"
    using pm_reach_step [OF 3 fg_step.request [of _ 0, OF _ pm_request]] by simp
  have 5: "pm_reach (pm_sys True False True True 1 (Woken False) Worker_Waiting)"
    using pm_reach_step [OF 4 fg_step.wakes [of _ 0]] by (simp add: pm_state_def)
  have "pm_reach (pm_sys True False True True 1 (Holding False) Worker_Waiting)"
    using pm_reach_step [OF 5 fg_step.gets_access [OF _ _ pm_finish, of _ 0 False]] by simp
  then show ?thesis by (intro exI conjI) (auto simp: pm_state_def)
qed

end
