(* ===== verification/Smbchg_Tables.thy ===== *)
theory Smbchg_Tables
  imports Kernel_Prelude
begin

text \<open>
  The lookup tables of the charger driver (\<open>drivers/power/supply/qcom-smbchg.h\<close>) and the
  macro \<open>find_closest_smaller\<close> of \<open>qcom-smbchg.c\<close> that searches them. A table maps a
  register field to microamperes or microvolts. The locale \<open>sorted_table\<close> holds what the
  search promises on a sorted table; every table of the driver is an instance.
\<close>

section \<open>The tables\<close>

definition smbchg_lc_ilim_options :: "int list" where
  "smbchg_lc_ilim_options = [100000, 150000, 500000, 900000]"

definition LC_ILIM_USB3_BIT :: nat where "LC_ILIM_USB3_BIT = 1"
definition LC_ILIM_FULL_CURRENT_BIT :: nat where "LC_ILIM_FULL_CURRENT_BIT = 2"

definition smbchg_lc_ilim :: "bool \<Rightarrow> bool \<Rightarrow> int" where
  "smbchg_lc_ilim usb_3 full_current =
     smbchg_lc_ilim_options ! (of_bool usb_3 OR push_bit 1 (of_bool full_current))"

definition smbchg_fv_table :: "int list" where
  "smbchg_fv_table =
     [3600000, 3620000, 3640000, 3660000, 3680000, 3700000, 3720000, 3740000, 3760000, 3780000,
      3800000, 3820000, 3840000, 3860000, 3880000, 3900000, 3920000, 3940000, 3960000, 3980000,
      4000000, 4020000, 4040000, 4060000, 4080000, 4100000, 4120000, 4140000, 4160000, 4180000,
      4200000, 4220000, 4240000, 4260000, 4280000, 4300000, 4320000, 4340000, 4350000, 4360000,
      4380000, 4400000, 4420000, 4440000, 4460000, 4480000, 4500000]"

definition smbchg_iterm_table_pmi8994 :: "int list" where
  "smbchg_iterm_table_pmi8994 = [50000, 100000, 150000, 200000, 250000, 300000, 500000, 600000]"

definition smbchg_ilim_table_pmi8994 :: "int list" where
  "smbchg_ilim_table_pmi8994 =
     [300000, 400000, 450000, 475000, 500000, 550000, 600000, 650000, 700000, 900000, 950000,
      1000000, 1100000, 1200000, 1400000, 1450000, 1500000, 1600000, 1800000, 1850000, 1880000,
      1910000, 1930000, 1950000, 1970000, 2000000, 2050000, 2100000, 2300000, 2400000, 2500000,
      3000000]"

definition smbchg_iterm_table_pmi8996 :: "int list" where
  "smbchg_iterm_table_pmi8996 = [50000, 100000, 150000, 200000, 250000, 300000, 400000, 500000]"

definition smbchg_ilim_table_pmi8996 :: "int list" where
  "smbchg_ilim_table_pmi8996 =
     [300000, 400000, 500000, 600000, 700000, 800000, 900000, 1000000, 1100000, 1200000, 1300000,
      1400000, 1450000, 1500000, 1550000, 1600000, 1700000, 1800000, 1900000, 1950000, 2000000,
      2050000, 2100000, 2200000, 2300000, 2400000, 2500000, 2600000, 2700000, 2800000, 2900000,
      3000000]"

text \<open>\<open>struct smbchg_data\<close>; the lengths are those of the lists.\<close>

record smbchg_data =
  iterm_table :: "int list"
  ilim_table :: "int list"
  reset_otg_on_oc :: bool

definition smbchg_pmi8994_data :: smbchg_data where
  "smbchg_pmi8994_data = \<lparr>iterm_table = smbchg_iterm_table_pmi8994,
     ilim_table = smbchg_ilim_table_pmi8994, reset_otg_on_oc = True\<rparr>"

definition smbchg_pmi8996_data :: smbchg_data where
  "smbchg_pmi8996_data = \<lparr>iterm_table = smbchg_iterm_table_pmi8996,
     ilim_table = smbchg_ilim_table_pmi8996, reset_otg_on_oc = True\<rparr>"

section \<open>The search\<close>

text \<open>
  \<open>for (i = 0; i < as - 1; i++) if (x < a[i + 1]) break;\<close>, the value being the final
  \<open>i\<close>.
\<close>

function fcs_loop :: "int \<Rightarrow> int list \<Rightarrow> nat \<Rightarrow> nat \<Rightarrow> nat" where
  "fcs_loop x a n i = (if i < n then (if x < a ! (i + 1) then i else fcs_loop x a n (i + 1)) else i)"
  by pat_completeness auto
termination by (relation "measure (\<lambda>(x, a, n, i). n - i)") auto

declare fcs_loop.simps [simp del]

definition find_closest_smaller :: "int \<Rightarrow> int list \<Rightarrow> nat" where
  "find_closest_smaller x a = fcs_loop x a (length a - 1) 0"

lemma fcs_loop_range: "i \<le> n \<Longrightarrow> fcs_loop x a n i \<le> n"
proof (induction x a n i rule: fcs_loop.induct)
  case (1 x a n i)
  then show ?case by (subst fcs_loop.simps) (simp add: Suc_leI)
qed

lemma fcs_loop_stops: "fcs_loop x a n i < n \<Longrightarrow> x < a ! (fcs_loop x a n i + 1)"
proof (induction x a n i rule: fcs_loop.induct)
  case (1 x a n i)
  then show ?case
    by (cases "i < n \<and> \<not> x < a ! (i + 1)") (auto simp: fcs_loop.simps [of x a n i] split: if_splits)
qed

lemma fcs_loop_below: "a ! i \<le> x \<Longrightarrow> a ! fcs_loop x a n i \<le> x"
proof (induction x a n i rule: fcs_loop.induct)
  case (1 x a n i)
  then show ?case by (subst fcs_loop.simps) auto
qed

locale sorted_table =
  fixes tbl :: "int list"
  assumes nonempty: "tbl \<noteq> []"
    and increasing: "sorted_wrt (<) tbl"
    and positive: "0 < tbl ! 0"
begin

abbreviation (input) idx :: "int \<Rightarrow> nat" where "idx x \<equiv> find_closest_smaller x tbl"

lemma idx_bound: "idx x < length tbl"
  using fcs_loop_range [of 0 "length tbl - 1" x tbl] nonempty
  by (cases tbl) (auto simp: find_closest_smaller_def)

lemma strict_mono: "i < j \<Longrightarrow> j < length tbl \<Longrightarrow> tbl ! i < tbl ! j"
  using increasing by (simp add: sorted_wrt_iff_nth_less)

lemma mono: "i \<le> j \<Longrightarrow> j < length tbl \<Longrightarrow> tbl ! i \<le> tbl ! j"
  using strict_mono by (cases "i = j") (auto simp: less_imp_le)

lemma entry_positive: "i < length tbl \<Longrightarrow> 0 < tbl ! i"
  using positive mono [of 0 i] by linarith

text \<open>The entry found is the greatest one that does not exceed the request.\<close>

lemma idx_below: "tbl ! 0 \<le> x \<Longrightarrow> tbl ! idx x \<le> x"
  unfolding find_closest_smaller_def by (rule fcs_loop_below)

lemma idx_greatest:
  assumes "i < length tbl" and "tbl ! i \<le> x"
  shows "tbl ! i \<le> tbl ! idx x"
proof (cases "i \<le> idx x")
  case True
  then show ?thesis using mono idx_bound by blast
next
  case False
  then have "idx x < length tbl - 1" using assms(1) by simp
  then have "x < tbl ! (idx x + 1)"
    using fcs_loop_stops [of x tbl "length tbl - 1" 0] by (simp add: find_closest_smaller_def)
  also have "\<dots> \<le> tbl ! i" using False assms(1) by (intro mono) auto
  finally show ?thesis using assms(2) by simp
qed

lemma idx_entry: "i < length tbl \<Longrightarrow> idx (tbl ! i) = i"
proof -
  assume i: "i < length tbl"
  have "tbl ! 0 \<le> tbl ! i" using mono i by simp
  then have "tbl ! idx (tbl ! i) = tbl ! i"
    using idx_below [of "tbl ! i"] idx_greatest [OF i order_refl] by simp
  then show ?thesis using strict_mono idx_bound i by (metis less_irrefl linorder_neqE_nat)
qed

end

interpretation lc: sorted_table smbchg_lc_ilim_options
  by unfold_locales (simp_all add: smbchg_lc_ilim_options_def)

interpretation fv: sorted_table smbchg_fv_table
  by unfold_locales (simp_all add: smbchg_fv_table_def)

interpretation ilim_pmi8994: sorted_table smbchg_ilim_table_pmi8994
  by unfold_locales (simp_all add: smbchg_ilim_table_pmi8994_def)

interpretation ilim_pmi8996: sorted_table smbchg_ilim_table_pmi8996
  by unfold_locales (simp_all add: smbchg_ilim_table_pmi8996_def)

interpretation iterm_pmi8994: sorted_table smbchg_iterm_table_pmi8994
  by unfold_locales (simp_all add: smbchg_iterm_table_pmi8994_def)

interpretation iterm_pmi8996: sorted_table smbchg_iterm_table_pmi8996
  by unfold_locales (simp_all add: smbchg_iterm_table_pmi8996_def)

section \<open>What every table set offers\<close>

text \<open>
  \<open>known_data d\<close>: \<open>d\<close> is one of the two table sets the driver can be bound to. Register
  fields of five (current limit) and three (termination current) bits cannot index past them.
\<close>

definition known_data :: "smbchg_data \<Rightarrow> bool" where
  "known_data d \<longleftrightarrow> d = smbchg_pmi8994_data \<or> d = smbchg_pmi8996_data"

lemma known_ilim: "known_data d \<Longrightarrow> sorted_table (ilim_table d)"
  using ilim_pmi8994.sorted_table_axioms ilim_pmi8996.sorted_table_axioms
  by (auto simp: known_data_def smbchg_pmi8994_data_def smbchg_pmi8996_data_def)

lemma known_lengths: "known_data d \<Longrightarrow> length (ilim_table d) = 32 \<and> length (iterm_table d) = 8"
  by (auto simp: known_data_def smbchg_pmi8994_data_def smbchg_pmi8996_data_def
      smbchg_ilim_table_pmi8994_def smbchg_ilim_table_pmi8996_def
      smbchg_iterm_table_pmi8994_def smbchg_iterm_table_pmi8996_def)

lemma known_minimum: "known_data d \<Longrightarrow> ilim_table d ! 0 = 300000"
  by (auto simp: known_data_def smbchg_pmi8994_data_def smbchg_pmi8996_data_def
      smbchg_ilim_table_pmi8994_def smbchg_ilim_table_pmi8996_def)

lemma lc_length: "length smbchg_lc_ilim_options = 4"
  and lc_minimum: "smbchg_lc_ilim_options ! 0 = 100000"
  and fv_length: "length smbchg_fv_table = 47"
  by (simp_all add: smbchg_lc_ilim_options_def smbchg_fv_table_def)

text \<open>The two bits of a low-current index lead back to its entry.\<close>

lemma lc_ilim_bits:
  assumes "i < 4"
  shows "smbchg_lc_ilim (i AND LC_ILIM_USB3_BIT \<noteq> 0) (i AND LC_ILIM_FULL_CURRENT_BIT \<noteq> 0) =
    smbchg_lc_ilim_options ! i"
proof -
  from assms consider "i = 0" | "i = 1" | "i = 2" | "i = 3" by linarith
  then show ?thesis
    by cases (simp_all add: smbchg_lc_ilim_def LC_ILIM_USB3_BIT_def LC_ILIM_FULL_CURRENT_BIT_def)
qed

end
