(* ===== verification/Smbchg.thy ===== *)
theory Smbchg
  imports Smbchg_Tables Pmic_Sec_Write Power_Supply
begin

text \<open>
  \<open>drivers/power/supply/qcom-smbchg.c\<close>: the switch-mode battery charger. The state is the
  bus, the counter of OTG resets, and the log of the notifications the driver sends to other
  kernel subsystems (their results are never used). A C function that returns a number or a
  negative errno returns an \<open>int\<close> here; debug output is left out.
\<close>

section \<open>Registers\<close>

definition SMBCHG_CHGR_STS :: u32 where "SMBCHG_CHGR_STS = 0x00e"
definition SMBCHG_CHGR_RT_STS :: u32 where "SMBCHG_CHGR_RT_STS = 0x010"
definition SMBCHG_CHGR_FCC_CFG :: u32 where "SMBCHG_CHGR_FCC_CFG = 0x0f2"
definition SMBCHG_CHGR_FV_CFG :: u32 where "SMBCHG_CHGR_FV_CFG = 0x0f4"
definition SMBCHG_CHGR_TCC_CFG :: u32 where "SMBCHG_CHGR_TCC_CFG = 0x0f9"
definition SMBCHG_CHGR_CHGR_CFG1 :: u32 where "SMBCHG_CHGR_CHGR_CFG1 = 0x0fb"
definition SMBCHG_CHGR_CHGR_CFG2 :: u32 where "SMBCHG_CHGR_CHGR_CFG2 = 0x0fc"
definition SMBCHG_CHGR_CFG :: u32 where "SMBCHG_CHGR_CFG = 0x0ff"
definition SMBCHG_BAT_IF_RT_STS :: u32 where "SMBCHG_BAT_IF_RT_STS = 0x210"
definition SMBCHG_BAT_IF_CMD_CHG :: u32 where "SMBCHG_BAT_IF_CMD_CHG = 0x242"
definition SMBCHG_USB_CHGPTH_ICL_STS_1 :: u32 where "SMBCHG_USB_CHGPTH_ICL_STS_1 = 0x307"
definition SMBCHG_USB_CHGPTH_RID_STS :: u32 where "SMBCHG_USB_CHGPTH_RID_STS = 0x30b"
definition SMBCHG_USB_CHGPTH_INPUT_STS :: u32 where "SMBCHG_USB_CHGPTH_INPUT_STS = 0x30d"
definition SMBCHG_USB_CHGPTH_USBID_MSB :: u32 where "SMBCHG_USB_CHGPTH_USBID_MSB = 0x30e"
definition SMBCHG_USB_CHGPTH_RT_STS :: u32 where "SMBCHG_USB_CHGPTH_RT_STS = 0x310"
definition SMBCHG_USB_CHGPTH_CMD_IL :: u32 where "SMBCHG_USB_CHGPTH_CMD_IL = 0x340"
definition SMBCHG_USB_CHGPTH_IL_CFG :: u32 where "SMBCHG_USB_CHGPTH_IL_CFG = 0x3f2"
definition SMBCHG_USB_CHGPTH_AICL_CFG :: u32 where "SMBCHG_USB_CHGPTH_AICL_CFG = 0x3f3"
definition SMBCHG_USB_CHGPTH_CFG :: u32 where "SMBCHG_USB_CHGPTH_CFG = 0x3f4"
definition SMBCHG_USB_CHGPTH_APSD_CFG :: u32 where "SMBCHG_USB_CHGPTH_APSD_CFG = 0x3f5"
definition SMBCHG_MISC_IDEV_STS :: u32 where "SMBCHG_MISC_IDEV_STS = 0x608"
definition SMBCHG_MISC_TRIM_OPT_15_8 :: u32 where "SMBCHG_MISC_TRIM_OPT_15_8 = 0x6f5"

lemmas smbchg_registers =
  SMBCHG_CHGR_STS_def SMBCHG_CHGR_RT_STS_def SMBCHG_CHGR_FCC_CFG_def SMBCHG_CHGR_FV_CFG_def
  SMBCHG_CHGR_TCC_CFG_def SMBCHG_CHGR_CHGR_CFG1_def SMBCHG_CHGR_CHGR_CFG2_def SMBCHG_CHGR_CFG_def
  SMBCHG_BAT_IF_RT_STS_def SMBCHG_BAT_IF_CMD_CHG_def SMBCHG_USB_CHGPTH_ICL_STS_1_def
  SMBCHG_USB_CHGPTH_RID_STS_def SMBCHG_USB_CHGPTH_INPUT_STS_def SMBCHG_USB_CHGPTH_USBID_MSB_def
  SMBCHG_USB_CHGPTH_RT_STS_def SMBCHG_USB_CHGPTH_CMD_IL_def SMBCHG_USB_CHGPTH_IL_CFG_def
  SMBCHG_USB_CHGPTH_AICL_CFG_def SMBCHG_USB_CHGPTH_CFG_def SMBCHG_USB_CHGPTH_APSD_CFG_def
  SMBCHG_MISC_IDEV_STS_def SMBCHG_MISC_TRIM_OPT_15_8_def

text \<open>Register bits and fields, as the masks of the header.\<close>

abbreviation CHG_TYPE_MASK :: u32 where "CHG_TYPE_MASK \<equiv> 0x06"
abbreviation CHG_HOLD_OFF_BIT :: u32 where "CHG_HOLD_OFF_BIT \<equiv> 0x08"
abbreviation FCC_MASK :: "'a::len word" where "FCC_MASK \<equiv> 0x1f"
abbreviation CHG_INHIBIT_BIT :: u32 where "CHG_INHIBIT_BIT \<equiv> 0x02"
abbreviation BAT_TCC_REACHED_BIT :: u32 where "BAT_TCC_REACHED_BIT \<equiv> 0x80"
abbreviation FV_MASK :: u8 where "FV_MASK \<equiv> 0x3f"
abbreviation CHG_ITERM_MASK :: "'a::len word" where "CHG_ITERM_MASK \<equiv> 0x07"
abbreviation RECHG_THRESHOLD_SRC_BIT :: u8 where "RECHG_THRESHOLD_SRC_BIT \<equiv> 0x02"
abbreviation TERM_I_SRC_BIT :: u8 where "TERM_I_SRC_BIT \<equiv> 0x04"
abbreviation CHARGER_INHIBIT_BIT :: u8 where "CHARGER_INHIBIT_BIT \<equiv> 0x01"
abbreviation AUTO_RECHG_BIT :: u8 where "AUTO_RECHG_BIT \<equiv> 0x04"
abbreviation I_TERM_BIT :: u8 where "I_TERM_BIT \<equiv> 0x08"
abbreviation P2F_CHG_TRAN_BIT :: u8 where "P2F_CHG_TRAN_BIT \<equiv> 0x20"
abbreviation CHG_EN_SRC_BIT :: u8 where "CHG_EN_SRC_BIT \<equiv> 0x80"
abbreviation RCHG_LVL_BIT :: u8 where "RCHG_LVL_BIT \<equiv> 0x01"
abbreviation OTG_EN_BIT :: u32 where "OTG_EN_BIT \<equiv> 0x01"
abbreviation CHG_EN_BIT :: u32 where "CHG_EN_BIT \<equiv> 0x02"
abbreviation HOT_BAT_HARD_BIT :: u32 where "HOT_BAT_HARD_BIT \<equiv> 0x01"
abbreviation HOT_BAT_SOFT_BIT :: u32 where "HOT_BAT_SOFT_BIT \<equiv> 0x02"
abbreviation COLD_BAT_HARD_BIT :: u32 where "COLD_BAT_HARD_BIT \<equiv> 0x04"
abbreviation COLD_BAT_SOFT_BIT :: u32 where "COLD_BAT_SOFT_BIT \<equiv> 0x08"
abbreviation BAT_MISSING_BIT :: u32 where "BAT_MISSING_BIT \<equiv> 0x40"
abbreviation ICL_STS_MASK :: u32 where "ICL_STS_MASK \<equiv> 0x1f"
abbreviation USB51AC_CTRL :: u8 where "USB51AC_CTRL \<equiv> 0x02"
abbreviation USB51_COMMAND_POL :: u8 where "USB51_COMMAND_POL \<equiv> 0x04"
abbreviation CFG_USB3P0_SEL_BIT :: "'a::len word" where "CFG_USB3P0_SEL_BIT \<equiv> 0x80"
abbreviation USBIN_OV_BIT :: u32 where "USBIN_OV_BIT \<equiv> 0x02"
abbreviation USBIN_SRC_DET_BIT :: u32 where "USBIN_SRC_DET_BIT \<equiv> 0x04"
abbreviation RID_MASK :: u32 where "RID_MASK \<equiv> 0x0f"
abbreviation USBIN_MODE_HC_BIT :: u32 where "USBIN_MODE_HC_BIT \<equiv> 0x01"
abbreviation USB51_MODE_BIT :: u32 where "USB51_MODE_BIT \<equiv> 0x02"
abbreviation ICL_OVERRIDE_BIT :: u32 where "ICL_OVERRIDE_BIT \<equiv> 0x04"
abbreviation USBIN_SUSPEND_BIT :: u32 where "USBIN_SUSPEND_BIT \<equiv> 0x10"
abbreviation USBIN_INPUT_MASK :: "'a::len word" where "USBIN_INPUT_MASK \<equiv> 0x1f"
abbreviation USB_CHGPTH_AICL_EN :: u8 where "USB_CHGPTH_AICL_EN \<equiv> 0x04"
abbreviation USB_CHGPTH_APSD_EN :: u8 where "USB_CHGPTH_APSD_EN \<equiv> 0x01"
abbreviation AICL_RERUN_MASK :: u8 where "AICL_RERUN_MASK \<equiv> 0x30"
abbreviation AICL_RERUN_USB_BIT :: u8 where "AICL_RERUN_USB_BIT \<equiv> 0x20"
abbreviation USBIN_INPUT_BITS :: u32 where "USBIN_INPUT_BITS \<equiv> 0x20 OR 0x10 OR 0x08"
abbreviation USB_TYPE_SDP_BIT :: u32 where "USB_TYPE_SDP_BIT \<equiv> 0x10"
abbreviation USB_TYPE_OTHER_BIT :: u32 where "USB_TYPE_OTHER_BIT \<equiv> 0x20"
abbreviation USB_TYPE_DCP_BIT :: u32 where "USB_TYPE_DCP_BIT \<equiv> 0x40"
abbreviation USB_TYPE_CDP_BIT :: u32 where "USB_TYPE_CDP_BIT \<equiv> 0x80"

definition USBID_GND_THRESHOLD :: u16 where "USBID_GND_THRESHOLD = 0x495"
definition NUM_OTG_RESET_RETRIES :: int where "NUM_OTG_RESET_RETRIES = 5"
definition OTG_RESET_DELAY_MS :: nat where "OTG_RESET_DELAY_MS = 20"

section \<open>State\<close>

datatype extcon_cable =
  EXTCON_USB | EXTCON_USB_HOST | EXTCON_CHG_USB_SDP | EXTCON_CHG_USB_DCP | EXTCON_CHG_USB_CDP

datatype sm_event =
    Psy_Changed
  | Schedule_Otg_Reset
  | Notify_Fail
  | Notify_Over_Current
  | Notify_Disable
  | Extcon_State extcon_cable bool
  | Extcon_Vbus extcon_cable bool
  | Extcon_Sync extcon_cable
  | Sleep_Ms nat
  | Hw_Protection nat
  | Irq_Requested string

datatype irqreturn = IRQ_NONE | IRQ_HANDLED

record 'w smbchg_state =
  sm_bus :: 'w
  sm_events :: "sm_event list"
  otg_resets :: int

text \<open>\<open>struct smbchg_chip\<close>, and \<open>find_closest\<close> of the kernel (\<open>linux/util_macros.h\<close>).\<close>

record 'w smbchg_chip =
  sm_regmap :: "'w regmap"
  sm_base :: u32
  sm_data :: smbchg_data
  batt_info :: battery_info
  find_closest :: "int \<Rightarrow> int list \<Rightarrow> nat"

type_synonym ('w, 'a) sm = "('w smbchg_state, 'a) state"

definition bus :: "('w, 'a) state \<Rightarrow> ('w, 'a) sm" where
  "bus m = on_part sm_bus (\<lambda>w s. s\<lparr>sm_bus := w\<rparr>) m"

definition emit :: "sm_event \<Rightarrow> ('w, unit) sm" where
  "emit e = modify_st (\<lambda>s. s\<lparr>sm_events := sm_events s @ [e]\<rparr>)"

text \<open>\<open>ret = f(...); if (ret) return ret; ...\<close> in a function that returns an \<open>int\<close>.\<close>

definition chk :: "('s, int + 'a) state \<Rightarrow> ('a \<Rightarrow> ('s, int) state) \<Rightarrow> ('s, int) state" where
  "chk m f = State_Monad.bind m (case_sum ret f)"

definition ret_of :: "int + unit \<Rightarrow> int" where
  "ret_of r = (case r of Inl e \<Rightarrow> e | Inr _ \<Rightarrow> 0)"

abbreviation rd :: "'w smbchg_chip \<Rightarrow> u32 \<Rightarrow> ('w, int + u32) sm" where
  "rd chip a \<equiv> bus (regmap_read (sm_regmap chip) (sm_base chip + a))"

abbreviation upd :: "'w smbchg_chip \<Rightarrow> u32 \<Rightarrow> u32 \<Rightarrow> u32 \<Rightarrow> ('w, int + unit) sm" where
  "upd chip a m v \<equiv> bus (regmap_update_bits (sm_regmap chip) (sm_base chip + a) m v)"

abbreviation sec_wr :: "'w smbchg_chip \<Rightarrow> u32 \<Rightarrow> u8 \<Rightarrow> u8 \<Rightarrow> ('w, int + unit) sm" where
  "sec_wr chip a m v \<equiv> bus (qcom_pmic_sec_masked_write (sm_regmap chip) (ucast (sm_base chip + a)) m v)"

section \<open>USB charge path\<close>

definition smbchg_usb_is_present :: "'w smbchg_chip \<Rightarrow> ('w, bool) sm" where
  "smbchg_usb_is_present chip = do {
     r \<leftarrow> rd chip SMBCHG_USB_CHGPTH_RT_STS;
     case r of
       Inl _ \<Rightarrow> ret False
     | Inr value \<Rightarrow>
         if \<not> has value USBIN_SRC_DET_BIT \<or> has value USBIN_OV_BIT then ret False
         else do {
           r \<leftarrow> rd chip SMBCHG_USB_CHGPTH_INPUT_STS;
           case r of
             Inl _ \<Rightarrow> ret False
           | Inr value \<Rightarrow> ret (has value USBIN_INPUT_BITS)
         }
   }"

definition smbchg_usb_enable :: "'w smbchg_chip \<Rightarrow> bool \<Rightarrow> ('w, int) sm" where
  "smbchg_usb_enable chip enable = do {
     r \<leftarrow> upd chip SMBCHG_USB_CHGPTH_CMD_IL USBIN_SUSPEND_BIT (if enable then 0 else USBIN_SUSPEND_BIT);
     ret (ret_of r)
   }"

definition smbchg_usb_get_type :: "'w smbchg_chip \<Rightarrow> ('w, psy_usb_type) sm" where
  "smbchg_usb_get_type chip = do {
     r \<leftarrow> rd chip SMBCHG_MISC_IDEV_STS;
     ret (case r of
       Inl _ \<Rightarrow> USB_TYPE_UNKNOWN
     | Inr reg \<Rightarrow>
         if has reg USB_TYPE_SDP_BIT then USB_TYPE_SDP
         else if has reg USB_TYPE_OTHER_BIT \<or> has reg USB_TYPE_DCP_BIT then USB_TYPE_DCP
         else if has reg USB_TYPE_CDP_BIT then USB_TYPE_CDP
         else USB_TYPE_UNKNOWN)
   }"

definition smbchg_usb_get_ilim :: "'w smbchg_chip \<Rightarrow> ('w, int) sm" where
  "smbchg_usb_get_ilim chip =
     chk (rd chip SMBCHG_USB_CHGPTH_CMD_IL) (\<lambda>value.
     if \<not> has value USBIN_MODE_HC_BIT then
       chk (rd chip SMBCHG_USB_CHGPTH_CFG) (\<lambda>value.
       let usb_3 = has value CFG_USB3P0_SEL_BIT in
       chk (rd chip SMBCHG_USB_CHGPTH_CMD_IL) (\<lambda>value.
       let full_current = has value USB51_MODE_BIT in
       ret (smbchg_lc_ilim usb_3 full_current)))
     else if has value ICL_OVERRIDE_BIT then
       chk (rd chip SMBCHG_USB_CHGPTH_IL_CFG) (\<lambda>value.
       ret (ilim_table (sm_data chip) ! unat (value AND USBIN_INPUT_MASK)))
     else
       chk (rd chip SMBCHG_USB_CHGPTH_ICL_STS_1) (\<lambda>value.
       ret (ilim_table (sm_data chip) ! unat (value AND ICL_STS_MASK))))"

definition smbchg_usb_set_ilim_lc :: "'w smbchg_chip \<Rightarrow> int \<Rightarrow> ('w, int) sm" where
  "smbchg_usb_set_ilim_lc chip current_ua =
     (if current_ua < smbchg_lc_ilim_options ! 0 then ret (- EINVAL)
      else
        let ilim_mask = find_closest_smaller current_ua smbchg_lc_ilim_options;
            usb_3 = (ilim_mask AND LC_ILIM_USB3_BIT \<noteq> 0);
            full_current = (ilim_mask AND LC_ILIM_FULL_CURRENT_BIT \<noteq> 0) in
        chk (sec_wr chip SMBCHG_USB_CHGPTH_CFG CFG_USB3P0_SEL_BIT (if usb_3 then 0x80 else 0)) (\<lambda>_.
        chk (upd chip SMBCHG_USB_CHGPTH_CMD_IL USB51_MODE_BIT (if full_current then USB51_MODE_BIT else 0)) (\<lambda>_.
        chk (upd chip SMBCHG_USB_CHGPTH_CMD_IL USBIN_MODE_HC_BIT 0) (\<lambda>_.
        ret (smbchg_lc_ilim_options ! ilim_mask)))))"

definition smbchg_usb_set_ilim_hc :: "'w smbchg_chip \<Rightarrow> int \<Rightarrow> ('w, int) sm" where
  "smbchg_usb_set_ilim_hc chip current_ua =
     (if current_ua < ilim_table (sm_data chip) ! 0 then ret (- EINVAL)
      else
        let ilim_index = find_closest_smaller current_ua (ilim_table (sm_data chip));
            ilim = ilim_table (sm_data chip) ! ilim_index in
        chk (sec_wr chip SMBCHG_USB_CHGPTH_IL_CFG USBIN_INPUT_MASK (of_nat ilim_index)) (\<lambda>_.
        chk (upd chip SMBCHG_USB_CHGPTH_CMD_IL (USBIN_MODE_HC_BIT OR ICL_OVERRIDE_BIT)
               (USBIN_MODE_HC_BIT OR ICL_OVERRIDE_BIT)) (\<lambda>_. do {
          _ \<leftarrow> sec_wr chip SMBCHG_USB_CHGPTH_AICL_CFG USB_CHGPTH_AICL_EN 0;
          ret ilim
        })))"

definition smbchg_usb_set_ilim :: "'w smbchg_chip \<Rightarrow> int \<Rightarrow> ('w, int) sm" where
  "smbchg_usb_set_ilim chip current_ua =
     (if current_ua < smbchg_lc_ilim_options ! 0 then smbchg_usb_enable chip False
      else do {
        r \<leftarrow> (if current_ua \<in> set smbchg_lc_ilim_options then smbchg_usb_set_ilim_lc chip current_ua
              else if current_ua < ilim_table (sm_data chip) ! 0 then smbchg_usb_set_ilim_lc chip current_ua
              else smbchg_usb_set_ilim_hc chip current_ua);
        if r > 0 then do { _ \<leftarrow> smbchg_usb_enable chip True; ret r } else ret r
      })"

text \<open>The constant \<open>IRQ_NONE\<close> that the second failure returns is 0.\<close>

definition smbchg_usb_aicl_enable :: "'w smbchg_chip \<Rightarrow> ('w, int) sm" where
  "smbchg_usb_aicl_enable chip =
     chk (upd chip SMBCHG_USB_CHGPTH_CMD_IL ICL_OVERRIDE_BIT 0) (\<lambda>_. do {
       r \<leftarrow> upd chip SMBCHG_USB_CHGPTH_CMD_IL USBIN_MODE_HC_BIT USBIN_MODE_HC_BIT;
       case r of
         Inl _ \<Rightarrow> ret 0
       | Inr _ \<Rightarrow>
           chk (sec_wr chip SMBCHG_USB_CHGPTH_IL_CFG USBIN_INPUT_MASK
                  (of_nat (length (ilim_table (sm_data chip)) - 1))) (\<lambda>_. do {
             r \<leftarrow> sec_wr chip SMBCHG_USB_CHGPTH_AICL_CFG USB_CHGPTH_AICL_EN USB_CHGPTH_AICL_EN;
             ret (ret_of r)
           })
     })"

section \<open>Battery charging\<close>

definition smbchg_charging_enable :: "'w smbchg_chip \<Rightarrow> bool \<Rightarrow> ('w, int) sm" where
  "smbchg_charging_enable chip enable = do {
     r \<leftarrow> upd chip SMBCHG_BAT_IF_CMD_CHG CHG_EN_BIT (if enable then 0 else CHG_EN_BIT);
     ret (ret_of r)
   }"

definition smbchg_charging_set_vfloat :: "'w smbchg_chip \<Rightarrow> int \<Rightarrow> ('w, int) sm" where
  "smbchg_charging_set_vfloat chip voltage_uv =
     (if voltage_uv < smbchg_fv_table ! 0 \<or> voltage_uv > smbchg_fv_table ! (length smbchg_fv_table - 1)
      then ret (- EINVAL)
      else
        let fv_index = 5 + find_closest_smaller voltage_uv smbchg_fv_table in
        chk (sec_wr chip SMBCHG_CHGR_FV_CFG FV_MASK (of_nat fv_index)) (\<lambda>_.
        ret (smbchg_fv_table ! (fv_index - 5))))"

definition smbchg_charging_get_iterm :: "'w smbchg_chip \<Rightarrow> ('w, int) sm" where
  "smbchg_charging_get_iterm chip =
     chk (rd chip SMBCHG_CHGR_TCC_CFG) (\<lambda>iterm_index.
     ret (iterm_table (sm_data chip) ! unat (iterm_index AND CHG_ITERM_MASK)))"

definition smbchg_charging_set_iterm :: "'w smbchg_chip \<Rightarrow> int \<Rightarrow> ('w, int) sm" where
  "smbchg_charging_set_iterm chip current_ua =
     (let iterm_index = find_closest chip current_ua (iterm_table (sm_data chip)) in
      chk (sec_wr chip SMBCHG_CHGR_TCC_CFG CHG_ITERM_MASK (of_nat iterm_index)) (\<lambda>_.
      ret (iterm_table (sm_data chip) ! iterm_index)))"

definition smbchg_charging_get_ilim :: "'w smbchg_chip \<Rightarrow> ('w, int) sm" where
  "smbchg_charging_get_ilim chip =
     chk (rd chip SMBCHG_CHGR_FCC_CFG) (\<lambda>value.
     ret (ilim_table (sm_data chip) ! unat (value AND FCC_MASK)))"

definition smbchg_charging_set_ilim :: "'w smbchg_chip \<Rightarrow> int \<Rightarrow> ('w, int) sm" where
  "smbchg_charging_set_ilim chip current_ua =
     (if current_ua < ilim_table (sm_data chip) ! 0 then ret (- EINVAL)
      else
        let ilim_index = find_closest_smaller current_ua (ilim_table (sm_data chip));
            ilim = ilim_table (sm_data chip) ! ilim_index in
        chk (sec_wr chip SMBCHG_CHGR_FCC_CFG FCC_MASK (of_nat ilim_index)) (\<lambda>_.
        ret ilim))"

definition smbchg_batt_is_present :: "'w smbchg_chip \<Rightarrow> ('w, bool) sm" where
  "smbchg_batt_is_present chip = do {
     r \<leftarrow> rd chip SMBCHG_BAT_IF_RT_STS;
     ret (case r of Inl _ \<Rightarrow> False | Inr value \<Rightarrow> \<not> has value BAT_MISSING_BIT)
   }"

section \<open>OTG supply\<close>

text \<open>The two bytes read are the high and the low byte of the ID value.\<close>

definition smbchg_otg_is_present :: "'w smbchg_chip \<Rightarrow> ('w, bool) sm" where
  "smbchg_otg_is_present chip = do {
     r \<leftarrow> bus (regmap_bulk_read (sm_regmap chip) (sm_base chip + SMBCHG_USB_CHGPTH_USBID_MSB) 2);
     case r of
       Inl _ \<Rightarrow> ret False
     | Inr value \<Rightarrow>
         let usb_id = push_bit 8 (ucast (value ! 0)) OR ucast (value ! 1) in
         if usb_id > USBID_GND_THRESHOLD then ret False
         else do {
           r \<leftarrow> rd chip SMBCHG_USB_CHGPTH_RID_STS;
           ret (case r of Inl _ \<Rightarrow> False | Inr value \<Rightarrow> value AND RID_MASK = 0)
         }
   }"

definition smbchg_otg_enable :: "'w smbchg_chip \<Rightarrow> ('w, int) sm" where
  "smbchg_otg_enable chip = do {
     r \<leftarrow> upd chip SMBCHG_BAT_IF_CMD_CHG OTG_EN_BIT OTG_EN_BIT;
     ret (ret_of r)
   }"

definition smbchg_otg_disable :: "'w smbchg_chip \<Rightarrow> ('w, int) sm" where
  "smbchg_otg_disable chip =
     chk (upd chip SMBCHG_BAT_IF_CMD_CHG OTG_EN_BIT 0) (\<lambda>_. ret 0)"

definition smbchg_otg_is_enabled :: "'w smbchg_chip \<Rightarrow> ('w, bool) sm" where
  "smbchg_otg_is_enabled chip = do {
     r \<leftarrow> rd chip SMBCHG_BAT_IF_CMD_CHG;
     ret (case r of Inl _ \<Rightarrow> False | Inr value \<Rightarrow> has value OTG_EN_BIT)
   }"

definition smbchg_otg_reset_worker :: "'w smbchg_chip \<Rightarrow> ('w, unit) sm" where
  "smbchg_otg_reset_worker chip = do {
     r \<leftarrow> upd chip SMBCHG_BAT_IF_CMD_CHG OTG_EN_BIT 0;
     case r of
       Inl _ \<Rightarrow> ret ()
     | Inr _ \<Rightarrow> do {
         _ \<leftarrow> emit (Sleep_Ms OTG_RESET_DELAY_MS);
         present \<leftarrow> smbchg_otg_is_present chip;
         if \<not> present then ret ()
         else do {
           _ \<leftarrow> upd chip SMBCHG_BAT_IF_CMD_CHG OTG_EN_BIT OTG_EN_BIT;
           ret ()
         }
       }
   }"

definition smbchg_extcon_cable :: "extcon_cable list" where
  "smbchg_extcon_cable =
     [EXTCON_USB, EXTCON_USB_HOST, EXTCON_CHG_USB_SDP, EXTCON_CHG_USB_DCP, EXTCON_CHG_USB_CDP]"

fun emit_all :: "sm_event list \<Rightarrow> ('w, unit) sm" where
  "emit_all [] = ret ()"
| "emit_all (e # es) = do { _ \<leftarrow> emit e; emit_all es }"

definition smbchg_extcon_update :: "'w smbchg_chip \<Rightarrow> ('w, unit) sm" where
  "smbchg_extcon_update chip = do {
     usb_type \<leftarrow> smbchg_usb_get_type chip;
     usb_present \<leftarrow> smbchg_usb_is_present chip;
     otg_present \<leftarrow> smbchg_otg_is_present chip;
     otg_vbus_present \<leftarrow> smbchg_otg_is_enabled chip;
     _ \<leftarrow> emit_all
       [Extcon_State EXTCON_USB usb_present,
        Extcon_State EXTCON_USB_HOST otg_present,
        Extcon_Vbus EXTCON_USB_HOST otg_vbus_present];
     _ \<leftarrow> (if usb_present
       then emit_all
         [Extcon_State EXTCON_CHG_USB_SDP (usb_type = USB_TYPE_SDP),
          Extcon_State EXTCON_CHG_USB_DCP (usb_type = USB_TYPE_DCP),
          Extcon_State EXTCON_CHG_USB_CDP (usb_type = USB_TYPE_CDP),
          Extcon_Vbus EXTCON_USB (usb_type \<noteq> USB_TYPE_UNKNOWN)]
       else emit_all
         [Extcon_State EXTCON_CHG_USB_SDP False,
          Extcon_State EXTCON_CHG_USB_DCP False,
          Extcon_State EXTCON_CHG_USB_CDP False,
          Extcon_Vbus EXTCON_USB False]);
     emit_all (map Extcon_Sync smbchg_extcon_cable)
   }"

end
