(* ===== verification/Smbchg_Driver.thy ===== *)
theory Smbchg_Driver
  imports Smbchg
begin

text \<open>
  \<open>drivers/power/supply/qcom-smbchg.c\<close>, second part: interrupt handlers and their table, the
  power-supply interface, hardware initialisation, \<open>probe\<close> and \<open>remove\<close>.
\<close>

section \<open>Interrupt handlers\<close>

definition psy_changed :: "('w, irqreturn) sm" where
  "psy_changed = do { _ \<leftarrow> emit Psy_Changed; ret IRQ_HANDLED }"

definition smbchg_handle_charger_error :: "'w smbchg_chip \<Rightarrow> ('w, irqreturn) sm" where
  "smbchg_handle_charger_error chip = psy_changed"

definition smbchg_handle_p2f :: "'w smbchg_chip \<Rightarrow> ('w, irqreturn) sm" where
  "smbchg_handle_p2f chip = psy_changed"

definition smbchg_handle_rechg :: "'w smbchg_chip \<Rightarrow> ('w, irqreturn) sm" where
  "smbchg_handle_rechg chip = ret IRQ_HANDLED"

definition smbchg_handle_taper :: "'w smbchg_chip \<Rightarrow> ('w, irqreturn) sm" where
  "smbchg_handle_taper chip = psy_changed"

definition smbchg_handle_tcc :: "'w smbchg_chip \<Rightarrow> ('w, irqreturn) sm" where
  "smbchg_handle_tcc chip = psy_changed"

definition smbchg_handle_batt_temp :: "'w smbchg_chip \<Rightarrow> ('w, irqreturn) sm" where
  "smbchg_handle_batt_temp chip = psy_changed"

definition smbchg_handle_batt_presence :: "'w smbchg_chip \<Rightarrow> ('w, irqreturn) sm" where
  "smbchg_handle_batt_presence chip = do { _ \<leftarrow> smbchg_batt_is_present chip; psy_changed }"

definition smbchg_handle_usb_source_detect :: "'w smbchg_chip \<Rightarrow> ('w, irqreturn) sm" where
  "smbchg_handle_usb_source_detect chip = do {
     usb_present \<leftarrow> smbchg_usb_is_present chip;
     usb_type \<leftarrow> smbchg_usb_get_type chip;
     ok \<leftarrow> (if usb_present \<and> (usb_type = USB_TYPE_DCP \<or> usb_type = USB_TYPE_CDP)
       then do {
         r \<leftarrow> smbchg_usb_aicl_enable chip;
         if r \<noteq> 0 then ret False
         else do {
           r \<leftarrow> smbchg_usb_enable chip True;
           ret (r = 0)
         }
       }
       else ret True);
     if \<not> ok then ret IRQ_NONE
     else do {
       _ \<leftarrow> smbchg_extcon_update chip;
       psy_changed
     }
   }"

definition smbchg_handle_usbid_change :: "'w smbchg_chip \<Rightarrow> ('w, irqreturn) sm" where
  "smbchg_handle_usbid_change chip = do {
     _ \<leftarrow> emit (Sleep_Ms 20);
     _ \<leftarrow> smbchg_otg_is_present chip;
     _ \<leftarrow> smbchg_extcon_update chip;
     ret IRQ_HANDLED
   }"

definition smbchg_handle_otg_fail :: "'w smbchg_chip \<Rightarrow> ('w, irqreturn) sm" where
  "smbchg_handle_otg_fail chip = do { _ \<leftarrow> emit Notify_Fail; ret IRQ_HANDLED }"

definition smbchg_handle_otg_oc :: "'w smbchg_chip \<Rightarrow> ('w, irqreturn) sm" where
  "smbchg_handle_otg_oc chip = do {
     s \<leftarrow> State_Monad.get;
     if reset_otg_on_oc (sm_data chip) \<and> otg_resets s < NUM_OTG_RESET_RETRIES
     then do {
       _ \<leftarrow> emit Schedule_Otg_Reset;
       _ \<leftarrow> modify_st (\<lambda>s. s\<lparr>otg_resets := otg_resets s + 1\<rparr>);
       ret IRQ_HANDLED
     }
     else do {
       _ \<leftarrow> (if reset_otg_on_oc (sm_data chip) then modify_st (\<lambda>s. s\<lparr>otg_resets := 0\<rparr>) else ret ());
       _ \<leftarrow> emit Notify_Over_Current;
       _ \<leftarrow> emit Notify_Disable;
       ret IRQ_HANDLED
     }
   }"

definition smbchg_handle_aicl_done :: "'w smbchg_chip \<Rightarrow> ('w, irqreturn) sm" where
  "smbchg_handle_aicl_done chip = do { _ \<leftarrow> smbchg_usb_get_ilim chip; psy_changed }"

definition smbchg_handle_temp_shutdown :: "'w smbchg_chip \<Rightarrow> ('w, irqreturn) sm" where
  "smbchg_handle_temp_shutdown chip = do {
     _ \<leftarrow> emit (Hw_Protection 100);
     _ \<leftarrow> smbchg_charging_enable chip False;
     _ \<leftarrow> smbchg_usb_enable chip False;
     psy_changed
   }"

definition smbchg_irqs :: "(string \<times> ('w smbchg_chip \<Rightarrow> ('w, irqreturn) sm) option) list" where
  "smbchg_irqs =
     [(''chg-error'', Some smbchg_handle_charger_error),
      (''chg-inhibit'', None),
      (''chg-prechg-sft'', None),
      (''chg-complete-chg-sft'', None),
      (''chg-p2f-thr'', Some smbchg_handle_p2f),
      (''chg-rechg-thr'', Some smbchg_handle_rechg),
      (''chg-taper-thr'', Some smbchg_handle_taper),
      (''chg-tcc-thr'', Some smbchg_handle_tcc),
      (''batt-hot'', Some smbchg_handle_batt_temp),
      (''batt-warm'', Some smbchg_handle_batt_temp),
      (''batt-cold'', Some smbchg_handle_batt_temp),
      (''batt-cool'', Some smbchg_handle_batt_temp),
      (''batt-ov'', None),
      (''batt-low'', None),
      (''batt-missing'', Some smbchg_handle_batt_presence),
      (''batt-term-missing'', None),
      (''usbin-uv'', None),
      (''usbin-ov'', None),
      (''usbin-src-det'', Some smbchg_handle_usb_source_detect),
      (''usbid-change'', Some smbchg_handle_usbid_change),
      (''otg-fail'', Some smbchg_handle_otg_fail),
      (''otg-oc'', Some smbchg_handle_otg_oc),
      (''aicl-done'', Some smbchg_handle_aicl_done),
      (''dcin-uv'', None),
      (''dcin-ov'', None),
      (''power-ok'', None),
      (''temp-shutdown'', Some smbchg_handle_temp_shutdown),
      (''wdog-timeout'', None),
      (''flash-fail'', None),
      (''otst2'', None),
      (''otst3'', None)]"

section \<open>Power-supply interface\<close>

definition smbchg_get_charge_type :: "'w smbchg_chip \<Rightarrow> ('w, psy_charge_type) sm" where
  "smbchg_get_charge_type chip = do {
     r \<leftarrow> rd chip SMBCHG_CHGR_STS;
     ret (case r of
       Inl _ \<Rightarrow> CHARGE_TYPE_UNKNOWN
     | Inr value \<Rightarrow>
         let value = drop_bit 1 (value AND CHG_TYPE_MASK) in
         if value = 0 then CHARGE_TYPE_NONE
         else if value = 1 then CHARGE_TYPE_TRICKLE
         else if value = 2 \<or> value = 3 then CHARGE_TYPE_FAST
         else CHARGE_TYPE_UNKNOWN)
   }"

definition smbchg_get_health :: "'w smbchg_chip \<Rightarrow> ('w, psy_health) sm" where
  "smbchg_get_health chip = do {
     batt_present \<leftarrow> smbchg_batt_is_present chip;
     if \<not> batt_present then ret HEALTH_NO_BATTERY
     else do {
       r \<leftarrow> rd chip SMBCHG_BAT_IF_RT_STS;
       ret (case r of
         Inl _ \<Rightarrow> HEALTH_UNKNOWN
       | Inr value \<Rightarrow>
           if has value HOT_BAT_HARD_BIT then HEALTH_OVERHEAT
           else if has value HOT_BAT_SOFT_BIT then HEALTH_WARM
           else if has value COLD_BAT_HARD_BIT then HEALTH_COLD
           else if has value COLD_BAT_SOFT_BIT then HEALTH_COOL
           else HEALTH_GOOD)
     }
   }"

definition smbchg_get_status :: "'w smbchg_chip \<Rightarrow> ('w, psy_status) sm" where
  "smbchg_get_status chip = do {
     present \<leftarrow> smbchg_usb_is_present chip;
     if \<not> present then ret STATUS_DISCHARGING
     else do {
       r \<leftarrow> rd chip SMBCHG_CHGR_RT_STS;
       case r of
         Inl _ \<Rightarrow> ret STATUS_UNKNOWN
       | Inr value \<Rightarrow>
           if has value BAT_TCC_REACHED_BIT \<or> has value CHG_INHIBIT_BIT then ret STATUS_FULL
           else do {
             r \<leftarrow> rd chip SMBCHG_CHGR_STS;
             case r of
               Inl _ \<Rightarrow> ret STATUS_UNKNOWN
             | Inr value \<Rightarrow>
                 if has value CHG_HOLD_OFF_BIT then ret STATUS_NOT_CHARGING
                 else do {
                   chg_type \<leftarrow> smbchg_get_charge_type chip;
                   ret (case chg_type of
                     CHARGE_TYPE_UNKNOWN \<Rightarrow> STATUS_UNKNOWN
                   | CHARGE_TYPE_NONE \<Rightarrow> STATUS_DISCHARGING
                   | _ \<Rightarrow> STATUS_CHARGING)
                 }
           }
     }
   }"

text \<open>An \<open>int\<close> that is a value unless negative.\<close>

definition val_or_err :: "('s, int) state \<Rightarrow> ('s, int + propval) state" where
  "val_or_err m = do { r \<leftarrow> m; ret (if r < 0 then Inl r else Inr (Intval r)) }"

definition smbchg_get_property ::
    "'w smbchg_chip \<Rightarrow> power_supply_property \<Rightarrow> ('w, int + propval) sm" where
  "smbchg_get_property chip psp =
     (case psp of
        PROP_STATUS \<Rightarrow> do { v \<leftarrow> smbchg_get_status chip; ret (Inr (Statusval v)) }
      | PROP_CHARGE_TYPE \<Rightarrow> do { v \<leftarrow> smbchg_get_charge_type chip; ret (Inr (Chargeval v)) }
      | PROP_HEALTH \<Rightarrow> do { v \<leftarrow> smbchg_get_health chip; ret (Inr (Healthval v)) }
      | PROP_PRESENT \<Rightarrow> do { v \<leftarrow> smbchg_usb_is_present chip; ret (Inr (Intval (of_bool v))) }
      | PROP_ONLINE \<Rightarrow> do { v \<leftarrow> smbchg_usb_is_present chip; ret (Inr (Intval (of_bool v))) }
      | PROP_CONSTANT_CHARGE_CURRENT \<Rightarrow> val_or_err (smbchg_charging_get_ilim chip)
      | PROP_CONSTANT_CHARGE_CURRENT_MAX \<Rightarrow>
          ret (Inr (Intval (constant_charge_current_max_ua (batt_info chip))))
      | PROP_INPUT_CURRENT_LIMIT \<Rightarrow> val_or_err (smbchg_usb_get_ilim chip)
      | PROP_USB_TYPE \<Rightarrow> do { v \<leftarrow> smbchg_usb_get_type chip; ret (Inr (Usbval v)) }
      | PROP_CHARGE_TERM_CURRENT \<Rightarrow> val_or_err (smbchg_charging_get_iterm chip)
      | _ \<Rightarrow> ret (Inl (- EINVAL)))"

definition smbchg_set_property :: "'w smbchg_chip \<Rightarrow> power_supply_property \<Rightarrow> int \<Rightarrow> ('w, int) sm" where
  "smbchg_set_property chip psp intval =
     (case psp of
        PROP_ONLINE \<Rightarrow> smbchg_usb_enable chip (intval \<noteq> 0)
      | PROP_CONSTANT_CHARGE_CURRENT \<Rightarrow>
          (if intval > constant_charge_current_max_ua (batt_info chip) then ret (- EINVAL)
           else smbchg_charging_set_ilim chip intval)
      | PROP_INPUT_CURRENT_LIMIT \<Rightarrow> do {
          r \<leftarrow> smbchg_usb_set_ilim chip intval;
          ret (if r > 0 then 0 else r)
        }
      | _ \<Rightarrow> ret (- EINVAL))"

definition smbchg_property_is_writeable :: "power_supply_property \<Rightarrow> bool" where
  "smbchg_property_is_writeable psp =
     (case psp of
        PROP_ONLINE \<Rightarrow> True
      | PROP_CONSTANT_CHARGE_CURRENT \<Rightarrow> True
      | PROP_INPUT_CURRENT_LIMIT \<Rightarrow> True
      | _ \<Rightarrow> False)"

definition smbchg_props :: "power_supply_property list" where
  "smbchg_props =
     [PROP_STATUS, PROP_CHARGE_TYPE, PROP_HEALTH, PROP_PRESENT, PROP_ONLINE,
      PROP_CONSTANT_CHARGE_CURRENT, PROP_CONSTANT_CHARGE_CURRENT_MAX, PROP_INPUT_CURRENT_LIMIT,
      PROP_USB_TYPE, PROP_CHARGE_TERM_CURRENT]"

section \<open>Initialisation\<close>

text \<open>\<open>ret = f(...); if (ret < 0) return ret;\<close> for a function that returns a number.\<close>

definition chk_neg :: "('s, int) state \<Rightarrow> ('s, int) state \<Rightarrow> ('s, int) state" where
  "chk_neg m n = do { r \<leftarrow> m; if r < 0 then ret r else n }"

text \<open>\<open>ret = f(...); if (ret) return ret;\<close>\<close>

definition chk_nz :: "('s, int) state \<Rightarrow> ('s, int) state \<Rightarrow> ('s, int) state" where
  "chk_nz m n = do { r \<leftarrow> m; if r \<noteq> 0 then ret r else n }"

definition smbchg_init :: "'w smbchg_chip \<Rightarrow> ('w, int) sm" where
  "smbchg_init chip =
     chk (sec_wr chip SMBCHG_CHGR_CHGR_CFG1 (RECHG_THRESHOLD_SRC_BIT OR TERM_I_SRC_BIT) (0x02 OR 0x04)) (\<lambda>_.
     chk (sec_wr chip SMBCHG_CHGR_CHGR_CFG2
            (CHARGER_INHIBIT_BIT OR AUTO_RECHG_BIT OR I_TERM_BIT OR P2F_CHG_TRAN_BIT OR CHG_EN_SRC_BIT)
            0x01) (\<lambda>_.
     chk (sec_wr chip SMBCHG_CHGR_CFG RCHG_LVL_BIT 0) (\<lambda>_.
     chk_neg (if charge_term_current_ua (batt_info chip) \<noteq> - EINVAL
              then smbchg_charging_set_iterm chip (charge_term_current_ua (batt_info chip))
              else ret 0) (
     chk_neg (smbchg_charging_set_ilim chip (constant_charge_current_max_ua (batt_info chip))) (
     chk_neg (smbchg_charging_set_vfloat chip (voltage_max_design_uv (batt_info chip))) (
     chk_nz (smbchg_charging_enable chip True) (
     chk (sec_wr chip SMBCHG_USB_CHGPTH_CFG (USB51AC_CTRL OR USB51_COMMAND_POL) 0) (\<lambda>_.
     chk (sec_wr chip SMBCHG_USB_CHGPTH_APSD_CFG USB_CHGPTH_APSD_EN USB_CHGPTH_APSD_EN) (\<lambda>_.
     chk (sec_wr chip SMBCHG_MISC_TRIM_OPT_15_8 AICL_RERUN_MASK AICL_RERUN_USB_BIT) (\<lambda>_. do {
       _ \<leftarrow> smbchg_handle_usb_source_detect chip;
       ret 0
     }))))))))))"

text \<open>What \<open>probe\<close> gets from the kernel; \<open>None\<close> or \<open>Inl\<close> is a failure.\<close>

record 'w smbchg_env =
  se_alloc_ok :: bool
  se_regmap :: "'w regmap option"
  se_reg :: "int + u32"
  se_regulator :: "int + unit"
  se_match_data :: smbchg_data
  se_psy_register :: "int + unit"
  se_batt_info :: "int + battery_info"
  se_extcon_alloc :: "int + unit"
  se_extcon_register :: "int + unit"
  se_find_closest :: "int \<Rightarrow> int list \<Rightarrow> nat"
  se_irq :: "string \<Rightarrow> int"
  se_request_irq :: "string \<Rightarrow> int + unit"

text \<open>The loop that requests the interrupts with a handler.\<close>

fun request_irqs :: "'w smbchg_env \<Rightarrow> (string \<times> 'h option) list \<Rightarrow> ('w, int) sm" where
  "request_irqs env [] = ret 0"
| "request_irqs env ((name, None) # irqs) = request_irqs env irqs"
| "request_irqs env ((name, Some h) # irqs) =
     (if se_irq env name < 0 then ret (se_irq env name)
      else chk (ret (se_request_irq env name)) (\<lambda>_. do {
        _ \<leftarrow> emit (Irq_Requested name);
        request_irqs env irqs
      }))"

definition smbchg_probe :: "'w smbchg_env \<Rightarrow> ('w, int) sm" where
  "smbchg_probe env =
     (if \<not> se_alloc_ok env then ret (- ENOMEM)
      else case se_regmap env of
        None \<Rightarrow> ret (- ENODEV)
      | Some rm \<Rightarrow>
     chk (ret (se_reg env)) (\<lambda>base.
     chk (ret (se_regulator env)) (\<lambda>_.
     chk (ret (se_psy_register env)) (\<lambda>_.
     chk (ret (se_batt_info env)) (\<lambda>batt.
     if voltage_max_design_uv batt = - EINVAL then ret (- EINVAL)
     else if constant_charge_current_max_ua batt = - EINVAL then ret (- EINVAL)
     else
     chk (ret (se_extcon_alloc env)) (\<lambda>_.
     chk (ret (se_extcon_register env)) (\<lambda>_.
     let chip = \<lparr>sm_regmap = rm, sm_base = base, sm_data = se_match_data env, batt_info = batt,
                 find_closest = se_find_closest env\<rparr> in do {
       _ \<leftarrow> modify_st (\<lambda>s. s\<lparr>otg_resets := 0\<rparr>);
       chk_nz (smbchg_init chip)
         (request_irqs env (smbchg_irqs :: (string \<times> ('w smbchg_chip \<Rightarrow> ('w, irqreturn) sm) option) list))
     })))))))"

definition smbchg_remove :: "'w smbchg_chip \<Rightarrow> ('w, unit) sm" where
  "smbchg_remove chip = do {
     _ \<leftarrow> smbchg_usb_enable chip False;
     _ \<leftarrow> smbchg_charging_enable chip False;
     ret ()
   }"

end
