(* ===== verification/Smbchg_Regs.thy ===== *)
theory Smbchg_Regs
  imports Smbchg_Driver
begin

text \<open>
  Reasoning tools for the charger. \<open>sm_frame\<close> says which transfers keep a predicate on the
  bus and concludes it for every operation of the driver; it is used for the transfer log and for
  single registers. \<open>smbchg_bus\<close> puts the charger on a lawful register map and gives the
  effect of one transfer on the registers at the charger's offsets.
\<close>

section \<open>Preservation by every operation\<close>

lemma wp_bus: "wp (bus m) Q s = wp m (\<lambda>r w. Q r (s\<lparr>sm_bus := w\<rparr>)) (sm_bus s)"
  by (simp add: bus_def)

lemma wp_emit [simp]: "wp (emit e) Q s = Q () (s\<lparr>sm_events := sm_events s @ [e]\<rparr>)"
  by (simp add: emit_def)

lemma wp_chk [simp]: "wp (chk m f) Q s = wp m (case_sum Q (\<lambda>v. wp (f v) Q)) s"
proof -
  have "(\<lambda>x. wp (case_sum ret f x) Q) = case_sum Q (\<lambda>v. wp (f v) Q)"
    by (rule ext)+ (simp split: sum.split)
  then show ?thesis by (simp add: chk_def)
qed

lemma wp_chk_neg [simp]: "wp (chk_neg m n) Q s = wp m (\<lambda>r s'. if r < 0 then Q r s' else wp n Q s') s"
proof -
  have "(\<lambda>x. wp (if x < 0 then ret x else n) Q) = (\<lambda>r s'. if r < 0 then Q r s' else wp n Q s')"
    by (rule ext)+ simp
  then show ?thesis by (simp add: chk_neg_def)
qed

lemma wp_chk_nz [simp]: "wp (chk_nz m n) Q s = wp m (\<lambda>r s'. if r \<noteq> 0 then Q r s' else wp n Q s') s"
proof -
  have "(\<lambda>x. wp (if x \<noteq> 0 then ret x else n) Q) = (\<lambda>r s'. if r \<noteq> 0 then Q r s' else wp n Q s')"
    by (rule ext)+ simp
  then show ?thesis by (simp add: chk_nz_def)
qed

abbreviation on_bus :: "('w \<Rightarrow> bool) \<Rightarrow> 'w smbchg_state \<Rightarrow> bool" where
  "on_bus I s \<equiv> I (sm_bus s)"

lemma keeps_bus [keeps_rules]: "keeps I m \<Longrightarrow> keeps (on_bus I) (bus m)"
  by (simp add: keeps_def wp_bus)

lemma keeps_emit [keeps_rules]: "keeps (on_bus I) (emit e)"
  by (simp add: keeps_def)

lemma keeps_emit_all [keeps_rules]: "keeps (on_bus I) (emit_all es)"
  by (induction es) (auto intro!: keeps_rules)

lemma keeps_otg_resets [keeps_rules]: "keeps (on_bus I) (modify_st (\<lambda>s. s\<lparr>otg_resets := f s\<rparr>))"
  by (simp add: keeps_def)

lemma keeps_chk [keeps_rules]: "keeps I m \<Longrightarrow> (\<And>x. keeps I (f x)) \<Longrightarrow> keeps I (chk m f)"
  unfolding chk_def by (rule keeps_bind) (auto intro: keeps_return split: sum.split)

lemma keeps_chk_neg [keeps_rules]: "keeps I m \<Longrightarrow> keeps I n \<Longrightarrow> keeps I (chk_neg m n)"
  and keeps_chk_nz [keeps_rules]: "keeps I m \<Longrightarrow> keeps I n \<Longrightarrow> keeps I (chk_nz m n)"
  unfolding chk_neg_def chk_nz_def by (auto intro!: keeps_rules)

text \<open>The second half of initialisation: everything after the float voltage.\<close>

definition init_rest :: "'w smbchg_chip \<Rightarrow> ('w, int) sm" where
  "init_rest chip =
     chk_nz (smbchg_charging_enable chip True) (
     chk (sec_wr chip SMBCHG_USB_CHGPTH_CFG (USB51AC_CTRL OR USB51_COMMAND_POL) 0) (\<lambda>_.
     chk (sec_wr chip SMBCHG_USB_CHGPTH_APSD_CFG USB_CHGPTH_APSD_EN USB_CHGPTH_APSD_EN) (\<lambda>_.
     chk (sec_wr chip SMBCHG_MISC_TRIM_OPT_15_8 AICL_RERUN_MASK AICL_RERUN_USB_BIT) (\<lambda>_. do {
       _ \<leftarrow> smbchg_handle_usb_source_detect chip;
       ret 0
     }))))"

locale sm_frame =
  fixes I :: "'w \<Rightarrow> bool" and chip :: "'w smbchg_chip" and W :: "u32 set"
  assumes reads: "keeps I (regmap_read (sm_regmap chip) a)"
    and bulk_reads: "keeps I (regmap_bulk_read (sm_regmap chip) a n)"
    and updates: "a \<in> W \<Longrightarrow> a = SMBCHG_USB_CHGPTH_CMD_IL \<or> a = SMBCHG_BAT_IF_CMD_CHG \<Longrightarrow>
      keeps I (regmap_update_bits (sm_regmap chip) (sm_base chip + a) m v)"
    and sec_writes: "a \<in> W \<Longrightarrow> a < 0x800 \<Longrightarrow>
      keeps I (qcom_pmic_sec_masked_write (sm_regmap chip) (ucast (sm_base chip + a)) m8 v8)"
begin

abbreviation kept :: "('w, 'a) sm \<Rightarrow> bool" where "kept m \<equiv> keeps (on_bus I) m"

lemma kept_upd:
  "SMBCHG_USB_CHGPTH_CMD_IL \<in> W \<Longrightarrow> kept (upd chip SMBCHG_USB_CHGPTH_CMD_IL m v)"
  "SMBCHG_BAT_IF_CMD_CHG \<in> W \<Longrightarrow> kept (upd chip SMBCHG_BAT_IF_CMD_CHG m v)"
  by (auto intro!: keeps_rules updates)

lemma kept_sec: "a \<in> W \<Longrightarrow> a < 0x800 \<Longrightarrow> kept (sec_wr chip a m8 v8)"
  by (intro keeps_rules sec_writes)

lemmas kept_rules = keeps_rules reads bulk_reads kept_upd kept_sec

text \<open>Operations that only read.\<close>

lemma kept_readers:
  "kept (smbchg_usb_is_present chip)" "kept (smbchg_usb_get_type chip)" "kept (smbchg_usb_get_ilim chip)"
  "kept (smbchg_charging_get_iterm chip)" "kept (smbchg_charging_get_ilim chip)"
  "kept (smbchg_batt_is_present chip)" "kept (smbchg_otg_is_present chip)" "kept (smbchg_otg_is_enabled chip)"
  unfolding smbchg_usb_is_present_def smbchg_usb_get_type_def smbchg_usb_get_ilim_def Let_def
    smbchg_charging_get_iterm_def smbchg_charging_get_ilim_def smbchg_batt_is_present_def
    smbchg_otg_is_present_def smbchg_otg_is_enabled_def
  by (intro kept_rules)+

lemma kept_readers2:
  "kept (smbchg_get_charge_type chip)" "kept (smbchg_get_health chip)" "kept (smbchg_get_status chip)"
  unfolding smbchg_get_charge_type_def smbchg_get_health_def smbchg_get_status_def
  by (intro kept_rules kept_readers)+

lemma kept_extcon: "kept (smbchg_extcon_update chip)"
  unfolding smbchg_extcon_update_def by (intro kept_rules kept_readers)

text \<open>Operations that write.\<close>

lemma kept_usb_enable: "SMBCHG_USB_CHGPTH_CMD_IL \<in> W \<Longrightarrow> kept (smbchg_usb_enable chip b)"
  unfolding smbchg_usb_enable_def by (intro kept_rules)

lemma kept_aicl_enable:
  assumes "SMBCHG_USB_CHGPTH_CMD_IL \<in> W" "SMBCHG_USB_CHGPTH_IL_CFG \<in> W" "SMBCHG_USB_CHGPTH_AICL_CFG \<in> W"
  shows "kept (smbchg_usb_aicl_enable chip)"
  unfolding smbchg_usb_aicl_enable_def by (intro kept_rules) (use assms in \<open>simp_all add: smbchg_registers\<close>)

lemma kept_set_ilim:
  assumes "SMBCHG_USB_CHGPTH_CMD_IL \<in> W" "SMBCHG_USB_CHGPTH_IL_CFG \<in> W" "SMBCHG_USB_CHGPTH_AICL_CFG \<in> W"
    "SMBCHG_USB_CHGPTH_CFG \<in> W"
  shows "kept (smbchg_usb_set_ilim chip c)"
proof -
  have "kept (smbchg_usb_set_ilim_lc chip c)"
    unfolding smbchg_usb_set_ilim_lc_def Let_def
    by (intro kept_rules) (use assms in \<open>simp_all add: smbchg_registers\<close>)
  moreover have "kept (smbchg_usb_set_ilim_hc chip c)"
    unfolding smbchg_usb_set_ilim_hc_def Let_def
    by (intro kept_rules) (use assms in \<open>simp_all add: smbchg_registers\<close>)
  ultimately show ?thesis
    unfolding smbchg_usb_set_ilim_def by (intro keeps_rules kept_usb_enable assms)
qed

lemma kept_charging:
  "SMBCHG_BAT_IF_CMD_CHG \<in> W \<Longrightarrow> kept (smbchg_charging_enable chip b)"
  "SMBCHG_CHGR_FV_CFG \<in> W \<Longrightarrow> kept (smbchg_charging_set_vfloat chip u)"
  "SMBCHG_CHGR_TCC_CFG \<in> W \<Longrightarrow> kept (smbchg_charging_set_iterm chip c)"
  "SMBCHG_CHGR_FCC_CFG \<in> W \<Longrightarrow> kept (smbchg_charging_set_ilim chip c)"
  unfolding smbchg_charging_enable_def smbchg_charging_set_vfloat_def smbchg_charging_set_iterm_def
    smbchg_charging_set_ilim_def Let_def
  by (intro kept_rules; simp add: smbchg_registers)+

lemma kept_otg:
  "SMBCHG_BAT_IF_CMD_CHG \<in> W \<Longrightarrow> kept (smbchg_otg_enable chip)"
  "SMBCHG_BAT_IF_CMD_CHG \<in> W \<Longrightarrow> kept (smbchg_otg_disable chip)"
  "SMBCHG_BAT_IF_CMD_CHG \<in> W \<Longrightarrow> kept (smbchg_otg_reset_worker chip)"
  unfolding smbchg_otg_enable_def smbchg_otg_disable_def smbchg_otg_reset_worker_def
  by (intro kept_rules kept_readers; simp)+

lemma kept_source_detect:
  assumes "SMBCHG_USB_CHGPTH_CMD_IL \<in> W" "SMBCHG_USB_CHGPTH_IL_CFG \<in> W" "SMBCHG_USB_CHGPTH_AICL_CFG \<in> W"
  shows "kept (smbchg_handle_usb_source_detect chip)"
  unfolding smbchg_handle_usb_source_detect_def psy_changed_def
  by (intro kept_rules kept_readers kept_extcon kept_aicl_enable kept_usb_enable assms)

lemma kept_handler:
  assumes "SMBCHG_USB_CHGPTH_CMD_IL \<in> W" "SMBCHG_USB_CHGPTH_IL_CFG \<in> W" "SMBCHG_USB_CHGPTH_AICL_CFG \<in> W"
    "SMBCHG_BAT_IF_CMD_CHG \<in> W" "(name, Some h) \<in> set smbchg_irqs"
  shows "kept (h chip)"
proof -
  have "kept (smbchg_handle_usb_source_detect chip)" by (rule kept_source_detect [OF assms(1-3)])
  moreover have "kept (psy_changed)" unfolding psy_changed_def by (intro kept_rules)
  moreover have "kept (smbchg_handle_otg_oc chip)"
    unfolding smbchg_handle_otg_oc_def by (intro kept_rules)
  moreover have "kept (smbchg_handle_temp_shutdown chip)" "kept (smbchg_handle_aicl_done chip)"
    "kept (smbchg_handle_usbid_change chip)" "kept (smbchg_handle_batt_presence chip)"
    "kept (smbchg_handle_otg_fail chip)" "kept (smbchg_handle_rechg chip)"
    unfolding smbchg_handle_temp_shutdown_def smbchg_handle_aicl_done_def smbchg_handle_usbid_change_def
      smbchg_handle_batt_presence_def smbchg_handle_otg_fail_def smbchg_handle_rechg_def psy_changed_def
    by (intro kept_rules kept_readers kept_extcon kept_usb_enable kept_charging assms)+
  ultimately show ?thesis
    using assms(5) by (auto simp: smbchg_irqs_def smbchg_handle_charger_error_def smbchg_handle_p2f_def
      smbchg_handle_taper_def smbchg_handle_tcc_def smbchg_handle_batt_temp_def)
qed

lemma kept_init_rest:
  assumes "{SMBCHG_USB_CHGPTH_CMD_IL, SMBCHG_USB_CHGPTH_IL_CFG, SMBCHG_USB_CHGPTH_AICL_CFG,
    SMBCHG_BAT_IF_CMD_CHG, SMBCHG_USB_CHGPTH_CFG, SMBCHG_USB_CHGPTH_APSD_CFG, SMBCHG_MISC_TRIM_OPT_15_8} \<subseteq> W"
  shows "kept (init_rest chip)"
  unfolding init_rest_def
  by (intro kept_rules kept_source_detect kept_charging) (use assms in \<open>simp_all add: smbchg_registers\<close>)

lemma kept_init:
  assumes "W = UNIV"
  shows "kept (smbchg_init chip)"
  unfolding smbchg_init_def
  by (intro kept_rules kept_source_detect kept_charging) (simp_all add: smbchg_registers assms)

end

section \<open>The charger's addresses\<close>

text \<open>A charger base: the start of a page, with all the charger's pages below \<open>0x10000\<close>.\<close>

definition good_base :: "u32 \<Rightarrow> bool" where
  "good_base b \<longleftrightarrow> b AND 0xff = 0 \<and> b \<le> 0xf800"

lemma addr16:
  assumes "good_base b" and "a < 0x800"
  shows "ucast (ucast (b + a) :: u16) = b + a"
proof -
  have "uint b \<le> 0xf800" "uint a < 0x800"
    using assms by (simp_all add: good_base_def word_le_def word_less_def)
  moreover from this have "take_bit 32 (uint b + uint a) = uint b + uint a"
    by (intro take_bit_int_eq_self) auto
  ultimately have "uint (b + a) < 65536" by (simp add: uint_word_arith_bintrs)
  then have "take_bit 16 (uint (b + a)) = uint (b + a)"
    by (intro take_bit_int_eq_self) auto
  then show ?thesis
    by (simp add: word_uint_eq_iff unsigned_ucast_eq unsigned_take_bit_eq take_bit_take_bit)
qed

lemma sec_reg_low: "sec_reg a AND 0xff = 0xd0"
proof -
  have "ucast (a AND 0xff00) AND (0xff :: u32) = 0"
    using ucast_and [of "a AND 0xff00" "0xff"] by (simp add: and.assoc)
  from low_byte_add [OF this] show ?thesis
    by (simp add: sec_reg_def PERPH_BASE_MASK_def SEC_ACCESS_ADDR_def)
qed

lemma sec_reg_other:
  assumes "good_base b" and "o' AND 0xff \<noteq> 0xd0"
  shows "sec_reg a \<noteq> b + o'"
proof
  assume "sec_reg a = b + o'"
  then have "(b + o') AND 0xff = 0xd0" using sec_reg_low by metis
  then show False using low_byte_add [of b o'] assms by (simp add: good_base_def)
qed

locale smbchg_bus = regmap_bus rm reg vol for rm :: "'w regmap" and reg vol +
  fixes chip :: "'w smbchg_chip"
  assumes chip_regmap: "sm_regmap chip = rm"
    and base: "good_base (sm_base chip)"
    and data: "known_data (sm_data chip)"
begin

definition at :: "'w smbchg_state \<Rightarrow> u32 \<Rightarrow> u8" where
  "at s off = reg (sm_bus s) (sm_base chip + off)"

definition stable :: "u32 \<Rightarrow> bool" where
  "stable off \<longleftrightarrow> off < 0x800 \<and> off AND 0xff \<noteq> 0xd0 \<and> sm_base chip + off \<notin> vol"

definition only :: "u32 set \<Rightarrow> 'w smbchg_state \<Rightarrow> 'w smbchg_state \<Rightarrow> bool" where
  "only A s s' \<longleftrightarrow> (\<forall>off. stable off \<longrightarrow> off \<notin> A \<longrightarrow> at s' off = at s off)"

lemma wp_upd:
  assumes "\<And>e s'. e < 0 \<Longrightarrow> only {off} s s' \<Longrightarrow>
      (stable off \<Longrightarrow> at s' off = at s off \<or> at s' off = masked (at s off) (ucast m) (ucast v)) \<Longrightarrow> Q (Inl e) s'"
    and "\<And>s'. only {off} s s' \<Longrightarrow> (stable off \<Longrightarrow> at s' off = masked (at s off) (ucast m) (ucast v)) \<Longrightarrow> Q (Inr ()) s'"
  shows "wp (upd chip off m v) Q s"
  unfolding wp_bus chip_regmap
  by (rule wp_update_bits) (auto intro!: assms simp: only_def at_def unchanged_def stable_def)

lemma wp_sec:
  assumes "off < 0x800"
    and "\<And>e s'. e < 0 \<Longrightarrow> only {off} s s' \<Longrightarrow> Q (Inl e) s'"
    and "\<And>s'. only {off} s s' \<Longrightarrow> (stable off \<Longrightarrow> at s' off = masked (at s off) m v) \<Longrightarrow> Q (Inr ()) s'"
  shows "wp (sec_wr chip off m v) Q s"
  unfolding wp_bus chip_regmap
  by (rule sec.wp_mw)
    (auto intro!: assms(2,3) simp: only_def at_def unchanged_def stable_def addr16 [OF base assms(1)]
      sec_reg_other [OF base, THEN not_sym])

lemma wp_rd:
  assumes "\<And>e s'. e < 0 \<Longrightarrow> only {} s s' \<Longrightarrow> Q (Inl e) s'"
    and "\<And>x s'. only {} s s' \<Longrightarrow> (stable off \<Longrightarrow> x = at s off) \<Longrightarrow> Q (Inr (ucast x)) s'"
  shows "wp (rd chip off) Q s"
  unfolding wp_bus chip_regmap
  by (rule wp_read) (auto intro!: assms simp: only_def at_def unchanged_def stable_def)

lemma onlyD: "only A s s' \<Longrightarrow> stable off \<Longrightarrow> off \<notin> A \<Longrightarrow> at s' off = at s off"
  by (simp add: only_def)

lemma only_trans: "only A s s' \<Longrightarrow> only B s' s'' \<Longrightarrow> only (A \<union> B) s s''"
  by (simp add: only_def)

text \<open>The same rules, accumulating what has changed since a state \<open>s\<close>.\<close>

lemma wp_rd_from:
  assumes "only A s s1"
    and "\<And>e s'. e < 0 \<Longrightarrow> only A s s' \<Longrightarrow> Q (Inl e) s'"
    and "\<And>x s'. only A s s' \<Longrightarrow> (stable off \<Longrightarrow> x = at s1 off \<and> (off \<notin> A \<longrightarrow> x = at s off)) \<Longrightarrow> Q (Inr (ucast x)) s'"
  shows "wp (rd chip off) Q s1"
  by (rule wp_rd) (use assms only_trans [OF assms(1), of "{}"] in \<open>auto simp: onlyD [OF assms(1)]\<close>)

lemma wp_upd_from:
  assumes "only A s s1"
    and "\<And>e s'. e < 0 \<Longrightarrow> only (insert off A) s s' \<Longrightarrow> Q (Inl e) s'"
    and "\<And>s'. only (insert off A) s s' \<Longrightarrow> only {off} s1 s' \<Longrightarrow>
      (stable off \<Longrightarrow> at s' off = masked (at s1 off) (ucast m) (ucast v)) \<Longrightarrow> Q (Inr ()) s'"
  shows "wp (upd chip off m v) Q s1"
  by (rule wp_upd) (use assms only_trans [OF assms(1), of "{off}"] in auto)

lemma wp_sec_from:
  assumes "only A s s1" and "off < 0x800"
    and "\<And>e s'. e < 0 \<Longrightarrow> only (insert off A) s s' \<Longrightarrow> Q (Inl e) s'"
    and "\<And>s'. only (insert off A) s s' \<Longrightarrow> only {off} s1 s' \<Longrightarrow>
      (stable off \<Longrightarrow> at s' off = masked (at s1 off) m v) \<Longrightarrow> Q (Inr ()) s'"
  shows "wp (sec_wr chip off m v) Q s1"
  by (rule wp_sec [OF assms(2)]) (use assms(3,4) only_trans [OF assms(1), of "{off}"] in auto)

lemma only_refl [simp]: "only A s s"
  by (simp add: only_def)

end

section \<open>The programmed input current limit\<close>

text \<open>The limit in force, read off the charger's registers (given by offset).\<close>

definition aicl_mode :: "(u32 \<Rightarrow> u8) \<Rightarrow> bool" where
  "aicl_mode f \<longleftrightarrow> has (f SMBCHG_USB_CHGPTH_CMD_IL) 0x01 \<and> \<not> has (f SMBCHG_USB_CHGPTH_CMD_IL) 0x04"

definition programmed_ilim :: "smbchg_data \<Rightarrow> (u32 \<Rightarrow> u8) \<Rightarrow> int" where
  "programmed_ilim d f =
     (if \<not> has (f SMBCHG_USB_CHGPTH_CMD_IL) 0x01
      then smbchg_lc_ilim (has (f SMBCHG_USB_CHGPTH_CFG) 0x80) (has (f SMBCHG_USB_CHGPTH_CMD_IL) 0x02)
      else if has (f SMBCHG_USB_CHGPTH_CMD_IL) 0x04
      then ilim_table d ! unat (f SMBCHG_USB_CHGPTH_IL_CFG AND 0x1f)
      else ilim_table d ! unat (f SMBCHG_USB_CHGPTH_ICL_STS_1 AND 0x1f))"

lemma ucast8_and: "(ucast (x AND m) :: u32) = ucast x AND ucast m" for x m :: u8
  by (rule bit_word_eqI) (auto simp: bit_and_iff bit_ucast_iff)

lemma ucast8_eq_0: "(ucast x :: u32) = 0 \<longleftrightarrow> x = 0" for x :: u8
  by transfer simp

lemma has_ucast: "has (ucast x :: u32) (ucast m) \<longleftrightarrow> has x m" for x m :: u8
  by (simp add: has_def flip: ucast8_and) (simp add: ucast8_eq_0)

lemma has_ucast_bits [simp]:
  fixes x :: u8
  shows "has (ucast x :: u32) 0x01 = has x 0x01" "has (ucast x :: u32) 0x02 = has x 0x02"
    "has (ucast x :: u32) 0x04 = has x 0x04" "has (ucast x :: u32) 0x80 = has x 0x80"
    "has (ucast x :: u32) 1 = has x 1" "has (ucast x :: u32) 0x10 = has x 0x10"
  using has_ucast [of x "0x01"] has_ucast [of x "0x02"] has_ucast [of x "0x04"] has_ucast [of x "0x80"]
    has_ucast [of x "0x10"]
  by simp_all

lemma field_ucast [simp]: "unat (ucast x AND (0x1f :: u32)) = unat (x AND (0x1f :: u8))" for x :: u8
proof -
  have "ucast x AND (0x1f :: u32) = ucast (x AND 0x1f)" using ucast8_and [of x "0x1f"] by simp
  then show ?thesis by (simp only:) (transfer, simp)
qed

lemma field5_bound: "unat (x AND (0x1f :: 'a::len word)) < 32" if "5 \<le> LENGTH('a)"
proof -
  have "(0x1f :: 'a word) = mask 5" by (simp add: mask_eq_exp_minus_1)
  then have "x AND 0x1f = take_bit 5 x" by (simp add: take_bit_eq_mask)
  moreover have "unat (take_bit 5 x) = take_bit 5 (unat x)" by (simp add: unsigned_take_bit_eq)
  moreover have "take_bit 5 (unat x) < 2 ^ 5" by (rule take_bit_nat_less_exp)
  ultimately show ?thesis by simp
qed

lemma field5_of_nat: "i < 32 \<Longrightarrow> unat ((of_nat i :: u8) AND 0x1f) = i"
proof -
  assume i: "i < 32"
  have "i AND 31 = take_bit 5 i" by (simp add: take_bit_eq_mask mask_eq_exp_minus_1)
  with i show ?thesis by (simp add: unsigned_and_eq unat_of_nat take_bit_eq_mod)
qed

lemma has_masked_in: "k AND m = k \<Longrightarrow> has (masked x m v) k = has v k"
  and has_masked_out: "m AND k = 0 \<Longrightarrow> has (masked x m v) k = has x k"
  by (simp_all add: has_def masked_and_sub masked_and_other)

context smbchg_bus
begin

lemma get_ilim_programmed:
  assumes "stable SMBCHG_USB_CHGPTH_CMD_IL" and "stable SMBCHG_USB_CHGPTH_CFG"
    and "stable SMBCHG_USB_CHGPTH_IL_CFG" and "\<not> aicl_mode (at s)"
  shows "wp (smbchg_usb_get_ilim chip) (\<lambda>r s'. only {} s s' \<and> (r < 0 \<or> r = programmed_ilim (sm_data chip) (at s))) s"
proof -
  let ?Q = "\<lambda>r s'. only {} s s' \<and> (r < 0 \<or> r = programmed_ilim (sm_data chip) (at s))"
  let ?b = "\<lambda>m. has (at s SMBCHG_USB_CHGPTH_CMD_IL) m"
  have lc: "wp (chk (rd chip SMBCHG_USB_CHGPTH_CFG) (\<lambda>value.
       chk (rd chip SMBCHG_USB_CHGPTH_CMD_IL) (\<lambda>v.
       ret (smbchg_lc_ilim (has value CFG_USB3P0_SEL_BIT) (has v USB51_MODE_BIT))))) ?Q s1"
    if "only {} s s1" "\<not> ?b 0x01" for s1
    unfolding wp_chk
    using assms that
    by (auto intro!: wp_rd_from [of "{}" s] simp: programmed_ilim_def)
  have hc: "wp (chk (rd chip SMBCHG_USB_CHGPTH_IL_CFG) (\<lambda>value.
       ret (ilim_table (sm_data chip) ! unat (value AND USBIN_INPUT_MASK)))) ?Q s1"
    if "only {} s s1" "?b 0x01" "?b 0x04" for s1
    unfolding wp_chk
    using assms that
    by (auto intro!: wp_rd_from [of "{}" s] simp: programmed_ilim_def)
  show ?thesis
    unfolding smbchg_usb_get_ilim_def Let_def wp_chk [of "rd chip SMBCHG_USB_CHGPTH_CMD_IL"]
    by (rule wp_rd_from [of "{}" s])
      (use assms(1,4) in \<open>auto simp: aicl_mode_def intro: lc [simplified] hc [simplified]\<close>)
qed

lemma usb_enable_effect:
  "wp (smbchg_usb_enable chip b) (\<lambda>r s'. only {SMBCHG_USB_CHGPTH_CMD_IL} s s' \<and> r \<le> 0 \<and>
     (stable SMBCHG_USB_CHGPTH_CMD_IL \<longrightarrow>
        (at s' SMBCHG_USB_CHGPTH_CMD_IL = at s SMBCHG_USB_CHGPTH_CMD_IL \<and> r < 0 \<or>
         at s' SMBCHG_USB_CHGPTH_CMD_IL = masked (at s SMBCHG_USB_CHGPTH_CMD_IL) 0x10 (if b then 0 else 0x10)))) s"
  unfolding smbchg_usb_enable_def wp_bind
  by (rule wp_upd) (auto simp: ret_of_def)

abbreviation ilim_stable :: bool where
  "ilim_stable \<equiv> stable SMBCHG_USB_CHGPTH_CMD_IL \<and> stable SMBCHG_USB_CHGPTH_CFG \<and> stable SMBCHG_USB_CHGPTH_IL_CFG"

abbreviation programs :: "'w smbchg_state \<Rightarrow> int \<Rightarrow> bool" where
  "programs s r \<equiv> ilim_stable \<longrightarrow> \<not> aicl_mode (at s) \<and> programmed_ilim (sm_data chip) (at s) = r"

lemma set_ilim_lc_effect:
  "wp (smbchg_usb_set_ilim_lc chip c) (\<lambda>r s'. 0 < r \<longrightarrow> r \<in> set smbchg_lc_ilim_options \<and> r \<le> c \<and>
     (\<forall>x\<in>set smbchg_lc_ilim_options. x \<le> c \<longrightarrow> x \<le> r) \<and> programs s' r) s"
proof (cases "c < smbchg_lc_ilim_options ! 0")
  case True
  then show ?thesis by (simp add: smbchg_usb_set_ilim_lc_def)
next
  case False
  let ?i = "find_closest_smaller c smbchg_lc_ilim_options"
  let ?u = "?i AND LC_ILIM_USB3_BIT \<noteq> 0" and ?f = "?i AND LC_ILIM_FULL_CURRENT_BIT \<noteq> 0"
  let ?r = "smbchg_lc_ilim_options ! ?i"
  have i: "?i < 4" using lc.idx_bound lc_length by simp
  have r: "?r \<in> set smbchg_lc_ilim_options" "?r \<le> c"
    "\<forall>x\<in>set smbchg_lc_ilim_options. x \<le> c \<longrightarrow> x \<le> ?r"
    using lc.idx_bound lc.idx_below False lc.idx_greatest by (auto simp: in_set_conv_nth)
  have p: "programs s' ?r"
    if "ilim_stable \<Longrightarrow> has (at s' SMBCHG_USB_CHGPTH_CFG) 0x80 = ?u"
      "ilim_stable \<Longrightarrow> at s' SMBCHG_USB_CHGPTH_CMD_IL = masked (masked z 0x02 (if ?f then 0x02 else 0)) 0x01 0" for s' z
    using that lc_ilim_bits [OF i]
    by (auto simp: programmed_ilim_def aicl_mode_def has_masked_in has_masked_out) (auto simp: has_def)
  let ?Q = "\<lambda>r s'. 0 < r \<longrightarrow> r \<in> set smbchg_lc_ilim_options \<and> r \<le> c \<and>
     (\<forall>x\<in>set smbchg_lc_ilim_options. x \<le> c \<longrightarrow> x \<le> r) \<and> programs s' r"
  have other: "SMBCHG_USB_CHGPTH_CFG \<notin> {SMBCHG_USB_CHGPTH_CMD_IL}" by (simp add: smbchg_registers)
  have last: "wp (chk (upd chip SMBCHG_USB_CHGPTH_CMD_IL USBIN_MODE_HC_BIT 0) (\<lambda>_. ret ?r)) ?Q s2"
    if "ilim_stable \<Longrightarrow> has (at s2 SMBCHG_USB_CHGPTH_CFG) 0x80 = ?u"
      "ilim_stable \<Longrightarrow> at s2 SMBCHG_USB_CHGPTH_CMD_IL = masked z 0x02 (if ?f then 0x02 else 0)" for s2 z
    unfolding wp_chk
  proof (rule wp_upd)
    fix s' assume s': "only {SMBCHG_USB_CHGPTH_CMD_IL} s2 s'"
      "stable SMBCHG_USB_CHGPTH_CMD_IL \<Longrightarrow> at s' SMBCHG_USB_CHGPTH_CMD_IL =
         masked (at s2 SMBCHG_USB_CHGPTH_CMD_IL) (ucast USBIN_MODE_HC_BIT) (ucast (0 :: u32))"
    have "programs s' ?r"
      by (rule p [of s' z]) (use that s' onlyD [OF s'(1) _ other] in simp_all)
    with r show "case_sum ?Q (\<lambda>_. wp (ret ?r) ?Q) (Inr ()) s'" by simp
  qed simp
  have mid: "wp (chk (upd chip SMBCHG_USB_CHGPTH_CMD_IL USB51_MODE_BIT (if ?f then USB51_MODE_BIT else 0))
      (\<lambda>_. chk (upd chip SMBCHG_USB_CHGPTH_CMD_IL USBIN_MODE_HC_BIT 0) (\<lambda>_. ret ?r))) ?Q s1"
    if "ilim_stable \<Longrightarrow> has (at s1 SMBCHG_USB_CHGPTH_CFG) 0x80 = ?u" for s1
    unfolding wp_chk [of "upd chip SMBCHG_USB_CHGPTH_CMD_IL USB51_MODE_BIT _"]
  proof (rule wp_upd)
    fix s2 assume s2: "only {SMBCHG_USB_CHGPTH_CMD_IL} s1 s2"
      "stable SMBCHG_USB_CHGPTH_CMD_IL \<Longrightarrow> at s2 SMBCHG_USB_CHGPTH_CMD_IL =
         masked (at s1 SMBCHG_USB_CHGPTH_CMD_IL) (ucast USB51_MODE_BIT) (ucast (if ?f then USB51_MODE_BIT else 0))"
    have "wp (chk (upd chip SMBCHG_USB_CHGPTH_CMD_IL USBIN_MODE_HC_BIT 0) (\<lambda>_. ret ?r)) ?Q s2"
      by (rule last) (use that s2 onlyD [OF s2(1) _ other] in auto)
    then show "case_sum ?Q (\<lambda>_. wp (chk (upd chip SMBCHG_USB_CHGPTH_CMD_IL USBIN_MODE_HC_BIT 0) (\<lambda>_. ret ?r)) ?Q)
      (Inr ()) s2" by simp
  qed simp
  have "wp (chk (sec_wr chip SMBCHG_USB_CHGPTH_CFG CFG_USB3P0_SEL_BIT (if ?u then 0x80 else 0))
    (\<lambda>_. chk (upd chip SMBCHG_USB_CHGPTH_CMD_IL USB51_MODE_BIT (if ?f then USB51_MODE_BIT else 0))
      (\<lambda>_. chk (upd chip SMBCHG_USB_CHGPTH_CMD_IL USBIN_MODE_HC_BIT 0) (\<lambda>_. ret ?r)))) ?Q s"
    unfolding wp_chk [of "sec_wr chip SMBCHG_USB_CHGPTH_CFG _ _"]
  proof (rule wp_sec)
    fix s1 assume s1: "stable SMBCHG_USB_CHGPTH_CFG \<Longrightarrow>
      at s1 SMBCHG_USB_CHGPTH_CFG = masked (at s SMBCHG_USB_CHGPTH_CFG) CFG_USB3P0_SEL_BIT (if ?u then 0x80 else 0)"
    have "ilim_stable \<Longrightarrow> has (at s1 SMBCHG_USB_CHGPTH_CFG) 0x80 = ?u"
      using s1 by (simp add: has_masked_in) (simp add: has_def)
    from mid [OF this] show "case_sum ?Q (\<lambda>_. wp (chk (upd chip SMBCHG_USB_CHGPTH_CMD_IL USB51_MODE_BIT
        (if ?f then USB51_MODE_BIT else 0))
      (\<lambda>_. chk (upd chip SMBCHG_USB_CHGPTH_CMD_IL USBIN_MODE_HC_BIT 0) (\<lambda>_. ret ?r))) ?Q) (Inr ()) s1"
      by simp
  qed (simp_all add: smbchg_registers)
  with False show ?thesis by (simp only: smbchg_usb_set_ilim_lc_def Let_def if_False)
qed

end

context smbchg_bus
begin

lemma tbl: "sorted_table (ilim_table (sm_data chip))" "length (ilim_table (sm_data chip)) = 32"
  "ilim_table (sm_data chip) ! 0 = 300000"
  using known_ilim known_lengths known_minimum data by blast+

lemma set_ilim_hc_effect:
  "wp (smbchg_usb_set_ilim_hc chip c) (\<lambda>r s'. 0 < r \<longrightarrow> r \<in> set (ilim_table (sm_data chip)) \<and> r \<le> c \<and>
     (\<forall>x\<in>set (ilim_table (sm_data chip)). x \<le> c \<longrightarrow> x \<le> r) \<and> programs s' r) s"
proof (cases "c < ilim_table (sm_data chip) ! 0")
  case True
  then show ?thesis by (simp add: smbchg_usb_set_ilim_hc_def)
next
  case False
  let ?t = "ilim_table (sm_data chip)" and ?m = "USBIN_MODE_HC_BIT OR ICL_OVERRIDE_BIT"
  let ?i = "find_closest_smaller c ?t"
  let ?r = "?t ! ?i"
  have i: "?i < 32" using sorted_table.idx_bound [OF tbl(1)] tbl(2) by metis
  have r: "?r \<in> set ?t" "?r \<le> c" "\<forall>x\<in>set ?t. x \<le> c \<longrightarrow> x \<le> ?r"
    using sorted_table.idx_below [OF tbl(1)] sorted_table.idx_greatest [OF tbl(1)] i tbl(2) False
    by (auto simp: in_set_conv_nth)
  let ?Q = "\<lambda>r s'. 0 < r \<longrightarrow> r \<in> set ?t \<and> r \<le> c \<and> (\<forall>x\<in>set ?t. x \<le> c \<longrightarrow> x \<le> r) \<and> programs s' r"
  have other: "SMBCHG_USB_CHGPTH_IL_CFG \<notin> {SMBCHG_USB_CHGPTH_CMD_IL}"
    "SMBCHG_USB_CHGPTH_IL_CFG \<notin> {SMBCHG_USB_CHGPTH_AICL_CFG}"
    "SMBCHG_USB_CHGPTH_CMD_IL \<notin> {SMBCHG_USB_CHGPTH_AICL_CFG}"
    by (simp_all add: smbchg_registers)
  have p: "programs s' ?r"
    if "ilim_stable \<Longrightarrow> at s' SMBCHG_USB_CHGPTH_IL_CFG AND 0x1f = of_nat ?i AND 0x1f"
      "ilim_stable \<Longrightarrow> has (at s' SMBCHG_USB_CHGPTH_CMD_IL) 0x01 \<and> has (at s' SMBCHG_USB_CHGPTH_CMD_IL) 0x04" for s'
    using that field5_of_nat [OF i] by (auto simp: programmed_ilim_def aicl_mode_def)
  have last: "wp (sec_wr chip SMBCHG_USB_CHGPTH_AICL_CFG USB_CHGPTH_AICL_EN 0) (\<lambda>_. ?Q ?r) s2"
    if "ilim_stable \<Longrightarrow> at s2 SMBCHG_USB_CHGPTH_IL_CFG AND 0x1f = of_nat ?i AND 0x1f"
      "ilim_stable \<Longrightarrow> has (at s2 SMBCHG_USB_CHGPTH_CMD_IL) 0x01 \<and> has (at s2 SMBCHG_USB_CHGPTH_CMD_IL) 0x04" for s2
  proof -
    have q: "?Q ?r s'" if o: "only {SMBCHG_USB_CHGPTH_AICL_CFG} s2 s'" for s'
      using r p [of s'] \<open>ilim_stable \<Longrightarrow> at s2 SMBCHG_USB_CHGPTH_IL_CFG AND 0x1f = _\<close>
        \<open>ilim_stable \<Longrightarrow> has (at s2 SMBCHG_USB_CHGPTH_CMD_IL) 0x01 \<and> _\<close>
        onlyD [OF o _ other(2)] onlyD [OF o _ other(3)] by simp
    show ?thesis by (rule wp_sec) (use q in \<open>simp_all add: smbchg_registers\<close>)
  qed
  let ?next = "do { _ \<leftarrow> sec_wr chip SMBCHG_USB_CHGPTH_AICL_CFG USB_CHGPTH_AICL_EN 0; ret ?r }"
  have mid: "wp (chk (upd chip SMBCHG_USB_CHGPTH_CMD_IL ?m ?m) (\<lambda>_. ?next)) ?Q s1"
    if "ilim_stable \<Longrightarrow> at s1 SMBCHG_USB_CHGPTH_IL_CFG AND 0x1f = of_nat ?i AND 0x1f" for s1
    unfolding wp_chk
  proof (rule wp_upd)
    fix s2 assume s2: "only {SMBCHG_USB_CHGPTH_CMD_IL} s1 s2"
      "stable SMBCHG_USB_CHGPTH_CMD_IL \<Longrightarrow>
        at s2 SMBCHG_USB_CHGPTH_CMD_IL = masked (at s1 SMBCHG_USB_CHGPTH_CMD_IL) (ucast ?m) (ucast ?m)"
    have "ilim_stable \<Longrightarrow> has (at s2 SMBCHG_USB_CHGPTH_CMD_IL) 0x01 \<and> has (at s2 SMBCHG_USB_CHGPTH_CMD_IL) 0x04"
      using s2(2) by (simp add: has_masked_in) (simp add: has_def)
    then have "wp (sec_wr chip SMBCHG_USB_CHGPTH_AICL_CFG USB_CHGPTH_AICL_EN 0) (\<lambda>_. ?Q ?r) s2"
      by (intro last) (use that onlyD [OF s2(1) _ other(1)] in simp_all)
    then show "case_sum ?Q (\<lambda>_. wp ?next ?Q) (Inr ()) s2" by simp
  qed simp
  have "wp (chk (sec_wr chip SMBCHG_USB_CHGPTH_IL_CFG USBIN_INPUT_MASK (of_nat ?i))
      (\<lambda>_. chk (upd chip SMBCHG_USB_CHGPTH_CMD_IL ?m ?m) (\<lambda>_. ?next))) ?Q s"
    unfolding wp_chk [of "sec_wr chip SMBCHG_USB_CHGPTH_IL_CFG _ _"]
  proof (rule wp_sec)
    fix s1 assume s1: "stable SMBCHG_USB_CHGPTH_IL_CFG \<Longrightarrow>
      at s1 SMBCHG_USB_CHGPTH_IL_CFG = masked (at s SMBCHG_USB_CHGPTH_IL_CFG) USBIN_INPUT_MASK (of_nat ?i)"
    show "case_sum ?Q (\<lambda>_. wp (chk (upd chip SMBCHG_USB_CHGPTH_CMD_IL ?m ?m) (\<lambda>_. ?next)) ?Q) (Inr ()) s1"
      unfolding sum.case by (rule mid) (simp add: s1)
  qed (simp_all add: smbchg_registers)
  with False show ?thesis by (simp only: smbchg_usb_set_ilim_hc_def Let_def if_False)
qed

lemma enable_keeps_program:
  assumes "programs s r"
  shows "wp (smbchg_usb_enable chip True) (\<lambda>_ s'. programs s' r) s"
proof (rule wp_mono [OF usb_enable_effect])
  fix q s' assume e: "only {SMBCHG_USB_CHGPTH_CMD_IL} s s' \<and> q \<le> 0 \<and>
     (stable SMBCHG_USB_CHGPTH_CMD_IL \<longrightarrow>
        (at s' SMBCHG_USB_CHGPTH_CMD_IL = at s SMBCHG_USB_CHGPTH_CMD_IL \<and> q < 0 \<or>
         at s' SMBCHG_USB_CHGPTH_CMD_IL = masked (at s SMBCHG_USB_CHGPTH_CMD_IL) 0x10 (if True then 0 else 0x10)))"
  then have "only {SMBCHG_USB_CHGPTH_CMD_IL} s s'" by blast
  note same = onlyD [OF this, of SMBCHG_USB_CHGPTH_CFG] onlyD [OF this, of SMBCHG_USB_CHGPTH_IL_CFG]
  have bits: "has (at s' SMBCHG_USB_CHGPTH_CMD_IL) m = has (at s SMBCHG_USB_CHGPTH_CMD_IL) m"
    if "stable SMBCHG_USB_CHGPTH_CMD_IL" "(0x10 :: u8) AND m = 0" for m
    using e that by (auto simp: has_masked_out)
  show "programs s' r"
    using assms same bits [of "0x01"] bits [of "0x02"] bits [of "0x04"]
    by (auto simp: programmed_ilim_def aicl_mode_def smbchg_registers)
qed

text \<open>What a successful request achieves.\<close>

lemma set_ilim_effect:
  "wp (smbchg_usb_set_ilim chip c) (\<lambda>r s'. 0 < r \<longrightarrow> r \<le> c \<and> programs s' r \<and>
     (if c \<in> set smbchg_lc_ilim_options then r = c
      else r \<in> set (if c < 300000 then smbchg_lc_ilim_options else ilim_table (sm_data chip)) \<and>
        (\<forall>x\<in>set (if c < 300000 then smbchg_lc_ilim_options else ilim_table (sm_data chip)). x \<le> c \<longrightarrow> x \<le> r))) s"
proof (cases "c < smbchg_lc_ilim_options ! 0")
  case True
  then show ?thesis
    unfolding smbchg_usb_set_ilim_def
    by (simp only: if_True, intro wp_mono [OF usb_enable_effect]) auto
next
  case False
  let ?m = "if c \<in> set smbchg_lc_ilim_options then smbchg_usb_set_ilim_lc chip c
              else if c < ilim_table (sm_data chip) ! 0 then smbchg_usb_set_ilim_lc chip c
              else smbchg_usb_set_ilim_hc chip c"
  let ?R = "\<lambda>r. r \<le> c \<and> (if c \<in> set smbchg_lc_ilim_options then r = c
      else r \<in> set (if c < 300000 then smbchg_lc_ilim_options else ilim_table (sm_data chip)) \<and>
        (\<forall>x\<in>set (if c < 300000 then smbchg_lc_ilim_options else ilim_table (sm_data chip)). x \<le> c \<longrightarrow> x \<le> r))"
  have m: "wp ?m (\<lambda>r s'. 0 < r \<longrightarrow> ?R r \<and> programs s' r) s"
    by (simp only: tbl(3) split: if_split, intro conjI impI)
      (rule wp_mono [OF set_ilim_lc_effect] wp_mono [OF set_ilim_hc_effect], force)+
  have tail: "wp (if r > 0 then do { _ \<leftarrow> smbchg_usb_enable chip True; ret r } else ret r)
      (\<lambda>r s'. 0 < r \<longrightarrow> ?R r \<and> programs s' r) s1"
    if "0 < r \<longrightarrow> ?R r \<and> programs s1 r" for r s1
  proof (cases "0 < r")
    case True
    with that have "?R r" "programs s1 r" by blast+
    then have "wp (smbchg_usb_enable chip True) (\<lambda>_ s'. 0 < r \<longrightarrow> ?R r \<and> programs s' r) s1"
      by (intro wp_mono [OF enable_keeps_program]) blast+
    then show ?thesis by (simp only: True if_True wp_bind wp_return)
  qed simp
  have "wp (smbchg_usb_set_ilim chip c) (\<lambda>r s'. 0 < r \<longrightarrow> ?R r \<and> programs s' r) s"
    unfolding smbchg_usb_set_ilim_def
    by (simp only: False if_False wp_bind) (rule wp_mono [OF m], rule tail)
  then show ?thesis by (rule wp_mono) blast
qed

end

end
