(* ===== verification/Smbchg_Correct.thy ===== *)
theory Smbchg_Correct
  imports Smbchg_Regs
begin

text \<open>
  What the charger driver gets right: the input current limit it programs and reports, the
  battery limits it leaves in the hardware, the transfers it makes, the over-current retry
  counter, the property interface and \<open>probe\<close>; and one failure it hides. The witnesses run on
  a simulated PMI8996 charger.
\<close>

section \<open>A simulated charger\<close>

definition closest :: "int \<Rightarrow> int list \<Rightarrow> nat" where
  "closest x a = fold (\<lambda>i j. if \<bar>x - a ! i\<bar> < \<bar>x - a ! j\<bar> then i else j) [1..<length a] 0"

definition demo_battery :: battery_info where
  "demo_battery = \<lparr>voltage_min_design_uv = 3400000, voltage_max_design_uv = 4400000,
     charge_full_design_uah = 3000000, charge_term_current_ua = 100000,
     constant_charge_current_max_ua = 2000000\<rparr>"

definition charger :: "u32 set \<Rightarrow> sim smbchg_chip" where
  "charger vol = \<lparr>sm_regmap = sim_regmap vol, sm_base = 0x1000, sm_data = smbchg_pmi8996_data,
     batt_info = demo_battery, find_closest = closest\<rparr>"

definition charger_state :: "(u32 \<Rightarrow> u8) \<Rightarrow> int list \<Rightarrow> sim smbchg_state" where
  "charger_state f errs =
     \<lparr>sm_bus = \<lparr>sim_reg = f, sim_err = errs, sim_hw = []\<rparr>, sm_events = [], otg_resets = 0\<rparr>"

interpretation charger: smbchg_bus "sim_regmap vol" sim_reg vol "charger vol"
  by unfold_locales (simp_all add: charger_def good_base_def known_data_def)

lemma run_bus [simp]: "run_state (bus m) s = (case run_state m (sm_bus s) of (r, w) \<Rightarrow> (r, s\<lparr>sm_bus := w\<rparr>))"
  by (simp add: bus_def)

lemma run_emit [simp]: "run_state (emit e) s = ((), s\<lparr>sm_events := sm_events s @ [e]\<rparr>)"
  by (simp add: emit_def)

lemma run_chk:
  "run_state (chk m f) s = (case run_state m s of (Inl e, s') \<Rightarrow> (e, s') | (Inr v, s') \<Rightarrow> run_state (f v) s')"
  by (simp add: chk_def split: prod.split sum.split)

text \<open>The definitions a concrete run unfolds.\<close>

lemmas charger_run =
  charger_def charger_state_def smbchg_pmi8996_data_def run_chk run_ok_then qcom_pmic_sec_masked_write_def
  qcom_pmic_sec_write_def sim_regmap_def run_sim_transfer sim_tick_def Let_def

lemma demo_index:
  "find_closest_smaller 1234567 smbchg_ilim_table_pmi8996 = 9"
  "find_closest_smaller 2000000 smbchg_ilim_table_pmi8996 = 20"
  "find_closest_smaller 4400000 smbchg_fv_table = 41"
  by (simp_all add: find_closest_smaller_def fcs_loop.simps smbchg_ilim_table_pmi8996_def smbchg_fv_table_def)

lemma demo_set_ilim:
  "\<exists>s'. run_state (smbchg_usb_set_ilim (charger {}) 1234567) (charger_state (\<lambda>_. 0) []) = (1200000, s')"
  by (simp add: smbchg_usb_set_ilim_def smbchg_usb_set_ilim_hc_def smbchg_lc_ilim_options_def charger_run
      demo_index smbchg_usb_enable_def) (simp add: smbchg_ilim_table_pmi8996_def)

section \<open>Input current limit\<close>

text \<open>The registers that hold the input limit are not changed by the hardware.\<close>

definition ilim_quiet :: "u32 set \<Rightarrow> u32 \<Rightarrow> bool" where
  "ilim_quiet vol b \<longleftrightarrow> b + SMBCHG_USB_CHGPTH_CMD_IL \<notin> vol \<and> b + SMBCHG_USB_CHGPTH_CFG \<notin> vol \<and>
     b + SMBCHG_USB_CHGPTH_IL_CFG \<notin> vol"

context smbchg_bus
begin

lemma quiet_stable: "ilim_quiet vol (sm_base chip) \<Longrightarrow> ilim_stable"
  by (simp add: ilim_quiet_def stable_def smbchg_registers)

end



text \<open>
  C6. The programmed limit is the one that is read back: after a successful
  \<open>smbchg_usb_set_ilim\<close>, in low- or high-current mode, \<open>smbchg_usb_get_ilim\<close> returns the
  reported limit unless a transfer fails, even if enabling the charge path afterwards failed.
\<close>

theorem smbchg_limit_roundtrip:
  assumes "smbchg_bus rm reg vol chip" and "ilim_quiet vol (sm_base chip)"
    and "run_state (smbchg_usb_set_ilim chip c) s = (r, s')" and "0 < r"
    and "run_state (smbchg_usb_get_ilim chip) s' = (q, s'')"
  shows "q < 0 \<or> q = r"
proof -
  have prog: "\<not> aicl_mode (smbchg_bus.at reg chip s') \<and>
      programmed_ilim (sm_data chip) (smbchg_bus.at reg chip s') = r"
    using wp_run [OF assms(3) smbchg_bus.set_ilim_effect [OF assms(1)]] assms(4)
      smbchg_bus.quiet_stable [OF assms(1,2)] by blast
  with wp_run [OF assms(5) smbchg_bus.get_ilim_programmed [OF assms(1)]]
    smbchg_bus.quiet_stable [OF assms(1,2)]
  show ?thesis by blast
qed

theorem smbchg_limit_roundtrip_witness:
  "\<exists>s' q s''. run_state (smbchg_usb_set_ilim (charger {}) 1234567) (charger_state (\<lambda>_. 0) []) = (1200000, s') \<and>
     run_state (smbchg_usb_get_ilim (charger {})) s' = (q, s'') \<and> (q < 0 \<or> q = 1200000)"
proof -
  obtain s' where s': "run_state (smbchg_usb_set_ilim (charger {}) 1234567) (charger_state (\<lambda>_. 0) []) = (1200000, s')"
    using demo_set_ilim by blast
  obtain q s'' where q: "run_state (smbchg_usb_get_ilim (charger {})) s' = (q, s'')" by force
  have "ilim_quiet {} (sm_base (charger {}))" by (simp add: ilim_quiet_def)
  from smbchg_limit_roundtrip [OF charger.smbchg_bus_axioms this s' _ q] s' q show ?thesis by auto
qed

section \<open>Transfers\<close>

text \<open>
  Every bulk write follows the unlock of its page, nothing else is written directly, and a
  plain read-modify-write never goes to a locked register.
\<close>

definition open_op :: "bus_op \<Rightarrow> bool" where
  "open_op x = (case x of
     UpdateBits a _ _ \<Rightarrow> a AND 0xff < 0xd0
   | Write a v \<Rightarrow> a AND 0xff = 0xd0 \<and> v = SEC_ACCESS_VALUE
   | _ \<Rightarrow> True)"

definition sm_trace_ok :: "bus_op list \<times> 'w \<Rightarrow> bool" where
  "sm_trace_ok lw \<longleftrightarrow> secured None (fst lw) \<and> list_all open_op (fst lw)"

lemma keeps_trace_ok_sec:
  "keeps sm_trace_ok (qcom_pmic_sec_masked_write (traced rm) a m v)"
proof (rule keepsI)
  fix lw :: "bus_op list \<times> 'a" assume ok: "sm_trace_ok lw"
  have "wp (qcom_pmic_sec_masked_write (traced rm) a m v) (\<lambda>_. secure_trace) lw"
    using keeps_secure_sec_masked_write [of rm a m v] ok unfolding keeps_def sm_trace_ok_def by blast
  moreover have "wp (qcom_pmic_sec_masked_write (traced rm) a m v) (\<lambda>_ lw'. list_all open_op (fst lw')) lw"
    using ok by (cases lw)
      (auto simp: sm_trace_ok_def qcom_pmic_sec_masked_write_def qcom_pmic_sec_write_def wp_def run_ok_then
        open_op_def sec_reg_low split: prod.splits sum.splits)
  ultimately show "wp (qcom_pmic_sec_masked_write (traced rm) a m v) (\<lambda>_. sm_trace_ok) lw"
    by (auto simp: wp_def sm_trace_ok_def split: prod.splits)
qed

lemma trace_frame:
  assumes "sm_regmap chip = traced rm" and "sm_base chip AND 0xff = 0"
  shows "sm_frame sm_trace_ok chip UNIV"
proof (unfold_locales, goal_cases)
  case (3 a m v)
  have "(sm_base chip + a) AND 0xff < 0xd0"
    using 3 low_byte_add [OF assms(2), of a] by (auto simp: smbchg_registers)
  then show ?case
    by (simp add: assms(1), intro keeps_log_op) (simp add: sm_trace_ok_def secured_append open_op_def)
next
  case 4
  then show ?case by (simp add: keeps_trace_ok_sec assms(1))
qed (simp add: assms(1), intro keeps_log_op, simp add: sm_trace_ok_def secured_append open_op_def)+

definition traced_charger :: "u32 set \<Rightarrow> (bus_op list \<times> sim) smbchg_chip" where
  "traced_charger vol = \<lparr>sm_regmap = traced (sim_regmap vol), sm_base = 0x1000, sm_data = smbchg_pmi8996_data,
     batt_info = demo_battery, find_closest = closest\<rparr>"

interpretation charger_trace: sm_frame sm_trace_ok "traced_charger vol" UNIV
  by (rule trace_frame [of _ "sim_regmap vol"]) (simp_all add: traced_charger_def)



section \<open>Over-current of the OTG supply\<close>

fun repeatedly :: "nat \<Rightarrow> ('s, 'a) state \<Rightarrow> ('s, unit) state" where
  "repeatedly 0 m = ret ()"
| "repeatedly (Suc n) m = do { _ \<leftarrow> m; repeatedly n m }"

lemma repeatedly_Suc_end: "run_state (repeatedly (Suc n) m) s = (case run_state (repeatedly n m) s of (_, t) \<Rightarrow> ((), snd (run_state m t)))"
  by (induction n arbitrary: s) (auto simp: split_def)

lemma otg_oc_run:
  assumes "reset_otg_on_oc (sm_data chip)"
  shows "snd (run_state (smbchg_handle_otg_oc chip) t) =
    (if otg_resets t < 5
     then t\<lparr>sm_events := sm_events t @ [Schedule_Otg_Reset], otg_resets := otg_resets t + 1\<rparr>
     else t\<lparr>sm_events := sm_events t @ [Notify_Over_Current, Notify_Disable], otg_resets := 0\<rparr>)"
  using assms by (simp add: smbchg_handle_otg_oc_def NUM_OTG_RESET_RETRIES_def)

text \<open>
  The over-current handler of the OTG supply, called \<open>n\<close> times in a row from a fresh
  driver: every sixth call reports over-current (and the disabling) to the regulator framework
  and starts over, all other calls only schedule a reset of the supply; the bus is not touched,
  and the retry counter stays below 6.
\<close>

theorem smbchg_otg_oc_reports:
  assumes "reset_otg_on_oc (sm_data chip)" and "otg_resets s = 0"
    and "run_state (repeatedly n (smbchg_handle_otg_oc chip)) s = ((), s')"
  shows "otg_resets s' = int (n mod 6) \<and> sm_bus s' = sm_bus s \<and>
    count_list (sm_events s') Notify_Over_Current = count_list (sm_events s) Notify_Over_Current + n div 6 \<and>
    count_list (sm_events s') Notify_Disable = count_list (sm_events s) Notify_Disable + n div 6 \<and>
    count_list (sm_events s') Schedule_Otg_Reset = count_list (sm_events s) Schedule_Otg_Reset + (n - n div 6)"
  using assms(3)
proof (induction n arbitrary: s')
  case 0
  then show ?case using assms(2) by simp
next
  case (Suc n)
  obtain t where t: "run_state (repeatedly n (smbchg_handle_otg_oc chip)) s = ((), t)"
    by (cases "run_state (repeatedly n (smbchg_handle_otg_oc chip)) s") auto
  then have s': "s' = snd (run_state (smbchg_handle_otg_oc chip) t)"
    using Suc.prems by (simp only: repeatedly_Suc_end) simp
  note IH = Suc.IH [OF t]
  show ?case
  proof (cases "n mod 6 < 5")
    case True
    then have "Suc n mod 6 = Suc (n mod 6)" "Suc n div 6 = n div 6" by (simp_all add: mod_Suc div_Suc)
    moreover have "n div 6 \<le> n" by simp
    ultimately show ?thesis using IH True unfolding s' otg_oc_run [OF assms(1)] by simp
  next
    case False
    then have "n mod 6 = 5" by presburger
    then have "Suc n mod 6 = 0" "Suc n div 6 = Suc (n div 6)" by (simp_all add: mod_Suc div_Suc)
    then show ?thesis using IH \<open>n mod 6 = 5\<close> unfolding s' otg_oc_run [OF assms(1)] by simp
  qed
qed

theorem smbchg_otg_oc_reports_witness:
  "\<exists>s'. run_state (repeatedly 13 (smbchg_handle_otg_oc (charger {}))) (charger_state (\<lambda>_. 0) []) = ((), s') \<and>
     otg_resets s' = 1 \<and> count_list (sm_events s') Notify_Over_Current = 2"
proof -
  obtain s' where run: "run_state (repeatedly 13 (smbchg_handle_otg_oc (charger {}))) (charger_state (\<lambda>_. 0) []) = ((), s')"
    by (cases "run_state (repeatedly 13 (smbchg_handle_otg_oc (charger {}))) (charger_state (\<lambda>_. 0) [])") auto
  have "reset_otg_on_oc (sm_data (charger {}))" "otg_resets (charger_state (\<lambda>_. 0) []) = 0"
    "sm_events (charger_state (\<lambda>_. 0) []) = []"
    by (simp_all add: charger_def smbchg_pmi8996_data_def charger_state_def)
  with smbchg_otg_oc_reports [OF _ _ run] run show ?thesis by simp
qed

section \<open>Battery limits after initialisation\<close>

definition fcc_ok :: "smbchg_data \<Rightarrow> int \<Rightarrow> u8 \<Rightarrow> bool" where
  "fcc_ok d limit x \<longleftrightarrow> ilim_table d ! unat (x AND 0x1f) \<le> limit"

definition fv_ok :: "int \<Rightarrow> u8 \<Rightarrow> bool" where
  "fv_ok limit x \<longleftrightarrow> 5 \<le> unat (x AND 0x3f) \<and> unat (x AND 0x3f) < 52 \<and>
     smbchg_fv_table ! (unat (x AND 0x3f) - 5) \<le> limit"

lemma field6_of_nat: "i < 64 \<Longrightarrow> unat ((of_nat i :: u8) AND 0x3f) = i"
proof -
  assume i: "i < 64"
  have "i AND 63 = take_bit 6 i" by (simp add: take_bit_eq_mask mask_eq_exp_minus_1)
  with i show ?thesis by (simp add: unsigned_and_eq unat_of_nat take_bit_eq_mod)
qed

context smbchg_bus
begin

lemma reg_frame:
  assumes "stable off"
  shows "sm_frame (\<lambda>w. reg w (sm_base chip + off) = x) chip (UNIV - {off})"
proof unfold_locales
  fix a show "keeps (\<lambda>w. reg w (sm_base chip + off) = x) (regmap_read (sm_regmap chip) a)"
    unfolding chip_regmap using assms by (intro keepsI wp_read) (auto simp: unchanged_def stable_def)
next
  fix a n show "keeps (\<lambda>w. reg w (sm_base chip + off) = x) (regmap_bulk_read (sm_regmap chip) a n)"
    unfolding chip_regmap using assms by (intro keepsI wp_bulk_read) (auto simp: unchanged_def stable_def)
next
  fix a m v assume "a \<in> UNIV - {off}"
  then show "keeps (\<lambda>w. reg w (sm_base chip + off) = x) (regmap_update_bits (sm_regmap chip) (sm_base chip + a) m v)"
    unfolding chip_regmap using assms by (intro keepsI wp_update_bits) (auto simp: unchanged_def stable_def)
next
  fix a m v assume a: "a \<in> UNIV - {off}" "a < 0x800"
  show "keeps (\<lambda>w. reg w (sm_base chip + off) = x) (qcom_pmic_sec_masked_write (sm_regmap chip) (ucast (sm_base chip + a)) m v)"
    unfolding chip_regmap
  proof (intro keepsI sec.wp_mw)
    fix w w' assume "reg w (sm_base chip + off) = x"
      "unchanged reg vol {sec_reg (ucast (sm_base chip + a)), ucast (ucast (sm_base chip + a) :: u16)} w w'"
    then show "reg w' (sm_base chip + off) = x"
      using assms a by (auto simp: unchanged_def stable_def addr16 [OF base] sec_reg_other [OF base, THEN not_sym])
  qed (use assms a in \<open>auto simp: unchanged_def stable_def addr16 [OF base] sec_reg_other [OF base, THEN not_sym]\<close>)
qed

lemma frame_at: "(\<And>x. keeps (on_bus (\<lambda>w. reg w (sm_base chip + off) = x)) m) \<Longrightarrow> wp m (\<lambda>_ s'. at s' off = at s off) s"
  by (simp add: keeps_def at_def)

lemma set_fcc_effect:
  "wp (smbchg_charging_set_ilim chip c) (\<lambda>r s'. 0 \<le> r \<longrightarrow> r \<le> c \<and>
     (stable SMBCHG_CHGR_FCC_CFG \<longrightarrow> ilim_table (sm_data chip) ! unat (at s' SMBCHG_CHGR_FCC_CFG AND 0x1f) = r)) s"
proof (cases "c < ilim_table (sm_data chip) ! 0")
  case True
  then show ?thesis by (simp add: smbchg_charging_set_ilim_def)
next
  case False
  let ?i = "find_closest_smaller c (ilim_table (sm_data chip))"
  have i: "?i < 32" using sorted_table.idx_bound [OF tbl(1)] tbl(2) by metis
  have r: "ilim_table (sm_data chip) ! ?i \<le> c" using sorted_table.idx_below [OF tbl(1)] False by simp
  show ?thesis
    unfolding smbchg_charging_set_ilim_def Let_def
    using False r field5_of_nat [OF i] by (auto intro!: wp_sec simp: smbchg_registers)
qed

lemma set_vfloat_effect:
  "wp (smbchg_charging_set_vfloat chip u) (\<lambda>r s'. 0 \<le> r \<longrightarrow>
     (stable SMBCHG_CHGR_FV_CFG \<longrightarrow> fv_ok u (at s' SMBCHG_CHGR_FV_CFG))) s"
proof (cases "u < smbchg_fv_table ! 0 \<or> u > smbchg_fv_table ! (length smbchg_fv_table - 1)")
  case True
  then show ?thesis by (simp add: smbchg_charging_set_vfloat_def)
next
  case False
  let ?i = "find_closest_smaller u smbchg_fv_table"
  have i: "5 + ?i < 64" "?i < 47" using fv.idx_bound [of u] fv_length by simp_all
  have ok: "fv_ok u x" if "x AND 0x3f = of_nat (5 + ?i) AND 0x3f" for x
    using that fv.idx_below [of u] False i field6_of_nat [OF i(1)] by (simp add: fv_ok_def)
  show ?thesis
    unfolding smbchg_charging_set_vfloat_def Let_def if_not_P [OF False] wp_chk
    by (rule wp_sec) (auto simp: SMBCHG_CHGR_FV_CFG_def simp del: of_nat_add intro!: ok)
qed

lemma init_tail:
  "smbchg_init chip =
     chk (sec_wr chip SMBCHG_CHGR_CHGR_CFG1 (RECHG_THRESHOLD_SRC_BIT OR TERM_I_SRC_BIT) (0x02 OR 0x04)) (\<lambda>_.
     chk (sec_wr chip SMBCHG_CHGR_CHGR_CFG2
            (CHARGER_INHIBIT_BIT OR AUTO_RECHG_BIT OR I_TERM_BIT OR P2F_CHG_TRAN_BIT OR CHG_EN_SRC_BIT)
            0x01) (\<lambda>_.
     chk (sec_wr chip SMBCHG_CHGR_CFG RCHG_LVL_BIT 0) (\<lambda>_.
     chk_neg (if charge_term_current_ua (batt_info chip) \<noteq> - EINVAL
              then smbchg_charging_set_iterm chip (charge_term_current_ua (batt_info chip))
              else ret 0) (
     chk_neg (smbchg_charging_set_ilim chip (constant_charge_current_max_ua (batt_info chip))) (
     chk_neg (smbchg_charging_set_vfloat chip (voltage_max_design_uv (batt_info chip))) (init_rest chip))))))"
  by (simp add: smbchg_init_def init_rest_def)

end

context smbchg_bus
begin

lemma sec_then:
  assumes "off < 0x800" and "\<And>s'. wp (f ()) (\<lambda>r s'. r = 0 \<longrightarrow> P s') s'"
  shows "wp (chk (sec_wr chip off m v) f) (\<lambda>r s'. r = 0 \<longrightarrow> P s') s"
  unfolding wp_chk by (rule wp_sec [OF assms(1)]) (use assms(2) in auto)

lemma neg_then:
  assumes "\<And>s'. wp n (\<lambda>r s'. r = 0 \<longrightarrow> P s') s'"
  shows "wp (chk_neg m n) (\<lambda>r s'. r = (0 :: int) \<longrightarrow> P s') s"
  unfolding wp_chk_neg by (rule wp_mono [OF wp_True]) (use assms in auto)

lemma init_rest_keeps:
  assumes "stable off" and "off \<notin> {SMBCHG_USB_CHGPTH_CMD_IL, SMBCHG_USB_CHGPTH_IL_CFG, SMBCHG_USB_CHGPTH_AICL_CFG,
    SMBCHG_BAT_IF_CMD_CHG, SMBCHG_USB_CHGPTH_CFG, SMBCHG_USB_CHGPTH_APSD_CFG, SMBCHG_MISC_TRIM_OPT_15_8}"
  shows "wp (init_rest chip) (\<lambda>_ s'. at s' off = at s off) s"
  by (rule frame_at, rule sm_frame.kept_init_rest [OF reg_frame [OF assms(1)]]) (use assms(2) in auto)

lemma init_limits:
  assumes "stable SMBCHG_CHGR_FCC_CFG" and "stable SMBCHG_CHGR_FV_CFG"
  shows "wp (smbchg_init chip) (\<lambda>r s'. r = 0 \<longrightarrow>
    fcc_ok (sm_data chip) (constant_charge_current_max_ua (batt_info chip)) (at s' SMBCHG_CHGR_FCC_CFG) \<and>
    fv_ok (voltage_max_design_uv (batt_info chip)) (at s' SMBCHG_CHGR_FV_CFG)) s"
proof -
  let ?F = "\<lambda>s. fcc_ok (sm_data chip) (constant_charge_current_max_ua (batt_info chip)) (at s SMBCHG_CHGR_FCC_CFG)"
  let ?V = "\<lambda>s. fv_ok (voltage_max_design_uv (batt_info chip)) (at s SMBCHG_CHGR_FV_CFG)"
  have rest: "wp (init_rest chip) (\<lambda>r s'. r = 0 \<longrightarrow> ?F s' \<and> ?V s') s1" if "?F s1" "?V s1" for s1
  proof -
    have "wp (init_rest chip) (\<lambda>r s'. at s' SMBCHG_CHGR_FCC_CFG = at s1 SMBCHG_CHGR_FCC_CFG \<and>
        at s' SMBCHG_CHGR_FV_CFG = at s1 SMBCHG_CHGR_FV_CFG) s1"
      unfolding wp_conj by (intro conjI init_rest_keeps assms) (simp_all add: smbchg_registers)
    then show ?thesis by (rule wp_mono) (use that in auto)
  qed
  have fv: "wp (chk_neg (smbchg_charging_set_vfloat chip (voltage_max_design_uv (batt_info chip))) (init_rest chip))
      (\<lambda>r s'. r = 0 \<longrightarrow> ?F s' \<and> ?V s') s1" if "?F s1" for s1
  proof -
    have k: "wp (smbchg_charging_set_vfloat chip u) (\<lambda>_ s'. at s' SMBCHG_CHGR_FCC_CFG = at s1 SMBCHG_CHGR_FCC_CFG) s1" for u
      by (rule frame_at, rule sm_frame.kept_charging(2) [OF reg_frame [OF assms(1)]]) (simp add: smbchg_registers)
    have "wp (smbchg_charging_set_vfloat chip (voltage_max_design_uv (batt_info chip)))
      (\<lambda>r s'. at s' SMBCHG_CHGR_FCC_CFG = at s1 SMBCHG_CHGR_FCC_CFG \<and> (0 \<le> r \<longrightarrow> stable SMBCHG_CHGR_FV_CFG \<longrightarrow> ?V s')) s1"
      unfolding wp_conj by (intro conjI k set_vfloat_effect)
    then show ?thesis
      unfolding wp_chk_neg by (rule wp_mono) (use that assms in \<open>auto intro: rest\<close>)
  qed
  have fcc: "wp (chk_neg (smbchg_charging_set_ilim chip (constant_charge_current_max_ua (batt_info chip)))
      (chk_neg (smbchg_charging_set_vfloat chip (voltage_max_design_uv (batt_info chip))) (init_rest chip)))
      (\<lambda>r s'. r = 0 \<longrightarrow> ?F s' \<and> ?V s') s1" for s1
    unfolding wp_chk_neg [of "smbchg_charging_set_ilim _ _"]
  proof (rule wp_mono [OF set_fcc_effect])
    fix r s2 assume "0 \<le> r \<longrightarrow> r \<le> constant_charge_current_max_ua (batt_info chip) \<and>
      (stable SMBCHG_CHGR_FCC_CFG \<longrightarrow> ilim_table (sm_data chip) ! unat (at s2 SMBCHG_CHGR_FCC_CFG AND 0x1f) = r)"
    then have "0 \<le> r \<Longrightarrow> ?F s2" using assms(1) by (simp add: fcc_ok_def)
    then show "if r < 0 then r = 0 \<longrightarrow> ?F s2 \<and> ?V s2 else wp (chk_neg (smbchg_charging_set_vfloat chip
        (voltage_max_design_uv (batt_info chip))) (init_rest chip)) (\<lambda>r s'. r = 0 \<longrightarrow> ?F s' \<and> ?V s') s2"
      using fv [of s2] by (cases "r < 0") (simp_all del: wp_chk_neg)
  qed
  show ?thesis
    unfolding init_tail
    by (intro sec_then neg_then fcc) (simp_all add: smbchg_registers)
qed

end

text \<open>
  C4. Initialisation respects the battery: when \<open>smbchg_init\<close> succeeds on a lawful bus, the
  constant charge current programmed in FCC_CFG does not exceed the battery's maximum charge
  current, and the float voltage programmed in FV_CFG is a valid table entry that does not exceed
  the battery's maximum design voltage; the later steps, the source detection included, leave
  both fields alone.
\<close>

theorem smbchg_init_battery_limits:
  assumes "smbchg_bus rm reg vol chip"
    and "sm_base chip + SMBCHG_CHGR_FCC_CFG \<notin> vol" and "sm_base chip + SMBCHG_CHGR_FV_CFG \<notin> vol"
    and "run_state (smbchg_init chip) s = (0, s')"
  shows "fcc_ok (sm_data chip) (constant_charge_current_max_ua (batt_info chip))
      (reg (sm_bus s') (sm_base chip + SMBCHG_CHGR_FCC_CFG)) \<and>
    fv_ok (voltage_max_design_uv (batt_info chip)) (reg (sm_bus s') (sm_base chip + SMBCHG_CHGR_FV_CFG))"
proof -
  have "smbchg_bus.stable vol chip SMBCHG_CHGR_FCC_CFG" "smbchg_bus.stable vol chip SMBCHG_CHGR_FV_CFG"
    using assms(2,3) by (simp_all add: smbchg_bus.stable_def [OF assms(1)] smbchg_registers)
  from wp_run [OF assms(4) smbchg_bus.init_limits [OF assms(1) this]]
  show ?thesis by (simp add: smbchg_bus.at_def [OF assms(1)])
qed

text \<open>With no failures scripted, every transfer of the simulated charger succeeds.\<close>

lemma quiet_transfer:
  assumes "sim_err w = []" and "\<And>v w'. sim_err w' = [] \<Longrightarrow> Q (Inr v) w'"
  shows "wp (sim_transfer vol f) Q w"
  using assms by (auto simp: wp_def run_sim_transfer sim_tick_def Let_def split: prod.splits)

lemma quiet_sec:
  assumes "sim_err (sm_bus s) = []" and "\<And>s'. sim_err (sm_bus s') = [] \<Longrightarrow> Q (Inr ()) s'"
  shows "wp (sec_wr (charger vol) off m v) Q s"
  using assms unfolding wp_bus charger_def qcom_pmic_sec_masked_write_def qcom_pmic_sec_write_def
  by (auto simp: sim_regmap_def intro!: quiet_transfer)

lemma quiet_upd:
  assumes "sim_err (sm_bus s) = []" and "\<And>s'. sim_err (sm_bus s') = [] \<Longrightarrow> Q (Inr ()) s'"
  shows "wp (upd (charger vol) off m v) Q s"
  using assms unfolding wp_bus charger_def by (auto simp: sim_regmap_def intro!: quiet_transfer)

lemma demo_values:
  "\<not> smbchg_ilim_table_pmi8996 ! 20 < 0" "\<not> smbchg_fv_table ! 41 < 0"
  "\<not> smbchg_iterm_table_pmi8996 ! closest 100000 smbchg_iterm_table_pmi8996 < 0"
  "\<not> (2000000 :: int) < smbchg_ilim_table_pmi8996 ! 0" "\<not> (4400000 :: int) < smbchg_fv_table ! 0"
  "\<not> smbchg_fv_table ! (length smbchg_fv_table - Suc 0) < (4400000 :: int)"
  by (simp_all add: smbchg_ilim_table_pmi8996_def smbchg_fv_table_def smbchg_iterm_table_pmi8996_def closest_def upt_rec)

lemma demo_init:
  "\<exists>s'. run_state (smbchg_init (charger {})) (charger_state (\<lambda>_. 0) []) = (0, s')"
proof -
  have c [simp]: "batt_info (charger {}) = demo_battery" "ilim_table (sm_data (charger {})) = smbchg_ilim_table_pmi8996"
    "iterm_table (sm_data (charger {})) = smbchg_iterm_table_pmi8996" "find_closest (charger {}) = closest"
    by (simp_all add: charger_def smbchg_pmi8996_data_def)
  have b [simp]: "charge_term_current_ua demo_battery = 100000" "constant_charge_current_max_ua demo_battery = 2000000"
    "voltage_max_design_uv demo_battery = 4400000" by (simp_all add: demo_battery_def)
  have "wp (smbchg_init (charger {})) (\<lambda>r _. r = 0) (charger_state (\<lambda>_. 0) [])"
    unfolding smbchg_init_def smbchg_charging_set_iterm_def smbchg_charging_set_ilim_def
      smbchg_charging_set_vfloat_def smbchg_charging_enable_def Let_def
    by (auto simp: demo_index demo_values ret_of_def charger_state_def intro!: quiet_sec quiet_upd)
  then show ?thesis by (auto simp: wp_def split: prod.splits)
qed

theorem smbchg_init_battery_limits_witness:
  "\<exists>s'. run_state (smbchg_init (charger {})) (charger_state (\<lambda>_. 0) []) = (0, s') \<and>
     fcc_ok smbchg_pmi8996_data 2000000 (sim_reg (sm_bus s') 0x10f2) \<and> fv_ok 4400000 (sim_reg (sm_bus s') 0x10f4)"
proof -
  obtain s' where s': "run_state (smbchg_init (charger {})) (charger_state (\<lambda>_. 0) []) = (0, s')"
    using demo_init by blast
  from smbchg_init_battery_limits [OF charger.smbchg_bus_axioms _ _ s'] s' show ?thesis
    by (auto simp: charger_def demo_battery_def smbchg_registers)
qed

section \<open>Values reported from register fields\<close>

context smbchg_bus
begin

lemma field3_bound: "unat (x AND (0x07 :: u32)) < 8"
proof -
  have "x AND 0x07 = take_bit 3 x" by (simp add: take_bit_eq_mask mask_eq_exp_minus_1)
  moreover have "unat (take_bit 3 x) = take_bit 3 (unat x)" by (simp add: unsigned_take_bit_eq)
  moreover have "take_bit 3 (unat x) < 2 ^ 3" by (rule take_bit_nat_less_exp)
  ultimately show ?thesis by simp
qed

lemma ilim_entry [simp]:
  "ilim_table (sm_data chip) ! unat (x AND (0x1f :: u32)) \<in> set (ilim_table (sm_data chip))"
  "ilim_table (sm_data chip) ! unat (y AND (0x1f :: u8)) \<in> set (ilim_table (sm_data chip))"
  using field5_bound [of x] field5_bound [of y] tbl(2) by (auto intro!: nth_mem)

lemma lc_entry [simp]: "smbchg_lc_ilim a b \<in> set smbchg_lc_ilim_options"
  by (cases a; cases b) (simp_all add: smbchg_lc_ilim_def smbchg_lc_ilim_options_def)

lemma usb_get_ilim_entry:
  "wp (smbchg_usb_get_ilim chip) (\<lambda>r _. r < 0 \<or> r \<in> set smbchg_lc_ilim_options \<union> set (ilim_table (sm_data chip))) s"
  unfolding smbchg_usb_get_ilim_def Let_def
  by (auto intro!: wp_rd)

lemma get_ilim_entry:
  "wp (smbchg_charging_get_ilim chip) (\<lambda>r _. r < 0 \<or> r \<in> set (ilim_table (sm_data chip))) s"
  unfolding smbchg_charging_get_ilim_def by (auto intro!: wp_rd)

lemma get_iterm_entry:
  "wp (smbchg_charging_get_iterm chip) (\<lambda>r _. r < 0 \<or> r \<in> set (iterm_table (sm_data chip))) s"
  unfolding smbchg_charging_get_iterm_def
  using field3_bound known_lengths [OF data] by (auto intro!: wp_rd nth_mem)

lemma set_ilim_value:
  "wp (smbchg_charging_set_ilim chip c) (\<lambda>r _. r < 0 \<or> 0 < r \<and> r \<le> c \<and> r \<in> set (ilim_table (sm_data chip))) s"
proof (cases "c < ilim_table (sm_data chip) ! 0")
  case True
  then show ?thesis by (simp add: smbchg_charging_set_ilim_def)
next
  case False
  let ?i = "find_closest_smaller c (ilim_table (sm_data chip))"
  have i: "?i < length (ilim_table (sm_data chip))" by (rule sorted_table.idx_bound [OF tbl(1)])
  have "ilim_table (sm_data chip) ! ?i \<le> c" using sorted_table.idx_below [OF tbl(1)] False by simp
  moreover have "0 < ilim_table (sm_data chip) ! ?i"
    using sorted_table.mono [OF tbl(1) _ i, of 0] sorted_table.positive [OF tbl(1)] by simp
  ultimately show ?thesis
    unfolding smbchg_charging_set_ilim_def Let_def
    using False i by (auto intro!: wp_sec nth_mem simp: smbchg_registers)
qed

end

text \<open>
  The register fields cannot index past the charger's tables: whatever the (possibly
  volatile) registers hold, the input limit, the charge current and the termination current that
  are reported are entries of the chip's tables, or a negative errno from the bus.
\<close>

theorem smbchg_reports_table_entries:
  assumes "smbchg_bus rm reg vol chip"
  shows "fst (run_state (smbchg_usb_get_ilim chip) s) \<in> {..<0} \<union> set smbchg_lc_ilim_options \<union> set (ilim_table (sm_data chip)) \<and>
    fst (run_state (smbchg_charging_get_ilim chip) s) \<in> {..<0} \<union> set (ilim_table (sm_data chip)) \<and>
    fst (run_state (smbchg_charging_get_iterm chip) s) \<in> {..<0} \<union> set (iterm_table (sm_data chip))"
  using smbchg_bus.usb_get_ilim_entry [OF assms, of s] smbchg_bus.get_ilim_entry [OF assms, of s]
    smbchg_bus.get_iterm_entry [OF assms, of s] by (simp add: wp_def split: prod.splits)

theorem smbchg_reports_table_entries_witness:
  "fst (run_state (smbchg_charging_get_iterm (charger {})) (charger_state (\<lambda>_. 0xff) [])) = 500000 \<and>
   (500000 :: int) \<in> set smbchg_iterm_table_pmi8996"
proof -
  have "fst (run_state (smbchg_charging_get_iterm (charger {})) (charger_state (\<lambda>_. 0xff) [])) = 500000"
    by (simp add: smbchg_charging_get_iterm_def charger_run smbchg_iterm_table_pmi8996_def)
  with smbchg_reports_table_entries [OF charger.smbchg_bus_axioms, of "{}" "charger_state (\<lambda>_. 0xff) []"] show ?thesis
    by (simp add: charger_def smbchg_pmi8996_data_def)
qed

section \<open>Property interface\<close>

text \<open>
  Writing properties: a property that is not declared writeable is refused with -EINVAL, and
  so is a charge current above the battery's maximum, both without any transfer. An accepted
  charge current is answered by the programmed current, a positive table entry that is at most
  the request, rather than by the 0 the power-supply core expects for success; an input limit is
  answered by 0 or an errno.
\<close>

theorem smbchg_set_property_contract:
  assumes "smbchg_bus rm reg vol chip"
    and "run_state (smbchg_set_property chip psp v) s = (r, s')"
  shows "(\<not> smbchg_property_is_writeable psp \<or>
       psp = PROP_CONSTANT_CHARGE_CURRENT \<and> constant_charge_current_max_ua (batt_info chip) < v \<longrightarrow>
       r = - EINVAL \<and> s' = s) \<and>
    (psp = PROP_CONSTANT_CHARGE_CURRENT \<and> 0 \<le> r \<longrightarrow>
       0 < r \<and> r \<le> v \<and> v \<le> constant_charge_current_max_ua (batt_info chip) \<and> r \<in> set (ilim_table (sm_data chip))) \<and>
    (psp = PROP_INPUT_CURRENT_LIMIT \<longrightarrow> r \<le> 0)"
proof (cases psp)
  case PROP_CONSTANT_CHARGE_CURRENT
  then show ?thesis
    using assms(2) wp_run [OF _ smbchg_bus.set_ilim_value [OF assms(1)], of v s r s']
    by (auto simp: smbchg_set_property_def smbchg_property_is_writeable_def split: if_splits)
next
  case PROP_INPUT_CURRENT_LIMIT
  then show ?thesis
    using assms(2) by (auto simp: smbchg_set_property_def smbchg_property_is_writeable_def split: prod.splits)
qed (use assms(2) in \<open>auto simp: smbchg_set_property_def smbchg_property_is_writeable_def\<close>)

theorem smbchg_set_property_contract_witness:
  "\<exists>s'. run_state (smbchg_set_property (charger {}) PROP_CONSTANT_CHARGE_CURRENT 1234567) (charger_state (\<lambda>_. 0) []) = (1200000, s') \<and>
     (1234567 :: int) \<le> 2000000"
proof -
  let ?m = "smbchg_set_property (charger {}) PROP_CONSTANT_CHARGE_CURRENT 1234567"
  have "\<exists>s'. run_state ?m (charger_state (\<lambda>_. 0) []) = (1200000, s')"
    by (simp add: smbchg_set_property_def smbchg_charging_set_ilim_def charger_run demo_index demo_battery_def)
      (simp add: smbchg_ilim_table_pmi8996_def)
  then obtain s' where run: "run_state ?m (charger_state (\<lambda>_. 0) []) = (1200000, s')" by blast
  from smbchg_set_property_contract [OF charger.smbchg_bus_axioms run] run show ?thesis
    by (auto simp: charger_def demo_battery_def)
qed

text \<open>
  A failing switch to automatic input current limiting is reported as success: when the
  second transfer fails, \<open>smbchg_usb_aicl_enable\<close> returns 0 (the value of \<open>IRQ_NONE\<close>)
  although automatic limiting was not enabled, and the source-detection handler goes on to
  enable the charge path.
\<close>

theorem smbchg_aicl_failure_hidden:
  "\<exists>s'. run_state (smbchg_usb_aicl_enable (charger {})) (charger_state (\<lambda>_. 0) [0, - 5]) = (0, s') \<and>
     \<not> has (sim_reg (sm_bus s') (sm_base (charger {}) + SMBCHG_USB_CHGPTH_AICL_CFG)) USB_CHGPTH_AICL_EN"
  by (simp add: smbchg_usb_aicl_enable_def charger_run has_def smbchg_registers)

section \<open>Start-up\<close>

definition handled_irqs :: "string list" where
  "handled_irqs = [''chg-error'', ''chg-p2f-thr'', ''chg-rechg-thr'', ''chg-taper-thr'', ''chg-tcc-thr'',
     ''batt-hot'', ''batt-warm'', ''batt-cold'', ''batt-cool'', ''batt-missing'', ''usbin-src-det'',
     ''usbid-change'', ''otg-fail'', ''otg-oc'', ''aicl-done'', ''temp-shutdown'']"

text \<open>The kernel reports a failure with a nonzero value.\<close>

definition failures_nonzero :: "'w smbchg_env \<Rightarrow> bool" where
  "failures_nonzero env \<longleftrightarrow> se_reg env \<noteq> Inl 0 \<and> se_regulator env \<noteq> Inl 0 \<and> se_psy_register env \<noteq> Inl 0 \<and>
     se_batt_info env \<noteq> Inl 0 \<and> se_extcon_alloc env \<noteq> Inl 0 \<and> se_extcon_register env \<noteq> Inl 0 \<and>
     (\<forall>n. se_request_irq env n \<noteq> Inl 0)"

definition handled :: "(string \<times> 'h option) list \<Rightarrow> string list" where
  "handled irqs = map fst (filter (\<lambda>i. snd i \<noteq> None) irqs)"

lemma handled_simps [simp]:
  "handled [] = []" "handled ((n, None) # irqs) = handled irqs" "handled ((n, Some h) # irqs) = n # handled irqs"
  by (simp_all add: handled_def)

lemma handled_smbchg_irqs: "handled smbchg_irqs = handled_irqs"
  by (simp add: smbchg_irqs_def handled_irqs_def)

lemma request_irqs_wp:
  assumes "\<forall>n. se_request_irq env n \<noteq> Inl 0"
  shows "wp (request_irqs env irqs) (\<lambda>r s'. r = 0 \<longrightarrow> sm_events s' = sm_events s @ map Irq_Requested (handled irqs) \<and>
    (\<forall>n\<in>set (handled irqs). 0 \<le> se_irq env n \<and> se_request_irq env n = Inr ())) s"
  using assms
proof (induction env irqs arbitrary: s rule: request_irqs.induct)
  case (3 env name h irqs)
  then show ?case
    by (cases "se_request_irq env name") (auto intro!: wp_mono [OF 3(1)])
qed auto

text \<open>
  A successful \<open>probe\<close> has found every resource, a battery with a maximum voltage and a
  maximum charge current, and ends by requesting, in the order of the table, exactly the
  interrupts that have a handler.
\<close>

theorem smbchg_probe_complete:
  assumes "failures_nonzero env" and "run_state (smbchg_probe env) s = (0, s')"
  shows "\<exists>rm base batt log. se_regmap env = Some rm \<and> se_reg env = Inr base \<and> se_batt_info env = Inr batt \<and>
    voltage_max_design_uv batt \<noteq> - EINVAL \<and> constant_charge_current_max_ua batt \<noteq> - EINVAL \<and>
    sm_events s' = log @ map Irq_Requested handled_irqs \<and>
    (\<forall>n\<in>set handled_irqs. 0 \<le> se_irq env n \<and> se_request_irq env n = Inr ())"
proof -
  let ?Q = "\<lambda>r s'. r = 0 \<longrightarrow> (\<exists>log. sm_events s' = log @ map Irq_Requested handled_irqs) \<and>
    (\<forall>n\<in>set handled_irqs. 0 \<le> se_irq env n \<and> se_request_irq env n = Inr ())"
  have irqs: "wp (request_irqs env smbchg_irqs) ?Q t" for t
    by (rule wp_mono [OF request_irqs_wp]) (use assms(1) in \<open>auto simp: failures_nonzero_def handled_smbchg_irqs\<close>)
  have fin: "wp (chk_nz m (request_irqs env smbchg_irqs)) ?Q t" for m t
    unfolding wp_chk_nz by (rule wp_mono [OF wp_True]) (use irqs in auto)
  have "wp (smbchg_probe env) (\<lambda>r s'. r = 0 \<longrightarrow> (\<exists>rm base batt. se_regmap env = Some rm \<and> se_reg env = Inr base \<and>
      se_batt_info env = Inr batt \<and> voltage_max_design_uv batt \<noteq> - EINVAL \<and> constant_charge_current_max_ua batt \<noteq> - EINVAL) \<and>
      ?Q r s') s"
    using assms(1) unfolding smbchg_probe_def Let_def failures_nonzero_def
    by (auto simp del: wp_chk_nz intro!: wp_mono [OF fin] split: option.split sum.splits)
  from wp_run [OF assms(2) this] show ?thesis by blast
qed

definition demo_env :: "sim smbchg_env" where
  "demo_env = \<lparr>se_alloc_ok = True, se_regmap = Some (sim_regmap {}), se_reg = Inr 0x1000, se_regulator = Inr (),
     se_match_data = smbchg_pmi8996_data, se_psy_register = Inr (), se_batt_info = Inr demo_battery,
     se_extcon_alloc = Inr (), se_extcon_register = Inr (), se_find_closest = closest,
     se_irq = (\<lambda>_. 7), se_request_irq = (\<lambda>_. Inr ())\<rparr>"

theorem smbchg_probe_complete_witness:
  "\<exists>s' log. run_state (smbchg_probe demo_env) (charger_state (\<lambda>_. 0) []) = (0, s') \<and>
     sm_events s' = log @ map Irq_Requested handled_irqs"
proof -
  let ?s = "charger_state (\<lambda>_. 0) [] :: sim smbchg_state"
  let ?irqs = "smbchg_irqs :: (string \<times> (sim smbchg_chip \<Rightarrow> (sim, irqreturn) sm) option) list"
  have chip: "\<lparr>sm_regmap = sim_regmap {}, sm_base = 0x1000, sm_data = smbchg_pmi8996_data, batt_info = demo_battery,
      find_closest = closest\<rparr> = charger {}"
    by (simp add: charger_def)
  obtain s1 where s1: "run_state (smbchg_init (charger {})) ?s = (0, s1)" using demo_init by blast
  have "run_state (modify_st (otg_resets_update (\<lambda>_. 0))) ?s = ((), ?s)" by (simp add: charger_state_def)
  then have start: "run_state (smbchg_probe demo_env) ?s = run_state (request_irqs demo_env ?irqs) s1"
    using s1 by (simp add: smbchg_probe_def demo_env_def run_chk Let_def chip chk_nz_def demo_battery_def [symmetric])
      (simp add: demo_battery_def)
  moreover have "fst (run_state (request_irqs demo_env ?irqs) s1) = 0"
    by (simp add: smbchg_irqs_def demo_env_def run_chk)
  ultimately obtain s' where run: "run_state (smbchg_probe demo_env) ?s = (0, s')"
    by (metis prod.collapse)
  have "failures_nonzero demo_env" by (simp add: failures_nonzero_def demo_env_def)
  from smbchg_probe_complete [OF this run] run show ?thesis by blast
qed

end
