(* ===== verification/C_Strings.thy ===== *)
theory C_Strings
  imports Main
begin

text \<open>
  The C string functions that the boot display (\<open>initramfs/gemini-status.c\<close>) uses. A C string is
  the list of its characters before the terminating NUL, so it never contains NUL itself; a
  pointer that may be NULL is a \<open>string option\<close>. Text outside ASCII is written as its UTF-8
  bytes.
\<close>

section \<open>Searching and comparing\<close>

text \<open>\<open>strncmp(s, p, strlen(p)) == 0\<close>: \<open>s\<close> starts with \<open>p\<close>.\<close>

fun starts_with :: "string \<Rightarrow> string \<Rightarrow> bool" where
  "starts_with s [] = True"
| "starts_with [] (c # p) = False"
| "starts_with (d # s) (c # p) = (c = d \<and> starts_with s p)"

text \<open>\<open>strstr(s, p)\<close>: the rest of \<open>s\<close> from the first occurrence of \<open>p\<close> on.\<close>

fun strstr :: "string \<Rightarrow> string \<Rightarrow> string option" where
  "strstr [] p = (if p = [] then Some [] else None)"
| "strstr (c # s) p = (if starts_with (c # s) p then Some (c # s) else strstr s p)"

definition contains :: "string \<Rightarrow> string \<Rightarrow> bool" where
  "contains s p = (strstr s p \<noteq> None)"

lemma starts_with_iff: "starts_with s p \<longleftrightarrow> (\<exists>r. s = p @ r)"
  by (induction s p rule: starts_with.induct) auto

lemma starts_with_length: "starts_with s p \<Longrightarrow> length p \<le> length s"
  by (auto simp: starts_with_iff)

lemma starts_with_take: "starts_with s p \<longleftrightarrow> take (length p) s = p"
  unfolding starts_with_iff by (metis append_eq_conv_conj append_take_drop_id)

lemma strstr_Some: "strstr s p = Some r \<Longrightarrow> \<exists>l. s = l @ r \<and> starts_with r p"
proof (induction s p rule: strstr.induct)
  case (2 c s p)
  then show ?case
    by (cases "starts_with (c # s) p") (force, metis append_Cons strstr.simps(2))
qed (auto split: if_splits)

lemma contains_iff: "contains s p \<longleftrightarrow> (\<exists>l r. s = l @ p @ r)"
proof
  assume "contains s p"
  then obtain r where "strstr s p = Some r" by (auto simp: contains_def)
  from strstr_Some [OF this] show "\<exists>l r. s = l @ p @ r" by (auto simp: starts_with_iff)
next
  assume "\<exists>l r. s = l @ p @ r"
  then obtain l r where "s = l @ p @ r" by blast
  then show "contains s p"
  proof (induction l arbitrary: s)
    case Nil
    then have "starts_with s p" by (auto simp: starts_with_iff)
    then show ?case by (cases s; cases p) (simp_all add: contains_def)
  next
    case (Cons c l)
    then show ?case by (auto simp: contains_def)
  qed
qed

lemma contains_Nil [simp]: "contains [] p \<longleftrightarrow> p = []"
  by (simp add: contains_def)

lemma contains_Cons: "contains (c # s) p \<longleftrightarrow> starts_with (c # s) p \<or> contains s p"
  by (simp add: contains_def)

lemma contains_trans: "contains s p \<Longrightarrow> contains p q \<Longrightarrow> contains s q"
  unfolding contains_iff by (metis append.assoc)

section \<open>Buffers\<close>

text \<open>\<open>snprintf(buf, n, "%s", s)\<close> keeps at most \<open>n - 1\<close> characters.\<close>

definition fits :: "nat \<Rightarrow> string \<Rightarrow> string" where
  "fits n s = take (n - 1) s"

lemma fits_length: "0 < n \<Longrightarrow> length (fits n s) < n"
  by (simp add: fits_def)

lemma fits_id: "length s < n \<Longrightarrow> fits n s = s"
  by (simp add: fits_def)

lemma fits_idem [simp]: "fits n (fits n s) = fits n s"
  by (simp add: fits_def)

lemma fits_Nil [simp]: "fits n [] = []"
  by (simp add: fits_def)

lemma fits_eq_Nil: "1 < n \<Longrightarrow> fits n s = [] \<longleftrightarrow> s = []"
  by (cases s) (auto simp: fits_def)

text \<open>\<open>nl = strchr(s, c); if (nl) *nl = 0;\<close>\<close>

definition cut_at :: "char \<Rightarrow> string \<Rightarrow> string" where
  "cut_at c s = takeWhile (\<lambda>d. d \<noteq> c) s"

text \<open>The tokens of \<open>strtok_r(s, "\n", ...)\<close>: the non-empty lines.\<close>

fun lines :: "string \<Rightarrow> string list" where
  "lines [] = [[]]"
| "lines (c # s) =
     (if c = CHR 0x0A then [] # lines s else (case lines s of [] \<Rightarrow> [[c]] | l # ls \<Rightarrow> (c # l) # ls))"

definition strtok_lines :: "string \<Rightarrow> string list" where
  "strtok_lines s = filter (\<lambda>l. l \<noteq> []) (lines s)"

lemma lines_not_Nil [simp]: "lines s \<noteq> []"
  by (cases s) (auto split: list.split)

lemma lines_no_newline: "l \<in> set (lines s) \<Longrightarrow> CHR 0x0A \<notin> set l"
proof (induction s arbitrary: l)
  case (Cons c s)
  then show ?case
    by (cases "lines s") (auto split: if_splits)
qed auto

section \<open>Numbers\<close>

definition is_digit :: "char \<Rightarrow> bool" where
  "is_digit c = (c \<in> set ''0123456789'')"

definition is_space :: "char \<Rightarrow> bool" where
  "is_space c = (c = CHR '' '' \<or> c \<in> {CHR 0x09, CHR 0x0A, CHR 0x0B, CHR 0x0C, CHR 0x0D})"

definition digit_val :: "char \<Rightarrow> int" where
  "digit_val c = of_char c - 48"

definition digits_val :: "string \<Rightarrow> int" where
  "digits_val s = foldl (\<lambda>n c. 10 * n + digit_val c) 0 (takeWhile is_digit s)"

text \<open>
  \<open>atoi\<close>: white space, an optional sign, digits. (A value outside \<open>int\<close> is undefined in C;
  here it is the mathematical value.)
\<close>

definition atoi :: "string \<Rightarrow> int" where
  "atoi s =
     (case dropWhile is_space s of
        [] \<Rightarrow> 0
      | c # r \<Rightarrow> if c = CHR ''-'' then - digits_val r
                else if c = CHR ''+'' then digits_val r else digits_val (c # r))"

text \<open>
  \<open>sscanf(s, "<lit>%d", &v) == 1\<close> for a literal that ends in a blank: the literal has to match
  (a blank in it matches any white space, also none), then white space and an optionally signed
  number follow.
\<close>

fun scan_lit :: "string \<Rightarrow> string \<Rightarrow> string option" where
  "scan_lit [] s = Some s"
| "scan_lit (c # l) s =
     (if is_space c then scan_lit l (dropWhile is_space s)
      else case s of [] \<Rightarrow> None | d # r \<Rightarrow> if c = d then scan_lit l r else None)"

definition scan_int :: "string \<Rightarrow> string \<Rightarrow> int option" where
  "scan_int lit s =
     (case scan_lit lit s of
        None \<Rightarrow> None
      | Some r \<Rightarrow>
          (case dropWhile is_space r of
             [] \<Rightarrow> None
           | c # q \<Rightarrow>
               let ds = (if c = CHR ''-'' \<or> c = CHR ''+'' then q else c # q) in
               if ds \<noteq> [] \<and> is_digit (hd ds) then Some (atoi (c # q)) else None))"

lemma digit_val_range: "is_digit c \<Longrightarrow> 0 \<le> digit_val c \<and> digit_val c \<le> 9"
  by (auto simp: is_digit_def digit_val_def)

lemma digits_val_nonneg: "0 \<le> digits_val s"
proof -
  have "0 \<le> n \<Longrightarrow> list_all is_digit t \<Longrightarrow> 0 \<le> foldl (\<lambda>n c. 10 * n + digit_val c) n t" for n t
    using digit_val_range by (induction t arbitrary: n) (auto simp: add_nonneg_nonneg)
  moreover have "list_all is_digit (takeWhile is_digit s)"
    by (auto simp: list_all_iff dest: set_takeWhileD)
  ultimately show ?thesis unfolding digits_val_def by blast
qed

lemma atoi_example: "atoi '' -42dBm'' = - 42"
  by (simp add: atoi_def digits_val_def digit_val_def is_digit_def is_space_def)

section \<open>Bounded integers\<close>

definition clampi :: "int \<Rightarrow> int \<Rightarrow> int \<Rightarrow> int" where
  "clampi v lo hi = (if v < lo then lo else if v > hi then hi else v)"

lemma clampi_range: "lo \<le> hi \<Longrightarrow> lo \<le> clampi v lo hi \<and> clampi v lo hi \<le> hi"
  by (simp add: clampi_def)

end
