(* ===== verification/Wifi_Flow.thy ===== *)
theory Wifi_Flow
  imports C_Strings
begin

text \<open>
  \<open>initramfs/gemini-wifi-flow.h\<close>: the pure decisions of the Wi-Fi part of the boot display.
  \<open>int\<close> flags are booleans, a \<open>const char *\<close> is a \<open>string option\<close> (NULL is None).
\<close>

section \<open>Types\<close>

datatype gw_connect_act =
  GW_CONN_SUCCESS | GW_CONN_OPEN_PASS | GW_CONN_WRONG_PASS | GW_CONN_RETRY_PSK | GW_CONN_WAIT_PENDING | GW_CONN_FAIL

datatype gw_fail_kind =
  GW_FAIL_UNKNOWN | GW_FAIL_WRONG_PW | GW_FAIL_NEED_PW | GW_FAIL_NOT_FOUND | GW_FAIL_TIMEOUT | GW_FAIL_NO_DEVICE | GW_FAIL_DHCP

record gw_connect_in =
  gi_rc :: int
  gi_out :: "string option"
  gi_connected :: bool
  gi_live_ssid :: "string option"
  gi_connect_ssid :: "string option"
  gi_left_home :: bool
  gi_want_connect :: bool
  gi_pend_ssid :: "string option"
  gi_pend_has_pass :: bool
  gi_used_pass :: bool
  gi_have_session_psk :: bool

text \<open>The Chinese phrases that the connect script prints, in UTF-8.\<close>

definition ZH_CONNECTED :: string where
  "ZH_CONNECTED =
     [CHR 0xE5, CHR 0xB7, CHR 0xB2, CHR 0xE8, CHR 0xBF, CHR 0x9E, CHR 0xE6, CHR 0x8E, CHR 0xA5]"

definition ZH_WRONG_PW :: string where
  "ZH_WRONG_PW =
     [CHR 0xE5, CHR 0xAF, CHR 0x86, CHR 0xE7, CHR 0xA0, CHR 0x81, CHR 0xE4, CHR 0xB8, CHR 0x8D,
      CHR 0xE5, CHR 0xAF, CHR 0xB9]"

definition ZH_NOT_FOUND :: string where
  "ZH_NOT_FOUND =
     [CHR 0xE6, CHR 0x89, CHR 0xBE, CHR 0xE4, CHR 0xB8, CHR 0x8D, CHR 0xE5, CHR 0x88, CHR 0xB0]"

definition ZH_TIMEOUT :: string where
  "ZH_TIMEOUT =
     [CHR 0xE8, CHR 0xBF, CHR 0x9E, CHR 0xE6, CHR 0x8E, CHR 0xA5, CHR 0xE8, CHR 0xB6, CHR 0x85,
      CHR 0xE6, CHR 0x97, CHR 0xB6]"

definition ZH_MISMATCH :: string where
  "ZH_MISMATCH =
     [CHR 0xE7, CHR 0xBD, CHR 0x91, CHR 0xE5, CHR 0x8D, CHR 0xA1, CHR 0xE4, CHR 0xB8, CHR 0x8D,
      CHR 0xE5, CHR 0x8C, CHR 0xB9, CHR 0xE9, CHR 0x85, CHR 0x8D]"

definition ZH_NO_ADDRESS :: string where
  "ZH_NO_ADDRESS =
     [CHR 0xE6, CHR 0xB2, CHR 0xA1, CHR 0xE6, CHR 0x8B, CHR 0xBF, CHR 0xE5, CHR 0x88, CHR 0xB0,
      CHR 0xE5, CHR 0x9C, CHR 0xB0, CHR 0xE5, CHR 0x9D, CHR 0x80]"

definition ZH_ENTERPRISE :: string where
  "ZH_ENTERPRISE =
     [CHR 0xE4, CHR 0xBC, CHR 0x81, CHR 0xE4, CHR 0xB8, CHR 0x9A]"

section \<open>Network names\<close>

text \<open>\<open>s && s[0]\<close>\<close>

definition nonempty :: "string option \<Rightarrow> bool" where
  "nonempty s = (case s of None \<Rightarrow> False | Some t \<Rightarrow> t \<noteq> [])"

lemma nonempty_simps [simp]: "\<not> nonempty None" "nonempty (Some s) \<longleftrightarrow> s \<noteq> []"
  by (simp_all add: nonempty_def)

definition gw_ssid_eq :: "string option \<Rightarrow> string option \<Rightarrow> bool" where
  "gw_ssid_eq a b = (if \<not> nonempty a \<or> \<not> nonempty b then False else a = b)"

definition gw_already_on :: "bool \<Rightarrow> string option \<Rightarrow> string option \<Rightarrow> bool" where
  "gw_already_on connected live want = (connected \<and> gw_ssid_eq live want)"

definition gw_display_ssid :: "bool \<Rightarrow> string option \<Rightarrow> string option \<Rightarrow> string" where
  "gw_display_ssid joining want live =
     (if joining \<and> nonempty want then the want else if nonempty live then the live else [])"

definition gw_join_fell_back :: "bool \<Rightarrow> string option \<Rightarrow> string option \<Rightarrow> bool" where
  "gw_join_fell_back connected live want =
     (connected \<and> nonempty live \<and> nonempty want \<and> \<not> gw_ssid_eq live want)"

definition gw_join_confirm_ok :: "bool \<Rightarrow> string option \<Rightarrow> string option \<Rightarrow> bool" where
  "gw_join_confirm_ok connected live want = gw_already_on connected live want"

definition gw_join_confirm_fail :: "bool \<Rightarrow> bool \<Rightarrow> string option \<Rightarrow> string option \<Rightarrow> bool" where
  "gw_join_confirm_fail timed_out connected live want =
     (if \<not> timed_out then False else \<not> gw_already_on connected live want)"

definition gw_forget_hold_connected :: "string option \<Rightarrow> bool \<Rightarrow> string option \<Rightarrow> bool" where
  "gw_forget_hold_connected forgotten nm_up live =
     (if \<not> nonempty forgotten then False
      else if \<not> nm_up then False
      else if \<not> nonempty live \<or> gw_ssid_eq forgotten live then True
      else False)"

definition gw_allow_join :: "bool \<Rightarrow> bool \<Rightarrow> bool \<Rightarrow> bool" where
  "gw_allow_join connecting forgetting already_on = (\<not> connecting \<and> \<not> forgetting \<and> \<not> already_on)"

definition gw_forget_can_start :: "bool \<Rightarrow> bool \<Rightarrow> bool \<Rightarrow> bool" where
  "gw_forget_can_start forgetting job_running job_is_forget =
     (if job_running \<and> job_is_forget then False
      else if \<not> job_running then True
      else \<not> job_is_forget)"

definition gw_drop_pending :: "bool \<Rightarrow> string option \<Rightarrow> string option \<Rightarrow> bool" where
  "gw_drop_pending ok done_ssid pend_ssid = (ok \<and> gw_ssid_eq done_ssid pend_ssid)"

section \<open>Results of the connect script\<close>

text \<open>\<open>out && strstr(out, phrase)\<close>\<close>

definition says :: "string option \<Rightarrow> string \<Rightarrow> bool" where
  "says out phrase = (case out of None \<Rightarrow> False | Some s \<Rightarrow> contains s phrase)"

definition gw_job_ok :: "int \<Rightarrow> string option \<Rightarrow> bool" where
  "gw_job_ok rc out = (if rc = 0 then True else says out ZH_CONNECTED)"

definition gw_job_need_pw :: "int \<Rightarrow> string option \<Rightarrow> bool" where
  "gw_job_need_pw rc out =
     (if gw_job_ok rc out then False
      else if rc = 3 then False
      else if rc = 2 then True
      else says out ''NEED_PASSWORD'')"

definition gw_job_wrong_pw :: "int \<Rightarrow> string option \<Rightarrow> bool" where
  "gw_job_wrong_pw rc out =
     (if gw_job_ok rc out then False
      else if rc = 3 then True
      else if out = None then False
      else says out ZH_WRONG_PW \<or> says out ''WRONG_PASSWORD'' \<or> says out ''psk mismatch'')"

definition gw_classify_fail :: "string option \<Rightarrow> gw_fail_kind" where
  "gw_classify_fail out =
     (if \<not> nonempty out then GW_FAIL_UNKNOWN
      else if says out ZH_CONNECTED then GW_FAIL_UNKNOWN
      else if says out ZH_WRONG_PW \<or> says out ''WRONG_PASSWORD'' \<or> says out ''psk mismatch'' \<or>
        says out ''4-way handshake'' \<or> says out ''handshake timeout'' \<or> says out ''bad password''
      then GW_FAIL_WRONG_PW
      else if says out ''NEED_PASSWORD'' then GW_FAIL_NEED_PW
      else if says out ''secrets were required'' \<or> says out ''Secrets were required'' then GW_FAIL_WRONG_PW
      else if says out ''could not be found'' \<or> says out ''The Wi-Fi network could not be found'' \<or>
        says out ZH_NOT_FOUND then GW_FAIL_NOT_FOUND
      else if says out ''Timeout expired'' \<or> says out ''timeout expired'' \<or> says out ZH_TIMEOUT then GW_FAIL_TIMEOUT
      else if says out ''No suitable device'' \<or> says out ''mismatching interface'' \<or> says out ZH_MISMATCH
      then GW_FAIL_NO_DEVICE
      else if says out ''IP configuration'' \<or> says out ''dhcp'' \<or> says out ZH_NO_ADDRESS then GW_FAIL_DHCP
      else GW_FAIL_UNKNOWN)"

section \<open>Passwords\<close>

definition gw_open_pass :: "bool \<Rightarrow> bool \<Rightarrow> bool \<Rightarrow> bool \<Rightarrow> bool" where
  "gw_open_pass need_pw already_on left_home pending_has_pass =
     (if \<not> need_pw \<or> already_on \<or> left_home then False
      else if pending_has_pass then False
      else True)"

definition gw_saved_profile_usable :: "int \<Rightarrow> bool \<Rightarrow> bool" where
  "gw_saved_profile_usable flags psk_visible = (if flags = 1 \<or> flags = 2 then False else True)"

definition gw_keep_pending_psk ::
    "bool \<Rightarrow> bool \<Rightarrow> string option \<Rightarrow> string option \<Rightarrow> string option \<Rightarrow> bool" where
  "gw_keep_pending_psk queuing_empty want_connect pend_ssid pend_pass ssid =
     (queuing_empty \<and> want_connect \<and> nonempty pend_pass \<and> gw_ssid_eq pend_ssid ssid)"

definition gw_pass_ssid :: "string option \<Rightarrow> string option \<Rightarrow> string" where
  "gw_pass_ssid connect_ssid selected_ssid =
     (if nonempty connect_ssid then the connect_ssid
      else if nonempty selected_ssid then the selected_ssid
      else [])"

definition gw_join_use_session_psk :: "string option \<Rightarrow> string option \<Rightarrow> string option \<Rightarrow> bool" where
  "gw_join_use_session_psk ssid known_ssid known_psk = (gw_ssid_eq ssid known_ssid \<and> nonempty known_psk)"

definition gw_on_connect_job :: "gw_connect_in option \<Rightarrow> gw_connect_act" where
  "gw_on_connect_job p =
     (case p of
        None \<Rightarrow> GW_CONN_FAIL
      | Some c \<Rightarrow>
          let already = gw_already_on (gi_connected c) (gi_live_ssid c) (gi_connect_ssid c);
              need_pw = gw_job_need_pw (gi_rc c) (gi_out c);
              wrong = gw_job_wrong_pw (gi_rc c) (gi_out c);
              pend_pw = (gi_want_connect c \<and> gi_pend_has_pass c \<and> gw_ssid_eq (gi_pend_ssid c) (gi_connect_ssid c)) in
          if gw_job_ok (gi_rc c) (gi_out c) \<or> (need_pw \<or> wrong) \<and> already then GW_CONN_SUCCESS
          else if (need_pw \<or> wrong) \<and> pend_pw then GW_CONN_WAIT_PENDING
          else if need_pw \<and> \<not> wrong \<and> \<not> gi_used_pass c \<and> gi_have_session_psk c then GW_CONN_RETRY_PSK
          else if wrong \<or> gi_used_pass c \<and> need_pw then GW_CONN_WRONG_PASS
          else if gw_open_pass need_pw already (gi_left_home c) False then GW_CONN_OPEN_PASS
          else GW_CONN_FAIL)"

section \<open>Facts the display relies on\<close>

lemma gw_ssid_eq_iff: "gw_ssid_eq (Some a) (Some b) \<longleftrightarrow> a = b \<and> a \<noteq> []"
  by (auto simp: gw_ssid_eq_def)

lemma gw_ssid_eq_sym: "gw_ssid_eq a b = gw_ssid_eq b a"
  by (auto simp: gw_ssid_eq_def)

lemma gw_ssid_eq_trans: "gw_ssid_eq a b \<Longrightarrow> gw_ssid_eq b c \<Longrightarrow> gw_ssid_eq a c"
  by (auto simp: gw_ssid_eq_def split: if_splits)

lemma gw_job_exclusive: "gw_job_ok rc out \<Longrightarrow> \<not> gw_job_need_pw rc out \<and> \<not> gw_job_wrong_pw rc out"
  by (simp add: gw_job_need_pw_def gw_job_wrong_pw_def)

lemma gw_forget_can_start_iff: "gw_forget_can_start f r j \<longleftrightarrow> \<not> (r \<and> j)"
  by (auto simp: gw_forget_can_start_def)

lemma gw_confirm_exclusive:
  "gw_join_confirm_ok c live want \<Longrightarrow> \<not> gw_join_confirm_fail t c live want"
  by (simp add: gw_join_confirm_ok_def gw_join_confirm_fail_def)

lemma says_Some [simp]: "says (Some s) p = contains s p" "\<not> says None p"
  by (simp_all add: says_def)

text \<open>The evaluation of a phrase search on a concrete text.\<close>

lemmas phrase_eval = contains_Cons ZH_CONNECTED_def ZH_WRONG_PW_def

text \<open>What the script and the display say, in the words of the user.\<close>

definition succeeded :: "gw_connect_in \<Rightarrow> bool" where
  "succeeded c = (gi_rc c = 0 \<or> says (gi_out c) ZH_CONNECTED)"

definition rejected :: "gw_connect_in \<Rightarrow> bool" where
  "rejected c = (gi_rc c = 3 \<or> says (gi_out c) ZH_WRONG_PW \<or> says (gi_out c) ''WRONG_PASSWORD'' \<or>
     says (gi_out c) ''psk mismatch'')"

definition asked :: "gw_connect_in \<Rightarrow> bool" where
  "asked c = (gi_rc c \<noteq> 3 \<and> (gi_rc c = 2 \<or> says (gi_out c) ''NEED_PASSWORD''))"

definition on_target :: "gw_connect_in \<Rightarrow> bool" where
  "on_target c = gw_already_on (gi_connected c) (gi_live_ssid c) (gi_connect_ssid c)"

definition queued :: "gw_connect_in \<Rightarrow> bool" where
  "queued c = (gi_want_connect c \<and> gi_pend_has_pass c \<and> gw_ssid_eq (gi_pend_ssid c) (gi_connect_ssid c))"

text \<open>
  When the connect script ends, the display opens the password sheet for a first password
  exactly when the script asked for one, none was sent, remembered for this network or queued
  for it, the display is not on that network already and the user has not gone back to the home
  screen; it reports a wrong password exactly when the script said so, or asked although one was
  sent, and neither the network is up nor another password queued. Exit status 0 and a text that
  says ``connected'' are a success whatever else is said.
\<close>

theorem gw_password_sheet_exact:
  "(gw_on_connect_job (Some c) = GW_CONN_OPEN_PASS) =
      (asked c \<and> \<not> succeeded c \<and> \<not> rejected c \<and> \<not> gi_used_pass c \<and> \<not> gi_have_session_psk c \<and>
       \<not> queued c \<and> \<not> on_target c \<and> \<not> gi_left_home c) \<and>
    (gw_on_connect_job (Some c) = GW_CONN_WRONG_PASS) =
      ((rejected c \<or> asked c \<and> gi_used_pass c) \<and> \<not> succeeded c \<and> \<not> queued c \<and> \<not> on_target c) \<and>
    (gw_on_connect_job (Some c) = GW_CONN_SUCCESS) = (succeeded c \<or> (rejected c \<or> asked c) \<and> on_target c)"
  unfolding succeeded_def rejected_def asked_def on_target_def queued_def
    gw_on_connect_job_def gw_job_need_pw_def gw_job_wrong_pw_def gw_job_ok_def gw_open_pass_def Let_def
  by (cases "gi_out c") auto

text \<open>
  The two readings of a failure text agree where both apply: if the text alone makes the
  decision take it for a wrong password, it is also shown as one, and a text that makes it ask for a
  password is shown as a missing or a wrong password. A text that says ``connected'' is no failure for
  either.
\<close>

theorem gw_failure_texts_agree:
  "(gw_job_wrong_pw 1 (Some out) \<longrightarrow> gw_classify_fail (Some out) = GW_FAIL_WRONG_PW) \<and>
   (gw_job_need_pw 1 (Some out) \<longrightarrow> gw_classify_fail (Some out) \<in> {GW_FAIL_NEED_PW, GW_FAIL_WRONG_PW}) \<and>
   (contains out ZH_CONNECTED \<longrightarrow> gw_job_ok 1 (Some out) \<and> gw_classify_fail (Some out) = GW_FAIL_UNKNOWN)"
proof -
  have "out \<noteq> []" if "contains out p" "p \<noteq> []" for p
    using that by auto
  then have "out = [] \<Longrightarrow> \<not> contains out ''NEED_PASSWORD''" "out = [] \<Longrightarrow> \<not> contains out ''WRONG_PASSWORD''"
    "out = [] \<Longrightarrow> \<not> contains out ''psk mismatch''" "out = [] \<Longrightarrow> \<not> contains out ZH_WRONG_PW"
    by (auto simp: ZH_WRONG_PW_def)
  then show ?thesis
    by (auto simp: gw_job_wrong_pw_def gw_job_need_pw_def gw_job_ok_def gw_classify_fail_def)
qed

theorem gw_failure_texts_agree_witness:
  "gw_job_wrong_pw 1 (Some ''psk mismatch reported'') \<and>
   gw_classify_fail (Some ''psk mismatch reported'') = GW_FAIL_WRONG_PW"
proof -
  have "gw_job_wrong_pw 1 (Some ''psk mismatch reported'')"
    by (simp add: gw_job_wrong_pw_def gw_job_ok_def phrase_eval)
  with gw_failure_texts_agree [of "''psk mismatch reported''"] show ?thesis by blast
qed

end
