(* ===== verification/Wifi_Hud.thy ===== *)
theory Wifi_Hud
  imports Wifi_Flow
begin

text \<open>
  The Wi-Fi part of the boot display (\<open>initramfs/gemini-status.c\<close>): its global variables as one
  record, and the functions that select networks, start and abort the helper processes, join,
  forget and confirm. Processes are not run: a start appends the argument vector to a log, and
  whether it succeeds is a parameter. Drawing, timing statistics and \<open>dirty()\<close> are left out.
\<close>

section \<open>State\<close>

record ap =
  ap_ssid :: string
  ap_security :: string
  ap_freq :: string
  ap_signal :: int
  ap_secure :: bool
  ap_active :: bool

record wifi =
  have_dev :: bool
  connected :: bool
  busy :: bool
  w_iface :: string
  w_ssid :: string
  w_ip :: string
  w_gw :: string
  w_freq :: string
  w_signal :: int
  w_dbm :: int

datatype sheet = SHEET_NONE | SHEET_LIST | SHEET_DETAIL | SHEET_PASS

datatype job_kind = Radio | Info | Scan | Connect | Link | Forget

text \<open>
  The messages of the status line; which language \<open>T()\<close> picks is not part of the state. Every
  message but the first, and a raw line that is empty, is a non-empty text.
\<close>

datatype status =
    St_Empty
  | St_Raw string
  | St_No_Nmcli
  | St_Connecting
  | St_Enterprise
  | St_Short_Password
  | St_Forgetting
  | St_Connected
  | St_Confirming
  | St_Fail gw_fail_kind string
  | St_Forgot
  | St_Nothing_Found
  | St_Found nat
  | St_Scanning

definition status_shown :: "status \<Rightarrow> bool" where
  "status_shown st = (st \<noteq> St_Empty \<and> st \<noteq> St_Raw [])"

text \<open>What an attempt to start a process meets; when the list is used up, starts succeed.\<close>

datatype spawn = Spawned | No_Nmcli | Spawn_Failed

record hud =
  wifi :: wifi
  aps :: "ap list"
  hover_ap :: int
  selected_ap :: int
  selected_ssid :: string
  selected_sec :: string
  selected_freq :: string
  selected_signal :: int
  selected_secure :: bool
  selected_active :: bool
  forgetting :: bool
  forget_ssid :: string
  password :: string
  shift_on :: bool
  sym_on :: bool
  osk_sym2 :: bool
  connecting :: bool
  connect_fail :: bool
  connect_need_pass :: bool
  connect_ssid :: string
  known_psk_ssid :: string
  known_psk :: string
  join_wait_live :: bool
  t_join_wait :: nat
  last_fail_kind :: gw_fail_kind
  last_fail_raw :: string
  status_line :: status
  job :: bool
  job_kind :: job_kind
  started :: "(job_kind \<times> string list) list"
  spawns :: "spawn list"
  t_assoc :: nat
  want_scan :: bool
  want_info :: bool
  want_connect :: bool
  want_link :: bool
  want_forget :: bool
  pend_ssid :: string
  pend_pass :: string
  pend_sec :: string
  pend_forget :: string
  screen_off :: bool
  sheet_tgt :: sheet

definition MAX_AP :: nat where "MAX_AP = 24"
definition PW_MAX :: nat where "PW_MAX = 64"

section \<open>Helper processes\<close>

definition close_job :: "hud \<Rightarrow> hud" where
  "close_job s = s\<lparr>job := False\<rparr>"

definition abort_job :: "hud \<Rightarrow> hud" where
  "abort_job s = (if \<not> job s then s else close_job s)"

definition start_nmcli :: "job_kind \<Rightarrow> string list \<Rightarrow> hud \<Rightarrow> bool \<times> hud" where
  "start_nmcli kind argv s =
     (if job s then (False, s)
      else case spawns s of
        No_Nmcli # r \<Rightarrow> (False, s\<lparr>spawns := r, status_line := St_No_Nmcli\<rparr>)
      | Spawn_Failed # r \<Rightarrow> (False, s\<lparr>spawns := r\<rparr>)
      | sp \<Rightarrow> (True, s\<lparr>spawns := tl sp, job := True, job_kind := kind, started := started s @ [(kind, argv)]\<rparr>))"

definition wifi_radio :: "hud \<Rightarrow> hud" where
  "wifi_radio s =
     (case start_nmcli Radio [''nmcli'', ''-c'', ''no'', ''radio'', ''wifi'', ''on''] s of
        (ok, s) \<Rightarrow> if ok then s else s\<lparr>want_info := True\<rparr>)"

definition wifi_info :: "hud \<Rightarrow> hud" where
  "wifi_info s =
     (case start_nmcli Info [''nmcli'', ''-c'', ''no'', ''-t'', ''-f'', ''DEVICE,TYPE,STATE,CONNECTION'', ''device''] s of
        (ok, s) \<Rightarrow> if ok then s else s\<lparr>want_info := True\<rparr>)"

definition wifi_scan :: "hud \<Rightarrow> hud" where
  "wifi_scan s =
     (case start_nmcli Scan [''nmcli'', ''-c'', ''no'', ''-w'', ''25'', ''-t'', ''-f'', ''SSID,SIGNAL,SECURITY,FREQ,ACTIVE'',
          ''device'', ''wifi'', ''list'', ''--rescan'', ''yes''] s of
        (ok, s) \<Rightarrow> if ok then s else s\<lparr>want_scan := True\<rparr>)"

text \<open>\<open>have_iw\<close>: one of the two paths of \<open>iw\<close> is executable.\<close>

definition wifi_link :: "bool \<Rightarrow> hud \<Rightarrow> hud" where
  "wifi_link have_iw s =
     (let argv = (if w_iface (wifi s) \<noteq> [] \<and> have_iw
        then [''iw'', ''dev'', fits 32 (w_iface (wifi s)), ''link'']
        else [''nmcli'', ''-c'', ''no'', ''-t'', ''-f'', ''IN-USE,SIGNAL,FREQ,SSID'', ''device'', ''wifi'', ''list'', ''--rescan'', ''no''])
      in case start_nmcli Link argv s of (ok, s) \<Rightarrow> if ok then s else s\<lparr>want_link := True\<rparr>)"

section \<open>Networks\<close>

definition wifi_is_joining :: "hud \<Rightarrow> bool" where
  "wifi_is_joining s = (connecting s \<or> join_wait_live s \<or> busy (wifi s) \<and> \<not> connected (wifi s))"

definition wifi_is_assoc :: "hud \<Rightarrow> bool" where
  "wifi_is_assoc s = (connecting s \<or> busy (wifi s))"

definition wifi_sec_enterprise :: "string \<Rightarrow> bool" where
  "wifi_sec_enterprise sec =
     (sec \<noteq> [] \<and> (contains sec ''802.1'' \<or> contains sec ''EAP'' \<or> contains sec ''Enterprise'' \<or> contains sec ''enterprise''))"

definition mark_ap_active :: "string \<Rightarrow> hud \<Rightarrow> hud" where
  "mark_ap_active ssid s =
     (if ssid = [] then s else s\<lparr>aps := map (\<lambda>a. a\<lparr>ap_active := (ap_ssid a = ssid)\<rparr>) (aps s)\<rparr>)"

definition mark_ap_inactive :: "string \<Rightarrow> hud \<Rightarrow> hud" where
  "mark_ap_inactive ssid s =
     s\<lparr>aps := map (\<lambda>a. if ssid = [] \<or> ap_ssid a = ssid then a\<lparr>ap_active := False\<rparr> else a) (aps s),
       selected_active :=
         (if ssid = [] \<or> gw_ssid_eq (Some (selected_ssid s)) (Some ssid) then False else selected_active s)\<rparr>"

fun find_ap_from :: "nat \<Rightarrow> ap list \<Rightarrow> string \<Rightarrow> int" where
  "find_ap_from i [] ssid = - 1"
| "find_ap_from i (a # as) ssid = (if ap_ssid a = ssid then int i else find_ap_from (i + 1) as ssid)"

definition find_ap :: "string \<Rightarrow> hud \<Rightarrow> int" where
  "find_ap ssid s = (if ssid = [] then - 1 else find_ap_from 0 (aps s) ssid)"

definition select_ap_idx :: "int \<Rightarrow> hud \<Rightarrow> hud" where
  "select_ap_idx i s =
     (if i < 0 \<or> i \<ge> int (length (aps s)) then s
      else let a = aps s ! nat i in
        s\<lparr>hover_ap := i, selected_ap := i, selected_ssid := fits 96 (ap_ssid a), selected_sec := fits 40 (ap_security a),
          selected_freq := fits 24 (ap_freq a), selected_signal := ap_signal a, selected_secure := ap_secure a,
          selected_active := ap_active a\<rparr>)"

definition sync_selected_ap :: "hud \<Rightarrow> hud" where
  "sync_selected_ap s = (let i = find_ap (selected_ssid s) s in if i \<ge> 0 then select_ap_idx i s else s)"

definition ap_is_current :: "string \<Rightarrow> hud \<Rightarrow> bool" where
  "ap_is_current ssid s =
     (if gw_ssid_eq (Some (forget_ssid s)) (Some ssid) then False
      else if gw_already_on (connected (wifi s)) (Some (w_ssid (wifi s))) (Some ssid) then True
      else if ssid = [] \<or> \<not> connected (wifi s) then False
      else let i = find_ap ssid s in i \<ge> 0 \<and> ap_active (aps s ! nat i))"

definition picked_ssid :: "hud \<Rightarrow> string" where
  "picked_ssid s =
     (if connecting s \<and> connect_ssid s \<noteq> [] then connect_ssid s
      else if selected_ssid s \<noteq> [] then selected_ssid s
      else if selected_ap s \<ge> 0 \<and> selected_ap s < int (length (aps s)) then ap_ssid (aps s ! nat (selected_ap s))
      else [])"

definition picked_sec :: "hud \<Rightarrow> string" where
  "picked_sec s =
     (let i = find_ap (picked_ssid s) s in
      if i \<ge> 0 then ap_security (aps s ! nat i)
      else if selected_sec s \<noteq> [] then selected_sec s
      else [])"

definition fill_fail_status :: "gw_fail_kind \<Rightarrow> string \<Rightarrow> hud \<Rightarrow> hud" where
  "fill_fail_status k back s = s\<lparr>status_line := St_Fail k back\<rparr>"

definition set_connect_status :: "string \<Rightarrow> hud \<Rightarrow> hud" where
  "set_connect_status raw s =
     (if contains raw ZH_ENTERPRISE then s\<lparr>status_line := St_Enterprise\<rparr>
      else fill_fail_status (gw_classify_fail (Some raw)) [] s)"

section \<open>Passwords, joining and forgetting\<close>

definition remember_psk :: "string \<Rightarrow> string \<Rightarrow> hud \<Rightarrow> hud" where
  "remember_psk ssid pass s =
     (if ssid = [] \<or> pass = [] then s
      else s\<lparr>known_psk_ssid := fits 96 ssid, known_psk := fits PW_MAX pass\<rparr>)"

definition forget_psk :: "string \<Rightarrow> hud \<Rightarrow> hud" where
  "forget_psk ssid s =
     (if \<not> gw_ssid_eq (Some (known_psk_ssid s)) (Some ssid) then s else s\<lparr>known_psk_ssid := [], known_psk := []\<rparr>)"

definition queue_connect :: "string \<Rightarrow> string \<Rightarrow> string \<Rightarrow> hud \<Rightarrow> hud" where
  "queue_connect ssid pass sec s =
     s\<lparr>pend_ssid := fits 96 ssid, pend_pass := fits PW_MAX pass, pend_sec := fits 40 sec, want_connect := True\<rparr>"

definition connect_argv :: "string \<Rightarrow> string \<Rightarrow> string \<Rightarrow> string \<Rightarrow> string list" where
  "connect_argv ssid pass iface sec =
     [''/bin/sh'', ''/usr/local/sbin/gemini-wifi-connect.sh'', fits 96 ssid, fits PW_MAX pass, fits 32 iface, fits 40 sec]"

definition wifi_connect :: "string \<Rightarrow> string \<Rightarrow> string \<Rightarrow> hud \<Rightarrow> hud" where
  "wifi_connect ssid pass sec s =
     (if ssid = [] then s
      else
        let s = s\<lparr>forget_ssid := [], connecting := True, connect_fail := False, join_wait_live := False,
                  wifi := (wifi s)\<lparr>busy := True\<rparr>, connect_ssid := fits 96 ssid, status_line := St_Connecting\<rparr>;
            s = (if job s \<and> job_kind s \<noteq> Connect then abort_job s else s) in
        if job s then
          (if gw_keep_pending_psk (pass = []) (want_connect s) (Some (pend_ssid s)) (Some (pend_pass s)) (Some ssid) then s
           else queue_connect ssid pass sec s)
        else snd (start_nmcli Connect (connect_argv ssid pass (w_iface (wifi s)) sec) s))"

definition wifi_submit_pass :: "hud \<Rightarrow> hud" where
  "wifi_submit_pass s =
     (let ssid = gw_pass_ssid (Some (connect_ssid s)) (Some (selected_ssid s)); sec = picked_sec s in
      if ssid = [] \<or> forgetting s then s
      else if wifi_sec_enterprise sec then s\<lparr>connect_fail := True, status_line := St_Enterprise\<rparr>
      else if length (password s) < 8 then s\<lparr>connect_fail := True, status_line := St_Short_Password\<rparr>
      else
        let s = remember_psk ssid (password s) (s\<lparr>connect_need_pass := True\<rparr>) in
        if connecting s then queue_connect ssid (password s) sec s
        else wifi_connect ssid (password s) sec s)"

definition clear_live :: "wifi \<Rightarrow> wifi" where
  "clear_live w = w\<lparr>connected := False, busy := False, w_ssid := [], w_ip := [], w_gw := []\<rparr>"

definition forget_argv :: "string \<Rightarrow> string \<Rightarrow> string list" where
  "forget_argv ssid iface =
     [''/bin/sh'', ''/usr/local/sbin/gemini-wifi-connect.sh'', ''forget'', fits 96 ssid, fits 32 iface]"

definition wifi_forget :: "string \<Rightarrow> hud \<Rightarrow> hud" where
  "wifi_forget ssid s =
     (if ssid = [] then s
      else if \<not> gw_forget_can_start (forgetting s) (job s) (job_kind s = Forget) then s
      else
        let s = s\<lparr>join_wait_live := False, connecting := False, wifi := (wifi s)\<lparr>busy := False\<rparr>,
                  want_connect := False, want_scan := False, want_info := False, want_link := False,
                  forgetting := True, forget_ssid := fits 96 ssid\<rparr>;
            s = mark_ap_inactive ssid s;
            s = (if gw_ssid_eq (Some (w_ssid (wifi s))) (Some ssid)
                 then s\<lparr>wifi := clear_live (wifi s), t_assoc := 0\<rparr> else s);
            s = s\<lparr>status_line := St_Forgetting\<rparr>;
            s = (if job s \<and> job_kind s \<noteq> Forget then abort_job s else s) in
        if job s then s
        else case start_nmcli Forget (forget_argv ssid (w_iface (wifi s))) s of
          (ok, s) \<Rightarrow> if ok then s else s\<lparr>forgetting := False\<rparr>)"

definition wifi_join_picked :: "hud \<Rightarrow> hud" where
  "wifi_join_picked s =
     (let ssid = selected_ssid s; sec = picked_sec s in
      if ssid = [] \<or> connecting s \<or> forgetting s then s
      else if \<not> gw_allow_join (connecting s) (forgetting s) (ap_is_current ssid s) then s
      else if wifi_sec_enterprise sec then s\<lparr>status_line := St_Enterprise\<rparr>
      else if gw_join_use_session_psk (Some ssid) (Some (known_psk_ssid s)) (Some (known_psk s))
      then wifi_connect ssid (known_psk s) sec (s\<lparr>connect_need_pass := True\<rparr>)
      else wifi_connect ssid [] sec (s\<lparr>connect_need_pass := False\<rparr>))"

definition kick_pending :: "bool \<Rightarrow> hud \<Rightarrow> hud" where
  "kick_pending have_iw s =
     (if job s then s
      else if want_forget s then wifi_forget (pend_forget s) (s\<lparr>want_forget := False\<rparr>)
      else if want_connect s then wifi_connect (pend_ssid s) (pend_pass s) (pend_sec s) (s\<lparr>want_connect := False\<rparr>)
      else if screen_off s then s
      else if want_scan s then wifi_scan (s\<lparr>want_scan := False\<rparr>)
      else if want_link s then wifi_link have_iw (s\<lparr>want_link := False\<rparr>)
      else if want_info s then wifi_info (s\<lparr>want_info := False\<rparr>)
      else s)"

section \<open>The live network\<close>

definition dash_sibling :: "string \<Rightarrow> string \<Rightarrow> bool" where
  "dash_sibling long short =
     (length short < length long \<and> starts_with long short \<and> long ! length short \<in> {CHR ''-'', CHR ''_''})"

definition apply_wifi_ssid :: "string \<Rightarrow> hud \<Rightarrow> hud" where
  "apply_wifi_ssid p s =
     (let p = dropWhile (\<lambda>c. c = CHR '' '' \<or> c = CHR 0x09) p in
      if p = [] \<or> p = ''--'' then s
      else
        let p = (if starts_with p ''gemini-'' \<and> length p > 7 then drop 7 p else p);
            tmp = cut_at (CHR 0x0D) (cut_at (CHR 0x0A) (fits 96 p)) in
        if connect_ssid s \<noteq> [] \<and> tmp \<noteq> connect_ssid s \<and>
           (dash_sibling (connect_ssid s) tmp \<or> dash_sibling tmp (connect_ssid s)) then s
        else if gw_ssid_eq (Some (forget_ssid s)) (Some tmp) then s
        else
          let s = (if forget_ssid s \<noteq> [] \<and> tmp \<noteq> [] then s\<lparr>forget_ssid := []\<rparr> else s) in
          if dash_sibling (w_ssid (wifi s)) tmp then s
          else s\<lparr>wifi := (wifi s)\<lparr>w_ssid := fits 96 tmp\<rparr>\<rparr>)"

fun first_active :: "string \<Rightarrow> ap list \<Rightarrow> string option" where
  "first_active forgotten [] = None"
| "first_active forgotten (a # as) =
     (if ap_active a \<and> ap_ssid a \<noteq> [] \<and> \<not> gw_ssid_eq (Some forgotten) (Some (ap_ssid a)) then Some (ap_ssid a)
      else first_active forgotten as)"

definition display_ssid :: "hud \<Rightarrow> string" where
  "display_ssid s =
     (let live = gw_display_ssid (wifi_is_joining s) (Some (connect_ssid s)) (Some (w_ssid (wifi s))) in
      if live \<noteq> [] then live
      else case first_active (forget_ssid s) (aps s) of Some x \<Rightarrow> x | None \<Rightarrow> ''Wi-Fi'')"

text \<open>Times are nanoseconds of a monotonic clock.\<close>

definition maybe_confirm_join :: "nat \<Rightarrow> hud \<Rightarrow> hud" where
  "maybe_confirm_join now s =
     (if \<not> join_wait_live s \<or> connect_ssid s = [] then s
      else
        let c = connected (wifi s); live = Some (w_ssid (wifi s)); want = Some (connect_ssid s) in
        if gw_join_confirm_ok c live want then
          (mark_ap_active (connect_ssid s)
             (s\<lparr>join_wait_live := False, connecting := False, wifi := (wifi s)\<lparr>busy := False\<rparr>, connect_fail := False\<rparr>))
          \<lparr>sheet_tgt := SHEET_NONE, status_line := St_Connected, want_scan := True\<rparr>
        else
          let timed_out = (t_join_wait s \<noteq> 0 \<and> now - t_join_wait s > 12000000000) in
          if \<not> gw_join_confirm_fail timed_out c live want then s
          else
            let k = (if last_fail_kind s = GW_FAIL_UNKNOWN then GW_FAIL_TIMEOUT else last_fail_kind s);
                s = s\<lparr>join_wait_live := False, connecting := False, wifi := (wifi s)\<lparr>busy := False\<rparr>, connect_fail := True,
                      last_fail_kind := k\<rparr>;
                s = fill_fail_status k (if gw_join_fell_back c live want then w_ssid (wifi s) else []) s
            in if sheet_tgt s = SHEET_NONE then s\<lparr>sheet_tgt := SHEET_DETAIL\<rparr> else s)"

definition rssi_to_pct :: "int \<Rightarrow> int" where
  "rssi_to_pct dbm = (if dbm \<ge> - 55 then 100 else if dbm \<le> - 100 then 0 else (dbm + 100) * 100 div 45)"

definition apply_signal_dbm :: "int \<Rightarrow> hud \<Rightarrow> hud" where
  "apply_signal_dbm dbm s =
     (if dbm \<ge> 0 \<or> dbm < - 120 then s else s\<lparr>wifi := (wifi s)\<lparr>w_dbm := dbm, w_signal := rssi_to_pct dbm\<rparr>\<rparr>)"

fun apply_active_loop :: "ap list \<Rightarrow> hud \<Rightarrow> hud" where
  "apply_active_loop [] s = s"
| "apply_active_loop (a # as) s =
     (let match = ap_active a \<or> w_ssid (wifi s) \<noteq> [] \<and> ap_ssid a = w_ssid (wifi s) in
      if \<not> match \<or> gw_ssid_eq (Some (forget_ssid s)) (Some (ap_ssid a)) then apply_active_loop as s
      else
        let s = (if ap_ssid a \<noteq> [] then apply_wifi_ssid (ap_ssid a) s else s);
            s = (if w_dbm (wifi s) \<ge> 0 \<and> ap_signal a > 0 then s\<lparr>wifi := (wifi s)\<lparr>w_signal := ap_signal a\<rparr>\<rparr> else s)
        in if ap_freq a \<noteq> [] \<and> w_freq (wifi s) = [] then s\<lparr>wifi := (wifi s)\<lparr>w_freq := fits 32 (ap_freq a)\<rparr>\<rparr> else s)"

definition apply_active_ap :: "hud \<Rightarrow> hud" where
  "apply_active_ap s = apply_active_loop (aps s) s"

end
