(* ===== verification/Wifi_Parse.thy ===== *)
theory Wifi_Parse
  imports Wifi_Hud
begin

text \<open>
  The three parsers of \<open>initramfs/gemini-status.c\<close> for what \<open>nmcli\<close> and \<open>iw\<close> print:
  device states (\<open>parse_info\<close>), scan lists (\<open>parse_scan\<close>) and the current link
  (\<open>parse_link\<close>). They all cut a line into fields at the colons.
\<close>

section \<open>Fields\<close>

definition cons_first :: "char \<Rightarrow> string list \<Rightarrow> string list" where
  "cons_first c fs = (c # hd fs) # tl fs"

text \<open>
  The loop \<open>while (*p && nf < n) ...\<close> and the last field after it; with \<open>esc\<close>, a backslash
  protects the next character (both stay in the field).
\<close>

fun split_fields :: "bool \<Rightarrow> nat \<Rightarrow> string \<Rightarrow> string list" where
  "split_fields esc 0 s = [s]"
| "split_fields esc (Suc n) [] = [[]]"
| "split_fields esc (Suc n) [c] = (if c = CHR '':'' then [[], []] else [[c]])"
| "split_fields esc (Suc n) (c # d # s) =
     (if esc \<and> c = CHR 0x5C then cons_first c (cons_first d (split_fields esc (Suc n) s))
      else if c = CHR '':'' then [] # split_fields esc n (d # s)
      else cons_first c (split_fields esc (Suc n) (d # s)))"

fun unescape_field :: "string \<Rightarrow> string" where
  "unescape_field [] = []"
| "unescape_field [c] = [c]"
| "unescape_field (c # d # s) = (if c = CHR 0x5C then d # unescape_field s else c # unescape_field (d # s))"

text \<open>What \<open>nmcli -t\<close> does to a field: colons and backslashes are escaped.\<close>

fun escape_field :: "string \<Rightarrow> string" where
  "escape_field [] = []"
| "escape_field (c # s) = (if c = CHR '':'' \<or> c = CHR 0x5C then CHR 0x5C # c # escape_field s else c # escape_field s)"

fun join_fields :: "string list \<Rightarrow> string" where
  "join_fields [] = []"
| "join_fields [f] = escape_field f"
| "join_fields (f # g # fs) = escape_field f @ CHR '':'' # join_fields (g # fs)"

section \<open>Device states\<close>

text \<open>One line: the accumulated \<open>(saw_wifi, wifi_up, wifi_busy, iface)\<close>.\<close>

definition info_line :: "string \<Rightarrow> bool \<times> bool \<times> bool \<times> string \<Rightarrow> bool \<times> bool \<times> bool \<times> string" where
  "info_line line acc =
     (case acc of (saw, up, bsy, ifc) \<Rightarrow>
        let f = split_fields False 5 line in
        if length f \<ge> 3 \<and> f ! 1 = ''wifi'' \<and> \<not> starts_with (f ! 0) ''p2p-'' then
          let st = f ! 2; ifc = fits 32 (f ! 0) in
          if contains st ''disconnected'' \<or> contains st ''unavailable'' \<or> contains st ''unmanaged''
          then (True, False, False, ifc)
          else if contains st ''connecting'' \<or> contains st ''preparing'' \<or> contains st ''configuring'' \<or>
            contains st ''getting IP'' \<or> contains st ''checking IP''
          then (True, False, True, ifc)
          else if contains st ''connected'' then (True, True, False, ifc)
          else (True, up, bsy, ifc)
        else acc)"

definition parse_info :: "nat \<Rightarrow> string \<Rightarrow> hud \<Rightarrow> hud" where
  "parse_info now buf s =
     (if contains buf ''Error'' \<or> contains buf ''error:'' then s\<lparr>status_line := St_Raw (fits 96 (cut_at (CHR 0x0A) buf))\<rparr>
      else case fold info_line (strtok_lines buf) (False, False, False, []) of (saw, up, bsy, ifc) \<Rightarrow>
        if \<not> saw then s
        else
          let w = (wifi s)\<lparr>have_dev := True, w_iface := (if ifc \<noteq> [] then fits 32 ifc else w_iface (wifi s)),
                           connected := up, busy := bsy\<rparr>;
              s = s\<lparr>wifi := w\<rparr>;
              s = (if gw_forget_hold_connected (Some (forget_ssid s)) up (Some (w_ssid w))
                   then s\<lparr>wifi := clear_live w, t_assoc := 0\<rparr>
                   else if \<not> up \<and> \<not> bsy \<and> forget_ssid s \<noteq> [] then s\<lparr>forget_ssid := []\<rparr> else s) in
          if connected (wifi s) then (if t_assoc s = 0 then s\<lparr>t_assoc := now\<rparr> else s)
          else if \<not> busy (wifi s) \<and> \<not> connecting s \<and> \<not> join_wait_live s
          then s\<lparr>t_assoc := 0, wifi := (wifi s)\<lparr>w_dbm := 0\<rparr>\<rparr>
          else s)"

section \<open>Scan lists\<close>

definition scan_line :: "string \<Rightarrow> string \<Rightarrow> ap option" where
  "scan_line forgotten line =
     (let f = split_fields True 8 line in
      if length f \<ge> 4 \<and> f ! 0 \<noteq> [] then
        let sec = f ! 2; act = (if length f \<ge> 5 then f ! 4 else f ! 3); ssid = unescape_field (f ! 0) in
        Some \<lparr>ap_ssid = fits 96 ssid, ap_security = fits 40 sec,
              ap_freq = (if length f \<ge> 5 then fits 24 (f ! 3) else []), ap_signal = atoi (f ! 1),
              ap_secure = (sec \<noteq> [] \<and> sec \<noteq> ''--''),
              ap_active = (act \<noteq> [] \<and> (hd act = CHR ''y'' \<or> hd act = CHR ''Y'') \<and>
                \<not> gw_ssid_eq (Some forgotten) (Some ssid))\<rparr>
      else None)"

text \<open>The loop \<open>while (line && nap < MAX_AP)\<close>; \<open>n\<close> is the number of free entries.\<close>

fun scan_lines :: "string \<Rightarrow> nat \<Rightarrow> string list \<Rightarrow> ap list" where
  "scan_lines forgotten n [] = []"
| "scan_lines forgotten 0 ls = []"
| "scan_lines forgotten (Suc n) (l # ls) =
     (case scan_line forgotten l of
        None \<Rightarrow> scan_lines forgotten (Suc n) ls
      | Some a \<Rightarrow> a # scan_lines forgotten n ls)"

definition parse_scan :: "string \<Rightarrow> hud \<Rightarrow> hud" where
  "parse_scan buf s =
     (let err = (contains buf ''Error'' \<or> contains buf ''not running'' \<or> contains buf ''No such'');
          buf = (if err then cut_at (CHR 0x0A) buf else buf);
          s = (if err then s\<lparr>status_line := St_Raw (fits 96 buf)\<rparr> else s);
          s = s\<lparr>aps := scan_lines (forget_ssid s) MAX_AP (strtok_lines buf)\<rparr>;
          nap = int (length (aps s));
          s = (if nap > 0 then
                 let s = (if hover_ap s < 0 \<or> hover_ap s \<ge> nap then s\<lparr>hover_ap := 0\<rparr> else s);
                     s = sync_selected_ap s
                 in if selected_ap s < 0 \<or> selected_ap s \<ge> nap then s\<lparr>selected_ap := hover_ap s\<rparr> else s
               else s)
      in apply_active_ap s)"

section \<open>The current link\<close>

fun dec :: "nat \<Rightarrow> string" where
  "dec n = (if n < 10 then [char_of (48 + n)] else dec (n div 10) @ [char_of (48 + n mod 10)])"

declare dec.simps [simp del]

definition scan_signal :: "string \<Rightarrow> string \<Rightarrow> hud \<Rightarrow> hud" where
  "scan_signal lit p s = (case scan_int lit p of Some dbm \<Rightarrow> apply_signal_dbm dbm s | None \<Rightarrow> s)"

definition scan_freq :: "string \<Rightarrow> string \<Rightarrow> hud \<Rightarrow> hud" where
  "scan_freq lit p s =
     (case scan_int lit p of
        Some mhz \<Rightarrow> if mhz > 0 then s\<lparr>wifi := (wifi s)\<lparr>w_freq := fits 32 (dec (nat mhz))\<rparr>\<rparr> else s
      | None \<Rightarrow> s)"

text \<open>The loop over the lines stops at the first one in use.\<close>

fun link_lines :: "string list \<Rightarrow> hud \<Rightarrow> hud" where
  "link_lines [] s = s"
| "link_lines (l # ls) s =
     (let f = split_fields True 4 l in
      if length f \<ge> 3 \<and> (f ! 0 \<noteq> [] \<and> hd (f ! 0) = CHR ''*'' \<or> f ! 0 = ''yes'' \<or> f ! 0 = ''Yes'') then
        let sig = atoi (f ! 1);
            s = (if w_dbm (wifi s) \<ge> 0 \<and> sig > 0 then s\<lparr>wifi := (wifi s)\<lparr>w_signal := clampi sig 0 100\<rparr>\<rparr> else s);
            s = (if f ! 2 \<noteq> [] \<and> f ! 2 \<noteq> ''--'' then s\<lparr>wifi := (wifi s)\<lparr>w_freq := fits 32 (f ! 2)\<rparr>\<rparr> else s)
        in if length f \<ge> 4 \<and> f ! 3 \<noteq> [] \<and> f ! 3 \<noteq> ''--'' then apply_wifi_ssid (unescape_field (f ! 3)) s else s
      else link_lines ls s)"

definition parse_link :: "string \<Rightarrow> hud \<Rightarrow> hud" where
  "parse_link buf s =
     (let s = (case strstr buf ''SSID:'' of Some p \<Rightarrow> apply_wifi_ssid (drop 5 p) s | None \<Rightarrow> s);
          s = (case strstr buf ''signal avg:'' of
                 Some p \<Rightarrow> scan_signal ''signal avg: '' p s
               | None \<Rightarrow> (case strstr buf ''signal:'' of Some p \<Rightarrow> scan_signal ''signal: '' p s | None \<Rightarrow> s));
          s = (case strstr buf (CHR 0x09 # ''freq:'') of
                 Some p \<Rightarrow> scan_freq '' freq: '' p s
               | None \<Rightarrow> (case strstr buf ''freq:'' of Some p \<Rightarrow> scan_freq ''freq: '' p s | None \<Rightarrow> s))
      in link_lines (strtok_lines buf) s)"

section \<open>Facts about fields\<close>

lemma split_fields_numeral [simp]:
  "split_fields esc (numeral k) [] = [[]]"
  "split_fields esc (numeral k) [c] = (if c = CHR '':'' then [[], []] else [[c]])"
  "split_fields esc (numeral k) (c # d # s) =
     (if esc \<and> c = CHR 0x5C then cons_first c (cons_first d (split_fields esc (numeral k) s))
      else if c = CHR '':'' then [] # split_fields esc (pred_numeral k) (d # s)
      else cons_first c (split_fields esc (numeral k) (d # s)))"
  by (simp_all add: numeral_eq_Suc)

lemma scan_lines_numeral [simp]:
  "scan_lines forgotten (numeral k) (l # ls) =
     (case scan_line forgotten l of
        None \<Rightarrow> scan_lines forgotten (numeral k) ls
      | Some a \<Rightarrow> a # scan_lines forgotten (pred_numeral k) ls)"
  by (simp add: numeral_eq_Suc split: option.split)

lemma split_fields_length: "length (split_fields esc n s) \<le> Suc n \<and> split_fields esc n s \<noteq> []"
  by (induction esc n s rule: split_fields.induct) (auto simp: cons_first_def Let_def)

lemma unescape_escape [simp]: "unescape_field (escape_field s) = s"
proof (induction s)
  case (Cons c s)
  show ?case
  proof (cases "c = CHR '':'' \<or> c = CHR 0x5C")
    case True
    then show ?thesis using Cons by auto
  next
    case False
    with Cons show ?thesis by (cases "escape_field s") auto
  qed
qed simp

lemma split_escaped:
  "split_fields True (Suc n) (escape_field f @ CHR '':'' # r) = escape_field f # split_fields True n r"
proof (induction f)
  case Nil
  then show ?case by (cases r) (cases n; auto)+
next
  case (Cons c f)
  show ?case
  proof (cases "c = CHR '':'' \<or> c = CHR 0x5C")
    case True
    with Cons show ?thesis by (auto simp: cons_first_def)
  next
    case False
    obtain d e where de: "escape_field f @ CHR '':'' # r = d # e" by (cases "escape_field f @ CHR '':'' # r") auto
    with Cons False show ?thesis by (auto simp: cons_first_def)
  qed
qed

lemma split_escaped_end: "split_fields True n (escape_field f) = [escape_field f]"
proof (induction f)
  case Nil
  then show ?case by (cases n) auto
next
  case (Cons c f)
  then show ?case
    by (cases n; cases "escape_field f") (auto simp: cons_first_def split: if_splits)
qed

end
