(* ===== verification/Wifi_Events.thy ===== *)
theory Wifi_Events
  imports Wifi_Parse
begin

text \<open>
  What drives the Wi-Fi state of \<open>initramfs/gemini-status.c\<close>: the end of a helper process
  (\<open>poll_job\<close>), keys of the on-screen keyboard, and the Wi-Fi part of the main loop. A
  \<open>hud_step\<close> is one of these; \<open>hud_reach\<close> collects, beside the state, the passwords the user
  has submitted and the network each was for.
\<close>

section \<open>The end of a job\<close>

definition connect_input :: "int \<Rightarrow> string \<Rightarrow> hud \<Rightarrow> gw_connect_in" where
  "connect_input rc out s =
     \<lparr>gi_rc = rc, gi_out = Some out, gi_connected = connected (wifi s), gi_live_ssid = Some (w_ssid (wifi s)),
      gi_connect_ssid = Some (connect_ssid s), gi_left_home = (sheet_tgt s = SHEET_NONE),
      gi_want_connect = want_connect s, gi_pend_ssid = Some (pend_ssid s), gi_pend_has_pass = (pend_pass s \<noteq> []),
      gi_used_pass = connect_need_pass s,
      gi_have_session_psk = gw_join_use_session_psk (Some (connect_ssid s)) (Some (known_psk_ssid s)) (Some (known_psk s))\<rparr>"

definition select_connect_ssid :: "hud \<Rightarrow> hud" where
  "select_connect_ssid s =
     (if connect_ssid s \<noteq> [] then sync_selected_ap (s\<lparr>selected_ssid := fits 96 (connect_ssid s)\<rparr>) else s)"

text \<open>The branches of the decision, each after \<open>connecting\<close> and \<open>wifi.busy\<close> were cleared.\<close>

definition connect_succeeded :: "nat \<Rightarrow> hud \<Rightarrow> hud" where
  "connect_succeeded now s =
     maybe_confirm_join now
       (s\<lparr>connect_fail := False, join_wait_live := True, t_join_wait := now, connecting := True,
          wifi := (wifi s)\<lparr>busy := True\<rparr>,
          want_connect := (if gw_drop_pending True (Some (connect_ssid s)) (Some (pend_ssid s)) then False else want_connect s),
          status_line := St_Confirming,
          sheet_tgt := (if sheet_tgt s = SHEET_PASS then SHEET_DETAIL else sheet_tgt s),
          want_info := True, want_link := True\<rparr>)"

definition connect_retry :: "hud \<Rightarrow> hud" where
  "connect_retry s =
     wifi_connect (connect_ssid s) (known_psk s) (picked_sec s)
       (s\<lparr>connect_fail := False,
          want_connect := (if gw_ssid_eq (Some (pend_ssid s)) (Some (connect_ssid s)) \<and> pend_pass s = [] then False
                           else want_connect s)\<rparr>)"

definition connect_wrong_pass :: "hud \<Rightarrow> hud" where
  "connect_wrong_pass s =
     (select_connect_ssid (fill_fail_status GW_FAIL_WRONG_PW [] ((forget_psk (connect_ssid s) s)\<lparr>connect_fail := True\<rparr>)))
       \<lparr>sheet_tgt := SHEET_PASS\<rparr>"

definition connect_open_pass :: "string \<Rightarrow> hud \<Rightarrow> hud" where
  "connect_open_pass out s =
     (let s = (select_connect_ssid (set_connect_status (if out \<noteq> [] then out else ''NEED_PASSWORD'')
                 (s\<lparr>connect_fail := connect_need_pass s\<rparr>)))\<lparr>sheet_tgt := SHEET_PASS\<rparr>
      in if \<not> connect_need_pass s \<and> password s = []
         then s\<lparr>shift_on := False, sym_on := False, osk_sym2 := False\<rparr> else s)"

definition connect_failed :: "bool \<Rightarrow> hud \<Rightarrow> hud" where
  "connect_failed left_home s =
     (let back = (if gw_join_fell_back (connected (wifi s)) (Some (w_ssid (wifi s))) (Some (connect_ssid s))
                  then w_ssid (wifi s) else []);
          s = fill_fail_status (last_fail_kind s) back (s\<lparr>connect_fail := True\<rparr>)
      in if \<not> left_home then s\<lparr>sheet_tgt := (if connect_need_pass s then SHEET_PASS else SHEET_DETAIL)\<rparr> else s)"

definition connect_done :: "nat \<Rightarrow> int \<Rightarrow> string \<Rightarrow> hud \<Rightarrow> hud" where
  "connect_done now rc out s =
     (let left_home = (sheet_tgt s = SHEET_NONE);
          act = gw_on_connect_job (Some (connect_input rc out s));
          s = s\<lparr>last_fail_raw := fits 192 out, last_fail_kind := gw_classify_fail (Some out), connecting := False,
                wifi := (wifi s)\<lparr>busy := False\<rparr>\<rparr> in
      case act of
        GW_CONN_SUCCESS \<Rightarrow> connect_succeeded now s
      | GW_CONN_RETRY_PSK \<Rightarrow> connect_retry s
      | GW_CONN_WRONG_PASS \<Rightarrow> connect_wrong_pass s
      | GW_CONN_OPEN_PASS \<Rightarrow> connect_open_pass out s
      | GW_CONN_WAIT_PENDING \<Rightarrow> s\<lparr>connect_fail := False\<rparr>
      | GW_CONN_FAIL \<Rightarrow> connect_failed left_home s)"

definition forget_done :: "int \<Rightarrow> string \<Rightarrow> hud \<Rightarrow> hud" where
  "forget_done rc out s =
     (let s = s\<lparr>forgetting := False\<rparr> in
      if rc = 0 then
        let s = mark_ap_inactive (if forget_ssid s \<noteq> [] then forget_ssid s else selected_ssid s) s;
            live = Some (w_ssid (wifi s));
            s = (if gw_ssid_eq live (Some (selected_ssid s)) \<or> gw_ssid_eq live (Some (forget_ssid s)) \<or>
                    gw_forget_hold_connected (Some (forget_ssid s)) True live
                 then s\<lparr>wifi := (clear_live (wifi s))\<lparr>busy := busy (wifi s)\<rparr>, t_assoc := 0\<rparr> else s)
        in (forget_psk (selected_ssid s) s)
             \<lparr>status_line := St_Forgot, sheet_tgt := SHEET_LIST, want_info := True, want_scan := True\<rparr>
      else
        let s = (if out \<noteq> [] then set_connect_status out s
                 else fill_fail_status GW_FAIL_UNKNOWN [] s)
        in s\<lparr>sheet_tgt := SHEET_DETAIL\<rparr>)"

text \<open>
  The process has exited: \<open>rc\<close> is its exit status (1 if it was killed), \<open>out\<close> its output (at
  most 16383 bytes, as \<open>job_buf\<close> holds).
\<close>

definition poll_job :: "bool \<Rightarrow> nat \<Rightarrow> int \<Rightarrow> string \<Rightarrow> hud \<Rightarrow> hud" where
  "poll_job have_iw now rc out s =
     (if \<not> job s then s
      else
        let s = close_job s;
            s = (case job_kind s of
                Info \<Rightarrow>
                  let s = parse_info now out s;
                      s = (if connected (wifi s) \<or> busy (wifi s) \<or> join_wait_live s then s\<lparr>want_link := True\<rparr> else s)
                  in maybe_confirm_join now s
              | Scan \<Rightarrow>
                  let s = parse_scan out s;
                      s = (if aps s = [] \<and> \<not> status_shown (status_line s) \<and> \<not> connect_fail s \<and> \<not> join_wait_live s
                           then s\<lparr>status_line := St_Nothing_Found\<rparr>
                           else if aps s \<noteq> [] \<and> \<not> connect_fail s \<and> \<not> join_wait_live s
                           then s\<lparr>status_line := St_Found (length (aps s))\<rparr>
                           else s)
                  in maybe_confirm_join now s
              | Link \<Rightarrow>
                  let s = maybe_confirm_join now (parse_link out s)
                  in if join_wait_live s then s\<lparr>want_info := True\<rparr> else s
              | Radio \<Rightarrow> s\<lparr>want_info := True, want_scan := True\<rparr>
              | Connect \<Rightarrow> connect_done now rc out s
              | Forget \<Rightarrow> forget_done rc out s)
        in kick_pending have_iw s)"

section \<open>Keys\<close>

datatype osk_kind = OSK_CHAR | OSK_SHIFT | OSK_SYM | OSK_MORE | OSK_SPACE | OSK_BKSP | OSK_GO

definition osk_feed :: "string \<Rightarrow> hud \<Rightarrow> hud" where
  "osk_feed key s =
     (if key = ''bk'' then s\<lparr>password := butlast (password s)\<rparr>
      else if length (password s) \<ge> PW_MAX - 1 then s
      else s\<lparr>password := password s @ [hd key]\<rparr>)"

definition osk_activate :: "osk_kind \<Rightarrow> char \<Rightarrow> hud \<Rightarrow> hud" where
  "osk_activate kind ch s =
     (case kind of
        OSK_CHAR \<Rightarrow>
          let s = osk_feed [ch] s in if shift_on s \<and> \<not> sym_on s then s\<lparr>shift_on := False\<rparr> else s
      | OSK_SHIFT \<Rightarrow> s\<lparr>shift_on := \<not> shift_on s\<rparr>
      | OSK_SYM \<Rightarrow>
          let s = s\<lparr>sym_on := \<not> sym_on s, osk_sym2 := False\<rparr> in if sym_on s then s\<lparr>shift_on := False\<rparr> else s
      | OSK_MORE \<Rightarrow> s\<lparr>osk_sym2 := \<not> osk_sym2 s\<rparr>
      | OSK_SPACE \<Rightarrow> osk_feed '' '' s
      | OSK_BKSP \<Rightarrow> osk_feed ''bk'' s
      | OSK_GO \<Rightarrow> wifi_submit_pass s)"

section \<open>Touch\<close>

text \<open>
  What a tap does once \<open>tap\<close> has found the button under it (the geometry is in another theory).
\<close>

datatype button =
    Toggle_Language
  | Pass_Cancel | Pass_Join
  | Detail_Back | Detail_Join | Detail_Forget
  | List_Outside | List_Close | List_Refresh | List_Row nat
  | Home_Card

definition tap_button :: "button \<Rightarrow> hud \<Rightarrow> hud" where
  "tap_button b s =
     (case b of
        Toggle_Language \<Rightarrow> if aps s \<noteq> [] then s\<lparr>status_line := St_Found (length (aps s))\<rparr> else s
      | Pass_Cancel \<Rightarrow>
          s\<lparr>sheet_tgt := (if selected_ssid s \<noteq> [] then SHEET_DETAIL else SHEET_LIST), connect_fail := False, osk_sym2 := False\<rparr>
      | Pass_Join \<Rightarrow> wifi_submit_pass s
      | Detail_Back \<Rightarrow> if \<not> forgetting s then s\<lparr>sheet_tgt := SHEET_LIST\<rparr> else s
      | Detail_Join \<Rightarrow> wifi_join_picked s
      | Detail_Forget \<Rightarrow> if selected_ssid s \<noteq> [] then wifi_forget (selected_ssid s) s else s
      | List_Outside \<Rightarrow> if \<not> connecting s then s\<lparr>sheet_tgt := SHEET_NONE\<rparr> else s
      | List_Close \<Rightarrow> if \<not> connecting s then s\<lparr>sheet_tgt := SHEET_NONE\<rparr> else s
      | List_Refresh \<Rightarrow> if connecting s then s else (wifi_scan s)\<lparr>status_line := St_Scanning\<rparr>
      | List_Row i \<Rightarrow>
          let s = select_ap_idx (int i) s in
          if connecting s \<or> forgetting s then s else s\<lparr>connect_fail := False, sheet_tgt := SHEET_DETAIL\<rparr>
      | Home_Card \<Rightarrow>
          if wifi_is_assoc s \<and> \<not> connected (wifi s) then s
          else let s = s\<lparr>sheet_tgt := SHEET_LIST\<rparr> in if aps s = [] then wifi_scan s else s)"

text \<open>The sheet a button is on.\<close>

fun button_sheet :: "button \<Rightarrow> sheet option" where
  "button_sheet Toggle_Language = None"
| "button_sheet Pass_Cancel = Some SHEET_PASS"
| "button_sheet Pass_Join = Some SHEET_PASS"
| "button_sheet Detail_Back = Some SHEET_DETAIL"
| "button_sheet Detail_Join = Some SHEET_DETAIL"
| "button_sheet Detail_Forget = Some SHEET_DETAIL"
| "button_sheet List_Outside = Some SHEET_LIST"
| "button_sheet List_Close = Some SHEET_LIST"
| "button_sheet List_Refresh = Some SHEET_LIST"
| "button_sheet (List_Row i) = Some SHEET_LIST"
| "button_sheet Home_Card = None"

section \<open>The main loop\<close>

text \<open>The periodic part of the loop body (scans are due every 8 s, states every second).\<close>

definition loop_wifi :: "bool \<Rightarrow> nat \<Rightarrow> bool \<Rightarrow> bool \<Rightarrow> hud \<Rightarrow> hud" where
  "loop_wifi have_iw now scan_due info_due s =
     (let s = kick_pending have_iw s in
      if \<not> screen_off s \<and> \<not> job s \<and> \<not> connecting s then
        (if sheet_tgt s = SHEET_LIST \<and> scan_due then wifi_scan s
         else if info_due then wifi_info s else s)
      else s)"

text \<open>What changes outside: the screen, and what sysfs says of the interface.\<close>

definition outside :: "bool \<Rightarrow> bool \<Rightarrow> string \<Rightarrow> string \<Rightarrow> string \<Rightarrow> hud \<Rightarrow> hud" where
  "outside off dev ifc ip gw s =
     s\<lparr>screen_off := off, wifi := (wifi s)\<lparr>have_dev := dev, w_iface := fits 32 ifc, w_ip := ip, w_gw := gw\<rparr>\<rparr>"

datatype hud_event =
    Job_Ends int string
  | Confirm
  | Loop bool bool
  | Key osk_kind char
  | Tap button
  | Hover int
  | Screen bool
  | Outside bool bool string string string

definition hud_act :: "bool \<Rightarrow> nat \<Rightarrow> hud_event \<Rightarrow> hud \<Rightarrow> hud" where
  "hud_act have_iw now ev s =
     (case ev of
        Job_Ends rc out \<Rightarrow> poll_job have_iw now rc out s
      | Confirm \<Rightarrow> maybe_confirm_join now s
      | Loop scan_due info_due \<Rightarrow> loop_wifi have_iw now scan_due info_due s
      | Key k c \<Rightarrow> osk_activate k c s
      | Tap b \<Rightarrow> tap_button b s
      | Hover i \<Rightarrow> s\<lparr>hover_ap := i\<rparr>
      | Screen off \<Rightarrow> s\<lparr>screen_off := off\<rparr>
      | Outside off dev ifc ip gw \<Rightarrow> outside off dev ifc ip gw s)"

text \<open>
  The events the display lets happen: a sheet's buttons are there only while the sheet is, rows
  only for networks in the list, and keys type characters. A key acts when the finger is lifted,
  even if the sheet with the keyboard has closed while it was down (nothing resets \<open>osk_held\<close>
  then); \<open>lifted\<close> says that this does not happen.
\<close>

definition possible :: "bool \<Rightarrow> hud_event \<Rightarrow> hud \<Rightarrow> bool" where
  "possible lifted ev s =
     (case ev of
        Key k c \<Rightarrow> (lifted \<longrightarrow> sheet_tgt s = SHEET_PASS) \<and> (k = OSK_CHAR \<longrightarrow> c \<noteq> CHR 0x00)
      | Tap b \<Rightarrow> (case button_sheet b of None \<Rightarrow> True | Some sh \<Rightarrow> sheet_tgt s = sh) \<and>
          (case b of List_Row i \<Rightarrow> i < length (aps s) | _ \<Rightarrow> True)
      | Hover i \<Rightarrow> - 1 \<le> i \<and> i < int (length (aps s))
      | _ \<Rightarrow> True)"

text \<open>The user submits a password: the network it goes to and the text.\<close>

definition submits :: "hud_event \<Rightarrow> bool" where
  "submits ev = (case ev of Tap b \<Rightarrow> b = Pass_Join | Key k c \<Rightarrow> k = OSK_GO | _ \<Rightarrow> False)"

definition submission :: "hud \<Rightarrow> string \<times> string" where
  "submission s = (gw_pass_ssid (Some (connect_ssid s)) (Some (selected_ssid s)), password s)"

definition hud_blank :: "spawn list \<Rightarrow> hud" where
  "hud_blank sp =
     \<lparr>wifi = \<lparr>have_dev = False, connected = False, busy = False, w_iface = [], w_ssid = [], w_ip = [], w_gw = [], w_freq = [],
              w_signal = 0, w_dbm = 0\<rparr>,
      aps = [], hover_ap = - 1, selected_ap = - 1, selected_ssid = [], selected_sec = [], selected_freq = [],
      selected_signal = 0, selected_secure = False, selected_active = False, forgetting = False, forget_ssid = [],
      password = [], shift_on = False, sym_on = False, osk_sym2 = False, connecting = False, connect_fail = False,
      connect_need_pass = False, connect_ssid = [], known_psk_ssid = [], known_psk = [], join_wait_live = False,
      t_join_wait = 0, last_fail_kind = GW_FAIL_UNKNOWN, last_fail_raw = [], status_line = St_Empty, job = False,
      job_kind = Radio, started = [], spawns = sp, t_assoc = 0, want_scan = False, want_info = False,
      want_connect = False, want_link = False, want_forget = False, pend_ssid = [], pend_pass = [], pend_sec = [],
      pend_forget = [], screen_off = False, sheet_tgt = SHEET_NONE\<rparr>"

definition hud0 :: "spawn list \<Rightarrow> hud" where
  "hud0 sp = wifi_radio (hud_blank sp)"

inductive hud_reach :: "bool \<Rightarrow> (string \<times> string) list \<Rightarrow> hud \<Rightarrow> bool" for lifted where
  start: "hud_reach lifted [] (hud0 sp)"
| event: "hud_reach lifted typed s \<Longrightarrow> possible lifted ev s \<Longrightarrow>
    hud_reach lifted (if submits ev then submission s # typed else typed) (hud_act have_iw now ev s)"

end
