(* ===== verification/Wifi_Runs.thy ===== *)
theory Wifi_Runs
  imports Wifi_Events
begin

text \<open>
  Concrete runs of the Wi-Fi state machine, used to show that the situations the properties speak
  of occur: the user opens the list of networks, joins one, is asked for a password and submits it.
\<close>

section \<open>Evaluation\<close>

lemma hud_act_simps [simp]:
  "hud_act iw now (Job_Ends rc out) s = poll_job iw now rc out s" "hud_act iw now Confirm s = maybe_confirm_join now s"
  "hud_act iw now (Loop a b) s = loop_wifi iw now a b s" "hud_act iw now (Key k c) s = osk_activate k c s"
  "hud_act iw now (Tap btn) s = tap_button btn s" "hud_act iw now (Outside off dev ifc ip gw) s = outside off dev ifc ip gw s"
  by (simp_all add: hud_act_def)

lemma tap_simps:
  "tap_button Detail_Join s = wifi_join_picked s" "tap_button Pass_Join s = wifi_submit_pass s"
  "tap_button Home_Card s = (if wifi_is_assoc s \<and> \<not> connected (wifi s) then s
     else let s = s\<lparr>sheet_tgt := SHEET_LIST\<rparr> in if aps s = [] then wifi_scan s else s)"
  "tap_button (List_Row i) s = (let s = select_ap_idx (int i) s in
     if connecting s \<or> forgetting s then s else s\<lparr>connect_fail := False, sheet_tgt := SHEET_DETAIL\<rparr>)"
  "tap_button Detail_Back s = (if \<not> forgetting s then s\<lparr>sheet_tgt := SHEET_LIST\<rparr> else s)"
  "osk_activate OSK_SPACE c s = osk_feed '' '' s"
  by (simp_all add: tap_button_def osk_activate_def)

lemmas hud_eval = hud0_def hud_blank_def submission_def poll_job_def close_job_def abort_job_def
  connect_done_def connect_input_def connect_succeeded_def connect_retry_def connect_wrong_pass_def connect_open_pass_def
  connect_failed_def select_connect_ssid_def forget_done_def kick_pending_def loop_wifi_def osk_feed_def
  wifi_radio_def wifi_info_def wifi_scan_def wifi_link_def start_nmcli_def wifi_connect_def queue_connect_def
  connect_argv_def wifi_submit_pass_def wifi_join_picked_def wifi_forget_def forget_argv_def remember_psk_def forget_psk_def
  picked_sec_def picked_ssid_def find_ap_def ap_is_current_def select_ap_idx_def sync_selected_ap_def mark_ap_active_def
  mark_ap_inactive_def maybe_confirm_join_def fill_fail_status_def set_connect_status_def wifi_sec_enterprise_def
  gw_ssid_eq_def gw_already_on_def gw_allow_join_def gw_join_use_session_psk_def gw_pass_ssid_def gw_keep_pending_psk_def
  gw_drop_pending_def gw_join_confirm_ok_def gw_join_confirm_fail_def gw_join_fell_back_def gw_on_connect_job_def
  gw_job_ok_def gw_job_need_pw_def gw_job_wrong_pw_def gw_open_pass_def gw_classify_fail_def status_shown_def
  parse_scan_def scan_line_def strtok_lines_def cons_first_def apply_active_ap_def apply_wifi_ssid_def
  fits_def PW_MAX_def MAX_AP_def atoi_def digits_val_def digit_val_def is_digit_def is_space_def contains_Cons
  ZH_CONNECTED_def ZH_WRONG_PW_def ZH_ENTERPRISE_def wifi_is_assoc_def

section \<open>Runs\<close>

lemma reach_step:
  "hud_reach lifted T s \<Longrightarrow> possible lifted ev s \<Longrightarrow> hud_act False now ev s = s' \<Longrightarrow> \<not> submits ev \<Longrightarrow> hud_reach lifted T s'"
  using hud_reach.event [of lifted T s ev False now] by simp

lemma reach_submit:
  "hud_reach lifted T s \<Longrightarrow> possible lifted ev s \<Longrightarrow> hud_act False now ev s = s' \<Longrightarrow> submits ev \<Longrightarrow> submission s = p \<Longrightarrow> hud_reach lifted (p # T) s'"
  using hud_reach.event [of lifted T s ev False now] by simp

lemma reach_spaces:
  assumes "hud_reach lifted T s" and "sheet_tgt s = SHEET_PASS" and "length (password s) + n < PW_MAX"
  shows "hud_reach lifted T (s\<lparr>password := password s @ replicate n (CHR '' '')\<rparr>)"
  using assms(3)
proof (induction n)
  case 0
  then show ?case using assms(1) by simp
next
  case (Suc n)
  show ?case
    by (rule reach_step [OF Suc.IH, where ev = "Key OSK_SPACE (CHR '' '')"])
      (use Suc.prems assms(2) in
        \<open>simp_all add: possible_def submits_def osk_activate_def osk_feed_def replicate_append_same del: replicate.simps
           flip: replicate_Suc\<close>)
qed

text \<open>Two networks are listed, A and B.\<close>

definition demo_ap :: "string \<Rightarrow> ap" where
  "demo_ap ssid = \<lparr>ap_ssid = ssid, ap_security = ''W'', ap_freq = ''5'', ap_signal = 1, ap_secure = True, ap_active = False\<rparr>"

definition demo_log :: "(job_kind \<times> string list) list" where
  "demo_log =
     [(Radio, [''nmcli'', ''-c'', ''no'', ''radio'', ''wifi'', ''on'']),
      (Scan, [''nmcli'', ''-c'', ''no'', ''-w'', ''25'', ''-t'', ''-f'', ''SSID,SIGNAL,SECURITY,FREQ,ACTIVE'', ''device'', ''wifi'',
         ''list'', ''--rescan'', ''yes'']),
      (Info, [''nmcli'', ''-c'', ''no'', ''-t'', ''-f'', ''DEVICE,TYPE,STATE,CONNECTION'', ''device''])]"

definition demo_list :: "spawn list \<Rightarrow> hud" where
  "demo_list sp = (hud_blank sp)
     \<lparr>aps := [demo_ap ''A'', demo_ap ''B''], hover_ap := 0, selected_ap := 0, status_line := St_Found 2, job := True,
      job_kind := Info, started := demo_log, sheet_tgt := SHEET_LIST\<rparr>"

definition demo_detail :: "spawn list \<Rightarrow> hud" where
  "demo_detail sp = (demo_list sp)
     \<lparr>selected_ssid := ''A'', selected_sec := ''W'', selected_freq := ''5'', selected_signal := 1, selected_secure := True,
      sheet_tgt := SHEET_DETAIL\<rparr>"

lemmas demo_defs = demo_detail_def demo_list_def demo_ap_def demo_log_def

lemma demo_list_reach: "hud_reach lifted [] (demo_list sp)"
proof -
  let ?out = "''A:1:W:5:n'' @ [CHR 0x0A] @ ''B:1:W:5:n''"
  define scanning where
    "scanning = (hud_blank (Spawned # sp))\<lparr>job := True, job_kind := Scan, started := butlast demo_log, want_info := True\<rparr>"
  have "hud_act False 1 (Job_Ends 0 []) (hud0 (Spawned # Spawned # Spawned # sp)) = scanning"
    by (simp add: scanning_def demo_log_def hud_eval Let_def cong: let_weak_cong prod.case_cong_weak)
  from reach_step [OF hud_reach.start _ this] have 1: "hud_reach lifted [] scanning" by (simp add: possible_def submits_def)
  have "hud_act False 2 (Job_Ends 0 ?out) scanning = (demo_list sp)\<lparr>sheet_tgt := SHEET_NONE\<rparr>"
    by (simp add: scanning_def demo_defs hud_eval Let_def cong: let_weak_cong prod.case_cong_weak)
  from reach_step [OF 1 _ this] have 2: "hud_reach lifted [] ((demo_list sp)\<lparr>sheet_tgt := SHEET_NONE\<rparr>)"
    by (simp add: possible_def submits_def)
  show ?thesis
    by (rule reach_step [OF 2, where ev = "Tap Home_Card"])
      (simp_all add: possible_def submits_def tap_simps demo_defs hud_blank_def wifi_is_assoc_def)
qed

lemma demo_detail_reach: "hud_reach lifted [] (demo_detail sp)"
  by (rule reach_step [OF demo_list_reach, where ev = "Tap (List_Row 0)"])
    (simp_all add: possible_def submits_def tap_simps demo_defs hud_blank_def select_ap_idx_def fits_def)

text \<open>The user joins A, is asked for its password, types eight spaces and submits.\<close>

definition demo_joining :: hud where
  "demo_joining = (demo_detail [])
     \<lparr>wifi := (wifi (hud_blank []))\<lparr>busy := True\<rparr>, connecting := True, connect_ssid := ''A'', status_line := St_Connecting,
      job_kind := Connect, started := demo_log @ [(Connect, connect_argv ''A'' [] [] ''W'')]\<rparr>"

definition demo_asked :: hud where
  "demo_asked = demo_joining
     \<lparr>wifi := wifi (hud_blank []), connecting := False, status_line := St_Fail GW_FAIL_NEED_PW [], job := False,
      sheet_tgt := SHEET_PASS\<rparr>"

definition demo_password :: string where
  "demo_password = replicate 8 (CHR '' '')"

definition demo_sent :: hud where
  "demo_sent = demo_joining
     \<lparr>password := demo_password, connect_need_pass := True, known_psk_ssid := ''A'', known_psk := demo_password,
      started := started demo_joining @ [(Connect, connect_argv ''A'' demo_password [] ''W'')], sheet_tgt := SHEET_PASS\<rparr>"

lemma demo_joining_reach: "hud_reach lifted [] demo_joining"
  by (rule reach_step [OF demo_detail_reach [where sp = "[]"], where ev = "Tap Detail_Join"])
    (simp_all add: possible_def submits_def demo_joining_def demo_defs tap_simps hud_eval Let_def cong: let_weak_cong)

lemma demo_asked_reach: "hud_reach lifted [] demo_asked"
  by (rule reach_step [OF demo_joining_reach, where ev = "Job_Ends 2 []"])
    (simp_all add: possible_def submits_def demo_asked_def demo_joining_def demo_defs tap_simps hud_eval Let_def
      cong: let_weak_cong prod.case_cong_weak)

lemma demo_sent_reach: "hud_reach lifted [(''A'', demo_password)] demo_sent"
proof -
  have 1: "hud_reach lifted [] (demo_asked\<lparr>password := demo_password\<rparr>)"
    using reach_spaces [OF demo_asked_reach, of 8]
    by (simp add: demo_asked_def demo_joining_def demo_defs hud_blank_def demo_password_def PW_MAX_def)
  show ?thesis
    by (rule reach_submit [OF 1, where ev = "Tap Pass_Join"])
      (simp_all add: possible_def submits_def demo_sent_def demo_asked_def demo_joining_def demo_defs demo_password_def tap_simps hud_eval Let_def
        cong: let_weak_cong prod.case_cong_weak)
qed

end
