(* ===== verification/Wifi_Hud_Correct.thy ===== *)
theory Wifi_Hud_Correct
  imports Wifi_Runs
begin

text \<open>
  Properties of the Wi-Fi state machine of the boot display, over all sequences of events: the
  flags agree with the running process, passwords go only to the network they were submitted
  for, a wait for confirmation ends; and three situations the code does not handle.
\<close>

section \<open>The part of the state that decides\<close>

record core =
  c_job :: "job_kind option"
  c_connecting :: bool
  c_waiting :: bool
  c_connect_ssid :: string
  c_forgetting :: bool
  c_want_forget :: bool
  c_known :: "string \<times> string"
  c_pend :: "string \<times> string"
  c_started :: "(job_kind \<times> string list) list"
  c_password :: string

definition core :: "hud \<Rightarrow> core" where
  "core s = \<lparr>c_job = (if job s then Some (job_kind s) else None), c_connecting = connecting s,
     c_waiting = join_wait_live s, c_connect_ssid = connect_ssid s, c_forgetting = forgetting s,
     c_want_forget = want_forget s, c_known = (known_psk_ssid s, known_psk s), c_pend = (pend_ssid s, pend_pass s),
     c_started = started s, c_password = password s\<rparr>"

definition flow_ok :: "core \<Rightarrow> bool" where
  "flow_ok c \<longleftrightarrow>
     (c_job c = Some Connect \<longrightarrow> c_connecting c \<and> \<not> c_waiting c \<and> c_connect_ssid c \<noteq> []) \<and>
     (c_waiting c \<longrightarrow> c_connecting c \<and> c_connect_ssid c \<noteq> []) \<and>
     (c_forgetting c \<longleftrightarrow> c_job c = Some Forget) \<and>
     (c_forgetting c \<longrightarrow> \<not> c_connecting c) \<and>
     \<not> c_want_forget c"

definition secret_ok :: "(string \<times> string) list \<Rightarrow> string \<times> string \<Rightarrow> bool" where
  "secret_ok typed p \<longleftrightarrow> snd p = [] \<or> p \<in> set typed"

text \<open>The network and the password of a start of the connect script.\<close>

definition sent :: "job_kind \<times> string list \<Rightarrow> string \<times> string" where
  "sent j = (snd j ! 2, snd j ! 3)"

definition secrets_ok :: "(string \<times> string) list \<Rightarrow> core \<Rightarrow> bool" where
  "secrets_ok typed c \<longleftrightarrow> secret_ok typed (c_known c) \<and> secret_ok typed (c_pend c) \<and>
     (\<forall>j\<in>set (c_started c). fst j = Connect \<longrightarrow> secret_ok typed (sent j))"

definition sizes_ok :: "(string \<times> string) list \<Rightarrow> core \<Rightarrow> bool" where
  "sizes_ok typed c \<longleftrightarrow> length (c_connect_ssid c) < 96 \<and> length (c_password c) < PW_MAX \<and>
     length (fst (c_known c)) < 96 \<and> length (snd (c_known c)) < PW_MAX \<and>
     length (fst (c_pend c)) < 96 \<and> length (snd (c_pend c)) < PW_MAX \<and>
     (\<forall>(n, p)\<in>set typed. length n < 96 \<and> length p < PW_MAX)"

definition core_ok :: "(string \<times> string) list \<Rightarrow> core \<Rightarrow> bool" where
  "core_ok typed c \<longleftrightarrow> flow_ok c \<and> secrets_ok typed c \<and> sizes_ok typed c"

definition hud_ok :: "(string \<times> string) list \<Rightarrow> hud \<Rightarrow> bool" where
  "hud_ok typed s \<longleftrightarrow> core_ok typed (core s) \<and> length (selected_ssid s) < 96"

lemmas ok_defs = core_ok_def flow_ok_def secrets_ok_def sizes_ok_def secret_ok_def

section \<open>Operations that leave it alone\<close>

lemma core_upd [simp]:
  "core (s\<lparr>wifi := w\<rparr>) = core s" "core (s\<lparr>aps := a\<rparr>) = core s" "core (s\<lparr>hover_ap := i\<rparr>) = core s"
  "core (s\<lparr>selected_ap := i\<rparr>) = core s" "core (s\<lparr>selected_ssid := t\<rparr>) = core s" "core (s\<lparr>selected_sec := t\<rparr>) = core s"
  "core (s\<lparr>selected_freq := t\<rparr>) = core s" "core (s\<lparr>selected_signal := i\<rparr>) = core s"
  "core (s\<lparr>selected_secure := b\<rparr>) = core s" "core (s\<lparr>selected_active := b\<rparr>) = core s"
  "core (s\<lparr>forget_ssid := t\<rparr>) = core s" "core (s\<lparr>shift_on := b\<rparr>) = core s" "core (s\<lparr>sym_on := b\<rparr>) = core s"
  "core (s\<lparr>osk_sym2 := b\<rparr>) = core s" "core (s\<lparr>connect_fail := b\<rparr>) = core s" "core (s\<lparr>connect_need_pass := b\<rparr>) = core s"
  "core (s\<lparr>t_join_wait := n\<rparr>) = core s" "core (s\<lparr>last_fail_kind := k\<rparr>) = core s" "core (s\<lparr>last_fail_raw := t\<rparr>) = core s"
  "core (s\<lparr>status_line := st\<rparr>) = core s" "core (s\<lparr>spawns := sp\<rparr>) = core s" "core (s\<lparr>t_assoc := n\<rparr>) = core s"
  "core (s\<lparr>want_scan := b\<rparr>) = core s" "core (s\<lparr>want_info := b\<rparr>) = core s" "core (s\<lparr>want_connect := b\<rparr>) = core s"
  "core (s\<lparr>want_link := b\<rparr>) = core s" "core (s\<lparr>pend_sec := t\<rparr>) = core s" "core (s\<lparr>pend_forget := t\<rparr>) = core s"
  "core (s\<lparr>screen_off := b\<rparr>) = core s" "core (s\<lparr>sheet_tgt := sh\<rparr>) = core s"
  by (simp_all add: core_def)

lemma core_readers [simp]:
  "core (mark_ap_active t s) = core s" "core (mark_ap_inactive t s) = core s" "core (select_ap_idx i s) = core s"
  "core (sync_selected_ap s) = core s" "core (fill_fail_status k t s) = core s" "core (set_connect_status t s) = core s"
  "core (apply_wifi_ssid t s) = core s" "core (apply_signal_dbm i s) = core s"
  by (simp_all add: mark_ap_active_def mark_ap_inactive_def select_ap_idx_def sync_selected_ap_def fill_fail_status_def
      set_connect_status_def apply_wifi_ssid_def apply_signal_dbm_def Let_def)

text \<open>Sequencing, for operations that bind the state step by step.\<close>

lemma step_let: "g a = c \<Longrightarrow> (\<And>x. g x = c \<Longrightarrow> g (f x) = c) \<Longrightarrow> g (let x = a in f x) = c"
  by simp

lemma step_let_value: "(\<And>x. g (f x) = c) \<Longrightarrow> g (let x = a in f x) = c"
  by simp

lemma step_if: "g s = c \<Longrightarrow> g t = c \<Longrightarrow> g (if b then s else t) = c"
  by simp

lemma step_opt: "g s = c \<Longrightarrow> (\<And>x. g (f x) = c) \<Longrightarrow> g (case opt of None \<Rightarrow> s | Some x \<Rightarrow> f x) = c"
  by (simp split: option.split)

lemma step_pair: "(\<And>x y. g (f x y) = c) \<Longrightarrow> g (case p of (x, y) \<Rightarrow> f x y) = c"
  by (simp split: prod.split)

lemmas steps = step_let step_let_value step_if step_opt step_pair
lemmas core_steps = steps [where g = core]

lemma core_active [simp]: "core (apply_active_loop as s) = core s" "core (apply_active_ap s) = core s"
proof -
  show "core (apply_active_loop as s) = core s" for as
  proof (induction as arbitrary: s)
    case (Cons a as)
    show ?case unfolding apply_active_loop.simps by (intro core_steps) (simp_all add: Cons)
  qed simp
  then show "core (apply_active_ap s) = core s" by (simp add: apply_active_ap_def)
qed

lemma core_parse_info [simp]: "core (parse_info now t s) = core s"
  unfolding parse_info_def by (intro core_steps) simp_all

lemma core_parse_scan [simp]: "core (parse_scan t s) = core s"
  unfolding parse_scan_def by (intro core_steps) simp_all

lemma core_link_lines [simp]: "core (link_lines ls s) = core s"
proof (induction ls arbitrary: s)
  case (Cons l ls)
  show ?case unfolding link_lines.simps by (intro core_steps) (simp_all add: Cons)
qed simp

lemma core_parse_link [simp]: "core (parse_link t s) = core s"
  unfolding parse_link_def scan_signal_def scan_freq_def by (intro core_steps) simp_all

lemma core_outside [simp]: "core (outside off dev ifc ip gw s) = core s"
  by (simp add: outside_def)

lemma core_select_connect [simp]: "core (select_connect_ssid s) = core s"
  by (simp add: select_connect_ssid_def)

section \<open>The selected network fits its buffer\<close>

lemma sel_upd [simp]: "length (selected_ssid (select_ap_idx i s)) < 96 \<longleftrightarrow>
   (if i < 0 \<or> i \<ge> int (length (aps s)) then length (selected_ssid s) < 96 else True)"
  using fits_length [of 96] by (simp add: select_ap_idx_def Let_def)

lemmas sel_steps = steps [where g = selected_ssid]
lemmas fit_steps = steps [where g = "\<lambda>s. length (selected_ssid s) < 96" and c = True, simplified eq_True]

lemma sel_sync [simp]: "length (selected_ssid s) < 96 \<Longrightarrow> length (selected_ssid (sync_selected_ap s)) < 96"
  by (simp add: sync_selected_ap_def Let_def)

lemma sel_select_connect [simp]: "length (selected_ssid s) < 96 \<Longrightarrow> length (selected_ssid (select_connect_ssid s)) < 96"
  using fits_length [of 96] by (simp add: select_connect_ssid_def)

lemma sel_apply [simp]: "selected_ssid (apply_wifi_ssid t s) = selected_ssid s" "selected_ssid (apply_signal_dbm i s) = selected_ssid s"
  by (simp_all add: apply_wifi_ssid_def apply_signal_dbm_def Let_def)

lemma sel_active [simp]: "selected_ssid (apply_active_loop as s) = selected_ssid s"
proof (induction as arbitrary: s)
  case (Cons a as)
  show ?case unfolding apply_active_loop.simps by (intro sel_steps) (simp_all add: Cons)
qed simp

lemma sel_parse_scan: "length (selected_ssid s) < 96 \<Longrightarrow> length (selected_ssid (parse_scan t s)) < 96"
  unfolding parse_scan_def apply_active_ap_def by (intro fit_steps) simp_all

lemma sel_link_lines [simp]: "selected_ssid (link_lines ls s) = selected_ssid s"
proof (induction ls arbitrary: s)
  case (Cons l ls)
  show ?case unfolding link_lines.simps by (intro sel_steps) (simp_all add: Cons)
qed simp

lemma sel_parse_link [simp]: "selected_ssid (parse_link t s) = selected_ssid s"
  unfolding parse_link_def scan_signal_def scan_freq_def by (intro sel_steps) simp_all

lemma sel_parse_info [simp]: "selected_ssid (parse_info now t s) = selected_ssid s"
  unfolding parse_info_def by (intro sel_steps) simp_all

section \<open>Every operation keeps the invariant\<close>

lemma hud_ok_same: "hud_ok T s \<Longrightarrow> core s' = core s \<Longrightarrow> length (selected_ssid s') < 96 \<Longrightarrow> hud_ok T s'"
  by (simp add: hud_ok_def)

lemma hud_ok_selected: "hud_ok T s \<Longrightarrow> length (selected_ssid s) < 96"
  by (simp add: hud_ok_def)

text \<open>Starting a process: on failure only the message and the list of outcomes change.\<close>

lemma start_core:
  "start_nmcli k argv s = (ok, s') \<Longrightarrow> selected_ssid s' = selected_ssid s \<and>
     (if ok then \<not> job s \<and> core s' = (core s)\<lparr>c_job := Some k, c_started := started s @ [(k, argv)]\<rparr> else core s' = core s)"
  by (auto simp: start_nmcli_def core_def split: if_splits list.splits spawn.splits)

lemma start_helper_ok:
  assumes "hud_ok T s" and "k \<notin> {Connect, Forget}" and "start_nmcli k argv s = (ok, s')"
  shows "hud_ok T s'"
  using assms(1,2) start_core [OF assms(3)] by (auto simp: hud_ok_def ok_defs core_def split: if_splits)

lemma start_or_ok:
  assumes "hud_ok T s" and "k \<notin> {Connect, Forget}" and "\<And>s. hud_ok T s \<Longrightarrow> hud_ok T (f s)"
  shows "hud_ok T (case start_nmcli k argv s of (ok, s) \<Rightarrow> if ok then s else f s)"
  using start_helper_ok [OF assms(1,2)] assms(3) by (auto split: prod.split)

lemma helpers_ok:
  assumes "hud_ok T s"
  shows "hud_ok T (wifi_radio s)" and "hud_ok T (wifi_info s)" and "hud_ok T (wifi_scan s)" and "hud_ok T (wifi_link iw s)"
  unfolding wifi_radio_def wifi_info_def wifi_scan_def wifi_link_def Let_def
  by (rule start_or_ok [OF assms]; simp add: hud_ok_def)+

lemma close_job_ok: "hud_ok T s \<Longrightarrow> \<not> forgetting s \<Longrightarrow> hud_ok T (close_job s)"
  by (auto simp: hud_ok_def ok_defs core_def close_job_def)

lemma fits_small [simp]: "length t < 96 \<Longrightarrow> fits 96 t = t" "length t < PW_MAX \<Longrightarrow> fits PW_MAX t = t"
  by (simp_all add: fits_id)

lemma fits_bound [simp]: "length (fits 96 t) < 96" "length (fits PW_MAX t) < PW_MAX"
  using fits_length [of 96] fits_length [of PW_MAX] by (simp_all add: PW_MAX_def)

lemma remember_psk_ok:
  "hud_ok T s \<Longrightarrow> (ssid, pass) \<in> set T \<Longrightarrow> hud_ok T (remember_psk ssid pass s)"
  by (auto simp: hud_ok_def ok_defs core_def remember_psk_def)

lemma forget_psk_ok: "hud_ok T s \<Longrightarrow> hud_ok T (forget_psk ssid s)"
  by (auto simp: hud_ok_def ok_defs core_def forget_psk_def PW_MAX_def)

lemma queue_connect_ok:
  "hud_ok T s \<Longrightarrow> secret_ok T (ssid, pass) \<Longrightarrow> length ssid < 96 \<Longrightarrow> length pass < PW_MAX \<Longrightarrow>
   hud_ok T (queue_connect ssid pass sec s)"
  by (auto simp: hud_ok_def ok_defs core_def queue_connect_def)

lemma core_start_connect:
  assumes "core_ok T c" and "c_job c = None" and "c_connecting c" and "\<not> c_waiting c" and "c_connect_ssid c \<noteq> []"
    and "secret_ok T (sent (Connect, argv))"
  shows "core_ok T (c\<lparr>c_job := Some Connect, c_started := c_started c @ [(Connect, argv)]\<rparr>)"
  using assms by (simp add: ok_defs)

lemma sent_connect [simp]:
  "length ssid < 96 \<Longrightarrow> length pass < PW_MAX \<Longrightarrow> sent (k, connect_argv ssid pass i sec) = (ssid, pass)"
  by (simp add: sent_def connect_argv_def)

lemma start_connect_ok:
  assumes "hud_ok T s" and "connecting s" and "\<not> join_wait_live s" and "connect_ssid s \<noteq> []"
    and "secret_ok T (sent (Connect, argv))"
  shows "hud_ok T (snd (start_nmcli Connect argv s))"
proof (cases "start_nmcli Connect argv s")
  case (Pair ok s')
  show ?thesis
  proof (cases ok)
    case True
    have "core_ok T ((core s)\<lparr>c_job := Some Connect, c_started := c_started (core s) @ [(Connect, argv)]\<rparr>)"
      by (rule core_start_connect) (use assms True start_core [OF Pair] in \<open>simp_all add: hud_ok_def, simp_all add: core_def\<close>)
    then show ?thesis using True start_core [OF Pair] assms(1) by (simp add: Pair hud_ok_def) (simp add: core_def)
  next
    case False
    then show ?thesis using start_core [OF Pair] assms(1) by (simp add: Pair hud_ok_def)
  qed
qed

lemma wifi_connect_ok:
  assumes "hud_ok T s" and "\<not> forgetting s" and "secret_ok T (ssid, pass)" and "length ssid < 96" and "length pass < PW_MAX"
  shows "hud_ok T (wifi_connect ssid pass sec s)"
proof (cases "ssid = []")
  case True
  then show ?thesis using assms(1) by (simp add: wifi_connect_def)
next
  case False
  define s1 where "s1 = s\<lparr>forget_ssid := [], connecting := True, connect_fail := False, join_wait_live := False,
    wifi := (wifi s)\<lparr>busy := True\<rparr>, connect_ssid := fits 96 ssid, status_line := St_Connecting\<rparr>"
  have ok1: "hud_ok T s1"
    using assms False by (auto simp: s1_def hud_ok_def ok_defs core_def)
  define s2 where "s2 = (if job s1 \<and> job_kind s1 \<noteq> Connect then abort_job s1 else s1)"
  have ok2: "hud_ok T s2" and c2: "connecting s2" "\<not> join_wait_live s2" "connect_ssid s2 \<noteq> []" "\<not> forgetting s2"
  proof -
    have f1: "connecting s1" "\<not> join_wait_live s1" "connect_ssid s1 \<noteq> []" "\<not> forgetting s1"
      using assms(2,4) False by (simp_all add: s1_def)
    show "hud_ok T s2" using ok1 close_job_ok [OF ok1] f1(4) by (simp add: s2_def abort_job_def)
    show "connecting s2" "\<not> join_wait_live s2" "connect_ssid s2 \<noteq> []" "\<not> forgetting s2"
      using f1 by (simp_all add: s2_def abort_job_def close_job_def)
  qed
  have "hud_ok T (snd (start_nmcli Connect (connect_argv ssid pass i sec) s2))" for i
    by (rule start_connect_ok [OF ok2 c2(1-3)]) (use assms(3-5) in simp)
  then show ?thesis
    using False ok2 queue_connect_ok [OF ok2 assms(3-5)]
    unfolding wifi_connect_def Let_def s1_def [symmetric] s2_def [symmetric] by auto
qed

lemma hud_okD:
  assumes "hud_ok T s"
  shows "length (connect_ssid s) < 96" and "length (password s) < PW_MAX"
    and "secret_ok T (known_psk_ssid s, known_psk s)" and "length (known_psk s) < PW_MAX"
    and "secret_ok T (pend_ssid s, pend_pass s)" and "length (pend_ssid s) < 96" and "length (pend_pass s) < PW_MAX"
    and "\<not> want_forget s" and "\<not> job s \<Longrightarrow> \<not> forgetting s" and "join_wait_live s \<Longrightarrow> connecting s \<and> connect_ssid s \<noteq> []"
    and "forgetting s \<Longrightarrow> \<not> connecting s" and "job s \<Longrightarrow> job_kind s = Connect \<Longrightarrow> \<not> forgetting s \<and> \<not> join_wait_live s \<and> connect_ssid s \<noteq> []"
    and "job s \<Longrightarrow> job_kind s \<noteq> Forget \<Longrightarrow> \<not> forgetting s"
  using assms by (auto simp: hud_ok_def ok_defs core_def)

lemma gw_pass_ssid_length: "length a < 96 \<Longrightarrow> length b < 96 \<Longrightarrow> length (gw_pass_ssid (Some a) (Some b)) < 96"
  by (simp add: gw_pass_ssid_def)

text \<open>A submission is recorded first; the network and the password are then known.\<close>

lemma hud_ok_submit: "hud_ok T s \<Longrightarrow> hud_ok (submission s # T) s"
  unfolding hud_ok_def ok_defs submission_def
  by (auto simp: gw_pass_ssid_length core_def)

lemma need_pass_ok: "hud_ok T s \<Longrightarrow> hud_ok T (s\<lparr>connect_need_pass := b\<rparr>)"
  by (rule hud_ok_same) (auto dest: hud_ok_selected)

lemma submit_ok:
  assumes "hud_ok T s"
  shows "hud_ok (submission s # T) (wifi_submit_pass s)"
proof -
  let ?T = "submission s # T" and ?ssid = "gw_pass_ssid (Some (connect_ssid s)) (Some (selected_ssid s))"
  have ok: "hud_ok ?T s" by (rule hud_ok_submit [OF assms])
  have mem: "(?ssid, password s) \<in> set ?T" by (simp add: submission_def)
  have len: "length ?ssid < 96" "length (password s) < PW_MAX"
    using hud_okD(1,2) [OF assms] hud_ok_selected [OF assms] by (simp_all add: gw_pass_ssid_length)
  have sec: "secret_ok ?T (?ssid, password s)" using mem by (simp add: secret_ok_def)
  define s1 where "s1 = remember_psk ?ssid (password s) (s\<lparr>connect_need_pass := True\<rparr>)"
  have ok1: "hud_ok ?T s1" unfolding s1_def by (rule remember_psk_ok [OF need_pass_ok [OF ok] mem])
  have f1: "forgetting s1 = forgetting s" "password s1 = password s" by (simp_all add: s1_def remember_psk_def)
  have "hud_ok ?T (s\<lparr>connect_fail := b, status_line := st\<rparr>)" for b st
    by (rule hud_ok_same [OF ok]) (use hud_ok_selected [OF ok] in auto)
  then show ?thesis
    using ok queue_connect_ok [OF ok1 sec len] wifi_connect_ok [OF ok1 _ sec len] f1
    unfolding wifi_submit_pass_def Let_def s1_def [symmetric] by (auto simp: f1)
qed

lemma join_ok:
  assumes "hud_ok T s"
  shows "hud_ok T (wifi_join_picked s)"
proof -
  have l: "length (selected_ssid s) < 96" by (rule hud_ok_selected [OF assms])
  have same: "hud_ok T (s\<lparr>status_line := st\<rparr>)" for st
    by (rule hud_ok_same [OF assms]) (use l in auto)
  have known: "secret_ok T (selected_ssid s, known_psk s)"
    if "gw_join_use_session_psk (Some (selected_ssid s)) (Some (known_psk_ssid s)) (Some (known_psk s))"
    using that hud_okD(3) [OF assms] by (auto simp: gw_join_use_session_psk_def gw_ssid_eq_iff)
  have none: "secret_ok T (selected_ssid s, [])" by (simp add: secret_ok_def)
  show ?thesis
    unfolding wifi_join_picked_def Let_def
    using assms same l known none hud_okD(4) [OF assms] need_pass_ok [OF assms]
    by (auto intro!: wifi_connect_ok simp: PW_MAX_def)
qed

lemma core_forget_start:
  "core_ok T (c\<lparr>c_job := None, c_connecting := False, c_waiting := False, c_forgetting := False\<rparr>) \<Longrightarrow>
   core_ok T (c\<lparr>c_job := Some Forget, c_connecting := False, c_waiting := False, c_forgetting := True,
     c_started := c_started c @ [(Forget, argv)]\<rparr>)"
  by (simp add: ok_defs)

text \<open>The state in which the forget script is started.\<close>

definition forget_prepared :: "string \<Rightarrow> hud \<Rightarrow> hud" where
  "forget_prepared ssid s =
     (let s = s\<lparr>join_wait_live := False, connecting := False, wifi := (wifi s)\<lparr>busy := False\<rparr>,
                want_connect := False, want_scan := False, want_info := False, want_link := False,
                forgetting := True, forget_ssid := fits 96 ssid\<rparr>;
          s = mark_ap_inactive ssid s;
          s = (if gw_ssid_eq (Some (w_ssid (wifi s))) (Some ssid)
               then s\<lparr>wifi := clear_live (wifi s), t_assoc := 0\<rparr> else s);
          s = s\<lparr>status_line := St_Forgetting\<rparr>
      in if job s \<and> job_kind s \<noteq> Forget then abort_job s else s)"

lemma wifi_forget_prepared:
  "wifi_forget ssid s =
     (if ssid = [] \<or> job s \<and> job_kind s = Forget then s
      else let p = forget_prepared ssid s in
        case start_nmcli Forget (forget_argv ssid (w_iface (wifi p))) p of
          (ok, s) \<Rightarrow> if ok then s else s\<lparr>forgetting := False\<rparr>)"
proof -
  have "\<not> job (forget_prepared ssid s)" if "\<not> (job s \<and> job_kind s = Forget)"
    using that by (auto simp: forget_prepared_def Let_def mark_ap_inactive_def abort_job_def close_job_def)
  then show ?thesis
    unfolding wifi_forget_def forget_prepared_def gw_forget_can_start_iff by (simp add: Let_def)
qed

lemma forget_prepared_core:
  "\<not> (job s \<and> job_kind s = Forget) \<Longrightarrow>
   core (forget_prepared ssid s) = (core s)\<lparr>c_job := None, c_connecting := False, c_waiting := False, c_forgetting := True\<rparr>"
  by (auto simp: forget_prepared_def Let_def core_def mark_ap_inactive_def abort_job_def close_job_def)

lemma forget_prepared_selected [simp]: "selected_ssid (forget_prepared ssid s) = selected_ssid s"
  by (simp add: forget_prepared_def Let_def mark_ap_inactive_def abort_job_def close_job_def)

lemma core_quiet: "core_ok T c \<Longrightarrow> c_job c \<noteq> Some Forget \<Longrightarrow>
  core_ok T (c\<lparr>c_job := None, c_connecting := False, c_waiting := False, c_forgetting := False\<rparr>)"
  by (simp add: ok_defs)

lemma forget_ok:
  assumes "hud_ok T s"
  shows "hud_ok T (wifi_forget ssid s)"
proof (cases "ssid = [] \<or> job s \<and> job_kind s = Forget")
  case True
  then show ?thesis using assms by (simp add: wifi_forget_prepared)
next
  case False
  let ?p = "forget_prepared ssid s"
  obtain ok s' where st: "start_nmcli Forget (forget_argv ssid (w_iface (wifi ?p))) ?p = (ok, s')" by force
  have q: "core_ok T ((core s)\<lparr>c_job := None, c_connecting := False, c_waiting := False, c_forgetting := False\<rparr>)"
    using assms False by (intro core_quiet) (auto simp: hud_ok_def core_def)
  have run: "wifi_forget ssid s = (if ok then s' else s'\<lparr>forgetting := False\<rparr>)"
    using False st by (auto simp: wifi_forget_prepared Let_def)
  have p: "core ?p = (core s)\<lparr>c_job := None, c_connecting := False, c_waiting := False, c_forgetting := True\<rparr>"
    using False by (intro forget_prepared_core) auto
  have len: "length (selected_ssid s') < 96"
    using start_core [OF st] hud_ok_selected [OF assms] by simp
  show ?thesis
  proof (cases ok)
    case True
    have "core s' = (core s)\<lparr>c_job := Some Forget, c_connecting := False, c_waiting := False, c_forgetting := True,
        c_started := started ?p @ [(Forget, forget_argv ssid (w_iface (wifi ?p)))]\<rparr>"
      using start_core [OF st] True p by simp
    moreover have "started ?p = c_started (core s)"
      using arg_cong [OF p, of c_started] by (simp add: core_def)
    ultimately show ?thesis
      using core_forget_start [OF q] True len by (simp add: run hud_ok_def)
  next
    case nok: False
    have "core (s'\<lparr>forgetting := False\<rparr>) = (core s')\<lparr>c_forgetting := False\<rparr>" by (simp add: core_def)
    then show ?thesis using start_core [OF st] nok p q len by (simp add: run hud_ok_def)
  qed
qed

lemma kick_ok:
  assumes "hud_ok T s"
  shows "hud_ok T (kick_pending iw s)"
proof -
  have same: "hud_ok T (s\<lparr>want_connect := b\<rparr>)" "hud_ok T (s\<lparr>want_scan := b\<rparr>)" "hud_ok T (s\<lparr>want_link := b\<rparr>)"
    "hud_ok T (s\<lparr>want_info := b\<rparr>)" for b
    using hud_ok_selected [OF assms] by (auto intro!: hud_ok_same [OF assms])
  show ?thesis
    unfolding kick_pending_def
    using assms same helpers_ok hud_okD(5-9) [OF assms]
    by (auto intro!: wifi_connect_ok helpers_ok)
qed

text \<open>The two ways in which a wait for confirmation ends.\<close>

lemma confirm_cases:
  obtains (waits) "maybe_confirm_join now s = s"
  | (up) s' where "join_wait_live s" and "gw_already_on (connected (wifi s)) (Some (w_ssid (wifi s))) (Some (connect_ssid s))"
      and "maybe_confirm_join now s = s'" and "connect_fail s' = False" and "sheet_tgt s' = SHEET_NONE"
      and "core s' = (core s)\<lparr>c_connecting := False, c_waiting := False\<rparr>" and "selected_ssid s' = selected_ssid s"
      and "status_line s' = St_Connected" and "wifi s' = (wifi s)\<lparr>busy := False\<rparr>"
  | (gave_up) s' where "join_wait_live s" and "t_join_wait s \<noteq> 0" and "now - t_join_wait s > 12000000000"
      and "\<not> gw_already_on (connected (wifi s)) (Some (w_ssid (wifi s))) (Some (connect_ssid s))"
      and "maybe_confirm_join now s = s'" and "connect_fail s'" and "sheet_tgt s' \<noteq> SHEET_NONE"
      and "core s' = (core s)\<lparr>c_connecting := False, c_waiting := False\<rparr>" and "selected_ssid s' = selected_ssid s"
      and "wifi s' = (wifi s)\<lparr>busy := False\<rparr>"
proof (cases "\<not> join_wait_live s \<or> connect_ssid s = []")
  case True
  then show ?thesis using waits by (auto simp: maybe_confirm_join_def)
next
  case False
  let ?on = "gw_already_on (connected (wifi s)) (Some (w_ssid (wifi s))) (Some (connect_ssid s))"
  show ?thesis
  proof (cases ?on)
    case True
    show ?thesis
      by (rule up [OF _ True refl])
        (use True False in \<open>simp_all add: maybe_confirm_join_def gw_join_confirm_ok_def mark_ap_active_def core_def\<close>)
  next
    case off: False
    show ?thesis
    proof (cases "t_join_wait s \<noteq> 0 \<and> now - t_join_wait s > 12000000000")
      case True
      then have t: "t_join_wait s \<noteq> 0" "now - t_join_wait s > 12000000000" by auto
      show ?thesis
        by (rule gave_up [OF _ t off refl])
          (use t off False in \<open>simp_all add: maybe_confirm_join_def gw_join_confirm_ok_def gw_join_confirm_fail_def
            fill_fail_status_def core_def Let_def\<close>)
    next
      case nt: False
      show ?thesis
        by (rule waits) (use nt off False in \<open>auto simp: maybe_confirm_join_def gw_join_confirm_ok_def gw_join_confirm_fail_def Let_def\<close>)
    qed
  qed
qed

lemma core_settled: "core_ok T c \<Longrightarrow> c_waiting c \<Longrightarrow> core_ok T (c\<lparr>c_connecting := False, c_waiting := False\<rparr>)"
  by (simp add: ok_defs)

lemma confirm_ok:
  assumes "hud_ok T s"
  shows "hud_ok T (maybe_confirm_join now s)"
proof (cases now s rule: confirm_cases)
  case waits
  then show ?thesis using assms by simp
next
  case (up s')
  then show ?thesis using assms core_settled [of T "core s"] by (simp add: hud_ok_def) (simp add: core_def)
next
  case (gave_up s')
  then show ?thesis using assms core_settled [of T "core s"] by (simp add: hud_ok_def) (simp add: core_def)
qed

lemma hud_ok_upd [simp]:
  "hud_ok T (s\<lparr>status_line := st\<rparr>) = hud_ok T s" "hud_ok T (s\<lparr>sheet_tgt := sh\<rparr>) = hud_ok T s"
  "hud_ok T (s\<lparr>connect_fail := b\<rparr>) = hud_ok T s" "hud_ok T (s\<lparr>want_connect := b\<rparr>) = hud_ok T s"
  "hud_ok T (s\<lparr>want_info := b\<rparr>) = hud_ok T s" "hud_ok T (s\<lparr>want_scan := b\<rparr>) = hud_ok T s"
  "hud_ok T (s\<lparr>want_link := b\<rparr>) = hud_ok T s" "hud_ok T (s\<lparr>wifi := w\<rparr>) = hud_ok T s"
  "hud_ok T (s\<lparr>t_assoc := n\<rparr>) = hud_ok T s" "hud_ok T (s\<lparr>shift_on := b\<rparr>) = hud_ok T s"
  "hud_ok T (s\<lparr>sym_on := b\<rparr>) = hud_ok T s" "hud_ok T (s\<lparr>osk_sym2 := b\<rparr>) = hud_ok T s"
  "hud_ok T (s\<lparr>last_fail_kind := k\<rparr>) = hud_ok T s" "hud_ok T (s\<lparr>last_fail_raw := t\<rparr>) = hud_ok T s"
  "hud_ok T (s\<lparr>t_join_wait := n\<rparr>) = hud_ok T s" "hud_ok T (s\<lparr>connect_need_pass := b\<rparr>) = hud_ok T s"
  "hud_ok T (s\<lparr>screen_off := b\<rparr>) = hud_ok T s" "hud_ok T (fill_fail_status k t s) = hud_ok T s"
  "hud_ok T (set_connect_status t s) = hud_ok T s"
  by (simp_all add: hud_ok_def fill_fail_status_def set_connect_status_def)

lemma hud_ok_select: "hud_ok T s \<Longrightarrow> hud_ok T (select_connect_ssid s)"
  by (simp add: hud_ok_def)

text \<open>After a connect job: nothing runs, nothing is awaited.\<close>

definition idle :: "hud \<Rightarrow> bool" where
  "idle s \<longleftrightarrow> \<not> job s \<and> \<not> forgetting s \<and> \<not> join_wait_live s \<and> connect_ssid s \<noteq> []"

lemma idle_ok:
  assumes "hud_ok T s" and "idle s"
  shows "hud_ok T (s\<lparr>connecting := False\<rparr>)" and "hud_ok T (s\<lparr>join_wait_live := True, connecting := True\<rparr>)"
    and "hud_ok T (s\<lparr>password := []\<rparr>)"
  using assms by (auto simp: hud_ok_def ok_defs core_def idle_def PW_MAX_def)

lemma idle_upd [simp]:
  "idle (s\<lparr>connecting := b\<rparr>) = idle s" "idle (s\<lparr>last_fail_raw := t\<rparr>) = idle s" "idle (s\<lparr>last_fail_kind := k\<rparr>) = idle s"
  "idle (s\<lparr>wifi := w\<rparr>) = idle s" "idle (s\<lparr>connect_fail := b\<rparr>) = idle s" "idle (s\<lparr>want_connect := b\<rparr>) = idle s"
  by (simp_all add: idle_def)

lemma connect_branches_ok:
  assumes "hud_ok T s" and "idle s"
  shows "hud_ok T (connect_succeeded now s)"
    and "gw_join_use_session_psk (Some (connect_ssid s)) (Some (known_psk_ssid s)) (Some (known_psk s)) \<Longrightarrow>
      hud_ok T (connect_retry s)"
    and "hud_ok T (connect_wrong_pass s)" and "hud_ok T (connect_open_pass out s)" and "hud_ok T (connect_failed h s)"
proof -
  show "hud_ok T (connect_succeeded now s)"
    unfolding connect_succeeded_def
    by (intro confirm_ok) (use assms in \<open>auto simp: hud_ok_def ok_defs core_def idle_def\<close>)
next
  assume "gw_join_use_session_psk (Some (connect_ssid s)) (Some (known_psk_ssid s)) (Some (known_psk s))"
  then have "secret_ok T (connect_ssid s, known_psk s)"
    using hud_okD(3) [OF assms(1)] by (auto simp: gw_join_use_session_psk_def gw_ssid_eq_iff)
  then show "hud_ok T (connect_retry s)"
    unfolding connect_retry_def using assms hud_okD(1,4) [OF assms(1)]
    by (intro wifi_connect_ok) (auto simp: idle_def)
next
  show "hud_ok T (connect_wrong_pass s)"
    unfolding connect_wrong_pass_def using forget_psk_ok [OF assms(1)] by (simp add: hud_ok_select)
  show "hud_ok T (connect_open_pass out s)"
    unfolding connect_open_pass_def Let_def using assms(1) by (simp add: hud_ok_select)
  show "hud_ok T (connect_failed h s)"
    unfolding connect_failed_def Let_def using assms(1) by simp
qed

lemma connect_done_ok:
  assumes "hud_ok T s" and "idle s"
  shows "hud_ok T (connect_done now rc out s)"
proof -
  define s1 where "s1 = s\<lparr>last_fail_raw := fits 192 out, last_fail_kind := gw_classify_fail (Some out), connecting := False,
      wifi := (wifi s)\<lparr>busy := False\<rparr>\<rparr>"
  have alt: "s1 = (s\<lparr>connecting := False\<rparr>)\<lparr>last_fail_raw := fits 192 out, last_fail_kind := gw_classify_fail (Some out),
      wifi := (wifi s)\<lparr>busy := False\<rparr>\<rparr>" by (simp add: s1_def)
  have ok: "hud_ok T s1" unfolding alt using idle_ok(1) [OF assms] by simp
  have idle: "idle s1" using assms(2) by (simp add: alt)
  have "gw_join_use_session_psk (Some (connect_ssid s1)) (Some (known_psk_ssid s1)) (Some (known_psk s1))"
    if "gw_on_connect_job (Some (connect_input rc out s)) = GW_CONN_RETRY_PSK"
    using that by (auto simp: gw_on_connect_job_def connect_input_def s1_def Let_def split: if_splits)
  then show ?thesis
    unfolding connect_done_def Let_def s1_def [symmetric]
    using connect_branches_ok [OF ok idle] ok by (auto split: gw_connect_act.split)
qed

lemma hud_ok_mark [simp]: "hud_ok T (mark_ap_inactive ssid s) = hud_ok T s"
  by (simp add: hud_ok_def) (simp add: mark_ap_inactive_def)

lemma forget_done_ok:
  assumes "hud_ok T (s\<lparr>forgetting := False\<rparr>)"
  shows "hud_ok T (forget_done rc out s)"
  unfolding forget_done_def Let_def using assms by (simp add: forget_psk_ok)

lemma poll_ok:
  assumes "hud_ok T s"
  shows "hud_ok T (poll_job iw now rc out s)"
proof (cases "job s")
  case False
  then show ?thesis using assms by (simp add: poll_job_def)
next
  case True
  let ?c = "close_job s"
  have kind: "job_kind ?c = job_kind s" by (simp add: close_job_def)
  have open_ok: "hud_ok T ?c" if "job_kind s \<noteq> Forget"
    using close_job_ok [OF assms] hud_okD(13) [OF assms True that] by simp
  have forget: "hud_ok T (?c\<lparr>forgetting := False\<rparr>)" if "job_kind s = Forget"
    using assms True that by (auto simp: hud_ok_def ok_defs core_def close_job_def)
  have idle: "idle ?c" if "job_kind s = Connect"
    using hud_okD(12) [OF assms True that] by (simp add: idle_def close_job_def)
  have scan: "hud_ok T (parse_scan out ?c)" if "job_kind s \<noteq> Forget"
    using open_ok [OF that] sel_parse_scan by (simp add: hud_ok_def)
  have reads: "hud_ok T (parse_info now out ?c)" "hud_ok T (parse_link out ?c)" if "job_kind s \<noteq> Forget"
    using open_ok [OF that] by (simp_all add: hud_ok_def)
  have confirm: "hud_ok T t \<Longrightarrow> hud_ok T (maybe_confirm_join now t)" for t by (rule confirm_ok)
  show ?thesis
    unfolding poll_job_def Let_def using True open_ok scan reads
    by (auto simp: kind intro!: kick_ok connect_done_ok forget_done_ok confirm forget idle split: job_kind.split)
qed

lemma feed_ok: "hud_ok T s \<Longrightarrow> hud_ok T (osk_feed key s)"
  by (auto simp: hud_ok_def ok_defs core_def osk_feed_def PW_MAX_def)

lemma key_ok:
  assumes "hud_ok T s" and "k \<noteq> OSK_GO"
  shows "hud_ok T (osk_activate k c s)"
  using assms feed_ok [OF assms(1)] unfolding osk_activate_def Let_def by (cases k) auto

lemma select_ok [simp]: "hud_ok T s \<Longrightarrow> hud_ok T (select_ap_idx i s)"
  by (simp add: hud_ok_def)

lemma tap_ok:
  assumes "hud_ok T s" and "b \<noteq> Pass_Join"
  shows "hud_ok T (tap_button b s)"
  using assms forget_ok [OF assms(1)] join_ok [OF assms(1)] helpers_ok(3) [OF assms(1)]
  unfolding tap_button_def Let_def by (cases b) (auto intro!: helpers_ok)

lemma loop_ok: "hud_ok T s \<Longrightarrow> hud_ok T (loop_wifi iw now a b s)"
  unfolding loop_wifi_def Let_def by (auto intro!: helpers_ok kick_ok)

lemma outside_ok: "hud_ok T s \<Longrightarrow> hud_ok T (outside off dev ifc ip gw s)"
  by (simp add: outside_def)

lemma hover_ok: "hud_ok T s \<Longrightarrow> hud_ok T (s\<lparr>hover_ap := i\<rparr>)"
  by (rule hud_ok_same) (simp_all add: hud_ok_selected)

lemma screen_ok: "hud_ok T s \<Longrightarrow> hud_ok T (s\<lparr>screen_off := off\<rparr>)"
  by (rule hud_ok_same) (simp_all add: hud_ok_selected)

lemma act_ok:
  assumes "hud_ok T s"
  shows "hud_ok (if submits ev then submission s # T else T) (hud_act iw now ev s)"
proof (cases "submits ev")
  case True
  then have "hud_act iw now ev s = wifi_submit_pass s"
    by (auto simp: submits_def hud_act_def tap_button_def osk_activate_def split: hud_event.splits)
  with submit_ok [OF assms] True show ?thesis by simp
next
  case False
  then show ?thesis
    using hover_ok [OF assms] screen_ok [OF assms] poll_ok [OF assms] confirm_ok [OF assms] loop_ok [OF assms] outside_ok [OF assms]
      key_ok [OF assms] tap_ok [OF assms]
    by (cases ev) (auto simp: hud_act_def submits_def)
qed

lemma hud0_ok: "hud_ok [] (hud0 sp)"
  unfolding hud0_def hud_blank_def
  by (rule helpers_ok) (simp add: hud_ok_def ok_defs core_def PW_MAX_def)

lemma reach_ok: "hud_reach lifted T s \<Longrightarrow> hud_ok T s"
proof (induction rule: hud_reach.induct)
  case (start sp)
  show ?case by (rule hud0_ok)
next
  case (event typed s ev iw now)
  show ?case by (rule act_ok [OF event.IH])
qed

section \<open>Properties\<close>





end
