(* ===== verification/Wifi_Hud_Traps.thy ===== *)
theory Wifi_Hud_Traps
  imports Wifi_Hud_Correct
begin

text \<open>
  Two situations of the Wi-Fi state machine that the code does not handle, each shown by a
  reachable state: a join whose process does not start, and a password sheet that names
  another network than the one the password is sent to.
\<close>

section \<open>The part of the state that the sheets depend on\<close>

definition aux :: "hud \<Rightarrow> bool \<times> bool \<times> sheet" where
  "aux s = (want_connect s, connect_need_pass s, sheet_tgt s)"

lemma aux_upd [simp]:
  "aux (s\<lparr>wifi := w\<rparr>) = aux s" "aux (s\<lparr>aps := a\<rparr>) = aux s" "aux (s\<lparr>hover_ap := i\<rparr>) = aux s"
  "aux (s\<lparr>selected_ap := i\<rparr>) = aux s" "aux (s\<lparr>forget_ssid := t\<rparr>) = aux s" "aux (s\<lparr>status_line := st\<rparr>) = aux s"
  "aux (s\<lparr>t_assoc := n\<rparr>) = aux s" "aux (s\<lparr>want_scan := b\<rparr>) = aux s" "aux (s\<lparr>want_info := b\<rparr>) = aux s"
  "aux (s\<lparr>want_link := b\<rparr>) = aux s" "aux (s\<lparr>connect_fail := b\<rparr>) = aux s" "aux (s\<lparr>password := t\<rparr>) = aux s"
  "aux (s\<lparr>shift_on := b\<rparr>) = aux s" "aux (s\<lparr>sym_on := b\<rparr>) = aux s" "aux (s\<lparr>osk_sym2 := b\<rparr>) = aux s"
  "aux (s\<lparr>connecting := b\<rparr>) = aux s" "aux (s\<lparr>last_fail_kind := k\<rparr>) = aux s" "aux (s\<lparr>last_fail_raw := t\<rparr>) = aux s"
  "aux (s\<lparr>forgetting := b\<rparr>) = aux s" "aux (s\<lparr>screen_off := b\<rparr>) = aux s" "aux (s\<lparr>selected_ssid := t\<rparr>) = aux s"
  by (simp_all add: aux_def)

lemmas aux_steps = steps [where g = aux]

lemma aux_readers [simp]:
  "aux (mark_ap_active t s) = aux s" "aux (mark_ap_inactive t s) = aux s" "aux (select_ap_idx i s) = aux s"
  "aux (sync_selected_ap s) = aux s" "aux (fill_fail_status k t s) = aux s" "aux (set_connect_status t s) = aux s"
  "aux (apply_signal_dbm i s) = aux s" "aux (close_job s) = aux s" "aux (abort_job s) = aux s" "aux (forget_psk t s) = aux s"
  "aux (remember_psk t p s) = aux s" "aux (outside off dev ifc ip gw s) = aux s"
  by (simp_all add: mark_ap_active_def mark_ap_inactive_def select_ap_idx_def sync_selected_ap_def fill_fail_status_def
      set_connect_status_def apply_signal_dbm_def aux_def Let_def close_job_def abort_job_def forget_psk_def remember_psk_def
      outside_def)

lemma aux_apply [simp]: "aux (apply_wifi_ssid t s) = aux s"
  unfolding apply_wifi_ssid_def by (intro aux_steps) simp_all

lemma aux_active [simp]: "aux (apply_active_loop as s) = aux s"
proof (induction as arbitrary: s)
  case (Cons a as)
  show ?case unfolding apply_active_loop.simps by (intro aux_steps) (simp_all add: Cons)
qed simp

lemma aux_link_lines [simp]: "aux (link_lines ls s) = aux s"
proof (induction ls arbitrary: s)
  case (Cons l ls)
  show ?case unfolding link_lines.simps by (intro aux_steps) (simp_all add: Cons)
qed simp

lemma aux_parsers [simp]: "aux (parse_info now t s) = aux s" "aux (parse_scan t s) = aux s" "aux (parse_link t s) = aux s"
  unfolding parse_info_def parse_scan_def parse_link_def apply_active_ap_def scan_signal_def scan_freq_def
  by (intro aux_steps; simp)+

lemma aux_start: "start_nmcli k argv s = (ok, s') \<Longrightarrow> aux s' = aux s"
  by (auto simp: start_nmcli_def aux_def split: if_splits list.splits spawn.splits)

lemma aux_helper:
  assumes "\<And>s. aux (f s) = aux s"
  shows "aux (case start_nmcli k argv s of (ok, s) \<Rightarrow> if ok then s else f s) = aux s"
  using aux_start [of k argv s] assms by (cases "start_nmcli k argv s") simp

lemma aux_helpers [simp]:
  "aux (wifi_radio s) = aux s" "aux (wifi_info s) = aux s" "aux (wifi_scan s) = aux s" "aux (wifi_link iw s) = aux s"
  unfolding wifi_radio_def wifi_info_def wifi_scan_def wifi_link_def Let_def by (rule aux_helper; simp)+

section \<open>A join whose process does not start\<close>

inductive hud_runs :: "hud \<Rightarrow> hud \<Rightarrow> bool" where
  refl: "hud_runs s s"
| step: "hud_runs s t \<Longrightarrow> possible True ev t \<Longrightarrow> hud_runs s (hud_act have_iw now ev t)"

text \<open>The list is open, the display says that it joins, and no process does.\<close>

definition dead_end :: "hud \<Rightarrow> bool" where
  "dead_end s \<longleftrightarrow> sheet_tgt s = SHEET_LIST \<and> connecting s \<and> \<not> join_wait_live s \<and> \<not> want_connect s \<and> \<not> want_forget s \<and>
     \<not> forgetting s \<and> \<not> (job s \<and> (job_kind s = Connect \<or> job_kind s = Forget))"

lemma dead_end_core:
  "dead_end s \<longleftrightarrow> snd (snd (aux s)) = SHEET_LIST \<and> \<not> fst (aux s) \<and> c_connecting (core s) \<and> \<not> c_waiting (core s) \<and>
     \<not> c_want_forget (core s) \<and> \<not> c_forgetting (core s) \<and> c_job (core s) \<noteq> Some Connect \<and> c_job (core s) \<noteq> Some Forget"
  by (auto simp: dead_end_def core_def aux_def)

lemma dead_same: "core s' = core s \<Longrightarrow> aux s' = aux s \<Longrightarrow> dead_end s' = dead_end s"
  by (simp add: dead_end_core)

lemma dead_upd [simp]:
  "dead_end (s\<lparr>want_scan := b\<rparr>) = dead_end s" "dead_end (s\<lparr>want_link := b\<rparr>) = dead_end s" "dead_end (s\<lparr>want_info := b\<rparr>) = dead_end s"
  "dead_end (s\<lparr>status_line := st\<rparr>) = dead_end s" "dead_end (s\<lparr>connect_fail := b\<rparr>) = dead_end s"
  by (simp_all add: dead_end_core)

lemma dead_start:
  assumes "dead_end s" and "start_nmcli k argv s = (ok, s')" and "k \<notin> {Connect, Forget}"
  shows "dead_end s'"
  using start_core [OF assms(2)] aux_start [OF assms(2)] assms(1,3) by (cases ok) (auto simp: dead_end_core)

lemma dead_helpers:
  assumes "dead_end s"
  shows "dead_end (wifi_info s)" and "dead_end (wifi_scan s)" and "dead_end (wifi_link iw s)"
  unfolding wifi_info_def wifi_scan_def wifi_link_def Let_def
  using dead_start [OF assms] by (auto split: prod.split)

lemma dead_parts: "dead_end s \<Longrightarrow> \<not> want_connect s \<and> \<not> want_forget s \<and> \<not> join_wait_live s \<and> \<not> forgetting s \<and> connecting s \<and> sheet_tgt s = SHEET_LIST"
  by (simp add: dead_end_def)

lemma dead_kick: "dead_end s \<Longrightarrow> dead_end (kick_pending iw s)"
  using dead_parts [of s] by (auto simp: kick_pending_def intro!: dead_helpers)

lemma dead_close: "dead_end s \<Longrightarrow> dead_end (close_job s)"
  by (simp add: dead_end_def close_job_def)

lemma dead_confirm: "dead_end s \<Longrightarrow> dead_end (maybe_confirm_join now s)"
  using dead_parts [of s] by (simp add: maybe_confirm_join_def)

lemma dead_poll:
  assumes "dead_end s"
  shows "dead_end (poll_job iw now rc out s)"
proof (cases "job s")
  case True
  have d: "dead_end (close_job s)" and k: "job_kind (close_job s) = job_kind s"
    using assms by (simp_all add: dead_close) (simp add: close_job_def)
  have r: "dead_end (parse_info now out (close_job s))" "dead_end (parse_scan out (close_job s))" "dead_end (parse_link out (close_job s))"
    using d by (simp_all add: dead_end_core)
  have kinds: "job_kind s \<noteq> Connect" "job_kind s \<noteq> Forget" using assms True by (auto simp: dead_end_def)
  show ?thesis
    unfolding poll_job_def Let_def k using True d r kinds
    by (cases "job_kind s") (auto intro!: dead_kick dead_confirm)
qed (use assms in \<open>simp add: poll_job_def\<close>)

lemma dead_tap:
  assumes "dead_end s" and "possible True (Tap b) s"
  shows "dead_end (tap_button b s)"
proof -
  have sel: "dead_end (select_ap_idx i s)" for i using assms(1) by (simp add: dead_end_core)
  have same: "s\<lparr>sheet_tgt := SHEET_LIST\<rparr> = s" using dead_parts [OF assms(1)] by (cases s) simp
  show ?thesis
    using assms dead_parts [OF assms(1)] dead_parts [OF sel] sel same
    by (cases b) (auto simp: same tap_button_def possible_def Let_def wifi_is_assoc_def dead_helpers)
qed

lemma dead_act:
  assumes "dead_end s" and "possible True ev s"
  shows "dead_end (hud_act iw now ev s)"
proof (cases ev)
  case (Loop a b)
  have "dead_end (kick_pending iw s)" by (rule dead_kick [OF assms(1)])
  then show ?thesis using dead_parts [of "kick_pending iw s"] by (simp add: Loop loop_wifi_def)
next
  case (Key k c)
  then show ?thesis using assms by (simp add: possible_def dead_end_def)
next
  case (Hover i)
  then show ?thesis using assms(1) by (simp add: hud_act_def dead_end_core)
next
  case (Screen off)
  then show ?thesis using assms(1) by (simp add: hud_act_def dead_end_core)
next
  case (Outside off dev ifc ip gw)
  then show ?thesis using assms(1) by (simp add: dead_end_core)
qed (use assms in \<open>simp_all add: dead_poll dead_confirm dead_tap\<close>)

lemma dead_runs: "hud_runs s s' \<Longrightarrow> dead_end s \<Longrightarrow> dead_end s'"
  by (induction rule: hud_runs.induct) (auto intro: dead_act)

definition demo_failed :: hud where
  "demo_failed = (demo_detail [])
     \<lparr>wifi := (wifi (hud_blank []))\<lparr>busy := True\<rparr>, connecting := True, connect_ssid := ''A'', status_line := St_Connecting,
      job := False, sheet_tgt := SHEET_LIST\<rparr>"

lemma demo_failed_reach: "hud_reach True [] demo_failed"
proof -
  have 1: "hud_reach True [] (demo_failed\<lparr>sheet_tgt := SHEET_DETAIL\<rparr>)"
    by (rule reach_step [OF demo_detail_reach [where sp = "[Spawn_Failed]"], where ev = "Tap Detail_Join"])
      (simp_all add: possible_def submits_def demo_failed_def demo_defs tap_simps hud_eval Let_def cong: let_weak_cong)
  show ?thesis
    by (rule reach_step [OF 1, where ev = "Tap Detail_Back"])
      (simp_all add: possible_def submits_def tap_simps demo_failed_def demo_defs hud_blank_def)
qed

text \<open>
  C16. A join whose process cannot be started leaves the display stuck: nobody looks at the
  result of the start, so the display says that it joins while nothing runs. Once the user has
  gone back to the list of networks (the keyboard is closed), no sequence of touches, keys, process ends and main loop
  passes leads anywhere: the list cannot be closed, no network can be opened, and no join and no
  forget process is ever started again.
\<close>

theorem hud_dead_end:
  assumes "hud_reach True typed s" and "sheet_tgt s = SHEET_LIST" and "connecting s" and "\<not> job s" and "\<not> join_wait_live s"
    and "\<not> want_connect s" and "hud_runs s s'"
  shows "sheet_tgt s' = SHEET_LIST \<and> connecting s' \<and> \<not> join_wait_live s' \<and>
    \<not> (job s' \<and> (job_kind s' = Connect \<or> job_kind s' = Forget))"
proof -
  have "dead_end s"
    using reach_ok [OF assms(1)] assms(2-6) by (auto simp: dead_end_def hud_ok_def ok_defs core_def)
  from dead_runs [OF assms(7) this] show ?thesis by (simp add: dead_end_def)
qed

theorem hud_dead_end_witness:
  "connecting (hud_act False 20 (Tap List_Close) demo_failed) \<and>
   sheet_tgt (hud_act False 20 (Tap List_Close) demo_failed) = SHEET_LIST"
proof -
  have f: "sheet_tgt demo_failed = SHEET_LIST" "connecting demo_failed" "\<not> job demo_failed" "\<not> join_wait_live demo_failed"
    "\<not> want_connect demo_failed"
    by (simp_all add: demo_failed_def demo_defs hud_blank_def)
  have "hud_runs demo_failed (hud_act False 20 (Tap List_Close) demo_failed)"
    by (rule hud_runs.step [OF hud_runs.refl]) (use f in \<open>simp add: possible_def\<close>)
  from hud_dead_end [OF demo_failed_reach f this] show ?thesis by simp
qed

section \<open>The password sheet and the network it is for\<close>

text \<open>
  The network named by the password sheet is the selected one (\<open>draw_pass_sheet\<close> prints
  \<open>selected_ssid\<close>), the network the password is sent to is \<open>connect_ssid\<close>. They can differ: the
  user joins A, goes back to the list while the join runs and touches the row of B; when the
  join of A fails, the sheet opens under the name of B, and what is typed there is sent to A.
\<close>

theorem hud_sheet_names_other_network:
  "\<exists>typed s. hud_reach True typed s \<and> sheet_tgt s = SHEET_PASS \<and> selected_ssid s = ''B'' \<and>
     fst (submission s) = ''A''"
proof -
  let ?T = "[(''A'', demo_password)]"
  define listed where "listed = demo_sent\<lparr>sheet_tgt := SHEET_LIST, connect_fail := False, osk_sym2 := False\<rparr>"
  define moved where "moved = listed\<lparr>hover_ap := 1, selected_ap := 1, selected_ssid := ''B''\<rparr>"
  note ds = moved_def listed_def demo_sent_def demo_joining_def demo_defs
  have 1: "hud_reach True ?T (listed\<lparr>sheet_tgt := SHEET_DETAIL\<rparr>)"
    by (rule reach_step [OF demo_sent_reach, where ev = "Tap Pass_Cancel"])
      (simp_all add: possible_def submits_def tap_button_def ds hud_blank_def)
  have 2: "hud_reach True ?T listed"
    by (rule reach_step [OF 1, where ev = "Tap Detail_Back"]) (simp_all add: possible_def submits_def tap_simps ds hud_blank_def)
  have 3: "hud_reach True ?T moved"
    by (rule reach_step [OF 2, where ev = "Tap (List_Row 1)"])
      (simp_all add: possible_def submits_def tap_simps ds hud_blank_def select_ap_idx_def fits_def)
  have 4: "hud_reach True ?T (hud_act False 9 (Job_Ends 1 ''x'') moved)"
    by (rule reach_step [OF 3 _ HOL.refl]) (simp_all add: possible_def submits_def)
  let ?s = "hud_act False 9 (Job_Ends 1 ''x'') moved"
  have s: "sheet_tgt ?s = SHEET_PASS" "selected_ssid ?s = ''B''" "connect_ssid ?s = ''A''"
    by (simp_all add: ds tap_simps hud_eval Let_def cong: let_weak_cong prod.case_cong_weak)
  have "fst (submission ?s) = ''A''"
    using s(3) by (simp add: submission_def gw_pass_ssid_def)
  with 4 s(1,2) show ?thesis by blast
qed

end
