(* ===== verification/Wifi_Hud_Probe.thy ===== *)
theory Wifi_Hud_Probe
  imports Wifi_Hud_Traps
begin

text \<open>
  The Wi-Fi state machine never asks for a retry with the remembered password: an invariant of
  the reachable states that connects the queued join, the remembered password and the sheets.
\<close>

section \<open>The invariant\<close>

text \<open>
  A queued join is for the network being joined and has a password; a script that was started
  without one runs only for a network whose password is not known; the password sheet is not
  open while a join is confirmed.
\<close>

definition probe_ok :: "core \<Rightarrow> bool \<times> bool \<times> sheet \<Rightarrow> bool" where
  "probe_ok c a \<longleftrightarrow> (case a of (want, need, sh) \<Rightarrow>
     (want \<longrightarrow> need \<and> fst (c_pend c) = c_connect_ssid c \<and> c_connecting c \<and> \<not> c_waiting c) \<and>
     (c_job c = Some Connect \<and> \<not> need \<longrightarrow> \<not> (fst (c_known c) = c_connect_ssid c \<and> snd (c_known c) \<noteq> [])) \<and>
     (c_waiting c \<longrightarrow> sh \<noteq> SHEET_PASS) \<and>
     (c_connecting c \<longrightarrow> c_connect_ssid c \<noteq> []))"

definition calm :: "hud \<Rightarrow> bool" where
  "calm s \<longleftrightarrow> probe_ok (core s) (aux s)"

text \<open>Between the end of a job and the next start.\<close>

definition settled :: "hud \<Rightarrow> bool" where
  "settled s \<longleftrightarrow> \<not> job s \<and> (want_connect s \<longrightarrow> connect_need_pass s \<and> \<not> join_wait_live s) \<and>
     (join_wait_live s \<longrightarrow> sheet_tgt s \<noteq> SHEET_PASS) \<and> (connecting s \<longrightarrow> connect_ssid s \<noteq> []) \<and>
     \<not> want_forget s \<and> length (pend_ssid s) < 96"

lemmas calm_defs = calm_def probe_ok_def core_def aux_def

lemma calm_iff:
  "calm s \<longleftrightarrow>
     (want_connect s \<longrightarrow> connect_need_pass s \<and> pend_ssid s = connect_ssid s \<and> connecting s \<and> \<not> join_wait_live s) \<and>
     (job s \<and> job_kind s = Connect \<and> \<not> connect_need_pass s \<longrightarrow> \<not> (known_psk_ssid s = connect_ssid s \<and> known_psk s \<noteq> [])) \<and>
     (join_wait_live s \<longrightarrow> sheet_tgt s \<noteq> SHEET_PASS) \<and> (connecting s \<longrightarrow> connect_ssid s \<noteq> [])"
  by (auto simp: calm_defs)

lemma calm_same: "calm s \<Longrightarrow> core s' = core s \<Longrightarrow> aux s' = aux s \<Longrightarrow> calm s'"
  by (simp add: calm_def)

lemma calm_upd [simp]:
  "calm (s\<lparr>want_scan := b\<rparr>) = calm s" "calm (s\<lparr>want_link := b\<rparr>) = calm s" "calm (s\<lparr>want_info := b\<rparr>) = calm s"
  "calm (s\<lparr>status_line := st\<rparr>) = calm s" "calm (s\<lparr>wifi := w\<rparr>) = calm s" "calm (s\<lparr>connect_fail := b\<rparr>) = calm s"
  "calm (s\<lparr>shift_on := b\<rparr>) = calm s" "calm (s\<lparr>sym_on := b\<rparr>) = calm s" "calm (s\<lparr>osk_sym2 := b\<rparr>) = calm s"
  "calm (select_ap_idx i s) = calm s"
  by (simp_all add: calm_def)

lemma calm_settled: "calm s \<Longrightarrow> hud_ok T s \<Longrightarrow> \<not> job s \<Longrightarrow> settled s"
  using hud_okD(6,8) [of T s] by (auto simp: settled_def calm_iff)

lemma connect_calm:
  assumes "\<not> (job s \<and> job_kind s = Connect)" and "\<not> want_connect s" and "length ssid < 96" and "calm s \<or> settled s"
    and "connect_need_pass s \<or> \<not> (known_psk_ssid s = ssid \<and> known_psk s \<noteq> [])"
  shows "calm (wifi_connect ssid pass sec s)"
proof (cases "ssid = []")
  case True
  then show ?thesis using assms(2,4) by (auto simp: wifi_connect_def calm_defs settled_def)
next
  case False
  define s0 where "s0 = s\<lparr>forget_ssid := [], connecting := True, connect_fail := False, join_wait_live := False,
    wifi := (wifi s)\<lparr>busy := True\<rparr>, connect_ssid := ssid, status_line := St_Connecting\<rparr>"
  define s1 where "s1 = (if job s then close_job s0 else s0)"
  have "wifi_connect ssid pass sec s = snd (start_nmcli Connect (connect_argv ssid pass (w_iface (wifi s)) sec) s1)"
    using False assms(1,3) by (auto simp: wifi_connect_def s1_def s0_def abort_job_def close_job_def Let_def)
  moreover obtain ok s' where st: "start_nmcli Connect (connect_argv ssid pass (w_iface (wifi s)) sec) s1 = (ok, s')"
    by force
  ultimately have run: "wifi_connect ssid pass sec s = s'" by simp
  have f: "\<not> job s1" "connecting s1" "\<not> join_wait_live s1" "connect_ssid s1 = ssid" "want_connect s1 = want_connect s"
    "connect_need_pass s1 = connect_need_pass s" "known_psk_ssid s1 = known_psk_ssid s" "known_psk s1 = known_psk s"
    by (simp_all add: s1_def s0_def close_job_def)
  have "calm s'"
    using start_core [OF st] aux_start [OF st] assms(2,5) False f
    by (cases ok) (auto simp: calm_def probe_ok_def, auto simp: core_def aux_def)
  then show ?thesis by (simp add: run)
qed

lemma helper_calm:
  assumes "settled s" and "\<not> want_connect s" and "start_nmcli k argv s = (ok, s')" and "k \<noteq> Connect"
  shows "calm s'"
  using start_core [OF assms(3)] aux_start [OF assms(3)] assms(1,2,4)
  by (cases ok) (auto simp: calm_def probe_ok_def, auto simp: core_def aux_def settled_def)

lemma helpers_calm:
  assumes "settled s" and "\<not> want_connect s"
  shows "calm (wifi_info s)" and "calm (wifi_scan s)" and "calm (wifi_link iw s)"
  unfolding wifi_info_def wifi_scan_def wifi_link_def Let_def
  using helper_calm [OF assms] by (auto split: prod.split)

lemma settled_upd [simp]:
  "settled (s\<lparr>want_scan := b\<rparr>) = settled s" "settled (s\<lparr>want_link := b\<rparr>) = settled s" "settled (s\<lparr>want_info := b\<rparr>) = settled s"
  by (simp_all add: settled_def)

lemma kick_calm:
  assumes "settled s"
  shows "calm (kick_pending iw s)"
proof (cases "want_connect s")
  case True
  then show ?thesis
    using assms by (auto simp: kick_pending_def settled_def intro!: connect_calm)
next
  case False
  have "calm s" using assms(1) False by (auto simp: settled_def calm_defs)
  moreover have "\<not> job s" using assms(1) by (simp add: settled_def)
  ultimately show ?thesis
    using assms False by (auto simp: kick_pending_def settled_def [of s] intro!: helpers_calm)
qed

lemma kick_calm_reach:
  assumes "calm s" and "hud_ok T s"
  shows "calm (kick_pending iw s)"
proof (cases "job s")
  case True
  then show ?thesis using assms(1) by (simp add: kick_pending_def)
next
  case False
  then show ?thesis using kick_calm [OF calm_settled [OF assms]] by simp
qed

lemma submit_calm:
  assumes "calm s" and "hud_ok T s" and "sheet_tgt s = SHEET_PASS"
  shows "calm (wifi_submit_pass s)"
proof -
  let ?ssid = "gw_pass_ssid (Some (connect_ssid s)) (Some (selected_ssid s))"
  have len: "length ?ssid < 96" using hud_okD(1) [OF assms(2)] hud_ok_selected [OF assms(2)] by (simp add: gw_pass_ssid_length)
  have flow: "flow_ok (core s)" using assms(2) by (simp add: hud_ok_def core_ok_def)
  define s1 where "s1 = remember_psk ?ssid (password s) (s\<lparr>connect_need_pass := True\<rparr>)"
  have f: "connect_need_pass s1" "sheet_tgt s1 = SHEET_PASS" "connecting s1 = connecting s" "job s1 = job s" "job_kind s1 = job_kind s"
    "want_connect s1 = want_connect s" "connect_ssid s1 = connect_ssid s" "join_wait_live s1 = join_wait_live s" "pend_ssid s1 = pend_ssid s"
    using assms(3) by (simp_all add: s1_def remember_psk_def)
  have not_waiting: "\<not> join_wait_live s" using assms(1,3) by (simp add: calm_iff)
  have calm1: "calm s1" using assms(1) not_waiting by (simp add: calm_iff f)
  have queue: "calm (queue_connect ?ssid (password s) sec s1)" if "connecting s" for sec
  proof -
    have "connect_ssid s \<noteq> []" using assms(1) that by (simp add: calm_iff)
    then have "?ssid = connect_ssid s" by (simp add: gw_pass_ssid_def)
    then show ?thesis
      using calm1 that not_waiting hud_okD(1) [OF assms(2)] by (simp add: calm_iff queue_connect_def f)
  qed
  have connect: "calm (wifi_connect ?ssid (password s) sec s1)" if "\<not> connecting s" for sec
  proof (rule connect_calm)
    show "\<not> (job s1 \<and> job_kind s1 = Connect)" using flow that f by (auto simp: flow_ok_def core_def)
    show "\<not> want_connect s1" using assms(1) that by (auto simp: calm_iff f)
  qed (use len calm1 f in auto)
  have pw: "password s1 = password s" by (simp add: s1_def remember_psk_def)
  show ?thesis
    unfolding wifi_submit_pass_def Let_def s1_def [symmetric]
    using assms(1) queue connect by (auto simp: f pw)
qed

lemma join_calm:
  assumes "calm s" and "hud_ok T s"
  shows "calm (wifi_join_picked s)"
proof (cases "connecting s \<or> forgetting s \<or> selected_ssid s = []")
  case True
  then show ?thesis using assms(1) by (auto simp: wifi_join_picked_def Let_def)
next
  case False
  have flow: "flow_ok (core s)" using assms(2) by (simp add: hud_ok_def core_ok_def)
  have idle: "\<not> (job s \<and> job_kind s = Connect)" "\<not> want_connect s"
    using flow assms(1) False by (auto simp: flow_ok_def core_def calm_iff)
  have calm': "calm (s\<lparr>connect_need_pass := b\<rparr>)" for b
    using assms(1) idle by (auto simp: calm_iff)
  have with_psk: "calm (wifi_connect (selected_ssid s) (known_psk s) sec (s\<lparr>connect_need_pass := True\<rparr>))" for sec
    by (rule connect_calm) (use idle hud_ok_selected [OF assms(2)] calm' in auto)
  have blind: "calm (wifi_connect (selected_ssid s) [] sec (s\<lparr>connect_need_pass := False\<rparr>))"
    if "\<not> gw_join_use_session_psk (Some (selected_ssid s)) (Some (known_psk_ssid s)) (Some (known_psk s))" for sec
    by (rule connect_calm)
      (use idle hud_ok_selected [OF assms(2)] calm' that False in \<open>auto simp: gw_join_use_session_psk_def gw_ssid_eq_iff\<close>)
  show ?thesis
    unfolding wifi_join_picked_def Let_def using assms(1) with_psk blind by auto
qed

lemma calm_forgetting: "calm (s\<lparr>forgetting := b\<rparr>) = calm s"
  by (simp add: calm_iff)

lemma forget_calm:
  assumes "calm s" and "hud_ok T s"
  shows "calm (wifi_forget ssid s)"
proof (cases "ssid = [] \<or> job s \<and> job_kind s = Forget")
  case True
  then show ?thesis using assms(1) by (simp add: wifi_forget_prepared)
next
  case False
  let ?p = "forget_prepared ssid s"
  obtain ok s' where st: "start_nmcli Forget (forget_argv ssid (w_iface (wifi ?p))) ?p = (ok, s')" by force
  have f: "\<not> connecting ?p" "\<not> join_wait_live ?p" "\<not> want_connect ?p" "\<not> job ?p"
    using False by (auto simp: forget_prepared_def Let_def mark_ap_inactive_def abort_job_def close_job_def)
  have "settled ?p" using f hud_okD(6,8) [OF assms(2)]
    by (simp add: settled_def forget_prepared_def Let_def mark_ap_inactive_def abort_job_def close_job_def)
  then have "calm s'" by (rule helper_calm [OF _ f(3) st]) simp
  moreover have "wifi_forget ssid s = (if ok then s' else s'\<lparr>forgetting := False\<rparr>)"
    using False st by (auto simp: wifi_forget_prepared Let_def)
  ultimately show ?thesis by (simp add: calm_forgetting)
qed

lemma confirm_fields:
  "want_connect (maybe_confirm_join now s) = want_connect s \<and> job (maybe_confirm_join now s) = job s \<and>
   connect_need_pass (maybe_confirm_join now s) = connect_need_pass s \<and> connect_ssid (maybe_confirm_join now s) = connect_ssid s \<and>
   job_kind (maybe_confirm_join now s) = job_kind s \<and>
   pend_ssid (maybe_confirm_join now s) = pend_ssid s \<and> known_psk_ssid (maybe_confirm_join now s) = known_psk_ssid s \<and>
   known_psk (maybe_confirm_join now s) = known_psk s \<and> want_forget (maybe_confirm_join now s) = want_forget s"
  by (simp add: maybe_confirm_join_def Let_def mark_ap_active_def fill_fail_status_def)

lemma confirm_flow:
  "(join_wait_live (maybe_confirm_join now s) \<longrightarrow> maybe_confirm_join now s = s) \<and>
   (connecting (maybe_confirm_join now s) \<longrightarrow> maybe_confirm_join now s = s)  \<and>
   (\<not> join_wait_live s \<longrightarrow> maybe_confirm_join now s = s)"
  by (simp add: maybe_confirm_join_def Let_def mark_ap_active_def fill_fail_status_def)

lemma confirm_cases3:
  obtains "maybe_confirm_join now s = s"
  | "join_wait_live s" and "\<not> join_wait_live (maybe_confirm_join now s)" and "\<not> connecting (maybe_confirm_join now s)"
  using confirm_flow [of now s] by blast

lemma confirm_settled: "settled s \<Longrightarrow> settled (maybe_confirm_join now s)"
  by (rule confirm_cases3 [of now s]) (auto simp: settled_def confirm_fields)

lemma confirm_calm: "calm s \<Longrightarrow> calm (maybe_confirm_join now s)"
  by (rule confirm_cases3 [of now s]) (auto simp: calm_iff confirm_fields)

text \<open>
  The decision never asks to retry with the remembered password: had it been known, it would
  have been sent.
\<close>

lemma no_retry:
  assumes "calm s" and "job s" and "job_kind s = Connect"
  shows "gw_on_connect_job (Some (connect_input rc out s)) \<noteq> GW_CONN_RETRY_PSK"
proof -
  have "connect_need_pass s \<or> \<not> gw_join_use_session_psk (Some (connect_ssid s)) (Some (known_psk_ssid s)) (Some (known_psk s))"
    using assms by (auto simp: calm_iff gw_join_use_session_psk_def gw_ssid_eq_def)
  then show ?thesis by (auto simp: gw_on_connect_job_def connect_input_def Let_def)
qed

lemma settled_core:
  "settled s \<longleftrightarrow> (case (core s, aux s) of (c, want, need, sh) \<Rightarrow> c_job c = None \<and> (want \<longrightarrow> need \<and> \<not> c_waiting c) \<and>
     (c_waiting c \<longrightarrow> sh \<noteq> SHEET_PASS) \<and> (c_connecting c \<longrightarrow> c_connect_ssid c \<noteq> []) \<and>
     \<not> c_want_forget c \<and> length (fst (c_pend c)) < 96)"
  by (simp add: settled_def core_def aux_def)

lemma settled_same: "settled s \<Longrightarrow> core s' = core s \<Longrightarrow> aux s' = aux s \<Longrightarrow> settled s'"
  by (simp add: settled_core)

lemma settled_close: "calm s \<Longrightarrow> hud_ok T s \<Longrightarrow> settled (close_job s)"
  using hud_okD(6,8) [of T s] by (auto simp: settled_def calm_iff close_job_def)

lemma settled_resting [simp]:
  "\<not> join_wait_live s \<Longrightarrow> settled (s\<lparr>sheet_tgt := sh\<rparr>) = settled s"
  by (simp add: settled_def)

lemma settled_quiet [simp]:
  "settled (fill_fail_status k t s) = settled s" "settled (select_connect_ssid s) = settled s" "settled (forget_psk t s) = settled s"
  "settled (set_connect_status t s) = settled s" "settled (s\<lparr>connect_fail := b\<rparr>) = settled s"
  "settled (s\<lparr>shift_on := False, sym_on := False, osk_sym2 := False\<rparr>) = settled s"
  "settled (mark_ap_inactive t s) = settled s" "settled (s\<lparr>wifi := w\<rparr>) = settled s" "settled (s\<lparr>t_assoc := n\<rparr>) = settled s"
  "settled (s\<lparr>status_line := st\<rparr>) = settled s" "settled (s\<lparr>forgetting := b\<rparr>) = settled s"
  by (simp_all add: settled_def forget_psk_def select_connect_ssid_def sync_selected_ap_def select_ap_idx_def Let_def
      fill_fail_status_def set_connect_status_def mark_ap_inactive_def)

lemma waiting_quiet [simp]:
  "join_wait_live (fill_fail_status k t s) = join_wait_live s" "join_wait_live (select_connect_ssid s) = join_wait_live s"
  "join_wait_live (forget_psk t s) = join_wait_live s" "join_wait_live (set_connect_status t s) = join_wait_live s"
  "join_wait_live (mark_ap_inactive t s) = join_wait_live s"
  by (simp_all add: forget_psk_def select_connect_ssid_def sync_selected_ap_def select_ap_idx_def Let_def
      fill_fail_status_def set_connect_status_def mark_ap_inactive_def)

lemma failed_settled:
  assumes "settled s" and "\<not> join_wait_live s"
  shows "settled (connect_wrong_pass s)" and "settled (connect_open_pass out s)" and "settled (connect_failed l s)"
  unfolding connect_wrong_pass_def connect_open_pass_def connect_failed_def Let_def
  using assms by simp_all

lemma succeeded_settled:
  assumes "settled s" and "want_connect s \<Longrightarrow> pend_ssid s = connect_ssid s" and "connect_ssid s \<noteq> []"
  shows "settled (connect_succeeded now s)"
proof -
  have "want_connect s \<Longrightarrow> gw_drop_pending True (Some (connect_ssid s)) (Some (pend_ssid s))"
    using assms(2,3) by (simp add: gw_drop_pending_def gw_ssid_eq_def)
  then show ?thesis
    unfolding connect_succeeded_def using assms(1,3) by (intro confirm_settled) (auto simp: settled_def)
qed

lemma connect_done_settled:
  assumes "calm s" and "hud_ok T s" and "job s" and "job_kind s = Connect"
  shows "settled (connect_done now rc out (close_job s))"
proof -
  define s1 where "s1 = (close_job s)\<lparr>last_fail_raw := fits 192 out, last_fail_kind := gw_classify_fail (Some out), connecting := False,
      wifi := (wifi (close_job s))\<lparr>busy := False\<rparr>\<rparr>"
  have st: "settled s1" using settled_close [OF assms(1,2)] by (simp add: s1_def settled_def)
  have w: "\<not> join_wait_live s1" "connect_ssid s1 \<noteq> []" and p: "want_connect s1 \<Longrightarrow> pend_ssid s1 = connect_ssid s1"
    using hud_okD(12) [OF assms(2,3,4)] assms(1) by (auto simp: s1_def close_job_def calm_iff)
  have "connect_input rc out (close_job s) = connect_input rc out s" by (simp add: connect_input_def close_job_def)
  then have "gw_on_connect_job (Some (connect_input rc out (close_job s))) \<noteq> GW_CONN_RETRY_PSK"
    using no_retry [OF assms(1,3,4)] by simp
  then show ?thesis
    unfolding connect_done_def Let_def s1_def [symmetric]
    using failed_settled [OF st w(1)] succeeded_settled [OF st p w(2)] st by (auto split: gw_connect_act.split)
qed

lemma forget_done_settled:
  assumes "settled s" and "\<not> join_wait_live s"
  shows "settled (forget_done rc out s)"
  unfolding forget_done_def Let_def using assms by simp

lemma poll_calm:
  assumes "calm s" and "hud_ok T s"
  shows "calm (poll_job iw now rc out s)"
proof (cases "job s")
  case True
  have k: "job_kind (close_job s) = job_kind s" by (simp add: close_job_def)
  note st = settled_close [OF assms]
  have read: "settled (parse_info now out (close_job s))" "settled (parse_scan out (close_job s))" "settled (parse_link out (close_job s))"
    by (rule settled_same [OF st]; simp)+
  have forget: "\<not> join_wait_live (close_job s)" if "job_kind s = Forget"
    using assms(2) True that by (auto simp: hud_ok_def ok_defs core_def close_job_def)
  show ?thesis
  proof (cases "job_kind s")
    case Connect
    then show ?thesis
      using True by (simp add: poll_job_def k connect_done_settled [OF assms] kick_calm)
  next
    case Forget
    then show ?thesis
      using True by (simp add: poll_job_def k forget_done_settled [OF st forget] kick_calm)
  qed (use True in \<open>simp_all add: poll_job_def Let_def k kick_calm confirm_settled read st\<close>)
qed (use assms(1) in \<open>simp add: poll_job_def\<close>)

lemma calm_sheet: "calm s \<Longrightarrow> sh \<noteq> SHEET_PASS \<Longrightarrow> calm (s\<lparr>sheet_tgt := sh\<rparr>)"
  by (auto simp: calm_iff)

lemma calm_password [simp]: "calm (osk_feed key s) = calm s"
  by (simp add: calm_iff osk_feed_def)

lemma start_calm:
  assumes "calm s" and "start_nmcli k argv s = (ok, s')" and "k \<noteq> Connect"
  shows "calm s'"
  using start_core [OF assms(2)] aux_start [OF assms(2)] assms(1,3)
  by (cases ok) (auto simp: calm_def probe_ok_def)

lemma calm_start:
  assumes "calm s"
  shows "calm (wifi_scan s)" and "calm (wifi_info s)" and "calm (wifi_radio s)"
  unfolding wifi_scan_def wifi_info_def wifi_radio_def using start_calm [OF assms] by (auto split: prod.split)

lemma tap_calm:
  assumes "calm s" and "hud_ok T s" and "possible True (Tap b) s"
  shows "calm (tap_button b s)"
proof -
  have sel: "calm (select_ap_idx i s)" for i using assms(1) by simp
  have pass: "calm (wifi_submit_pass s)" if "b = Pass_Join"
    using submit_calm [OF assms(1,2)] assms(3) that by (simp add: possible_def)
  show ?thesis
    using assms(1) sel pass join_calm [OF assms(1,2)] forget_calm [OF assms(1,2)] calm_start(1) [OF assms(1)]
      calm_start(1) [OF calm_sheet [OF assms(1), of SHEET_LIST]]
    by (cases b) (simp_all add: tap_button_def Let_def calm_sheet)
qed

lemma key_calm:
  assumes "calm s" and "hud_ok T s" and "sheet_tgt s = SHEET_PASS"
  shows "calm (osk_activate k c s)"
  using assms(1) submit_calm [OF assms] by (cases k) (simp_all add: osk_activate_def Let_def)

lemma act_calm:
  assumes "calm s" and "hud_ok T s" and "possible True ev s"
  shows "calm (hud_act iw now ev s)"
proof (cases ev)
  case (Loop a b)
  show ?thesis
    using kick_calm_reach [OF assms(1,2), of iw] calm_start by (simp add: Loop loop_wifi_def Let_def)
next
  case (Key k c)
  then show ?thesis using key_calm [OF assms(1,2)] assms(3) by (simp add: possible_def)
next
  case (Hover i)
  then show ?thesis using calm_same [OF assms(1)] by (simp add: hud_act_def)
next
  case (Screen off)
  then show ?thesis using calm_same [OF assms(1)] by (simp add: hud_act_def)
next
  case (Outside off dev ifc ip gw)
  then show ?thesis using calm_same [OF assms(1)] by simp
qed (use assms in \<open>simp_all add: poll_calm confirm_calm tap_calm\<close>)

lemma reach_calm: "hud_reach True T s \<Longrightarrow> calm s"
proof (induction rule: hud_reach.induct)
  case (start sp)
  show ?case unfolding hud0_def by (rule calm_start) (simp add: calm_iff hud_blank_def)
next
  case (event typed s ev iw now)
  show ?case by (rule act_calm [OF event.IH reach_ok [OF event.hyps(1)] event.hyps(2)])
qed



end
