(* ===== verification/Wifi_Scan_Correct.thy ===== *)
theory Wifi_Scan_Correct
  imports Wifi_Parse
begin

text \<open>
  Properties of the parsers: what \<open>nmcli\<close> prints of a network is read back, the list respects
  its capacity, and the number of fields a line can be cut into.
\<close>

section \<open>Numbers\<close>

lemma char_digits:
  "char_of (48::nat) = CHR ''0''" "char_of (49::nat) = CHR ''1''" "char_of (50::nat) = CHR ''2''"
  "char_of (51::nat) = CHR ''3''" "char_of (52::nat) = CHR ''4''" "char_of (53::nat) = CHR ''5''"
  "char_of (54::nat) = CHR ''6''" "char_of (55::nat) = CHR ''7''" "char_of (56::nat) = CHR ''8''"
  "char_of (57::nat) = CHR ''9''"
  by (simp_all add: char_of_eq_iff)

lemma digit_char: "n < 10 \<Longrightarrow> is_digit (char_of (48 + n)) \<and> digit_val (char_of (48 + n)) = int n"
  for n :: nat
proof -
  assume "n < 10"
  then have "n \<in> {0, 1, 2, 3, 4, 5, 6, 7, 8, 9}" by auto
  then show ?thesis by (elim insertE) (simp_all add: is_digit_def digit_val_def char_digits del: One_nat_def)
qed

lemma dec_digits: "\<forall>c\<in>set (dec n). is_digit c"
proof (induction n rule: dec.induct)
  case (1 n)
  then show ?case by (subst dec.simps) (auto simp: digit_char)
qed

lemma dec_nonempty: "dec n \<noteq> []"
  by (subst dec.simps) simp

lemma digits_dec: "foldl (\<lambda>m c. 10 * m + digit_val c) 0 (dec n) = int n"
proof (induction n rule: dec.induct)
  case (1 n)
  then show ?case by (subst dec.simps) (auto simp: digit_char zdiv_int zmod_int)
qed

lemma digit_not: "is_digit c \<Longrightarrow> c \<noteq> CHR '':'' \<and> c \<noteq> CHR 0x5C \<and> \<not> is_space c \<and> c \<noteq> CHR ''-'' \<and> c \<noteq> CHR ''+''"
  by (auto simp: is_digit_def is_space_def)

lemma atoi_dec [simp]: "atoi (dec n) = int n"
proof -
  obtain c r where d: "dec n = c # r" using dec_nonempty by (cases "dec n") auto
  have c: "is_digit c" and all: "\<forall>x\<in>set (c # r). is_digit x" using dec_digits [of n] by (auto simp: d)
  have "takeWhile is_digit (c # r) = c # r" using all by (simp only: takeWhile_eq_all_conv)
  then show ?thesis using digits_dec [of n] digit_not [OF c] by (simp add: atoi_def d digits_val_def)
qed

lemma escape_plain: "CHR '':'' \<notin> set s \<Longrightarrow> CHR 0x5C \<notin> set s \<Longrightarrow> escape_field s = s"
  by (induction s) auto

lemma escape_dec [simp]: "escape_field (dec n) = dec n"
  using dec_digits [of n] digit_not by (intro escape_plain) blast+

lemma escape_empty [simp]: "escape_field s = [] \<longleftrightarrow> s = []"
  by (cases s) auto

section \<open>Properties\<close>

text \<open>
  C18. What \<open>nmcli\<close> prints of a network in terse mode is read back: whatever its name is, colons
  and backslashes included, the entry of the list has this name, the signal, the security, the
  frequency, and is marked as in use if it is and is not the network being forgotten.
\<close>

theorem scan_line_roundtrip:
  assumes "ssid \<noteq> []" and "length ssid < 96" and "length sec < 40" and "length freq < 24"
    and "CHR '':'' \<notin> set sec \<union> set freq" and "CHR 0x5C \<notin> set sec \<union> set freq"
  shows "scan_line forgotten (join_fields [ssid, dec sig, sec, freq, if act then ''yes'' else ''no'']) =
    Some \<lparr>ap_ssid = ssid, ap_security = sec, ap_freq = freq, ap_signal = int sig,
          ap_secure = (sec \<noteq> [] \<and> sec \<noteq> ''--''), ap_active = (act \<and> ssid \<noteq> forgotten)\<rparr>"
proof -
  let ?act = "if act then ''yes'' else ''no''"
  have plain: "escape_field sec = sec" "escape_field freq = freq" "escape_field ?act = ?act"
    using assms(5,6) by (auto intro!: escape_plain)
  have eight: "(8::nat) = Suc (Suc (Suc (Suc 4)))" by simp
  have "split_fields True 8 (join_fields [ssid, dec sig, sec, freq, ?act]) =
      [escape_field ssid, escape_field (dec sig), escape_field sec, escape_field freq, escape_field ?act]"
    unfolding join_fields.simps eight
    by (simp only: split_escaped split_escaped_end)
  then show ?thesis
    using assms by (auto simp: scan_line_def Let_def plain fits_def gw_ssid_eq_def)
qed

theorem scan_line_roundtrip_witness:
  "scan_line ''Home'' (join_fields [''a:b'', dec 70, ''WPA2'', ''5180 MHz'', if True then ''yes'' else ''no'']) =
    Some \<lparr>ap_ssid = ''a:b'', ap_security = ''WPA2'', ap_freq = ''5180 MHz'', ap_signal = int 70,
          ap_secure = (''WPA2'' \<noteq> [] \<and> ''WPA2'' \<noteq> ''--''), ap_active = (True \<and> ''a:b'' \<noteq> ''Home'')\<rparr>"
  by (rule scan_line_roundtrip) simp_all

text \<open>
  The arrays of field pointers: the parsers for device states and for the link keep within
  their six entries on every input, the scan parser does not keep within its eight: a line with
  eight colons is cut into nine fields.
\<close>

theorem scan_field_arrays:
  "length (split_fields False 5 line) \<le> 6 \<and> length (split_fields True 4 line) \<le> 6 \<and>
   length (split_fields True 8 line) \<le> 9 \<and> length (split_fields True 8 ''::::::::'') = 9"
  using split_fields_length [of False 5 line] split_fields_length [of True 4 line] split_fields_length [of True 8 line]
  by simp

text \<open>The list of networks never exceeds its 24 entries, and every name in it is non-empty and fits.\<close>

lemma scan_lines_bounds:
  "length (scan_lines forgotten n ls) \<le> n \<and> (\<forall>a\<in>set (scan_lines forgotten n ls). length (ap_ssid a) < 96 \<and> length (ap_security a) < 40)"
proof (induction forgotten n ls rule: scan_lines.induct)
  case (3 forgotten n l ls)
  have "length (ap_ssid a) < 96 \<and> length (ap_security a) < 40" if "scan_line forgotten l = Some a" for a
    using that fits_length [of 96] fits_length [of 40] by (auto simp: scan_line_def Let_def split: if_splits)
  with 3 show ?case by (auto split: option.split)
qed auto

end
