(* ===== verification/Wled.thy ===== *)
theory Wled
  imports Regmap
begin

text \<open>
  The backlight driver \<open>drivers/video/backlight/qcom-wled.c\<close>: registers, state, brightness,
  module and interrupt control, short-circuit handling, string detection.
\<close>

section \<open>Registers\<close>

abbreviation (input) MOD_A :: u32 where "MOD_A \<equiv> 0"
abbreviation (input) MOD_B :: u32 where "MOD_B \<equiv> 1"
abbreviation (input) WLED3_SINK_REG_BRIGHT_MAX :: u32 where "WLED3_SINK_REG_BRIGHT_MAX \<equiv> 0xfff"
abbreviation (input) WLED5_SINK_REG_BRIGHT_MAX_12B :: u32 where "WLED5_SINK_REG_BRIGHT_MAX_12B \<equiv> 0xfff"
abbreviation (input) WLED5_SINK_REG_BRIGHT_MAX_15B :: u32 where "WLED5_SINK_REG_BRIGHT_MAX_15B \<equiv> 0x7fff"
abbreviation (input) WLED3_CTRL_REG_FAULT_STATUS :: u32 where "WLED3_CTRL_REG_FAULT_STATUS \<equiv> 0x08"
abbreviation (input) WLED3_CTRL_REG_ILIM_FAULT_BIT :: u32 where "WLED3_CTRL_REG_ILIM_FAULT_BIT \<equiv> 0x1"
abbreviation (input) WLED3_CTRL_REG_OVP_FAULT_BIT :: u32 where "WLED3_CTRL_REG_OVP_FAULT_BIT \<equiv> 0x2"
abbreviation (input) WLED4_CTRL_REG_SC_FAULT_BIT :: u32 where "WLED4_CTRL_REG_SC_FAULT_BIT \<equiv> 0x4"
abbreviation (input) WLED5_CTRL_REG_OVP_PRE_ALARM_BIT :: u32 where "WLED5_CTRL_REG_OVP_PRE_ALARM_BIT \<equiv> 0x10"
abbreviation (input) WLED3_CTRL_REG_INT_RT_STS :: u32 where "WLED3_CTRL_REG_INT_RT_STS \<equiv> 0x10"
abbreviation (input) WLED3_CTRL_REG_OVP_FAULT_STATUS :: u32 where "WLED3_CTRL_REG_OVP_FAULT_STATUS \<equiv> 0x2"
abbreviation (input) WLED3_CTRL_REG_MOD_EN :: u32 where "WLED3_CTRL_REG_MOD_EN \<equiv> 0x46"
abbreviation (input) WLED3_CTRL_REG_MOD_EN_MASK :: u32 where "WLED3_CTRL_REG_MOD_EN_MASK \<equiv> 0x80"
abbreviation (input) WLED3_CTRL_REG_FEEDBACK_CONTROL :: u32 where "WLED3_CTRL_REG_FEEDBACK_CONTROL \<equiv> 0x48"
abbreviation (input) WLED3_CTRL_REG_FREQ :: u32 where "WLED3_CTRL_REG_FREQ \<equiv> 0x4c"
abbreviation (input) WLED3_CTRL_REG_FREQ_MASK :: u32 where "WLED3_CTRL_REG_FREQ_MASK \<equiv> 0xf"
abbreviation (input) WLED3_CTRL_REG_OVP :: u32 where "WLED3_CTRL_REG_OVP \<equiv> 0x4d"
abbreviation (input) WLED3_CTRL_REG_OVP_MASK :: u32 where "WLED3_CTRL_REG_OVP_MASK \<equiv> 0x3"
abbreviation (input) WLED5_CTRL_REG_OVP_MASK :: u32 where "WLED5_CTRL_REG_OVP_MASK \<equiv> 0xf"
abbreviation (input) WLED3_CTRL_REG_ILIMIT :: u32 where "WLED3_CTRL_REG_ILIMIT \<equiv> 0x4e"
abbreviation (input) WLED3_CTRL_REG_ILIMIT_MASK :: u32 where "WLED3_CTRL_REG_ILIMIT_MASK \<equiv> 0x7"
abbreviation (input) WLED3_SINK_REG_SYNC :: u32 where "WLED3_SINK_REG_SYNC \<equiv> 0x47"
abbreviation (input) WLED3_SINK_REG_SYNC_CLEAR :: u32 where "WLED3_SINK_REG_SYNC_CLEAR \<equiv> 0x00"
abbreviation (input) WLED3_SINK_REG_CURR_SINK :: u32 where "WLED3_SINK_REG_CURR_SINK \<equiv> 0x4f"
abbreviation (input) WLED3_SINK_REG_CURR_SINK_MASK :: u32 where "WLED3_SINK_REG_CURR_SINK_MASK \<equiv> 0xe0"
abbreviation (input) WLED3_SINK_REG_BRIGHT :: "nat \<Rightarrow> u32" where "WLED3_SINK_REG_BRIGHT n \<equiv> 0x40 + of_nat n"
abbreviation (input) WLED3_SINK_REG_STR_MOD_EN :: "nat \<Rightarrow> u32" where "WLED3_SINK_REG_STR_MOD_EN n \<equiv> 0x60 + of_nat n * 0x10"
abbreviation (input) WLED3_SINK_REG_STR_MOD_MASK :: u32 where "WLED3_SINK_REG_STR_MOD_MASK \<equiv> 0x80"
abbreviation (input) WLED3_SINK_REG_STR_FULL_SCALE_CURR :: "nat \<Rightarrow> u32" where "WLED3_SINK_REG_STR_FULL_SCALE_CURR n \<equiv> 0x62 + of_nat n * 0x10"
abbreviation (input) WLED3_SINK_REG_STR_FULL_SCALE_CURR_MASK :: u32 where "WLED3_SINK_REG_STR_FULL_SCALE_CURR_MASK \<equiv> 0x1f"
abbreviation (input) WLED3_SINK_REG_STR_MOD_SRC :: "nat \<Rightarrow> u32" where "WLED3_SINK_REG_STR_MOD_SRC n \<equiv> 0x63 + of_nat n * 0x10"
abbreviation (input) WLED3_SINK_REG_STR_MOD_SRC_MASK :: u32 where "WLED3_SINK_REG_STR_MOD_SRC_MASK \<equiv> 0x1"
abbreviation (input) WLED3_SINK_REG_STR_MOD_SRC_INT :: u32 where "WLED3_SINK_REG_STR_MOD_SRC_INT \<equiv> 0x00"
abbreviation (input) WLED3_SINK_REG_STR_MOD_SRC_EXT :: u32 where "WLED3_SINK_REG_STR_MOD_SRC_EXT \<equiv> 0x01"
abbreviation (input) WLED3_SINK_REG_STR_CABC :: "nat \<Rightarrow> u32" where "WLED3_SINK_REG_STR_CABC n \<equiv> 0x66 + of_nat n * 0x10"
abbreviation (input) WLED3_SINK_REG_STR_CABC_MASK :: u32 where "WLED3_SINK_REG_STR_CABC_MASK \<equiv> 0x80"
abbreviation (input) WLED4_CTRL_REG_SHORT_PROTECT :: u32 where "WLED4_CTRL_REG_SHORT_PROTECT \<equiv> 0x5e"
abbreviation (input) WLED4_CTRL_REG_SHORT_EN_MASK :: u32 where "WLED4_CTRL_REG_SHORT_EN_MASK \<equiv> 0x80"
abbreviation (input) WLED4_CTRL_REG_SEC_ACCESS :: u32 where "WLED4_CTRL_REG_SEC_ACCESS \<equiv> 0xd0"
abbreviation (input) WLED4_CTRL_REG_SEC_UNLOCK :: u32 where "WLED4_CTRL_REG_SEC_UNLOCK \<equiv> 0xa5"
abbreviation (input) WLED4_CTRL_REG_TEST1 :: u32 where "WLED4_CTRL_REG_TEST1 \<equiv> 0xe2"
abbreviation (input) WLED4_CTRL_REG_TEST1_EXT_FET_DTEST2 :: u32 where "WLED4_CTRL_REG_TEST1_EXT_FET_DTEST2 \<equiv> 0x09"
abbreviation (input) WLED4_SINK_REG_CURR_SINK :: u32 where "WLED4_SINK_REG_CURR_SINK \<equiv> 0x46"
abbreviation (input) WLED4_SINK_REG_CURR_SINK_MASK :: u32 where "WLED4_SINK_REG_CURR_SINK_MASK \<equiv> 0xf0"
abbreviation (input) WLED4_SINK_REG_STR_MOD_EN :: "nat \<Rightarrow> u32" where "WLED4_SINK_REG_STR_MOD_EN n \<equiv> 0x50 + of_nat n * 0x10"
abbreviation (input) WLED4_SINK_REG_STR_MOD_MASK :: u32 where "WLED4_SINK_REG_STR_MOD_MASK \<equiv> 0x80"
abbreviation (input) WLED4_SINK_REG_STR_FULL_SCALE_CURR :: "nat \<Rightarrow> u32" where "WLED4_SINK_REG_STR_FULL_SCALE_CURR n \<equiv> 0x52 + of_nat n * 0x10"
abbreviation (input) WLED4_SINK_REG_STR_FULL_SCALE_CURR_MASK :: u32 where "WLED4_SINK_REG_STR_FULL_SCALE_CURR_MASK \<equiv> 0xf"
abbreviation (input) WLED4_SINK_REG_STR_MOD_SRC :: "nat \<Rightarrow> u32" where "WLED4_SINK_REG_STR_MOD_SRC n \<equiv> 0x53 + of_nat n * 0x10"
abbreviation (input) WLED4_SINK_REG_STR_MOD_SRC_MASK :: u32 where "WLED4_SINK_REG_STR_MOD_SRC_MASK \<equiv> 0x1"
abbreviation (input) WLED4_SINK_REG_STR_MOD_SRC_INT :: u32 where "WLED4_SINK_REG_STR_MOD_SRC_INT \<equiv> 0x00"
abbreviation (input) WLED4_SINK_REG_STR_MOD_SRC_EXT :: u32 where "WLED4_SINK_REG_STR_MOD_SRC_EXT \<equiv> 0x01"
abbreviation (input) WLED4_SINK_REG_STR_CABC :: "nat \<Rightarrow> u32" where "WLED4_SINK_REG_STR_CABC n \<equiv> 0x56 + of_nat n * 0x10"
abbreviation (input) WLED4_SINK_REG_STR_CABC_MASK :: u32 where "WLED4_SINK_REG_STR_CABC_MASK \<equiv> 0x80"
abbreviation (input) WLED4_SINK_REG_BRIGHT :: "nat \<Rightarrow> u32" where "WLED4_SINK_REG_BRIGHT n \<equiv> 0x57 + of_nat n * 0x10"
abbreviation (input) WLED5_CTRL_REG_OVP_INT_CTL :: u32 where "WLED5_CTRL_REG_OVP_INT_CTL \<equiv> 0x5f"
abbreviation (input) WLED5_CTRL_REG_OVP_INT_TIMER_MASK :: u32 where "WLED5_CTRL_REG_OVP_INT_TIMER_MASK \<equiv> 0x7"
abbreviation (input) WLED5_SINK_REG_MOD_A_EN :: u32 where "WLED5_SINK_REG_MOD_A_EN \<equiv> 0x50"
abbreviation (input) WLED5_SINK_REG_MOD_B_EN :: u32 where "WLED5_SINK_REG_MOD_B_EN \<equiv> 0x60"
abbreviation (input) WLED5_SINK_REG_MOD_EN_MASK :: u32 where "WLED5_SINK_REG_MOD_EN_MASK \<equiv> 0x80"
abbreviation (input) WLED5_SINK_REG_MOD_A_SRC_SEL :: u32 where "WLED5_SINK_REG_MOD_A_SRC_SEL \<equiv> 0x51"
abbreviation (input) WLED5_SINK_REG_MOD_B_SRC_SEL :: u32 where "WLED5_SINK_REG_MOD_B_SRC_SEL \<equiv> 0x61"
abbreviation (input) WLED5_SINK_REG_MOD_SRC_SEL_HIGH :: u32 where "WLED5_SINK_REG_MOD_SRC_SEL_HIGH \<equiv> 0"
abbreviation (input) WLED5_SINK_REG_MOD_SRC_SEL_EXT :: u32 where "WLED5_SINK_REG_MOD_SRC_SEL_EXT \<equiv> 0x03"
abbreviation (input) WLED5_SINK_REG_MOD_SRC_SEL_MASK :: u32 where "WLED5_SINK_REG_MOD_SRC_SEL_MASK \<equiv> 0x3"
abbreviation (input) WLED5_SINK_REG_MOD_A_BRIGHTNESS_WIDTH_SEL :: u32 where "WLED5_SINK_REG_MOD_A_BRIGHTNESS_WIDTH_SEL \<equiv> 0x52"
abbreviation (input) WLED5_SINK_REG_MOD_B_BRIGHTNESS_WIDTH_SEL :: u32 where "WLED5_SINK_REG_MOD_B_BRIGHTNESS_WIDTH_SEL \<equiv> 0x62"
abbreviation (input) WLED5_SINK_REG_BRIGHTNESS_WIDTH_12B :: u32 where "WLED5_SINK_REG_BRIGHTNESS_WIDTH_12B \<equiv> 0"
abbreviation (input) WLED5_SINK_REG_BRIGHTNESS_WIDTH_15B :: u32 where "WLED5_SINK_REG_BRIGHTNESS_WIDTH_15B \<equiv> 1"
abbreviation (input) WLED5_SINK_REG_MOD_A_BRIGHTNESS_LSB :: u32 where "WLED5_SINK_REG_MOD_A_BRIGHTNESS_LSB \<equiv> 0x53"
abbreviation (input) WLED5_SINK_REG_MOD_A_BRIGHTNESS_MSB :: u32 where "WLED5_SINK_REG_MOD_A_BRIGHTNESS_MSB \<equiv> 0x54"
abbreviation (input) WLED5_SINK_REG_MOD_B_BRIGHTNESS_LSB :: u32 where "WLED5_SINK_REG_MOD_B_BRIGHTNESS_LSB \<equiv> 0x63"
abbreviation (input) WLED5_SINK_REG_MOD_B_BRIGHTNESS_MSB :: u32 where "WLED5_SINK_REG_MOD_B_BRIGHTNESS_MSB \<equiv> 0x64"
abbreviation (input) WLED5_SINK_REG_MOD_SYNC_BIT :: u32 where "WLED5_SINK_REG_MOD_SYNC_BIT \<equiv> 0x65"
abbreviation (input) WLED5_SINK_REG_SYNC_MOD_A_BIT :: u32 where "WLED5_SINK_REG_SYNC_MOD_A_BIT \<equiv> 0x1"
abbreviation (input) WLED5_SINK_REG_SYNC_MOD_B_BIT :: u32 where "WLED5_SINK_REG_SYNC_MOD_B_BIT \<equiv> 0x2"
abbreviation (input) WLED5_SINK_REG_SYNC_MASK :: u32 where "WLED5_SINK_REG_SYNC_MASK \<equiv> 0x3"
abbreviation (input) WLED5_SINK_REG_STR_FULL_SCALE_CURR :: "nat \<Rightarrow> u32" where "WLED5_SINK_REG_STR_FULL_SCALE_CURR n \<equiv> 0x72 + of_nat n * 0x10"
abbreviation (input) WLED5_SINK_REG_STR_SRC_SEL :: "nat \<Rightarrow> u32" where "WLED5_SINK_REG_STR_SRC_SEL n \<equiv> 0x73 + of_nat n * 0x10"
abbreviation (input) WLED5_SINK_REG_SRC_SEL_MOD_A :: u32 where "WLED5_SINK_REG_SRC_SEL_MOD_A \<equiv> 0"
abbreviation (input) WLED5_SINK_REG_SRC_SEL_MOD_B :: u32 where "WLED5_SINK_REG_SRC_SEL_MOD_B \<equiv> 1"
abbreviation (input) WLED5_SINK_REG_SRC_SEL_MASK :: u32 where "WLED5_SINK_REG_SRC_SEL_MASK \<equiv> 0x3"

section \<open>Interrupts and delayed work\<close>

text \<open>
  Four calls of the kernel: \<open>schedule_delayed_work\<close> and \<open>cancel_delayed_work_sync\<close> for the one
  work item of the driver, \<open>enable_irq\<close> and \<open>disable_irq\<close> for its over-voltage interrupt. They
  are not part of the repository; \<open>'k\<close> is the kernel's state. What the driver relies on is the
  locale \<open>delayed_irq\<close>: cancelling tells whether the item was queued, disabling nests, and
  enabling an interrupt that is not disabled is reported as unbalanced.
\<close>

record 'k irq_ops =
  k_schedule :: "'k \<Rightarrow> 'k"
  k_cancel :: "'k \<Rightarrow> bool \<times> 'k"
  k_enable :: "'k \<Rightarrow> 'k"
  k_disable :: "'k \<Rightarrow> 'k"

locale delayed_irq =
  fixes K :: "'k irq_ops" and queued :: "'k \<Rightarrow> bool" and depth :: "'k \<Rightarrow> nat" and unbalanced :: "'k \<Rightarrow> bool"
  assumes schedule_law: "queued (k_schedule K k) \<and> depth (k_schedule K k) = depth k \<and>
      unbalanced (k_schedule K k) = unbalanced k"
    and cancel_law: "k_cancel K k = (b, k') \<Longrightarrow> b = queued k \<and> \<not> queued k' \<and> depth k' = depth k \<and> unbalanced k' = unbalanced k"
    and disable_law: "queued (k_disable K k) = queued k \<and> depth (k_disable K k) = depth k + 1 \<and>
      unbalanced (k_disable K k) = unbalanced k"
    and enable_law: "queued (k_enable K k) = queued k \<and> depth (k_enable K k) = depth k - 1 \<and>
      unbalanced (k_enable K k) = (unbalanced k \<or> depth k = 0)"

section \<open>State\<close>

record wled_config =
  boost_i_limit :: u32
  ovp :: u32
  switch_freq :: u32
  num_strings :: nat
  string_i_limit :: u32
  enabled_strings :: "nat list"
  mod_sel :: u32
  cabc_sel :: u32
  cs_out_en :: bool
  ext_gen :: bool
  cabc :: bool
  external_pfet :: bool
  auto_detection_enabled :: bool

text \<open>The part of \<open>struct wled\<close> that is fixed once \<open>probe\<close> is done.\<close>

record ('w, 'k) wled =
  wl_regmap :: "'w regmap"
  wl_kernel :: "'k irq_ops"
  ctrl_addr :: u16
  sink_addr :: u16
  max_string_count :: nat
  max_brightness :: u32
  version :: nat
  has_short_detect :: bool
  short_irq :: int
  ovp_irq :: int
  cfg :: wled_config

text \<open>The part that changes, with the bus and the kernel. Times are in microseconds.\<close>

record ('w, 'k) wled_state =
  wl_bus :: 'w
  wl_irq :: 'k
  brightness :: u32
  short_count :: u32
  last_short_event :: int
  start_ovp_fault_time :: int
  auto_detection_ovp_count :: u16
  disabled_by_short :: bool
  cabc_disabled :: bool

type_synonym ('w, 'k, 'a) wl = "(('w, 'k) wled_state, 'a) state"

definition wl_io :: "('w, 'a) state \<Rightarrow> ('w, 'k, 'a) wl" where
  "wl_io m = on_part wl_bus (\<lambda>w s. s\<lparr>wl_bus := w\<rparr>) m"

definition wl_irqs :: "('k \<Rightarrow> 'k) \<Rightarrow> ('w, 'k, unit) wl" where
  "wl_irqs f = modify_st (\<lambda>s. s\<lparr>wl_irq := f (wl_irq s)\<rparr>)"

abbreviation ctrl :: "('w, 'k) wled \<Rightarrow> u32 \<Rightarrow> u32" where
  "ctrl w off \<equiv> ucast (ctrl_addr w) + off"

abbreviation sink :: "('w, 'k) wled \<Rightarrow> u32 \<Rightarrow> u32" where
  "sink w off \<equiv> ucast (sink_addr w) + off"

text \<open>\<open>u16 addr = ...\<close>, used by the set-up functions.\<close>

definition addr16 :: "u32 \<Rightarrow> u32" where
  "addr16 a = ucast (ucast a :: u16)"

abbreviation wl_read :: "('w, 'k) wled \<Rightarrow> u32 \<Rightarrow> ('w, 'k, int + u32) wl" where
  "wl_read w a \<equiv> wl_io (regmap_read (wl_regmap w) a)"

abbreviation wl_write :: "('w, 'k) wled \<Rightarrow> u32 \<Rightarrow> u32 \<Rightarrow> ('w, 'k, int + unit) wl" where
  "wl_write w a v \<equiv> wl_io (regmap_write (wl_regmap w) a v)"

abbreviation wl_bulk :: "('w, 'k) wled \<Rightarrow> u32 \<Rightarrow> u8 list \<Rightarrow> ('w, 'k, int + unit) wl" where
  "wl_bulk w a bs \<equiv> wl_io (regmap_bulk_write (wl_regmap w) a bs)"

abbreviation wl_upd :: "('w, 'k) wled \<Rightarrow> u32 \<Rightarrow> u32 \<Rightarrow> u32 \<Rightarrow> ('w, 'k, int + unit) wl" where
  "wl_upd w a m v \<equiv> wl_io (regmap_update_bits (wl_regmap w) a m v)"

text \<open>The strings in use: \<open>enabled_strings[0 .. num_strings - 1]\<close>.\<close>

definition strings :: "('w, 'k) wled \<Rightarrow> nat list" where
  "strings w = take (num_strings (cfg w)) (enabled_strings (cfg w))"

text \<open>\<open>cpu_to_le16\<close>: the two bytes of a 16-bit value, low byte first.\<close>

definition le16_bytes :: "u16 \<Rightarrow> u8 list" where
  "le16_bytes v = [ucast v, ucast (drop_bit 8 v)]"

section \<open>Brightness\<close>

definition wled3_set_brightness :: "('w, 'k) wled \<Rightarrow> u16 \<Rightarrow> ('w, 'k, int + unit) wl" where
  "wled3_set_brightness w b =
     (let v = b AND ucast WLED3_SINK_REG_BRIGHT_MAX
      in for_each (\<lambda>j. wl_bulk w (ctrl w (WLED3_SINK_REG_BRIGHT j)) (le16_bytes v)) (strings w))"

text \<open>The lower limits, truncated to \<open>u16\<close> as in the code.\<close>

definition low_limit :: "('w, 'k) wled \<Rightarrow> u32 \<Rightarrow> u16" where
  "low_limit w per_mille = ucast (max_brightness w * per_mille div 1000)"

definition wled4_set_brightness :: "('w, 'k) wled \<Rightarrow> u16 \<Rightarrow> ('w, 'k, int + unit) wl" where
  "wled4_set_brightness w b =
     (let b = (if b > 0 \<and> b < low_limit w 4 then low_limit w 4 else b);
          v = b AND ucast WLED3_SINK_REG_BRIGHT_MAX
      in for_each (\<lambda>j. wl_bulk w (sink w (WLED4_SINK_REG_BRIGHT j)) (le16_bytes v)) (strings w))"

definition wled5_set_brightness :: "('w, 'k) wled \<Rightarrow> u16 \<Rightarrow> ('w, 'k, int + unit) wl" where
  "wled5_set_brightness w b =
     (let b = (if b < low_limit w 1 then low_limit w 1 else b);
          v = b AND ucast WLED5_SINK_REG_BRIGHT_MAX_15B;
          off = (if mod_sel (cfg w) = MOD_A then WLED5_SINK_REG_MOD_A_BRIGHTNESS_LSB else WLED5_SINK_REG_MOD_B_BRIGHTNESS_LSB)
      in wl_bulk w (sink w off) (le16_bytes v))"

definition wled_set_brightness :: "('w, 'k) wled \<Rightarrow> u16 \<Rightarrow> ('w, 'k, int + unit) wl" where
  "wled_set_brightness w b =
     (if version w = 3 then wled3_set_brightness w b
      else if version w = 4 then wled4_set_brightness w b
      else wled5_set_brightness w b)"

section \<open>The module\<close>

definition wled_ovp_work :: "('w, 'k) wled \<Rightarrow> ('w, 'k, unit) wl" where
  "wled_ovp_work w = (if ovp_irq w > 0 then wl_irqs (k_enable (wl_kernel w)) else ret ())"

definition cancel_ovp_work :: "('w, 'k) wled \<Rightarrow> ('w, 'k, bool) wl" where
  "cancel_ovp_work w = on_part wl_irq (\<lambda>k s. s\<lparr>wl_irq := k\<rparr>) (State (k_cancel (wl_kernel w)))"

definition wled_module_enable :: "('w, 'k) wled \<Rightarrow> bool \<Rightarrow> ('w, 'k, int + unit) wl" where
  "wled_module_enable w val = do {
     s \<leftarrow> State_Monad.get;
     if disabled_by_short s then ret (Inl (- ENXIO))
     else
       ok_then (wl_upd w (ctrl w WLED3_CTRL_REG_MOD_EN) WLED3_CTRL_REG_MOD_EN_MASK
                  (push_bit 7 (if val then 1 else 0))) (\<lambda>_. do {
         _ \<leftarrow> (if ovp_irq w > 0 then
                if val then wl_irqs (k_schedule (wl_kernel w))
                else do {
                  c \<leftarrow> cancel_ovp_work w;
                  if \<not> c then wl_irqs (k_disable (wl_kernel w)) else ret ()
                }
              else ret ());
         ret (Inr ())
       })
   }"

definition wled3_sync_toggle :: "('w, 'k) wled \<Rightarrow> ('w, 'k, int + unit) wl" where
  "wled3_sync_toggle w =
     (let m = mask (max_string_count w)
      in ok_then (wl_upd w (sink w WLED3_SINK_REG_SYNC) m WLED3_SINK_REG_SYNC_CLEAR)
           (\<lambda>_. wl_upd w (sink w WLED3_SINK_REG_SYNC) m m))"

definition wled5_mod_sync_toggle :: "('w, 'k) wled \<Rightarrow> ('w, 'k, int + unit) wl" where
  "wled5_mod_sync_toggle w =
     ok_then (wl_upd w (sink w WLED5_SINK_REG_MOD_SYNC_BIT) WLED5_SINK_REG_SYNC_MASK 0) (\<lambda>_.
       wl_upd w (sink w WLED5_SINK_REG_MOD_SYNC_BIT) WLED5_SINK_REG_SYNC_MASK
         (if mod_sel (cfg w) = MOD_A then WLED5_SINK_REG_SYNC_MOD_A_BIT else WLED5_SINK_REG_SYNC_MOD_B_BIT))"

definition wled_ovp_fault_status :: "('w, 'k) wled \<Rightarrow> ('w, 'k, int + bool) wl" where
  "wled_ovp_fault_status w =
     ok_then (wl_read w (ctrl w WLED3_CTRL_REG_INT_RT_STS)) (\<lambda>int_rt_sts.
     ok_then (wl_read w (ctrl w WLED3_CTRL_REG_FAULT_STATUS)) (\<lambda>fault_sts.
     ret (Inr (has int_rt_sts WLED3_CTRL_REG_OVP_FAULT_STATUS \<or>
       version w = 4 \<and> has fault_sts WLED3_CTRL_REG_OVP_FAULT_BIT \<or>
       version w = 5 \<and> has fault_sts (WLED3_CTRL_REG_OVP_FAULT_BIT OR WLED5_CTRL_REG_OVP_PRE_ALARM_BIT)))))"

definition wled4_ovp_delay :: int where "wled4_ovp_delay = 10000"

definition ovp_timer_ms :: "int list" where "ovp_timer_ms = [1, 2, 4, 8, 12, 16, 20, 24]"

text \<open>\<open>junk\<close> is the uninitialised variable \<open>val\<close> of the code.\<close>

definition wled5_ovp_delay :: "('w, 'k) wled \<Rightarrow> u32 \<Rightarrow> ('w, 'k, int) wl" where
  "wled5_ovp_delay w junk = do {
     r \<leftarrow> wl_read w (ctrl w WLED5_CTRL_REG_OVP_INT_CTL);
     ret (case r of
            Inl _ \<Rightarrow> ovp_timer_ms ! unat (junk AND WLED5_CTRL_REG_OVP_INT_TIMER_MASK) * 1000
          | Inr _ \<Rightarrow> 2 * 10000)
   }"

definition wled_update_status :: "('w, 'k) wled \<Rightarrow> u16 \<Rightarrow> ('w, 'k, int + unit) wl" where
  "wled_update_status w b =
     ok_then (if b \<noteq> 0 then
                ok_then (wled_set_brightness w b) (\<lambda>_.
                  if version w < 5 then wled3_sync_toggle w else wled5_mod_sync_toggle w)
              else ret (Inr ())) (\<lambda>_. do {
     s \<leftarrow> State_Monad.get;
     ok_then (if (b \<noteq> 0) \<noteq> (brightness s \<noteq> 0) then wled_module_enable w (b \<noteq> 0) else ret (Inr ())) (\<lambda>_. do {
       _ \<leftarrow> modify_st (\<lambda>s. s\<lparr>brightness := ucast b\<rparr>);
       ret (Inr ())
     })
   })"

section \<open>Content-adaptive brightness\<close>

definition wled4_cabc_config :: "('w, 'k) wled \<Rightarrow> bool \<Rightarrow> ('w, 'k, int + unit) wl" where
  "wled4_cabc_config w enable =
     for_each (\<lambda>j. wl_upd w (sink w (WLED4_SINK_REG_STR_CABC j)) WLED4_SINK_REG_STR_CABC_MASK
       (if enable then WLED4_SINK_REG_STR_CABC_MASK else 0)) (strings w)"

definition wled5_cabc_config :: "('w, 'k) wled \<Rightarrow> bool \<Rightarrow> ('w, 'k, int + unit) wl" where
  "wled5_cabc_config w enable = do {
     s \<leftarrow> State_Monad.get;
     if cabc_disabled s then ret (Inr ())
     else
       let reg = (if enable then cabc_sel (cfg w) AND 0xff else 0);
           off = (if mod_sel (cfg w) = MOD_A then WLED5_SINK_REG_MOD_A_SRC_SEL else WLED5_SINK_REG_MOD_B_SRC_SEL)
       in ok_then (wl_upd w (sink w off) WLED5_SINK_REG_MOD_SRC_SEL_MASK reg) (\<lambda>_. do {
            _ \<leftarrow> (if cabc_sel (cfg w) = 0 then modify_st (\<lambda>s. s\<lparr>cabc_disabled := True\<rparr>) else ret ());
            ret (Inr ())
          })
   }"

text \<open>The function pointer \<open>wled_cabc_config\<close>; only versions 4 and 5 have it.\<close>

definition wled_cabc_config :: "('w, 'k) wled \<Rightarrow> bool \<Rightarrow> ('w, 'k, int + unit) wl" where
  "wled_cabc_config w enable = (if version w = 4 then wled4_cabc_config w enable else wled5_cabc_config w enable)"

section \<open>Short circuits\<close>

abbreviation WLED_SHORT_CNT_MAX :: u32 where "WLED_SHORT_CNT_MAX \<equiv> 5"
abbreviation WLED_SHORT_RESET_CNT_DLY_US :: int where "WLED_SHORT_RESET_CNT_DLY_US \<equiv> 1000000"

text \<open>\<open>t1\<close> and \<open>t2\<close> are what the two calls of \<open>ktime_get\<close> return.\<close>

definition wled_short_irq_handler :: "('w, 'k) wled \<Rightarrow> int \<Rightarrow> int \<Rightarrow> ('w, 'k, unit) wl" where
  "wled_short_irq_handler w t1 t2 = do {
     _ \<leftarrow> modify_st (\<lambda>s. s\<lparr>short_count := short_count s + 1\<rparr>);
     rc \<leftarrow> wled_module_enable w False;
     case rc of
       Inl _ \<Rightarrow> ret ()
     | Inr _ \<Rightarrow> do {
         _ \<leftarrow> modify_st (\<lambda>s. if t1 - last_short_event s > WLED_SHORT_RESET_CNT_DLY_US then s\<lparr>short_count := 1\<rparr> else s);
         s \<leftarrow> State_Monad.get;
         if short_count s > WLED_SHORT_CNT_MAX then modify_st (\<lambda>s. s\<lparr>disabled_by_short := True\<rparr>)
         else do {
           _ \<leftarrow> modify_st (\<lambda>s. s\<lparr>last_short_event := t2\<rparr>);
           _ \<leftarrow> wled_module_enable w True;
           ret ()
         }
       }
   }"

section \<open>Finding the connected strings\<close>

abbreviation AUTO_DETECT_BRIGHTNESS :: u16 where "AUTO_DETECT_BRIGHTNESS \<equiv> 200"

definition sink_bit :: "nat \<Rightarrow> u8" where
  "sink_bit j = push_bit (4 + j) 1"

definition module_bit :: "('w, 'k) wled \<Rightarrow> bool \<Rightarrow> ('w, 'k, int + unit) wl" where
  "module_bit w on = wl_upd w (ctrl w WLED3_CTRL_REG_MOD_EN) WLED3_CTRL_REG_MOD_EN_MASK
     (if on then WLED3_CTRL_REG_MOD_EN_MASK else 0)"

definition ovp_delay :: "('w, 'k) wled \<Rightarrow> u32 \<Rightarrow> ('w, 'k, int) wl" where
  "ovp_delay w junk = (if version w = 4 then ret wled4_ovp_delay else wled5_ovp_delay w junk)"

text \<open>The loop over the strings: each is driven alone, and is valid if no fault shows.\<close>

fun test_strings :: "('w, 'k) wled \<Rightarrow> u32 \<Rightarrow> nat list \<Rightarrow> u8 \<Rightarrow> ('w, 'k, int + u8) wl" where
  "test_strings w junk [] sink_valid = ret (Inr sink_valid)"
| "test_strings w junk (j # js) sink_valid =
     ok_then (wl_write w (ctrl w WLED3_CTRL_REG_FEEDBACK_CONTROL) (of_nat j + 1)) (\<lambda>_.
     ok_then (wl_write w (sink w WLED4_SINK_REG_CURR_SINK) (ucast (sink_bit j))) (\<lambda>_.
     ok_then (module_bit w True) (\<lambda>_. State_Monad.bind (ovp_delay w junk) (\<lambda>_.
     ok_then (wled_ovp_fault_status w) (\<lambda>fault_set.
     ok_then (module_bit w False) (\<lambda>_.
     test_strings w junk js (if fault_set then sink_valid else sink_valid OR sink_bit j)))))))"

definition enable_modulators :: "('w, 'k) wled \<Rightarrow> u32 \<Rightarrow> ('w, 'k, int + unit) wl" where
  "enable_modulators w sink_config =
     for_each (\<lambda>j. wl_write w (sink w (WLED4_SINK_REG_STR_MOD_EN j))
       (if has sink_config (push_bit (4 + j) 1) then WLED4_SINK_REG_STR_MOD_MASK else 0)) (strings w)"

text \<open>Everything after the loop.\<close>

definition apply_detection :: "('w, 'k) wled \<Rightarrow> u32 \<Rightarrow> u8 \<Rightarrow> ('w, 'k, int + unit) wl" where
  "apply_detection w sink_config sink_valid =
     (if sink_valid = 0 then do {
        _ \<leftarrow> modify_st (\<lambda>s. s\<lparr>disabled_by_short := True\<rparr>);
        ret (Inr ())
      }
      else
        let sink_config = (if ucast sink_valid \<noteq> sink_config then ucast sink_valid else sink_config) in
        ok_then (wl_write w (sink w WLED4_SINK_REG_CURR_SINK) sink_config) (\<lambda>_.
        ok_then (if version w = 4 then enable_modulators w sink_config else ret (Inr ())) (\<lambda>_.
        ok_then (wled_cabc_config w True) (\<lambda>_.
        ok_then (wl_write w (ctrl w WLED3_CTRL_REG_FEEDBACK_CONTROL) 0) (\<lambda>_. do {
          s \<leftarrow> State_Monad.get;
          ok_then (wled4_set_brightness w (ucast (brightness s))) (\<lambda>_. module_bit w True)
        })))))"

definition wled_auto_string_detection :: "('w, 'k) wled \<Rightarrow> u32 \<Rightarrow> ('w, 'k, int + unit) wl" where
  "wled_auto_string_detection w junk =
     ok_then (wl_read w (sink w WLED4_SINK_REG_CURR_SINK)) (\<lambda>sink_config.
     ok_then (module_bit w False) (\<lambda>_.
     ok_then (wled4_set_brightness w AUTO_DETECT_BRIGHTNESS) (\<lambda>_.
     ok_then (if cabc (cfg w) then wled_cabc_config w False else ret (Inr ())) (\<lambda>_.
     ok_then (wl_write w (sink w WLED4_SINK_REG_CURR_SINK) 0) (\<lambda>_.
     ok_then (test_strings w junk (strings w) 0) (\<lambda>sink_valid.
     apply_detection w sink_config sink_valid))))))"

abbreviation WLED_AUTO_DETECT_OVP_COUNT :: u16 where "WLED_AUTO_DETECT_OVP_COUNT \<equiv> 5"
abbreviation WLED_AUTO_DETECT_CNT_DLY_US :: int where "WLED_AUTO_DETECT_CNT_DLY_US \<equiv> 1000000"

definition wled4_auto_detection_required :: "('w, 'k) wled \<Rightarrow> int \<Rightarrow> ('w, 'k, bool) wl" where
  "wled4_auto_detection_required w now =
     (if \<not> auto_detection_enabled (cfg w) then ret False
      else do {
        s \<leftarrow> State_Monad.get;
        if auto_detection_ovp_count s = 0 then do {
          _ \<leftarrow> modify_st (\<lambda>s. s\<lparr>start_ovp_fault_time := now, auto_detection_ovp_count := auto_detection_ovp_count s + 1\<rparr>);
          ret False
        }
        else do {
          _ \<leftarrow> modify_st (\<lambda>s. s\<lparr>auto_detection_ovp_count :=
                 (if now - start_ovp_fault_time s > WLED_AUTO_DETECT_CNT_DLY_US then 0 else auto_detection_ovp_count s + 1)\<rparr>);
          s \<leftarrow> State_Monad.get;
          if auto_detection_ovp_count s \<ge> WLED_AUTO_DETECT_OVP_COUNT then do {
            _ \<leftarrow> modify_st (\<lambda>s. s\<lparr>auto_detection_ovp_count := 0\<rparr>);
            ret True
          }
          else ret False
        }
      })"

definition wled5_auto_detection_required :: "('w, 'k) wled \<Rightarrow> ('w, 'k, bool) wl" where
  "wled5_auto_detection_required w = (if \<not> auto_detection_enabled (cfg w) then ret False else ret True)"

definition wled_auto_detection_required :: "('w, 'k) wled \<Rightarrow> int \<Rightarrow> ('w, 'k, bool) wl" where
  "wled_auto_detection_required w now =
     (if version w = 4 then wled4_auto_detection_required w now else wled5_auto_detection_required w)"

definition wled_auto_detection_at_init :: "('w, 'k) wled \<Rightarrow> u32 \<Rightarrow> ('w, 'k, int + unit) wl" where
  "wled_auto_detection_at_init w junk =
     (if \<not> auto_detection_enabled (cfg w) then ret (Inr ())
      else ok_then (wled_ovp_fault_status w) (\<lambda>fault_set.
        if fault_set then do { _ \<leftarrow> wled_auto_string_detection w junk; ret (Inr ()) } else ret (Inr ())))"

definition wled_ovp_irq_handler :: "('w, 'k) wled \<Rightarrow> int \<Rightarrow> u32 \<Rightarrow> ('w, 'k, unit) wl" where
  "wled_ovp_irq_handler w now junk = do {
     r \<leftarrow> ok_then (wl_read w (ctrl w WLED3_CTRL_REG_INT_RT_STS)) (\<lambda>_. wl_read w (ctrl w WLED3_CTRL_REG_FAULT_STATUS));
     case r of
       Inl _ \<Rightarrow> ret ()
     | Inr fault_sts \<Rightarrow>
         if has fault_sts WLED3_CTRL_REG_OVP_FAULT_BIT then do {
           req \<leftarrow> wled_auto_detection_required w now;
           if req then do { _ \<leftarrow> wled_auto_string_detection w junk; ret () } else ret ()
         }
         else ret ()
   }"

end
