(* ===== verification/Wled_Probe.thy ===== *)
theory Wled_Probe
  imports Wled
begin

text \<open>
  The backlight driver \<open>qcom-wled.c\<close>, second part: the configuration read from the device
  tree, the set-up of the three hardware versions, and \<open>probe\<close>. The device tree, memory
  allocation and the interrupt controller are parameters.
\<close>

section \<open>Configuration values\<close>

record wled_var_cfg =
  vc_values :: "u32 list option"
  vc_fn :: "(u32 \<Rightarrow> u32) option"
  vc_size :: nat

definition listed :: "u32 list \<Rightarrow> wled_var_cfg" where
  "listed vs = \<lparr>vc_values = Some vs, vc_fn = None, vc_size = length vs\<rparr>"

definition computed :: "(u32 \<Rightarrow> u32) \<Rightarrow> nat \<Rightarrow> wled_var_cfg" where
  "computed f n = \<lparr>vc_values = None, vc_fn = Some f, vc_size = n\<rparr>"

definition plain :: "nat \<Rightarrow> wled_var_cfg" where
  "plain n = \<lparr>vc_values = None, vc_fn = None, vc_size = n\<rparr>"

definition wled3_boost_i_limit_cfg :: wled_var_cfg where
  "wled3_boost_i_limit_cfg = listed [105, 385, 525, 805, 980, 1260, 1400, 1680]"

definition wled4_boost_i_limit_cfg :: wled_var_cfg where
  "wled4_boost_i_limit_cfg = listed [105, 280, 450, 620, 970, 1150, 1300, 1500]"

definition wled5_boost_i_limit_values_fn :: "u32 \<Rightarrow> u32" where
  "wled5_boost_i_limit_values_fn idx = 525 + (idx * 175)"

definition wled5_boost_i_limit_cfg :: wled_var_cfg where
  "wled5_boost_i_limit_cfg = computed wled5_boost_i_limit_values_fn 8"

definition wled3_ovp_cfg :: wled_var_cfg where
  "wled3_ovp_cfg = listed [35, 32, 29, 27]"

definition wled4_ovp_cfg :: wled_var_cfg where
  "wled4_ovp_cfg = listed [31100, 29600, 19600, 18100]"

definition pmi8994_wled_ovp_cfg :: wled_var_cfg where
  "pmi8994_wled_ovp_cfg = listed [31000, 29500, 19400, 17800]"

definition wled5_ovp_values_fn :: "u32 \<Rightarrow> u32" where
  "wled5_ovp_values_fn idx = 38500 - (idx * 1500)"

definition wled5_ovp_cfg :: wled_var_cfg where
  "wled5_ovp_cfg = computed wled5_ovp_values_fn 16"

definition wled3_switch_freq_values_fn :: "u32 \<Rightarrow> u32" where
  "wled3_switch_freq_values_fn idx = 19200 div (2 * (1 + idx))"

definition wled3_switch_freq_cfg :: wled_var_cfg where
  "wled3_switch_freq_cfg = computed wled3_switch_freq_values_fn 16"

definition wled3_string_i_limit_cfg :: wled_var_cfg where
  "wled3_string_i_limit_cfg = plain 26"

definition wled4_string_i_limit_cfg :: wled_var_cfg where
  "wled4_string_i_limit_cfg =
     listed [0, 2500, 5000, 7500, 10000, 12500, 15000, 17500, 20000, 22500, 25000, 27500, 30000]"

definition wled5_mod_sel_cfg :: wled_var_cfg where "wled5_mod_sel_cfg = plain 2"
definition wled5_cabc_sel_cfg :: wled_var_cfg where "wled5_cabc_sel_cfg = plain 4"

abbreviation UINT_MAX :: u32 where "UINT_MAX \<equiv> 0xffffffff"

definition wled_values :: "wled_var_cfg \<Rightarrow> nat \<Rightarrow> u32" where
  "wled_values vc idx =
     (if idx \<ge> vc_size vc then UINT_MAX
      else case vc_fn vc of Some f \<Rightarrow> f (of_nat idx)
      | None \<Rightarrow> (case vc_values vc of Some vs \<Rightarrow> vs ! idx | None \<Rightarrow> of_nat idx))"

text \<open>
  The loop \<open>c = UINT_MAX; for (j = 0; c != val; j++) ...\<close>: the index that is stored, or None
  for the error \<open>-EINVAL\<close>.
\<close>

function find_value :: "wled_var_cfg \<Rightarrow> u32 \<Rightarrow> nat \<Rightarrow> u32 \<Rightarrow> nat option" where
  "find_value vc val j c =
     (if c = val then Some j
      else
        let c = wled_values vc j in
        if c = UINT_MAX then None
        else if c = val then Some j
        else find_value vc val (j + 1) c)"
  by pat_completeness auto

termination
  by (relation "measure (\<lambda>(vc, val, j, c). vc_size vc - j)") (auto simp: wled_values_def split: if_splits)

declare find_value.simps [simp del]

definition index_of :: "wled_var_cfg \<Rightarrow> u32 \<Rightarrow> nat option" where
  "index_of vc val = find_value vc val 0 UINT_MAX"

section \<open>The device tree\<close>

record dtree =
  of_get_address :: "nat \<Rightarrow> u32 option"
  of_read_u32 :: "string \<Rightarrow> int + u32"
  of_read_bool :: "string \<Rightarrow> bool"
  of_count :: "string \<Rightarrow> int"
  of_read_array :: "string \<Rightarrow> nat \<Rightarrow> int + u32 list"
  of_compatible :: "string \<Rightarrow> bool"
  name_ok :: bool

type_synonym opt = "string \<times> (u32 \<Rightarrow> wled_config \<Rightarrow> wled_config) \<times> wled_var_cfg"

definition set_boost :: "u32 \<Rightarrow> wled_config \<Rightarrow> wled_config" where "set_boost v c = c\<lparr>boost_i_limit := v\<rparr>"
definition set_limit :: "u32 \<Rightarrow> wled_config \<Rightarrow> wled_config" where "set_limit v c = c\<lparr>string_i_limit := v\<rparr>"
definition set_ovp :: "u32 \<Rightarrow> wled_config \<Rightarrow> wled_config" where "set_ovp v c = c\<lparr>ovp := v\<rparr>"
definition set_freq :: "u32 \<Rightarrow> wled_config \<Rightarrow> wled_config" where "set_freq v c = c\<lparr>switch_freq := v\<rparr>"
definition set_mod :: "u32 \<Rightarrow> wled_config \<Rightarrow> wled_config" where "set_mod v c = c\<lparr>mod_sel := v\<rparr>"
definition set_cabc :: "u32 \<Rightarrow> wled_config \<Rightarrow> wled_config" where "set_cabc v c = c\<lparr>cabc_sel := v\<rparr>"

definition wled3_opts :: "opt list" where
  "wled3_opts =
     [(''qcom,current-boost-limit'', set_boost, wled3_boost_i_limit_cfg),
      (''qcom,current-limit'', set_limit, wled3_string_i_limit_cfg),
      (''qcom,ovp'', set_ovp, wled3_ovp_cfg),
      (''qcom,switching-freq'', set_freq, wled3_switch_freq_cfg)]"

definition wled4_opts :: "opt list" where
  "wled4_opts =
     [(''qcom,current-boost-limit'', set_boost, wled4_boost_i_limit_cfg),
      (''qcom,current-limit-microamp'', set_limit, wled4_string_i_limit_cfg),
      (''qcom,ovp-millivolt'', set_ovp, wled4_ovp_cfg),
      (''qcom,switching-freq'', set_freq, wled3_switch_freq_cfg)]"

definition pmi8994_wled_opts :: "opt list" where
  "pmi8994_wled_opts =
     [(''qcom,current-boost-limit'', set_boost, wled4_boost_i_limit_cfg),
      (''qcom,current-limit-microamp'', set_limit, wled4_string_i_limit_cfg),
      (''qcom,ovp-millivolt'', set_ovp, pmi8994_wled_ovp_cfg),
      (''qcom,switching-freq'', set_freq, wled3_switch_freq_cfg)]"

definition wled5_opts :: "opt list" where
  "wled5_opts =
     [(''qcom,current-boost-limit'', set_boost, wled5_boost_i_limit_cfg),
      (''qcom,current-limit-microamp'', set_limit, wled4_string_i_limit_cfg),
      (''qcom,ovp-millivolt'', set_ovp, wled5_ovp_cfg),
      (''qcom,switching-freq'', set_freq, wled3_switch_freq_cfg),
      (''qcom,modulator-sel'', set_mod, wled5_mod_sel_cfg),
      (''qcom,cabc-sel'', set_cabc, wled5_cabc_sel_cfg)]"

definition bool_opts :: "(string \<times> (wled_config \<Rightarrow> wled_config)) list" where
  "bool_opts =
     [(''qcom,cs-out'', \<lambda>c. c\<lparr>cs_out_en := True\<rparr>),
      (''qcom,ext-gen'', \<lambda>c. c\<lparr>ext_gen := True\<rparr>),
      (''qcom,cabc'', \<lambda>c. c\<lparr>cabc := True\<rparr>),
      (''qcom,external-pfet'', \<lambda>c. c\<lparr>external_pfet := True\<rparr>),
      (''qcom,auto-string-detection'', \<lambda>c. c\<lparr>auto_detection_enabled := True\<rparr>)]"

definition wled3_config_defaults :: wled_config where
  "wled3_config_defaults =
     \<lparr>boost_i_limit = 3, ovp = 2, switch_freq = 5, num_strings = 3, string_i_limit = 20, enabled_strings = [0, 1, 2, 0],
      mod_sel = 0, cabc_sel = 0, cs_out_en = False, ext_gen = False, cabc = False, external_pfet = False,
      auto_detection_enabled = False\<rparr>"

definition wled4_config_defaults :: wled_config where
  "wled4_config_defaults =
     \<lparr>boost_i_limit = 4, ovp = 1, switch_freq = 11, num_strings = 4, string_i_limit = 10, enabled_strings = [0, 1, 2, 3],
      mod_sel = 0, cabc_sel = 0, cs_out_en = False, ext_gen = False, cabc = False, external_pfet = False,
      auto_detection_enabled = False\<rparr>"

definition wled5_config_defaults :: wled_config where
  "wled5_config_defaults = wled4_config_defaults\<lparr>boost_i_limit := 5, ovp := 4\<rparr>"

section \<open>Reading the configuration\<close>

fun read_opts :: "dtree \<Rightarrow> opt list \<Rightarrow> wled_config \<Rightarrow> int + wled_config" where
  "read_opts dt [] c = Inr c"
| "read_opts dt ((name, put, vc) # os) c =
     (case of_read_u32 dt name of
        Inl rc \<Rightarrow> if rc = - EINVAL then read_opts dt os c else Inl rc
      | Inr val \<Rightarrow>
          (case index_of vc val of
             None \<Rightarrow> Inl (- EINVAL)
           | Some j \<Rightarrow> read_opts dt os (put (of_nat j) c)))"

fun read_bools :: "dtree \<Rightarrow> (string \<times> (wled_config \<Rightarrow> wled_config)) list \<Rightarrow> wled_config \<Rightarrow> wled_config" where
  "read_bools dt [] c = c"
| "read_bools dt ((name, put) # os) c = read_bools dt os (if of_read_bool dt name then put c else c)"

definition read_enabled :: "dtree \<Rightarrow> nat \<Rightarrow> wled_config \<Rightarrow> int + wled_config" where
  "read_enabled dt max_strings c =
     (let string_len = of_count dt ''qcom,enabled-strings'' in
      if string_len > 0 then
        if string_len > int max_strings then Inl (- EINVAL)
        else case of_read_array dt ''qcom,enabled-strings'' (nat string_len) of
          Inl rc \<Rightarrow> Inl rc
        | Inr vs \<Rightarrow>
            if \<exists>v\<in>set vs. unat v \<ge> max_strings then Inl (- EINVAL)
            else Inr (c\<lparr>enabled_strings := map unat vs @ drop (length vs) (enabled_strings c),
                        num_strings := nat string_len\<rparr>)
      else Inr c)"

definition read_count :: "dtree \<Rightarrow> nat \<Rightarrow> wled_config \<Rightarrow> int + wled_config" where
  "read_count dt max_strings c =
     (let string_len = of_count dt ''qcom,enabled-strings'' in
      case of_read_u32 dt ''qcom,num-strings'' of
        Inl _ \<Rightarrow> Inr c
      | Inr val \<Rightarrow>
          if unat val < 1 \<or> unat val > max_strings then Inl (- EINVAL)
          else if string_len > 0 \<and> int (unat val) > string_len then Inl (- EINVAL)
          else Inr (c\<lparr>num_strings := unat val\<rparr>))"

text \<open>\<open>(options, defaults, number of strings, index of the sink address)\<close> of a version.\<close>

definition version_data :: "dtree \<Rightarrow> nat \<Rightarrow> (opt list \<times> wled_config \<times> nat \<times> nat) option" where
  "version_data dt ver =
     (if ver = 3 then Some (wled3_opts, wled3_config_defaults, 3, 0)
      else if ver = 4 then
        Some (if of_compatible dt ''qcom,pmi8950-wled'' \<or> of_compatible dt ''qcom,pmi8994-wled''
              then pmi8994_wled_opts else wled4_opts,
              wled4_config_defaults, 4, 1)
      else if ver = 5 then Some (wled5_opts, wled5_config_defaults, 4, 1)
      else None)"

text \<open>The result: addresses of control and sink, number of strings, configuration.\<close>

definition wled_configure :: "dtree \<Rightarrow> nat \<Rightarrow> int + (u16 \<times> u16 \<times> nat \<times> wled_config)" where
  "wled_configure dt ver =
     (case of_get_address dt 0 of
        None \<Rightarrow> Inl (- EINVAL)
      | Some caddr \<Rightarrow>
          if \<not> name_ok dt then Inl (- ENOMEM)
          else case version_data dt ver of
            None \<Rightarrow> Inl (- EINVAL)
          | Some (opts, defaults, max_strings, i) \<Rightarrow>
              (case of_get_address dt i of
                 None \<Rightarrow> Inl (- EINVAL)
               | Some saddr \<Rightarrow>
                   (case read_opts dt opts defaults of
                      Inl rc \<Rightarrow> Inl rc
                    | Inr c \<Rightarrow>
                        (case read_enabled dt max_strings (read_bools dt bool_opts c) of
                           Inl rc \<Rightarrow> Inl rc
                         | Inr c \<Rightarrow>
                             (case read_count dt max_strings c of
                                Inl rc \<Rightarrow> Inl rc
                              | Inr c \<Rightarrow> Inr (ucast caddr, ucast saddr, max_strings, c))))))"

section \<open>Set-up\<close>

definition wled3_string :: "('w, 'k) wled \<Rightarrow> nat \<Rightarrow> ('w, 'k, int + unit) wl" where
  "wled3_string w j =
     ok_then (wl_upd w (addr16 (ctrl w (WLED3_SINK_REG_STR_MOD_EN j))) WLED3_SINK_REG_STR_MOD_MASK WLED3_SINK_REG_STR_MOD_MASK) (\<lambda>_.
     ok_then (if ext_gen (cfg w) then
                wl_upd w (addr16 (ctrl w (WLED3_SINK_REG_STR_MOD_SRC j))) WLED3_SINK_REG_STR_MOD_SRC_MASK WLED3_SINK_REG_STR_MOD_SRC_EXT
              else ret (Inr ())) (\<lambda>_.
     ok_then (wl_upd w (addr16 (ctrl w (WLED3_SINK_REG_STR_FULL_SCALE_CURR j))) WLED3_SINK_REG_STR_FULL_SCALE_CURR_MASK
                (string_i_limit (cfg w))) (\<lambda>_.
     wl_upd w (addr16 (ctrl w (WLED3_SINK_REG_STR_CABC j))) WLED3_SINK_REG_STR_CABC_MASK
       (if cabc (cfg w) then WLED3_SINK_REG_STR_CABC_MASK else 0))))"

text \<open>\<open>sink_en |= BIT(j + shift)\<close> over the strings.\<close>

definition sink_en :: "nat \<Rightarrow> nat list \<Rightarrow> u8" where
  "sink_en shift js = fold (\<lambda>j acc. acc OR push_bit (j + shift) 1) js 0"

definition wled_limits :: "('w, 'k) wled \<Rightarrow> u32 \<Rightarrow> ('w, 'k, int + unit) wl" where
  "wled_limits w ovp_mask =
     ok_then (wl_upd w (ctrl w WLED3_CTRL_REG_OVP) ovp_mask (ovp (cfg w))) (\<lambda>_.
     ok_then (wl_upd w (ctrl w WLED3_CTRL_REG_ILIMIT) WLED3_CTRL_REG_ILIMIT_MASK (boost_i_limit (cfg w))) (\<lambda>_.
     wl_upd w (ctrl w WLED3_CTRL_REG_FREQ) WLED3_CTRL_REG_FREQ_MASK (switch_freq (cfg w))))"

definition wled3_setup :: "('w, 'k) wled \<Rightarrow> ('w, 'k, int + unit) wl" where
  "wled3_setup w =
     ok_then (wled_limits w WLED3_CTRL_REG_OVP_MASK) (\<lambda>_.
     ok_then (for_each (wled3_string w) (strings w)) (\<lambda>_.
     wl_upd w (ctrl w WLED3_SINK_REG_CURR_SINK) WLED3_SINK_REG_CURR_SINK_MASK (ucast (sink_en 5 (strings w)))))"

definition wled4_string :: "('w, 'k) wled \<Rightarrow> nat \<Rightarrow> ('w, 'k, int + unit) wl" where
  "wled4_string w j =
     ok_then (wl_upd w (addr16 (sink w (WLED4_SINK_REG_STR_MOD_EN j))) WLED4_SINK_REG_STR_MOD_MASK WLED4_SINK_REG_STR_MOD_MASK) (\<lambda>_.
     wl_upd w (addr16 (sink w (WLED4_SINK_REG_STR_FULL_SCALE_CURR j))) WLED4_SINK_REG_STR_FULL_SCALE_CURR_MASK
       (string_i_limit (cfg w)))"

definition wled4_program :: "('w, 'k) wled \<Rightarrow> u32 \<Rightarrow> ('w, 'k, int + unit) wl" where
  "wled4_program w junk =
     ok_then (wl_upd w (sink w WLED4_SINK_REG_CURR_SINK) WLED4_SINK_REG_CURR_SINK_MASK 0) (\<lambda>_.
     ok_then (module_bit w False) (\<lambda>_.
     ok_then (for_each (wled4_string w) (strings w)) (\<lambda>_.
     ok_then (wled4_cabc_config w (cabc (cfg w))) (\<lambda>_.
     ok_then (module_bit w True) (\<lambda>_.
     ok_then (wl_upd w (sink w WLED4_SINK_REG_CURR_SINK) WLED4_SINK_REG_CURR_SINK_MASK (ucast (sink_en 4 (strings w)))) (\<lambda>_.
     ok_then (wled3_sync_toggle w) (\<lambda>_.
     wled_auto_detection_at_init w junk)))))))"

definition wled4_setup :: "('w, 'k) wled \<Rightarrow> u32 \<Rightarrow> ('w, 'k, int + unit) wl" where
  "wled4_setup w junk =
     ok_then (wled_limits w WLED3_CTRL_REG_OVP_MASK) (\<lambda>_.
     ok_then (if external_pfet (cfg w) then
                ok_then (wl_write w (ctrl w WLED4_CTRL_REG_SEC_ACCESS) WLED4_CTRL_REG_SEC_UNLOCK) (\<lambda>_.
                wl_write w (ctrl w WLED4_CTRL_REG_TEST1) WLED4_CTRL_REG_TEST1_EXT_FET_DTEST2)
              else ret (Inr ())) (\<lambda>_.
     ok_then (wl_read w (sink w WLED4_SINK_REG_CURR_SINK)) (\<lambda>sink_cfg.
     if sink_cfg = ucast (sink_en 4 (strings w)) then
       ok_then (wled4_cabc_config w (cabc (cfg w))) (\<lambda>_. wled_auto_detection_at_init w junk)
     else wled4_program w junk)))"

text \<open>The result of the second update is overwritten unseen.\<close>

definition wled5_string :: "('w, 'k) wled \<Rightarrow> nat \<Rightarrow> ('w, 'k, int + unit) wl" where
  "wled5_string w j =
     ok_then (wl_upd w (addr16 (sink w (WLED4_SINK_REG_STR_FULL_SCALE_CURR j))) WLED4_SINK_REG_STR_FULL_SCALE_CURR_MASK
                (string_i_limit (cfg w))) (\<lambda>_. do {
       _ \<leftarrow> wl_upd w (addr16 (sink w (WLED5_SINK_REG_STR_SRC_SEL j))) WLED5_SINK_REG_SRC_SEL_MASK
             (if mod_sel (cfg w) = MOD_A then WLED5_SINK_REG_SRC_SEL_MOD_A else WLED5_SINK_REG_SRC_SEL_MOD_B);
       ret (Inr ())
     })"

definition wled5_modulators :: "('w, 'k) wled \<Rightarrow> ('w, 'k, int + unit) wl" where
  "wled5_modulators w =
     ok_then (wl_upd w (addr16 (sink w WLED5_SINK_REG_MOD_A_EN)) WLED5_SINK_REG_MOD_EN_MASK
                (if mod_sel (cfg w) = MOD_A then WLED5_SINK_REG_MOD_EN_MASK else 0)) (\<lambda>_.
     ok_then (wl_upd w (addr16 (sink w WLED5_SINK_REG_MOD_B_EN)) WLED5_SINK_REG_MOD_EN_MASK
                (if mod_sel (cfg w) = MOD_B then WLED5_SINK_REG_MOD_EN_MASK else 0)) (\<lambda>_.
     wl_write w (addr16 (sink w (if mod_sel (cfg w) = MOD_A then WLED5_SINK_REG_MOD_A_BRIGHTNESS_WIDTH_SEL
                                 else WLED5_SINK_REG_MOD_B_BRIGHTNESS_WIDTH_SEL)))
       (if max_brightness w = WLED5_SINK_REG_BRIGHT_MAX_15B then WLED5_SINK_REG_BRIGHTNESS_WIDTH_15B
        else WLED5_SINK_REG_BRIGHTNESS_WIDTH_12B)))"

definition wled5_setup :: "('w, 'k) wled \<Rightarrow> u32 \<Rightarrow> ('w, 'k, int + unit) wl" where
  "wled5_setup w junk =
     ok_then (wled_limits w WLED5_CTRL_REG_OVP_MASK) (\<lambda>_.
     ok_then (for_each (wled5_string w) (strings w)) (\<lambda>_.
     ok_then (wled5_cabc_config w (cabc_sel (cfg w) \<noteq> 0)) (\<lambda>_.
     ok_then (wled5_modulators w) (\<lambda>_.
     ok_then (wl_upd w (sink w WLED4_SINK_REG_CURR_SINK) WLED4_SINK_REG_CURR_SINK_MASK (ucast (sink_en 4 (strings w)))) (\<lambda>_.
     ok_then (wled3_sync_toggle w) (\<lambda>_.
     wled_auto_detection_at_init w junk))))))"

section \<open>Probe and remove\<close>

text \<open>
  The interrupt controller: the number of an interrupt by name, and the result of requesting it.
\<close>

record irq_env =
  get_irq_byname :: "string \<Rightarrow> int"
  request_irq :: "string \<Rightarrow> int"

definition wled_configure_short_irq :: "('w, 'k) wled \<Rightarrow> irq_env \<Rightarrow> ('w, 'k, int + ('w, 'k) wled) wl" where
  "wled_configure_short_irq w env =
     (if \<not> has_short_detect w then ret (Inr w)
      else ok_then (wl_upd w (ctrl w WLED4_CTRL_REG_SHORT_PROTECT) WLED4_CTRL_REG_SHORT_EN_MASK WLED4_CTRL_REG_SHORT_EN_MASK)
        (\<lambda>_. let w = w\<lparr>short_irq := get_irq_byname env ''short''\<rparr> in
             if short_irq w < 0 then ret (Inr w)
             else if request_irq env ''wled_short_irq'' < 0 then ret (Inl (request_irq env ''wled_short_irq''))
             else ret (Inr w)))"

definition wled_configure_ovp_irq :: "('w, 'k) wled \<Rightarrow> irq_env \<Rightarrow> ('w, 'k) wled" where
  "wled_configure_ovp_irq w env =
     (let w = w\<lparr>ovp_irq := get_irq_byname env ''ovp''\<rparr> in
      if ovp_irq w < 0 then w
      else if request_irq env ''wled_ovp_irq'' < 0 then w\<lparr>ovp_irq := 0\<rparr>
      else w)"

definition read_default :: "dtree \<Rightarrow> string \<Rightarrow> u32 \<Rightarrow> u32" where
  "read_default dt name v = (case of_read_u32 dt name of Inl _ \<Rightarrow> v | Inr x \<Rightarrow> x)"

text \<open>
  \<open>struct wled\<close> when \<open>wled_configure\<close> has returned, with \<open>max_brightness\<close> as the set-up of the
  version uses it.
\<close>

definition wled_made :: "'w regmap \<Rightarrow> 'k irq_ops \<Rightarrow> dtree \<Rightarrow> nat \<Rightarrow> u16 \<times> u16 \<times> nat \<times> wled_config \<Rightarrow> ('w, 'k) wled" where
  "wled_made rm K dt ver p =
     (case p of (caddr, saddr, n, c) \<Rightarrow>
        \<lparr>wl_regmap = rm, wl_kernel = K, ctrl_addr = caddr, sink_addr = saddr, max_string_count = n,
         max_brightness =
           (if ver = 5 \<and> cabc_sel c \<noteq> 0 then WLED5_SINK_REG_BRIGHT_MAX_12B
            else read_default dt ''max-brightness'' WLED3_SINK_REG_BRIGHT_MAX),
         version = ver, has_short_detect = (ver \<noteq> 3), short_irq = 0, ovp_irq = 0,
         cfg = (if ver = 3 then c\<lparr>auto_detection_enabled := False\<rparr> else c)\<rparr>)"

definition wled_state0 :: "'w \<Rightarrow> 'k \<Rightarrow> ('w, 'k) wled_state" where
  "wled_state0 b k =
     \<lparr>wl_bus = b, wl_irq = k, brightness = 0, short_count = 0, last_short_event = 0, start_ovp_fault_time = 0,
      auto_detection_ovp_count = 0, disabled_by_short = False, cabc_disabled = False\<rparr>"

text \<open>
  The result is the driver and the default brightness handed to the backlight core, whose answer
  \<open>register_rc\<close> ends the function.
\<close>

definition wled_probe ::
    "'w regmap option \<Rightarrow> 'k irq_ops \<Rightarrow> dtree \<Rightarrow> irq_env \<Rightarrow> bool \<Rightarrow> nat \<Rightarrow> u32 \<Rightarrow> int \<Rightarrow>
     ('w, 'k, int + ('w, 'k) wled \<times> u32) wl" where
  "wled_probe regmap K dt env alloc_ok ver junk register_rc =
     (case regmap of
        None \<Rightarrow> ret (Inl (- EINVAL))
      | Some rm \<Rightarrow>
          if \<not> alloc_ok then ret (Inl (- ENOMEM))
          else if ver = 0 then ret (Inl (- ENODEV))
          else case wled_configure dt ver of
            Inl rc \<Rightarrow> ret (Inl rc)
          | Inr p \<Rightarrow>
              let w = wled_made rm K dt ver p in
              ok_then (if ver = 3 then wled3_setup w
                       else if ver = 4 then wled4_setup w junk
                       else wled5_setup w junk) (\<lambda>_.
              ok_then (wled_configure_short_irq w env) (\<lambda>w.
              let w = wled_configure_ovp_irq w env in
              ret (if register_rc \<noteq> 0 then Inl register_rc
                   else Inr (w, read_default dt ''default-brightness'' 2048)))))"

text \<open>
  \<open>remove\<close> reads the driver data of the platform device, which \<open>probe\<close> never sets: \<open>drvdata\<close> is
  what it finds, and with None its first use is a NULL pointer (result False). \<open>irq_off\<close> is
  \<open>disable_irq\<close> for an interrupt number.
\<close>

definition wled_remove :: "(int \<Rightarrow> 'k \<Rightarrow> 'k) \<Rightarrow> ('w, 'k) wled option \<Rightarrow> ('w, 'k, bool) wl" where
  "wled_remove irq_off drvdata =
     (case drvdata of
        None \<Rightarrow> ret False
      | Some w \<Rightarrow> do {
          _ \<leftarrow> cancel_ovp_work w;
          _ \<leftarrow> wl_irqs (irq_off (short_irq w));
          _ \<leftarrow> wl_irqs (irq_off (ovp_irq w));
          ret True
        })"

end
