(* ===== verification/Wled_Irq.thy ===== *)
theory Wled_Irq
  imports Wled_Probe
begin

text \<open>
  The backlight driver's use of its over-voltage interrupt: in every interleaving of brightness
  changes, short circuits, over-voltage interrupts and runs of the delayed work, enabling and
  disabling are balanced; and what a final short circuit means.
\<close>

section \<open>A kernel\<close>

record simk =
  sk_queued :: bool
  sk_depth :: nat
  sk_unbalanced :: bool

definition sim_irqs :: "simk irq_ops" where
  "sim_irqs =
     \<lparr>k_schedule = (\<lambda>k. k\<lparr>sk_queued := True\<rparr>),
      k_cancel = (\<lambda>k. (sk_queued k, k\<lparr>sk_queued := False\<rparr>)),
      k_enable = (\<lambda>k. k\<lparr>sk_unbalanced := sk_unbalanced k \<or> sk_depth k = 0, sk_depth := sk_depth k - 1\<rparr>),
      k_disable = (\<lambda>k. k\<lparr>sk_depth := sk_depth k + 1\<rparr>)\<rparr>"

interpretation sim_irq: delayed_irq sim_irqs sk_queued sk_depth sk_unbalanced
  by unfold_locales (auto simp: sim_irqs_def)

section \<open>Everything that can happen after probe\<close>

text \<open>
  \<open>probe\<close> leaves the brightness 0 and the interrupt disabled once (it is requested with
  \<open>IRQF_NO_AUTOEN\<close>). Each event runs to its end (the driver's lock); the over-voltage handler
  runs only while its interrupt is enabled, the work only while it is queued, which it then no
  longer is.
\<close>

inductive wled_steps ::
    "('w, 'k) wled \<Rightarrow> ('k \<Rightarrow> bool) \<Rightarrow> ('k \<Rightarrow> nat) \<Rightarrow> ('w, 'k) wled_state \<Rightarrow> ('w, 'k) wled_state \<Rightarrow> bool"
  for w queued depth where
  refl: "wled_steps w queued depth s s"
| update: "wled_steps w queued depth s t \<Longrightarrow> wled_steps w queued depth s (snd (run_state (wled_update_status w b) t))"
| short: "wled_steps w queued depth s t \<Longrightarrow>
    wled_steps w queued depth s (snd (run_state (wled_short_irq_handler w t1 t2) t))"
| over_voltage: "wled_steps w queued depth s t \<Longrightarrow> ovp_irq w > 0 \<Longrightarrow> depth (wl_irq t) = 0 \<Longrightarrow>
    wled_steps w queued depth s (snd (run_state (wled_ovp_irq_handler w now junk) t))"
| work: "wled_steps w queued depth s t \<Longrightarrow> queued (wl_irq t) \<Longrightarrow>
    wled_steps w queued depth s
      (snd (run_state (wled_ovp_work w) (t\<lparr>wl_irq := snd (k_cancel (wl_kernel w) (wl_irq t))\<rparr>)))"

section \<open>Code that does not touch the interrupt\<close>

lemma keeps_modify_st: "(\<And>s. I s \<Longrightarrow> I (f s)) \<Longrightarrow> keeps I (modify_st f)"
  by (simp add: keeps_def)

abbreviation irq_is :: "'k \<Rightarrow> u32 \<Rightarrow> ('w, 'k) wled_state \<Rightarrow> bool" where
  "irq_is k b s \<equiv> wl_irq s = k \<and> brightness s = b"

lemma keeps_wl_io [keeps_rules]: "keeps (irq_is k b) (wl_io m)"
  by (rule keepsI) (simp add: wl_io_def wp_def split: prod.split)

lemma keeps_set_brightness [keeps_rules]:
  "keeps (irq_is k b) (wled_set_brightness w x)" "keeps (irq_is k b) (wled4_set_brightness w x)"
  unfolding wled_set_brightness_def wled3_set_brightness_def wled4_set_brightness_def wled5_set_brightness_def Let_def
  by (intro keeps_rules)+

lemma keeps_sync [keeps_rules]: "keeps (irq_is k b) (wled3_sync_toggle w)" "keeps (irq_is k b) (wled5_mod_sync_toggle w)"
  unfolding wled3_sync_toggle_def wled5_mod_sync_toggle_def Let_def by (intro keeps_rules)+

lemma keeps_cabc [keeps_rules]: "keeps (irq_is k b) (wled_cabc_config w e)"
  unfolding wled_cabc_config_def wled4_cabc_config_def wled5_cabc_config_def Let_def
  by (intro keeps_rules keeps_modify_st; simp)

lemma keeps_fault_status [keeps_rules]: "keeps (irq_is k b) (wled_ovp_fault_status w)"
  unfolding wled_ovp_fault_status_def by (intro keeps_rules)

lemma keeps_delay [keeps_rules]: "keeps (irq_is k b) (ovp_delay w junk)"
  unfolding ovp_delay_def wled5_ovp_delay_def by (intro keeps_rules)

lemma keeps_module_bit [keeps_rules]: "keeps (irq_is k b) (module_bit w on)"
  unfolding module_bit_def by (intro keeps_rules)

lemma keeps_test_strings [keeps_rules]: "keeps (irq_is k b) (test_strings w junk js v)"
  by (induction js arbitrary: v) (auto intro!: keeps_rules)

lemma keeps_detection [keeps_rules]: "keeps (irq_is k b) (wled_auto_string_detection w junk)"
  unfolding wled_auto_string_detection_def apply_detection_def enable_modulators_def Let_def
  by (intro keeps_rules keeps_modify_st; simp)

lemma keeps_required [keeps_rules]: "keeps (irq_is k b) (wled_auto_detection_required w now)"
  unfolding wled_auto_detection_required_def wled4_auto_detection_required_def wled5_auto_detection_required_def
  by (intro keeps_rules keeps_modify_st; simp)

lemma keeps_ovp_handler: "keeps (irq_is k b) (wled_ovp_irq_handler w now junk)"
  unfolding wled_ovp_irq_handler_def by (intro keeps_rules)

section \<open>The balance\<close>

lemma run_wl_io: "run_state (wl_io m) s = (case run_state m (wl_bus s) of (r, b) \<Rightarrow> (r, s\<lparr>wl_bus := b\<rparr>))"
  by (simp add: wl_io_def)

text \<open>The kernel calls of switching the module.\<close>

definition switch_irq :: "('w, 'k) wled \<Rightarrow> bool \<Rightarrow> 'k \<Rightarrow> 'k" where
  "switch_irq w val k =
     (if ovp_irq w > 0 then
        if val then k_schedule (wl_kernel w) k
        else (case k_cancel (wl_kernel w) k of (c, k) \<Rightarrow> if c then k else k_disable (wl_kernel w) k)
      else k)"

lemma run_module_enable:
  "run_state (wled_module_enable w val) s =
     (if disabled_by_short s then (Inl (- ENXIO), s)
      else case run_state (module_bit w val) s of
        (Inl e, s1) \<Rightarrow> (Inl e, s1)
      | (Inr _, s1) \<Rightarrow> (Inr (), s1\<lparr>wl_irq := switch_irq w val (wl_irq s1)\<rparr>))"
proof -
  have "push_bit 7 (if val then 1 else 0) = (if val then 0x80 else 0 :: u32)" by simp
  then show ?thesis
    by (simp add: wled_module_enable_def module_bit_def run_ok_then cancel_ovp_work_def wl_irqs_def switch_irq_def
        State_Monad.bind_def split: prod.split sum.split)
qed

lemma module_bit_same:
  "run_state (module_bit w val) s = (r, s1) \<Longrightarrow>
     wl_irq s1 = wl_irq s \<and> brightness s1 = brightness s \<and> disabled_by_short s1 = disabled_by_short s"
  by (auto simp: module_bit_def run_wl_io split: prod.splits)

context delayed_irq
begin

definition balanced :: "('w, 'k) wled_state \<Rightarrow> bool" where
  "balanced s \<longleftrightarrow> \<not> unbalanced (wl_irq s) \<and> (queued (wl_irq s) \<longrightarrow> depth (wl_irq s) \<ge> 1) \<and>
     (brightness s = 0 \<longrightarrow> depth (wl_irq s) \<ge> 1 + (if queued (wl_irq s) then 1 else 0))"

text \<open>What switching the module does to the interrupt.\<close>

lemma switch_irq:
  assumes "wl_kernel w = K" and "ovp_irq w > 0"
  shows "unbalanced (switch_irq w val k) = unbalanced k \<and>
     (val \<longrightarrow> queued (switch_irq w val k) \<and> depth (switch_irq w val k) = depth k) \<and>
     (\<not> val \<longrightarrow> \<not> queued (switch_irq w val k) \<and> depth (switch_irq w val k) = depth k + (if queued k then 0 else 1))"
proof -
  obtain c b where c: "k_cancel K k = (c, b)" by force
  show ?thesis
    unfolding switch_irq_def assms(1) c prod.case
    using cancel_law [OF c] schedule_law [of k] disable_law [of b] assms(2) by (cases val; cases c) simp_all
qed

lemma module_enable_irq:
  assumes "wl_kernel w = K" and "ovp_irq w > 0" and "run_state (wled_module_enable w val) s = (r, s')"
  shows "brightness s' = brightness s \<and> unbalanced (wl_irq s') = unbalanced (wl_irq s) \<and>
     (r \<noteq> Inr () \<longrightarrow> wl_irq s' = wl_irq s) \<and>
     (r = Inr () \<and> val \<longrightarrow> queued (wl_irq s') \<and> depth (wl_irq s') = depth (wl_irq s)) \<and>
     (r = Inr () \<and> \<not> val \<longrightarrow> \<not> queued (wl_irq s') \<and>
        depth (wl_irq s') = depth (wl_irq s) + (if queued (wl_irq s) then 0 else 1))"
proof -
  obtain r1 s1 where m: "run_state (module_bit w val) s = (r1, s1)" by force
  have "wl_irq s1 = wl_irq s" "brightness s1 = brightness s"
    using module_bit_same [OF m] by simp_all
  then show ?thesis
    using assms(3) switch_irq [OF assms(1,2), of val "wl_irq s"]
    unfolding run_module_enable m prod.case by (cases "disabled_by_short s"; cases r1) auto
qed

lemma irq_untouched:
  assumes "\<And>k b. keeps (irq_is k b) m"
  shows "wl_irq (snd (run_state m s)) = wl_irq s \<and> brightness (snd (run_state m s)) = brightness s"
proof (cases "run_state m s")
  case (Pair r s')
  from keepsD [OF assms [of "wl_irq s" "brightness s"] _ Pair] show ?thesis by (simp add: Pair)
qed

lemma balanced_same: "balanced s \<Longrightarrow> wl_irq s' = wl_irq s \<Longrightarrow> brightness s' = brightness s \<Longrightarrow> balanced s'"
  by (simp add: balanced_def)

lemma update_balanced:
  assumes "wl_kernel w = K" and "ovp_irq w > 0" and "balanced s"
  shows "balanced (snd (run_state (wled_update_status w x) s))"
proof -
  define pre where "pre = (if x \<noteq> 0 then ok_then (wled_set_brightness w x) (\<lambda>_.
      if version w < 5 then wled3_sync_toggle w else wled5_mod_sync_toggle w) else ret (Inr ()))"
  obtain r1 s1 where p: "run_state pre s = (r1, s1)" by force
  have "keeps (irq_is k b) pre" for k b unfolding pre_def by (intro keeps_rules)
  from irq_untouched [OF this, of s] p have same: "wl_irq s1 = wl_irq s" "brightness s1 = brightness s" by auto
  have b1: "balanced s1" by (rule balanced_same [OF assms(3) same])
  show ?thesis
  proof (cases r1)
    case (Inl e)
    then show ?thesis using p b1 by (simp add: wled_update_status_def pre_def [symmetric] run_ok_then)
  next
    case (Inr u)
    obtain r2 s2 where m: "run_state (wled_module_enable w (x \<noteq> 0)) s1 = (r2, s2)" by force
    note irq = module_enable_irq [OF assms(1,2) m]
    have "(ucast x :: u32) = 0 \<longleftrightarrow> x = 0" by transfer simp
    then show ?thesis
      using p b1 irq m Inr unfolding wled_update_status_def pre_def [symmetric]
      by (cases r2) (auto simp: run_ok_then balanced_def)
  qed
qed

lemma short_balanced:
  assumes "wl_kernel w = K" and "ovp_irq w > 0" and "balanced s"
  shows "balanced (snd (run_state (wled_short_irq_handler w t1 t2) s))"
proof -
  define s0 where "s0 = s\<lparr>short_count := short_count s + 1\<rparr>"
  have b0: "balanced s0" by (rule balanced_same [OF assms(3)]) (simp_all add: s0_def)
  obtain r s1 where m: "run_state (wled_module_enable w False) s0 = (r, s1)" by force
  note off = module_enable_irq [OF assms(1,2) m]
  define s2 where "s2 = (if t1 - last_short_event s1 > 1000000 then s1\<lparr>short_count := 1\<rparr> else s1)"
  define s3 where "s3 = s2\<lparr>last_short_event := t2\<rparr>"
  obtain r' s4 where n: "run_state (wled_module_enable w True) s3 = (r', s4)" by force
  note on = module_enable_irq [OF assms(1,2) n]
  have same: "wl_irq s3 = wl_irq s1" "brightness s3 = brightness s1" "wl_irq s2 = wl_irq s1" "brightness s2 = brightness s1"
    by (simp_all add: s3_def s2_def)
  show ?thesis
  proof (cases r)
    case (Inl e)
    then show ?thesis
      using b0 off m by (simp add: wled_short_irq_handler_def s0_def [symmetric] State_Monad.bind_def balanced_def)
  next
    case (Inr u)
    have "run_state (wled_short_irq_handler w t1 t2) s =
        (if short_count s2 > 5 then ((), s2\<lparr>disabled_by_short := True\<rparr>) else ((), s4))"
      using m n Inr by (simp add: wled_short_irq_handler_def s0_def [symmetric] State_Monad.bind_def s2_def [symmetric]
          s3_def [symmetric])
    moreover have "balanced (s2\<lparr>disabled_by_short := True\<rparr>)" "balanced s4"
      using b0 off on Inr same by (cases r'; auto simp: balanced_def)+
    ultimately show ?thesis by simp
  qed
qed

lemma work_balanced:
  assumes "wl_kernel w = K" and "ovp_irq w > 0" and "balanced s" and "queued (wl_irq s)"
  shows "balanced (snd (run_state (wled_ovp_work w) (s\<lparr>wl_irq := snd (k_cancel (wl_kernel w) (wl_irq s))\<rparr>)))"
proof -
  obtain c k where c: "k_cancel K (wl_irq s) = (c, k)" by force
  show ?thesis
    using assms(2-4) cancel_law [OF c] enable_law [of k]
    by (auto simp: balanced_def wled_ovp_work_def wl_irqs_def assms(1) c)
qed

lemma steps_balanced:
  assumes "wled_steps w queued depth s s'" and "wl_kernel w = K" and "ovp_irq w > 0" and "balanced s"
  shows "balanced s'"
  using assms
proof (induction rule: wled_steps.induct)
  case (over_voltage s t now junk)
  then show ?case using balanced_same irq_untouched [OF keeps_ovp_handler] by blast
qed (auto intro: update_balanced short_balanced work_balanced)

end

end
