(* ===== verification/Wled_Correct.thy ===== *)
theory Wled_Correct
  imports Wled_Irq
begin

text \<open>
  Properties of the backlight driver: balanced interrupts, the final short circuit, the
  brightness registers, string detection, and the configuration.
\<close>

section \<open>Addresses\<close>

definition aligned :: "('w, 'k) wled \<Rightarrow> bool" where
  "aligned w \<longleftrightarrow> ucast (ctrl_addr w) AND (0xff :: u32) = 0 \<and> ucast (sink_addr w) AND (0xff :: u32) = 0 \<and>
     (\<forall>j\<in>set (strings w). j < 4)"

lemma addr_neq: "b AND 0xff = 0 \<Longrightarrow> c AND 0xff = 0 \<Longrightarrow> x AND 0xff \<noteq> y AND 0xff \<Longrightarrow> b + x \<noteq> c + y" for b c x y :: u32
  using low_byte_add by metis

lemma less_4: "j < 4 \<Longrightarrow> j = 0 \<or> j = 1 \<or> j = 2 \<or> j = (3 :: nat)"
  by auto

section \<open>Writes to the enable register\<close>

definition writes_to :: "u32 \<Rightarrow> bus_op \<Rightarrow> bool" where
  "writes_to a x = (case x of Write b _ \<Rightarrow> b = a | UpdateBits b _ _ \<Rightarrow> b = a | BulkWrite b bs \<Rightarrow> a \<in> span b (length bs) | _ \<Rightarrow> False)"

definition enable_ops :: "('w, 'k) wled \<Rightarrow> bus_op list \<Rightarrow> bus_op list" where
  "enable_ops w l = filter (writes_to (ctrl w WLED3_CTRL_REG_MOD_EN)) l"

lemma enable_ops_append [simp]: "enable_ops w (k @ l) = enable_ops w k @ enable_ops w l"
  by (simp add: enable_ops_def)

text \<open>Disabled for good: the enable register has been written as \<open>l\<close> says, and nothing is to come.\<close>

definition latched :: "('b, 'k) wled \<Rightarrow> bus_op list \<Rightarrow> 'k \<Rightarrow> (bus_op list \<times> 'w, 'k) wled_state \<Rightarrow> bool" where
  "latched w l k s \<longleftrightarrow> disabled_by_short s \<and> wl_irq s = k \<and> enable_ops w (fst (wl_bus s)) = l"

lemma latched_io [keeps_rules]:
  "\<not> writes_to (ctrl v WLED3_CTRL_REG_MOD_EN) x \<Longrightarrow> keeps (latched v l k) (wl_io (log_op x m))"
  by (rule keepsI) (auto simp: wl_io_def wp_def latched_def enable_ops_def log_op_def split: prod.split)

lemma le16_length [simp]: "length (le16_bytes x) = 2"
  by (simp add: le16_bytes_def)

lemma not_enable:
  assumes "aligned w"
  shows "x AND 0xff \<noteq> 0x46 \<Longrightarrow> \<not> writes_to (ctrl w WLED3_CTRL_REG_MOD_EN) (UpdateBits (sink w x) m v)"
    and "x AND 0xff \<noteq> 0x46 \<Longrightarrow> (x + 1) AND 0xff \<noteq> 0x46 \<Longrightarrow>
     \<not> writes_to (ctrl w WLED3_CTRL_REG_MOD_EN) (BulkWrite (sink w x) (le16_bytes b))"
    and "x AND 0xff \<noteq> 0x46 \<Longrightarrow> (x + 1) AND 0xff \<noteq> 0x46 \<Longrightarrow>
     \<not> writes_to (ctrl w WLED3_CTRL_REG_MOD_EN) (BulkWrite (ctrl w x) (le16_bytes b))"
  using assms addr_neq [of "ucast (sink_addr w)" "ucast (ctrl_addr w)" x "0x46"]
    addr_neq [of "ucast (sink_addr w)" "ucast (ctrl_addr w)" "x + 1" "0x46"]
    addr_neq [of "ucast (ctrl_addr w)" "ucast (ctrl_addr w)" x "0x46"]
    addr_neq [of "ucast (ctrl_addr w)" "ucast (ctrl_addr w)" "x + 1" "0x46"]
  by (auto simp: writes_to_def aligned_def add.assoc)

lemma keeps_for_each_in: "(\<And>x. x \<in> set xs \<Longrightarrow> keeps I (f x)) \<Longrightarrow> keeps I (for_each f xs)"
  by (induction xs) (auto intro!: keeps_rules)

lemma latched_brightness:
  assumes "wl_regmap w = traced rm" and "aligned w"
  shows "keeps (latched w l k) (wled_set_brightness w b)"
proof -
  have j: "j \<in> set (strings w) \<Longrightarrow> j = 0 \<or> j = 1 \<or> j = 2 \<or> j = 3" for j
    using assms(2) less_4 by (auto simp: aligned_def)
  note bulk = not_enable(2,3) [OF assms(2)]
  have 3: "keeps (latched w l k) (wled3_set_brightness w b)"
    unfolding wled3_set_brightness_def Let_def assms(1) traced_simps
    by (intro keeps_for_each_in latched_io bulk; drule j; elim disjE; simp)
  have 4: "keeps (latched w l k) (wled4_set_brightness w b)"
    unfolding wled4_set_brightness_def Let_def assms(1) traced_simps
    by (intro keeps_for_each_in latched_io bulk; drule j; elim disjE; simp)
  have 5: "keeps (latched w l k) (wled5_set_brightness w b)"
    unfolding wled5_set_brightness_def Let_def assms(1) traced_simps
    by (intro latched_io bulk) simp_all
  show ?thesis unfolding wled_set_brightness_def by (intro keeps_rules 3 4 5)
qed

lemma latched_sync:
  assumes "wl_regmap w = traced rm" and "aligned w"
  shows "keeps (latched w l k) (wled3_sync_toggle w)" and "keeps (latched w l k) (wled5_mod_sync_toggle w)"
  unfolding wled3_sync_toggle_def wled5_mod_sync_toggle_def Let_def assms(1) traced_simps
  by (intro keeps_rules not_enable(1) [OF assms(2)]; simp)+

lemma latched_module: "keeps (latched w l k) (wled_module_enable v on)"
  by (rule keepsI) (simp add: wp_def run_module_enable latched_def)

lemma latched_update:
  assumes "wl_regmap w = traced rm" and "aligned w"
  shows "keeps (latched w l k) (wled_update_status w b)"
  unfolding wled_update_status_def
  by (intro keeps_rules keeps_modify_st latched_brightness [OF assms] latched_sync [OF assms] latched_module)
    (auto simp: latched_def)

lemma latched_short: "keeps (latched w l k) (wled_short_irq_handler v t1 t2)"
  unfolding wled_short_irq_handler_def
  by (intro keeps_rules keeps_modify_st latched_module) (auto simp: latched_def)

lemma latched_steps:
  assumes "wled_steps w queued depth s s'" and "wl_regmap w = traced rm" and "aligned w"
    and "latched w l k s" and "\<not> queued k" and "depth k > 0"
  shows "latched w l k s'"
  using assms
proof (induction rule: wled_steps.induct)
  case (update s t b)
  then show ?case using keepsD [OF latched_update] by (metis prod.collapse)
next
  case (short s t t1 t2)
  then show ?case using keepsD [OF latched_short] by (metis prod.collapse)
qed (auto simp: latched_def)

text \<open>The interrupt and the flags when \<open>probe\<close> has succeeded.\<close>

definition fresh :: "('k \<Rightarrow> bool) \<Rightarrow> ('k \<Rightarrow> nat) \<Rightarrow> ('k \<Rightarrow> bool) \<Rightarrow> ('w, 'k) wled_state \<Rightarrow> bool" where
  "fresh queued depth unbalanced s \<longleftrightarrow> brightness s = 0 \<and> depth (wl_irq s) = 1 \<and> \<not> queued (wl_irq s) \<and> \<not> unbalanced (wl_irq s)"

text \<open>
  C19. \<open>enable_irq\<close> and \<open>disable_irq\<close> stay balanced: whatever the register bus returns, and in
  whatever order brightness changes, short circuits, over-voltage interrupts and the delayed work
  come, the over-voltage interrupt is never enabled while it is not disabled. The work is queued
  only while the interrupt is disabled, and while the light is off the interrupt is disabled, once
  more if the work is still queued.
\<close>

theorem wled_irq_balanced:
  assumes "delayed_irq (wl_kernel w) queued depth unbalanced" and "ovp_irq w > 0"
    and "fresh queued depth unbalanced s" and "wled_steps w queued depth s s'"
  shows "\<not> unbalanced (wl_irq s') \<and> (queued (wl_irq s') \<longrightarrow> depth (wl_irq s') \<ge> 1) \<and>
     (brightness s' = 0 \<longrightarrow> depth (wl_irq s') \<ge> (if queued (wl_irq s') then 2 else 1))"
proof -
  have "delayed_irq.balanced queued depth unbalanced s"
    using assms(3) by (simp add: delayed_irq.balanced_def [OF assms(1)] fresh_def)
  from delayed_irq.steps_balanced [OF assms(1,4) HOL.refl assms(2) this] show ?thesis
    by (auto simp: delayed_irq.balanced_def [OF assms(1)])
qed

text \<open>A version 4 driver at the addresses of the PMI8994, on the executable bus and kernel.\<close>

definition demo_wled :: "(bus_op list \<times> sim, simk) wled" where
  "demo_wled =
     \<lparr>wl_regmap = traced (sim_regmap {}), wl_kernel = sim_irqs, ctrl_addr = 0xd800, sink_addr = 0xd900, max_string_count = 4,
      max_brightness = 4095, version = 4, has_short_detect = True, short_irq = 7, ovp_irq = 8, cfg = wled4_config_defaults\<rparr>"

definition demo_state :: "(bus_op list \<times> sim, simk) wled_state" where
  "demo_state = wled_state0 ([], \<lparr>sim_reg = (\<lambda>_. 0), sim_err = [], sim_hw = []\<rparr>)
     \<lparr>sk_queued = False, sk_depth = 1, sk_unbalanced = False\<rparr>"

lemma demo_kernel [simp]: "wl_kernel demo_wled = sim_irqs" "ovp_irq demo_wled = 8" "wl_regmap demo_wled = traced (sim_regmap {})"
  by (simp_all add: demo_wled_def)

lemma demo_fresh: "fresh sk_queued sk_depth sk_unbalanced (demo_state\<lparr>short_count := n\<rparr>)"
  by (simp add: fresh_def demo_state_def wled_state0_def)

lemma demo_aligned: "aligned demo_wled"
  by (auto simp: aligned_def demo_wled_def strings_def wled4_config_defaults_def)

theorem wled_irq_balanced_witness:
  "\<not> sk_unbalanced (wl_irq (snd (run_state (wled_short_irq_handler demo_wled 5 6)
     (snd (run_state (wled_update_status demo_wled 2048) demo_state)))))"
  using wled_irq_balanced [of demo_wled sk_queued sk_depth sk_unbalanced, OF _ _ demo_fresh [of 0]
      wled_steps.short [OF wled_steps.update [OF wled_steps.refl]]]
  by (simp add: sim_irq.delayed_irq_axioms demo_state_def wled_state0_def)

lemma run_module_bit:
  "wl_regmap w = traced rm \<Longrightarrow> run_state (module_bit w on) s = (r, s') \<Longrightarrow>
     fst (wl_bus s') = fst (wl_bus s) @ [UpdateBits (ctrl w WLED3_CTRL_REG_MOD_EN) 0x80 (if on then 0x80 else 0)]"
  by (cases "wl_bus s") (auto simp: module_bit_def run_wl_io split: prod.splits)

text \<open>The handler sets the flag only after it has switched the module off.\<close>

lemma short_sets_flag:
  assumes "run_state (wled_short_irq_handler w t1 t2) s = ((), s1)" and "\<not> disabled_by_short s" and "disabled_by_short s1"
  obtains s0 m where "run_state (wled_module_enable w False) s0 = (Inr (), m)" and "wl_irq s0 = wl_irq s"
    and "wl_bus s0 = wl_bus s" and "brightness s0 = brightness s" and "wl_irq s1 = wl_irq m" and "wl_bus s1 = wl_bus m"
proof -
  let ?s0 = "s\<lparr>short_count := short_count s + 1\<rparr>"
  obtain r m where m: "run_state (wled_module_enable w False) ?s0 = (r, m)" by force
  have flag: "\<not> disabled_by_short m"
    using m assms(2) module_bit_same [of w False ?s0] by (auto simp: run_module_enable split: prod.splits sum.splits)
  have flag2: "disabled_by_short (snd (run_state (wled_module_enable w True) x)) = disabled_by_short x" for x
    using module_bit_same [of w True x] by (auto simp: run_module_enable split: prod.splits sum.splits)
  show ?thesis
  proof (cases r)
    case (Inl e)
    then have "s1 = m" using assms(1) m by (simp add: wled_short_irq_handler_def State_Monad.bind_def)
    with flag assms(3) show ?thesis by simp
  next
    case (Inr u)
    let ?s2 = "if t1 - last_short_event m > 1000000 then m\<lparr>short_count := 1\<rparr> else m"
    have f2: "\<not> disabled_by_short (?s2\<lparr>last_short_event := t2\<rparr>)" using flag by simp
    have "s1 = ?s2\<lparr>disabled_by_short := True\<rparr>"
    proof (rule ccontr)
      assume "s1 \<noteq> ?s2\<lparr>disabled_by_short := True\<rparr>"
      then have "s1 = snd (run_state (wled_module_enable w True) (?s2\<lparr>last_short_event := t2\<rparr>))"
        using assms(1) m Inr
        by (simp add: wled_short_irq_handler_def State_Monad.bind_def split: prod.splits if_split_asm)
      then have "\<not> disabled_by_short s1" by (simp add: flag2 flag)
      with assms(3) show False by simp
    qed
    then have "wl_irq s1 = wl_irq m" "wl_bus s1 = wl_bus m" by simp_all
    with m Inr show ?thesis by (intro that [of ?s0 m]) simp_all
  qed
qed

text \<open>
  C20. A sixth short circuit within its second disables the light for good: when the handler sets
  \<open>disabled_by_short\<close>, its last write to the enable register has switched the module off, and no
  later sequence of brightness changes, interrupts and delayed work writes to that register
  again. (String detection, which ignores the flag, cannot run: its interrupt stays disabled.)
\<close>

theorem wled_short_latch:
  assumes "delayed_irq (wl_kernel w) queued depth unbalanced" and "wl_regmap w = traced rm" and "aligned w" and "ovp_irq w > 0"
    and "fresh queued depth unbalanced s0" and "wled_steps w queued depth s0 s"
    and "\<not> disabled_by_short s" and "run_state (wled_short_irq_handler w t1 t2) s = ((), s1)" and "disabled_by_short s1"
    and "wled_steps w queued depth s1 s2"
  shows "enable_ops w (fst (wl_bus s2)) = enable_ops w (fst (wl_bus s1)) \<and> enable_ops w (fst (wl_bus s1)) \<noteq> [] \<and>
     last (enable_ops w (fst (wl_bus s1))) = UpdateBits (ctrl w WLED3_CTRL_REG_MOD_EN) WLED3_CTRL_REG_MOD_EN_MASK 0"
proof -
  obtain x m where x: "run_state (wled_module_enable w False) x = (Inr (), m)" "wl_irq x = wl_irq s" "wl_bus x = wl_bus s"
      "brightness x = brightness s" and m: "wl_irq s1 = wl_irq m" "wl_bus s1 = wl_bus m"
    by (rule short_sets_flag [OF assms(8,7,9)])
  have "queued (wl_irq s) \<longrightarrow> depth (wl_irq s) \<ge> 1" using wled_irq_balanced [OF assms(1,4,5,6)] by simp
  with delayed_irq.module_enable_irq [OF assms(1) HOL.refl assms(4) x(1)] x(2)
  have calm: "\<not> queued (wl_irq s1)" "depth (wl_irq s1) > 0" by (auto simp: m split: if_splits)
  have "latched w (enable_ops w (fst (wl_bus s1))) (wl_irq s1) s1" using assms(9) by (simp add: latched_def)
  from latched_steps [OF assms(10,2,3) this calm]
  have same: "enable_ops w (fst (wl_bus s2)) = enable_ops w (fst (wl_bus s1))" by (simp add: latched_def)
  obtain r y where y: "run_state (module_bit w False) x = (r, y)" by force
  have "wl_bus m = wl_bus y" using x(1) by (auto simp: run_module_enable y split: if_splits sum.splits)
  then have "enable_ops w (fst (wl_bus s1)) =
      enable_ops w (fst (wl_bus x)) @ [UpdateBits (ctrl w WLED3_CTRL_REG_MOD_EN) WLED3_CTRL_REG_MOD_EN_MASK 0]"
    using run_module_bit [OF assms(2) y] by (simp add: m) (simp add: enable_ops_def writes_to_def)
  then show ?thesis by (simp add: same)
qed

theorem wled_short_latch_witness:
  "last (enable_ops demo_wled (fst (wl_bus (snd (run_state (wled_short_irq_handler demo_wled 0 0) (demo_state\<lparr>short_count := 5\<rparr>))))))
     = UpdateBits (ctrl demo_wled WLED3_CTRL_REG_MOD_EN) WLED3_CTRL_REG_MOD_EN_MASK 0"
proof -
  let ?s = "demo_state\<lparr>short_count := 5\<rparr>"
  define s1 where "s1 = snd (run_state (wled_short_irq_handler demo_wled 0 0) ?s)"
  have run: "run_state (wled_short_irq_handler demo_wled 0 0) ?s = ((), s1)" by (simp add: s1_def prod_eq_iff)
  have flag: "disabled_by_short s1"
    by (simp add: s1_def wled_short_irq_handler_def State_Monad.bind_def run_module_enable module_bit_def run_wl_io demo_state_def
        wled_state0_def demo_wled_def sim_regmap_def run_sim_transfer sim_tick_def split: prod.split)
  have "\<not> disabled_by_short ?s" by (simp add: demo_state_def wled_state0_def)
  from wled_short_latch [OF _ _ demo_aligned _ demo_fresh wled_steps.refl this run flag wled_steps.refl]
  show ?thesis by (simp add: sim_irq.delayed_irq_axioms s1_def)
qed

end
