(* ===== verification/Wled_Bright.thy ===== *)
theory Wled_Bright
  imports Wled_Correct
begin

text \<open>
  What the backlight driver leaves in the registers, over any bus that follows the laws of
  \<open>regmap_bus\<close>: the brightness of version 4 and 3, and content-adaptive brightness after string
  detection.
\<close>

section \<open>Two bytes\<close>

lemma le16_nth [simp]: "le16_bytes v ! 0 = ucast v" "le16_bytes v ! Suc 0 = ucast (drop_bit 8 v)"
  by (simp_all add: le16_bytes_def)

lemma le16_value: "unat (ucast v :: u8) + 256 * unat (ucast (drop_bit 8 v) :: u8) = unat v" for v :: u16
proof -
  have v: "unat v < 65536" using unsigned_less [where 'a = nat and w = v] by simp
  then have "unat v div 256 < 256" by (simp add: less_mult_imp_div_less)
  then have "unat (ucast (drop_bit 8 v) :: u8) = unat v div 256"
    by (simp add: unsigned_ucast_eq take_bit_eq_mod drop_bit_eq_div unat_div)
  moreover have "unat (ucast v :: u8) = unat v mod 256"
    by (simp add: unsigned_ucast_eq take_bit_eq_mod)
  ultimately show ?thesis by simp
qed

lemma and_fff: "unat v \<le> 4095 \<Longrightarrow> v AND 0xfff = v" for v :: u16
proof -
  assume "unat v \<le> 4095"
  then have "take_bit 12 (unat v) = unat v" by (intro take_bit_nat_eq_self) simp
  then have "take_bit 12 v = v" by (metis unsigned_take_bit_eq word_unat_eq_iff)
  then show ?thesis by (simp add: take_bit_eq_mask mask_eq_exp_minus_1)
qed

lemma wp_wl_io [simp]: "wp (wl_io m) Q s = wp m (\<lambda>r b. Q r (s\<lparr>wl_bus := b\<rparr>)) (wl_bus s)"
  by (simp add: wl_io_def)

context regmap_bus
begin

lemma wp_le16:
  assumes "\<And>e w'. e < 0 \<Longrightarrow> unchanged reg vol {a, a + 1} w w' \<Longrightarrow> Q (Inl e) w'"
    and "\<And>w'. unchanged reg vol {a, a + 1} w w' \<Longrightarrow> (a \<notin> vol \<Longrightarrow> reg w' a = ucast v) \<Longrightarrow>
      (a + 1 \<notin> vol \<Longrightarrow> reg w' (a + 1) = ucast (drop_bit 8 v)) \<Longrightarrow> Q (Inr ()) w'"
  shows "wp (regmap_bulk_write rm a (le16_bytes v)) Q w"
proof (rule wp_bulk_write)
  fix w' assume u: "unchanged reg vol (span a (length (le16_bytes v))) w w'"
    and r: "\<And>i. i < length (le16_bytes v) \<Longrightarrow> a + of_nat i \<notin> vol \<Longrightarrow> reg w' (a + of_nat i) = le16_bytes v ! i"
  from u r [of 0] r [of 1] show "Q (Inr ()) w'" by (intro assms(2)) auto
qed (auto intro: assms(1))

text \<open>A 16-bit value in each of several register pairs.\<close>

definition pairs :: "u32 \<Rightarrow> (nat \<Rightarrow> u32) \<Rightarrow> u16 \<Rightarrow> nat list \<Rightarrow> ('w, 'k) wled_state \<Rightarrow> bool" where
  "pairs base f v js s \<longleftrightarrow>
     (\<forall>j\<in>set js. reg (wl_bus s) (base + f j) = ucast v \<and> reg (wl_bus s) (base + f j + 1) = ucast (drop_bit 8 v))"

lemma wp_pairs:
  assumes "\<And>i j. i \<in> set (ds @ js) \<Longrightarrow> j \<in> set (ds @ js) \<Longrightarrow> f i + 1 \<noteq> f j"
    and "\<And>j. j \<in> set (ds @ js) \<Longrightarrow> base + f j \<notin> vol \<and> base + f j + 1 \<notin> vol"
    and "pairs base f v ds s" and "wl_regmap w = rm"
  shows "wp (for_each (\<lambda>j. wl_bulk w (base + f j) (le16_bytes v)) js) (\<lambda>r s'. r = Inr () \<longrightarrow> pairs base f v (ds @ js) s') s"
  using assms
proof (induction js arbitrary: ds s)
  case Nil
  then show ?case by simp
next
  case (Cons x js)
  have step: "pairs base f v (ds @ [x]) (s\<lparr>wl_bus := b\<rparr>)"
    if u: "unchanged reg vol {base + f x, base + f x + 1} (wl_bus s) b"
      and lo: "base + f x \<notin> vol \<Longrightarrow> reg b (base + f x) = ucast v"
      and hi: "base + f x + 1 \<notin> vol \<Longrightarrow> reg b (base + f x + 1) = ucast (drop_bit 8 v)" for b
  proof -
    have x: "base + f x \<notin> vol" "base + f x + 1 \<notin> vol" using Cons.prems(2) [of x] by auto
    have "reg b (base + f j) = ucast v \<and> reg b (base + f j + 1) = ucast (drop_bit 8 v)" if j: "j \<in> set ds" for j
    proof -
      have d: "f x + 1 \<noteq> f j" "f j + 1 \<noteq> f x" using Cons.prems(1) [of x j] Cons.prems(1) [of j x] j by auto
      have n: "base + f j \<notin> vol" "base + f j + 1 \<notin> vol" using Cons.prems(2) [of j] j by auto
      have "f j \<noteq> f x \<Longrightarrow> base + f j \<notin> {base + f x, base + f x + 1}" "f j \<noteq> f x \<Longrightarrow> base + f j + 1 \<notin> {base + f x, base + f x + 1}"
        using d by (auto simp: add.assoc)
      then show ?thesis
        using u n lo hi x Cons.prems(3) j by (cases "f j = f x") (auto simp: unchanged_def pairs_def)
    qed
    then show ?thesis using lo hi x by (auto simp: pairs_def)
  qed
  have rest: "wp (for_each (\<lambda>j. wl_bulk w (base + f j) (le16_bytes v)) js)
      (\<lambda>r s'. r = Inr () \<longrightarrow> pairs base f v (ds @ x # js) s') t" if "pairs base f v (ds @ [x]) t" for t
    using Cons.IH [of "ds @ [x]" t] Cons.prems(1,2,4) that by simp
  show ?case
    unfolding for_each.simps wp_ok_then wp_wl_io Cons.prems(4)
    by (rule wp_le16) (use step rest Cons.prems(4) in auto)
qed

text \<open>Transfers to other registers keep the pairs.\<close>

lemma pairs_kept:
  "pairs base f v js s \<Longrightarrow> unchanged reg vol A (wl_bus s) b \<Longrightarrow>
     (\<And>j. j \<in> set js \<Longrightarrow> base + f j \<notin> vol \<union> A \<and> base + f j + 1 \<notin> vol \<union> A) \<Longrightarrow> pairs base f v js (s\<lparr>wl_bus := b\<rparr>)"
  by (auto simp: pairs_def unchanged_def)

lemma keeps_pairs_upd:
  assumes "wl_regmap w = rm" and "\<And>j. j \<in> set js \<Longrightarrow> base + f j \<notin> insert a vol \<and> base + f j + 1 \<notin> insert a vol"
  shows "keeps (pairs base f v js) (wl_upd w a m x)"
  by (rule keepsI, unfold wp_wl_io assms(1), rule wp_update_bits)
    (use assms(2) in \<open>auto intro!: pairs_kept\<close>)

lemma keeps_pairs_enable:
  fixes w :: "('w, 'k) wled"
  assumes "wl_regmap w = rm"
    and "\<And>j. j \<in> set js \<Longrightarrow> base + f j \<notin> insert (ctrl w 0x46) vol \<and> base + f j + 1 \<notin> insert (ctrl w 0x46) vol"
  shows "keeps (pairs base f v js) (wled_module_enable w on)"
proof (rule keepsI)
  fix s :: "('w, 'k) wled_state" assume s: "pairs base f v js s"
  have "keeps (pairs base f v js) (module_bit w on)"
    unfolding module_bit_def by (rule keeps_pairs_upd) (use assms in auto)
  from keepsD [OF this s] s show "wp (wled_module_enable w on) (\<lambda>_. pairs base f v js) s"
    by (cases "run_state (module_bit w on) s") (auto simp: wp_def run_module_enable pairs_def split: sum.split)
qed

end

section \<open>Version 4\<close>

text \<open>The offsets of the brightness registers: pairs that neither overlap nor meet the registers 0x46 and 0x47.\<close>

lemma bright4_apart:
  assumes "i < 4" and "j < 4"
  shows "WLED4_SINK_REG_BRIGHT i + 1 \<noteq> WLED4_SINK_REG_BRIGHT j"
  using less_4 [OF assms(1)] less_4 [OF assms(2)] by (elim disjE) simp_all

lemma bright4_other:
  assumes "j < 4" and "x = 0x46 \<or> x = 0x47"
  shows "WLED4_SINK_REG_BRIGHT j AND 0xff \<noteq> x AND 0xff" and "(WLED4_SINK_REG_BRIGHT j + 1) AND 0xff \<noteq> x AND 0xff"
  using less_4 [OF assms(1)] assms(2) by (elim disjE; simp)+

definition bright4 :: "('w, 'k) wled \<Rightarrow> u16 \<Rightarrow> u16" where
  "bright4 w b = (if b > 0 \<and> b < low_limit w 4 then low_limit w 4 else b) AND 0xfff"

context regmap_bus
begin

lemma update_pairs4:
  assumes rm: "wl_regmap w = rm" and ver: "version w = 4" and al: "aligned w"
    and calm: "\<And>j. j \<in> set (strings w) \<Longrightarrow>
      sink w (WLED4_SINK_REG_BRIGHT j) \<notin> vol \<and> sink w (WLED4_SINK_REG_BRIGHT j) + 1 \<notin> vol"
    and b: "b \<noteq> 0" and run: "run_state (wled_update_status w b) s = (Inr (), s')"
  shows "pairs (ucast (sink_addr w)) (\<lambda>j. WLED4_SINK_REG_BRIGHT j) (bright4 w b) (strings w) s'"
proof -
  let ?P = "pairs (ucast (sink_addr w)) (\<lambda>j. WLED4_SINK_REG_BRIGHT j) (bright4 w b) (strings w)"
  have four: "j < 4" if "j \<in> set (strings w)" for j using al that by (simp add: aligned_def)
  have base: "ucast (ctrl_addr w) AND (0xff :: u32) = 0" "ucast (sink_addr w) AND (0xff :: u32) = 0"
    using al by (simp_all add: aligned_def)
  have apart: "sink w (WLED4_SINK_REG_BRIGHT j) \<noteq> ctrl w 0x46 \<and> sink w (WLED4_SINK_REG_BRIGHT j) + 1 \<noteq> ctrl w 0x46 \<and>
      sink w (WLED4_SINK_REG_BRIGHT j) \<noteq> sink w 0x47 \<and> sink w (WLED4_SINK_REG_BRIGHT j) + 1 \<noteq> sink w 0x47"
    if "j \<in> set (strings w)" for j
    using addr_neq [OF base(2,1) bright4_other(1) [OF four [OF that], of "0x46"]]
      addr_neq [OF base(2,1) bright4_other(2) [OF four [OF that], of "0x46"]]
      addr_neq [OF base(2,2) bright4_other(1) [OF four [OF that], of "0x47"]]
      addr_neq [OF base(2,2) bright4_other(2) [OF four [OF that], of "0x47"]]
    by (simp add: add.assoc)
  have set: "wled_set_brightness w b =
      for_each (\<lambda>j. wl_bulk w (ucast (sink_addr w) + WLED4_SINK_REG_BRIGHT j) (le16_bytes (bright4 w b))) (strings w)"
    by (simp add: wled_set_brightness_def ver wled4_set_brightness_def bright4_def)
  obtain r1 s1 where r1: "run_state (wled_set_brightness w b) s = (r1, s1)" by force
  have "wp (wled_set_brightness w b) (\<lambda>r s'. r = Inr () \<longrightarrow> ?P s') s"
    unfolding set
    by (rule wp_pairs [where ds = "[]" and f = "\<lambda>j. WLED4_SINK_REG_BRIGHT j", unfolded append_Nil])
      (use bright4_apart four calm rm in \<open>simp_all add: pairs_def\<close>)
  then have p1: "r1 = Inr () \<longrightarrow> ?P s1" using r1 by (simp add: wp_def)
  define rest where "rest = ok_then (wled3_sync_toggle w) (\<lambda>_. do {
     s \<leftarrow> State_Monad.get;
     ok_then (if (b \<noteq> 0) \<noteq> (brightness s \<noteq> 0) then wled_module_enable w (b \<noteq> 0) else ret (Inr ())) (\<lambda>_. do {
       _ \<leftarrow> modify_st (\<lambda>s. s\<lparr>brightness := ucast b\<rparr>);
       ret (Inr ())
     })
   })"
  have "keeps ?P rest"
    unfolding rest_def wled3_sync_toggle_def Let_def
    by (intro keeps_rules keeps_modify_st keeps_pairs_upd keeps_pairs_enable rm)
      (use calm apart in \<open>auto simp: pairs_def\<close>)
  moreover have "wled_update_status w b = ok_then (wled_set_brightness w b) (\<lambda>_. rest)"
    using b by (simp add: wled_update_status_def rest_def ver ok_then_assoc)
  ultimately show ?thesis
    using run p1 keepsD [of ?P rest s1] by (auto simp: run_ok_then r1 split: sum.splits)
qed

end



section \<open>Version 3\<close>

context regmap_bus
begin

lemma overlap3:
  assumes "wl_regmap w = rm" and "strings w = [0, 1, 2]" and "\<And>i. i < 4 \<Longrightarrow> ctrl w (0x40 + of_nat i) \<notin> vol"
  shows "wp (wled3_set_brightness w b) (\<lambda>r s'. r = Inr () \<longrightarrow>
     (let v = b AND 0xfff; at = (\<lambda>i. reg (wl_bus s') (ctrl w (0x40 + i)))
      in at 0 = ucast v \<and> at 1 = ucast v \<and> at 2 = ucast v \<and> at 3 = ucast (drop_bit 8 v))) s"
proof -
  have n: "ctrl w 0x40 \<notin> vol" "ctrl w 0x41 \<notin> vol" "ctrl w 0x42 \<notin> vol" "ctrl w 0x43 \<notin> vol"
    using assms(3) [of 0] assms(3) [of 1] assms(3) [of 2] assms(3) [of 3] by simp_all
  show ?thesis
    unfolding wled3_set_brightness_def Let_def assms(1,2) for_each.simps wp_ok_then wp_wl_io
    apply (rule wp_le16)
     apply simp
    apply (simp only: sum.case wp_ok_then wp_wl_io)
    apply (rule wp_le16)
     apply simp
    apply (simp only: sum.case wp_ok_then wp_wl_io)
    apply (rule wp_le16)
     apply simp
    using n apply (simp add: unchanged_def add.assoc)
    done
qed

end
definition demo3 :: "(sim, simk) wled" where
  "demo3 =
     \<lparr>wl_regmap = sim_regmap {}, wl_kernel = sim_irqs, ctrl_addr = 0xd800, sink_addr = 0xd800, max_string_count = 3,
      max_brightness = 4095, version = 3, has_short_detect = False, short_irq = 0, ovp_irq = 0, cfg = wled3_config_defaults\<rparr>"

definition demo4 :: "(sim, simk) wled" where
  "demo4 =
     \<lparr>wl_regmap = sim_regmap {}, wl_kernel = sim_irqs, ctrl_addr = 0xd800, sink_addr = 0xd900, max_string_count = 4,
      max_brightness = 4095, version = 4, has_short_detect = True, short_irq = 7, ovp_irq = 8,
      cfg = wled4_config_defaults\<lparr>num_strings := 1, enabled_strings := [2]\<rparr>\<rparr>"

definition demo_off :: "(sim, simk) wled_state" where
  "demo_off = wled_state0 \<lparr>sim_reg = (\<lambda>_. 0), sim_err = [], sim_hw = []\<rparr>
     \<lparr>sk_queued = False, sk_depth = 1, sk_unbalanced = False\<rparr>"

lemmas demo_run = demo_off_def wled_state0_def sim_regmap_def run_sim_transfer sim_tick_def run_wl_io run_ok_then
  State_Monad.bind_def

text \<open>
  On version 3 the strings overwrite each other: the code puts two bytes at \<open>0x40 + n\<close>
  for string \<open>n\<close>, so with the default strings 0, 1 and 2 the four registers end as low, low, low
  and high byte. Only the last string has its brightness; strings 0 and 1 have the low byte twice.
\<close>

theorem wled3_strings_overlap:
  assumes "regmap_bus rm reg vol" and "wl_regmap w = rm" and "strings w = [0, 1, 2]"
    and "\<forall>i<4. ctrl w (0x40 + of_nat i) \<notin> vol" and "run_state (wled3_set_brightness w b) s = (Inr (), s')"
  shows "reg (wl_bus s') (ctrl w 0x40) = ucast (b AND 0xfff) \<and> reg (wl_bus s') (ctrl w 0x41) = ucast (b AND 0xfff) \<and>
     reg (wl_bus s') (ctrl w 0x42) = ucast (b AND 0xfff) \<and> reg (wl_bus s') (ctrl w 0x43) = ucast (drop_bit 8 (b AND 0xfff))"
proof -
  have "i < 4 \<Longrightarrow> ctrl w (0x40 + of_nat i) \<notin> vol" for i using assms(4) by blast
  from wp_run [OF assms(5) regmap_bus.overlap3 [OF assms(1-3) this]] show ?thesis by (simp add: Let_def)
qed

theorem wled3_strings_overlap_witness:
  "\<exists>s'. run_state (wled3_set_brightness demo3 0x834) demo_off = (Inr (), s') \<and> sim_reg (wl_bus s') (ctrl demo3 0x41) = 0x34"
proof -
  have s: "strings demo3 = [0, 1, 2]" by (simp add: strings_def demo3_def wled3_config_defaults_def)
  have "fst (run_state (wled3_set_brightness demo3 0x834) demo_off) = Inr ()"
    by (simp add: wled3_set_brightness_def strings_def wled3_config_defaults_def Let_def demo_run demo3_def)
  then obtain s' where run: "run_state (wled3_set_brightness demo3 0x834) demo_off = (Inr (), s')"
    by (auto simp: prod_eq_iff)
  from wled3_strings_overlap [OF sim.regmap_bus_axioms _ s _ run, of "{}"]
  have "sim_reg (wl_bus s') (ctrl demo3 0x41) = 0x34" by (simp add: demo3_def)
  with run show ?thesis by blast
qed


section \<open>String detection\<close>

lemma wp_any: "(\<And>v w. wp (f v) Q w) \<Longrightarrow> (\<And>e w. Q (Inl e) w) \<Longrightarrow> wp (ok_then m f) Q s"
  unfolding wp_ok_then by (rule wpI) (auto split: sum.split)

lemma wp_keeps: "keeps I m \<Longrightarrow> I s \<Longrightarrow> (\<And>r s'. I s' \<Longrightarrow> Q r s') \<Longrightarrow> wp m Q s"
  unfolding keeps_def by (blast intro: wp_mono)

lemma cabc4_apart:
  assumes "i < 4" and "j < 4"
  shows "WLED4_SINK_REG_STR_CABC i \<noteq> WLED4_SINK_REG_BRIGHT j" and "WLED4_SINK_REG_STR_CABC i \<noteq> WLED4_SINK_REG_BRIGHT j + 1"
  using less_4 [OF assms(1)] less_4 [OF assms(2)] by (elim disjE; simp)+

lemma cabc4_other:
  assumes "j < 4"
  shows "WLED4_SINK_REG_STR_CABC j AND 0xff \<noteq> 0x46 AND 0xff" and "WLED4_SINK_REG_STR_CABC j AND 0xff \<noteq> 0x48 AND 0xff"
  using less_4 [OF assms] by (elim disjE; simp)+

context regmap_bus
begin

definition cabc_on :: "('w, 'k) wled \<Rightarrow> nat list \<Rightarrow> ('w, 'k) wled_state \<Rightarrow> bool" where
  "cabc_on w js s \<longleftrightarrow> (\<forall>j\<in>set js. reg (wl_bus s) (sink w (WLED4_SINK_REG_STR_CABC j)) AND 0x80 = 0x80)"

lemma cabc_kept:
  "cabc_on w js s \<Longrightarrow> unchanged reg vol A (wl_bus s) b \<Longrightarrow>
     (\<And>j. j \<in> set js \<Longrightarrow> sink w (WLED4_SINK_REG_STR_CABC j) \<notin> vol \<union> A) \<Longrightarrow> cabc_on w js (s\<lparr>wl_bus := b\<rparr>)"
  by (auto simp: cabc_on_def unchanged_def)

lemma masked_80: "masked x 0x80 0x80 AND 0x80 = 0x80" for x :: u8
  by simp

lemma wp_each_cabc:
  assumes "wl_regmap w = rm" and "\<And>j. j \<in> set (ds @ js) \<Longrightarrow> sink w (WLED4_SINK_REG_STR_CABC j) \<notin> vol"
    and "cabc_on w ds s"
  shows "wp (for_each (\<lambda>j. wl_upd w (sink w (WLED4_SINK_REG_STR_CABC j)) WLED4_SINK_REG_STR_CABC_MASK WLED4_SINK_REG_STR_CABC_MASK) js)
    (\<lambda>r s'. r = Inr () \<longrightarrow> cabc_on w (ds @ js) s') s"
  using assms(2,3)
proof (induction js arbitrary: ds s)
  case Nil
  then show ?case by simp
next
  case (Cons x js)
  let ?a = "\<lambda>j. sink w (WLED4_SINK_REG_STR_CABC j)"
  have step: "cabc_on w (ds @ [x]) (s\<lparr>wl_bus := b\<rparr>)"
    if u: "unchanged reg vol {?a x} (wl_bus s) b" and v: "?a x \<notin> vol \<Longrightarrow> reg b (?a x) = masked (reg (wl_bus s) (?a x)) 0x80 0x80" for b
  proof -
    have n: "?a j \<notin> vol" if "j \<in> set (ds @ [x])" for j using Cons.prems(1) [of j] that by auto
    have x: "reg b (?a x) AND 0x80 = 0x80" using v n [of x] by simp
    have "reg b (?a j) AND 0x80 = 0x80" if "j \<in> set ds" for j
      using u n [of j] x Cons.prems(2) that by (cases "?a j = ?a x") (auto simp: unchanged_def cabc_on_def)
    with x show ?thesis by (auto simp: cabc_on_def)
  qed
  have rest: "wp (for_each (\<lambda>j. wl_upd w (?a j) WLED4_SINK_REG_STR_CABC_MASK WLED4_SINK_REG_STR_CABC_MASK) js)
      (\<lambda>r s'. r = Inr () \<longrightarrow> cabc_on w (ds @ x # js) s') t" if "cabc_on w (ds @ [x]) t" for t
    using Cons.IH [of "ds @ [x]" t] Cons.prems(1) that by simp
  show ?case
    unfolding for_each.simps wp_ok_then wp_wl_io assms(1)
    by (rule wp_update_bits) (use step rest in \<open>auto simp: assms(1)\<close>)
qed

lemma detection_cabc:
  fixes w :: "('w, 'k) wled"
  assumes rm: "wl_regmap w = rm" and ver: "version w = 4" and al: "aligned w"
    and calm: "\<And>j. j \<in> set (strings w) \<Longrightarrow> sink w (WLED4_SINK_REG_STR_CABC j) \<notin> vol"
  shows "wp (wled_auto_string_detection w junk) (\<lambda>r s'. r = Inr () \<and> \<not> disabled_by_short s' \<longrightarrow> cabc_on w (strings w) s') s"
proof -
  let ?P = "cabc_on w (strings w) :: ('w, 'k) wled_state \<Rightarrow> bool"
  let ?Q = "\<lambda>r s'. r = Inr () \<and> \<not> disabled_by_short s' \<longrightarrow> ?P s'"
  have four: "j < 4" if "j \<in> set (strings w)" for j using al that by (simp add: aligned_def)
  have base: "ucast (ctrl_addr w) AND (0xff :: u32) = 0" "ucast (sink_addr w) AND (0xff :: u32) = 0"
    using al by (simp_all add: aligned_def)
  have apart: "sink w (WLED4_SINK_REG_STR_CABC j) \<noteq> ctrl w 0x46" "sink w (WLED4_SINK_REG_STR_CABC j) \<noteq> ctrl w 0x48"
    if "j \<in> set (strings w)" for j
    using addr_neq [OF base(2,1) cabc4_other(1) [OF four [OF that]]] addr_neq [OF base(2,1) cabc4_other(2) [OF four [OF that]]]
    by auto
  have k1: "keeps ?P (module_bit w on)" for on
    unfolding module_bit_def
    by (rule keepsI, unfold wp_wl_io rm, rule wp_update_bits) (use calm apart in \<open>auto intro!: cabc_kept\<close>)
  have k2: "keeps ?P (wl_write w (ctrl w WLED3_CTRL_REG_FEEDBACK_CONTROL) v)" for v
    by (rule keepsI, unfold wp_wl_io rm, rule wp_write) (use calm apart in \<open>auto intro!: cabc_kept\<close>)
  have k3: "keeps ?P (wled4_set_brightness w b)" for b
    unfolding wled4_set_brightness_def Let_def
  proof (rule keeps_for_each_in, rule keepsI, unfold wp_wl_io rm)
    fix i and s :: "('w, 'k) wled_state" and v
    assume i: "i \<in> set (strings w)" and s: "?P s"
    show "wp (regmap_bulk_write rm (sink w (WLED4_SINK_REG_BRIGHT i)) (le16_bytes v)) (\<lambda>r b. ?P (s\<lparr>wl_bus := b\<rparr>)) (wl_bus s)"
      by (rule wp_le16; rule cabc_kept [OF s], assumption)
        (use calm cabc4_apart [OF four four [OF i]] in \<open>auto simp: add.assoc\<close>)
  qed
  define rest where "rest = ok_then (wl_write w (ctrl w WLED3_CTRL_REG_FEEDBACK_CONTROL) 0) (\<lambda>_. do {
      s \<leftarrow> State_Monad.get;
      ok_then (wled4_set_brightness w (ucast (brightness s))) (\<lambda>_. module_bit w True)
    })"
  have rest: "keeps ?P rest" unfolding rest_def by (intro keeps_rules k1 k2 k3)
  have cabc: "wp (wled_cabc_config w True) (\<lambda>r s'. r = Inr () \<longrightarrow> ?P s') t" for t
    using wp_each_cabc [OF rm, of "[]" "strings w" t] calm by (simp add: wled_cabc_config_def ver wled4_cabc_config_def cabc_on_def)
  have tail: "wp (ok_then (wled_cabc_config w True) (\<lambda>_. rest)) ?Q t" for t
    unfolding wp_ok_then
    by (rule wp_mono [OF cabc]) (auto split: sum.split intro!: wp_keeps [OF rest])
  have "wp (apply_detection w sc sv) ?Q t" for sc sv t
    unfolding apply_detection_def Let_def rest_def [symmetric] by (auto simp del: wp_ok_then intro!: wp_any tail)
  then show ?thesis
    unfolding wled_auto_string_detection_def by (intro wp_any) (auto simp del: wp_ok_then)
qed

end

text \<open>
  String detection switches content-adaptive brightness on: when it ends without an error
  on version 4 with some string connected, the CABC bit of every configured string is set. This
  does not depend on the setting \<open>cabc\<close>: a driver configured without it (as for this phone, where
  the panel gives no such signal and the strings stay dark) has it after a detection.
\<close>

theorem wled_detection_sets_cabc:
  assumes "regmap_bus rm reg vol" and "wl_regmap w = rm" and "version w = 4" and "aligned w"
    and "\<forall>j\<in>set (strings w). sink w (WLED4_SINK_REG_STR_CABC j) \<notin> vol"
    and "run_state (wled_auto_string_detection w junk) s = (Inr (), s')" and "\<not> disabled_by_short s'"
    and "j \<in> set (strings w)"
  shows "reg (wl_bus s') (sink w (WLED4_SINK_REG_STR_CABC j)) AND 0x80 = 0x80"
proof -
  have "sink w (WLED4_SINK_REG_STR_CABC j) \<notin> vol" if "j \<in> set (strings w)" for j using assms(5) that by blast
  from wp_run [OF assms(6) regmap_bus.detection_cabc [OF assms(1-4) this]] show ?thesis
    using assms(7,8) by (simp add: regmap_bus.cabc_on_def [OF assms(1)])
qed

theorem wled_detection_sets_cabc_witness:
  "\<exists>s'. run_state (wled_auto_string_detection demo4 0) demo_off = (Inr (), s') \<and> \<not> cabc (cfg demo4) \<and>
     sim_reg (wl_bus s') (sink demo4 (WLED4_SINK_REG_STR_CABC 2)) AND 0x80 = 0x80"
proof -
  have s: "strings demo4 = [2]" by (simp add: strings_def demo4_def)
  have "fst (run_state (wled_auto_string_detection demo4 0) demo_off) = Inr () \<and>
      \<not> disabled_by_short (snd (run_state (wled_auto_string_detection demo4 0) demo_off))"
    by (simp add: wled_auto_string_detection_def apply_detection_def test_strings.simps sink_bit_def enable_modulators_def
        wled_cabc_config_def wled4_cabc_config_def wled4_set_brightness_def ovp_delay_def wled_ovp_fault_status_def has_def
        strings_def Let_def demo_run demo4_def module_bit_def wled4_config_defaults_def poke_outside cong: if_cong)
  then obtain s' where run: "run_state (wled_auto_string_detection demo4 0) demo_off = (Inr (), s')" "\<not> disabled_by_short s'"
    by (auto simp: prod_eq_iff)
  have "sim_reg (wl_bus s') (sink demo4 (WLED4_SINK_REG_STR_CABC 2)) AND 0x80 = 0x80"
    by (rule wled_detection_sets_cabc [OF sim.regmap_bus_axioms _ _ _ _ run, where vol = "{}"])
      (simp_all add: s aligned_def, simp_all add: demo4_def)
  with run show ?thesis by (auto simp: demo4_def wled4_config_defaults_def)
qed

end
