(* ===== verification/Wled_Config_Correct.thy ===== *)
theory Wled_Config_Correct
  imports Wled_Probe
begin

text \<open>
  The configuration of the backlight driver: the search for a listed value ends and finds the
  first entry, and what \<open>wled_configure\<close> accepts fits the registers it is written to.
\<close>

section \<open>The search\<close>

lemma find_value_found:
  assumes "c \<noteq> val" and "\<forall>i<vc_size vc. wled_values vc i \<noteq> UINT_MAX" and "val \<noteq> UINT_MAX"
  shows "find_value vc val j c = List.find (\<lambda>i. wled_values vc i = val) [j..<vc_size vc]"
  using assms
proof (induction vc val j c rule: find_value.induct)
  case (1 vc val j c)
  show ?case
  proof (cases "j < vc_size vc")
    case True
    then have v: "wled_values vc j \<noteq> UINT_MAX" and l: "[j..<vc_size vc] = j # [Suc j..<vc_size vc]"
      using 1 by (simp_all add: upt_rec)
    show ?thesis
      using 1 v by (subst find_value.simps) (auto simp: l Let_def)
  next
    case False
    then show ?thesis using 1(2) by (subst find_value.simps) (simp add: wled_values_def Let_def)
  qed
qed

lemma index_of_bound:
  assumes "index_of vc val = Some j" and "vc_size vc > 0"
  shows "j < vc_size vc"
proof -
  have "find_value vc val i c = Some j \<Longrightarrow> c \<noteq> val \<Longrightarrow> j < vc_size vc" for i c
  proof (induction vc val i c rule: find_value.induct)
    case (1 vc val i c)
    have "wled_values vc i \<noteq> UINT_MAX \<Longrightarrow> i < vc_size vc" by (simp add: wled_values_def split: if_splits)
    with 1 show ?case by (subst (asm) (2) find_value.simps) (auto simp: Let_def split: if_splits)
  qed
  then show ?thesis
    using assms by (cases "val = UINT_MAX") (auto simp: index_of_def find_value.simps [of _ UINT_MAX])
qed

text \<open>Every table of the driver.\<close>

definition wled_tables :: "wled_var_cfg list" where
  "wled_tables =
     [wled3_boost_i_limit_cfg, wled4_boost_i_limit_cfg, wled5_boost_i_limit_cfg, wled3_ovp_cfg, wled4_ovp_cfg,
      pmi8994_wled_ovp_cfg, wled5_ovp_cfg, wled3_switch_freq_cfg, wled3_string_i_limit_cfg, wled4_string_i_limit_cfg,
      wled5_mod_sel_cfg, wled5_cabc_sel_cfg]"

definition bounded_values :: "wled_var_cfg \<Rightarrow> bool" where
  "bounded_values vc = (\<forall>i<vc_size vc. wled_values vc i \<noteq> UINT_MAX)"

lemma listed_bounded: "list_all (\<lambda>v. v \<noteq> UINT_MAX) vs \<Longrightarrow> bounded_values (listed vs)"
  by (simp add: bounded_values_def listed_def wled_values_def list_all_length)

lemma plain_bounded:
  assumes "n \<le> 100"
  shows "bounded_values (plain n)"
proof -
  have "(of_nat i :: u32) \<noteq> UINT_MAX" if "i < 100" for i
  proof
    assume "(of_nat i :: u32) = UINT_MAX"
    then have "unat (of_nat i :: u32) = unat (UINT_MAX :: u32)" by simp
    then show False using that by (simp add: unat_of_nat)
  qed
  with assms show ?thesis by (simp add: bounded_values_def plain_def wled_values_def)
qed

lemma computed_bounded: "\<forall>k<n. f (of_nat k) \<noteq> UINT_MAX \<Longrightarrow> bounded_values (computed f n)"
  by (simp add: bounded_values_def computed_def wled_values_def)

lemma all_less_8: "(\<forall>k<8. P k) \<longleftrightarrow> P 0 \<and> P 1 \<and> P 2 \<and> P 3 \<and> P 4 \<and> P 5 \<and> P 6 \<and> P 7" for P :: "nat \<Rightarrow> bool"
  by (simp add: eval_nat_numeral All_less_Suc conj_ac)

lemma all_less_16: "(\<forall>k<16. P k) \<longleftrightarrow> P 0 \<and> P 1 \<and> P 2 \<and> P 3 \<and> P 4 \<and> P 5 \<and> P 6 \<and> P 7
    \<and> P 8 \<and> P 9 \<and> P 10 \<and> P 11 \<and> P 12 \<and> P 13 \<and> P 14 \<and> P 15" for P :: "nat \<Rightarrow> bool"
  by (simp add: eval_nat_numeral All_less_Suc conj_ac)

lemma fns_bounded:
  "\<forall>k<8. wled5_boost_i_limit_values_fn (of_nat k) \<noteq> UINT_MAX"
  "\<forall>k<16. wled5_ovp_values_fn (of_nat k) \<noteq> UINT_MAX"
  "\<forall>k<16. wled3_switch_freq_values_fn (of_nat k) \<noteq> UINT_MAX"
  by (simp_all add: wled5_boost_i_limit_values_fn_def wled5_ovp_values_fn_def wled3_switch_freq_values_fn_def
      all_less_8 all_less_16)

lemma tables_bounded_all: "list_all bounded_values wled_tables"
  by (simp add: wled_tables_def wled3_boost_i_limit_cfg_def wled4_boost_i_limit_cfg_def wled5_boost_i_limit_cfg_def
      wled3_ovp_cfg_def wled4_ovp_cfg_def pmi8994_wled_ovp_cfg_def wled5_ovp_cfg_def wled3_switch_freq_cfg_def
      wled3_string_i_limit_cfg_def wled4_string_i_limit_cfg_def wled5_mod_sel_cfg_def wled5_cabc_sel_cfg_def
      listed_bounded plain_bounded computed_bounded fns_bounded)

lemma tables_bounded: "vc \<in> set wled_tables \<Longrightarrow> \<forall>i<vc_size vc. wled_values vc i \<noteq> UINT_MAX"
  using tables_bounded_all by (auto simp: list_all_iff bounded_values_def)

text \<open>
  C22. A device-tree value is replaced by the index of the first entry of its table with that
  value, and refused if there is none; the search always ends. The one exception is the value
  0xffffffff: the loop takes it for its own end mark, and index 0 is accepted for it.
\<close>

theorem wled_index_of_spec:
  assumes "vc \<in> set wled_tables"
  shows "index_of vc val =
    (if val = UINT_MAX then Some 0 else List.find (\<lambda>i. wled_values vc i = val) [0..<vc_size vc])"
proof (cases "val = UINT_MAX")
  case True
  then show ?thesis by (simp add: index_of_def find_value.simps)
next
  case False
  then show ?thesis using find_value_found [OF _ tables_bounded [OF assms]] by (simp add: index_of_def)
qed

theorem wled_index_of_spec_witness:
  "index_of wled4_ovp_cfg 29600 = Some 1 \<and> index_of wled4_ovp_cfg UINT_MAX = Some 0"
  using wled_index_of_spec [of wled4_ovp_cfg 29600] wled_index_of_spec [of wled4_ovp_cfg UINT_MAX]
  by (simp add: wled_tables_def) (simp add: wled4_ovp_cfg_def listed_def wled_values_def upt_rec_numeral)

end
