(* ===== verification/Hud_Canvas.thy ===== *)
theory Hud_Canvas
  imports Complex_Main Kernel_Prelude C_Strings
begin

text \<open>
  Drawing in the boot display (\<open>initramfs/gemini-status.c\<close>): rectangles, glyphs and text on the
  off-screen buffer \<open>back\<close>. The buffer is the list of its pixels; an access outside it is the
  result None, so that a function that returns Some has not left it. When the GL path is in use the
  code calls the renderer instead; those calls are recorded.

  Coordinates are integers: the code keeps them in the range of \<open>int\<close> (a screen is at most a few
  thousand pixels wide).
\<close>

section \<open>Colours\<close>

definition px :: "int \<Rightarrow> int \<Rightarrow> int \<Rightarrow> u32" where
  "px r g b = push_bit 16 (word_of_int r) OR push_bit 8 (word_of_int g) OR word_of_int b"

definition chan :: "nat \<Rightarrow> u32 \<Rightarrow> int" where
  "chan n c = uint (drop_bit n c AND 255)"

definition mix :: "u32 \<Rightarrow> u32 \<Rightarrow> int \<Rightarrow> u32" where
  "mix a b alpha =
     (let ia = 255 - alpha in
      px ((chan 16 b * alpha + chan 16 a * ia) sdiv 255)
         ((chan 8 b * alpha + chan 8 a * ia) sdiv 255)
         ((chan 0 b * alpha + chan 0 a * ia) sdiv 255))"

section \<open>Fonts\<close>

record gs_glyph =
  g_cp :: u32
  g_w :: nat
  g_h :: nat
  g_adv :: int
  g_xoff :: int
  g_yoff :: int
  g_off :: nat

record gs_font =
  f_px :: int
  f_n :: int
  f_g :: "gs_glyph list"
  f_bits :: "u8 list"

section \<open>The buffer\<close>

datatype gl_call =
    Gl_Rect int int int int u32
  | Gl_Round int int int int int u32
  | Gl_Glyph gs_glyph int int u32
  | Gl_View rat rat
  | Gl_Rect_A int int int int u32 int

record canvas =
  scr_w :: int
  scr_h :: int
  back_px :: "u32 list"
  use_gl :: bool
  gl_calls :: "gl_call list"

definition gl :: "gl_call \<Rightarrow> canvas \<Rightarrow> canvas" where
  "gl c cv = cv\<lparr>gl_calls := gl_calls cv @ [c]\<rparr>"

text \<open>\<open>*p = c\<close> for the pixel pointer \<open>back + p\<close>.\<close>

definition poke_px :: "int \<Rightarrow> u32 \<Rightarrow> u32 list \<Rightarrow> u32 list option" where
  "poke_px p c b = (if 0 \<le> p \<and> p < int (length b) then Some (b[nat p := c]) else None)"

definition peek_px :: "int \<Rightarrow> u32 list \<Rightarrow> u32 option" where
  "peek_px p b = (if 0 \<le> p \<and> p < int (length b) then Some (b ! nat p) else None)"

definition plot :: "int \<Rightarrow> int \<Rightarrow> u32 \<Rightarrow> int \<Rightarrow> canvas \<Rightarrow> canvas option" where
  "plot x y c a cv =
     (if x < 0 \<or> x \<ge> scr_w cv \<or> y < 0 \<or> y \<ge> scr_h cv \<or> a \<le> 0 then Some cv
      else
        let p = y * scr_w cv + x in
        if a \<ge> 255 then map_option (\<lambda>b. cv\<lparr>back_px := b\<rparr>) (poke_px p c (back_px cv))
        else case peek_px p (back_px cv) of
          None \<Rightarrow> None
        | Some old \<Rightarrow> map_option (\<lambda>b. cv\<lparr>back_px := b\<rparr>) (poke_px p (mix old c a) (back_px cv)))"

text \<open>The two loops of \<open>fill_rect\<close>: \<open>n\<close> pixels from \<open>p\<close> on, and \<open>m\<close> such rows.\<close>

fun fill_row :: "nat \<Rightarrow> int \<Rightarrow> u32 \<Rightarrow> u32 list \<Rightarrow> u32 list option" where
  "fill_row 0 p c b = Some b"
| "fill_row (Suc n) p c b = Option.bind (poke_px p c b) (fill_row n (p + 1) c)"

fun fill_rows :: "nat \<Rightarrow> nat \<Rightarrow> int \<Rightarrow> int \<Rightarrow> u32 \<Rightarrow> u32 list \<Rightarrow> u32 list option" where
  "fill_rows 0 n p w c b = Some b"
| "fill_rows (Suc m) n p w c b = Option.bind (fill_row n p c b) (fill_rows m n (p + w) w c)"

definition fill_rect :: "int \<Rightarrow> int \<Rightarrow> int \<Rightarrow> int \<Rightarrow> u32 \<Rightarrow> canvas \<Rightarrow> canvas option" where
  "fill_rect x y w h c cv =
     (if use_gl cv then Some (gl (Gl_Rect x y w h c) cv)
      else
        let x1 = clampi (x + w) 0 (scr_w cv);
            y1 = clampi (y + h) 0 (scr_h cv);
            x = clampi x 0 (scr_w cv);
            y = clampi y 0 (scr_h cv)
        in map_option (\<lambda>b. cv\<lparr>back_px := b\<rparr>)
             (fill_rows (nat (y1 - y)) (nat (x1 - x)) (y * scr_w cv + x) (scr_w cv) c (back_px cv)))"

text \<open>The indent of a row of a rounded rectangle: \<open>while (dx*dx + dy*dy > rr && dx < r) dx++\<close>.\<close>

function indent :: "int \<Rightarrow> int \<Rightarrow> int \<Rightarrow> int" where
  "indent r dy dx = (if dx * dx + dy * dy > r * r \<and> dx < r then indent r dy (dx + 1) else dx)"
  by pat_completeness auto

termination
  by (relation "measure (\<lambda>(r, dy, dx). nat (r - dx))") auto

declare indent.simps [simp del]

definition row_indent :: "int \<Rightarrow> int \<Rightarrow> int \<Rightarrow> int" where
  "row_indent h r yy =
     (if yy < r then indent r (r - 1 - yy) 0
      else if yy \<ge> h - r then indent r (yy - (h - r)) 0
      else 0)"

fun round_rows :: "nat \<Rightarrow> int \<Rightarrow> int \<Rightarrow> int \<Rightarrow> int \<Rightarrow> int \<Rightarrow> int \<Rightarrow> u32 \<Rightarrow> canvas \<Rightarrow> canvas option" where
  "round_rows 0 yy x y w h r c cv = Some cv"
| "round_rows (Suc n) yy x y w h r c cv =
     Option.bind (fill_rect (x + row_indent h r yy) (y + yy) (w - 2 * row_indent h r yy) 1 c cv)
       (round_rows n (yy + 1) x y w h r c)"

definition fill_round :: "int \<Rightarrow> int \<Rightarrow> int \<Rightarrow> int \<Rightarrow> int \<Rightarrow> u32 \<Rightarrow> canvas \<Rightarrow> canvas option" where
  "fill_round x y w h r c cv =
     (if use_gl cv then Some (gl (Gl_Round x y w h r c) cv)
      else if r < 1 then fill_rect x y w h c cv
      else round_rows (nat h) 0 x y w h r c cv)"

section \<open>Text\<close>

text \<open>The binary search of \<open>find_g\<close>, then its linear search.\<close>

function bin_search :: "gs_glyph list \<Rightarrow> u32 \<Rightarrow> int \<Rightarrow> int \<Rightarrow> gs_glyph option" where
  "bin_search gs cp lo hi =
     (if lo \<le> hi then
        let mid = (lo + hi) div 2; g = gs ! nat mid in
        if g_cp g = cp then Some g
        else if g_cp g < cp then bin_search gs cp (mid + 1) hi
        else bin_search gs cp lo (mid - 1)
      else None)"
  by pat_completeness auto

termination
  by (relation "measure (\<lambda>(gs, cp, lo, hi). nat (hi - lo + 1))") auto

declare bin_search.simps [simp del]

definition find_g :: "gs_font \<Rightarrow> u32 \<Rightarrow> gs_glyph option" where
  "find_g f cp =
     (case bin_search (f_g f) cp 0 (f_n f - 1) of
        Some g \<Rightarrow> Some g
      | None \<Rightarrow> List.find (\<lambda>g. g_cp g = cp) (take (nat (f_n f)) (f_g f)))"

text \<open>The byte at \<open>p[i]\<close>; behind the text stands the terminating NUL.\<close>

definition byte_at :: "u8 list \<Rightarrow> nat \<Rightarrow> u8" where
  "byte_at s i = (if i < length s then s ! i else 0)"

definition bits_of :: "u8 \<Rightarrow> u8 \<Rightarrow> u32" where
  "bits_of b m = ucast (b AND m)"

text \<open>The code point at the start of a text, and the rest of the text.\<close>

definition u8next :: "u8 list \<Rightarrow> u32 \<times> u8 list" where
  "u8next s =
     (let p0 = byte_at s 0; p1 = byte_at s 1; p2 = byte_at s 2; p3 = byte_at s 3 in
      if p0 = 0 then (0, s)
      else if p0 < 0x80 then (ucast p0, drop 1 s)
      else if p0 AND 0xe0 = 0xc0 \<and> p1 \<noteq> 0 then
        (push_bit 6 (bits_of p0 0x1f) OR bits_of p1 0x3f, drop 2 s)
      else if p0 AND 0xf0 = 0xe0 \<and> p1 \<noteq> 0 \<and> p2 \<noteq> 0 then
        (push_bit 12 (bits_of p0 0x0f) OR push_bit 6 (bits_of p1 0x3f) OR bits_of p2 0x3f, drop 3 s)
      else if p0 AND 0xf8 = 0xf0 \<and> p1 \<noteq> 0 \<and> p2 \<noteq> 0 \<and> p3 \<noteq> 0 then
        (push_bit 18 (bits_of p0 0x07) OR push_bit 12 (bits_of p1 0x3f) OR push_bit 6 (bits_of p2 0x3f) OR
           bits_of p3 0x3f, drop 4 s)
      else (0x3f, drop 1 s))"

lemma u8next_shorter: "byte_at s 0 \<noteq> 0 \<Longrightarrow> length (snd (u8next s)) < length s"
  by (cases s) (auto simp: u8next_def byte_at_def Let_def)

lemma u8next_end: "byte_at s 0 = 0 \<Longrightarrow> u8next s = (0, s)"
  by (simp add: u8next_def)

lemma u8next_rest: "u8next s = (cp, rest) \<Longrightarrow> cp \<noteq> 0 \<Longrightarrow> length rest < length s"
  using u8next_shorter [of s] u8next_end [of s] by (cases "byte_at s 0 = 0") auto

text \<open>\<open>while ((cp = u8next(&p)))\<close>: the code points up to the first that is 0.\<close>

function code_points :: "u8 list \<Rightarrow> u32 list" where
  "code_points s =
     (case u8next s of (cp, rest) \<Rightarrow> if cp = 0 then [] else cp # code_points rest)"
  by pat_completeness auto

termination
  by (relation "measure length") (auto simp: u8next_rest dest!: sym [of "(_, _)"])

declare code_points.simps [simp del]

definition glyph_adv :: "gs_font \<Rightarrow> u32 \<Rightarrow> int" where
  "glyph_adv f cp =
     (if cp = 0x20 then f_px f sdiv 3
      else case find_g f cp of Some g \<Rightarrow> g_adv g | None \<Rightarrow> f_px f sdiv 2)"

definition text_w :: "gs_font \<Rightarrow> u8 list \<Rightarrow> int" where
  "text_w f s = sum_list (map (glyph_adv f) (code_points s))"

text \<open>The pixels of a glyph, row by row.\<close>

fun glyph_pixels :: "gs_font \<Rightarrow> gs_glyph \<Rightarrow> int \<Rightarrow> int \<Rightarrow> u32 \<Rightarrow> (nat \<times> nat) list \<Rightarrow> canvas \<Rightarrow> canvas option" where
  "glyph_pixels f g x y c [] cv = Some cv"
| "glyph_pixels f g x y c ((iy, ix) # ps) cv =
     (let k = g_off g + iy * g_w g + ix in
      if k \<ge> length (f_bits f) then None
      else
        let a = uint (f_bits f ! k) in
        Option.bind (if a \<noteq> 0 then plot (x + g_xoff g + int ix) (y + g_yoff g + int iy) c a cv else Some cv)
          (glyph_pixels f g x y c ps))"

definition draw_cp :: "gs_font \<Rightarrow> int \<Rightarrow> int \<Rightarrow> u32 \<Rightarrow> u32 \<Rightarrow> canvas \<Rightarrow> canvas option" where
  "draw_cp f x y c cp cv =
     (if cp = 0x20 then Some cv
      else case find_g f cp of
        None \<Rightarrow> fill_rect (x + 2) (y + 4) (f_px f sdiv 2 - 4) (f_px f - 8) (mix c 0 80) cv
      | Some g \<Rightarrow>
          if use_gl cv then Some (gl (Gl_Glyph g x y c) cv)
          else glyph_pixels f g x y c (List.product [0..<g_h g] [0..<g_w g]) cv)"

fun draw_cps :: "gs_font \<Rightarrow> int \<Rightarrow> int \<Rightarrow> u32 \<Rightarrow> u32 list \<Rightarrow> canvas \<Rightarrow> canvas option" where
  "draw_cps f x y c [] cv = Some cv"
| "draw_cps f x y c (cp # cps) cv = Option.bind (draw_cp f x y c cp cv) (draw_cps f (x + glyph_adv f cp) y c cps)"

definition draw_text :: "gs_font \<Rightarrow> int \<Rightarrow> int \<Rightarrow> u8 list \<Rightarrow> u32 \<Rightarrow> canvas \<Rightarrow> canvas option" where
  "draw_text f x y s c cv = draw_cps f x y c (code_points s) cv"

text \<open>The ink box: width, top, bottom.\<close>

fun ink_rows :: "gs_font \<Rightarrow> u32 list \<Rightarrow> int \<Rightarrow> int \<Rightarrow> int \<times> int" where
  "ink_rows f [] t b = (t, b)"
| "ink_rows f (cp # cps) t b =
     (case if cp = 0x20 then None else find_g f cp of
        None \<Rightarrow> ink_rows f cps t b
      | Some g \<Rightarrow>
          if g_h g > 0 then
            ink_rows f cps (if g_yoff g < t then g_yoff g else t)
              (if g_yoff g + int (g_h g) > b then g_yoff g + int (g_h g) else b)
          else ink_rows f cps t b)"

definition text_ink :: "gs_font \<Rightarrow> u8 list \<Rightarrow> int \<times> int \<times> int" where
  "text_ink f s =
     (case ink_rows f (code_points s) 10000 (- 10000) of
        (t, b) \<Rightarrow> if b \<le> t then (text_w f s, 0, f_px f) else (text_w f s, t, b))"

definition draw_text_vcenter :: "gs_font \<Rightarrow> int \<Rightarrow> int \<Rightarrow> int \<Rightarrow> u8 list \<Rightarrow> u32 \<Rightarrow> canvas \<Rightarrow> canvas option" where
  "draw_text_vcenter f x y h s c cv =
     (if byte_at s 0 = 0 \<or> h < 1 then Some cv
      else case text_ink f s of (_, t, b) \<Rightarrow>
        draw_text f x (y + (h - (b - t)) sdiv 2 - t) s c cv)"

definition draw_text_centered :: "gs_font \<Rightarrow> int \<Rightarrow> int \<Rightarrow> int \<Rightarrow> int \<Rightarrow> u8 list \<Rightarrow> u32 \<Rightarrow> canvas \<Rightarrow> canvas option" where
  "draw_text_centered f x y w h s c cv =
     (if byte_at s 0 = 0 \<or> w < 1 \<or> h < 1 then Some cv
      else case text_ink f s of (tw, t, b) \<Rightarrow>
        draw_text f (x + (w - tw) sdiv 2) (y + (h - (b - t)) sdiv 2 - t) s c cv)"

definition draw_btn :: "int \<Rightarrow> int \<Rightarrow> int \<Rightarrow> int \<Rightarrow> int \<Rightarrow> u32 \<Rightarrow> gs_font \<Rightarrow> u8 list \<Rightarrow> u32 \<Rightarrow> canvas \<Rightarrow> canvas option" where
  "draw_btn x y w h r bg f s fg cv =
     Option.bind (fill_round x y w h r bg cv) (draw_text_centered f x y w h s fg)"

text \<open>
  Shortening a text to a width: the loop copies whole characters into \<open>char tmp[160]\<close>, which holds
  \<open>tmp\<close>, as long as they fit with the ellipsis behind them.
\<close>

definition ellipsis :: "u8 list" where
  "ellipsis = [0xe2, 0x80, 0xa6]"

function fit_loop :: "gs_font \<Rightarrow> int \<Rightarrow> u8 list \<Rightarrow> u8 list \<Rightarrow> u8 list" where
  "fit_loop f maxw tmp p =
     (if byte_at p 0 = 0 \<or> length tmp \<ge> 160 - 8 then tmp
      else
        let rest = snd (u8next p); add = length p - length rest in
        if length tmp + add + 3 \<ge> 160 then tmp
        else if text_w f (tmp @ take add p) + text_w f ellipsis > maxw then tmp
        else fit_loop f maxw (tmp @ take add p) rest)"
  by pat_completeness auto

termination
  by (relation "measure (\<lambda>(f, maxw, tmp, p). length p)") (auto simp: u8next_shorter)

declare fit_loop.simps [simp del]

definition draw_text_fit :: "gs_font \<Rightarrow> int \<Rightarrow> int \<Rightarrow> int \<Rightarrow> u8 list \<Rightarrow> u32 \<Rightarrow> canvas \<Rightarrow> canvas option" where
  "draw_text_fit f x y maxw s c cv =
     (if text_w f s \<le> maxw then draw_text f x y s c cv
      else draw_text f x y (fit_loop f maxw [] s @ ellipsis) c cv)"

text \<open>\<open>hit\<close>: a point in a rectangle.\<close>

definition hit :: "int \<Rightarrow> int \<Rightarrow> int \<Rightarrow> int \<Rightarrow> int \<Rightarrow> int \<Rightarrow> bool" where
  "hit x y rx ry rw rh \<longleftrightarrow> x \<ge> rx \<and> y \<ge> ry \<and> x < rx + rw \<and> y < ry + rh"

text \<open>A triangle of rows, and the bars of the signal symbol.\<close>

fun tri_rows :: "nat list \<Rightarrow> int \<Rightarrow> int \<Rightarrow> int \<Rightarrow> bool \<Rightarrow> u32 \<Rightarrow> canvas \<Rightarrow> canvas option" where
  "tri_rows [] cx y h up c cv = Some cv"
| "tri_rows (i # is) cx y h up c cv =
     (let row = (if up then int i else h - 1 - int i);
          half = (row * (h sdiv 2)) sdiv (h - 1);
          half = (if half < 1 then 1 else half)
      in Option.bind (fill_rect (cx - half) (y + int i) (half * 2 + 1) 1 c cv) (tri_rows is cx y h up c))"

definition fill_tri_v :: "int \<Rightarrow> int \<Rightarrow> int \<Rightarrow> bool \<Rightarrow> u32 \<Rightarrow> canvas \<Rightarrow> canvas option" where
  "fill_tri_v cx y h up c cv = (if h < 4 then Some cv else tri_rows [0..<nat h] cx y h up c cv)"

definition signal_bars :: "int \<Rightarrow> int" where
  "signal_bars sig = (if sig \<le> 0 then 0 else if sig < 25 then 1 else if sig < 50 then 2 else if sig < 75 then 3 else 4)"

fun signal_cols :: "int list \<Rightarrow> int \<Rightarrow> int \<Rightarrow> int \<Rightarrow> canvas \<Rightarrow> canvas option" where
  "signal_cols [] x y on cv = Some cv"
| "signal_cols (i # is) x y on cv =
     (let h = 8 + i * 8; c = (if i < on then px 80 220 160 else px 50 58 70)
      in Option.bind (fill_round (x + i * 13) (y + 32 - h) 9 h 3 c cv) (signal_cols is x y on))"

definition draw_signal :: "int \<Rightarrow> int \<Rightarrow> int \<Rightarrow> canvas \<Rightarrow> canvas option" where
  "draw_signal x y sig cv = signal_cols [0, 1, 2, 3] x y (signal_bars sig) cv"

end
