(* ===== verification/Hud_Canvas_Correct.thy ===== *)
theory Hud_Canvas_Correct
  imports Hud_Canvas
begin

text \<open>
  What the drawing functions do to the buffer. The reference is \<open>paint\<close>: colour the pixels of the
  screen that satisfy a predicate on their coordinates, and leave the others.
\<close>

section \<open>The reference\<close>

definition canvas_ok :: "canvas \<Rightarrow> bool" where
  "canvas_ok cv \<longleftrightarrow> 0 \<le> scr_w cv \<and> 0 \<le> scr_h cv \<and> int (length (back_px cv)) = scr_w cv * scr_h cv"

definition paint :: "(int \<Rightarrow> int \<Rightarrow> bool) \<Rightarrow> u32 \<Rightarrow> canvas \<Rightarrow> canvas" where
  "paint P c cv = cv\<lparr>back_px :=
     map (\<lambda>k. if P (int k mod scr_w cv) (int k div scr_w cv) then c else back_px cv ! k) [0..<length (back_px cv)]\<rparr>"

definition in_rect :: "int \<Rightarrow> int \<Rightarrow> int \<Rightarrow> int \<Rightarrow> int \<Rightarrow> int \<Rightarrow> bool" where
  "in_rect x y w h i j \<longleftrightarrow> x \<le> i \<and> i < x + w \<and> y \<le> j \<and> j < y + h"

lemma canvas_simps [simp]:
  "scr_w (paint P c cv) = scr_w cv" "scr_h (paint P c cv) = scr_h cv" "use_gl (paint P c cv) = use_gl cv"
  "length (back_px (paint P c cv)) = length (back_px cv)" "canvas_ok (paint P c cv) = canvas_ok cv"
  by (simp_all add: paint_def canvas_ok_def)

lemma paint_paint: "paint P c (paint Q c cv) = paint (\<lambda>i j. P i j \<or> Q i j) c cv"
  by (simp add: paint_def)

lemma paint_False: "paint (\<lambda>i j. False) c cv = cv"
  by (simp add: paint_def map_nth)

section \<open>Rows\<close>

lemma fill_row_spec:
  assumes "0 \<le> p" "p + int n \<le> int (length b)"
  shows "fill_row n p c b = Some (map (\<lambda>k. if p \<le> int k \<and> int k < p + int n then c else b ! k) [0..<length b])"
  using assms
proof (induction n arbitrary: p b)
  case 0
  have "(if p \<le> int k \<and> int k < p + int 0 then c else b ! k) = b ! k" for k by auto
  then show ?case by (simp add: map_nth del: of_nat_0)
next
  case (Suc n)
  have "poke_px p c b = Some (b[nat p := c])" using Suc.prems by (simp add: poke_px_def)
  with Suc.prems show ?case
    by (auto simp: Suc.IH nth_list_update intro!: nth_equalityI)
qed

lemma fill_rows_spec:
  assumes "0 \<le> p" "int n \<le> w" "m = 0 \<or> p + int (m - 1) * w + int n \<le> int (length b)"
  shows "fill_rows m n p w c b =
    Some (map (\<lambda>k. if \<exists>r<m. p + int r * w \<le> int k \<and> int k < p + int r * w + int n then c else b ! k) [0..<length b])"
  using assms
proof (induction m arbitrary: p b)
  case 0
  then show ?case by (simp add: map_nth)
next
  case (Suc m)
  let ?row = "\<lambda>k. if p \<le> int k \<and> int k < p + int n then c else b ! k"
  have first: "p + int n \<le> int (length b)"
  proof -
    have "0 \<le> int m * w" using Suc.prems(2) by simp
    then show ?thesis using Suc.prems(3) by simp
  qed
  have bound: "m = 0 \<or> p + w + int (m - 1) * w + int n \<le> int (length (map ?row [0..<length b]))"
  proof (cases m)
    case (Suc k)
    then show ?thesis using Suc.prems(3) \<open>m = Suc k\<close> Suc.prems by (simp add: algebra_simps)
  qed simp
  have ex: "(\<exists>r<Suc m. p + int r * w \<le> k \<and> k < p + int r * w + int n) \<longleftrightarrow>
      (\<exists>r<m. p + w + int r * w \<le> k \<and> k < p + w + int r * w + int n) \<or> (p \<le> k \<and> k < p + int n)" for k
    by (auto simp: Ex_less_Suc2 algebra_simps)
  have "fill_rows (Suc m) n p w c b = fill_rows m n (p + w) w c (map ?row [0..<length b])"
    using Suc.prems first by (simp add: fill_row_spec)
  also have "\<dots> = Some (map (\<lambda>k. if \<exists>r<m. p + w + int r * w \<le> int k \<and> int k < p + w + int r * w + int n
      then c else map ?row [0..<length b] ! k) [0..<length b])"
    using Suc.IH [OF _ _ bound] Suc.prems by simp
  also have "map (\<lambda>k. if \<exists>r<m. p + w + int r * w \<le> int k \<and> int k < p + w + int r * w + int n
      then c else map ?row [0..<length b] ! k) [0..<length b] =
    map (\<lambda>k. if (\<exists>r<m. p + w + int r * w \<le> int k \<and> int k < p + w + int r * w + int n) \<or> (p \<le> int k \<and> int k < p + int n)
      then c else b ! k) [0..<length b]"
    by (rule map_cong [OF refl]) auto
  finally show ?case unfolding ex .
qed

lemma row_index:
  assumes "0 < w" "0 \<le> x" "x + int n \<le> w"
  shows "(\<exists>r<m. y * w + x + int r * w \<le> k \<and> k < y * w + x + int r * w + int n) \<longleftrightarrow>
    x \<le> k mod w \<and> k mod w < x + int n \<and> y \<le> k div w \<and> k div w < y + int m"
proof
  assume "\<exists>r<m. y * w + x + int r * w \<le> k \<and> k < y * w + x + int r * w + int n"
  then obtain r where r: "r < m" "y * w + x + int r * w \<le> k" "k < y * w + x + int r * w + int n" by blast
  define d where "d = k - (y + int r) * w"
  have d: "0 \<le> d" "d < w" "x \<le> d" "d < x + int n" using r assms by (simp_all add: d_def algebra_simps)
  have k: "k = d + (y + int r) * w" by (simp add: d_def)
  have "k div w = y + int r" "k mod w = d" using d(1,2) by (simp_all add: k)
  then show "x \<le> k mod w \<and> k mod w < x + int n \<and> y \<le> k div w \<and> k div w < y + int m" using r d by simp
next
  assume a: "x \<le> k mod w \<and> k mod w < x + int n \<and> y \<le> k div w \<and> k div w < y + int m"
  have k: "k = (k div w) * w + k mod w" by simp
  let ?r = "nat (k div w - y)"
  have r: "int ?r = k div w - y" "?r < m" using a by auto
  have "y * w + x + int ?r * w = (k div w) * w + x" unfolding r(1) by (simp add: algebra_simps)
  then have "y * w + x + int ?r * w \<le> k \<and> k < y * w + x + int ?r * w + int n" using a k by linarith
  with r(2) show "\<exists>r<m. y * w + x + int r * w \<le> k \<and> k < y * w + x + int r * w + int n" by blast
qed

section \<open>Rectangles\<close>

lemma fill_rect_spec:
  assumes ok: "canvas_ok cv" and "\<not> use_gl cv"
  shows "fill_rect x y w h c cv = Some (paint (in_rect x y w h) c cv)"
proof -
  define W H where "W = scr_w cv" and "H = scr_h cv"
  define x0 y0 where "x0 = clampi x 0 W" and "y0 = clampi y 0 H"
  define n m where "n = nat (clampi (x + w) 0 W - x0)" and "m = nat (clampi (y + h) 0 H - y0)"
  have size: "0 \<le> W" "0 \<le> H" "int (length (back_px cv)) = W * H"
    using ok by (simp_all add: canvas_ok_def W_def H_def)
  have x0: "0 \<le> x0" "x0 \<le> W" "x0 + int n \<le> W" and y0: "0 \<le> y0" "y0 \<le> H" "y0 + int m \<le> H"
    using size by (auto simp: x0_def y0_def n_def m_def clampi_def)
  have last: "m = 0 \<or> y0 * W + x0 + int (m - 1) * W + int n \<le> int (length (back_px cv))"
  proof (cases m)
    case (Suc k)
    have "(y0 + int k + 1) * W \<le> H * W" using y0(3) Suc size(1) by (intro mult_right_mono) auto
    then show ?thesis using x0(3) Suc size(3) by (simp add: algebra_simps)
  qed simp
  have px: "(\<exists>r<m. y0 * W + x0 + int r * W \<le> int k \<and> int k < y0 * W + x0 + int r * W + int n) \<longleftrightarrow>
      in_rect x y w h (int k mod W) (int k div W)" if "k < length (back_px cv)" for k
  proof -
    have "W * H > 0" using that size(3) by linarith
    then have W: "0 < W" using size(1) by (cases "W = 0") auto
    have "int k < H * W" using that size(3) by (simp add: mult.commute)
    moreover have "int k div W * W \<le> int k" using W by (simp flip: minus_mod_eq_div_mult)
    ultimately have "int k div W < H" using W by (meson le_less_trans mult_less_cancel_right_pos)
    moreover have "0 \<le> int k mod W" "int k mod W < W" "0 \<le> int k div W" using W by (simp_all add: pos_imp_zdiv_nonneg_iff)
    ultimately show ?thesis
      unfolding row_index [OF W x0(1,3)]
      by (auto simp: in_rect_def x0_def y0_def n_def m_def clampi_def split: if_splits)
  qed
  have "fill_rows m n (y0 * W + x0) W c (back_px cv) =
    Some (map (\<lambda>k. if in_rect x y w h (int k mod W) (int k div W) then c else back_px cv ! k) [0..<length (back_px cv)])"
    using x0 y0 size last px by (simp add: fill_rows_spec cong: map_cong)
  then show ?thesis
    using assms(2) by (simp add: fill_rect_def Let_def paint_def W_def H_def x0_def y0_def n_def m_def)
qed

text \<open>The loop that should round the corners ends at once: its condition is never true.\<close>

lemma indent_0: "0 \<le> dy \<Longrightarrow> dy \<le> r \<Longrightarrow> indent r dy 0 = 0"
  using mult_mono [of dy r dy r] by (subst indent.simps) simp

lemma row_indent_0: "0 \<le> yy \<Longrightarrow> yy < h \<Longrightarrow> 1 \<le> r \<Longrightarrow> row_indent h r yy = 0"
  by (simp add: row_indent_def indent_0)

lemma round_rows_spec:
  assumes "canvas_ok cv" "\<not> use_gl cv" "1 \<le> r" "0 \<le> yy" "yy + int n = h"
  shows "round_rows n yy x y w h r c cv = Some (paint (in_rect x (y + yy) w (int n)) c cv)"
  using assms
proof (induction n arbitrary: yy cv)
  case 0
  have "in_rect x (y + yy) w 0 = (\<lambda>i j. False)" by (auto simp: in_rect_def fun_eq_iff)
  then show ?case by (simp add: paint_False)
next
  case (Suc n)
  have "(\<lambda>i j. in_rect x (y + (yy + 1)) w (int n) i j \<or> in_rect x (y + yy) w 1 i j) = in_rect x (y + yy) w (int (Suc n))"
    by (auto simp: in_rect_def fun_eq_iff)
  then show ?case
    using Suc.prems by (simp add: row_indent_0 fill_rect_spec Suc.IH paint_paint)
qed

lemma fill_round_rect:
  assumes "canvas_ok cv" and "\<not> use_gl cv"
  shows "fill_round x y w h r c cv = fill_rect x y w h c cv"
proof (cases "r < 1 \<or> h \<ge> 0")
  case True
  then show ?thesis
    using assms round_rows_spec [of cv r 0 "nat h" h x y w c] by (auto simp: fill_round_def fill_rect_spec)
next
  case False
  then have "in_rect x y w h = (\<lambda>i j. False)" by (auto simp: in_rect_def fun_eq_iff)
  then show ?thesis using assms False by (simp add: fill_round_def fill_rect_spec paint_False)
qed

text \<open>
  C23. On the software path, filling a rectangle colours exactly the pixels that are in it and on
  the screen, and never writes outside the buffer, wherever the rectangle lies.
\<close>

theorem hud_fill_rect_exact:
  assumes "canvas_ok cv" and "\<not> use_gl cv"
  shows "fill_rect x y w h c cv = Some (paint (in_rect x y w h) c cv)"
  using assms by (rule fill_rect_spec)

definition demo_canvas :: canvas where
  "demo_canvas = \<lparr>scr_w = 3, scr_h = 2, back_px = [0, 0, 0, 0, 0, 0], use_gl = False, gl_calls = []\<rparr>"

theorem hud_fill_rect_exact_witness:
  "fill_rect 1 (- 4) 7 5 9 demo_canvas = Some (demo_canvas\<lparr>back_px := [0, 9, 9, 0, 0, 0]\<rparr>)"
  by (subst hud_fill_rect_exact) (simp_all add: demo_canvas_def canvas_ok_def paint_def in_rect_def upt_rec)

text \<open>
  C24. Filling a rounded rectangle on the software path is the same as filling the rectangle: the
  loop that should indent the rows at the corners starts at indent 0, where its condition
  \<open>dx * dx + dy * dy > r * r\<close> is already false, so no corner is ever rounded.
\<close>

theorem hud_fill_round_is_rect:
  assumes "canvas_ok cv" and "\<not> use_gl cv"
  shows "fill_round x y w h r c cv = fill_rect x y w h c cv"
  using assms by (rule fill_round_rect)

theorem hud_fill_round_is_rect_witness:
  "fill_round 0 0 3 2 1 9 demo_canvas = fill_rect 0 0 3 2 9 demo_canvas"
  by (rule hud_fill_round_is_rect) (simp_all add: demo_canvas_def canvas_ok_def)

end
