(* ===== verification/Hud_Text_Correct.thy ===== *)
theory Hud_Text_Correct
  imports Hud_Canvas_Correct
begin

text \<open>
  Text in the boot display: looking up glyphs, drawing them, shortening a text to a width.
\<close>

section \<open>Looking up a glyph\<close>

definition cps_of :: "gs_font \<Rightarrow> u32 list" where
  "cps_of f = map g_cp (f_g f)"

lemma bin_search_Some: "bin_search gs cp lo hi = Some g \<Longrightarrow> 0 \<le> lo \<Longrightarrow> hi < int (length gs) \<Longrightarrow> g \<in> set gs \<and> g_cp g = cp"
proof (induction gs cp lo hi rule: bin_search.induct)
  case (1 gs cp lo hi)
  have mid: "lo \<le> hi \<Longrightarrow> 0 \<le> (lo + hi) div 2 \<and> (lo + hi) div 2 \<le> hi" using 1(4) by auto
  show ?case
    using 1(3) mid 1(4,5) 1(1) [OF _ refl refl] 1(2) [OF _ refl refl]
    by (subst (asm) bin_search.simps) (fastforce simp: Let_def split: if_splits)
qed

lemma bin_search_None:
  assumes "sorted_wrt (<) (map g_cp gs)" "bin_search gs cp lo hi = None" "0 \<le> lo" "hi < int (length gs)"
    "lo \<le> int k" "int k \<le> hi"
  shows "g_cp (gs ! k) \<noteq> cp"
  using assms
proof (induction gs cp lo hi rule: bin_search.induct)
  case (1 gs cp lo hi)
  define mid where "mid = (lo + hi) div 2"
  have mid: "0 \<le> mid" "lo \<le> mid" "mid \<le> hi" using 1(5-8) by (auto simp: mid_def)
  have less: "i < j \<Longrightarrow> j < length gs \<Longrightarrow> g_cp (gs ! i) < g_cp (gs ! j)" for i j
    using 1(3) by (simp add: sorted_wrt_iff_nth_less)
  from 1(4) have ne: "g_cp (gs ! nat mid) \<noteq> cp" and
    up: "g_cp (gs ! nat mid) < cp \<Longrightarrow> bin_search gs cp (mid + 1) hi = None" and
    down: "\<not> g_cp (gs ! nat mid) < cp \<Longrightarrow> bin_search gs cp lo (mid - 1) = None"
    using 1(7,8) by (auto simp: bin_search.simps [of gs cp lo hi] mid_def Let_def split: if_splits)
  have le: "lo \<le> hi" using 1(7,8) by simp
  show ?case
  proof (cases "g_cp (gs ! nat mid) < cp")
    case True
    show ?thesis
    proof (cases "int k \<le> mid")
      case False
      then show ?thesis using 1(1) [OF le mid_def refl ne True 1(3) up [OF True]] 1(6,8) mid by simp
    next
      case k: True
      then have "g_cp (gs ! k) \<le> g_cp (gs ! nat mid)"
        using less [of k "nat mid"] 1(6) mid by (cases "k = nat mid") (auto simp: less_imp_le)
      then show ?thesis using True by auto
    qed
  next
    case False
    show ?thesis
    proof (cases "mid \<le> int k")
      case k: False
      then show ?thesis using 1(2) [OF le mid_def refl ne False 1(3) down [OF False]] 1(5-7) mid by simp
    next
      case True
      then have "g_cp (gs ! nat mid) \<le> g_cp (gs ! k)"
        using less [of "nat mid" k] 1(6,8) mid by (cases "k = nat mid") (auto simp: less_imp_le)
      then show ?thesis using False ne by auto
    qed
  qed
qed

lemma bin_search_find:
  assumes "sorted_wrt (<) (map g_cp gs)"
  shows "bin_search gs cp 0 (int (length gs) - 1) = List.find (\<lambda>g. g_cp g = cp) gs"
proof (cases "bin_search gs cp 0 (int (length gs) - 1)")
  case None
  have "g_cp g \<noteq> cp" if "g \<in> set gs" for g
  proof -
    from that obtain k where "k < length gs" "g = gs ! k" by (auto simp: in_set_conv_nth)
    then show ?thesis using bin_search_None [OF assms None, of k] by simp
  qed
  then have "List.find (\<lambda>g. g_cp g = cp) gs = None" by (auto simp: find_None_iff)
  with None show ?thesis by simp
next
  case (Some g)
  from bin_search_Some [OF this] have g: "g \<in> set gs" "g_cp g = cp" by auto
  then have "List.find (\<lambda>g. g_cp g = cp) gs \<noteq> None" by (auto simp: find_None_iff)
  then obtain g' where g': "List.find (\<lambda>g. g_cp g = cp) gs = Some g'" by blast
  then have "g' \<in> set gs \<and> g_cp g' = cp" by (induction gs) (auto split: if_splits)
  moreover have "distinct (map g_cp gs)" using assms by (simp add: strict_sorted_iff)
  ultimately have "g' = g" using g by (auto simp: distinct_map dest: inj_onD)
  then show ?thesis using Some g' by simp
qed

text \<open>
  On a font whose glyphs are sorted by code point, as all three fonts are, the binary search
  ends and finds what a search from the front finds: the glyph of the code point if the font has
  it, nothing otherwise. So the linear search behind it never finds anything.
\<close>

theorem hud_find_g_exact:
  assumes "sorted_wrt (<) (map g_cp (f_g f))" and "f_n f = int (length (f_g f))"
  shows "bin_search (f_g f) cp 0 (f_n f - 1) = List.find (\<lambda>g. g_cp g = cp) (f_g f) \<and>
    find_g f cp = List.find (\<lambda>g. g_cp g = cp) (f_g f)"
  using assms by (auto simp: find_g_def bin_search_find split: option.split)

definition demo_glyph :: "u32 \<Rightarrow> gs_glyph" where
  "demo_glyph cp = \<lparr>g_cp = cp, g_w = 2, g_h = 1, g_adv = 3, g_xoff = 0, g_yoff = 0, g_off = 0\<rparr>"

definition demo_font :: gs_font where
  "demo_font = \<lparr>f_px = 6, f_n = 3, f_g = map demo_glyph [0x41, 0x42, 0x2026], f_bits = [255, 128]\<rparr>"

theorem hud_find_g_exact_witness:
  "find_g demo_font 0x42 = Some (demo_glyph 0x42) \<and> find_g demo_font 0x43 = None"
  using hud_find_g_exact [where f = demo_font and cp = "0x42"] hud_find_g_exact [where f = demo_font and cp = "0x43"]
  by (simp add: demo_font_def demo_glyph_def)

section \<open>Shortening a text\<close>

lemma fit_loop_length: "length tmp \<le> 156 \<Longrightarrow> length (fit_loop f maxw tmp p) \<le> 156"
proof (induction f maxw tmp p rule: fit_loop.induct)
  case (1 f maxw tmp p)
  show ?case
    using 1(1) [OF _ refl refl] 1(2) by (subst fit_loop.simps) (auto simp: Let_def)
qed

lemma u8next_rest_drop: "\<exists>k. snd (u8next s) = drop k s"
  by (auto simp: u8next_def Let_def intro: exI [of _ 0])

lemma u8next_split:
  assumes "rest = snd (u8next p)"
  shows "take (length p - length rest) p @ rest = p"
proof -
  obtain k where "rest = drop k p" using assms u8next_rest_drop by blast
  then show ?thesis by (cases "k \<le> length p") auto
qed

lemma fit_loop_prefix: "\<exists>k. fit_loop f maxw tmp p = tmp @ take k p"
proof (induction f maxw tmp p rule: fit_loop.induct)
  case (1 f maxw tmp p)
  let ?rest = "snd (u8next p)"
  let ?add = "length p - length ?rest"
  show ?case
  proof (cases "byte_at p 0 = 0 \<or> length tmp \<ge> 160 - 8 \<or> length tmp + ?add + 3 \<ge> 160 \<or>
      text_w f (tmp @ take ?add p) + text_w f ellipsis > maxw")
    case True
    then have "fit_loop f maxw tmp p = tmp @ take 0 p" by (subst fit_loop.simps) (auto simp: Let_def)
    then show ?thesis by blast
  next
    case False
    with 1 [OF _ refl refl] obtain k where
      "fit_loop f maxw (tmp @ take ?add p) ?rest = (tmp @ take ?add p) @ take k ?rest" by auto
    moreover have "fit_loop f maxw tmp p = fit_loop f maxw (tmp @ take ?add p) ?rest"
      using False by (subst fit_loop.simps) (simp add: Let_def)
    moreover have "take ?add p @ take k ?rest = take (?add + k) p"
      by (metis append_eq_conv_conj length_take min.absorb2 diff_le_self take_add u8next_split)
    ultimately show ?thesis by auto
  qed
qed

lemma fit_loop_width:
  "fit_loop f maxw tmp p = tmp \<or> text_w f (fit_loop f maxw tmp p) + text_w f ellipsis \<le> maxw"
proof (induction f maxw tmp p rule: fit_loop.induct)
  case (1 f maxw tmp p)
  show ?case
    using 1 [OF _ refl refl] by (subst (1 2) fit_loop.simps) (auto simp: Let_def)
qed

text \<open>
  C25. Shortening a text of any length and content ends, keeps within the buffer of 160 bytes with
  the ellipsis and the terminating NUL, copies a prefix of the text, and what it keeps was measured
  to fit the width together with the ellipsis, unless nothing is kept.
\<close>

theorem hud_text_fits_buffer:
  "length (fit_loop f maxw [] s @ ellipsis) + 1 \<le> 160 \<and> (\<exists>k. fit_loop f maxw [] s = take k s) \<and>
   (fit_loop f maxw [] s = [] \<or> text_w f (fit_loop f maxw [] s) + text_w f ellipsis \<le> maxw)"
  using fit_loop_length [of "[]" f maxw s] fit_loop_prefix [of f maxw "[]" s] fit_loop_width [of f maxw "[]" s]
  by (simp add: ellipsis_def)

section \<open>Drawing stays in the buffer\<close>

definition same_screen :: "canvas \<Rightarrow> canvas \<Rightarrow> bool" where
  "same_screen cv cv' \<longleftrightarrow> canvas_ok cv' \<and> scr_w cv' = scr_w cv \<and> scr_h cv' = scr_h cv \<and> use_gl cv' = use_gl cv"

definition fine :: "canvas \<Rightarrow> canvas option \<Rightarrow> bool" where
  "fine cv r \<longleftrightarrow> (\<exists>cv'. r = Some cv' \<and> same_screen cv cv')"

lemma same_screen_ok [simp]: "same_screen cv cv' \<Longrightarrow> canvas_ok cv'"
  by (simp add: same_screen_def)

lemma fine_Some: "canvas_ok cv \<Longrightarrow> fine cv (Some cv)"
  by (simp add: fine_def same_screen_def)

lemma fine_bind: "fine cv r \<Longrightarrow> (\<And>cv'. canvas_ok cv' \<Longrightarrow> fine cv' (k cv')) \<Longrightarrow> fine cv (Option.bind r k)"
  unfolding fine_def same_screen_def by fastforce

lemma fine_gl: "canvas_ok cv \<Longrightarrow> fine cv (Some (gl call cv))"
  by (simp add: fine_def same_screen_def gl_def canvas_ok_def)

lemma fine_fill_rect: "canvas_ok cv \<Longrightarrow> fine cv (fill_rect x y w h c cv)"
proof (cases "use_gl cv")
  case True
  then show "canvas_ok cv \<Longrightarrow> fine cv (fill_rect x y w h c cv)" by (simp add: fill_rect_def fine_gl)
next
  case False
  then show "canvas_ok cv \<Longrightarrow> fine cv (fill_rect x y w h c cv)" by (simp add: fill_rect_spec fine_def same_screen_def)
qed

lemma fine_plot:
  assumes ok: "canvas_ok cv"
  shows "fine cv (plot x y c a cv)"
proof -
  have "0 \<le> y * scr_w cv + x \<and> y * scr_w cv + x < int (length (back_px cv))"
    if "0 \<le> x" "x < scr_w cv" "0 \<le> y" "y < scr_h cv"
  proof -
    have "(y + 1) * scr_w cv \<le> scr_h cv * scr_w cv" using that by (intro mult_right_mono) auto
    then show ?thesis using that ok by (simp add: canvas_ok_def algebra_simps)
  qed
  then show ?thesis
    using ok by (auto simp: plot_def poke_px_def peek_px_def Let_def fine_def same_screen_def canvas_ok_def)
qed

lemma fine_round_rows: "canvas_ok cv \<Longrightarrow> fine cv (round_rows n yy x y w h r c cv)"
  by (induction n arbitrary: yy cv) (auto intro!: fine_Some fine_bind fine_fill_rect)

lemma fine_fill_round: "canvas_ok cv \<Longrightarrow> fine cv (fill_round x y w h r c cv)"
  by (simp add: fill_round_def fine_gl fine_fill_rect fine_round_rows)

text \<open>The bitmap of every glyph lies in the font's bitmaps.\<close>

definition font_ok :: "gs_font \<Rightarrow> bool" where
  "font_ok f \<longleftrightarrow> f_n f = int (length (f_g f)) \<and> (\<forall>g\<in>set (f_g f). g_off g + g_h g * g_w g \<le> length (f_bits f))"

lemma find_g_member: "font_ok f \<Longrightarrow> find_g f cp = Some g \<Longrightarrow> g \<in> set (f_g f)"
  by (auto simp: find_g_def font_ok_def find_Some_iff dest: bin_search_Some split: option.splits)

lemma glyph_bits: "font_ok f \<Longrightarrow> g \<in> set (f_g f) \<Longrightarrow> g_off g + g_h g * g_w g \<le> length (f_bits f)"
  by (simp add: font_ok_def)

lemma fine_glyph_pixels:
  assumes "canvas_ok cv" "\<forall>(iy, ix)\<in>set ps. iy < g_h g \<and> ix < g_w g" "g_off g + g_h g * g_w g \<le> length (f_bits f)"
  shows "fine cv (glyph_pixels f g x y c ps cv)"
  using assms
proof (induction ps arbitrary: cv)
  case Nil
  then show ?case by (simp add: fine_Some)
next
  case (Cons p ps)
  obtain iy ix where p: "p = (iy, ix)" by (cases p)
  with Cons.prems have "iy < g_h g" "ix < g_w g" by auto
  then have "(iy + 1) * g_w g \<le> g_h g * g_w g" by (intro mult_right_mono) auto
  then have "g_off g + iy * g_w g + ix < length (f_bits f)" using \<open>ix < g_w g\<close> Cons.prems(3) by simp
  with Cons show ?case by (auto simp: p Let_def intro!: fine_bind fine_Some fine_plot)
qed

lemma fine_draw_cp: "canvas_ok cv \<Longrightarrow> font_ok f \<Longrightarrow> fine cv (draw_cp f x y c cp cv)"
  using find_g_member [of f cp]
  by (auto simp: draw_cp_def fine_Some fine_fill_rect fine_gl intro!: fine_glyph_pixels glyph_bits split: option.split)

lemma fine_draw_cps: "canvas_ok cv \<Longrightarrow> font_ok f \<Longrightarrow> fine cv (draw_cps f x y c cps cv)"
  by (induction cps arbitrary: x cv) (auto intro!: fine_Some fine_bind fine_draw_cp)

lemma fine_draw_text: "canvas_ok cv \<Longrightarrow> font_ok f \<Longrightarrow> fine cv (draw_text f x y s c cv)"
  by (simp add: draw_text_def fine_draw_cps)

lemma fine_draw_btn: "canvas_ok cv \<Longrightarrow> font_ok f \<Longrightarrow> fine cv (draw_btn x y w h r bg f s fg cv)"
  by (auto simp: draw_btn_def draw_text_centered_def fine_Some fine_draw_text intro!: fine_bind fine_fill_round
      split: prod.split)

lemma fine_tri: "canvas_ok cv \<Longrightarrow> fine cv (tri_rows is cx y h up c cv)"
  by (induction "is" arbitrary: cv) (auto simp: Let_def intro!: fine_Some fine_bind fine_fill_rect)

lemma fine_signal: "canvas_ok cv \<Longrightarrow> fine cv (signal_cols is x y on cv)"
  by (induction "is" arbitrary: cv) (auto simp: Let_def intro!: fine_Some fine_bind fine_fill_round)

text \<open>
  Whatever is drawn wherever, with a font whose bitmaps are complete: text (shortened or
  not), buttons, triangles and signal bars are drawn without an access outside the buffer or the
  font, and leave a buffer of the same size.
\<close>

theorem hud_drawing_stays_inside:
  assumes "canvas_ok cv" and "font_ok f"
  shows "fine cv (draw_text f x y s c cv) \<and> fine cv (draw_text_fit f x y maxw s c cv) \<and>
    fine cv (draw_btn x y w h r bg f s fg cv) \<and> fine cv (fill_tri_v x y h up c cv) \<and> fine cv (draw_signal x y sig cv)"
  using assms by (simp add: draw_text_fit_def fill_tri_v_def draw_signal_def fine_Some fine_draw_text fine_draw_btn
      fine_tri fine_signal del: signal_cols.simps)

theorem hud_drawing_stays_inside_witness:
  "fine demo_canvas (draw_text demo_font 2 (- 1) [0x41, 0x42, 0x43] 7 demo_canvas)"
  using hud_drawing_stays_inside [of demo_canvas demo_font 2 "- 1" "[0x41, 0x42, 0x43]" 7]
  by (simp add: canvas_ok_def demo_canvas_def font_ok_def demo_font_def demo_glyph_def)

end
