(* ===== verification/Hud_Keyboard.thy ===== *)
theory Hud_Keyboard
  imports Hud_Canvas Wifi_Events
begin

text \<open>
  The on-screen keyboard of the boot display (\<open>initramfs/gemini-status.c\<close>): where its keys are and
  which key a touch is on.
\<close>

section \<open>Layout\<close>

record osk_key =
  k_lab :: string
  k_ch :: char
  k_kind :: osk_kind
  k_x :: int
  k_y :: int
  k_w :: int
  k_h :: int

definition OSK_MAX :: nat where "OSK_MAX = 48"

definition osk_kh :: int where "osk_kh = 86"
definition osk_gap :: int where "osk_gap = 10"

definition osk_top :: "int \<Rightarrow> int" where
  "osk_top H = H - 4 * (osk_kh + osk_gap) - 18"

text \<open>The coordinates are stored as \<open>short\<close>, the label in 8 bytes.\<close>

definition osk_add :: "osk_kind \<Rightarrow> string \<Rightarrow> char \<Rightarrow> int \<Rightarrow> int \<Rightarrow> int \<Rightarrow> int \<Rightarrow> osk_key list \<Rightarrow> osk_key list" where
  "osk_add kind lab ch x y w h ks =
     (if length ks \<ge> OSK_MAX \<or> w < 8 \<or> h < 8 then ks
      else ks @ [\<lparr>k_lab = fits 8 lab, k_ch = ch, k_kind = kind, k_x = c_s16 x, k_y = c_s16 y, k_w = c_s16 w, k_h = c_s16 h\<rparr>])"

text \<open>The loop over the characters of a row.\<close>

fun osk_chars :: "string \<Rightarrow> int \<Rightarrow> int \<Rightarrow> int \<Rightarrow> osk_key list \<Rightarrow> osk_key list" where
  "osk_chars [] x y kw ks = ks"
| "osk_chars (c # s) x y kw ks = osk_chars s (x + kw + osk_gap) y kw (osk_add OSK_CHAR [c] c x y kw osk_kh ks)"

definition osk_add_row :: "int \<Rightarrow> string \<Rightarrow> int \<Rightarrow> int \<Rightarrow> osk_key list \<Rightarrow> osk_key list" where
  "osk_add_row W s y inset ks =
     (if s = [] then ks
      else
        let gap = osk_gap; side = 10; n = int (length s);
            inner = W - side * 2 - inset * 2;
            kw = (inner - (n - 1) * gap) sdiv n;
            kw = (if kw < 48 then 48 else kw);
            extra = inner - n * kw - (n - 1) * gap
        in osk_chars s (side + inset + extra sdiv 2) y kw ks)"

definition T :: "bool \<Rightarrow> string \<Rightarrow> string \<Rightarrow> string" where
  "T lang_en zh en = (if lang_en then en else zh)"

definition ZH_DEL :: string where "ZH_DEL = [CHR 0xE5, CHR 0x88, CHR 0xA0]"
definition ZH_JOIN :: string where "ZH_JOIN = [CHR 0xE8, CHR 0xBF, CHR 0x9E, CHR 0xE6, CHR 0x8E, CHR 0xA5]"

text \<open>The rows of characters: the first, the second, the third if it has letters, else punctuation.\<close>

definition osk_rows :: "bool \<Rightarrow> bool \<Rightarrow> bool \<Rightarrow> string \<times> string \<times> string option \<times> string" where
  "osk_rows shift sy sy2 =
     (if sy then
        if sy2 then (''[]{}#%^*+='', CHR ''_'' # CHR 0x5C # ''|~<>$&@*'', None, ''.,?!'' @ [CHR 0x27])
        else (''1234567890'', ''-/:;()$&@'' @ [CHR 0x22], None, ''.,?!'' @ CHR 0x27 # ''<>'')
      else if shift then (''QWERTYUIOP'', ''ASDFGHJKL'', Some ''ZXCVBNM'', [])
      else (''qwertyuiop'', ''asdfghjkl'', Some ''zxcvbnm'', []))"

text \<open>The third row: a special key, characters, the delete key.\<close>

definition osk_third :: "int \<Rightarrow> bool \<Rightarrow> osk_kind \<Rightarrow> string \<Rightarrow> string \<Rightarrow> int \<Rightarrow> osk_key list \<Rightarrow> osk_key list" where
  "osk_third W lang_en kind lab s y ks =
     (let gap = osk_gap; side = 10; inner = W - side * 2; spec = 132; bk = 132;
          n = int (length s); rest = inner - spec - bk - 2 * gap; kw = (rest - (n - 1) * gap) sdiv n;
          ks = osk_add kind lab (CHR 0x00) side y spec osk_kh ks;
          ks = osk_chars s (side + spec + gap) y kw ks
      in osk_add OSK_BKSP (T lang_en ZH_DEL ''del'') (CHR 0x00) (side + inner - bk) y bk osk_kh ks)"

definition osk_layout :: "int \<Rightarrow> int \<Rightarrow> bool \<Rightarrow> bool \<Rightarrow> bool \<Rightarrow> bool \<Rightarrow> osk_key list" where
  "osk_layout W H lang_en shift sy sy2 =
     (case osk_rows shift sy sy2 of (r0, r1, r2, punct) \<Rightarrow>
        let kh = osk_kh; gap = osk_gap; side = 10;
            y = osk_top H;
            ks = osk_add_row W r0 y 0 [];
            kw10 = (W - side * 2 - 9 * gap) sdiv 10;
            inset = (kw10 + gap) sdiv 2;
            y = y + (kh + gap);
            ks = osk_add_row W r1 y (if r2 \<noteq> None \<and> length r1 = 9 then inset else 0) ks;
            y = y + (kh + gap);
            ks = (case r2 of
                    Some r \<Rightarrow> osk_third W lang_en OSK_SHIFT '''' r y ks
                  | None \<Rightarrow> osk_third W lang_en OSK_MORE (if sy2 then ''123'' else ''#+='') punct y ks);
            y = y + (kh + gap);
            inner = W - side * 2; spec = 156; bk = 176; rest = inner - spec - bk - 2 * gap;
            ks = osk_add OSK_SYM (if sy then ''ABC'' else ''?123'') (CHR 0x00) side y spec kh ks;
            ks = osk_add OSK_SPACE '''' (CHR '' '') (side + spec + gap) y rest kh ks
        in osk_add OSK_GO (T lang_en ZH_JOIN ''Join'') (CHR 0x00) (side + spec + gap + rest + gap) y bk kh ks)"

section \<open>The key under a touch\<close>

text \<open>
  Keys are enlarged by \<open>pad\<close> on every side; of the keys that contain the point the one with the
  nearest centre is taken. \<open>best\<close> is - 1 as long as none was found.
\<close>

definition osk_pad :: int where "osk_pad = osk_gap sdiv 2 + 2"

definition in_padded :: "int \<Rightarrow> int \<Rightarrow> osk_key \<Rightarrow> bool" where
  "in_padded x y k = hit x y (k_x k - osk_pad) (k_y k - osk_pad) (k_w k + osk_pad * 2) (k_h k + osk_pad * 2)"

definition centre_dist :: "int \<Rightarrow> int \<Rightarrow> osk_key \<Rightarrow> int" where
  "centre_dist x y k =
     (let dx = x - (k_x k + k_w k sdiv 2); dy = y - (k_y k + k_h k sdiv 2) in dx * dx + dy * dy)"

fun key_search :: "int \<Rightarrow> int \<Rightarrow> int \<Rightarrow> osk_key list \<Rightarrow> int \<Rightarrow> int \<Rightarrow> int" where
  "key_search x y i [] best bd = best"
| "key_search x y i (k # ks) best bd =
     (if in_padded x y k \<and> centre_dist x y k < bd then key_search x y (i + 1) ks i (centre_dist x y k)
      else key_search x y (i + 1) ks best bd)"

definition osk_key_at :: "int \<Rightarrow> int \<Rightarrow> osk_key list \<Rightarrow> int" where
  "osk_key_at x y ks = key_search x y 0 ks (- 1) (2 ^ 30)"

section \<open>Where the keys are\<close>

definition row_ok :: "int \<Rightarrow> int \<Rightarrow> int \<Rightarrow> osk_key list \<Rightarrow> bool" where
  "row_ok y lo hi ks \<longleftrightarrow>
     (\<forall>k\<in>set ks. k_y k = y \<and> k_h k = osk_kh \<and> lo \<le> k_x k \<and> k_x k + k_w k \<le> hi \<and> 8 \<le> k_w k) \<and>
     sorted_wrt (\<lambda>a b. k_x a + k_w a + osk_gap \<le> k_x b) ks"

lemma c_s16_id: "- 32768 \<le> x \<Longrightarrow> x < 32768 \<Longrightarrow> c_s16 x = x"
  unfolding c_s16_def by (rule signed_take_bit_int_eq_self) auto

lemma sdiv_pos: "0 \<le> a \<Longrightarrow> 0 < b \<Longrightarrow> a sdiv b = a div b" for a b :: int
  by (cases "a = 0") (simp_all add: signed_divide_int_def)

definition mk_key :: "osk_kind \<Rightarrow> string \<Rightarrow> char \<Rightarrow> int \<Rightarrow> int \<Rightarrow> int \<Rightarrow> osk_key" where
  "mk_key kind lab ch x y w = \<lparr>k_lab = fits 8 lab, k_ch = ch, k_kind = kind, k_x = x, k_y = y, k_w = w, k_h = osk_kh\<rparr>"

definition on_panel :: "int \<Rightarrow> bool" where
  "on_panel v \<longleftrightarrow> - 16000 \<le> v \<and> v \<le> 16000"

lemma osk_add_key:
  "length ks < OSK_MAX \<Longrightarrow> 8 \<le> w \<Longrightarrow> on_panel x \<Longrightarrow> on_panel y \<Longrightarrow> on_panel w \<Longrightarrow>
     osk_add kind lab ch x y w osk_kh ks = ks @ [mk_key kind lab ch x y w]"
  by (simp add: osk_add_def mk_key_def c_s16_id on_panel_def osk_kh_def)

fun char_keys :: "string \<Rightarrow> int \<Rightarrow> int \<Rightarrow> int \<Rightarrow> osk_key list" where
  "char_keys [] x y kw = []"
| "char_keys (c # s) x y kw = mk_key OSK_CHAR [c] c x y kw # char_keys s (x + kw + osk_gap) y kw"

lemma osk_chars_keys:
  assumes "length ks + length s \<le> OSK_MAX" "8 \<le> kw" "on_panel y" "0 \<le> x" "x + int (length s) * (kw + osk_gap) \<le> 16000"
  shows "osk_chars s x y kw ks = ks @ char_keys s x y kw"
  using assms
proof (induction s arbitrary: x ks)
  case (Cons c s)
  have g: "0 < kw + osk_gap" using Cons.prems(2) by (simp add: osk_gap_def)
  have "x + kw + osk_gap + int (length s) * (kw + osk_gap) \<le> 16000" using Cons.prems(5) by (simp add: algebra_simps)
  moreover have "0 \<le> int (length s) * (kw + osk_gap)" using g by simp
  ultimately have "x + kw + osk_gap \<le> 16000" by linarith
  then have "on_panel x" "on_panel kw" using Cons.prems(2,4) by (auto simp: on_panel_def osk_gap_def)
  then show ?case
    using Cons.prems g \<open>x + kw + osk_gap + int (length s) * (kw + osk_gap) \<le> 16000\<close>
    by (simp add: osk_add_key Cons.IH)
qed simp

lemma char_keys_at:
  assumes "8 \<le> kw" "k \<in> set (char_keys s x y kw)"
  shows "k_y k = y \<and> k_h k = osk_kh \<and> k_w k = kw \<and> x \<le> k_x k \<and> k_x k + kw + osk_gap \<le> x + int (length s) * (kw + osk_gap)"
  using assms(2)
proof (induction s arbitrary: x)
  case (Cons c s)
  have "0 \<le> int (length s) * (kw + osk_gap)" "0 \<le> kw + osk_gap" using assms(1) by (simp_all add: osk_gap_def)
  then show ?case using Cons.IH [of "x + kw + osk_gap"] Cons.prems by (auto simp: mk_key_def algebra_simps)
qed simp

lemma char_keys_row:
  assumes "8 \<le> kw" "lo \<le> x" "s \<noteq> [] \<Longrightarrow> x + int (length s) * (kw + osk_gap) - osk_gap \<le> hi"
  shows "row_ok y lo hi (char_keys s x y kw)"
proof -
  have "sorted_wrt (\<lambda>a b. k_x a + k_w a + osk_gap \<le> k_x b) (char_keys s x y kw)"
    by (induction s arbitrary: x) (auto simp: mk_key_def dest: char_keys_at [OF assms(1)])
  then show ?thesis using char_keys_at [OF assms(1)] assms by (cases "s = []") (fastforce simp: row_ok_def)+
qed

lemma row_ok_append:
  "row_ok y lo hi (ks @ ls) \<longleftrightarrow> row_ok y lo hi ks \<and> row_ok y lo hi ls \<and>
     (\<forall>a\<in>set ks. \<forall>b\<in>set ls. k_x a + k_w a + osk_gap \<le> k_x b)"
  by (auto simp: row_ok_def sorted_wrt_append)

lemma char_keys_length [simp]: "length (char_keys s x y kw) = length s"
  by (induction s arbitrary: x) auto

lemma osk_add_row_keys:
  assumes "s \<noteq> []" "length ks + length s \<le> OSK_MAX" "on_panel y" "0 \<le> inset" "W \<le> 8000"
    "58 * int (length s) - 10 \<le> W - 20 - 2 * inset"
  shows "\<exists>r. osk_add_row W s y inset ks = ks @ r \<and> row_ok y 10 (W - 10) r \<and> length r = length s"
proof -
  define n inner where "n = int (length s)" and "inner = W - 10 * 2 - inset * 2"
  define kw extra where "kw = (inner - (n - 1) * 10) div n" and "extra = inner - n * kw - (n - 1) * 10"
  have n: "1 \<le> n" using assms(1) by (simp add: n_def Suc_le_eq)
  have room: "58 * n - 10 \<le> inner" using assms(6) by (simp add: n_def inner_def)
  have "48 * n \<le> inner - (n - 1) * 10" using room by (simp add: algebra_simps)
  then have kw48: "48 \<le> kw" unfolding kw_def using n zdiv_mono1 [of "48 * n" "inner - (n - 1) * 10" n] by simp
  have "n * kw = inner - (n - 1) * 10 - (inner - (n - 1) * 10) mod n" by (simp add: kw_def minus_mod_eq_mult_div)
  then have extra: "0 \<le> extra" using n by (simp add: extra_def)
  have half: "0 \<le> extra div 2" "extra div 2 \<le> extra" using extra by simp_all
  have fits: "10 + inset + extra div 2 + n * (kw + osk_gap) - osk_gap \<le> W - 10"
    using half extra_def assms(4) by (simp add: osk_gap_def inner_def algebra_simps)
  have kws: "(inner - (n - 1) * 10) sdiv n = kw" using n \<open>48 * n \<le> inner - (n - 1) * 10\<close> by (simp add: sdiv_pos kw_def)
  have "osk_add_row W s y inset ks = osk_chars s (10 + inset + extra div 2) y kw ks"
    unfolding osk_add_row_def Let_def osk_gap_def n_def [symmetric] inner_def [symmetric] kws
    using assms(1) kw48 extra by (simp add: sdiv_pos extra_def)
  also have "\<dots> = ks @ char_keys s (10 + inset + extra div 2) y kw"
    by (rule osk_chars_keys) (use assms kw48 half fits in \<open>simp_all add: n_def osk_gap_def\<close>)
  finally have "osk_add_row W s y inset ks = ks @ char_keys s (10 + inset + extra div 2) y kw" .
  moreover have "row_ok y 10 (W - 10) (char_keys s (10 + inset + extra div 2) y kw)"
    by (rule char_keys_row) (use kw48 assms(4) half fits in \<open>simp_all add: n_def\<close>)
  ultimately show ?thesis by auto
qed

lemma osk_third_keys:
  assumes "s \<noteq> []" "length s \<le> 7" "length ks + 9 \<le> OSK_MAX" "on_panel y" "600 \<le> W" "W \<le> 8000"
  shows "\<exists>r. osk_third W lang kind lab s y ks = ks @ r \<and> row_ok y 10 (W - 10) r \<and> length r \<le> 9"
proof -
  define n kw where "n = int (length s)" and "kw = (W - 304 - (n - 1) * 10) div n"
  have n: "1 \<le> n" "n \<le> 7" using assms(1,2) by (simp_all add: n_def Suc_le_eq)
  have room: "8 * n \<le> W - 304 - (n - 1) * 10" using n assms(5) by (simp add: algebra_simps)
  then have kw8: "8 \<le> kw" unfolding kw_def using n zdiv_mono1 [of "8 * n" "W - 304 - (n - 1) * 10" n] by simp
  have kws: "(W - 304 - (n - 1) * 10) sdiv n = kw" using n room by (simp add: sdiv_pos kw_def)
  have "n * kw = W - 304 - (n - 1) * 10 - (W - 304 - (n - 1) * 10) mod n" by (simp add: kw_def minus_mod_eq_mult_div)
  then have "n * kw \<le> W - 304 - (n - 1) * 10" using n by simp
  then have fits: "152 + n * (kw + osk_gap) - osk_gap \<le> W - 152" by (simp add: osk_gap_def algebra_simps)
  let ?a = "mk_key kind lab (CHR 0x00) 10 y 132"
  let ?c = "char_keys s 152 y kw"
  let ?b = "mk_key OSK_BKSP (T lang ZH_DEL ''del'') (CHR 0x00) (W - 142) y 132"
  have W: "on_panel (W - 142)" "on_panel 10" "on_panel 132" using assms(5,6) by (simp_all add: on_panel_def)
  have a: "osk_add kind lab (CHR 0x00) 10 y 132 osk_kh ks = ks @ [?a]"
    using assms(3,4) W by (simp add: osk_add_key)
  have c: "osk_chars s 152 y kw (ks @ [?a]) = (ks @ [?a]) @ ?c"
    by (rule osk_chars_keys) (use assms fits kw8 in \<open>simp_all add: n_def osk_gap_def\<close>)
  have b: "osk_add OSK_BKSP (T lang ZH_DEL ''del'') (CHR 0x00) (W - 142) y 132 osk_kh ((ks @ [?a]) @ ?c) = ((ks @ [?a]) @ ?c) @ [?b]"
    by (rule osk_add_key) (use assms W in \<open>simp_all\<close>)
  have "osk_third W lang kind lab s y ks =
    osk_add OSK_BKSP (T lang ZH_DEL ''del'') (CHR 0x00) (W - 142) y 132 osk_kh
      (osk_chars s 152 y kw (osk_add kind lab (CHR 0x00) 10 y 132 osk_kh ks))"
    using kws by (simp add: osk_third_def Let_def osk_gap_def flip: n_def)
  then have "osk_third W lang kind lab s y ks = ks @ ([?a] @ ?c @ [?b])" unfolding a c b by simp
  moreover have "row_ok y 10 (W - 10) ([?a] @ ?c @ [?b])"
  proof -
    have "row_ok y 152 (W - 152) ?c" by (rule char_keys_row) (use kw8 fits in \<open>simp_all add: n_def\<close>)
    then show ?thesis
      unfolding row_ok_append using assms(5)
      by (auto simp: row_ok_def mk_key_def osk_gap_def)
  qed
  ultimately show ?thesis using assms(2) by (intro exI [of _ "[?a] @ ?c @ [?b]"]) simp
qed

text \<open>Far enough apart that no enlarged key reaches into another key.\<close>

definition apart :: "osk_key \<Rightarrow> osk_key \<Rightarrow> bool" where
  "apart a b \<longleftrightarrow> k_x a + k_w a + osk_pad \<le> k_x b \<or> k_x b + k_w b + osk_pad \<le> k_x a \<or>
     k_y a + k_h a + osk_pad \<le> k_y b \<or> k_y b + k_h b + osk_pad \<le> k_y a"

definition layout_ok :: "int \<Rightarrow> int \<Rightarrow> osk_key list \<Rightarrow> bool" where
  "layout_ok W H ks \<longleftrightarrow> sorted_wrt apart ks \<and>
     (\<forall>k\<in>set ks. 0 \<le> k_x k \<and> k_x k + k_w k \<le> W \<and> osk_top H \<le> k_y k \<and> k_y k + k_h k \<le> H \<and> 8 \<le> k_w k \<and> k_h k = osk_kh)"

lemma osk_pad_7 [simp]: "osk_pad = 7"
  by (simp add: osk_pad_def osk_gap_def sdiv_pos)

lemma row_apart: "row_ok y lo hi r \<Longrightarrow> sorted_wrt apart r"
  unfolding row_ok_def by (auto simp: apart_def osk_gap_def elim!: sorted_wrt_mono_rel [rotated])

lemma rows_apart: "row_ok y lo hi r \<Longrightarrow> row_ok y' lo' hi' r' \<Longrightarrow> y + 96 \<le> y' \<Longrightarrow> a \<in> set r \<Longrightarrow> b \<in> set r' \<Longrightarrow> apart a b"
  by (simp add: row_ok_def apart_def osk_kh_def)

lemma rows_layout:
  assumes "row_ok y 10 (W - 10) r0" "row_ok (y + 96) 10 (W - 10) r1" "row_ok (y + 192) 10 (W - 10) r2"
    "row_ok (y + 288) 10 (W - 10) r3" "y = osk_top H"
  shows "layout_ok W H (r0 @ r1 @ r2 @ r3)"
proof -
  have "sorted_wrt apart (r0 @ r1 @ r2 @ r3)"
    unfolding sorted_wrt_append
    by (auto intro: row_apart [OF assms(1)] row_apart [OF assms(2)] row_apart [OF assms(3)] row_apart [OF assms(4)]
        rows_apart [OF assms(1) assms(2)] rows_apart [OF assms(1) assms(3)] rows_apart [OF assms(1) assms(4)]
        rows_apart [OF assms(2) assms(3)] rows_apart [OF assms(2) assms(4)] rows_apart [OF assms(3) assms(4)])
  then show ?thesis
    using assms by (fastforce simp: layout_ok_def row_ok_def osk_top_def osk_kh_def osk_gap_def)
qed

lemma osk_last_row:
  assumes "length ks + 3 \<le> OSK_MAX" "on_panel y" "600 \<le> W" "W \<le> 8000"
  shows "\<exists>r. osk_add OSK_GO go (CHR 0x00) (W - 186) y 176 osk_kh
      (osk_add OSK_SPACE '''' (CHR '' '') 176 y (W - 372) osk_kh (osk_add OSK_SYM lab (CHR 0x00) 10 y 156 osk_kh ks)) = ks @ r \<and>
    row_ok y 10 (W - 10) r"
proof -
  have W: "on_panel (W - 186)" "on_panel (W - 372)" "on_panel 10" "on_panel 156" "on_panel 176"
    using assms(3,4) by (simp_all add: on_panel_def)
  have "row_ok y 10 (W - 10) [mk_key OSK_SYM lab (CHR 0x00) 10 y 156, mk_key OSK_SPACE '''' (CHR '' '') 176 y (W - 372),
      mk_key OSK_GO go (CHR 0x00) (W - 186) y 176]"
    using assms(3) by (simp add: row_ok_def mk_key_def osk_gap_def)
  moreover have "osk_add OSK_GO go (CHR 0x00) (W - 186) y 176 osk_kh
      (osk_add OSK_SPACE '''' (CHR '' '') 176 y (W - 372) osk_kh (osk_add OSK_SYM lab (CHR 0x00) 10 y 156 osk_kh ks)) =
    ks @ [mk_key OSK_SYM lab (CHR 0x00) 10 y 156, mk_key OSK_SPACE '''' (CHR '' '') 176 y (W - 372),
      mk_key OSK_GO go (CHR 0x00) (W - 186) y 176]"
    using assms W by (simp add: osk_add_key)
  ultimately show ?thesis by blast
qed

lemma osk_rows_cases:
  assumes "osk_rows shift sy sy2 = (r0, r1, r2, punct)"
  shows "length r0 = 10 \<and> (length r1 = 9 \<or> r2 = None \<and> length r1 = 10) \<and>
    (case r2 of Some r \<Rightarrow> r \<noteq> [] \<and> length r \<le> 7 | None \<Rightarrow> punct \<noteq> [] \<and> length punct \<le> 7)"
  using assms by (auto simp: osk_rows_def split: if_splits)

lemma rows_at: "192 + y = y + 192" "288 + y = y + 288" for y :: int
  by simp_all

lemma osk_layout_ok:
  assumes "600 \<le> W" "W \<le> 8000" "480 \<le> H" "H \<le> 8000"
  shows "layout_ok W H (osk_layout W H lang shift sy sy2)"
proof -
  obtain r0 r1 r2 punct where rows: "osk_rows shift sy sy2 = (r0, r1, r2, punct)" by (metis prod_cases4)
  note len = osk_rows_cases [OF rows]
  have ne: "r0 \<noteq> []" "r1 \<noteq> []" using len by auto
  define y where "y = osk_top H"
  have y: "on_panel y" "on_panel (y + 96)" "on_panel (y + 192)" "on_panel (y + 288)"
    using assms(3,4) by (simp_all add: y_def osk_top_def osk_kh_def osk_gap_def on_panel_def)
  define inset where "inset = (if r2 \<noteq> None \<and> length r1 = 9 then ((W - 110) sdiv 10 + 10) sdiv 2 else 0)"
  have "(W - 110) sdiv 10 = (W - 110) div 10" "(W - 110) div 10 * 10 \<le> W - 110" "49 \<le> (W - 110) div 10"
    using assms(1) by (simp_all add: sdiv_pos)
  then have inset: "0 \<le> inset" "58 * int (length r1) - 10 \<le> W - 20 - 2 * inset"
    using len assms(1) by (auto simp: inset_def sdiv_pos)
  obtain k0 where k0: "osk_add_row W r0 y 0 [] = k0" "row_ok y 10 (W - 10) k0" "length k0 = 10"
    using osk_add_row_keys [of r0 "[]" y 0 W] ne len y assms by (auto simp: OSK_MAX_def)
  obtain k1 where k1: "osk_add_row W r1 (y + 96) inset k0 = k0 @ k1" "row_ok (y + 96) 10 (W - 10) k1" "length k1 \<le> 10"
    using osk_add_row_keys [of r1 k0 "y + 96" inset W] ne len y assms inset k0(3) by (force simp: OSK_MAX_def)
  define third where "third = (case r2 of
      Some r \<Rightarrow> osk_third W lang OSK_SHIFT '''' r (y + 192) (k0 @ k1)
    | None \<Rightarrow> osk_third W lang OSK_MORE (if sy2 then ''123'' else ''#+='') punct (y + 192) (k0 @ k1))"
  obtain k2 where k2: "third = (k0 @ k1) @ k2" "row_ok (y + 192) 10 (W - 10) k2" "length k2 \<le> 9"
  proof (cases r2)
    case None
    then show ?thesis
      using osk_third_keys [of punct "k0 @ k1" "y + 192" W lang OSK_MORE "if sy2 then ''123'' else ''#+=''"] that len y assms k0(3) k1(3)
      by (auto simp: third_def OSK_MAX_def)
  next
    case (Some r)
    then show ?thesis
      using osk_third_keys [of r "k0 @ k1" "y + 192" W lang OSK_SHIFT "[]"] that len y assms k0(3) k1(3)
      by (auto simp: third_def OSK_MAX_def)
  qed
  obtain k3 where k3: "osk_add OSK_GO (T lang ZH_JOIN ''Join'') (CHR 0x00) (W - 186) (y + 288) 176 osk_kh
      (osk_add OSK_SPACE '''' (CHR '' '') 176 (y + 288) (W - 372) osk_kh
        (osk_add OSK_SYM (if sy then ''ABC'' else ''?123'') (CHR 0x00) 10 (y + 288) 156 osk_kh third)) = third @ k3"
    "row_ok (y + 288) 10 (W - 10) k3"
    using osk_last_row [of third "y + 288" W] y assms k0(3) k1(3) k2 by (force simp: OSK_MAX_def)
  have "osk_layout W H lang shift sy sy2 = third @ k3"
    unfolding k3(1) [symmetric]
    unfolding third_def osk_layout_def rows prod.case Let_def osk_kh_def osk_gap_def
    using k0(1) k1(1) unfolding y_def inset_def osk_kh_def osk_gap_def
    by (cases r2; cases "length r1 = 9") (simp_all add: rows_at)
  then show ?thesis using rows_layout [OF k0(2) k1(2) k2(2) k3(2) y_def] k2(1) by simp
qed

section \<open>The key under a point\<close>

lemma key_search_none: "\<forall>k\<in>set ks. \<not> in_padded x y k \<Longrightarrow> key_search x y i ks best bd = best"
  by (induction ks arbitrary: i) auto

lemma key_search_append_none:
  "\<forall>k\<in>set ks. \<not> in_padded x y k \<Longrightarrow> key_search x y i (ks @ ls) best bd = key_search x y (i + int (length ks)) ls best bd"
  by (induction ks arbitrary: i) (auto simp: algebra_simps)

lemma apart_sym: "apart a b = apart b a"
  by (auto simp: apart_def)

lemma apart_not_padded:
  "apart k j \<Longrightarrow> hit x y (k_x k) (k_y k) (k_w k) (k_h k) \<Longrightarrow> \<not> in_padded x y j"
  by (auto simp: apart_def in_padded_def hit_def)

lemma key_in_padded: "hit x y (k_x k) (k_y k) (k_w k) (k_h k) \<Longrightarrow> in_padded x y k"
  by (simp add: in_padded_def hit_def)

lemma square_8000: "\<bar>z\<bar> \<le> 8000 \<Longrightarrow> z * z \<le> 64000000" for z :: int
  using mult_mono [of "\<bar>z\<bar>" 8000 "\<bar>z\<bar>" 8000] by simp

lemma centre_dist_small:
  assumes "hit x y (k_x k) (k_y k) (k_w k) (k_h k)" "k_w k \<le> 8000" "k_h k \<le> 8000"
  shows "centre_dist x y k < 2 ^ 30"
proof -
  have "0 < k_w k" "0 < k_h k" using assms(1) by (auto simp: hit_def)
  then have "k_w k sdiv 2 = k_w k div 2" "k_h k sdiv 2 = k_h k div 2" by (simp_all add: sdiv_pos)
  then have "\<bar>x - (k_x k + k_w k sdiv 2)\<bar> \<le> 8000" "\<bar>y - (k_y k + k_h k sdiv 2)\<bar> \<le> 8000"
    using assms by (auto simp: hit_def)
  then show ?thesis using square_8000 [of "x - (k_x k + k_w k sdiv 2)"] square_8000 [of "y - (k_y k + k_h k sdiv 2)"]
    by (simp add: centre_dist_def Let_def)
qed

lemma osk_key_at_key:
  assumes "layout_ok W H ks" "W \<le> 8000" "i < length ks"
    "hit x y (k_x (ks ! i)) (k_y (ks ! i)) (k_w (ks ! i)) (k_h (ks ! i))"
  shows "osk_key_at x y ks = int i"
proof -
  let ?k = "ks ! i"
  have split: "ks = take i ks @ ?k # drop (Suc i) ks" using assms(3) by (rule id_take_nth_drop)
  have "sorted_wrt apart (take i ks @ ?k # drop (Suc i) ks)" using assms(1) split by (simp add: layout_ok_def)
  then have "\<forall>j\<in>set (take i ks). apart ?k j" "\<forall>j\<in>set (drop (Suc i) ks). apart ?k j"
    by (auto simp: sorted_wrt_append apart_sym [of ?k])
  then have none: "\<forall>j\<in>set (take i ks). \<not> in_padded x y j" "\<forall>j\<in>set (drop (Suc i) ks). \<not> in_padded x y j"
    using apart_not_padded [OF _ assms(4)] by auto
  have "?k \<in> set ks" using assms(3) by simp
  with assms(1,2) have "k_w ?k \<le> 8000" "k_h ?k \<le> 8000" by (auto simp: layout_ok_def osk_kh_def)
  from centre_dist_small [OF assms(4) this] key_in_padded [OF assms(4)]
  have "osk_key_at x y (take i ks @ ?k # drop (Suc i) ks) = int i"
    using none assms(3) by (simp add: osk_key_at_def key_search_append_none key_search_none)
  then show ?thesis using split by simp
qed

text \<open>
  C26. On every screen that is wide enough, whatever the keyboard shows: the keys lie on the screen
  and do not overlap, and a touch at any point of a key is on that key, although keys are enlarged
  for the search and reach into the gaps.
\<close>

theorem hud_touch_finds_key:
  assumes "600 \<le> W" and "W \<le> 8000" and "480 \<le> H" and "H \<le> 8000"
    and "i < length (osk_layout W H lang shift sy sy2)" and "k = osk_layout W H lang shift sy sy2 ! i"
    and "hit x y (k_x k) (k_y k) (k_w k) (k_h k)"
  shows "hit x y 0 0 W H \<and> osk_key_at x y (osk_layout W H lang shift sy sy2) = int i"
proof -
  note ok = osk_layout_ok [OF assms(1-4), of lang shift sy sy2]
  have "k \<in> set (osk_layout W H lang shift sy sy2)" using assms(5,6) by simp
  with ok have "0 \<le> k_x k" "k_x k + k_w k \<le> W" "osk_top H \<le> k_y k" "k_y k + k_h k \<le> H"
    unfolding layout_ok_def by blast+
  then show ?thesis
    using osk_key_at_key [OF ok assms(2,5)] assms(3,6,7) by (simp add: hit_def osk_top_def osk_kh_def osk_gap_def)
qed

text \<open>The keys are only ever appended.\<close>

definition grows :: "osk_key list \<Rightarrow> osk_key list \<Rightarrow> bool" where
  "grows ks ls \<longleftrightarrow> (\<exists>r. ls = ks @ r)"

lemma grows_add: "grows ks ls \<Longrightarrow> grows ks (osk_add kind lab ch x y w h ls)"
  by (auto simp: grows_def osk_add_def)

lemma grows_chars: "grows ks ls \<Longrightarrow> grows ks (osk_chars s x y kw ls)"
  by (induction s arbitrary: x ls) (auto intro: grows_add)

lemma grows_row: "grows ks ls \<Longrightarrow> grows ks (osk_add_row W s y inset ls)"
  by (simp add: osk_add_row_def Let_def grows_chars)

lemma grows_third: "grows ks ls \<Longrightarrow> grows ks (osk_third W lang kind lab s y ls)"
  by (simp add: osk_third_def Let_def grows_chars grows_add)

lemma osk_layout_grows:
  assumes "osk_rows shift sy sy2 = (r0, r1, r2, punct)"
  shows "grows (osk_add_row W r0 (osk_top H) 0 []) (osk_layout W H lang shift sy sy2)"
proof -
  have "grows ks ks" for ks by (simp add: grows_def)
  then show ?thesis
    unfolding osk_layout_def assms prod.case Let_def
    by (cases r2) (simp_all add: grows_add grows_third grows_row)
qed

lemma demo_first_key:
  "\<exists>r. osk_layout 1080 1920 True False False False = mk_key OSK_CHAR ''q'' (CHR ''q'') 10 1518 97 # r"
proof -
  have "osk_add_row 1080 ''qwertyuiop'' 1518 0 [] = char_keys ''qwertyuiop'' 10 1518 97"
    by (simp add: osk_add_row_def Let_def osk_gap_def sdiv_pos osk_chars_keys OSK_MAX_def on_panel_def del: osk_chars.simps)
  moreover obtain r where
    "osk_layout 1080 1920 True False False False = osk_add_row 1080 ''qwertyuiop'' 1518 0 [] @ r"
    using osk_layout_grows [OF osk_rows_def [of False False False, simplified], of 1080 1920 True]
    by (auto simp: grows_def osk_top_def osk_kh_def osk_gap_def)
  ultimately show ?thesis by auto
qed

theorem hud_touch_finds_key_witness:
  "osk_key_at 15 1520 (osk_layout 1080 1920 True False False False) = 0"
  using demo_first_key hud_touch_finds_key [of 1080 1920 0 True False False False _ 15 1520, OF _ _ _ _ _ refl]
  by (auto simp: mk_key_def hit_def osk_kh_def)

end
