(* ===== verification/Hud_Touch.thy ===== *)
theory Hud_Touch
  imports Complex_Main Hud_Keyboard
begin

text \<open>
  Touch and keys in the boot display (\<open>initramfs/gemini-status.c\<close>): the multi-touch slots, taps on
  the sheets, the keyboard, the brightness bar, and switching the screen off and on. The Wi-Fi part
  of the state is the record of Wifi_Hud; the events here act on it through its operations.

  Times are in nanoseconds of the monotonic clock, so differences to earlier times are not
  negative. The two C floats of this part, the position of the sheet and the place on the
  brightness bar, are rational numbers; the code's rounding can move the sheet by a pixel while it
  is in motion, and agrees where it rests, at 0 and at 1.
\<close>

section \<open>State\<close>

definition MAX_SLOTS :: nat where "MAX_SLOTS = 12"

record mt_slot =
  mt_id :: int
  mt_x :: int
  mt_y :: int
  mt_have_x :: bool
  mt_have_y :: bool
  mt_major :: int
  mt_z :: int
  mt_fresh :: nat

text \<open>What the display does outside: system files, the reboot.\<close>

datatype effect =
    Reboot_Fastboot | Conf_Saved | Bl_Written int | Bl_Power int
  | Cpu_Blank bool | Gpu_Pinned bool | Fb_Blank bool | Gl_Blank bool

record touch_dev =
  abs_min_x :: int
  abs_max_x :: int
  abs_min_y :: int
  abs_max_y :: int
  is_touch :: bool
  has_mt :: bool

record ui =
  hs :: hud
  ui_w :: int
  ui_h :: int
  ui_gl :: bool
  lang_en :: bool
  osk_keys :: "osk_key list"
  nosk :: nat
  osk_held :: bool
  osk_hi :: int
  osk_anim :: int
  sheet_t :: rat
  list_scroll :: int
  list_scroll_tgt :: int
  bl_path :: bool
  bl_power_path :: bool
  bl_max :: int
  bl_cur :: int
  bl_pct :: int
  bl_keep :: int
  dragging_bl :: bool
  dragging :: bool
  contact_armed :: bool
  slot_x :: int
  slot_y :: int
  slot_id :: int
  down_x :: int
  down_y :: int
  mt_cur :: int
  mt_bind_slot :: int
  mt_nslots :: int
  mt_nraw :: int
  mt :: "mt_slot list"
  mt_got_pos :: bool
  t_power_key :: nat
  t_down :: nat
  t_hud_start :: nat
  t_unblank :: nat
  t_blank :: nat
  t_user :: nat
  pending_bl :: bool
  pending_bl_frames :: nat
  fx :: "effect list"

definition emit :: "effect \<Rightarrow> ui \<Rightarrow> ui" where
  "emit e u = u\<lparr>fx := fx u @ [e]\<rparr>"

text \<open>An operation on the Wi-Fi part.\<close>

definition on_hud :: "(hud \<Rightarrow> hud) \<Rightarrow> ui \<Rightarrow> ui" where
  "on_hud f u = u\<lparr>hs := f (hs u)\<rparr>"

section \<open>Backlight and screen\<close>

definition save_hud_conf :: "ui \<Rightarrow> ui" where
  "save_hud_conf u = emit Conf_Saved u"

definition commit_bl :: "ui \<Rightarrow> ui" where
  "commit_bl u = save_hud_conf (if bl_pct u \<ge> 1 then u\<lparr>bl_keep := bl_pct u\<rparr> else u)"

definition apply_bl_pct :: "int \<Rightarrow> ui \<Rightarrow> ui" where
  "apply_bl_pct pct u =
     (let u = u\<lparr>bl_pct := clampi pct 1 100\<rparr> in
      if bl_max u < 1 \<or> \<not> bl_path u then u
      else
        let v = 1 + (bl_pct u * (bl_max u - 1)) sdiv 100;
            v = (if v < 1 then 1 else v);
            v = (if v > bl_max u then bl_max u else v)
        in if v = bl_cur u then u else emit (Bl_Written v) (u\<lparr>bl_cur := v\<rparr>))"

definition restore_backlight :: "ui \<Rightarrow> ui" where
  "restore_backlight u =
     (let u = (if bl_power_path u then emit (Bl_Power 0) u else u);
          u = apply_bl_pct (if bl_keep u > 0 then bl_keep u else 80) (u\<lparr>bl_cur := 0\<rparr>)
      in u\<lparr>pending_bl := False, pending_bl_frames := 0\<rparr>)"

definition empty_slot :: "mt_slot \<Rightarrow> mt_slot" where
  "empty_slot s = s\<lparr>mt_id := - 1, mt_have_x := False, mt_have_y := False, mt_major := 0, mt_z := 0, mt_fresh := 0\<rparr>"

definition reset_touch :: "ui \<Rightarrow> ui" where
  "reset_touch u =
     (on_hud (\<lambda>s. s\<lparr>hover_ap := - 1\<rparr>) u)
       \<lparr>slot_id := - 1, dragging := False, dragging_bl := False, contact_armed := False, mt_cur := 0,
        mt_got_pos := False, t_down := 0, mt := map empty_slot (mt u), mt_bind_slot := - 1\<rparr>"

definition set_screen :: "nat \<Rightarrow> bool \<Rightarrow> ui \<Rightarrow> ui" where
  "set_screen now on u =
     (if on then
        if \<not> screen_off (hs u) then u
        else
          let u = reset_touch (on_hud (\<lambda>s. s\<lparr>screen_off := False\<rparr>) u);
              u = u\<lparr>t_unblank := now, t_user := now, pending_bl := True, pending_bl_frames := 0\<rparr>;
              u = emit (Gpu_Pinned True) (emit (Cpu_Blank False) u)
          in if ui_gl u then emit (Gl_Blank False) u else restore_backlight (emit (Fb_Blank False) u)
      else if screen_off (hs u) then u
      else
        let u = (on_hud (\<lambda>s. s\<lparr>screen_off := True\<rparr>) u)\<lparr>t_blank := now, pending_bl := False\<rparr>;
            u = (if dragging_bl u then u\<lparr>bl_pct := bl_keep u\<rparr> else u);
            u = emit (Cpu_Blank True) (emit (Gpu_Pinned False) (reset_touch u));
            u = (if bl_path u then emit (Bl_Written 0) u else u)\<lparr>bl_cur := 0\<rparr>;
            u = (if bl_power_path u then emit (Bl_Power 4) u else u)
        in if ui_gl u then emit (Gl_Blank True) u else emit (Fb_Blank True) u)"

section \<open>Geometry\<close>

definition wifi_card_y :: int where "wifi_card_y = 324"

definition wifi_card_h :: "hud \<Rightarrow> int" where
  "wifi_card_h s = (if wifi_is_joining s then 380 else if connected (wifi s) then 488 else 260)"

definition lang_x :: "int \<Rightarrow> int" where "lang_x W = W - 48 - 216"
definition lang_y :: int where "lang_y = 20"
definition lang_w :: int where "lang_w = 216"
definition lang_h :: int where "lang_h = 76"
definition bl_y :: int where "bl_y = 192"
definition bl_h :: int where "bl_h = 112"
definition bl_bar_x :: int where "bl_bar_x = 220"
definition bl_bar_w :: "int \<Rightarrow> int" where "bl_bar_w W = W - 220 - 180"

definition hit_lang :: "int \<Rightarrow> int \<Rightarrow> ui \<Rightarrow> bool" where
  "hit_lang x y u = hit x y (lang_x (ui_w u)) lang_y lang_w lang_h"

definition hit_bl :: "int \<Rightarrow> int \<Rightarrow> ui \<Rightarrow> bool" where
  "hit_bl x y u = hit x y 40 bl_y (ui_w u - 80) bl_h"

text \<open>The C cast of a float to \<open>int\<close>.\<close>

definition trunc :: "rat \<Rightarrow> int" where
  "trunc q = (if q \<ge> 0 then \<lfloor>q\<rfloor> else \<lceil>q\<rceil>)"

definition apply_bl_from_x :: "int \<Rightarrow> ui \<Rightarrow> ui" where
  "apply_bl_from_x x u =
     (let bx = bl_bar_x; bw = bl_bar_w (ui_w u) in
      if bw < 1 then u
      else
        let t = of_int (x - bx) / of_int bw; t = (if t < 0 then 0 else if t > 1 then 1 else t)
        in apply_bl_pct (trunc (t * 100 + 1 / 2)) u)"

definition list_row_h :: int where "list_row_h = 168"

definition sheet_peek :: "int \<Rightarrow> int" where
  "sheet_peek H = (let p = H sdiv 15; p = (if p < 100 then 100 else p) in if p > 168 then 168 else p)"

definition sheet_card_x :: int where "sheet_card_x = 16"
definition sheet_card_w :: "int \<Rightarrow> int" where "sheet_card_w W = W - 32"

definition sheet_card_h :: "int \<Rightarrow> int" where
  "sheet_card_h H = (let h = H - sheet_peek H + 28 in if h < 520 then 520 else h)"

definition list_top_from :: "int \<Rightarrow> int" where "list_top_from y0 = y0 + 280"

definition sheet_y0 :: "ui \<Rightarrow> int" where
  "sheet_y0 u =
     (let open_y = ui_h u - sheet_card_h (ui_h u); closed_y = ui_h u + 40
      in trunc (of_int closed_y + (of_int open_y - of_int closed_y) * sheet_t u))"

text \<open>The value of the float constant \<open>0.45f\<close>.\<close>

definition f045 :: rat where "f045 = 15099494 / 33554432"

fun hover_loop :: "int \<Rightarrow> int \<Rightarrow> int \<Rightarrow> nat list \<Rightarrow> ui \<Rightarrow> ui" where
  "hover_loop x y y0 [] u = u"
| "hover_loop x y y0 (i # is) u =
     (if hit x y (sheet_card_x + 16) (list_top_from y0 + int i * list_row_h + list_scroll u) (sheet_card_w (ui_w u) - 32)
           (list_row_h - 12)
      then on_hud (\<lambda>s. s\<lparr>hover_ap := int i\<rparr>) u
      else hover_loop x y y0 is u)"

definition hover_from_point :: "int \<Rightarrow> int \<Rightarrow> ui \<Rightarrow> ui" where
  "hover_from_point x y u =
     (if sheet_tgt (hs u) \<noteq> SHEET_LIST then u else hover_loop x y (sheet_y0 u) [0..<length (aps (hs u))] u)"

section \<open>Keyboard\<close>

text \<open>The layout is computed into the array \<open>osk_keys\<close>; entries behind the keys keep old values.\<close>

definition relayout :: "ui \<Rightarrow> ui" where
  "relayout u =
     (let ks = osk_layout (ui_w u) (ui_h u) (lang_en u) (shift_on (hs u)) (sym_on (hs u)) (osk_sym2 (hs u))
      in u\<lparr>osk_keys := ks @ drop (length ks) (osk_keys u), nosk := length ks\<rparr>)"

definition key_at :: "int \<Rightarrow> int \<Rightarrow> ui \<Rightarrow> int" where
  "key_at x y u = osk_key_at x y (take (nosk u) (osk_keys u))"

text \<open>The first result is the C return value.\<close>

definition osk_on_down :: "int \<Rightarrow> int \<Rightarrow> ui \<Rightarrow> ui" where
  "osk_on_down x y u =
     (if sheet_tgt (hs u) \<noteq> SHEET_PASS \<or> sheet_t u < f045 then u
      else
        let u = relayout u in
        if y < osk_top (ui_h u) - 12 then u
        else
          let u = u\<lparr>osk_held := True, osk_hi := key_at x y u\<rparr>
          in if osk_hi u \<ge> 0 then u\<lparr>osk_anim := osk_hi u\<rparr> else u)"

definition osk_on_move :: "int \<Rightarrow> int \<Rightarrow> ui \<Rightarrow> ui" where
  "osk_on_move x y u =
     (if \<not> osk_held u then u
      else
        let u = relayout u; i = key_at x y u in
        if i \<noteq> osk_hi u then (if i \<ge> 0 then u\<lparr>osk_hi := i, osk_anim := i\<rparr> else u\<lparr>osk_hi := i\<rparr>) else u)"

definition osk_on_up :: "int \<Rightarrow> int \<Rightarrow> ui \<Rightarrow> ui" where
  "osk_on_up x y u =
     (if \<not> osk_held u then u
      else
        let u = relayout u; i = key_at x y u; i = (if i < 0 then osk_hi u else i);
            u = (if i \<ge> 0 then
                   let k = osk_keys u ! nat i in on_hud (osk_activate (k_kind k) (k_ch k)) u
                 else u)
        in u\<lparr>osk_held := False, osk_hi := - 1\<rparr>)"

section \<open>Taps\<close>

text \<open>The loop over the rows of the list: the row under the point.\<close>

fun row_at :: "int \<Rightarrow> int \<Rightarrow> int \<Rightarrow> int \<Rightarrow> nat list \<Rightarrow> ui \<Rightarrow> nat option" where
  "row_at x y list_top sh [] u = None"
| "row_at x y list_top sh (i # is) u =
     (let yy = list_top + int i * list_row_h + list_scroll u in
      if yy + list_row_h < list_top \<or> yy > list_top + sh then row_at x y list_top sh is u
      else if hit x y (sheet_card_x + 16) yy (sheet_card_w (ui_w u) - 32) (list_row_h - 12) then Some i
      else row_at x y list_top sh is u)"

text \<open>The button under the point. The effects of the buttons are \<open>tap_button\<close> of Wifi_Events.\<close>

definition button_at :: "int \<Rightarrow> int \<Rightarrow> ui \<Rightarrow> button option" where
  "button_at x y u =
     (let y0 = sheet_y0 u; W = ui_w u; cx = sheet_card_x; cw = sheet_card_w W; ch = sheet_card_h (ui_h u); sh = sheet_tgt (hs u) in
      if sheet_t u < f045 \<and> hit_lang x y u then Some Toggle_Language
      else if sheet_t u > 1 / 2 \<and> sh = SHEET_PASS then
        if hit x y 40 (y0 + 304) 200 80 then Some Pass_Cancel
        else if hit x y (W - 280) (y0 + 304) 240 80 then Some Pass_Join
        else None
      else if sheet_t u > 1 / 2 \<and> sh = SHEET_DETAIL then
        if hit x y (cx + 24) (y0 + 108) 220 80 then Some Detail_Back
        else if hit x y (cx + 24) (y0 + ch - 280) (cw - 48) 80 then Some Detail_Join
        else if hit x y (cx + 24) (y0 + ch - 176) (cw - 48) 80 then Some Detail_Forget
        else None
      else if sheet_t u > f045 \<and> sh = SHEET_LIST then
        let list_top = list_top_from y0 in
        if \<not> hit x y cx y0 cw ch then Some List_Outside
        else if hit x y (cx + 20) (y0 + 108) 220 80 then Some List_Close
        else if hit x y (cx + cw - 240) (y0 + 108) 220 80 then Some List_Refresh
        else map_option List_Row (row_at x y list_top (y0 + ch - 36 - list_top) [0..<length (aps (hs u))] u)
      else if hit x y 40 wifi_card_y (W - 80) (wifi_card_h (hs u)) then Some Home_Card
      else None)"

definition tap :: "int \<Rightarrow> int \<Rightarrow> ui \<Rightarrow> ui" where
  "tap x y u =
     (case button_at x y u of
        None \<Rightarrow> u
      | Some b \<Rightarrow>
          let u' = on_hud (tap_button b) u in
          if b = Toggle_Language then save_hud_conf (u'\<lparr>lang_en := \<not> lang_en u\<rparr>)
          else if b = Pass_Cancel then u'\<lparr>osk_held := False, osk_hi := - 1\<rparr>
          else u')"

section \<open>Multi-touch slots\<close>

definition map_xy :: "touch_dev \<Rightarrow> int \<Rightarrow> int \<Rightarrow> ui \<Rightarrow> int \<times> int" where
  "map_xy d rawx rawy u =
     (let dx = abs_max_x d - abs_min_x d; dy = abs_max_y d - abs_min_y d;
          dx = (if dx < 1 then 1 else dx); dy = (if dy < 1 then 1 else dy)
      in (clampi ((rawx - abs_min_x d) * ui_w u sdiv dx) 0 (ui_w u - 1),
          clampi ((rawy - abs_min_y d) * ui_h u sdiv dy) 0 (ui_h u - 1)))"

definition map_touch :: "touch_dev \<Rightarrow> ui \<Rightarrow> int \<times> int" where
  "map_touch d u = map_xy d (slot_x u) (slot_y u) u"

definition upd_slot :: "int \<Rightarrow> (mt_slot \<Rightarrow> mt_slot) \<Rightarrow> ui \<Rightarrow> ui" where
  "upd_slot s f u = u\<lparr>mt := (mt u)[nat s := f (mt u ! nat s)]\<rparr>"

definition mt_note_pos :: "int \<Rightarrow> bool \<Rightarrow> int \<Rightarrow> ui \<Rightarrow> ui" where
  "mt_note_pos s yaxis value u =
     (if s < 0 \<or> s \<ge> int MAX_SLOTS then u
      else
        let u = (if yaxis then upd_slot s (\<lambda>t. t\<lparr>mt_y := value, mt_have_y := True\<rparr>) u
                 else upd_slot s (\<lambda>t. t\<lparr>mt_x := value, mt_have_x := True\<rparr>) u)
        in upd_slot s (\<lambda>t. t\<lparr>mt_fresh := mt_fresh t + 1\<rparr>) (u\<lparr>mt_got_pos := True\<rparr>))"

definition mt_tracking :: "int \<Rightarrow> int \<Rightarrow> ui \<Rightarrow> ui" where
  "mt_tracking s value u =
     (if s < 0 \<or> s \<ge> int MAX_SLOTS then u
      else if value < 0 then
        upd_slot s (\<lambda>t. t\<lparr>mt_id := - 1, mt_have_x := False, mt_have_y := False, mt_major := 0\<rparr>) u
      else upd_slot s (\<lambda>t. t\<lparr>mt_id := value\<rparr>) u)"

text \<open>
  What the kernel answers to \<open>EVIOCGMTSLOTS\<close>: the tracking ids, or None if that fails, and the
  other values of every slot (0 where the call fails).
\<close>

record kslots =
  k_ids :: "(nat \<Rightarrow> int) option"
  k_xs :: "nat \<Rightarrow> int"
  k_ys :: "nat \<Rightarrow> int"
  k_maj :: "nat \<Rightarrow> int"
  k_zs :: "nat \<Rightarrow> int"

definition sync_slot :: "int \<Rightarrow> int \<Rightarrow> int \<Rightarrow> int \<Rightarrow> int \<Rightarrow> mt_slot \<Rightarrow> mt_slot" where
  "sync_slot i x y maj z t =
     (let t = (if i \<ge> 0 \<and> i \<noteq> mt_id t then t\<lparr>mt_fresh := 1\<rparr> else t)\<lparr>mt_id := i\<rparr>;
          t = (if \<not> mt_have_x t then t\<lparr>mt_x := x, mt_have_x := (x \<noteq> 0)\<rparr> else t);
          t = (if \<not> mt_have_y t then t\<lparr>mt_y := y, mt_have_y := (y \<noteq> 0)\<rparr> else t);
          t = (if mt_major t = 0 \<and> maj \<noteq> 0 then t\<lparr>mt_major := maj\<rparr> else t);
          t = (if mt_z t = 0 \<and> z \<noteq> 0 then t\<lparr>mt_z := z\<rparr> else t)
      in if i < 0 then t\<lparr>mt_have_x := False, mt_have_y := False, mt_major := 0, mt_z := 0\<rparr> else t)"

definition mt_sync_from_kernel :: "kslots \<Rightarrow> ui \<Rightarrow> ui" where
  "mt_sync_from_kernel k u =
     (case k_ids k of
        None \<Rightarrow> u
      | Some ids \<Rightarrow>
          let n = (if mt_nslots u < 1 \<or> mt_nslots u > int MAX_SLOTS then int MAX_SLOTS else mt_nslots u)
          in u\<lparr>mt := map (\<lambda>(s, t). if int s < n then sync_slot (ids s) (k_xs k s) (k_ys k s) (k_maj k s) (k_zs k s) t
                                else t\<lparr>mt_id := - 1, mt_have_x := False, mt_have_y := False\<rparr>) (enumerate 0 (mt u))\<rparr>)"

definition mt_clear_fresh :: "ui \<Rightarrow> ui" where
  "mt_clear_fresh u = u\<lparr>mt := map (\<lambda>t. t\<lparr>mt_fresh := 0\<rparr>) (mt u)\<rparr>"

text \<open>The slots that the loops over \<open>s < mt_nslots && s < MAX_SLOTS\<close> visit.\<close>

definition scanned :: "ui \<Rightarrow> (nat \<times> mt_slot) list" where
  "scanned u = filter (\<lambda>(s, t). int s < mt_nslots u) (enumerate 0 (mt u))"

definition usable :: "touch_dev \<Rightarrow> mt_slot \<Rightarrow> bool" where
  "usable d t \<longleftrightarrow> mt_id t \<ge> 0 \<and> mt_have_x t \<and> mt_have_y t \<and> mt_x t \<noteq> 0 \<and> mt_y t \<noteq> 0 \<and>
     \<not> (mt_x t \<le> abs_min_x d \<or> mt_x t \<ge> abs_max_x d) \<and> \<not> mt_z t \<ge> 255 \<and> mt_fresh t \<noteq> 0"

text \<open>The result is the slot of the only usable finger or - 1; the number of live slots is kept.\<close>

definition mt_finger :: "touch_dev \<Rightarrow> ui \<Rightarrow> int \<times> ui" where
  "mt_finger d u =
     (let live = filter (\<lambda>(s, t). mt_id t \<ge> 0) (scanned u);
          good = filter (\<lambda>(s, t). usable d t) (scanned u)
      in (if length good \<noteq> 1 then - 1 else int (fst (last good)), u\<lparr>mt_nraw := int (length live)\<rparr>))"

definition mt_bind_primary :: "touch_dev \<Rightarrow> ui \<Rightarrow> ui" where
  "mt_bind_primary d u =
     (let (s, u) =
        (if contact_armed u \<and> mt_bind_slot u \<ge> 0 \<and> mt_bind_slot u < mt_nslots u then
           let s = mt_bind_slot u; t = mt u ! nat s
           in (if mt_id t < 0 \<or> \<not> mt_have_y t \<or> mt_y t = 0 then - 1 else s, u)
         else mt_finger d u)
      in if s < 0 then u\<lparr>slot_id := - 1, mt_bind_slot := - 1\<rparr>
         else
           let t = mt u ! nat s
           in u\<lparr>mt_bind_slot := s, slot_id := mt_id t, slot_x := mt_x t, slot_y := mt_y t\<rparr>)"

definition tap_ok :: "touch_dev \<Rightarrow> nat \<Rightarrow> ui \<Rightarrow> bool" where
  "tap_ok d now u =
     (if t_down u = 0 then False
      else
        let dur = now - t_down u in
        if dur < 8000000 \<or> dur > 2000000000 then False
        else
          let range = abs_max_x d - abs_min_x d;
              range = (if abs_max_y d - abs_min_y d > range then abs_max_y d - abs_min_y d else range);
              range = (if range < 1 then 1 else range);
              dist = \<bar>slot_x u - down_x u\<bar> + \<bar>slot_y u - down_y u\<bar>
          in dist < range sdiv 8)"

section \<open>Input events\<close>

abbreviation (input) EV_SYN :: nat where "EV_SYN \<equiv> 0"
abbreviation (input) EV_KEY :: nat where "EV_KEY \<equiv> 1"
abbreviation (input) EV_ABS :: nat where "EV_ABS \<equiv> 3"
abbreviation (input) KEY_VOLUMEUP :: nat where "KEY_VOLUMEUP \<equiv> 115"
abbreviation (input) KEY_POWER :: nat where "KEY_POWER \<equiv> 116"
abbreviation (input) BTN_LEFT :: nat where "BTN_LEFT \<equiv> 0x110"
abbreviation (input) BTN_TOUCH :: nat where "BTN_TOUCH \<equiv> 0x14a"
abbreviation (input) ABS_X :: nat where "ABS_X \<equiv> 0"
abbreviation (input) ABS_Y :: nat where "ABS_Y \<equiv> 1"
abbreviation (input) ABS_MT_SLOT :: nat where "ABS_MT_SLOT \<equiv> 0x2f"
abbreviation (input) ABS_MT_TOUCH_MAJOR :: nat where "ABS_MT_TOUCH_MAJOR \<equiv> 0x30"
abbreviation (input) ABS_MT_POSITION_X :: nat where "ABS_MT_POSITION_X \<equiv> 0x35"
abbreviation (input) ABS_MT_POSITION_Y :: nat where "ABS_MT_POSITION_Y \<equiv> 0x36"
abbreviation (input) ABS_MT_TRACKING_ID :: nat where "ABS_MT_TRACKING_ID \<equiv> 0x39"
abbreviation (input) ABS_MT_PRESSURE :: nat where "ABS_MT_PRESSURE \<equiv> 0x3a"

definition HUD_UNBLANK_HOLD_NS :: nat where "HUD_UNBLANK_HOLD_NS = 1500000000"

definition in_slots :: "int \<Rightarrow> bool" where
  "in_slots s \<longleftrightarrow> 0 \<le> s \<and> s < int MAX_SLOTS"

text \<open>The power key.\<close>

definition power_key :: "nat \<Rightarrow> ui \<Rightarrow> ui" where
  "power_key now u =
     (if t_hud_start u = 0 \<or> now - t_hud_start u < 2000000000 then u
      else if now - t_power_key u < 400000000 then u
      else if \<not> screen_off (hs u) \<and> (pending_bl u \<or> (t_unblank u \<noteq> 0 \<and> now - t_unblank u < 1500000000)) then u
      else set_screen now (screen_off (hs u)) (u\<lparr>t_power_key := now\<rparr>))"

text \<open>An event while the screen is off.\<close>

definition dark_abs :: "nat \<Rightarrow> int \<Rightarrow> ui \<Rightarrow> ui" where
  "dark_abs code value u =
     (if code = ABS_MT_SLOT \<and> in_slots value then u\<lparr>mt_cur := value\<rparr>
      else if code = ABS_MT_TRACKING_ID \<and> in_slots (mt_cur u) then mt_tracking (mt_cur u) value u
      else if code = ABS_MT_POSITION_X \<and> in_slots (mt_cur u) then mt_note_pos (mt_cur u) False value u
      else if code = ABS_MT_POSITION_Y \<and> in_slots (mt_cur u) then mt_note_pos (mt_cur u) True value u
      else if code = ABS_MT_TOUCH_MAJOR \<and> in_slots (mt_cur u) then upd_slot (mt_cur u) (\<lambda>t. t\<lparr>mt_major := value\<rparr>) u
      else u)"

definition dark_event :: "touch_dev \<Rightarrow> kslots \<Rightarrow> nat \<Rightarrow> nat \<Rightarrow> nat \<Rightarrow> int \<Rightarrow> ui \<Rightarrow> ui" where
  "dark_event d k now type code value u =
     (if t_blank u \<noteq> 0 \<and> now - t_blank u < 3000000000 then u
      else
        let u = (if is_touch d \<and> has_mt d \<and> type = EV_ABS then dark_abs code value u else u) in
        if type = EV_SYN then
          let (f, u) = mt_finger d (mt_sync_from_kernel k u);
              u = (if f \<ge> 0 then set_screen now True u else u)
          in mt_clear_fresh u
        else u)"

definition abs_event :: "touch_dev \<Rightarrow> nat \<Rightarrow> int \<Rightarrow> ui \<Rightarrow> ui" where
  "abs_event d code value u =
     (if \<not> has_mt d then
        if code = ABS_X then u\<lparr>slot_x := value\<rparr> else if code = ABS_Y then u\<lparr>slot_y := value\<rparr> else u
      else if code = ABS_MT_SLOT then (if in_slots value then u\<lparr>mt_cur := value\<rparr> else u)
      else if \<not> in_slots (mt_cur u) then u
      else if code = ABS_MT_TRACKING_ID then mt_tracking (mt_cur u) value u
      else if code = ABS_MT_POSITION_X then mt_note_pos (mt_cur u) False value u
      else if code = ABS_MT_POSITION_Y then mt_note_pos (mt_cur u) True value u
      else if code = ABS_MT_TOUCH_MAJOR then upd_slot (mt_cur u) (\<lambda>t. t\<lparr>mt_major := value\<rparr>) u
      else if code = ABS_MT_PRESSURE then upd_slot (mt_cur u) (\<lambda>t. t\<lparr>mt_z := value\<rparr>) u
      else u)"

text \<open>A contact begins; a contact ends (\<open>armed\<close>: whether a tap needs an armed contact).\<close>

definition contact_down :: "touch_dev \<Rightarrow> nat \<Rightarrow> ui \<Rightarrow> ui" where
  "contact_down d now u =
     (let u = u\<lparr>dragging := False, dragging_bl := False, t_down := now, down_x := slot_x u, down_y := slot_y u\<rparr>;
          (x, y) = map_touch d u
      in osk_on_down x y u)"

definition contact_up :: "touch_dev \<Rightarrow> nat \<Rightarrow> bool \<Rightarrow> ui \<Rightarrow> ui" where
  "contact_up d now armed u =
     (let (x, y) = map_touch d u;
          u = (if dragging_bl u then commit_bl u else u)
      in if osk_held u then osk_on_up x y u
         else if \<not> dragging u \<and> (armed \<longrightarrow> contact_armed u) \<and> tap_ok d now u then tap x y u
         else u)"

definition button_event :: "touch_dev \<Rightarrow> nat \<Rightarrow> int \<Rightarrow> ui \<Rightarrow> ui" where
  "button_event d now value u =
     (if has_mt d then u
      else if value = 1 then contact_down d now (u\<lparr>slot_id := 1, contact_armed := False\<rparr>)
      else if slot_id u \<ge> 0 then reset_touch (contact_up d now False u)
      else u)"

text \<open>A finger that was down already has moved.\<close>

definition drag_event :: "touch_dev \<Rightarrow> ui \<Rightarrow> ui" where
  "drag_event d u =
     (let dy = slot_y u - down_y u; dx = slot_x u - down_x u; range = abs_max_y d - abs_min_y d;
          (x, y) = map_touch d u;
          pass = (sheet_tgt (hs u) = SHEET_PASS \<and> \<not> dragging_bl u);
          u = (if pass then (if osk_held u then osk_on_move x y u else osk_on_down x y u) else u)
      in if pass \<and> osk_held u then mt_clear_fresh u
         else
           let range = (if range < 1 then 1 else range) in
           if \<not> dragging u \<and> \<not> dragging_bl u \<and> \<bar>dy\<bar> > range sdiv 4 then
             mt_clear_fresh (u\<lparr>down_x := slot_x u, down_y := slot_y u\<rparr>)
           else
             let (down_sx, down_sy) = map_xy d (down_x u) (down_y u) u;
                 u = (if \<not> dragging u \<and> \<not> dragging_bl u \<and> sheet_tgt (hs u) = SHEET_NONE \<and> hit_bl down_sx down_sy u \<and>
                        hit_bl x y u \<and> \<bar>dx\<bar> + \<bar>dy\<bar> > 12
                      then u\<lparr>dragging_bl := True, dragging := True\<rparr> else u)
             in if dragging_bl u then mt_clear_fresh (apply_bl_from_x x u)
                else
                  let u = (if dragging u then hover_from_point x y u else u);
                      u = (if sheet_tgt (hs u) = SHEET_LIST \<and> \<bar>dy\<bar> > 64 then
                             u\<lparr>dragging := True, list_scroll_tgt := list_scroll u + dy * ui_h u sdiv range, down_y := slot_y u\<rparr>
                           else u)
                  in mt_clear_fresh u)"

definition syn_event :: "touch_dev \<Rightarrow> kslots \<Rightarrow> nat \<Rightarrow> ui \<Rightarrow> ui" where
  "syn_event d k now u =
     (let prev = slot_id u; u = mt_bind_primary d (mt_sync_from_kernel k u) in
      if mt_nraw u > 1 \<and> \<not> contact_armed u \<and> prev < 0 then mt_clear_fresh u
      else if slot_id u < 0 then
        mt_clear_fresh
          (if prev \<ge> 0 then (contact_up d now True u)\<lparr>dragging := False, dragging_bl := False, contact_armed := False\<rparr> else u)
      else if \<not> contact_armed u then
        mt_clear_fresh (contact_down d now (u\<lparr>contact_armed := True, mt_got_pos := False\<rparr>))
      else if \<not> mt_got_pos u then mt_clear_fresh u
      else drag_event d (u\<lparr>mt_got_pos := False\<rparr>))"

definition handle_ev :: "touch_dev \<Rightarrow> kslots \<Rightarrow> nat \<Rightarrow> nat \<Rightarrow> nat \<Rightarrow> int \<Rightarrow> ui \<Rightarrow> ui" where
  "handle_ev d k now type code value u =
     (if type = EV_KEY \<and> value = 1 \<and> code = KEY_VOLUMEUP then emit Reboot_Fastboot u
      else if type = EV_KEY \<and> value = 1 \<and> code = KEY_POWER then power_key now u
      else if is_touch d \<and> t_unblank u \<noteq> 0 \<and> now - t_unblank u < HUD_UNBLANK_HOLD_NS then
        if type = EV_SYN then mt_sync_from_kernel k u else u
      else
        let u = (if \<not> screen_off (hs u) then u\<lparr>t_user := now\<rparr> else u) in
        if screen_off (hs u) then dark_event d k now type code value u
        else if \<not> is_touch d then u
        else if type = EV_ABS then abs_event d code value u
        else if type = EV_KEY \<and> (code = BTN_TOUCH \<or> code = BTN_LEFT) then button_event d now value u
        else if type \<noteq> EV_SYN then u
        else syn_event d k now u)"

definition ev_keep :: "touch_dev \<Rightarrow> nat \<Rightarrow> nat \<Rightarrow> bool" where
  "ev_keep d type code =
     (if \<not> is_touch d then True
      else if type = EV_SYN \<or> type = EV_KEY then True
      else if type \<noteq> EV_ABS then False
      else code \<in> {ABS_MT_SLOT, ABS_MT_TRACKING_ID, ABS_MT_POSITION_X, ABS_MT_POSITION_Y, ABS_MT_TOUCH_MAJOR, ABS_MT_PRESSURE,
                   ABS_X, ABS_Y})"

text \<open>
  \<open>drain_inputs\<close>: the events that were read, in their order. Each carries its device, what the
  kernel would answer and the time it is handled.
\<close>

type_synonym in_event = "touch_dev \<times> kslots \<times> nat \<times> nat \<times> nat \<times> int"

fun drain_inputs :: "in_event list \<Rightarrow> ui \<Rightarrow> ui" where
  "drain_inputs [] u = u"
| "drain_inputs ((d, k, now, type, code, value) # es) u =
     drain_inputs es (if ev_keep d type code then handle_ev d k now type code value u else u)"

text \<open>The start of \<open>main\<close>.\<close>

definition slot0 :: mt_slot where
  "slot0 = \<lparr>mt_id = 0, mt_x = 0, mt_y = 0, mt_have_x = False, mt_have_y = False, mt_major = 0, mt_z = 0, mt_fresh = 0\<rparr>"

end
