(* ===== verification/Hud_Touch_Correct.thy ===== *)
theory Hud_Touch_Correct
  imports Hud_Touch
begin

text \<open>
  Input to the boot display: what is proved of Hud_Touch. \<open>follows n u u'\<close> says that an operation
  keeps the invariant \<open>ui_ok\<close> and that what it does to the Wi-Fi part is a sequence of events of
  Wifi_Events with at most \<open>n\<close> presses; it composes along the code, so that each operation has one
  such lemma and the properties follow for whole input sequences.
\<close>

section \<open>Keys\<close>

definition keys_ok :: "osk_key list \<Rightarrow> bool" where
  "keys_ok ks \<longleftrightarrow> length ks \<le> OSK_MAX \<and> (\<forall>k\<in>set ks. k_kind k = OSK_CHAR \<longrightarrow> k_ch k \<noteq> CHR 0x00)"

lemma keys_ok_add: "keys_ok ks \<Longrightarrow> (kind = OSK_CHAR \<longrightarrow> ch \<noteq> CHR 0x00) \<Longrightarrow> keys_ok (osk_add kind lab ch x y w h ks)"
  by (auto simp: keys_ok_def osk_add_def)

lemma keys_ok_chars: "keys_ok ks \<Longrightarrow> CHR 0x00 \<notin> set s \<Longrightarrow> keys_ok (osk_chars s x y kw ks)"
  by (induction s arbitrary: x ks) (auto simp: keys_ok_add)

lemma keys_ok_row: "keys_ok ks \<Longrightarrow> CHR 0x00 \<notin> set s \<Longrightarrow> keys_ok (osk_add_row W s y inset ks)"
  by (simp add: osk_add_row_def Let_def keys_ok_chars)

lemma keys_ok_third:
  "keys_ok ks \<Longrightarrow> CHR 0x00 \<notin> set s \<Longrightarrow> kind \<noteq> OSK_CHAR \<Longrightarrow> keys_ok (osk_third W lang kind lab s y ks)"
  by (simp add: osk_third_def Let_def keys_ok_chars keys_ok_add)

lemma osk_rows_chars:
  assumes "osk_rows shift sy sy2 = (r0, r1, r2, punct)"
  shows "CHR 0x00 \<notin> set r0 \<and> CHR 0x00 \<notin> set r1 \<and> CHR 0x00 \<notin> set punct \<and> (\<forall>r. r2 = Some r \<longrightarrow> CHR 0x00 \<notin> set r)"
  using assms by (auto simp: osk_rows_def split: if_splits)

lemma keys_ok_layout: "keys_ok (osk_layout W H lang shift sy sy2)"
proof -
  obtain r0 r1 r2 punct where rows: "osk_rows shift sy sy2 = (r0, r1, r2, punct)" by (metis prod_cases4)
  have "keys_ok []" by (simp add: keys_ok_def)
  then show ?thesis
    unfolding osk_layout_def rows prod.case Let_def using osk_rows_chars [OF rows]
    by (cases r2) (simp_all add: keys_ok_add keys_ok_third keys_ok_row)
qed

lemma key_search_range:
  "best < i + int (length ks) \<Longrightarrow> - 1 \<le> best \<Longrightarrow> 0 \<le> i \<Longrightarrow>
   - 1 \<le> key_search x y i ks best bd \<and> key_search x y i ks best bd < i + int (length ks)"
proof (induction ks arbitrary: i best bd)
  case (Cons k ks)
  show ?case
    using Cons.IH [of i "i + 1" "centre_dist x y k"] Cons.IH [of best "i + 1" bd] Cons.prems by (auto simp: Let_def)
qed simp

lemma osk_key_at_range: "- 1 \<le> osk_key_at x y ks \<and> osk_key_at x y ks < int (length ks) \<or> ks = [] \<and> osk_key_at x y ks = - 1"
  using key_search_range [of "- 1" 0 ks x y] by (cases "ks = []") (auto simp: osk_key_at_def)

section \<open>The invariant\<close>

definition ui_ok :: "ui \<Rightarrow> bool" where
  "ui_ok u \<longleftrightarrow> length (mt u) = MAX_SLOTS \<and> in_slots (mt_cur u) \<and> - 1 \<le> mt_bind_slot u \<and> mt_bind_slot u < int MAX_SLOTS \<and>
     keys_ok (osk_keys u) \<and> nosk u \<le> length (osk_keys u) \<and> - 1 \<le> osk_hi u \<and> osk_hi u < int (length (osk_keys u))"

text \<open>What the invariant and the Wi-Fi part depend on.\<close>

definition core :: "ui \<Rightarrow> hud \<times> nat \<times> int \<times> int \<times> osk_key list \<times> nat \<times> int" where
  "core u = (hs u, length (mt u), mt_cur u, mt_bind_slot u, osk_keys u, nosk u, osk_hi u)"

lemma core_ok: "core u' = core u \<Longrightarrow> ui_ok u' = ui_ok u"
  by (simp add: core_def ui_ok_def)

section \<open>Input as events of the Wi-Fi part\<close>

text \<open>The events that input may cause, in their order; which of them press a button or a key.\<close>

definition press :: "hud_event \<Rightarrow> bool" where
  "press ev = (case ev of Key _ _ \<Rightarrow> True | Tap _ \<Rightarrow> True | _ \<Rightarrow> False)"

definition from_input :: "hud_event \<Rightarrow> bool" where
  "from_input ev = (case ev of Key _ _ \<Rightarrow> True | Tap _ \<Rightarrow> True | Hover _ \<Rightarrow> True | Screen _ \<Rightarrow> True | _ \<Rightarrow> False)"

fun moves :: "hud_event list \<Rightarrow> hud \<Rightarrow> hud \<Rightarrow> bool" where
  "moves [] s s' = (s' = s)"
| "moves (ev # evs) s s' = (from_input ev \<and> possible False ev s \<and> moves evs (hud_act False 0 ev s) s')"

lemma moves_append: "moves evs s s' \<Longrightarrow> moves evs' s' s'' \<Longrightarrow> moves (evs @ evs') s s''"
  by (induction evs arbitrary: s) auto

lemma input_untimed: "from_input ev \<Longrightarrow> hud_act iw now ev s = hud_act False 0 ev s"
  by (cases ev) (simp_all add: from_input_def hud_act_def)

lemma moves_reach: "moves evs s s' \<Longrightarrow> hud_reach False typed s \<Longrightarrow> \<exists>typed'. hud_reach False typed' s'"
proof (induction evs arbitrary: s typed)
  case (Cons ev evs)
  from hud_reach.event [of False typed s ev False 0] Cons.prems Cons.IH show ?case by auto
qed auto

text \<open>The invariant is kept, and the Wi-Fi part makes moves with at most \<open>n\<close> presses.\<close>

definition follows :: "nat \<Rightarrow> ui \<Rightarrow> ui \<Rightarrow> bool" where
  "follows n u u' \<longleftrightarrow> (ui_ok u \<longrightarrow> ui_ok u' \<and> (\<exists>evs. moves evs (hs u) (hs u') \<and> length (filter press evs) \<le> n))"

lemma follows_quiet: "hs u' = hs u \<Longrightarrow> (ui_ok u \<Longrightarrow> ui_ok u') \<Longrightarrow> follows n u u'"
  by (auto simp: follows_def intro: exI [of _ "[]"])

lemma follows_refl [simp, intro]: "follows n u u"
  by (simp add: follows_quiet)

lemma follows_core: "core u' = core u \<Longrightarrow> follows n u u'"
  using core_ok [of u' u] by (simp add: follows_quiet core_def)

lemma follows_one:
  assumes "hs u' = hud_act False 0 ev (hs u)" "from_input ev" "ui_ok u \<Longrightarrow> possible False ev (hs u)" "ui_ok u \<Longrightarrow> ui_ok u'"
    "press ev \<longrightarrow> n \<ge> 1"
  shows "follows n u u'"
  using assms by (auto simp: follows_def intro!: exI [of _ "[ev]"])

lemma follows_trans: "follows n u u' \<Longrightarrow> follows m u' u'' \<Longrightarrow> k \<ge> n + m \<Longrightarrow> follows k u u''"
proof -
  assume 1: "follows n u u'" and 2: "follows m u' u''" and k: "k \<ge> n + m"
  show ?thesis
    unfolding follows_def
  proof
    assume "ui_ok u"
    then obtain e where e: "ui_ok u'" "moves e (hs u) (hs u')" "length (filter press e) \<le> n"
      using 1 by (auto simp: follows_def)
    then obtain f where f: "ui_ok u''" "moves f (hs u') (hs u'')" "length (filter press f) \<le> m"
      using 2 by (auto simp: follows_def)
    have "moves (e @ f) (hs u) (hs u'')" by (rule moves_append [OF e(2) f(2)])
    moreover have "length (filter press (e @ f)) \<le> k" using e(3) f(3) k by simp
    ultimately show "ui_ok u'' \<and> (\<exists>evs. moves evs (hs u) (hs u'') \<and> length (filter press evs) \<le> k)" using f(1) by blast
  qed
qed

lemma follows_0: "follows 0 u u' \<Longrightarrow> follows n u' u'' \<Longrightarrow> follows n u u''"
  using follows_trans [of 0 u u' n u'' n] by simp

lemma follows_then_0: "follows n u u' \<Longrightarrow> follows 0 u' u'' \<Longrightarrow> follows n u u''"
  using follows_trans [of n u u' 0 u'' n] by simp

lemma follows_mono: "follows n u u' \<Longrightarrow> n \<le> m \<Longrightarrow> follows m u u'"
  using follows_trans [OF _ follows_refl, of n u u' 0 m] by simp

section \<open>The operations\<close>

lemma core_emit [simp]: "core (emit e u) = core u" "hs (emit e u) = hs u" "ui_ok (emit e u) = ui_ok u"
  by (simp_all add: emit_def core_def ui_ok_def)

lemma core_apply_bl_pct [simp]: "core (apply_bl_pct p u) = core u"
  by (simp add: apply_bl_pct_def Let_def core_def emit_def)

lemma core_restore_backlight [simp]: "core (restore_backlight u) = core u"
  by (simp add: restore_backlight_def Let_def core_def apply_bl_pct_def emit_def)

lemma core_commit_bl [simp]: "core (commit_bl u) = core u"
  by (simp add: commit_bl_def save_hud_conf_def core_def emit_def)

lemma core_apply_bl_from_x [simp]: "core (apply_bl_from_x x u) = core u"
  by (simp add: apply_bl_from_x_def Let_def)

lemma core_mt_clear_fresh [simp]: "core (mt_clear_fresh u) = core u"
  by (simp add: mt_clear_fresh_def core_def)

lemma core_mt_sync [simp]: "core (mt_sync_from_kernel k u) = core u"
  by (simp add: mt_sync_from_kernel_def core_def Let_def split: option.split)

lemma core_upd_slot [simp]: "core (upd_slot s f u) = core u"
  by (simp add: upd_slot_def core_def)

lemma core_mt_note_pos [simp]: "core (mt_note_pos s yaxis v u) = core u"
  by (simp add: mt_note_pos_def Let_def) (simp add: core_def upd_slot_def)

lemma core_mt_tracking [simp]: "core (mt_tracking s v u) = core u"
  by (simp add: mt_tracking_def)

lemma core_mt_finger [simp]: "core (snd (mt_finger d u)) = core u"
  by (simp add: mt_finger_def core_def Let_def)

lemma follows_reset_touch: "follows 0 u (reset_touch u)"
  by (rule follows_one [where ev = "Hover (- 1)"])
     (simp_all add: reset_touch_def on_hud_def hud_act_def from_input_def possible_def press_def ui_ok_def in_slots_def MAX_SLOTS_def)

lemma follows_screen: "follows 0 u (on_hud (\<lambda>s. s\<lparr>screen_off := off\<rparr>) u)"
  by (rule follows_one [where ev = "Screen off"])
     (simp_all add: on_hud_def hud_act_def from_input_def possible_def press_def ui_ok_def)

lemma set_screen_core:
  "screen_off (hs u) \<Longrightarrow> core (set_screen now True u) = core (reset_touch (on_hud (\<lambda>s. s\<lparr>screen_off := False\<rparr>) u))"
  "\<not> screen_off (hs u) \<Longrightarrow> core (set_screen now False u) = core (reset_touch (on_hud (\<lambda>s. s\<lparr>screen_off := True\<rparr>) u))"
  by (simp_all add: set_screen_def Let_def) (simp_all add: core_def reset_touch_def on_hud_def emit_def)

lemma follows_set_screen: "follows 0 u (set_screen now on u)"
proof (cases "on = screen_off (hs u)")
  case True
  have "follows 0 u (reset_touch (on_hud (\<lambda>s. s\<lparr>screen_off := \<not> on\<rparr>) u))"
    by (rule follows_0 [OF follows_screen follows_reset_touch])
  from follows_then_0 [OF this follows_core] True show ?thesis by (cases on) (simp_all add: set_screen_core)
next
  case False
  then show ?thesis by (cases on) (simp_all add: set_screen_def)
qed

lemma follows_hover: "set is \<subseteq> {..<length (aps (hs u))} \<Longrightarrow> follows 0 u (hover_loop x y y0 is u)"
proof (induction "is")
  case (Cons i "is")
  have "follows 0 u (on_hud (\<lambda>s. s\<lparr>hover_ap := int i\<rparr>) u)"
    using Cons.prems
    by (intro follows_one [where ev = "Hover (int i)"])
       (simp_all add: on_hud_def hud_act_def from_input_def possible_def press_def ui_ok_def)
  with Cons show ?case by simp
qed simp

lemma follows_hover_from_point: "follows 0 u (hover_from_point x y u)"
  by (auto simp: hover_from_point_def intro!: follows_hover)

lemma relayout_ok: "ui_ok u \<Longrightarrow> ui_ok (relayout u)"
  using keys_ok_layout [of "ui_w u" "ui_h u" "lang_en u" "shift_on (hs u)" "sym_on (hs u)" "osk_sym2 (hs u)"]
  by (auto simp: ui_ok_def relayout_def Let_def keys_ok_def dest!: in_set_dropD)

lemma relayout_hs [simp]: "hs (relayout u) = hs u"
  by (simp add: relayout_def Let_def)

lemma key_at_range: "ui_ok u \<Longrightarrow> - 1 \<le> key_at x y u \<and> key_at x y u < int (length (osk_keys u))"
  using osk_key_at_range [of x y "take (nosk u) (osk_keys u)"] by (auto simp: key_at_def ui_ok_def)

lemma ui_ok_hi: "ui_ok u \<Longrightarrow> - 1 \<le> i \<Longrightarrow> i < int (length (osk_keys u)) \<Longrightarrow> ui_ok (u\<lparr>osk_hi := i\<rparr>)"
  by (simp add: ui_ok_def)

lemma ui_ok_skip [simp]:
  "ui_ok (u\<lparr>osk_held := b\<rparr>) = ui_ok u" "ui_ok (u\<lparr>osk_anim := i\<rparr>) = ui_ok u"  "ui_ok (on_hud f u) = ui_ok u"
  by (simp_all add: ui_ok_def on_hud_def)

lemma osk_down_quiet: "hs (osk_on_down x y u) = hs u" "ui_ok u \<Longrightarrow> ui_ok (osk_on_down x y u)"
proof -
  show "hs (osk_on_down x y u) = hs u" by (simp add: osk_on_down_def Let_def)
  assume "ui_ok u"
  then have "ui_ok (relayout u)" by (rule relayout_ok)
  with key_at_range [OF this, of x y] \<open>ui_ok u\<close> show "ui_ok (osk_on_down x y u)"
    by (auto simp: osk_on_down_def Let_def ui_ok_def)
qed

lemma follows_osk_down: "follows 0 u (osk_on_down x y u)"
  by (rule follows_quiet [OF osk_down_quiet])

lemma follows_osk_move: "follows 0 u (osk_on_move x y u)"
proof (rule follows_quiet)
  show "hs (osk_on_move x y u) = hs u" by (simp add: osk_on_move_def Let_def)
  assume "ui_ok u"
  then have "ui_ok (relayout u)" by (rule relayout_ok)
  with key_at_range [OF this, of x y] \<open>ui_ok u\<close> show "ui_ok (osk_on_move x y u)"
    by (auto simp: osk_on_move_def Let_def ui_ok_def)
qed

lemma follows_key:
  assumes "0 \<le> i \<Longrightarrow> i < int (length (osk_keys u))"
  shows "follows 1 u (if i \<ge> 0 then let k = osk_keys u ! nat i in on_hud (osk_activate (k_kind k) (k_ch k)) u else u)"
proof (cases "i \<ge> 0")
  case True
  then have "osk_keys u ! nat i \<in> set (osk_keys u)" using assms by simp
  then have "follows 1 u (on_hud (osk_activate (k_kind (osk_keys u ! nat i)) (k_ch (osk_keys u ! nat i))) u)"
    by (intro follows_one [where ev = "Key (k_kind (osk_keys u ! nat i)) (k_ch (osk_keys u ! nat i))"])
       (auto simp: hud_act_def from_input_def possible_def press_def ui_ok_def keys_ok_def on_hud_def)
  with True show ?thesis by (simp add: Let_def)
qed simp

lemma follows_osk_up: "follows 1 u (osk_on_up x y u)"
proof (cases "osk_held u \<and> ui_ok u")
  case True
  define v where "v = relayout u"
  define i where "i = (if key_at x y v < 0 then osk_hi v else key_at x y v)"
  have v: "ui_ok v" using True by (simp add: v_def relayout_ok)
  then have "0 \<le> i \<Longrightarrow> i < int (length (osk_keys v))" using key_at_range [OF v, of x y] by (auto simp: i_def ui_ok_def)
  from follows_key [OF this]
  have "follows 1 v (if i \<ge> 0 then let k = osk_keys v ! nat i in on_hud (osk_activate (k_kind k) (k_ch k)) v else v)" .
  then have "follows 1 u (if i \<ge> 0 then let k = osk_keys v ! nat i in on_hud (osk_activate (k_kind k) (k_ch k)) v else v)"
    by (intro follows_0 [OF follows_quiet, of v u]) (simp_all add: v_def relayout_ok)
  moreover have "osk_on_up x y u =
      (if i \<ge> 0 then let k = osk_keys v ! nat i in on_hud (osk_activate (k_kind k) (k_ch k)) v else v)\<lparr>osk_held := False, osk_hi := - 1\<rparr>"
    using True by (simp add: osk_on_up_def Let_def v_def i_def)
  ultimately show ?thesis
    by (auto elim!: follows_then_0 intro!: follows_quiet simp: ui_ok_def)
next
  case False
  then show ?thesis
  proof (cases "osk_held u")
    case False
    then show ?thesis by (simp add: osk_on_up_def)
  qed (simp add: follows_def)
qed

lemma row_at_member: "row_at x y lt sh is u = Some i \<Longrightarrow> i \<in> set is"
  by (induction "is") (auto simp: Let_def split: if_splits)

lemma button_at_possible: "button_at x y u = Some b \<Longrightarrow> possible False (Tap b) (hs u)"
  by (auto simp: button_at_def possible_def Let_def dest!: row_at_member split: if_splits)

lemma follows_tap: "follows 1 u (tap x y u)"
proof (cases "button_at x y u")
  case (Some b)
  then have "follows 1 u (on_hud (tap_button b) u)"
    by (intro follows_one [where ev = "Tap b"])
       (simp_all add: button_at_possible hud_act_def from_input_def press_def on_hud_def ui_ok_def)
  moreover have "follows 0 (on_hud (tap_button b) u) (tap x y u)"
    using Some by (intro follows_quiet) (simp_all add: tap_def Let_def save_hud_conf_def, simp add: ui_ok_def on_hud_def)
  ultimately show ?thesis by (rule follows_then_0)
qed (simp add: tap_def)

lemma mt_finger_range:
  assumes "length (mt u) = MAX_SLOTS"
  shows "- 1 \<le> fst (mt_finger d u) \<and> fst (mt_finger d u) < int MAX_SLOTS"
proof (cases "length (filter (\<lambda>(s, t). usable d t) (scanned u)) = 1")
  case True
  then have "last (filter (\<lambda>(s, t). usable d t) (scanned u)) \<in> set (filter (\<lambda>(s, t). usable d t) (scanned u))"
    by (intro last_in_set) auto
  then have "fst (last (filter (\<lambda>(s, t). usable d t) (scanned u))) < length (mt u)"
    by (auto simp: scanned_def in_set_enumerate_eq)
  with True assms show ?thesis by (simp add: mt_finger_def)
qed (simp add: mt_finger_def Let_def MAX_SLOTS_def)

lemma follows_bind_primary: "follows 0 u (mt_bind_primary d u)"
proof (rule follows_quiet)
  show "hs (mt_bind_primary d u) = hs u"
    by (simp add: mt_bind_primary_def mt_finger_def Let_def)
  assume "ui_ok u"
  with mt_finger_range [of u d] show "ui_ok (mt_bind_primary d u)"
    by (simp add: mt_bind_primary_def mt_finger_def Let_def ui_ok_def)
qed

section \<open>Events\<close>

lemmas quiet_ops =
  core_apply_bl_from_x core_mt_clear_fresh core_mt_sync core_mt_note_pos core_mt_tracking core_upd_slot core_commit_bl

lemma follows_core_0 [intro]: "core u' = core u \<Longrightarrow> follows 0 u u'"
  by (rule follows_core)

lemma follows_cur: "in_slots v \<Longrightarrow> follows 0 u (u\<lparr>mt_cur := v\<rparr>)"
  by (rule follows_quiet) (simp_all add: ui_ok_def)

lemma follows_xy: "follows 0 u (u\<lparr>slot_x := v\<rparr>)" "follows 0 u (u\<lparr>slot_y := v\<rparr>)"
  by (rule follows_core, simp add: core_def)+

lemma follows_if: "(b \<Longrightarrow> follows n u v) \<Longrightarrow> (\<not> b \<Longrightarrow> follows n u w) \<Longrightarrow> follows n u (if b then v else w)"
  by simp

lemma follows_power_key: "follows 0 u (power_key now u)"
proof -
  have "follows 0 u (u\<lparr>t_power_key := now\<rparr>)" by (rule follows_core) (simp add: core_def)
  from follows_0 [OF this follows_set_screen] show ?thesis by (simp add: power_key_def)
qed

lemma follows_dark_abs: "follows 0 u (dark_abs code value u)"
  unfolding dark_abs_def by (intro follows_if) (simp_all add: follows_cur follows_core)

lemma follows_dark_event: "follows 0 u (dark_event d k now type code value u)"
proof -
  define v where "v = (if is_touch d \<and> has_mt d \<and> type = EV_ABS then dark_abs code value u else u)"
  define w where "w = snd (mt_finger d (mt_sync_from_kernel k v))"
  define w' where "w' = (if fst (mt_finger d (mt_sync_from_kernel k v)) \<ge> 0 then set_screen now True w else w)"
  have v: "follows 0 u v" by (simp add: v_def follows_dark_abs)
  have "follows 0 v w" by (rule follows_core) (simp add: w_def)
  moreover have "follows 0 w (mt_clear_fresh w')"
    by (rule follows_then_0 [of 0 w w']) (auto simp: w'_def intro: follows_set_screen)
  ultimately have "follows 0 u (mt_clear_fresh w')" using v by (blast intro: follows_0)
  moreover have "dark_event d k now type code value u =
      (if t_blank u \<noteq> 0 \<and> now - t_blank u < 3000000000 then u else if type = EV_SYN then mt_clear_fresh w' else v)"
    unfolding dark_event_def Let_def case_prod_beta v_def w_def w'_def ..
  ultimately show ?thesis using v by simp
qed

lemma follows_abs_event: "follows 0 u (abs_event d code value u)"
  unfolding abs_event_def by (intro follows_if) (simp_all add: follows_cur follows_xy follows_core)

lemma follows_contact_down: "follows 0 u (contact_down d now u)"
proof -
  have "follows 0 u (u\<lparr>dragging := False, dragging_bl := False, t_down := now, down_x := slot_x u, down_y := slot_y u\<rparr>)"
    by (rule follows_core) (simp add: core_def)
  from follows_0 [OF this follows_osk_down] show ?thesis by (simp add: contact_down_def Let_def case_prod_beta)
qed

lemma follows_contact_up: "follows 1 u (contact_up d now armed u)"
proof -
  have "follows 0 u (if dragging_bl u then commit_bl u else u)" by (auto intro: follows_core_0)
  then show ?thesis
    unfolding contact_up_def Let_def case_prod_beta
    by (rule follows_0) (intro follows_if follows_osk_up follows_tap follows_refl)
qed

lemma follows_button_event: "follows 1 u (button_event d now value u)"
proof -
  have "follows 0 u (u\<lparr>slot_id := 1, contact_armed := False\<rparr>)" by (rule follows_core) (simp add: core_def)
  from follows_0 [OF this follows_mono [OF follows_contact_down]]
  show ?thesis
    unfolding button_event_def
    by (intro follows_if follows_then_0 [OF follows_contact_up follows_reset_touch] follows_refl) simp_all
qed

lemma follows_clear: "follows n u v \<Longrightarrow> follows n u (mt_clear_fresh v)"
  by (erule follows_then_0) (simp add: follows_core)

lemma follows_drag_event: "follows 0 u (drag_event d u)"
proof -
  obtain x y where xy: "map_touch d u = (x, y)" by fastforce
  define pass where "pass = (sheet_tgt (hs u) = SHEET_PASS \<and> \<not> dragging_bl u)"
  define v where "v = (if pass then (if osk_held u then osk_on_move x y u else osk_on_down x y u) else u)"
  have v: "follows 0 u v" by (simp add: v_def follows_osk_move follows_osk_down)
  define range where "range = (if abs_max_y d - abs_min_y d < 1 then 1 else abs_max_y d - abs_min_y d)"
  define dy where "dy = slot_y u - down_y u"
  define dx where "dx = slot_x u - down_x u"
  obtain sx sy where sxy: "map_xy d (down_x v) (down_y v) v = (sx, sy)" by fastforce
  define w where "w = (if \<not> dragging v \<and> \<not> dragging_bl v \<and> sheet_tgt (hs v) = SHEET_NONE \<and> hit_bl sx sy v \<and>
      hit_bl x y v \<and> \<bar>dx\<bar> + \<bar>dy\<bar> > 12 then v\<lparr>dragging_bl := True, dragging := True\<rparr> else v)"
  have w: "follows 0 v w" unfolding w_def by (intro follows_if follows_refl follows_core) (simp add: core_def)
  define z where "z = (if dragging w then hover_from_point x y w else w)"
  have z: "follows 0 w z" by (simp add: z_def follows_hover_from_point)
  have scroll: "follows 0 z (z\<lparr>dragging := True, list_scroll_tgt := l, down_y := y'\<rparr>)" for l y'
    by (rule follows_core) (simp add: core_def)
  have "drag_event d u =
      (if pass \<and> osk_held v then mt_clear_fresh v
       else if \<not> dragging v \<and> \<not> dragging_bl v \<and> \<bar>dy\<bar> > range sdiv 4 then
         mt_clear_fresh (v\<lparr>down_x := slot_x v, down_y := slot_y v\<rparr>)
       else if dragging_bl w then mt_clear_fresh (apply_bl_from_x x w)
       else mt_clear_fresh (if sheet_tgt (hs z) = SHEET_LIST \<and> \<bar>dy\<bar> > 64 then
             z\<lparr>dragging := True, list_scroll_tgt := list_scroll z + dy * ui_h z sdiv range, down_y := slot_y z\<rparr> else z))"
    unfolding drag_event_def xy Let_def prod.case
    by (simp only: v_def pass_def range_def dy_def dx_def w_def z_def sxy [unfolded v_def pass_def] prod.case)
  moreover have "follows 0 v (v\<lparr>down_x := slot_x v, down_y := slot_y v\<rparr>)" by (rule follows_core) (simp add: core_def)
  moreover have "follows 0 w (apply_bl_from_x x w)" by (simp add: follows_core)
  ultimately show ?thesis
    by (auto intro!: follows_if follows_clear intro: follows_0 [OF v] follows_0 [OF w] follows_0 [OF z] v z scroll)
qed

lemma follows_syn_event: "follows 1 u (syn_event d k now u)"
proof -
  define v where "v = mt_bind_primary d (mt_sync_from_kernel k u)"
  have v: "follows 0 u v"
    unfolding v_def by (rule follows_0 [OF follows_core follows_bind_primary]) simp
  have up: "follows 1 v ((contact_up d now True v)\<lparr>dragging := False, dragging_bl := False, contact_armed := False\<rparr>)"
    by (rule follows_then_0 [OF follows_contact_up [of v d now True]], rule follows_core) (simp add: core_def)
  have down: "follows 0 v (contact_down d now (v\<lparr>contact_armed := True, mt_got_pos := False\<rparr>))"
    by (rule follows_0 [OF follows_core follows_contact_down]) (simp add: core_def)
  have drag: "follows 0 v (drag_event d (v\<lparr>mt_got_pos := False\<rparr>))"
    by (rule follows_0 [OF follows_core follows_drag_event]) (simp add: core_def)
  have "follows 1 v (syn_event d k now u)"
    unfolding syn_event_def Let_def v_def [symmetric]
    by (intro follows_if follows_clear follows_refl up follows_mono [OF down] follows_mono [OF drag]) simp_all
  with v show ?thesis by (rule follows_0)
qed

lemma follows_handle_ev: "follows 1 u (handle_ev d k now type code value u)"
proof -
  define v where "v = (if \<not> screen_off (hs u) then u\<lparr>t_user := now\<rparr> else u)"
  have v: "follows 0 u v" unfolding v_def by (intro follows_if follows_refl follows_core) (simp add: core_def)
  have "follows 1 u (emit e u)" for e by (simp add: follows_core)
  then show ?thesis
    unfolding handle_ev_def Let_def v_def [symmetric]
    by (intro follows_if follows_refl follows_0 [OF v] follows_syn_event follows_button_event follows_mono [OF follows_abs_event]
        follows_mono [OF follows_dark_event] follows_mono [OF follows_power_key] follows_core) simp_all
qed

lemma follows_drain: "follows (length es) u (drain_inputs es u)"
proof (induction es arbitrary: u)
  case (Cons e es)
  obtain d k now t c x where e: "e = (d, k, now, t, c, x)" by (metis prod_cases6)
  have "follows 1 u (if ev_keep d t c then handle_ev d k now t c x u else u)"
    using follows_handle_ev [of u d k now t c x] by simp
  from follows_trans [OF this Cons.IH] show ?case by (simp add: e)
qed simp

section \<open>Properties\<close>

text \<open>
  C28. Whatever input arrives in whatever order, every access to the arrays of touch slots and keys
  stays in range: the current and the bound slot are below 12, the highlighted key is one of those
  laid out, of which there are at most 48, and no key types a NUL.
\<close>

theorem hud_input_in_range:
  assumes "ui_ok u"
  shows "ui_ok (drain_inputs es u)"
  using assms follows_drain [of es u] by (simp add: follows_def)

text \<open>
  C27. Input refines the state machine of Wifi_Events: whatever arrives, the Wi-Fi part goes through
  a sequence of events that were possible when they happened (a button of the sheet that is shown,
  a row that is in the list, a key), with at most one button or key per input event. So it stays
  among the reachable states, of which the properties of the Wi-Fi part hold.
\<close>

theorem hud_input_refines:
  assumes "ui_ok u" and "hud_reach False typed (hs u)"
  shows "(\<exists>evs. moves evs (hs u) (hs (drain_inputs es u)) \<and> length (filter press evs) \<le> length es) \<and>
    (\<exists>typed'. hud_reach False typed' (hs (drain_inputs es u)))"
  using assms follows_drain [of es u] moves_reach by (fastforce simp: follows_def)

lemma dark_abs_hs [simp]: "hs (dark_abs code x u) = hs u"
  by (simp add: dark_abs_def mt_tracking_def mt_note_pos_def upd_slot_def Let_def)

lemma set_screen_on_hs:
  "screen_off (hs u) \<Longrightarrow> hs (set_screen now True u) = (hs u)\<lparr>screen_off := False, hover_ap := - 1\<rparr>"
  using set_screen_core(1) [of u now] by (simp add: core_def reset_touch_def on_hud_def)

lemma core_hs: "core u' = core u \<Longrightarrow> hs u' = hs u"
  by (simp add: core_def)

lemmas hs_quiet [simp] = core_hs [OF core_mt_clear_fresh] core_hs [OF core_mt_sync] core_hs [OF core_mt_finger]


text \<open>
  C30. On a screen that is wide enough, with the password sheet open: a finger that goes down
  anywhere on a key highlights that key, and lifting it there acts the key, once, in the Wi-Fi state
  \<open>s\<close> of that moment, provided the keyboard still shows the same keys. Which sheet \<open>s\<close> shows makes no
  difference: when the sheet has closed in between because a join succeeded, the key acts all the
  same, and the key that joins submits the password again.
\<close>

theorem hud_key_press:
  assumes "600 \<le> ui_w u" and "ui_w u \<le> 8000" and "480 \<le> ui_h u" and "ui_h u \<le> 8000"
    and "sheet_tgt (hs u) = SHEET_PASS" and "f045 \<le> sheet_t u"
    and "ks = osk_layout (ui_w u) (ui_h u) (lang_en u) (shift_on (hs u)) (sym_on (hs u)) (osk_sym2 (hs u))"
    and "i < length ks" and "map_touch d u = (x, y)" and "hit x y (k_x (ks ! i)) (k_y (ks ! i)) (k_w (ks ! i)) (k_h (ks ! i))"
    and "shift_on s = shift_on (hs u)" and "sym_on s = sym_on (hs u)" and "osk_sym2 s = osk_sym2 (hs u)"
  shows "osk_held (contact_down d now u) \<and> osk_hi (contact_down d now u) = int i \<and>
    hs (contact_up d now' armed ((contact_down d now u)\<lparr>hs := s\<rparr>)) = osk_activate (k_kind (ks ! i)) (k_ch (ks ! i)) s"
proof -
  have ok: "layout_ok (ui_w u) (ui_h u) ks" unfolding assms(7) by (rule osk_layout_ok [OF assms(1-4)])
  have key: "osk_key_at x y ks = int i" by (rule osk_key_at_key [OF ok assms(2,8,10)])
  have "osk_top (ui_h u) \<le> k_y (ks ! i)" using ok assms(8) by (simp add: layout_ok_def)
  then have row: "\<not> y < osk_top (ui_h u) - 12" using assms(10) by (simp add: hit_def)
  define v where "v = u\<lparr>dragging := False, dragging_bl := False, t_down := now, down_x := slot_x u, down_y := slot_y u\<rparr>"
  have "relayout v = v\<lparr>osk_keys := ks @ drop (length ks) (osk_keys u), nosk := length ks\<rparr>"
    by (simp add: relayout_def v_def assms(7) Let_def)
  moreover have "map_touch d v = (x, y)" using assms(9) by (simp add: v_def map_touch_def map_xy_def)
  moreover have "contact_down d now u = (case map_touch d v of (x, y) \<Rightarrow> osk_on_down x y v)"
    by (simp only: contact_down_def v_def Let_def)
  moreover have "sheet_tgt (hs v) = SHEET_PASS" "f045 \<le> sheet_t v" "ui_h v = ui_h u"
    using assms(5,6) by (simp_all add: v_def)
  ultimately have down: "contact_down d now u =
      v\<lparr>osk_keys := ks @ drop (length ks) (osk_keys u), nosk := length ks, osk_held := True, osk_hi := int i, osk_anim := int i\<rparr>"
    using row key by (simp add: osk_on_down_def Let_def key_at_def)
  let ?w = "(contact_down d now u)\<lparr>hs := s\<rparr>"
  have "map_touch d ?w = (x, y)" using assms(9) by (simp add: down v_def map_touch_def map_xy_def)
  moreover have "relayout ?w = ?w" using assms(11-13) by (simp add: relayout_def down v_def assms(7) Let_def)
  moreover have "key_at x y ?w = int i" using key by (simp add: key_at_def down)
  ultimately have "hs (contact_up d now' armed ?w) = osk_activate (k_kind (ks ! i)) (k_ch (ks ! i)) s"
    using assms(8) by (simp add: contact_up_def osk_on_up_def Let_def down v_def on_hud_def nth_append)
  then show ?thesis by (simp add: down)
qed

section \<open>Examples\<close>

text \<open>A display that has just started, with a screen of 1080 x 1920, and a touch panel as large.\<close>

definition ui_start :: "hud \<Rightarrow> ui" where
  "ui_start s =
     \<lparr>hs = s, ui_w = 1080, ui_h = 1920, ui_gl = False, lang_en = True, osk_keys = [], nosk = 0, osk_held = False, osk_hi = - 1,
      osk_anim = - 1, sheet_t = 1, list_scroll = 0, list_scroll_tgt = 0, bl_path = False, bl_power_path = False, bl_max = 0,
      bl_cur = 0, bl_pct = - 1, bl_keep = 80, dragging_bl = False, dragging = False, contact_armed = False, slot_x = 15,
      slot_y = 1520, slot_id = - 1, down_x = 0, down_y = 0, mt_cur = 0, mt_bind_slot = - 1, mt_nslots = 10, mt_nraw = 0,
      mt = replicate MAX_SLOTS slot0, mt_got_pos = False, t_power_key = 0, t_down = 0, t_hud_start = 1, t_unblank = 0,
      t_blank = 0, t_user = 0, pending_bl = False, pending_bl_frames = 0, fx = []\<rparr>"

definition demo_touch :: touch_dev where
  "demo_touch = \<lparr>abs_min_x = 0, abs_max_x = 1080, abs_min_y = 0, abs_max_y = 1920, is_touch = True, has_mt = False\<rparr>"

lemma ui_start_ok: "ui_ok (ui_start s)"
  by (simp add: ui_ok_def ui_start_def keys_ok_def in_slots_def MAX_SLOTS_def)

definition demo_kernel :: kslots where
  "demo_kernel = \<lparr>k_ids = Some (\<lambda>s. - 1), k_xs = (\<lambda>s. 0), k_ys = (\<lambda>s. 0), k_maj = (\<lambda>s. 0), k_zs = (\<lambda>s. 0)\<rparr>"

theorem hud_input_in_range_witness:
  "ui_ok (drain_inputs [(demo_touch, demo_kernel, 5, EV_KEY, BTN_TOUCH, 1), (demo_touch, demo_kernel, 6, EV_SYN, 0, 0)] (ui_start (hud0 [])))"
  by (rule hud_input_in_range [OF ui_start_ok])

theorem hud_input_refines_witness:
  "\<exists>typed. hud_reach False typed (hs (drain_inputs [(demo_touch, demo_kernel, 5, EV_KEY, BTN_TOUCH, 1)] (ui_start (hud0 []))))"
  using hud_input_refines [OF ui_start_ok, of "[]" "hud0 []" "[(demo_touch, demo_kernel, 5, EV_KEY, BTN_TOUCH, 1)]"]
    hud_reach.start [of False "[]"] by (simp add: ui_start_def)

definition demo_dark :: ui where
  "demo_dark = ui_start ((hud0 [])\<lparr>screen_off := True\<rparr>)"


theorem hud_key_press_witness:
  "password (hs (contact_up demo_touch 2 True
     ((contact_down demo_touch 1 (ui_start ((hud0 [])\<lparr>sheet_tgt := SHEET_PASS\<rparr>)))\<lparr>hs := hud0 []\<rparr>))) = ''q''"
proof -
  obtain r where r: "osk_layout 1080 1920 True False False False = mk_key OSK_CHAR ''q'' (CHR ''q'') 10 1518 97 # r"
    using demo_first_key by blast
  have h: "\<not> shift_on (hud0 [])" "\<not> sym_on (hud0 [])" "\<not> osk_sym2 (hud0 [])" "password (hud0 []) = []"
    by (simp_all add: hud0_def hud_blank_def wifi_radio_def start_nmcli_def)
  have m: "map_touch demo_touch (ui_start s) = (15, 1520)" for s
    by (simp add: map_touch_def map_xy_def demo_touch_def ui_start_def sdiv_pos clampi_def)
  have u: "hs (ui_start s) = s" "ui_w (ui_start s) = 1080" "ui_h (ui_start s) = 1920" "lang_en (ui_start s)" "sheet_t (ui_start s) = 1" for s
    by (simp_all add: ui_start_def)
  have f: "f045 \<le> 1" by (simp add: f045_def)
  show ?thesis
    using hud_key_press [of "ui_start ((hud0 [])\<lparr>sheet_tgt := SHEET_PASS\<rparr>)", OF _ _ _ _ _ _ refl, of 0 demo_touch 15 1520 "hud0 []" 1 2 True]
    by (simp add: h m f r u mk_key_def hit_def osk_kh_def osk_activate_def osk_feed_def PW_MAX_def Let_def)
qed

end
