(* ===== verification/Hud_Meters.thy ===== *)
theory Hud_Meters
  imports Hud_Touch
begin

text \<open>
  The readings of the boot display (\<open>initramfs/gemini-status.c\<close>): processor, temperature, battery,
  memory, graphics, network, signal and uptime, read from the files of the kernel; the settings; the
  search for the backlight; and how readings are written as text. The files are a parameter of every
  operation. The floats of the code are rational numbers here.
\<close>

section \<open>Files\<close>

text \<open>
  What the system shows: the content that opening and reading a file gives (None if it cannot be
  opened), the entries of a directory, whether a path exists, the target of a symbolic link.
\<close>

record os =
  os_file :: "string \<Rightarrow> string option"
  os_dir :: "string \<Rightarrow> string list option"
  os_exists :: "string \<Rightarrow> bool"
  os_link :: "string \<Rightarrow> string option"

text \<open>\<open>read(fd, buf, n)\<close> with a buffer of \<open>n + 1\<close> bytes; nothing read counts as failure.\<close>

definition read_text :: "os \<Rightarrow> nat \<Rightarrow> string \<Rightarrow> string option" where
  "read_text os n path =
     (case os_file os path of None \<Rightarrow> None | Some t \<Rightarrow> if take n t = [] then None else Some (take n t))"

text \<open>\<open>strtol\<close> saturates at the ends of \<open>long\<close>.\<close>

definition read_long :: "os \<Rightarrow> string \<Rightarrow> int" where
  "read_long os path =
     (case read_text os 63 path of None \<Rightarrow> - 1 | Some b \<Rightarrow> clampi (atoi b) (- (2 ^ 63)) (2 ^ 63 - 1))"

text \<open>\<open>if (b[n - 1] == '\n') b[n - 1] = 0;\<close>\<close>

definition chop_nl :: "string \<Rightarrow> string" where
  "chop_nl s = (if s \<noteq> [] \<and> last s = CHR 0x0A then butlast s else s)"

text \<open>The pieces that \<open>fgets(line, n + 1, f)\<close> delivers: up to a newline, at most \<open>n\<close> characters.\<close>

definition fgets_len :: "nat \<Rightarrow> string \<Rightarrow> nat" where
  "fgets_len n s = min n (length (takeWhile (\<lambda>c. c \<noteq> CHR 0x0A) s) + 1)"

function fgets_lines :: "nat \<Rightarrow> string \<Rightarrow> string list" where
  "fgets_lines n s = (if s = [] \<or> n = 0 then [] else take (fgets_len n s) s # fgets_lines n (drop (fgets_len n s) s))"
  by pat_completeness auto

termination
  by (relation "measure (\<lambda>(n, s). length s)") (auto simp: fgets_len_def)

declare fgets_lines.simps [simp del]

text \<open>\<open>%llu\<close>: white space, an optional sign, digits; the value and the rest.\<close>

definition u64 :: "int \<Rightarrow> int" where
  "u64 x = x mod 2 ^ 64"

definition scan_num :: "string \<Rightarrow> (int \<times> string) option" where
  "scan_num s =
     (let r = dropWhile is_space s;
          neg = (r \<noteq> [] \<and> hd r = CHR ''-'');
          q = (if r \<noteq> [] \<and> (hd r = CHR ''-'' \<or> hd r = CHR ''+'') then tl r else r)
      in if q \<noteq> [] \<and> is_digit (hd q)
         then Some (if neg then - digits_val q else digits_val q, dropWhile is_digit q) else None)"

definition scan_ull :: "string \<Rightarrow> (int \<times> string) option" where
  "scan_ull s =
     (case scan_num s of
        None \<Rightarrow> None
      | Some (v, r) \<Rightarrow> Some (if \<bar>v\<bar> \<ge> 2 ^ 64 then 2 ^ 64 - 1 else u64 v, r))"

fun scan_ulls :: "nat \<Rightarrow> string \<Rightarrow> int list" where
  "scan_ulls 0 s = []"
| "scan_ulls (Suc n) s = (case scan_ull s of None \<Rightarrow> [] | Some (v, r) \<Rightarrow> v # scan_ulls n r)"

section \<open>State\<close>

definition MAX_CPU :: nat where "MAX_CPU = 8"

record meters =
  cpu_t :: rat
  gpu_t :: rat
  ram_t :: rat
  cpu_s :: rat
  gpu_s :: rat
  ram_s :: rat
  cpu_core_t :: "rat list"
  cpu_core_s :: "rat list"
  ncpu :: nat
  gpu_ok :: bool
  gpu_mhz :: int
  cpu_temp_c :: int
  gpu_temp_c :: int
  batt_ok :: bool
  batt_pct :: int
  batt_mw :: int
  batt_charging :: bool
  ram_total_kb :: int
  ram_used_kb :: int
  cpu_idle_a :: int
  cpu_tot_a :: int
  cpu_core_idle :: "int list"
  cpu_core_tot :: "int list"
  uptime_sec :: int
  rx_bps :: int
  tx_bps :: int
  net_rx_b :: int
  net_tx_b :: int
  t_net :: nat
  net_ready :: bool
  net_iface :: string
  hwaddr :: string
  tz_cpu_path :: string
  tz_gpu_path :: string
  tz_best_path :: string
  tz_cached :: bool
  batt_ua_path :: string
  batt_uv_path :: string
  batt_cap_path :: string
  batt_st_path :: string
  batt_cached :: bool
  batt_adc_started :: bool
  drm_open :: bool
  gpu_busy_path :: string
  gpu_freq_path :: string
  gpu_paths_done :: bool

text \<open>The initial values.\<close>

definition meters0 :: meters where
  "meters0 =
     \<lparr>cpu_t = 0, gpu_t = 0, ram_t = 0, cpu_s = 0, gpu_s = 0, ram_s = 0, cpu_core_t = replicate MAX_CPU 0,
      cpu_core_s = replicate MAX_CPU 0, ncpu = 0, gpu_ok = False, gpu_mhz = 0, cpu_temp_c = - 1, gpu_temp_c = - 1,
      batt_ok = False, batt_pct = - 1, batt_mw = - 1, batt_charging = False, ram_total_kb = 0, ram_used_kb = 0,
      cpu_idle_a = 0, cpu_tot_a = 0, cpu_core_idle = replicate MAX_CPU 0, cpu_core_tot = replicate MAX_CPU 0,
      uptime_sec = 0, rx_bps = 0, tx_bps = 0, net_rx_b = 0, net_tx_b = 0, t_net = 0, net_ready = False,
      net_iface = [], hwaddr = [], tz_cpu_path = [], tz_gpu_path = [], tz_best_path = [], tz_cached = False,
      batt_ua_path = [], batt_uv_path = [], batt_cap_path = [], batt_st_path = [], batt_cached = False,
      batt_adc_started = False, drm_open = False, gpu_busy_path = [], gpu_freq_path = [], gpu_paths_done = False\<rparr>"

definition clampf :: "rat \<Rightarrow> rat \<Rightarrow> rat \<Rightarrow> rat" where
  "clampf v a b = (if v < a then a else if v > b then b else v)"

section \<open>Processor\<close>

text \<open>
  The load since the last sample, in the unsigned 64-bit arithmetic of the code. The eight
  variables are not initialised: \<open>junk\<close> is what those hold that the line does not set.
\<close>

definition cpu_load :: "int \<Rightarrow> int \<Rightarrow> int \<Rightarrow> int \<Rightarrow> rat \<Rightarrow> rat" where
  "cpu_load tot0 idle0 tot idle old =
     (if tot0 \<noteq> 0 \<and> tot > tot0 then
        let busy = u64 (u64 (tot - tot0) - u64 (idle - idle0))
        in clampf (100 * of_int busy / of_int (tot - tot0)) 0 100
      else old)"

definition fill_in :: "int list \<Rightarrow> int list \<Rightarrow> int list" where
  "fill_in junk vs = vs @ drop (length vs) junk"

definition cpu_line :: "int list \<Rightarrow> string \<Rightarrow> meters \<Rightarrow> meters" where
  "cpu_line junk line m =
     (if starts_with line ''cpu '' then
        let vs = scan_ulls 8 (drop 3 line) in
        if length vs < 5 then m
        else
          let ws = fill_in junk vs; tot = u64 (sum_list ws); id = ws ! 3
          in m\<lparr>cpu_t := cpu_load (cpu_tot_a m) (cpu_idle_a m) tot id (cpu_t m), cpu_idle_a := id, cpu_tot_a := tot\<rparr>
      else if \<not> starts_with line ''cpu'' then m
      else case scan_num (drop 3 line) of
        None \<Rightarrow> m
      | Some (core, r) \<Rightarrow>
          let vs = scan_ulls 8 r in
          if length vs < 5 then m
          else if core < 0 \<or> core \<ge> int MAX_CPU then m
          else
            let k = nat core; ws = fill_in junk vs; tot = u64 (sum_list ws); id = ws ! 3
            in m\<lparr>cpu_core_t := (cpu_core_t m)[k := cpu_load (cpu_core_tot m ! k) (cpu_core_idle m ! k) tot id (cpu_core_t m ! k)],
                 cpu_core_idle := (cpu_core_idle m)[k := id], cpu_core_tot := (cpu_core_tot m)[k := tot],
                 ncpu := (if k + 1 > ncpu m then k + 1 else ncpu m)\<rparr>)"

definition sample_cpu :: "int list \<Rightarrow> os \<Rightarrow> meters \<Rightarrow> meters" where
  "sample_cpu junk os m =
     (case os_file os ''/proc/stat'' of None \<Rightarrow> m | Some t \<Rightarrow> fold (cpu_line junk) (fgets_lines 255 t) m)"

section \<open>Temperature\<close>

definition tz_read :: "os \<Rightarrow> string \<Rightarrow> int" where
  "tz_read os path =
     (if path = [] then - 1
      else
        let millic = read_long os path in
        if millic < 0 then - 1
        else
          let c = (if millic > 1000 then millic div 1000 else millic)
          in if c < 10 \<or> c > 125 then - 1 else c)"

text \<open>The best readings so far: of any zone, of a processor, of the GPU.\<close>

definition tz_entry :: "os \<Rightarrow> string \<Rightarrow> int \<times> int \<times> int \<times> meters \<Rightarrow> int \<times> int \<times> int \<times> meters" where
  "tz_entry os name acc =
     (case acc of (best, best_cpu, best_gpu, m) \<Rightarrow>
        if \<not> starts_with name ''thermal_zone'' then acc
        else case read_text os 63 (fits 192 (''/sys/class/thermal/'' @ name @ ''/type'')) of
          None \<Rightarrow> acc
        | Some t \<Rightarrow>
            let typ = chop_nl t;
                is_cpu = (contains typ ''cpu'' \<or> contains typ ''CPU'' \<or> contains typ ''krait'' \<or> contains typ ''kryo'');
                is_gpu = (contains typ ''gpu'' \<or> contains typ ''GPU'' \<or> contains typ ''adreno'')
            in if \<not> is_cpu \<and> \<not> is_gpu \<and> \<not> contains typ ''tsens'' \<and> \<not> contains typ ''soc'' then acc
               else
                 let path = fits 192 (''/sys/class/thermal/'' @ name @ ''/temp'');
                     millic = read_long os path;
                     c = (if millic > 1000 then millic div 1000 else millic)
                 in if c < 10 \<or> c > 125 then acc
                    else
                      let m = (if c > best then m\<lparr>tz_best_path := path\<rparr> else m);
                          m = (if is_cpu \<and> c > best_cpu then m\<lparr>tz_cpu_path := path\<rparr> else m);
                          m = (if is_gpu \<and> c > best_gpu then m\<lparr>tz_gpu_path := path\<rparr> else m)
                      in (if c > best then c else best, if is_cpu \<and> c > best_cpu then c else best_cpu,
                          if is_gpu \<and> c > best_gpu then c else best_gpu, m))"

definition show_temp :: "int \<Rightarrow> int \<Rightarrow> int \<Rightarrow> meters \<Rightarrow> meters" where
  "show_temp best best_cpu best_gpu m =
     m\<lparr>cpu_temp_c := (if best_cpu > 0 then best_cpu else best), gpu_temp_c := best_gpu\<rparr>"

definition sample_temp :: "os \<Rightarrow> meters \<Rightarrow> meters" where
  "sample_temp os m =
     (if tz_cached m then
        show_temp (tz_read os (tz_best_path m)) (tz_read os (tz_cpu_path m)) (tz_read os (tz_gpu_path m)) m
      else case os_dir os ''/sys/class/thermal'' of
        None \<Rightarrow> m
      | Some ents \<Rightarrow>
          (case fold (tz_entry os) ents (- 1, - 1, - 1, m) of
             (best, best_cpu, best_gpu, m) \<Rightarrow> show_temp best best_cpu best_gpu (m\<lparr>tz_cached := True\<rparr>)))"

section \<open>Battery\<close>

definition find_batt :: "os \<Rightarrow> string list \<Rightarrow> string option" where
  "find_batt os ents =
     List.find
       (\<lambda>name. \<not> starts_with name ''.'' \<and>
          (case read_text os 31 (fits 192 (''/sys/class/power_supply/'' @ name @ ''/type'')) of
             None \<Rightarrow> False | Some typ \<Rightarrow> starts_with typ ''Battery''))
       ents"

definition batt_file :: "string \<Rightarrow> string \<Rightarrow> string" where
  "batt_file name f = fits 192 (''/sys/class/power_supply/'' @ name @ f)"

definition use_batt :: "string \<Rightarrow> meters \<Rightarrow> meters" where
  "use_batt name m =
     m\<lparr>batt_ua_path := batt_file name ''/current_now'', batt_uv_path := batt_file name ''/voltage_now'',
       batt_cap_path := batt_file name ''/capacity'', batt_st_path := batt_file name ''/status'', batt_cached := True\<rparr>"

text \<open>Microvolts times microamperes, as milliwatts (an \<open>int\<close>); also the body of \<open>batt_adc_loop\<close>.\<close>

definition batt_power :: "os \<Rightarrow> meters \<Rightarrow> meters" where
  "batt_power os m =
     (let ua = read_long os (batt_ua_path m); uv = read_long os (batt_uv_path m) in
      if uv \<ge> 1000000 then m\<lparr>batt_mw := signed_take_bit 31 (u64 (\<bar>ua\<bar> * uv) div 1000000000)\<rparr> else m)"

definition batt_state :: "os \<Rightarrow> meters \<Rightarrow> meters" where
  "batt_state os m =
     (let cap = read_long os (batt_cap_path m);
          m = (if cap \<ge> 0 \<and> cap \<le> 100 then m\<lparr>batt_pct := cap\<rparr> else m);
          m = (case read_text os 31 (batt_st_path m) of
                 None \<Rightarrow> m | Some st \<Rightarrow> m\<lparr>batt_charging := starts_with st ''Charging''\<rparr>);
          m = (if batt_adc_started m then m else (batt_power os m)\<lparr>batt_adc_started := True\<rparr>)
      in m\<lparr>batt_ok := True\<rparr>)"

definition sample_batt :: "os \<Rightarrow> meters \<Rightarrow> meters" where
  "sample_batt os m =
     (if batt_cached m then batt_state os m
      else case os_dir os ''/sys/class/power_supply'' of
        None \<Rightarrow> m
      | Some ents \<Rightarrow> (case find_batt os ents of None \<Rightarrow> m | Some name \<Rightarrow> batt_state os (use_batt name m)))"

section \<open>Memory\<close>

text \<open>\<open>fscanf(f, "%63s %lu %*s", k, &v)\<close>: the two results and the rest of the file.\<close>

definition scan_word :: "nat \<Rightarrow> string \<Rightarrow> string \<times> string" where
  "scan_word n s =
     (let r = dropWhile is_space s; w = take n (takeWhile (\<lambda>c. \<not> is_space c) r) in (w, drop (length w) r))"

definition scan_meminfo :: "string \<Rightarrow> (string \<times> int \<times> string) option" where
  "scan_meminfo s =
     (case scan_word 63 s of
        (k, r) \<Rightarrow>
          if k = [] then None
          else case scan_ull r of
            None \<Rightarrow> None
          | Some (v, r) \<Rightarrow>
              let r = dropWhile is_space r in Some (k, v, dropWhile (\<lambda>c. \<not> is_space c) r))"

lemma scan_word_rest: "scan_word n s = (w, r) \<Longrightarrow> length w + length r \<le> length s"
  using length_dropWhile_le [of is_space s] length_takeWhile_le [of "\<lambda>c. \<not> is_space c" "dropWhile is_space s"]
  by (auto simp: scan_word_def Let_def min_def)

lemma scan_ull_rest: "scan_ull s = Some (v, r) \<Longrightarrow> length r \<le> length s"
proof -
  let ?d = "dropWhile is_space s"
  have d: "length ?d \<le> length s" by (rule length_dropWhile_le)
  moreover have "length (dropWhile is_digit ?d) \<le> length s" using d length_dropWhile_le order_trans by blast
  moreover have "length (dropWhile is_digit (tl ?d)) \<le> length s"
    using d length_dropWhile_le [of is_digit "tl ?d"] by simp
  ultimately show "scan_ull s = Some (v, r) \<Longrightarrow> length r \<le> length s"
    by (auto simp: scan_ull_def scan_num_def Let_def split: if_splits)
qed

lemma scan_meminfo_rest: "scan_meminfo s = Some (k, v, r) \<Longrightarrow> length r < length s"
proof -
  assume a: "scan_meminfo s = Some (k, v, r)"
  obtain w r1 where w: "scan_word 63 s = (w, r1)" by fastforce
  from a w obtain r2 where k: "w \<noteq> []" and r2: "scan_ull r1 = Some (v, r2)"
    and r: "r = dropWhile (\<lambda>c. \<not> is_space c) (dropWhile is_space r2)"
    by (auto simp: scan_meminfo_def Let_def split: if_splits option.splits)
  have "length r \<le> length r2"
    unfolding r by (rule order_trans [OF length_dropWhile_le length_dropWhile_le])
  also have "length r2 \<le> length r1" by (rule scan_ull_rest [OF r2])
  also have "length r1 < length s" using scan_word_rest [OF w] k by (cases w) auto
  finally show ?thesis .
qed

text \<open>The loop: the tot and the available memory, as far as they were found.\<close>

function meminfo :: "string \<Rightarrow> int \<Rightarrow> int \<Rightarrow> int \<times> int" where
  "meminfo s tot avail =
     (case scan_meminfo s of
        None \<Rightarrow> (tot, avail)
      | Some (k, v, r) \<Rightarrow>
          let tot = (if k = ''MemTotal:'' then v else tot);
              avail = (if k \<noteq> ''MemTotal:'' \<and> k = ''MemAvailable:'' then v else avail)
          in if tot \<noteq> 0 \<and> avail \<noteq> 0 then (tot, avail) else meminfo r tot avail)"
  by pat_completeness auto

termination
  by (relation "measure (\<lambda>(s, t, a). length s)") (auto dest: scan_meminfo_rest)

declare meminfo.simps [simp del]

definition sample_ram :: "os \<Rightarrow> meters \<Rightarrow> meters" where
  "sample_ram os m =
     (case os_file os ''/proc/meminfo'' of
        None \<Rightarrow> m
      | Some t \<Rightarrow>
          (case meminfo t 0 0 of
             (tot, avail) \<Rightarrow>
               if tot = 0 then m
               else
                 let used = (if avail \<noteq> 0 \<and> avail < tot then tot - avail else 0)
                 in m\<lparr>ram_total_kb := tot, ram_used_kb := used, ram_t := clampf (100 * of_int used / of_int tot) 0 100\<rparr>))"

section \<open>Graphics processor\<close>

definition try_gpu_path :: "os \<Rightarrow> string \<Rightarrow> rat option" where
  "try_gpu_path os path = (let v = read_long os path in if v < 0 then None else Some (clampf (of_int v) 0 100))"

definition path_looks_gpu :: "string \<Rightarrow> bool" where
  "path_looks_gpu s =
     (if contains s ''gpu_mem'' \<or> contains s ''zap'' then False
      else contains s ''b00000.gpu'' \<or> contains s ''kgsl'' \<or> contains s ''adreno-3d'' \<or>
        contains s ''.gpu'' \<and> \<not> contains s ''90f'' \<and> \<not> contains s ''923'')"

definition take_gpu_freq :: "int \<Rightarrow> meters \<Rightarrow> meters" where
  "take_gpu_freq freq m =
     (if freq < 10000 then m
      else
        let mhz = (if freq \<ge> 1000000 then signed_take_bit 31 (freq div 1000000) else freq div 1000)
        in if mhz < 100 \<or> mhz > 700 then m else if mhz > gpu_mhz m then m\<lparr>gpu_mhz := mhz\<rparr> else m)"

text \<open>\<open>pct\<close> and \<open>found\<close> of the code are the option: None as long as nothing was found.\<close>

definition gpu_set_busy :: "string \<Rightarrow> meters \<Rightarrow> meters" where
  "gpu_set_busy path m = (if gpu_busy_path m = [] then m\<lparr>gpu_busy_path := fits 320 path\<rparr> else m)"

definition gpu_set_freq :: "string \<Rightarrow> int \<Rightarrow> meters \<Rightarrow> meters" where
  "gpu_set_freq path freq m =
     (if freq \<le> 0 then m
      else take_gpu_freq freq (if gpu_freq_path m = [] then m\<lparr>gpu_freq_path := fits 320 path\<rparr> else m))"

definition busy_try :: "string list" where
  "busy_try =
     [''/sys/bus/platform/devices/b00000.gpu/gpu_busy_percent'', ''/sys/kernel/debug/dri/0/devfreq/busy_percent'',
      ''/sys/kernel/debug/dri/128/devfreq/busy_percent'', ''/sys/class/drm/card0/device/gpu_busy_percent'',
      ''/sys/class/kgsl/kgsl-3d0/gpu_busy_percentage'', ''/sys/class/kgsl/kgsl-3d0/gpu_busy'']"

fun try_busy :: "os \<Rightarrow> string list \<Rightarrow> rat option \<times> meters \<Rightarrow> rat option \<times> meters" where
  "try_busy os [] acc = acc"
| "try_busy os (p # ps) (pct, m) =
     (case try_gpu_path os p of Some v \<Rightarrow> (Some v, gpu_set_busy p m) | None \<Rightarrow> try_busy os ps (pct, m))"

definition entries :: "os \<Rightarrow> string \<Rightarrow> string list" where
  "entries os d = (case os_dir os d of None \<Rightarrow> [] | Some es \<Rightarrow> es)"

text \<open>The load at a path and the frequency at another one.\<close>

definition take_load :: "os \<Rightarrow> string \<Rightarrow> rat option \<times> meters \<Rightarrow> rat option \<times> meters" where
  "take_load os path acc =
     (case acc of (pct, m) \<Rightarrow>
        let load = read_long os path in
        if load \<ge> 0 then (Some (clampf (of_int load) 0 100), gpu_set_busy path m) else (pct, m))"

definition take_freq :: "os \<Rightarrow> string \<Rightarrow> rat option \<times> meters \<Rightarrow> rat option \<times> meters" where
  "take_freq os path acc = (case acc of (pct, m) \<Rightarrow> (pct, gpu_set_freq path (read_long os path) m))"

definition devfreq_entry :: "os \<Rightarrow> string \<Rightarrow> rat option \<times> meters \<Rightarrow> rat option \<times> meters" where
  "devfreq_entry os name acc =
     (let base = ''/sys/class/devfreq/'' @ name;
          is_gpu = (path_looks_gpu name \<or>
            (case os_link os (fits 320 (base @ ''/device'')) of
               None \<Rightarrow> False | Some l \<Rightarrow> take 255 l \<noteq> [] \<and> path_looks_gpu (take 255 l)))
      in if starts_with name ''.'' \<or> \<not> is_gpu then acc
         else
           let acc = take_freq os (fits 320 (base @ ''/cur_freq'')) acc; load = fits 320 (base @ ''/gpu_load'')
           in take_load os (if read_long os load < 0 then fits 320 (base @ ''/load'') else load) acc)"

definition gpu_devfreq_entry :: "os \<Rightarrow> string \<Rightarrow> string \<Rightarrow> rat option \<times> meters \<Rightarrow> rat option \<times> meters" where
  "gpu_devfreq_entry os dir name acc =
     (if starts_with name ''.'' then acc
      else take_load os (fits 320 (dir @ ''/'' @ name @ ''/gpu_load''))
             (take_freq os (fits 320 (dir @ ''/'' @ name @ ''/cur_freq'')) acc))"

definition platform_entry :: "os \<Rightarrow> string \<Rightarrow> rat option \<times> meters \<Rightarrow> rat option \<times> meters" where
  "platform_entry os name acc =
     (if \<not> path_looks_gpu name then acc
      else
        let dir = fits 320 (''/sys/bus/platform/devices/'' @ name @ ''/devfreq'')
        in fold (gpu_devfreq_entry os dir) (entries os dir) acc)"

definition discover_gpu_paths :: "os \<Rightarrow> rat option \<times> meters \<Rightarrow> rat option \<times> meters" where
  "discover_gpu_paths os acc =
     (let dev = ''/sys/bus/platform/devices'';
          acc = try_busy os busy_try acc;
          acc = (if fst acc \<noteq> None then acc
                 else try_busy os
                   (map (\<lambda>name. fits 320 (dev @ ''/'' @ name @ ''/gpu_busy_percent'')) (filter path_looks_gpu (entries os dev)))
                   acc);
          acc = fold (devfreq_entry os) (entries os ''/sys/class/devfreq'') acc;
          acc = fold (platform_entry os) (entries os dev) acc
      in (fst acc, (snd acc)\<lparr>gpu_paths_done := True\<rparr>))"

text \<open>\<open>drm\<close>: whether \<open>/dev/dri/renderD128\<close> can be opened.\<close>

definition ensure_gpu_open :: "bool \<Rightarrow> meters \<Rightarrow> meters" where
  "ensure_gpu_open drm m = (if drm_open m then m else m\<lparr>drm_open := drm\<rparr>)"

definition gpu_busy :: "os \<Rightarrow> rat option \<times> meters \<Rightarrow> rat option \<times> meters" where
  "gpu_busy os acc =
     (case acc of (pct, m) \<Rightarrow>
        if gpu_busy_path m = [] then (pct, m)
        else case try_gpu_path os (gpu_busy_path m) of
          Some v \<Rightarrow> (Some v, m)
        | None \<Rightarrow>
            let (pct, m) = discover_gpu_paths os (pct, m\<lparr>gpu_busy_path := [], gpu_freq_path := [], gpu_paths_done := False\<rparr>)
            in if gpu_busy_path m = [] then (pct, m)
               else (case try_gpu_path os (gpu_busy_path m) of Some v \<Rightarrow> (Some v, m) | None \<Rightarrow> (pct, m)))"

definition sample_gpu :: "bool \<Rightarrow> os \<Rightarrow> meters \<Rightarrow> meters" where
  "sample_gpu drm os m =
     (let m = (ensure_gpu_open drm m)\<lparr>gpu_mhz := 0\<rparr>;
          acc = (if gpu_paths_done m then (None, m) else discover_gpu_paths os (None, m));
          (pct, m) = gpu_busy os acc;
          freq = read_long os (gpu_freq_path m);
          m = (if gpu_freq_path m \<noteq> [] \<and> freq > 0 then take_gpu_freq freq m else m)
      in m\<lparr>gpu_ok := (drm_open m \<or> os_exists os ''/dev/dri/card0'' \<or> pct \<noteq> None \<or> gpu_mhz m > 0),
           gpu_t := (case pct of Some v \<Rightarrow> v | None \<Rightarrow> 0)\<rparr>)"

section \<open>Network traffic\<close>

fun first_some :: "('a \<Rightarrow> 'b option) \<Rightarrow> 'a list \<Rightarrow> 'b option" where
  "first_some f [] = None"
| "first_some f (x # xs) = (case f x of None \<Rightarrow> first_some f xs | Some y \<Rightarrow> Some y)"

text \<open>The text before and behind the first colon of a line.\<close>

definition at_colon :: "string \<Rightarrow> (string \<times> string) option" where
  "at_colon l = (if CHR '':'' \<in> set l then Some (cut_at (CHR '':'') l, tl (dropWhile (\<lambda>c. c \<noteq> CHR '':'') l)) else None)"

definition net_line :: "string \<Rightarrow> string \<Rightarrow> (int \<times> int) option" where
  "net_line want l =
     (case at_colon l of
        None \<Rightarrow> None
      | Some (name, r) \<Rightarrow>
          let ifn = fst (scan_word 31 name); vs = scan_ulls 9 r in
          if ifn = [] \<or> ifn \<noteq> want \<or> length vs < 9 then None else Some (vs ! 0, vs ! 8))"

definition net_reset :: "meters \<Rightarrow> meters" where
  "net_reset m = m\<lparr>net_ready := False, rx_bps := 0, tx_bps := 0, t_net := 0, net_rx_b := 0, net_tx_b := 0, net_iface := []\<rparr>"

text \<open>Bytes per second since the last sample; \<open>now\<close> and \<open>t_net\<close> are nanoseconds.\<close>

definition net_rate :: "int \<Rightarrow> int \<Rightarrow> nat \<Rightarrow> int" where
  "net_rate b0 b dt = (b - b0) * 1000000000 div int dt"

definition net_count :: "nat \<Rightarrow> string \<Rightarrow> int \<Rightarrow> int \<Rightarrow> meters \<Rightarrow> meters" where
  "net_count now want rx tx m =
     (if net_iface m \<noteq> want \<or> t_net m = 0 \<or> rx < net_rx_b m \<or> tx < net_tx_b m then
        m\<lparr>net_iface := fits 32 want, net_rx_b := rx, net_tx_b := tx, t_net := now\<rparr>
      else
        let dt = now - t_net m in
        if dt < 800000000 then m
        else m\<lparr>rx_bps := net_rate (net_rx_b m) rx dt, tx_bps := net_rate (net_tx_b m) tx dt, net_rx_b := rx,
               net_tx_b := tx, t_net := now, net_ready := True\<rparr>)"

definition sample_net :: "nat \<Rightarrow> os \<Rightarrow> hud \<Rightarrow> meters \<Rightarrow> meters" where
  "sample_net now os s m =
     (let want = w_iface (wifi s) in
      if \<not> connected (wifi s) \<or> want = [] then (if net_ready m \<or> net_iface m \<noteq> [] then net_reset m else m)
      else case os_file os ''/proc/net/dev'' of
        None \<Rightarrow> m
      | Some t \<Rightarrow>
          (case first_some (net_line want) (fgets_lines 255 t) of
             None \<Rightarrow> m
           | Some (rx, tx) \<Rightarrow> net_count now want rx tx m))"

section \<open>What sysfs says of the interface\<close>

definition has_wireless :: "os \<Rightarrow> string \<Rightarrow> bool" where
  "has_wireless os ifn \<longleftrightarrow>
     os_exists os (fits 160 (''/sys/class/net/'' @ ifn @ ''/phy80211'')) \<or>
     os_exists os (fits 160 (''/sys/class/net/'' @ ifn @ ''/wireless''))"

definition sysfs_wifi :: "os \<Rightarrow> hud \<Rightarrow> hud" where
  "sysfs_wifi os s =
     (let gone = (w_iface (wifi s) \<noteq> [] \<and> \<not> has_wireless os (w_iface (wifi s)));
          s = (if gone then s\<lparr>wifi := (wifi s)\<lparr>have_dev := False, w_iface := []\<rparr>\<rparr> else s) in
      if w_iface (wifi s) \<noteq> [] then s\<lparr>wifi := (wifi s)\<lparr>have_dev := True\<rparr>\<rparr>
      else case os_dir os ''/sys/class/net'' of
        None \<Rightarrow> s
      | Some ents \<Rightarrow>
          (case List.find (\<lambda>n. \<not> starts_with n ''.'' \<and> has_wireless os n) ents of
             None \<Rightarrow> s
           | Some n \<Rightarrow> s\<lparr>wifi := (wifi s)\<lparr>have_dev := True, w_iface := fits 32 n\<rparr>\<rparr>))"

text \<open>
  \<open>addr\<close>: the IPv4 address of an interface as text, None if the ioctl fails. The result is the
  return value and the buffer.
\<close>

definition iface_ipv4 :: "(string \<Rightarrow> string option) \<Rightarrow> string \<Rightarrow> string \<Rightarrow> bool \<times> string" where
  "iface_ipv4 addr ifn buf =
     (if ifn = [] then (False, buf)
      else case addr ifn of
        None \<Rightarrow> (False, buf)
      | Some a \<Rightarrow> if a = ''127.0.0.1'' then (False, buf) else (a \<noteq> [] \<and> a \<noteq> ''0.0.0.0'', a))"

text \<open>\<open>%x\<close>: white space, an optional prefix, hexadecimal digits; an \<open>unsigned\<close>.\<close>

definition hex_digit :: "char \<Rightarrow> int option" where
  "hex_digit c =
     (let v = of_char c in
      if 48 \<le> v \<and> v \<le> (57 :: int) then Some (v - 48)
      else if 97 \<le> v \<and> v \<le> 102 then Some (v - 87)
      else if 65 \<le> v \<and> v \<le> 70 then Some (v - 55)
      else None)"

definition scan_hex :: "string \<Rightarrow> (int \<times> string) option" where
  "scan_hex s =
     (let r = dropWhile is_space s;
          q = (if starts_with r ''0x'' \<or> starts_with r ''0X'' then drop 2 r else r);
          ds = takeWhile (\<lambda>c. hex_digit c \<noteq> None) q
      in if ds = [] then None
         else Some (foldl (\<lambda>n c. 16 * n + the (hex_digit c)) 0 ds mod 2 ^ 32, dropWhile (\<lambda>c. hex_digit c \<noteq> None) q))"

definition route_line :: "string \<Rightarrow> string \<Rightarrow> int option" where
  "route_line ifc l =
     (case scan_word 31 l of
        (ifn, r) \<Rightarrow>
          (case scan_hex r of
             None \<Rightarrow> None
           | Some (dest, r) \<Rightarrow>
               (case scan_hex r of
                  None \<Rightarrow> None
                | Some (gw, _) \<Rightarrow> if ifn = [] \<or> ifn \<noteq> ifc \<or> dest \<noteq> 0 \<or> gw = 0 then None else Some gw)))"

definition dotted :: "int \<Rightarrow> string" where
  "dotted gw =
     dec (nat (gw mod 256)) @ ''.'' @ dec (nat (gw div 256 mod 256)) @ ''.'' @ dec (nat (gw div 65536 mod 256)) @ ''.'' @
     dec (nat (gw div 16777216 mod 256))"

definition sample_ip :: "(string \<Rightarrow> string option) \<Rightarrow> os \<Rightarrow> hud \<times> meters \<Rightarrow> hud \<times> meters" where
  "sample_ip addr os sm =
     (case sm of (s, m) \<Rightarrow>
        let ifc = w_iface (wifi s) in
        if ifc = [] then (s, m)
        else
          let m = (case read_text os 31 (fits 160 (''/sys/class/net/'' @ ifc @ ''/address'')) of
                     None \<Rightarrow> m | Some a \<Rightarrow> m\<lparr>hwaddr := chop_nl a\<rparr>);
              s = s\<lparr>wifi := (wifi s)\<lparr>w_ip := snd (iface_ipv4 addr ifc (w_ip (wifi s)))\<rparr>\<rparr>
          in case os_file os ''/proc/net/route'' of
               None \<Rightarrow> (s, m)
             | Some t \<Rightarrow>
                 (case first_some (route_line ifc) (tl (fgets_lines 159 t)) of
                    None \<Rightarrow> (s, m)
                  | Some gw \<Rightarrow> (s\<lparr>wifi := (wifi s)\<lparr>w_gw := fits 64 (dotted gw)\<rparr>\<rparr>, m)))"

definition sample_link :: "(string \<Rightarrow> string option) \<Rightarrow> os \<Rightarrow> hud \<Rightarrow> hud" where
  "sample_link addr os s =
     (let ifc = w_iface (wifi s) in
      if ifc = [] then s
      else case read_text os 15 (fits 160 (''/sys/class/net/'' @ ifc @ ''/operstate'')) of
        None \<Rightarrow> s
      | Some st \<Rightarrow>
          if \<not> starts_with st ''up'' then s
          else if gw_forget_hold_connected (Some (forget_ssid s)) True (Some (w_ssid (wifi s))) then s
          else
            let (ok, ip) = iface_ipv4 addr ifc []
            in if ok then s\<lparr>wifi := (wifi s)\<lparr>w_ip := fits 64 ip\<rparr>\<rparr> else s)"

text \<open>
  The signal from \<open>/proc/net/wireless\<close>: \<open>sscanf(colon + 1, "%x %d. %d.", ...)\<close> gives the link
  quality and, if the dot behind it is there, the level (0 otherwise); None for fewer than two.
\<close>

definition scan_wireless :: "string \<Rightarrow> (int \<times> int) option" where
  "scan_wireless s =
     (case scan_hex s of
        None \<Rightarrow> None
      | Some (_, r) \<Rightarrow>
          (case scan_num r of
             None \<Rightarrow> None
           | Some (link, r) \<Rightarrow>
               Some (link, if r \<noteq> [] \<and> hd r = CHR ''.'' then (case scan_num (tl r) of None \<Rightarrow> 0 | Some (level, _) \<Rightarrow> level)
                           else 0)))"

definition wireless_line :: "string \<Rightarrow> string \<Rightarrow> string option" where
  "wireless_line ifc l =
     (case at_colon l of
        None \<Rightarrow> None
      | Some (name, r) \<Rightarrow> if dropWhile (\<lambda>c. c = CHR '' '' \<or> c = CHR 0x09) name = ifc then Some r else None)"

definition sample_signal :: "os \<Rightarrow> hud \<Rightarrow> hud" where
  "sample_signal os s =
     (let s = apply_active_ap s in
      if w_iface (wifi s) = [] then s
      else case os_file os ''/proc/net/wireless'' of
        None \<Rightarrow> s
      | Some t \<Rightarrow>
          (case first_some (wireless_line (w_iface (wifi s))) (fgets_lines 255 t) of
             None \<Rightarrow> s
           | Some r \<Rightarrow>
               (case scan_wireless r of
                  None \<Rightarrow> s
                | Some (link, level) \<Rightarrow>
                    if level \<le> - 20 \<and> level \<ge> - 120 then apply_signal_dbm level s
                    else if w_dbm (wifi s) \<ge> 0 \<and> link > 0 then
                      s\<lparr>wifi := (wifi s)\<lparr>w_signal := (if link \<le> 70 then clampi (link * 100 div 70) 0 100 else clampi link 0 100)\<rparr>\<rparr>
                    else s)))"

section \<open>Time and texts\<close>

text \<open>\<open>/proc/uptime\<close> in the plain decimal form the kernel writes: the whole seconds.\<close>

definition sample_uptime :: "os \<Rightarrow> meters \<Rightarrow> meters" where
  "sample_uptime os m =
     (case os_file os ''/proc/uptime'' of
        None \<Rightarrow> m
      | Some t \<Rightarrow> (case scan_num t of None \<Rightarrow> m | Some (v, _) \<Rightarrow> if v \<ge> 0 then m\<lparr>uptime_sec := v mod 2 ^ 32\<rparr> else m))"

text \<open>\<open>%d\<close>, and \<open>%.<p>f\<close> of a rational number (a tie is rounded up here).\<close>

definition fmt_d :: "int \<Rightarrow> string" where
  "fmt_d n = (if n < 0 then CHR ''-'' # dec (nat (- n)) else dec (nat n))"

definition fmt_frac :: "nat \<Rightarrow> nat \<Rightarrow> string" where
  "fmt_frac p n = (let d = dec n in replicate (p - length d) (CHR ''0'') @ d)"

definition fmt_f :: "nat \<Rightarrow> rat \<Rightarrow> string" where
  "fmt_f p q =
     (let n = nat \<lfloor>\<bar>q\<bar> * of_nat (10 ^ p) + 1 / 2\<rfloor>; whole = dec (n div 10 ^ p)
      in (if q < 0 then ''-'' else []) @ whole @ (if p = 0 then [] else CHR ''.'' # fmt_frac p (n mod 10 ^ p)))"

definition EM_DASH :: string where "EM_DASH = [CHR 0xE2, CHR 0x80, CHR 0x94]"
definition ZH_DAYS :: string where "ZH_DAYS = [CHR 0xE5, CHR 0xA4, CHR 0xA9]"
definition ZH_HOURS :: string where "ZH_HOURS = [CHR 0xE5, CHR 0xB0, CHR 0x8F, CHR 0xE6, CHR 0x97, CHR 0xB6]"
definition ZH_MINUTES :: string where "ZH_MINUTES = [CHR 0xE5, CHR 0x88, CHR 0x86]"
definition ZH_SECONDS :: string where "ZH_SECONDS = [CHR 0xE7, CHR 0xA7, CHR 0x92]"

definition fmt_bps :: "nat \<Rightarrow> int \<Rightarrow> meters \<Rightarrow> string" where
  "fmt_bps n bps m =
     fits n
       (if \<not> net_ready m then EM_DASH
        else if bps < 1000000 then fmt_f 1 (of_int bps / 1000) @ '' KB/s''
        else fmt_f 2 (of_int bps / 1000000) @ '' MB/s'')"

definition fmt_uptime :: "bool \<Rightarrow> nat \<Rightarrow> int \<Rightarrow> string" where
  "fmt_uptime en n sec =
     (let d = sec div 86400; h = sec div 3600 mod 24; m = sec div 60 mod 60 in
      fits n
        (if en then
           if d \<noteq> 0 then fmt_d d @ ''d '' @ fmt_d h @ ''h '' @ fmt_d m @ ''m''
           else if h \<noteq> 0 then fmt_d h @ ''h '' @ fmt_d m @ ''m''
           else if m \<noteq> 0 then fmt_d m @ ''m''
           else fmt_d sec @ ''s''
         else if d \<noteq> 0 then fmt_d d @ ZH_DAYS @ '' '' @ fmt_d h @ ZH_HOURS @ '' '' @ fmt_d m @ ZH_MINUTES
         else if h \<noteq> 0 then fmt_d h @ ZH_HOURS @ '' '' @ fmt_d m @ ZH_MINUTES
         else if m \<noteq> 0 then fmt_d m @ ZH_MINUTES
         else fmt_d sec @ ZH_SECONDS))"

definition fmt_band :: "nat \<Rightarrow> string \<Rightarrow> string" where
  "fmt_band n freq =
     (let mhz = atoi freq in
      if mhz \<ge> 4900 then fits n ''5 GHz'' else if mhz \<ge> 2000 then fits n ''2.4 GHz'' else fits n freq)"

section \<open>Settings\<close>

text \<open>The text that \<open>save_hud_conf\<close> writes, and reading it back (\<open>char line[128]\<close>).\<close>

definition hud_conf_text :: "ui \<Rightarrow> string" where
  "hud_conf_text u =
     ''lang='' @ (if lang_en u then ''en'' else ''zh'') @ CHR 0x0A # ''bl='' @ fmt_d (if bl_keep u < 1 then 80 else bl_keep u) @
     [CHR 0x0A]"

definition conf_line :: "string \<Rightarrow> ui \<Rightarrow> ui" where
  "conf_line l u =
     (if starts_with l ''lang='' then u\<lparr>lang_en := contains (drop 5 l) ''en''\<rparr>
      else if starts_with l ''bl='' then
        let v = clampi (atoi (drop 3 l)) 1 100 in u\<lparr>bl_pct := v, bl_keep := v\<rparr>
      else u)"

definition load_hud_conf :: "string option \<Rightarrow> ui \<Rightarrow> ui" where
  "load_hud_conf t u = (case t of None \<Rightarrow> u | Some c \<Rightarrow> fold conf_line (fgets_lines 127 c) u)"

section \<open>Finding the backlight\<close>

definition bl_name_ok :: "string \<Rightarrow> bool" where
  "bl_name_ok name = (\<not> starts_with name ''.'' \<and> \<not> (contains name ''button'' \<or> contains name ''kbd'' \<or> contains name ''keyboard''))"

text \<open>A device: its score against the best so far.\<close>

definition bl_entry :: "os \<Rightarrow> string \<Rightarrow> int \<times> ui \<Rightarrow> int \<times> ui" where
  "bl_entry os name acc =
     (case acc of (best, u) \<Rightarrow>
        let score = (if contains name ''wled'' \<or> contains name ''panel'' then 2 else 1);
            mx = read_long os (fits 192 (''/sys/class/backlight/'' @ name @ ''/max_brightness''));
            cur = read_long os (fits 192 (''/sys/class/backlight/'' @ name @ ''/brightness''))
        in if \<not> bl_name_ok name \<or> mx < 1 \<or> score \<le> best then (best, u)
           else
             let u = u\<lparr>bl_max := signed_take_bit 31 mx, bl_path := True\<rparr>
             in (score, if cur > 0 then u\<lparr>bl_cur := signed_take_bit 31 cur\<rparr> else u))"

definition find_backlight :: "os \<Rightarrow> ui \<Rightarrow> ui" where
  "find_backlight os u =
     (case os_dir os ''/sys/class/backlight'' of
        None \<Rightarrow> u
      | Some ents \<Rightarrow>
          (case fold (bl_entry os) ents (- 1, u) of
             (best, u) \<Rightarrow>
               if best < 0 then u
               else
                 let u = emit (Bl_Power 0) (u\<lparr>bl_power_path := True\<rparr>) in
                 if bl_pct u > 0 then apply_bl_pct (bl_pct u) (u\<lparr>bl_keep := bl_pct u\<rparr>)
                 else if bl_max u > 0 \<and> bl_cur u > 0 then
                   let v = clampi ((bl_cur u * 100 + bl_max u sdiv 2) sdiv bl_max u) 1 100 in u\<lparr>bl_pct := v, bl_keep := v\<rparr>
                 else u\<lparr>bl_pct := 80, bl_keep := 80\<rparr>))"

end
