(* ===== verification/Hud_Texts.thy ===== *)
theory Hud_Texts
  imports C_Strings
begin

text \<open>
  The texts of the boot display (\<open>initramfs/gemini-status.c\<close>) that are not ASCII, as UTF-8 bytes. The
  English text stands beside each where it is used.
\<close>

definition ZH_CONNECTING :: string where
  "ZH_CONNECTING =
     [CHR 0xE6, CHR 0xAD, CHR 0xA3, CHR 0xE5, CHR 0x9C, CHR 0xA8, CHR 0xE8, CHR 0xBF, CHR 0x9E, CHR 0xE6, CHR 0x8E,
     CHR 0xA5]"

definition ZH_LIGHT :: string where "ZH_LIGHT = [CHR 0xE4, CHR 0xBA, CHR 0xAE, CHR 0xE5, CHR 0xBA, CHR 0xA6]"

definition ZH_NOT_READY :: string where
  "ZH_NOT_READY =
     [CHR 0xE6, CHR 0x9C, CHR 0xAA, CHR 0xE5, CHR 0xB0, CHR 0xB1, CHR 0xE7, CHR 0xBB, CHR 0xAA]"

definition ZH_USAGE :: string where "ZH_USAGE = [CHR 0xE5, CHR 0x8D, CHR 0xA0, CHR 0xE7, CHR 0x94, CHR 0xA8]"

definition ZH_MEMORY :: string where "ZH_MEMORY = [CHR 0xE5, CHR 0x86, CHR 0x85, CHR 0xE5, CHR 0xAD, CHR 0x98]"

definition ZH_C :: string where "ZH_C = [CHR 0xE4, CHR 0xB8, CHR 0xAD]"

definition ZH_UPLOAD :: string where "ZH_UPLOAD = [CHR 0xE4, CHR 0xB8, CHR 0x8A, CHR 0xE4, CHR 0xBC, CHR 0xA0]"

definition ZH_DOWNLOAD :: string where "ZH_DOWNLOAD = [CHR 0xE4, CHR 0xB8, CHR 0x8B, CHR 0xE8, CHR 0xBD, CHR 0xBD]"

definition ZH_CHOOSE :: string where
  "ZH_CHOOSE =
     [CHR 0xE9, CHR 0x80, CHR 0x89, CHR 0xE6, CHR 0x8B, CHR 0xA9, CHR 0xE7, CHR 0xBD, CHR 0x91, CHR 0xE7, CHR 0xBB,
     CHR 0x9C]"

definition ZH_UP :: string where
  "ZH_UP =
     [CHR 0xE5, CHR 0xB7, CHR 0xB2, CHR 0xE8, CHR 0xBF, CHR 0x90, CHR 0xE8, CHR 0xA1, CHR 0x8C]"

definition ZH_PWR :: string where "ZH_PWR = [CHR 0xE5, CHR 0x8A, CHR 0x9F, CHR 0xE8, CHR 0x80, CHR 0x97]"

definition ZH_JOINING :: string where
  "ZH_JOINING =
     [CHR 0xE8, CHR 0xBF, CHR 0x9E, CHR 0xE6, CHR 0x8E, CHR 0xA5, CHR 0xE4, CHR 0xB8, CHR 0xAD]"

definition ZH_ONLINE :: string where
  "ZH_ONLINE =
     [CHR 0xE5, CHR 0xB7, CHR 0xB2, CHR 0xE8, CHR 0xBF, CHR 0x9E, CHR 0xE6, CHR 0x8E, CHR 0xA5]"

definition ZH_GW :: string where "ZH_GW = [CHR 0xE7, CHR 0xBD, CHR 0x91, CHR 0xE5, CHR 0x85, CHR 0xB3]"

definition ZH_IF :: string where "ZH_IF = [CHR 0xE6, CHR 0x8E, CHR 0xA5, CHR 0xE5, CHR 0x8F, CHR 0xA3]"

definition ZH_LINKED :: string where "ZH_LINKED = [CHR 0xE5, CHR 0xB7, CHR 0xB2, CHR 0xE8, CHR 0xBF, CHR 0x9E]"

definition ZH_TAP :: string where
  "ZH_TAP =
     [CHR 0xE7, CHR 0x82, CHR 0xB9, CHR 0xE6, CHR 0xAD, CHR 0xA4, CHR 0xE9, CHR 0x80, CHR 0x89, CHR 0xE6, CHR 0x8B,
     CHR 0xA9, CHR 0xE7, CHR 0xBD, CHR 0x91, CHR 0xE7, CHR 0xBB, CHR 0x9C]"

definition ZH_OFFLINE :: string where
  "ZH_OFFLINE =
     [CHR 0xE6, CHR 0x9C, CHR 0xAA, CHR 0xE8, CHR 0xBF, CHR 0x9E, CHR 0xE6, CHR 0x8E, CHR 0xA5]"

definition ZH_NOT_CONNECTED :: string where
  "ZH_NOT_CONNECTED =
     [CHR 0xE5, CHR 0xB0, CHR 0x9A, CHR 0xE6, CHR 0x9C, CHR 0xAA, CHR 0xE8, CHR 0xBF, CHR 0x9E, CHR 0xE6, CHR 0x8E,
     CHR 0xA5, CHR 0xE6, CHR 0x97, CHR 0xA0, CHR 0xE7, CHR 0xBA, CHR 0xBF, CHR 0xE7, CHR 0xBD, CHR 0x91, CHR 0xE7,
     CHR 0xBB, CHR 0x9C]"

definition ZH_KEYS :: string where
  "ZH_KEYS =
     [CHR 0xE7, CHR 0x94, CHR 0xB5, CHR 0xE6, CHR 0xBA, CHR 0x90, CHR 0xE9, CHR 0x94, CHR 0xAE, CHR 0xE5, CHR 0x85,
     CHR 0xB3, CHR 0xE9, CHR 0x97, CHR 0xAD, CHR 0xE5, CHR 0xB1, CHR 0x8F, CHR 0xE5, CHR 0xB9, CHR 0x95] @ '' '' @
     [CHR 0xC2, CHR 0xB7] @ '' '' @ [CHR 0xE7, CHR 0x9F, CHR 0xAD, CHR 0xE6, CHR 0x8C, CHR 0x89, CHR 0xE9, CHR 0x9F,
     CHR 0xB3, CHR 0xE9, CHR 0x87, CHR 0x8F] @ '' + '' @ [CHR 0xE8, CHR 0xBF, CHR 0x9B, CHR 0xE5, CHR 0x85, CHR 0xA5]
     @ '' Fastboot''"

definition ZH_OPEN :: string where
  "ZH_OPEN =
     [CHR 0xE5, CHR 0xBC, CHR 0x80, CHR 0xE6, CHR 0x94, CHR 0xBE] @ '' '' @ [CHR 0xC2, CHR 0xB7] @ '' '' @ [CHR 0xE6,
     CHR 0x97, CHR 0xA0, CHR 0xE5, CHR 0xAF, CHR 0x86, CHR 0xE7, CHR 0xA0, CHR 0x81]"

definition ZH_META_CONNECTED :: string where
  "ZH_META_CONNECTED =
     '' '' @ [CHR 0xC2, CHR 0xB7] @ '' '' @ [CHR 0xE5, CHR 0xB7, CHR 0xB2, CHR 0xE8, CHR 0xBF, CHR 0x9E, CHR 0xE6,
     CHR 0x8E, CHR 0xA5]"

definition ZH_SECURED :: string where "ZH_SECURED = [CHR 0xE5, CHR 0x8A, CHR 0xA0, CHR 0xE5, CHR 0xAF, CHR 0x86]"

definition ZH_NETWORKS :: string where
  "ZH_NETWORKS =
     [CHR 0xE5, CHR 0x8F, CHR 0xAF, CHR 0xE7, CHR 0x94, CHR 0xA8, CHR 0xE7, CHR 0xBD, CHR 0x91, CHR 0xE7, CHR 0xBB,
     CHR 0x9C]"

definition ZH_BACK :: string where "ZH_BACK = [CHR 0xE8, CHR 0xBF, CHR 0x94, CHR 0xE5, CHR 0x9B, CHR 0x9E]"

definition ZH_REFRESH :: string where "ZH_REFRESH = [CHR 0xE5, CHR 0x88, CHR 0xB7, CHR 0xE6, CHR 0x96, CHR 0xB0]"

definition ZH_JOINING_ROW :: string where
  "ZH_JOINING_ROW =
     [CHR 0xE6, CHR 0xAD, CHR 0xA3, CHR 0xE5, CHR 0x9C, CHR 0xA8, CHR 0xE5, CHR 0x8A, CHR 0xA0, CHR 0xE5, CHR 0x85,
     CHR 0xA5, CHR 0xE2, CHR 0x80, CHR 0xA6]"

definition ZH_SCANNING :: string where
  "ZH_SCANNING =
     [CHR 0xE6, CHR 0xAD, CHR 0xA3, CHR 0xE5, CHR 0x9C, CHR 0xA8, CHR 0xE6, CHR 0x89, CHR 0xAB, CHR 0xE6, CHR 0x8F,
     CHR 0x8F, CHR 0xE2, CHR 0x80, CHR 0xA6]"

definition ZH_DETAILS :: string where
  "ZH_DETAILS =
     [CHR 0xE7, CHR 0xBD, CHR 0x91, CHR 0xE7, CHR 0xBB, CHR 0x9C, CHR 0xE8, CHR 0xAF, CHR 0xA6, CHR 0xE6, CHR 0x83,
     CHR 0x85]"

definition ZH_FORGETTING :: string where
  "ZH_FORGETTING =
     [CHR 0xE6, CHR 0xAD, CHR 0xA3, CHR 0xE5, CHR 0x9C, CHR 0xA8, CHR 0xE5, CHR 0xBF, CHR 0x98, CHR 0xE8, CHR 0xAE,
     CHR 0xB0, CHR 0xE2, CHR 0x80, CHR 0xA6]"

definition ZH_SECURITY :: string where
  "ZH_SECURITY =
     [CHR 0xE5, CHR 0xAE, CHR 0x89, CHR 0xE5, CHR 0x85, CHR 0xA8, CHR 0xE6, CHR 0x80, CHR 0xA7]"

definition ZH_SIGNAL :: string where "ZH_SIGNAL = [CHR 0xE4, CHR 0xBF, CHR 0xA1, CHR 0xE5, CHR 0x8F, CHR 0xB7]"

definition ZH_BAND :: string where "ZH_BAND = [CHR 0xE9, CHR 0xA2, CHR 0x91, CHR 0xE6, CHR 0xAE, CHR 0xB5]"

definition ZH_JOINED :: string where
  "ZH_JOINED =
     [CHR 0xE5, CHR 0xB7, CHR 0xB2, CHR 0xE5, CHR 0x8A, CHR 0xA0, CHR 0xE5, CHR 0x85, CHR 0xA5]"

definition ZH_JOIN_THIS :: string where
  "ZH_JOIN_THIS =
     [CHR 0xE5, CHR 0x8A, CHR 0xA0, CHR 0xE5, CHR 0x85, CHR 0xA5, CHR 0xE6, CHR 0xAD, CHR 0xA4, CHR 0xE7, CHR 0xBD,
     CHR 0x91, CHR 0xE7, CHR 0xBB, CHR 0x9C]"

definition ZH_WAIT :: string where
  "ZH_WAIT =
     [CHR 0xE5, CHR 0xBF, CHR 0x98, CHR 0xE8, CHR 0xAE, CHR 0xB0, CHR 0xE4, CHR 0xB8, CHR 0xAD]"

definition ZH_FORGET_THIS :: string where
  "ZH_FORGET_THIS =
     [CHR 0xE5, CHR 0xBF, CHR 0x98, CHR 0xE8, CHR 0xAE, CHR 0xB0, CHR 0xE6, CHR 0xAD, CHR 0xA4, CHR 0xE7, CHR 0xBD,
     CHR 0x91, CHR 0xE7, CHR 0xBB, CHR 0x9C]"

definition ZH_PASSWORD :: string where
  "ZH_PASSWORD =
     [CHR 0xE8, CHR 0xBE, CHR 0x93, CHR 0xE5, CHR 0x85, CHR 0xA5, CHR 0xE5, CHR 0xAF, CHR 0x86, CHR 0xE7, CHR 0xA0,
     CHR 0x81]"

definition ZH_ENTER :: string where
  "ZH_ENTER =
     [CHR 0xE8, CHR 0xAF, CHR 0xB7, CHR 0xE8, CHR 0xBE, CHR 0x93, CHR 0xE5, CHR 0x85, CHR 0xA5] @ '' Wi-Fi '' @ [CHR
     0xE5, CHR 0xAF, CHR 0x86, CHR 0xE7, CHR 0xA0, CHR 0x81]"

definition ZH_CANCEL :: string where "ZH_CANCEL = [CHR 0xE5, CHR 0x8F, CHR 0x96, CHR 0xE6, CHR 0xB6, CHR 0x88]"

definition DOT :: string where "DOT = '' '' @ [CHR 0xC2, CHR 0xB7] @ '' ''"

definition DOT2 :: string where "DOT2 = ''  '' @ [CHR 0xC2, CHR 0xB7] @ ''  ''"

definition DEG_C :: string where "DEG_C = [CHR 0xE2, CHR 0x84, CHR 0x83]"

definition SCANNING_EN :: string where "SCANNING_EN = ''Scanning'' @ [CHR 0xE2, CHR 0x80, CHR 0xA6]"

definition JOINING_EN :: string where "JOINING_EN = ''Joining'' @ [CHR 0xE2, CHR 0x80, CHR 0xA6]"

definition FORGETTING_EN :: string where "FORGETTING_EN = ''Forgetting'' @ [CHR 0xE2, CHR 0x80, CHR 0xA6]"

end
