(* ===== verification/Hud_Sheets.thy ===== *)
theory Hud_Sheets
  imports Hud_Meters Hud_Texts
begin

text \<open>
  What the boot display draws (\<open>initramfs/gemini-status.c\<close>): the home screen, the three sheets and
  the keyboard, as the drawing calls the code makes, in their order. \<open>run_cmds\<close> executes them on a
  canvas of Hud_Canvas. The floats of the code are rational numbers here.
\<close>

section \<open>Drawing calls\<close>

datatype font = Body | Title

text \<open>The calls that draw a screen, in their order; \<open>D_View\<close> and \<open>D_Shade\<close> exist only with GL.\<close>

datatype dcmd =
    D_Round int int int int int u32
  | D_Rect int int int int u32
  | D_Tri int int int bool u32
  | D_Text font int int string u32
  | D_Fit font int int int string u32
  | D_Vcenter font int int int string u32
  | D_Centered font int int int int string u32
  | D_Btn int int int int int u32 font string u32
  | D_Signal int int int
  | D_View rat rat
  | D_Shade u32 int

definition bytes :: "string \<Rightarrow> u8 list" where
  "bytes s = map of_char s"

type_synonym fonts = "font \<Rightarrow> gs_font"

fun run_cmd :: "fonts \<Rightarrow> dcmd \<Rightarrow> canvas \<Rightarrow> canvas option" where
  "run_cmd fs (D_Round x y w h r c) cv = fill_round x y w h r c cv"
| "run_cmd fs (D_Rect x y w h c) cv = fill_rect x y w h c cv"
| "run_cmd fs (D_Tri cx y h up c) cv = fill_tri_v cx y h up c cv"
| "run_cmd fs (D_Text f x y s c) cv = draw_text (fs f) x y (bytes s) c cv"
| "run_cmd fs (D_Fit f x y maxw s c) cv = draw_text_fit (fs f) x y maxw (bytes s) c cv"
| "run_cmd fs (D_Vcenter f x y h s c) cv = draw_text_vcenter (fs f) x y h (bytes s) c cv"
| "run_cmd fs (D_Centered f x y w h s c) cv = draw_text_centered (fs f) x y w h (bytes s) c cv"
| "run_cmd fs (D_Btn x y w h r bg f s fg) cv = draw_btn x y w h r bg (fs f) (bytes s) fg cv"
| "run_cmd fs (D_Signal x y sig) cv = draw_signal x y sig cv"
| "run_cmd fs (D_View s yoff) cv = Some (if use_gl cv then gl (Gl_View s yoff) cv else cv)"
| "run_cmd fs (D_Shade c a) cv = Some (if use_gl cv then gl (Gl_Rect_A 0 0 (scr_w cv) (scr_h cv) c a) cv else cv)"

fun run_cmds :: "fonts \<Rightarrow> dcmd list \<Rightarrow> canvas \<Rightarrow> canvas option" where
  "run_cmds fs [] cv = Some cv"
| "run_cmds fs (c # cs) cv = Option.bind (run_cmd fs c cv) (run_cmds fs cs)"

section \<open>What is shown\<close>

text \<open>
  What the drawing code reads beside the touch state: the meters, the sheet that was open before
  the animation, the animation values, the time, the value of \<open>sinf(pulse * 2.2f)\<close>, and the text
  of the status line (it was written in the language of that time).
\<close>

record view =
  v_m :: meters
  v_sheet :: sheet
  v_osk_u :: rat
  v_pulse :: rat
  v_sin :: rat
  v_now :: nat
  v_status :: "status \<Rightarrow> string"

text \<open>The values of the float constants \<open>3.2f\<close>, \<open>2.4f\<close>, \<open>0.09f\<close>, \<open>0.04f\<close>, \<open>0.10f\<close>, \<open>0.001f\<close>, \<open>0.002f\<close>.\<close>

definition f3_2 :: rat where "f3_2 = 13421773 / 4194304"
definition f2_4 :: rat where "f2_4 = 5033165 / 2097152"
definition f0_09 :: rat where "f0_09 = 3019899 / 33554432"
definition f0_04 :: rat where "f0_04 = 5368709 / 134217728"
definition f0_10 :: rat where "f0_10 = 13421773 / 134217728"
definition f0_001 :: rat where "f0_001 = 8589935 / 8589934592"
definition f0_002 :: rat where "f0_002 = 8589935 / 4294967296"

definition TU :: "ui \<Rightarrow> string \<Rightarrow> string \<Rightarrow> string" where
  "TU u zh en = T (lang_en u) zh en"

section \<open>Keyboard\<close>

definition draw_osk_shift :: "int \<Rightarrow> int \<Rightarrow> int \<Rightarrow> int \<Rightarrow> u32 \<Rightarrow> dcmd list" where
  "draw_osk_shift x y w h c =
     (let cx = x + w sdiv 2; cy = y + h sdiv 2
      in [D_Tri cx (cy - 18) 18 True c, D_Round (cx - 4) (cy - 4) 8 16 3 c])"

text \<open>The colours of a key at rest and pressed.\<close>

definition key_colours :: "osk_key \<Rightarrow> bool \<Rightarrow> u32 \<times> u32" where
  "key_colours k shift_lit =
     (if k_kind k = OSK_GO then (px 91 140 255, px 168 196 255)
      else if shift_lit then (px 232 236 244, px 255 255 255)
      else if k_kind k \<noteq> OSK_CHAR \<and> k_kind k \<noteq> OSK_SPACE then (px 46 50 60, px 196 200 210)
      else (px 78 82 94, px 236 238 244))"

definition draw_osk_key :: "view \<Rightarrow> ui \<Rightarrow> nat \<Rightarrow> dcmd list" where
  "draw_osk_key v u i =
     (let k = osk_keys u ! i;
          t = (if int i = osk_anim u then v_osk_u v else 0);
          special = (k_kind k \<noteq> OSK_CHAR \<and> k_kind k \<noteq> OSK_SPACE);
          shift_lit = (k_kind k = OSK_SHIFT \<and> shift_on (hs u));
          a = trunc (t * 255 + 1 / 2);
          (idle, lit) = key_colours k shift_lit;
          bg = mix idle lit a;
          sc = 1 - f0_09 * t;
          w = trunc (of_int (k_w k) * sc + 1 / 2);
          h = trunc (of_int (k_h k) * sc + 1 / 2);
          x = k_x k + (k_w k - w) sdiv 2;
          y = k_y k + (k_h k - h) sdiv 2 + trunc (7 / 2 * t);
          r = h sdiv 5; r = (if r < 10 then 10 else r); r = (if r > 16 then 16 else r);
          fg = (if shift_lit then mix (px 28 32 40) (px 20 22 28) a
                else if k_kind k = OSK_CHAR then mix (px 245 248 252) (px 22 24 30) a
                else mix (px 230 235 245) (px 28 32 40) (a sdiv 2))
      in (if t > f0_04 then [D_Round (x - 2) (y + 5) (w + 4) (h + 3) (r + 2) (mix (px 0 0 0) (px 20 22 28) (trunc (t * 90)))]
          else []) @
         [D_Round x y w h r bg] @
         (if k_kind k = OSK_SHIFT then draw_osk_shift x y w h fg
          else if k_lab k \<noteq> [] then [D_Centered (if special then Body else Title) x y w h (k_lab k) fg]
          else []))"

text \<open>Drawing the keyboard computes the layout anew, so it also changes the state.\<close>

definition draw_osk :: "view \<Rightarrow> ui \<Rightarrow> dcmd list \<times> ui" where
  "draw_osk v u =
     (let y = osk_top (ui_h u); u = relayout u
      in (D_Rect 0 (y - 16) (ui_w u) (ui_h u - (y - 16)) (px 16 18 24) # D_Rect 0 (y - 16) (ui_w u) 1 (px 40 44 54) #
            concat (map (draw_osk_key v u) [0..<nosk u]), u))"

section \<open>Parts of the home screen\<close>

definition net_card_h :: int where "net_card_h = 156"

definition net_card_y :: "hud \<Rightarrow> int" where
  "net_card_y s = wifi_card_y + wifi_card_h s + 20"

definition net_speed_shown :: "hud \<Rightarrow> bool" where
  "net_speed_shown s = connected (wifi s)"

definition bl_bar_h :: int where "bl_bar_h = 36"
definition bl_bar_y :: int where "bl_bar_y = bl_y + (bl_h - bl_bar_h) sdiv 2"
definition meters_h :: int where "meters_h = 680"
definition meters_y :: "int \<Rightarrow> int" where "meters_y H = H - 72 - meters_h"

definition draw_loader :: "view \<Rightarrow> int \<Rightarrow> int \<Rightarrow> dcmd list" where
  "draw_loader v cx y =
     (let phase = trunc (v_pulse v * f3_2) smod 3 in
      map (\<lambda>i. let on = (i = phase); s = (if on then 22 else 16)
               in D_Round (cx - 54 + i * 40 + (22 - s) sdiv 2) (y + (22 - s) sdiv 2) s s (s sdiv 2)
                    (if on then px 91 140 255 else px 50 58 70))
        [0, 1, 2])"

definition connecting_label :: "view \<Rightarrow> ui \<Rightarrow> string" where
  "connecting_label v u =
     (let ssid = display_ssid (hs u); dots = replicate (nat (trunc (v_pulse v * f2_4) smod 4)) (CHR ''.'');
          conn = TU u ZH_CONNECTING ''Connecting''
      in fits 160 (if ssid \<noteq> [] then conn @ ''  '' @ ssid @ dots else conn @ dots))"

definition draw_bar :: "int \<Rightarrow> int \<Rightarrow> int \<Rightarrow> int \<Rightarrow> rat \<Rightarrow> u32 \<Rightarrow> dcmd list" where
  "draw_bar x y w h t col =
     (let fw = trunc (of_int w * clampf t 0 1 + 1 / 2); fw = (if fw < 0 then 0 else fw); fw = (if fw > w then w else fw)
      in D_Round x y w h (h sdiv 2) (px 36 42 54) # (if fw \<ge> h then [D_Round x y fw h (h sdiv 2) col] else []))"

definition draw_meter_head :: "fonts \<Rightarrow> int \<Rightarrow> string \<Rightarrow> string \<Rightarrow> u32 \<Rightarrow> dcmd list" where
  "draw_meter_head fs y lab sub sub_col =
     D_Text Title 56 y lab (px 245 248 252) #
     (if sub = [] then []
      else
        let x = 56 + text_w (fs Title) (bytes lab) + 28; x = (if x < 188 then 188 else x)
        in [D_Text Body x (y + 8) sub sub_col])"

definition gpu_line :: "ui \<Rightarrow> meters \<Rightarrow> string" where
  "gpu_line u m =
     fits 72
       (if gpu_ok m \<and> gpu_mhz m \<noteq> 0 \<and> gpu_temp_c m > 0 then
          ''Adreno 530'' @ DOT2 @ fmt_d (gpu_mhz m) @ '' MHz'' @ DOT2 @ fmt_d (gpu_temp_c m) @ DEG_C
        else if gpu_ok m \<and> gpu_mhz m \<noteq> 0 then ''Adreno 530'' @ DOT2 @ fmt_d (gpu_mhz m) @ '' MHz''
        else if gpu_ok m \<and> gpu_temp_c m > 0 then ''Adreno 530'' @ DOT2 @ fmt_d (gpu_temp_c m) @ DEG_C
        else if gpu_ok m then ''Adreno 530''
        else TU u ZH_NOT_READY ''Not ready'')"

definition percent :: "rat \<Rightarrow> string" where
  "percent q = fits 80 (fmt_f 0 q @ ''%'')"

definition watts :: "meters \<Rightarrow> string" where
  "watts m = fmt_f 1 (of_int (batt_mw m) / 1000) @ '' W''"

definition cpu_head :: "meters \<Rightarrow> string" where
  "cpu_head m =
     fits 80
       (''Kryo'' @ DOT2 @ fmt_f 0 (cpu_t m) @ ''%'' @
        (if cpu_temp_c m > 0 then DOT2 @ fmt_d (cpu_temp_c m) @ DEG_C else []) @
        (if batt_ok m then DOT2 @ watts m else []))"

definition draw_core :: "ui \<Rightarrow> meters \<Rightarrow> int \<Rightarrow> nat \<Rightarrow> dcmd list" where
  "draw_core u m y i =
     (let pct_x = ui_w u - 168; bar_x = 188; bar_w = pct_x - bar_x - 28; yy = y + 212 + int i * 68
      in [D_Text Body 56 (yy + 4) (''CPU'' @ dec i) (px 180 190 205)] @
         draw_bar bar_x (yy + 10) bar_w 28 (cpu_core_s m ! i / 100) (px 91 140 255) @
         [D_Text Body pct_x (yy + 8) (percent (cpu_core_t m ! i)) (px 200 208 220)])"

definition draw_meters :: "fonts \<Rightarrow> view \<Rightarrow> ui \<Rightarrow> dcmd list" where
  "draw_meters fs v u =
     (let m = v_m v; y = meters_y (ui_h u); W = ui_w u; cores = (if ncpu m > 0 then ncpu m else 4);
          pct_x = W - 168; gbar_w = pct_x - 56 - 28; ry = y + 212 + int cores * 68 + 24;
          gb = (\<lambda>kb. fmt_f 2 (of_int kb / 1048576));
          ram = fits 80 (if ram_total_kb m \<noteq> 0 then gb (ram_used_kb m) @ '' / '' @ gb (ram_total_kb m) @ '' GB''
                         else TU u ZH_USAGE ''Usage'')
      in [D_Round 32 y (W - 64) meters_h 32 (px 22 27 34)] @
         draw_meter_head fs (y + 28) ''GPU'' (gpu_line u m) (px 167 123 247) @
         draw_bar 56 (y + 92) gbar_w 32 (gpu_s m / 100) (px 167 123 247) @
         [D_Text Body pct_x (y + 90) (percent (gpu_t m)) (px 180 190 205)] @
         draw_meter_head fs (y + 148) ''CPU'' (cpu_head m) (px 140 150 165) @
         concat (map (draw_core u m y) [0..<min cores MAX_CPU]) @
         draw_meter_head fs ry (TU u ZH_MEMORY ''Memory'') ram (px 140 150 165) @
         draw_bar 56 (ry + 64) gbar_w 36 (ram_s m / 100) (px 61 220 151) @
         [D_Text Body pct_x (ry + 62) (percent (ram_t m)) (px 200 208 220)])"

definition draw_lang_btn :: "ui \<Rightarrow> dcmd list" where
  "draw_lang_btn u =
     (let x = lang_x (ui_w u); y = lang_y; w = lang_w; h = lang_h; hw = w sdiv 2; en = lang_en u;
          on = px 245 248 252; off = px 160 170 185
      in [D_Round x y w h 22 (px 28 34 44),
          D_Round (if \<not> en then x + 6 else x + hw + 2) (y + 6) (hw - 8) (h - 12) 16 (px 91 140 255),
          D_Centered Title (x + 6) (y + 6) (hw - 8) (h - 12) ZH_C (if \<not> en then on else off),
          D_Centered Title (x + hw + 2) (y + 6) (hw - 8) (h - 12) ''EN'' (if en then on else off)])"

definition draw_bl_slider :: "ui \<Rightarrow> dcmd list" where
  "draw_bl_slider u =
     (let y = bl_y; bx = bl_bar_x; by' = bl_bar_y; bw = bl_bar_w (ui_w u); bh = bl_bar_h; W = ui_w u;
          pct = clampi (bl_pct u) 1 100; fw = trunc (of_int (bw * pct) / 100);
          kx = bx + clampi fw (bh sdiv 2) (bw - bh sdiv 2) - 22; ky = by' + bh sdiv 2 - 22
      in [D_Round 40 y (W - 80) bl_h 28 (px 22 27 34),
          D_Vcenter Body 56 y bl_h (TU u ZH_LIGHT ''Light'') (px 180 190 205),
          D_Round bx by' bw bh (bh sdiv 2) (px 36 42 54)] @
         (if fw \<ge> bh then [D_Round bx by' fw bh (bh sdiv 2) (px 245 197 66)] else []) @
         [D_Round kx ky 44 44 22 (px 255 255 255), D_Round (kx + 10) (ky + 10) 24 24 12 (px 245 197 66),
          D_Vcenter Body (W - 160) y bl_h (fits 16 (fmt_d pct @ ''%'')) (px 200 208 220)])"

definition draw_xfer_badge :: "int \<Rightarrow> int \<Rightarrow> bool \<Rightarrow> dcmd list" where
  "draw_xfer_badge x y up =
     (let s = 64; cx = x + s sdiv 2; cy = y + s sdiv 2; bg = (if up then px 52 34 28 else px 22 44 40);
          fg = (if up then px 255 149 90 else px 61 220 151)
      in D_Round x y s s (s sdiv 2) bg #
         (if up then [D_Tri cx (cy - 20) 22 True fg, D_Round (cx - 5) (cy - 4) 10 18 4 fg]
          else [D_Round (cx - 5) (cy - 14) 10 18 4 fg, D_Tri cx (cy - 2) 22 False fg]))"

definition draw_net_cell :: "view \<Rightarrow> ui \<Rightarrow> int \<Rightarrow> int \<Rightarrow> int \<Rightarrow> int \<Rightarrow> bool \<Rightarrow> int \<Rightarrow> dcmd list" where
  "draw_net_cell v u x y w h up bps =
     [D_Round x y w h 28 (px 22 27 34), D_Round (x + 8) (y + 8) (w - 16) (h - 16) 22 (px 28 34 44)] @
     draw_xfer_badge (x + 24) (y + (h - 64) sdiv 2) up @
     [D_Text Body (x + 104) (y + 28) (if up then TU u ZH_UPLOAD ''Upload'' else TU u ZH_DOWNLOAD ''Download'') (px 140 150 165),
      D_Text Title (x + 104) (y + 72) (fmt_bps 32 bps (v_m v)) (if up then px 255 149 90 else px 61 220 151)]"

definition draw_net_speed :: "view \<Rightarrow> ui \<Rightarrow> dcmd list" where
  "draw_net_speed v u =
     (if \<not> net_speed_shown (hs u) then []
      else
        let y = net_card_y (hs u); h = net_card_h; gap = 16; cw = (ui_w u - 80 - gap) sdiv 2
        in draw_net_cell v u 40 y cw h True (tx_bps (v_m v)) @ draw_net_cell v u (40 + cw + gap) y cw h False (rx_bps (v_m v)))"

section \<open>The home screen\<close>

definition or_dash :: "string \<Rightarrow> string" where
  "or_dash s = (if s \<noteq> [] then s else EM_DASH)"

text \<open>The card while a network is joined, while connected, and otherwise.\<close>

definition card_joining :: "view \<Rightarrow> ui \<Rightarrow> int \<Rightarrow> dcmd list" where
  "card_joining v u y =
     (let W = ui_w u in
      [D_Text Body (W - 280) (y + 36) (TU u ZH_JOINING ''Connecting'') (px 91 140 255),
       D_Text Title 80 (y + 100) (TU u ZH_CONNECTING ''Connecting'') (px 245 248 252),
       D_Fit Title 80 (y + 168) (W - 180) (display_ssid (hs u)) (px 91 140 255)] @
      draw_loader v (W sdiv 2) (y + 250) @
      [D_Fit Body 80 (y + 310) (W - 180) (connecting_label v u) (px 140 150 165)])"

definition signal_line :: "wifi \<Rightarrow> string" where
  "signal_line w =
     (let band = fmt_band 24 (w_freq w)
      in fits 160 (fmt_d (w_signal w) @ ''%'' @ (if w_dbm w < 0 then DOT2 @ fmt_d (w_dbm w) @ '' dBm'' else []) @
           (if band \<noteq> [] then DOT2 @ band else [])))"

definition live_secs :: "view \<Rightarrow> hud \<Rightarrow> int" where
  "live_secs v s = (if t_assoc s \<noteq> 0 then (int (v_now v) - int (t_assoc s)) div 1000000000 mod 2 ^ 32 else 0)"

definition iface_line :: "view \<Rightarrow> ui \<Rightarrow> string" where
  "iface_line v u =
     (let w = wifi (hs u); live = live_secs v (hs u)
      in fits 160 (TU u ZH_IF ''IF'' @ ''  '' @
           (if w_iface w \<noteq> [] \<and> live \<noteq> 0 then
              w_iface w @ DOT2 @ TU u ZH_LINKED ''up'' @ '' '' @ fmt_uptime (lang_en u) 48 live
            else if w_iface w \<noteq> [] then w_iface w
            else EM_DASH)))"

definition card_connected :: "view \<Rightarrow> ui \<Rightarrow> int \<Rightarrow> u32 \<Rightarrow> dcmd list" where
  "card_connected v u y accent =
     (let W = ui_w u; w = wifi (hs u); grey = px 180 190 205 in
      [D_Text Body (W - 260) (y + 36) (TU u ZH_ONLINE ''Connected'') accent,
       D_Fit Title 80 (y + 88) (W - 180) (display_ssid (hs u)) (px 245 248 252),
       D_Signal 80 (y + 152) (w_signal w),
       D_Text Body 148 (y + 158) (signal_line w) grey,
       D_Text Body 80 (y + 214) (fits 160 (''IP    '' @ or_dash (w_ip w))) grey,
       D_Text Body 80 (y + 262) (fits 160 (TU u ZH_GW ''GW'' @ ''  '' @ or_dash (w_gw w))) grey,
       D_Text Body 80 (y + 310) (fits 160 (''MAC   '' @ or_dash (hwaddr (v_m v)))) grey,
       D_Text Body 80 (y + 358) (iface_line v u) grey,
       D_Text Body 80 (y + 406) (TU u ZH_TAP ''Tap to choose a network'') (px 100 110 125)])"

definition glow :: "view \<Rightarrow> rat" where
  "glow v = 1 / 2 + 1 / 2 * v_sin v"

definition card_offline :: "view \<Rightarrow> ui \<Rightarrow> int \<Rightarrow> u32 \<Rightarrow> dcmd list" where
  "card_offline v u y accent =
     (let W = ui_w u in
      [D_Text Body (W - 260) (y + 36) (if have_dev (wifi (hs u)) then TU u ZH_OFFLINE ''Offline'' else TU u ZH_NOT_READY ''Not ready'')
         (px 245 197 66),
       D_Text Title 80 (y + 96) (TU u ZH_NOT_CONNECTED ''Not connected to Wi-Fi'') (px 245 248 252),
       D_Btn 80 (y + 168) (W - 200) 68 20 (mix (px 22 27 34) accent (40 + trunc (glow v * 40))) Title
         (TU u ZH_CHOOSE ''Choose network'') (px 20 24 30)])"

definition home_line :: "view \<Rightarrow> ui \<Rightarrow> string" where
  "home_line v u =
     (let m = v_m v
      in fits 160 (TU u ZH_UP ''up'' @ ''  '' @ fmt_uptime (lang_en u) 48 (uptime_sec m) @
           (if batt_ok m then DOT2 @ TU u ZH_PWR ''PWR'' @ ''  '' @ watts m @
              (if batt_pct m \<ge> 0 then DOT2 @ fmt_d (batt_pct m) @ ''%'' else [])
            else [])))"

definition accent_of :: "hud \<Rightarrow> u32" where
  "accent_of s = (if wifi_is_joining s then px 91 140 255 else if connected (wifi s) then px 61 220 151 else px 245 197 66)"

definition draw_home :: "fonts \<Rightarrow> view \<Rightarrow> ui \<Rightarrow> dcmd list" where
  "draw_home fs v u =
     (let y = wifi_card_y; W = ui_w u; H = ui_h u; s = hs u; accent = accent_of s in
      [D_Round 0 0 W H (trunc (40 * sheet_t u + 1 / 2)) (px 11 14 20),
       D_Rect 0 0 W 8 (mix (px 11 14 20) accent (trunc (80 + glow v * 80))),
       D_Text Title 48 36 ''XiaoMi 5'' (px 245 248 252)] @
      draw_lang_btn u @
      [D_Text Body 48 96 (''Ubuntu 26.04'' @ DOT2 @ ''gemini'') (px 140 150 165),
       D_Text Body 48 140 (home_line v u) (px 140 150 165)] @
      draw_bl_slider u @
      [D_Round 40 y (W - 80) (wifi_card_h s) 32 (px 22 27 34), D_Round 40 y 10 (wifi_card_h s) 4 accent,
       D_Text Title 80 (y + 28) ''Wi-Fi'' (px 245 248 252)] @
      (if wifi_is_joining s then card_joining v u y
       else if connected (wifi s) then card_connected v u y accent
       else card_offline v u y accent) @
      draw_net_speed v u @
      draw_meters fs v u @
      [D_Text Body 48 (H - 52) (TU u ZH_KEYS (''Power sleeps panel'' @ DOT @ ''Vol+ Fastboot'')) (px 110 120 135)])"

section \<open>Sheets\<close>

definition ap_meta :: "ui \<Rightarrow> ap \<Rightarrow> string" where
  "ap_meta u a =
     (let mhz = atoi (ap_freq a);
          band = (if mhz \<ge> 4900 then fits 20 (DOT @ ''5 GHz'') else if mhz \<ge> 2000 then fits 20 (DOT @ ''2.4 GHz'') else []);
          on = (if ap_active a then TU u ZH_META_CONNECTED (DOT @ ''connected'') else [])
      in fits 96
           (if \<not> ap_secure a \<or> ap_security a = [] \<or> ap_security a = ''--'' then TU u ZH_OPEN ''Open'' @ band @ on
            else ap_security a @ DOT @ TU u ZH_SECURED ''secured'' @ band @ on))"

text \<open>The card of a sheet with its shadow and handle.\<close>

definition sheet_card :: "ui \<Rightarrow> int \<Rightarrow> dcmd list" where
  "sheet_card u y0 =
     (let cx = sheet_card_x; cw = sheet_card_w (ui_w u); ch = sheet_card_h (ui_h u)
      in [D_Round (cx + 8) (y0 + 16) cw ch 44 (px 8 10 14), D_Round cx y0 cw ch 44 (px 22 26 34),
          D_Round (cx + cw sdiv 2 - 40) (y0 + 16) 80 8 4 (px 90 98 112)])"

text \<open>A row of the list (\<open>hover\<close> is the highlighted one).\<close>

definition row_joining :: "ui \<Rightarrow> nat \<Rightarrow> bool" where
  "row_joining u i \<longleftrightarrow> connecting (hs u) \<and> connect_ssid (hs u) \<noteq> [] \<and> ap_ssid (aps (hs u) ! i) = connect_ssid (hs u)"

definition draw_row :: "fonts \<Rightarrow> view \<Rightarrow> ui \<Rightarrow> int \<Rightarrow> nat \<Rightarrow> int \<Rightarrow> dcmd list" where
  "draw_row fs v u hover i yy =
     (let cx = sheet_card_x; cw = sheet_card_w (ui_w u); row_h = list_row_h; a = aps (hs u) ! i; sx = cx + cw - 148;
          joining = row_joining u i; on = (int i = hover \<or> joining);
          meta = (if joining then fits 96 (TU u ZH_JOINING_ROW JOINING_EN) else ap_meta u a);
          sig = fits 16 (fmt_d (ap_signal a) @ ''%'')
      in [D_Round (cx + 20) yy (cw - 40) (row_h - 18) 24 (if on then px 52 78 118 else px 30 36 46)] @
         (if on then [D_Round (cx + 20) yy 10 (row_h - 18) 6 (px 91 140 255)] else []) @
         [D_Fit Title (cx + 48) (yy + 20) (cw - 280) (ap_ssid a) (px 245 248 252),
          D_Fit Body (cx + 48) (yy + 88) (cw - 280) meta
            (if joining then px 91 140 255 else if ap_active a then px 61 220 151 else px 150 162 178)] @
         (if joining then draw_loader v (sx + 8) (yy + 36)
          else [D_Signal sx (yy + 18) (ap_signal a),
                D_Text Body (sx + (52 - text_w (fs Body) (bytes sig)) sdiv 2) (yy + 100) sig (px 180 190 205)]) @
         [D_Text Title (cx + cw - 64) (yy + 42) ''>'' (px 120 130 148)])"

definition row_y :: "ui \<Rightarrow> int \<Rightarrow> nat \<Rightarrow> int" where
  "row_y u y0 i = list_top_from y0 + int i * list_row_h + list_scroll u"

definition row_shown :: "ui \<Rightarrow> int \<Rightarrow> nat \<Rightarrow> bool" where
  "row_shown u y0 i \<longleftrightarrow>
     \<not> (row_y u y0 i < list_top_from y0 - list_row_h \<or> row_y u y0 i > y0 + sheet_card_h (ui_h u) - 40)"

definition draw_rows :: "fonts \<Rightarrow> view \<Rightarrow> ui \<Rightarrow> int \<Rightarrow> dcmd list" where
  "draw_rows fs v u y0 =
     (let hover = (if hover_ap (hs u) < 0 \<and> length (aps (hs u)) > 0 then 0 else hover_ap (hs u))
      in concat (map (\<lambda>i. draw_row fs v u hover i (row_y u y0 i)) (filter (row_shown u y0) [0..<length (aps (hs u))])))"

definition draw_list_sheet :: "fonts \<Rightarrow> view \<Rightarrow> ui \<Rightarrow> int \<Rightarrow> dcmd list" where
  "draw_list_sheet fs v u y0 =
     (let cx = sheet_card_x; cw = sheet_card_w (ui_w u); s = hs u in
      sheet_card u y0 @
      [D_Text Title (cx + 36) (y0 + 44) (TU u ZH_NETWORKS ''Networks'') (px 245 248 252),
       D_Btn (cx + 24) (y0 + 108) 220 80 22 (px 40 48 60) Title (TU u ZH_BACK ''Back'') (px 230 235 245),
       D_Btn (cx + cw - 244) (y0 + 108) 220 80 22 (px 91 140 255) Title (TU u ZH_REFRESH ''Refresh'') (px 245 248 252)] @
      (if connecting s then
         D_Fit Body (cx + 36) (y0 + 208) (cw - 200) (connecting_label v u) (px 245 197 66) #
         draw_loader v (cx + cw - 90) (y0 + 212)
       else if v_status v (status_line s) \<noteq> [] then
         [D_Fit Body (cx + 36) (y0 + 208) (cw - 72) (v_status v (status_line s)) (px 140 150 165)]
       else []) @
      draw_rows fs v u y0 @
      (if aps s = [] then
         [D_Text Title (cx + 48) (list_top_from y0 + 40) (TU u ZH_SCANNING SCANNING_EN) (px 180 190 205)]
       else []))"

definition draw_kv_row :: "int \<Rightarrow> int \<Rightarrow> int \<Rightarrow> string \<Rightarrow> string \<Rightarrow> dcmd list" where
  "draw_kv_row x y w k val =
     [D_Text Body x y k (px 150 162 178), D_Fit Title (x + 220) (y - 8) (w - 240) (or_dash val) (px 245 248 252)]"

text \<open>
  The details. \<open>sync_selected_ap\<close> runs after the name and the security were looked up; the security
  may be a pointer to \<open>selected_sec\<close>, which it can change.
\<close>

definition picked_sec_then :: "hud \<Rightarrow> hud \<Rightarrow> string" where
  "picked_sec_then s s' =
     (let i = find_ap (picked_ssid s) s in
      if i \<ge> 0 then ap_security (aps s ! nat i) else if selected_sec s \<noteq> [] then selected_sec s' else [])"

definition detail_ssid :: "hud \<Rightarrow> string" where
  "detail_ssid s = (if selected_ssid s \<noteq> [] then selected_ssid s else picked_ssid s)"

definition detail_joining :: "hud \<Rightarrow> bool" where
  "detail_joining s \<longleftrightarrow> connecting s \<and> connect_ssid s \<noteq> [] \<and> detail_ssid s \<noteq> [] \<and> connect_ssid s = detail_ssid s"

definition detail_signal :: "bool \<Rightarrow> hud \<Rightarrow> string" where
  "detail_signal cur s =
     fits 48
       (if w_dbm (wifi s) < 0 \<and> cur then
          fmt_d (if selected_signal s \<noteq> 0 then selected_signal s else w_signal (wifi s)) @ ''%'' @ DOT2 @ fmt_d (w_dbm (wifi s)) @ '' dBm''
        else if selected_signal s \<noteq> 0 then fmt_d (selected_signal s) @ ''%''
        else [])"

text \<open>The line of state under the name.\<close>

definition detail_state :: "view \<Rightarrow> ui \<Rightarrow> bool \<Rightarrow> bool \<Rightarrow> int \<Rightarrow> dcmd list" where
  "detail_state v u cur joining y0 =
     (let cx = sheet_card_x; cw = sheet_card_w (ui_w u); s = hs u in
      if joining \<or> forgetting s then
        D_Fit Body (cx + 36) (y0 + 272) (cw - 160)
          (if forgetting s then fits 160 (TU u ZH_FORGETTING FORGETTING_EN) else connecting_label v u) (px 245 197 66) #
        draw_loader v (cx + cw - 90) (y0 + 276)
      else if cur then [D_Text Body (cx + 36) (y0 + 276) (TU u ZH_ONLINE ''Connected'') (px 61 220 151)]
      else if connect_fail s \<and> v_status v (status_line s) \<noteq> [] then
        [D_Fit Body (cx + 36) (y0 + 276) (cw - 72) (v_status v (status_line s)) (px 255 120 110)]
      else [D_Text Body (cx + 36) (y0 + 276) (TU u ZH_OFFLINE ''Not connected'') (px 150 162 178)])"

definition draw_detail_sheet :: "view \<Rightarrow> ui \<Rightarrow> int \<Rightarrow> dcmd list \<times> ui" where
  "draw_detail_sheet v u y0 =
     (let s0 = hs u; ssid = detail_ssid s0; cur = ap_is_current ssid s0; joining = detail_joining s0;
          can_join = (\<not> cur \<and> \<not> joining \<and> \<not> forgetting s0);
          u = on_hud sync_selected_ap u; s = hs u; sec = picked_sec_then s0 s;
          cx = sheet_card_x; cw = sheet_card_w (ui_w u); ch = sheet_card_h (ui_h u);
          band = fmt_band 24 (if selected_freq s \<noteq> [] then selected_freq s else w_freq (wifi s));
          iy = y0 + 364; kv = (\<lambda>n k val. draw_kv_row (cx + 48) (iy + 64 * n) (cw - 96) k val)
      in (sheet_card u y0 @
          [D_Text Title (cx + 36) (y0 + 44) (TU u ZH_DETAILS ''Network'') (px 245 248 252),
           D_Btn (cx + 24) (y0 + 108) 220 80 22 (px 40 48 60) Title (TU u ZH_BACK ''Back'') (px 230 235 245),
           D_Fit Title (cx + 36) (y0 + 208) (cw - 72) (if ssid \<noteq> [] then ssid else ''Wi-Fi'') (px 245 248 252)] @
          detail_state v u cur joining y0 @
          [D_Round (cx + 24) (y0 + 340) (cw - 48) (if cur then 360 else 260) 28 (px 30 36 46)] @
          kv 0 (TU u ZH_SECURITY ''Security'')
            (if selected_secure s then (if sec \<noteq> [] then sec else TU u ZH_SECURED ''Secured'') else TU u ZH_OPEN ''Open'') @
          kv 1 (TU u ZH_SIGNAL ''Signal'') (detail_signal cur s) @
          kv 2 (TU u ZH_BAND ''Band'') band @
          (if cur then kv 3 ''IP'' (w_ip (wifi s)) @ kv 4 (TU u ZH_GW ''Gateway'') (w_gw (wifi s)) @ kv 5 ''MAC'' (hwaddr (v_m v))
           else []) @
          [D_Btn (cx + 24) (y0 + ch - 280) (cw - 48) 80 22 (if can_join then px 91 140 255 else px 50 58 72) Title
             (if joining then TU u ZH_JOINING ''Joining''
              else if cur then TU u ZH_JOINED ''Joined'' else TU u ZH_JOIN_THIS ''Join this network'')
             (px 245 248 252),
           D_Btn (cx + 24) (y0 + ch - 176) (cw - 48) 80 22 (if forgetting s then px 70 40 42 else px 140 48 52) Title
             (if forgetting s then TU u ZH_WAIT ''Wait'' else TU u ZH_FORGET_THIS ''Forget this network'') (px 255 210 214)], u))"

text \<open>Of the password only the last character is shown.\<close>

definition dots :: "string \<Rightarrow> string" where
  "dots p = map (\<lambda>i. if i = length p - 1 then p ! i else CHR ''*'') [0..<min (length p) (PW_MAX - 1)]"

definition draw_pass_sheet :: "view \<Rightarrow> ui \<Rightarrow> int \<Rightarrow> dcmd list \<times> ui" where
  "draw_pass_sheet v u y0 =
     (let W = ui_w u; s = hs u; name = (if selected_ssid s \<noteq> [] then selected_ssid s else connect_ssid s);
          n = length (password s); (keys, u') = draw_osk v u
      in (sheet_card u y0 @
          [D_Text Title 48 (y0 + 48) (TU u ZH_PASSWORD ''Password'') (px 245 248 252)] @
          (if name \<noteq> [] then [D_Fit Body 48 (y0 + 108) (W - 96) name (px 180 190 205)] else []) @
          [D_Round 40 (y0 + 164) (W - 80) 88 20 (px 28 34 44),
           D_Vcenter Title 64 (y0 + 164) 88 (if n \<noteq> 0 then dots (password s) else TU u ZH_ENTER ''Enter Wi-Fi password'')
             (if n \<noteq> 0 then px 245 248 252 else px 100 110 125)] @
          (if connect_fail s \<and> v_status v (status_line s) \<noteq> [] then
             [D_Fit Title 48 (y0 + 258) (W - 96) (v_status v (status_line s)) (px 255 110 100)]
           else if connecting s then
             D_Fit Body 48 (y0 + 260) (W - 360) (connecting_label v u) (px 245 197 66) # draw_loader v (W - 200) (y0 + 256)
           else []) @
          [D_Btn 40 (y0 + 304) 200 80 20 (px 40 48 60) Body (TU u ZH_CANCEL ''Cancel'') (px 230 235 245),
           D_Btn (W - 280) (y0 + 304) 240 80 20 (if connecting s then px 60 70 90 else px 91 140 255) Title
             (if connecting s then TU u ZH_JOINING ''Wait'' else TU u ZH_JOIN ''Join'') (px 245 248 252)] @
          keys, u'))"

section \<open>A frame\<close>

text \<open>The sheet that is drawn, and the whole frame. \<open>hud_gl_begin\<close> and \<open>present\<close> are not drawing.\<close>

definition drawn_sheet :: "view \<Rightarrow> ui \<Rightarrow> sheet" where
  "drawn_sheet v u =
     (if sheet_tgt (hs u) = SHEET_PASS \<or> v_sheet v = SHEET_PASS \<and> sheet_t u > 1 / 2 then SHEET_PASS
      else if sheet_tgt (hs u) = SHEET_DETAIL \<or> v_sheet v = SHEET_DETAIL \<and> sheet_t u > 1 / 2 then SHEET_DETAIL
      else SHEET_LIST)"

definition draw_sheet :: "fonts \<Rightarrow> view \<Rightarrow> ui \<Rightarrow> dcmd list \<times> ui" where
  "draw_sheet fs v u =
     (let y0 = sheet_y0 u in
      case drawn_sheet v u of
        SHEET_PASS \<Rightarrow> draw_pass_sheet v u y0
      | SHEET_DETAIL \<Rightarrow> draw_detail_sheet v u y0
      | _ \<Rightarrow> (draw_list_sheet fs v u y0, u))"

definition render :: "fonts \<Rightarrow> view \<Rightarrow> ui \<Rightarrow> dcmd list \<times> ui" where
  "render fs v u =
     (let home = (if sheet_t u > f0_001 then [D_View (1 - f0_10 * sheet_t u) (- (28 * sheet_t u))] else []) @
            draw_home fs v u @ [D_View 1 0]
      in if sheet_t u > f0_002 then
           case draw_sheet fs v u of (cs, u') \<Rightarrow> (home @ D_Shade 0 (trunc (sheet_t u * 130)) # cs, u')
         else (home, u))"

end
