(* ===== verification/Hud_Sheets_Correct.thy ===== *)
theory Hud_Sheets_Correct
  imports Hud_Sheets Hud_Text_Correct Hud_Touch_Correct
begin

text \<open>
  The screens of the boot display: buttons and rows are tapped where they are drawn, and a frame is
  drawn inside the buffer and covers all of it.
\<close>

section \<open>An example\<close>

definition demo_view :: view where
  "demo_view = \<lparr>v_m = meters0, v_sheet = SHEET_NONE, v_osk_u = 0, v_pulse = 0, v_sin = 0, v_now = 0, v_status = (\<lambda>st. [])\<rparr>"

definition demo_ui :: "sheet \<Rightarrow> ui" where
  "demo_ui sh = (ui_start ((hud0 [])\<lparr>sheet_tgt := sh, aps := [\<lparr>ap_ssid = ''a'', ap_security = [], ap_freq = [], ap_signal = 50,
     ap_secure = False, ap_active = False\<rparr>]\<rparr>))\<lparr>ui_w := 1080, ui_h := 1920, sheet_t := 1\<rparr>"

lemma demo_ui_simps [simp]:
  "ui_w (demo_ui sh) = 1080" "ui_h (demo_ui sh) = 1920" "sheet_t (demo_ui sh) = 1" "sheet_tgt (hs (demo_ui sh)) = sh"
  "length (aps (hs (demo_ui sh))) = 1" "list_scroll (demo_ui sh) = 0" "sheet_y0 (demo_ui sh) = 100"
  by (simp_all add: demo_ui_def ui_start_def sheet_y0_def sheet_card_h_def sheet_peek_def Let_def trunc_def)

section \<open>Buttons are where they are drawn\<close>

text \<open>The rectangles of the buttons among drawing calls.\<close>

fun btn_rect :: "dcmd \<Rightarrow> (int \<times> int \<times> int \<times> int) list" where
  "btn_rect (D_Btn x y w h r bg f s fg) = [(x, y, w, h)]"
| "btn_rect c = []"

definition btn_rects :: "dcmd list \<Rightarrow> (int \<times> int \<times> int \<times> int) list" where
  "btn_rects cs = concat (map btn_rect cs)"

named_theorems no_btns

lemma btn_rects_simps [simp]:
  "btn_rects [] = []" "btn_rects (c # cs) = btn_rect c @ btn_rects cs" "btn_rects (cs @ ds) = btn_rects cs @ btn_rects ds"
  by (simp_all add: btn_rects_def)

lemma btn_rects_concat: "(\<And>x. x \<in> set xs \<Longrightarrow> btn_rects (f x) = []) \<Longrightarrow> btn_rects (concat (map f xs)) = []"
  by (induction xs) simp_all

lemma no_btns_parts [no_btns, simp]:
  "btn_rects (draw_loader v cx y) = []" "btn_rects (sheet_card u y) = []" "btn_rects (draw_kv_row x y w k t) = []"
  by (simp_all add: draw_loader_def sheet_card_def draw_kv_row_def Let_def)

lemma no_btns_key [simp]: "btn_rects (draw_osk_key v u i) = []"
  by (simp add: draw_osk_key_def draw_osk_shift_def Let_def split: prod.split)

lemma no_btns_osk [simp]: "btn_rects (fst (draw_osk v u)) = []"
  by (simp add: draw_osk_def Let_def btn_rects_concat)

lemma no_btns_row [simp]: "btn_rects (draw_row fs v u hover i yy) = []"
  by (simp add: draw_row_def Let_def)

lemma no_btns_rows [simp]: "btn_rects (draw_rows fs v u y0) = []"
  by (simp add: draw_rows_def Let_def btn_rects_concat)

lemma no_btns_detail_state [simp]: "btn_rects (detail_state v u cur joining y0) = []"
  by (simp add: detail_state_def Let_def)

lemma pass_btns:
  "btn_rects (fst (draw_pass_sheet v u y0)) = [(40, y0 + 304, 200, 80), (ui_w u - 280, y0 + 304, 240, 80)]"
  by (simp add: draw_pass_sheet_def Let_def split: prod.split) (metis fst_conv no_btns_osk)

lemma detail_btns:
  "btn_rects (fst (draw_detail_sheet v u y0)) =
     (let cx = sheet_card_x; cw = sheet_card_w (ui_w u); ch = sheet_card_h (ui_h u)
      in [(cx + 24, y0 + 108, 220, 80), (cx + 24, y0 + ch - 280, cw - 48, 80), (cx + 24, y0 + ch - 176, cw - 48, 80)])"
  by (simp add: draw_detail_sheet_def Let_def on_hud_def)

lemma list_btns:
  "btn_rects (draw_list_sheet fs v u y0) =
     (let cx = sheet_card_x; cw = sheet_card_w (ui_w u) in [(cx + 24, y0 + 108, 220, 80), (cx + cw - 244, y0 + 108, 220, 80)])"
  by (simp add: draw_list_sheet_def Let_def)

text \<open>The buttons of a sheet in the order in which they are drawn, and how far their drawn edges are off.\<close>

fun sheet_buttons :: "sheet \<Rightarrow> button list" where
  "sheet_buttons SHEET_PASS = [Pass_Cancel, Pass_Join]"
| "sheet_buttons SHEET_DETAIL = [Detail_Back, Detail_Join, Detail_Forget]"
| "sheet_buttons SHEET_LIST = [List_Close, List_Refresh]"
| "sheet_buttons SHEET_NONE = []"

definition edge :: "sheet \<Rightarrow> int" where
  "edge sh = (if sh = SHEET_LIST then 4 else 0)"

text \<open>A tap on the rectangle, at least \<open>m\<close> pixels from its sides, is a tap on the button.\<close>

definition taps :: "ui \<Rightarrow> int \<Rightarrow> int \<times> int \<times> int \<times> int \<Rightarrow> button \<Rightarrow> bool" where
  "taps u m r b = (case r of (x, y, w, h) \<Rightarrow> \<forall>px py. hit px py (x + m) y (w - 2 * m) h \<longrightarrow> button_at px py u = Some b)"

lemma sheet_card_h_min: "520 \<le> sheet_card_h H"
  by (simp add: sheet_card_h_def Let_def)

lemma f045_half: "f045 < 1 / 2"
  by (simp add: f045_def)

lemma button_at_open:
  assumes "1 / 2 < sheet_t u"
  shows "button_at x y u =
    (let y0 = sheet_y0 u; W = ui_w u; cx = sheet_card_x; cw = sheet_card_w W; ch = sheet_card_h (ui_h u) in
     case sheet_tgt (hs u) of
       SHEET_PASS \<Rightarrow>
         if hit x y 40 (y0 + 304) 200 80 then Some Pass_Cancel else if hit x y (W - 280) (y0 + 304) 240 80 then Some Pass_Join
         else None
     | SHEET_DETAIL \<Rightarrow>
         if hit x y (cx + 24) (y0 + 108) 220 80 then Some Detail_Back
         else if hit x y (cx + 24) (y0 + ch - 280) (cw - 48) 80 then Some Detail_Join
         else if hit x y (cx + 24) (y0 + ch - 176) (cw - 48) 80 then Some Detail_Forget
         else None
     | SHEET_LIST \<Rightarrow>
         if \<not> hit x y cx y0 cw ch then Some List_Outside
         else if hit x y (cx + 20) (y0 + 108) 220 80 then Some List_Close
         else if hit x y (cx + cw - 240) (y0 + 108) 220 80 then Some List_Refresh
         else map_option List_Row
           (row_at x y (list_top_from y0) (y0 + ch - 36 - list_top_from y0) [0..<length (aps (hs u))] u)
     | SHEET_NONE \<Rightarrow> if hit x y 40 wifi_card_y (W - 80) (wifi_card_h (hs u)) then Some Home_Card else None)"
proof -
  have "\<not> sheet_t u < f045" "f045 < sheet_t u" using assms f045_half by simp_all
  with assms show ?thesis
    unfolding button_at_def Let_def by (cases "sheet_tgt (hs u)") simp_all
qed

text \<open>
  C37. With a sheet more than half open, the buttons drawn on it are those a tap can hit, and each is
  hit wherever it is drawn; on the list sheet this holds except for the four columns of pixels at
  either side of a button, because it is drawn four pixels beside the place that \<open>tap\<close> tests.
\<close>

theorem hud_buttons_where_drawn:
  assumes "1 / 2 < sheet_t u" and "drawn_sheet v u = sheet_tgt (hs u)" and "520 \<le> ui_w u"
  shows "list_all2 (taps u (edge (sheet_tgt (hs u)))) (btn_rects (fst (draw_sheet fs v u))) (sheet_buttons (sheet_tgt (hs u)))"
proof -
  note m = sheet_card_h_min [of "ui_h u"]
  show ?thesis
  proof (cases "sheet_tgt (hs u)")
    case SHEET_NONE
    with assms(2) show ?thesis by (simp add: drawn_sheet_def split: if_splits)
  next
    case SHEET_PASS
    with assms show ?thesis
      by (auto simp: draw_sheet_def Let_def pass_btns taps_def edge_def button_at_open hit_def)
  next
    case SHEET_DETAIL
    with assms m show ?thesis
      by (auto simp: draw_sheet_def Let_def detail_btns taps_def edge_def button_at_open hit_def)
  next
    case SHEET_LIST
    with assms m show ?thesis
      by (auto simp: draw_sheet_def Let_def list_btns taps_def edge_def button_at_open hit_def sheet_card_x_def sheet_card_w_def)
  qed
qed

theorem hud_buttons_where_drawn_witness:
  "list_all2 (taps (demo_ui SHEET_PASS) 0) (btn_rects (fst (draw_sheet (\<lambda>f. demo_font) demo_view (demo_ui SHEET_PASS)))) [Pass_Cancel, Pass_Join]"
  using hud_buttons_where_drawn [of "demo_ui SHEET_PASS" demo_view "\<lambda>f. demo_font"] by (simp add: drawn_sheet_def edge_def)

section \<open>Rows of the list\<close>

lemma row_at_skip: "(\<And>j. j \<in> set is \<Longrightarrow> \<not> hit x y (sheet_card_x + 16) (lt + int j * list_row_h + list_scroll u)
    (sheet_card_w (ui_w u) - 32) (list_row_h - 12)) \<Longrightarrow> row_at x y lt sh (is @ js) u = row_at x y lt sh js u"
  by (induction "is") (simp_all add: Let_def)

lemma row_at_hit:
  assumes i: "i < n" and h: "hit x y (sheet_card_x + 16) (lt + int i * list_row_h + list_scroll u)
    (sheet_card_w (ui_w u) - 32) (list_row_h - 12)"
    and vis: "lt \<le> lt + int i * list_row_h + list_scroll u + list_row_h"
      "lt + int i * list_row_h + list_scroll u \<le> lt + sh"
  shows "row_at x y lt sh [0..<n] u = Some i"
proof -
  have split: "[0..<n] = [0..<i] @ i # [Suc i..<n]" using i upt_add_eq_append [of 0 i "n - i"] by (simp add: upt_conv_Cons)
  have skip: "\<not> hit x y (sheet_card_x + 16) (lt + int j * list_row_h + list_scroll u)
    (sheet_card_w (ui_w u) - 32) (list_row_h - 12)" if "j \<in> set [0..<i]" for j
  proof -
    have "int j * list_row_h + list_row_h \<le> int i * list_row_h" using that by (simp add: list_row_h_def)
    with h show ?thesis by (auto simp: hit_def list_row_h_def)
  qed
  have "row_at x y lt sh [0..<n] u = row_at x y lt sh (i # [Suc i..<n]) u"
    unfolding split by (rule row_at_skip) (rule skip)
  also have "\<dots> = Some i" using h vis by (simp add: Let_def)
  finally show ?thesis .
qed

text \<open>The rectangle of a drawn row.\<close>

definition row_rect :: "ui \<Rightarrow> int \<Rightarrow> nat \<Rightarrow> int \<times> int \<times> int \<times> int" where
  "row_rect u y0 i = (sheet_card_x + 20, row_y u y0 i, sheet_card_w (ui_w u) - 40, list_row_h - 18)"

definition on_rect :: "int \<Rightarrow> int \<Rightarrow> int \<times> int \<times> int \<times> int \<Rightarrow> bool" where
  "on_rect qx qy r = (case r of (x, y, w, h) \<Rightarrow> hit qx qy x y w h)"

lemma draw_row_rect: "\<exists>c cs. draw_row fs v u hover i (row_y u y0 i) =
    (case row_rect u y0 i of (x, y, w, h) \<Rightarrow> D_Round x y w h 24 c) # cs"
  by (simp add: draw_row_def row_rect_def Let_def)

text \<open>
  C38. Every point of a drawn row of the list below the header belongs to that row, also while the
  list is scrolled or in motion. Above, where a scrolled row is drawn over the Back button, a tap
  on the row closes the list.
\<close>

theorem hud_rows_where_drawn:
  assumes "1 / 2 < sheet_t u" and "sheet_tgt (hs u) = SHEET_LIST"
    and "i < length (aps (hs u))" and "row_shown u (sheet_y0 u) i" and "on_rect qx qy (row_rect u (sheet_y0 u) i)"
    and "qy < sheet_y0 u + sheet_card_h (ui_h u)"
  shows "(list_top_from (sheet_y0 u) \<le> qy \<longrightarrow> button_at qx qy u = Some (List_Row i)) \<and>
    (on_rect qx qy (sheet_card_x + 24, sheet_y0 u + 108, 216, 80) \<longrightarrow> button_at qx qy u = Some List_Close)"
proof -
  let ?y0 = "sheet_y0 u"
  have "row_at qx qy (list_top_from ?y0) (?y0 + sheet_card_h (ui_h u) - 36 - list_top_from ?y0) [0..<length (aps (hs u))] u = Some i"
    using assms by (intro row_at_hit)
      (auto simp: row_shown_def on_rect_def row_rect_def hit_def row_y_def list_row_h_def)
  with assms show ?thesis
    by (auto simp: button_at_open on_rect_def row_rect_def hit_def list_top_from_def)
qed

theorem hud_rows_where_drawn_witness:
  "button_at 100 400 (demo_ui SHEET_LIST) = Some (List_Row 0)"
  using hud_rows_where_drawn [of "demo_ui SHEET_LIST" 0 100 400]
  by (simp add: row_shown_def on_rect_def row_rect_def row_y_def hit_def list_top_from_def list_row_h_def sheet_card_x_def
      sheet_card_w_def sheet_card_h_def sheet_peek_def Let_def)

lemma row_over_back:
  assumes "1 / 2 < sheet_t u" and "sheet_tgt (hs u) = SHEET_LIST" and "520 \<le> ui_w u"
    and "i < length (aps (hs u))" and "row_y u (sheet_y0 u) i = list_top_from (sheet_y0 u) - list_row_h"
  shows "row_shown u (sheet_y0 u) i" "on_rect (sheet_card_x + 100) (sheet_y0 u + 150) (row_rect u (sheet_y0 u) i)"
    "button_at (sheet_card_x + 100) (sheet_y0 u + 150) u = Some List_Close"
  using assms sheet_card_h_min [of "ui_h u"]
  by (auto simp: row_shown_def on_rect_def row_rect_def hit_def list_top_from_def list_row_h_def sheet_card_w_def button_at_open)

section \<open>A frame on the canvas\<close>

lemma fine_text_parts:
  "canvas_ok cv \<Longrightarrow> font_ok f \<Longrightarrow> fine cv (draw_text_fit f x y maxw s c cv)"
  "canvas_ok cv \<Longrightarrow> font_ok f \<Longrightarrow> fine cv (draw_text_vcenter f x y h s c cv)"
  "canvas_ok cv \<Longrightarrow> font_ok f \<Longrightarrow> fine cv (draw_text_centered f x y w h s c cv)"
  "canvas_ok cv \<Longrightarrow> fine cv (fill_tri_v x y h up c cv)"
  "canvas_ok cv \<Longrightarrow> fine cv (draw_signal x y sig cv)"
  by (simp_all add: draw_text_fit_def draw_text_vcenter_def draw_text_centered_def fill_tri_v_def draw_signal_def
      fine_Some fine_draw_text fine_tri fine_signal del: signal_cols.simps split: prod.split)

lemma fine_run_cmd:
  assumes "canvas_ok cv" "\<And>f. font_ok (fs f)"
  shows "fine cv (run_cmd fs c cv)"
  using assms by (cases c) (simp_all add: fine_fill_round fine_fill_rect fine_text_parts fine_draw_text fine_draw_btn fine_Some fine_gl)

lemma fine_run_cmds:
  assumes "canvas_ok cv" "\<And>f. font_ok (fs f)"
  shows "fine cv (run_cmds fs cs cv)"
  using assms by (induction cs arbitrary: cv) (auto intro!: fine_Some fine_bind fine_run_cmd)

text \<open>
  C39. Drawing a frame, in any state of the display, with fonts whose bitmaps are complete, makes no
  access outside the pixel buffer or a font and leaves a buffer of the same size.
\<close>

theorem hud_render_stays_inside:
  assumes "canvas_ok cv" and "font_ok (fs Body)" and "font_ok (fs Title)"
  shows "fine cv (run_cmds fs (fst (render fs v u)) cv)"
proof (rule fine_run_cmds)
  show "font_ok (fs f)" for f using assms by (cases f) simp_all
qed (rule assms(1))

theorem hud_render_stays_inside_witness:
  "\<forall>v u. fine demo_canvas (run_cmds (\<lambda>f. demo_font) (fst (render (\<lambda>f. demo_font) v u)) demo_canvas)"
  using hud_render_stays_inside [of demo_canvas "\<lambda>f. demo_font"]
  by (simp add: canvas_ok_def demo_canvas_def font_ok_def demo_font_def demo_glyph_def)

lemma paint_all:
  assumes "canvas_ok cv"
  shows "paint (in_rect 0 0 (scr_w cv) (scr_h cv)) c cv = cv\<lparr>back_px := replicate (length (back_px cv)) c\<rparr>"
proof -
  have "in_rect 0 0 (scr_w cv) (scr_h cv) (int k mod scr_w cv) (int k div scr_w cv)" if "k < length (back_px cv)" for k
  proof -
    have k: "int k < scr_w cv * scr_h cv" and sz: "0 \<le> scr_w cv" "0 \<le> scr_h cv"
      using that assms by (simp_all add: canvas_ok_def)
    from k sz have w: "0 < scr_w cv" by (cases "scr_w cv = 0") auto
    have "int k div scr_w cv < scr_h cv"
    proof (rule ccontr)
      assume "\<not> ?thesis"
      with w have "scr_h cv * scr_w cv \<le> int k div scr_w cv * scr_w cv" by (intro mult_right_mono) simp_all
      also have "\<dots> \<le> int k" using w by (simp add: div_mult_mod_eq minus_mod_eq_div_mult [symmetric])
      finally show False using k by (simp add: mult.commute)
    qed
    with w show ?thesis by (simp add: in_rect_def pos_imp_zdiv_nonneg_iff)
  qed
  then have "map (\<lambda>k. if in_rect 0 0 (scr_w cv) (scr_h cv) (int k mod scr_w cv) (int k div scr_w cv) then c else back_px cv ! k)
      [0..<length (back_px cv)] = replicate (length (back_px cv)) c"
    by (intro nth_equalityI) simp_all
  then show ?thesis by (simp add: paint_def)
qed

lemma run_cmds_append: "run_cmds fs (cs @ ds) cv = Option.bind (run_cmds fs cs cv) (run_cmds fs ds)"
  by (induction cs arbitrary: cv) (auto split: bind_splits)

text \<open>Every frame starts with a rectangle of the size of the screen.\<close>

lemma draw_home_first: "\<exists>r c cs. draw_home fs v u = D_Round 0 0 (ui_w u) (ui_h u) r c # cs"
  unfolding draw_home_def Let_def append.simps by blast

lemma render_home: "\<exists>cs. fst (render fs v u) =
    (if sheet_t u > f0_001 then [D_View (1 - f0_10 * sheet_t u) (- (28 * sheet_t u))] else []) @ draw_home fs v u @ cs"
proof (cases "sheet_t u > f0_002")
  case True
  obtain cs u' where "draw_sheet fs v u = (cs, u')" by fastforce
  with True show ?thesis unfolding render_def Let_def by simp
next
  case False
  then show ?thesis unfolding render_def Let_def by simp
qed

text \<open>
  C40. On the software path a frame does not depend on what the buffer held before: no pixel of an
  earlier frame remains, although nothing clears the buffer.
\<close>

theorem hud_frame_fresh:
  assumes "canvas_ok cv" and "\<not> use_gl cv" and "scr_w cv = ui_w u" and "scr_h cv = ui_h u"
    and "length b = length (back_px cv)"
  shows "run_cmds fs (fst (render fs v u)) (cv\<lparr>back_px := b\<rparr>) = run_cmds fs (fst (render fs v u)) cv"
proof -
  obtain cs1 where cs1: "fst (render fs v u) =
      (if sheet_t u > f0_001 then [D_View (1 - f0_10 * sheet_t u) (- (28 * sheet_t u))] else []) @ draw_home fs v u @ cs1"
    using render_home by blast
  obtain r c cs where home: "draw_home fs v u = D_Round 0 0 (ui_w u) (ui_h u) r c # cs" using draw_home_first by blast
  define pre where "pre = (if sheet_t u > f0_001 then [D_View (1 - f0_10 * sheet_t u) (- (28 * sheet_t u))] else [])"
  have ok: "canvas_ok (cv\<lparr>back_px := b\<rparr>)" using assms by (simp add: canvas_ok_def)
  have "run_cmds fs pre cv = Some cv" "run_cmds fs pre (cv\<lparr>back_px := b\<rparr>) = Some (cv\<lparr>back_px := b\<rparr>)"
    using assms(2) by (simp_all add: pre_def)
  moreover have "fill_round 0 0 (ui_w u) (ui_h u) r c (cv\<lparr>back_px := b\<rparr>) = fill_round 0 0 (ui_w u) (ui_h u) r c cv"
    using paint_all [OF assms(1), of c] paint_all [OF ok, of c] ok assms
    by (simp add: fill_round_rect fill_rect_spec)
  ultimately show ?thesis unfolding cs1 home pre_def [symmetric] by (simp add: run_cmds_append)
qed

theorem hud_frame_fresh_witness:
  "run_cmds (\<lambda>f. demo_font) (fst (render (\<lambda>f. demo_font) demo_view ((demo_ui SHEET_NONE)\<lparr>ui_w := 3, ui_h := 2\<rparr>)))
     (demo_canvas\<lparr>back_px := [9, 9, 9, 9, 9, 9]\<rparr>) =
   run_cmds (\<lambda>f. demo_font) (fst (render (\<lambda>f. demo_font) demo_view ((demo_ui SHEET_NONE)\<lparr>ui_w := 3, ui_h := 2\<rparr>))) demo_canvas"
  by (rule hud_frame_fresh) (simp_all add: demo_canvas_def canvas_ok_def)

end
