(* ===== verification/Drm_Mode.thy ===== *)
theory Drm_Mode
  imports Kernel_Prelude
begin

text \<open>
  The display mode that the panel driver describes and the DSI host programs: the fields of the
  kernel's \<open>struct drm_display_mode\<close> that they use. The clock is in kHz.
\<close>

record drm_mode =
  m_clock :: int
  hdisplay :: int
  hsync_start :: int
  hsync_end :: int
  htotal :: int
  vdisplay :: int
  vsync_start :: int
  vsync_end :: int
  vtotal :: int
  width_mm :: int
  height_mm :: int

end
