(* ===== verification/Panel_Jdi.thy ===== *)
theory Panel_Jdi
  imports Drm_Mode
begin

text \<open>
  The panel driver \<open>drivers/gpu/drm/panel/panel-jdi-fhd-r63452.c\<close>: enabling and disabling the
  panel, blanking it through sysfs, the display mode, probe and remove.

  What the panel answers is a parameter: \<open>dsi_wr\<close> is the result of sending the command that ends
  a trace, \<open>dsi_rd\<close> the result of a read and the byte read. The commands are the calls of the kernel's MIPI DSI
  library that the driver makes. A trace also has the reset line and the waits, in microseconds.
\<close>

section \<open>Commands\<close>

datatype dsi_cmd =
    Generic_Write "u8 list"
  | Dcs_Write "u8 list"
  | Set_Tear_On
  | Set_Pixel_Format u8
  | Set_Column_Address u16 u16
  | Set_Page_Address u16 u16
  | Set_Tear_Scanline u16
  | Set_Display_Brightness u16
  | Set_Display_On
  | Set_Display_Off
  | Exit_Sleep_Mode
  | Get_Power_Mode
  | Dcs_Read u8 nat

text \<open>A command is sent in low-power mode or not.\<close>

datatype panel_event = Cmd bool dsi_cmd | Reset_Line bool | Pause nat

record dsi_bus =
  dsi_wr :: "panel_event list \<Rightarrow> int"
  dsi_rd :: "panel_event list \<Rightarrow> int \<times> u8"

text \<open>\<open>p_lpm\<close> is the bit \<open>MIPI_DSI_MODE_LPM\<close> of \<open>dsi->mode_flags\<close>.\<close>

record jdi_fhd_r63452 =
  inited :: bool
  asleep :: bool
  p_lpm :: bool
  trace :: "panel_event list"

definition logged :: "panel_event \<Rightarrow> jdi_fhd_r63452 \<Rightarrow> jdi_fhd_r63452" where
  "logged e p = p\<lparr>trace := trace p @ [e]\<rparr>"

definition msleep :: "nat \<Rightarrow> jdi_fhd_r63452 \<Rightarrow> jdi_fhd_r63452" where
  "msleep ms = logged (Pause (1000 * ms))"

definition set_lpm :: "bool \<Rightarrow> jdi_fhd_r63452 \<Rightarrow> jdi_fhd_r63452" where
  "set_lpm on p = p\<lparr>p_lpm := on\<rparr>"

definition send :: "dsi_bus \<Rightarrow> dsi_cmd \<Rightarrow> jdi_fhd_r63452 \<Rightarrow> int \<times> jdi_fhd_r63452" where
  "send b c p = (let p = logged (Cmd (p_lpm p) c) p in (dsi_wr b (trace p), p))"

text \<open>The \<open>_multi\<close> calls of the library: nothing is done once \<open>accum_err\<close> is set.\<close>

type_synonym multi = "int \<times> jdi_fhd_r63452"

definition multi_send :: "dsi_bus \<Rightarrow> dsi_cmd \<Rightarrow> multi \<Rightarrow> multi" where
  "multi_send b c m =
     (case m of (err, p) \<Rightarrow>
        if err \<noteq> 0 then (err, p)
        else case send b c p of (r, p) \<Rightarrow> (if r < 0 then (r, p) else (0, p)))"

definition multi_pause :: "nat \<Rightarrow> multi \<Rightarrow> multi" where
  "multi_pause us m = (case m of (err, p) \<Rightarrow> if err \<noteq> 0 then (err, p) else (0, logged (Pause us) p))"

text \<open>A read: 0 and the byte, or a negative error.\<close>

definition receive :: "dsi_bus \<Rightarrow> dsi_cmd \<Rightarrow> jdi_fhd_r63452 \<Rightarrow> (int \<times> u8) \<times> jdi_fhd_r63452" where
  "receive b c p = (let p = logged (Cmd (p_lpm p) c) p in (dsi_rd b (trace p), p))"

section \<open>Enabling\<close>

definition jdi_fhd_r63452_reset :: "jdi_fhd_r63452 \<Rightarrow> jdi_fhd_r63452" where
  "jdi_fhd_r63452_reset p =
     logged (Pause 10000) (logged (Reset_Line False) (logged (Pause 1000) (logged (Reset_Line True)
       (logged (Pause 10000) (logged (Reset_Line False) p)))))"

definition init_cmds :: "dsi_cmd list" where
  "init_cmds =
     [Generic_Write [0xb0, 0x00],
      Generic_Write [0xd6, 0x01],
      Generic_Write [0xec, 0x64, 0xdc, 0xec, 0x3b, 0x52, 0x00, 0x0b, 0x0b, 0x13, 0x15, 0x68, 0x0b, 0xb5],
      Generic_Write [0xb0, 0x03],
      Set_Tear_On,
      Dcs_Write [0x36, 0x00],
      Set_Pixel_Format 0x77,
      Set_Column_Address 0x0000 0x0437,
      Set_Page_Address 0x0000 0x077f,
      Set_Tear_Scanline 0x0000,
      Set_Display_Brightness 0x00ff,
      Dcs_Write [0x53, 0x24],
      Dcs_Write [0x55, 0x00],
      Dcs_Write [0x5e, 0x00],
      Dcs_Write [0x84, 0x00]]"

definition jdi_fhd_r63452_init_regs :: "dsi_bus \<Rightarrow> jdi_fhd_r63452 \<Rightarrow> int \<times> jdi_fhd_r63452" where
  "jdi_fhd_r63452_init_regs b p = fold (multi_send b) init_cmds (0, set_lpm True p)"

text \<open>Only the reads are kept of the status log.\<close>

definition jdi_fhd_r63452_log_status :: "dsi_bus \<Rightarrow> jdi_fhd_r63452 \<Rightarrow> jdi_fhd_r63452" where
  "jdi_fhd_r63452_log_status b p =
     fold (\<lambda>c p. snd (receive b c p))
       [Get_Power_Mode, Dcs_Read 0xbf 4, Dcs_Read 0x0b 1, Dcs_Read 0x0c 1, Dcs_Read 0x0d 1] p"

abbreviation POWER_MODE_DISPLAY :: u8 where "POWER_MODE_DISPLAY \<equiv> 0x04"
abbreviation POWER_MODE_SLEEP :: u8 where "POWER_MODE_SLEEP \<equiv> 0x10"

text \<open>The loop that waits for the display, with at most \<open>n\<close> more turns.\<close>

fun poll_power :: "dsi_bus \<Rightarrow> nat \<Rightarrow> jdi_fhd_r63452 \<Rightarrow> jdi_fhd_r63452" where
  "poll_power b 0 p = p"
| "poll_power b (Suc n) p =
     (case receive b Get_Power_Mode p of ((r, pm), p) \<Rightarrow>
        if r = 0 \<and> has pm POWER_MODE_DISPLAY \<and> has pm POWER_MODE_SLEEP then p
        else poll_power b n (msleep 50 (snd (send b Set_Display_On p))))"

text \<open>The branch of \<open>enable\<close> for a panel that was enabled before.\<close>

definition enable_resume :: "dsi_bus \<Rightarrow> jdi_fhd_r63452 \<Rightarrow> int \<times> jdi_fhd_r63452" where
  "enable_resume b p =
     (let (err, p) = multi_pause 20000 (multi_send b Set_Display_On (0, set_lpm False p));
          ((r, pm), p) = receive b Get_Power_Mode p;
          (err, p) =
            (if r = 0 \<and> pm \<noteq> 0x38 then
               let (err, p) = multi_pause 20000 (multi_send b Set_Display_On (err, p))
               in (err, snd (receive b Get_Power_Mode p))
             else (err, p))
      in (err, jdi_fhd_r63452_log_status b (p\<lparr>asleep := False\<rparr>)))"

definition jdi_fhd_r63452_enable :: "dsi_bus \<Rightarrow> jdi_fhd_r63452 \<Rightarrow> int \<times> jdi_fhd_r63452" where
  "jdi_fhd_r63452_enable b p =
     (let p = set_lpm True p in
      if inited p then enable_resume b p
      else
        let p = (msleep 20 (jdi_fhd_r63452_reset p))\<lparr>inited := True\<rparr>;
            (r, p) = jdi_fhd_r63452_init_regs b p
        in if r \<noteq> 0 then (r, p)
           else
             let m = multi_pause 20000 (multi_send b Set_Display_On (0, p));
                 m = multi_pause 120000 (multi_send b Exit_Sleep_Mode m);
                 m = multi_send b (Generic_Write [0xb0, 0x04]) m;
                 m = multi_send b (Dcs_Write [0x84, 0x00]) m;
                 m = multi_send b (Generic_Write [0xc8, 0x11]) m;
                 (err, p) = multi_send b (Generic_Write [0xb0, 0x03]) m;
                 p = poll_power b 6 (msleep 120 p)
             in (err, jdi_fhd_r63452_log_status b (p\<lparr>asleep := False\<rparr>)))"

section \<open>Disabling and blanking\<close>

definition display_off :: "dsi_bus \<Rightarrow> jdi_fhd_r63452 \<Rightarrow> int \<times> jdi_fhd_r63452" where
  "display_off b p =
     (let (err, p) = multi_pause 2000 (multi_send b Set_Display_Off (0, set_lpm False p))
      in (err, jdi_fhd_r63452_log_status b (p\<lparr>asleep := True\<rparr>)))"

definition jdi_fhd_r63452_disable :: "dsi_bus \<Rightarrow> jdi_fhd_r63452 \<Rightarrow> int \<times> jdi_fhd_r63452" where
  "jdi_fhd_r63452_disable b p = display_off b p"

definition jdi_fhd_r63452_set_display :: "dsi_bus \<Rightarrow> bool \<Rightarrow> jdi_fhd_r63452 \<Rightarrow> int \<times> jdi_fhd_r63452" where
  "jdi_fhd_r63452_set_display b on p =
     (if on = (\<not> asleep p) then (0, p)
      else if on then
        let (err, p) = multi_pause 20000 (multi_send b Set_Display_On (0, set_lpm False p))
        in (err, jdi_fhd_r63452_log_status b (p\<lparr>asleep := False\<rparr>))
      else display_off b p)"

definition jdi_fhd_r63452_prepare :: "jdi_fhd_r63452 \<Rightarrow> int \<times> jdi_fhd_r63452" where
  "jdi_fhd_r63452_prepare p = (0, p)"

definition jdi_fhd_r63452_unprepare :: "jdi_fhd_r63452 \<Rightarrow> int \<times> jdi_fhd_r63452" where
  "jdi_fhd_r63452_unprepare p = (0, p)"

text \<open>
  The sysfs file \<open>panel_sleep\<close>. Reading prints a constant while the panel is blank (None), else the
  result of a read. Writing: \<open>parsed\<close> is what \<open>kstrtobool\<close> makes of the \<open>count\<close> bytes written.
\<close>

definition panel_sleep_show :: "dsi_bus \<Rightarrow> jdi_fhd_r63452 \<Rightarrow> (int \<times> u8) option \<times> jdi_fhd_r63452" where
  "panel_sleep_show b p =
     (if asleep p then (None, p)
      else case receive b Get_Power_Mode p of ((r, pm), p) \<Rightarrow>
        if r < 0 then case receive b Get_Power_Mode (msleep 20 p) of (r, p) \<Rightarrow> (Some r, p)
        else (Some (r, pm), p))"

definition panel_sleep_store :: "dsi_bus \<Rightarrow> int + bool \<Rightarrow> nat \<Rightarrow> jdi_fhd_r63452 \<Rightarrow> int \<times> jdi_fhd_r63452" where
  "panel_sleep_store b parsed count p =
     (case parsed of
        Inl e \<Rightarrow> (e, p)
      | Inr sleep \<Rightarrow>
          if sleep = asleep p then (int count, p)
          else case jdi_fhd_r63452_set_display b (\<not> sleep) p of (r, p) \<Rightarrow> (if r \<noteq> 0 then r else int count, p))"

section \<open>The mode\<close>

definition jdi_fhd_r63452_mode :: drm_mode where
  "jdi_fhd_r63452_mode =
     \<lparr>m_clock = (1080 + 120 + 16 + 40) * (1920 + 4 + 2 + 4) * 60 sdiv 1000,
      hdisplay = 1080, hsync_start = 1080 + 120, hsync_end = 1080 + 120 + 16, htotal = 1080 + 120 + 16 + 40,
      vdisplay = 1920, vsync_start = 1920 + 4, vsync_end = 1920 + 4 + 2, vtotal = 1920 + 4 + 2 + 4,
      width_mm = 64, height_mm = 114\<rparr>"

text \<open>The result and the modes added to the connector; \<open>dup\<close>: whether the copy could be allocated.\<close>

definition jdi_fhd_r63452_get_modes :: "bool \<Rightarrow> int \<times> drm_mode list" where
  "jdi_fhd_r63452_get_modes dup = (if \<not> dup then (- ENOMEM, []) else (1, [jdi_fhd_r63452_mode]))"

section \<open>Probe and remove\<close>

record jdi_device =
  jd_ctx :: "jdi_fhd_r63452 option"
  jd_panel_added :: bool
  jd_attached :: bool
  jd_file :: bool
  jd_lanes :: nat
  jd_non_continuous :: bool

text \<open>What the kernel answers: 0 or a negative errno each.\<close>

record jdi_env =
  je_alloc :: int
  je_gpio :: int
  je_attach :: int
  je_file :: int

text \<open>The state after \<open>devm_gpiod_get\<close> with \<open>GPIOD_OUT_HIGH\<close>.\<close>

definition jdi_new :: jdi_fhd_r63452 where
  "jdi_new = \<lparr>inited = False, asleep = False, p_lpm = False, trace = [Reset_Line True]\<rparr>"

definition jdi_fhd_r63452_probe :: "jdi_env \<Rightarrow> jdi_device \<Rightarrow> int \<times> jdi_device" where
  "jdi_fhd_r63452_probe env d =
     (if je_alloc env < 0 then (je_alloc env, d)
      else if je_gpio env < 0 then (je_gpio env, d)
      else
        let d = d\<lparr>jd_ctx := Some jdi_new, jd_lanes := 4, jd_non_continuous := True, jd_panel_added := True\<rparr> in
        if je_attach env < 0 then (je_attach env, d)
        else (0, d\<lparr>jd_attached := True, jd_file := (je_file env = 0)\<rparr>))"

definition jdi_fhd_r63452_remove :: "jdi_device \<Rightarrow> jdi_device" where
  "jdi_fhd_r63452_remove d = d\<lparr>jd_file := False, jd_attached := False, jd_panel_added := False\<rparr>"

section \<open>Use\<close>

datatype panel_op = Prepare | Enable | Disable | Unprepare | Show | Store "int + bool" nat

definition panel_do :: "dsi_bus \<Rightarrow> panel_op \<Rightarrow> jdi_fhd_r63452 \<Rightarrow> jdi_fhd_r63452" where
  "panel_do b op p =
     (case op of
        Prepare \<Rightarrow> snd (jdi_fhd_r63452_prepare p)
      | Enable \<Rightarrow> snd (jdi_fhd_r63452_enable b p)
      | Disable \<Rightarrow> snd (jdi_fhd_r63452_disable b p)
      | Unprepare \<Rightarrow> snd (jdi_fhd_r63452_unprepare p)
      | Show \<Rightarrow> snd (panel_sleep_show b p)
      | Store v n \<Rightarrow> snd (panel_sleep_store b v n p))"

text \<open>A sequence of operations; the panel may answer each differently.\<close>

fun panel_run :: "(dsi_bus \<times> panel_op) list \<Rightarrow> jdi_fhd_r63452 \<Rightarrow> jdi_fhd_r63452" where
  "panel_run [] p = p"
| "panel_run ((b, op) # ops) p = panel_run ops (panel_do b op p)"

end
