(* ===== verification/Panel_Correct.thy ===== *)
theory Panel_Correct
  imports Panel_Jdi
begin

text \<open>
  What is proved of the panel driver. \<open>extends Q p p'\<close>: the trace of \<open>p'\<close> continues that of \<open>p\<close> with
  events that satisfy \<open>Q\<close>.
\<close>

definition extends :: "(panel_event \<Rightarrow> bool) \<Rightarrow> jdi_fhd_r63452 \<Rightarrow> jdi_fhd_r63452 \<Rightarrow> bool" where
  "extends Q p p' \<longleftrightarrow> inited p' = inited p \<and> (\<exists>es. trace p' = trace p @ es \<and> (\<forall>e\<in>set es. Q e))"

lemma extends_refl [simp, intro]: "extends Q p p"
  by (simp add: extends_def)

lemma extends_trans: "extends Q p p' \<Longrightarrow> extends Q p' p'' \<Longrightarrow> extends Q p p''"
  by (fastforce simp: extends_def)

lemma extends_logged: "extends Q p p' \<Longrightarrow> Q e \<Longrightarrow> extends Q p (logged e p')"
  by (fastforce simp: extends_def logged_def)

lemma extends_fields [simp]:
  "extends Q p (set_lpm l p') = extends Q p p'" "extends Q p (p'\<lparr>asleep := a\<rparr>) = extends Q p p'"
  by (simp_all add: extends_def set_lpm_def)

lemma lpm_fields [simp]:
  "p_lpm (logged e p) = p_lpm p" "p_lpm (set_lpm l p) = l" "p_lpm (snd (send b c p)) = p_lpm p"
  "p_lpm (snd (receive b c p)) = p_lpm p" "p_lpm (msleep n p) = p_lpm p"
  by (simp_all add: logged_def set_lpm_def send_def receive_def msleep_def Let_def)

lemma lpm_multi [simp]: "p_lpm (snd (multi_send b c m)) = p_lpm (snd m)" "p_lpm (snd (multi_pause n m)) = p_lpm (snd m)"
  by (auto simp: multi_send_def multi_pause_def send_def Let_def split: prod.split)

lemma extends_send: "extends Q p p' \<Longrightarrow> Q (Cmd (p_lpm p') c) \<Longrightarrow> extends Q p (snd (send b c p'))"
  by (simp add: send_def Let_def extends_logged)

lemma extends_receive: "extends Q p p' \<Longrightarrow> Q (Cmd (p_lpm p') c) \<Longrightarrow> extends Q p (snd (receive b c p'))"
  by (simp add: receive_def Let_def extends_logged)

lemma extends_msleep: "extends Q p p' \<Longrightarrow> Q (Pause (1000 * n)) \<Longrightarrow> extends Q p (msleep n p')"
  by (simp add: msleep_def extends_logged)

lemma extends_multi: "extends Q p (snd m) \<Longrightarrow> Q (Cmd (p_lpm (snd m)) c) \<Longrightarrow> extends Q p (snd (multi_send b c m))"
  by (auto simp: multi_send_def send_def Let_def extends_logged split: prod.split)

lemma extends_pause: "extends Q p (snd m) \<Longrightarrow> Q (Pause n) \<Longrightarrow> extends Q p (snd (multi_pause n m))"
  by (auto simp: multi_pause_def extends_logged split: prod.split)

section \<open>After the first enabling\<close>

text \<open>
  The events a panel that keeps its state may see: switching the display on and off at high speed,
  reads, and waits. No reset, no leaving of sleep, no register writes.
\<close>

fun soft :: "panel_event \<Rightarrow> bool" where
  "soft (Pause n) = True"
| "soft (Reset_Line v) = False"
| "soft (Cmd lpm c) = (case c of Set_Display_On \<Rightarrow> \<not> lpm | Set_Display_Off \<Rightarrow> \<not> lpm | Get_Power_Mode \<Rightarrow> True
     | Dcs_Read _ _ \<Rightarrow> True | _ \<Rightarrow> False)"

lemma soft_log_status: "extends soft p p' \<Longrightarrow> extends soft p (jdi_fhd_r63452_log_status b p')"
  by (simp add: jdi_fhd_r63452_log_status_def extends_receive)

lemma soft_resume: "extends soft p (snd (enable_resume b p))"
proof -
  define m where "m = multi_pause 20000 (multi_send b Set_Display_On (0, set_lpm False p))"
  define q where "q = snd (receive b Get_Power_Mode (snd m))"
  define m2 where "m2 = multi_pause 20000 (multi_send b Set_Display_On (fst m, q))"
  have "extends soft p (snd m)" by (simp add: m_def extends_pause extends_multi)
  then have q: "extends soft p q" by (simp add: q_def extends_receive)
  have "\<not> p_lpm q" by (simp add: q_def m_def)
  with q have m2: "extends soft p (snd m2)" by (simp add: m2_def extends_pause extends_multi)
  then show ?thesis
    using q by (auto simp: enable_resume_def Let_def case_prod_beta m_def [symmetric] q_def [symmetric] m2_def [symmetric]
        intro!: soft_log_status extends_receive)
qed

lemma soft_display_off: "extends soft p (snd (display_off b p))"
  by (simp add: display_off_def Let_def case_prod_beta soft_log_status extends_pause extends_multi)

lemma soft_set_display: "extends soft p (snd (jdi_fhd_r63452_set_display b on p))"
  by (simp add: jdi_fhd_r63452_set_display_def Let_def case_prod_beta soft_log_status extends_pause extends_multi
      soft_display_off)

lemma soft_show: "extends soft p (snd (panel_sleep_show b p))"
  by (auto simp: panel_sleep_show_def case_prod_beta intro!: extends_receive extends_msleep)

lemma soft_store: "extends soft p (snd (panel_sleep_store b v n p))"
  by (simp add: panel_sleep_store_def case_prod_beta soft_set_display split: sum.split)

lemma soft_enable: "inited p \<Longrightarrow> extends soft p (snd (jdi_fhd_r63452_enable b p))"
  using soft_resume [of "set_lpm True p" b] by (simp add: jdi_fhd_r63452_enable_def extends_def set_lpm_def)

lemma soft_op: "inited p \<Longrightarrow> extends soft p (panel_do b op p)"
  by (cases op)
    (simp_all add: panel_do_def soft_enable jdi_fhd_r63452_disable_def jdi_fhd_r63452_prepare_def
      jdi_fhd_r63452_unprepare_def soft_display_off soft_show soft_store)

lemma soft_run: "inited p \<Longrightarrow> extends soft p (panel_run ops p)"
proof (induction ops arbitrary: p)
  case (Cons a ops)
  obtain b op where a: "a = (b, op)" by fastforce
  have 1: "extends soft p (panel_do b op p)" by (rule soft_op [OF Cons.prems])
  then have "inited (panel_do b op p)" using Cons.prems by (simp add: extends_def)
  with Cons.IH 1 show ?case by (auto simp: a intro: extends_trans)
qed simp

text \<open>
  C32. Once the panel has been enabled, no sequence of enabling, disabling, blanking and reading,
  whatever the panel answers, resets it, takes it out of sleep or writes its registers again, and
  the display is only ever switched in high-speed mode.
\<close>

theorem panel_keeps_analog:
  assumes "inited p"
  shows "\<exists>es. trace (panel_run ops p) = trace p @ es \<and> (\<forall>e\<in>set es. soft e)"
  using soft_run [OF assms, of ops] by (simp add: extends_def)

lemma init_regs_no_exit:
  "extends (\<lambda>e. \<forall>l. e \<noteq> Cmd l Exit_Sleep_Mode) p (snd (jdi_fhd_r63452_init_regs b p))"
  by (simp add: jdi_fhd_r63452_init_regs_def init_cmds_def extends_multi)

text \<open>
  C33. The first enabling marks the panel as initialised before it has sent the registers. If that
  fails, the error is returned, and no later enabling tries again: the panel never leaves sleep,
  even on a bus that works from then on.
\<close>

theorem panel_failed_init_is_final:
  assumes "\<not> inited p" and "\<forall>l. Cmd l Exit_Sleep_Mode \<notin> set (trace p)"
    and "fst (jdi_fhd_r63452_init_regs b ((msleep 20 (jdi_fhd_r63452_reset (set_lpm True p)))\<lparr>inited := True\<rparr>)) = e" and "e \<noteq> 0"
  shows "fst (jdi_fhd_r63452_enable b p) = e \<and>
    (\<forall>l. Cmd l Exit_Sleep_Mode \<notin> set (trace (panel_run ops (snd (jdi_fhd_r63452_enable b p)))))"
proof -
  define q where "q = (msleep 20 (jdi_fhd_r63452_reset (set_lpm True p)))\<lparr>inited := True\<rparr>"
  define r where "r = snd (jdi_fhd_r63452_init_regs b q)"
  have en: "jdi_fhd_r63452_enable b p = (e, r)"
    using assms by (auto simp: jdi_fhd_r63452_enable_def Let_def case_prod_beta set_lpm_def q_def r_def prod_eq_iff)
  have q: "\<forall>l. Cmd l Exit_Sleep_Mode \<notin> set (trace q)"
    using assms(2) by (simp add: q_def msleep_def jdi_fhd_r63452_reset_def logged_def set_lpm_def)
  have r: "inited r \<and> (\<forall>l. Cmd l Exit_Sleep_Mode \<notin> set (trace r))"
    using init_regs_no_exit [of q b] q by (auto simp: r_def extends_def q_def)
  then obtain es where es: "trace (panel_run ops r) = trace r @ es" "\<forall>x\<in>set es. soft x"
    using soft_run [of r ops] by (auto simp: extends_def)
  have "Cmd l Exit_Sleep_Mode \<notin> set es" for l
  proof
    assume "Cmd l Exit_Sleep_Mode \<in> set es"
    with es(2) have "soft (Cmd l Exit_Sleep_Mode)" by blast
    then show False by simp
  qed
  then show ?thesis using r by (simp add: en es(1))
qed

text \<open>
  A blank request whose command fails returns the error but is remembered as done: the same
  request again reports success and sends nothing, so that the display stays on.
\<close>

theorem panel_blank_failure_sticks:
  assumes "\<not> asleep p" and "dsi_wr b (trace p @ [Cmd False Set_Display_Off]) = e" and "e < 0"
    and "q = snd (panel_sleep_store b (Inr True) n p)"
  shows "fst (panel_sleep_store b (Inr True) n p) = e \<and> panel_sleep_store b' (Inr True) n q = (int n, q)"
proof -
  have "asleep (jdi_fhd_r63452_log_status b p) = asleep p" for p
    by (simp add: jdi_fhd_r63452_log_status_def receive_def logged_def Let_def)
  then show ?thesis
    using assms by (simp add: panel_sleep_store_def jdi_fhd_r63452_set_display_def display_off_def multi_send_def multi_pause_def
        send_def Let_def logged_def set_lpm_def)
qed

text \<open>
  The check on resuming has the wrong value: a panel that reports a display that is off
  (0x38) is taken to be on, and any panel that reports a display that is on is switched on again.
\<close>

theorem panel_resume_check:
  assumes "inited p" and "\<forall>t. dsi_wr b t = 0" and "\<forall>t. dsi_rd b t = (0, m)"
    and "trace (snd (jdi_fhd_r63452_enable b p)) = trace p @ es"
  shows "length (filter (\<lambda>e. e = Cmd False Set_Display_On) es) = (if m = 0x38 then 1 else 2) \<and> \<not> has (0x38 :: u8) POWER_MODE_DISPLAY"
  using assms by (auto simp: jdi_fhd_r63452_enable_def enable_resume_def Let_def case_prod_beta multi_send_def multi_pause_def
      send_def receive_def logged_def set_lpm_def jdi_fhd_r63452_log_status_def has_def)

lemma probe_attach_failure:
  assumes "je_alloc env = 0" "je_gpio env = 0" "je_attach env < 0"
  shows "fst (jdi_fhd_r63452_probe env d) < 0 \<and> jd_panel_added (snd (jdi_fhd_r63452_probe env d))"
  using assms by (simp add: jdi_fhd_r63452_probe_def Let_def)

section \<open>Examples\<close>

definition bus_works :: dsi_bus where
  "bus_works = \<lparr>dsi_wr = (\<lambda>t. 0), dsi_rd = (\<lambda>t. (0, 0x9c))\<rparr>"

definition bus_fails :: dsi_bus where
  "bus_fails = \<lparr>dsi_wr = (\<lambda>t. - ETIMEDOUT), dsi_rd = (\<lambda>t. (- ETIMEDOUT, 0))\<rparr>"

theorem panel_keeps_analog_witness:
  "\<exists>es. trace (panel_run [(bus_works, Disable), (bus_fails, Enable), (bus_works, Store (Inr True) 1)] (jdi_new\<lparr>inited := True\<rparr>)) =
     trace (jdi_new\<lparr>inited := True\<rparr>) @ es \<and> (\<forall>e\<in>set es. soft e)"
  by (rule panel_keeps_analog) simp

theorem panel_failed_init_is_final_witness:
  "fst (jdi_fhd_r63452_enable bus_fails jdi_new) = - ETIMEDOUT \<and>
   (\<forall>l. Cmd l Exit_Sleep_Mode \<notin> set (trace (panel_run [(bus_works, Enable)] (snd (jdi_fhd_r63452_enable bus_fails jdi_new)))))"
  by (rule panel_failed_init_is_final)
     (simp_all add: jdi_new_def jdi_fhd_r63452_init_regs_def init_cmds_def multi_send_def send_def bus_fails_def Let_def)

theorem panel_blank_failure_sticks_witness:
  "fst (panel_sleep_store bus_fails (Inr True) 2 jdi_new) = - ETIMEDOUT"
  using panel_blank_failure_sticks [of jdi_new bus_fails "- ETIMEDOUT", OF _ _ _ refl] by (simp add: jdi_new_def bus_fails_def)

theorem panel_resume_check_witness:
  "length (filter (\<lambda>e. e = Cmd False Set_Display_On) (drop 1 (trace (snd (jdi_fhd_r63452_enable bus_works (jdi_new\<lparr>inited := True\<rparr>)))))) = 2"
proof -
  have i: "inited (jdi_new\<lparr>inited := True\<rparr>)" by simp
  from soft_op [OF i, of bus_works Enable] obtain es where
    es: "trace (snd (jdi_fhd_r63452_enable bus_works (jdi_new\<lparr>inited := True\<rparr>))) = trace (jdi_new\<lparr>inited := True\<rparr>) @ es"
    by (auto simp: extends_def panel_do_def)
  from panel_resume_check [OF i _ _ es, of "0x9c"] show ?thesis unfolding es by (simp add: jdi_new_def bus_works_def)
qed

end
