(* ===== verification/Dsi_Cmd.thy ===== *)
theory Dsi_Cmd
  imports Kernel_Prelude
begin

text \<open>
  Commands of the DSI controller (\<open>drivers/gpu/drm/msm/dsi/dsi_host.c\<close>): packing a message into the
  DMA buffer, sending it, and reading an answer that arrives in pieces through four registers.

  The controller, the panel behind it and the kernel's MIPI DSI library are parameters. An access
  outside a buffer is the result None. Waiting for the video engine before a command is left out.
\<close>

section \<open>Messages and buffers\<close>

abbreviation EIO :: int where "EIO \<equiv> 5"
abbreviation ECOMM :: int where "ECOMM \<equiv> 70"

text \<open>A message; \<open>m_rx_len\<close> is 0 without a buffer for an answer.\<close>

record dsi_msg =
  m_channel :: u8
  m_type :: u8
  m_tx :: "u8 list"
  m_rx_len :: nat

text \<open>What \<open>mipi_dsi_create_packet\<close> makes of it.\<close>

record dsi_packet =
  p_size :: nat
  p_header :: "u8 list"
  p_payload :: "u8 list"

text \<open>
  The controller in state \<open>'h\<close>: sending the given bytes by DMA (whether the completion came in time), the
  registers \<open>RDBK_DATA(i)\<close>, and clearing them.
\<close>

record 'h dsi_hw =
  create_packet :: "dsi_msg \<Rightarrow> int + dsi_packet"
  is_long :: "u8 \<Rightarrow> bool"
  hw_tx :: "u8 list \<Rightarrow> 'h \<Rightarrow> bool \<times> 'h"
  hw_rdbk :: "nat \<Rightarrow> 'h \<Rightarrow> u32"
  hw_clear :: "'h \<Rightarrow> 'h"

text \<open>
  The part of \<open>struct msm_dsi_host\<close> that commands use. \<open>triggers\<close> is false when the manager leaves
  sending to the other controller; \<open>clears\<close> is true from version 6G 1.1 on; \<open>dma_err\<close> is the result of
  \<open>dma_base_get\<close>; \<open>stack\<close> is what uninitialised local variables hold.
\<close>

record dsi_chan =
  tx_mem :: "u8 list"
  rx_mem :: "u8 list"
  video_mode :: bool
  line_bytes :: int
  triggers :: bool
  clears :: bool
  dma_err :: int
  buf_err :: int
  stack :: "u8 list"

section \<open>Sending\<close>

text \<open>Bytes stored at an offset.\<close>

definition put :: "nat \<Rightarrow> u8 list \<Rightarrow> u8 list \<Rightarrow> u8 list option" where
  "put k bs mem = (if k + length bs \<le> length mem then Some (take k mem @ bs @ drop (k + length bs) mem) else None)"

definition pad_len :: "nat \<Rightarrow> nat" where
  "pad_len n = (n + 3) div 4 * 4"

definition msg_flags :: "'h dsi_hw \<Rightarrow> dsi_msg \<Rightarrow> u8" where
  "msg_flags hw m =
     0x80 OR (if is_long hw (m_type m) then 0x40 else 0) OR (if m_rx_len m \<noteq> 0 then 0x20 else 0)"

text \<open>The result is the length or a negative error, and the channel with its DMA buffer written.\<close>

definition dsi_cmd_dma_add :: "'h dsi_hw \<Rightarrow> dsi_msg \<Rightarrow> dsi_chan \<Rightarrow> (int \<times> dsi_chan) option" where
  "dsi_cmd_dma_add hw m c =
     (case create_packet hw m of
        Inl e \<Rightarrow> Some (e, c)
      | Inr p \<Rightarrow>
          let len = pad_len (p_size p) in
          if len > length (tx_mem c) then Some (- EINVAL, c)
          else if buf_err c < 0 then Some (buf_err c, c)
          else do {
            b \<leftarrow> put 0 [p_header p ! 1, p_header p ! 2, p_header p ! 0, msg_flags hw m] (tx_mem c);
            b \<leftarrow> put 4 (p_payload p) b;
            b \<leftarrow> put (p_size p) (replicate (len - p_size p) 0xff) b;
            Some (int len, c\<lparr>tx_mem := b\<rparr>)
          })"

definition dsi_cmd_dma_tx :: "'h dsi_hw \<Rightarrow> int \<Rightarrow> dsi_chan \<Rightarrow> 'h \<Rightarrow> int \<times> 'h" where
  "dsi_cmd_dma_tx hw len c h =
     (if dma_err c \<noteq> 0 then (dma_err c, h)
      else if triggers c then
        case hw_tx hw (take (nat len) (tx_mem c)) h of (done, h) \<Rightarrow> (if done then len else - ETIMEDOUT, h)
      else (len, h))"

definition dsi_cmds2buf_tx :: "'h dsi_hw \<Rightarrow> dsi_msg \<Rightarrow> dsi_chan \<times> 'h \<Rightarrow> (int \<times> dsi_chan \<times> 'h) option" where
  "dsi_cmds2buf_tx hw m s =
     (case s of (c, h) \<Rightarrow> do {
        (len, c) \<leftarrow> dsi_cmd_dma_add hw m c;
        if len < 0 then Some (len, c, h)
        else if video_mode c \<and> len > line_bytes c then Some (- EINVAL, c, h)
        else
          case dsi_cmd_dma_tx hw len c h of (r, h) \<Rightarrow>
            if r < 0 then Some (r, c, h) else if r < len then Some (- EIO, c, h) else Some (len, c, h)
      })"

section \<open>Reading\<close>

text \<open>The bytes of a register in the order of \<open>ntohl\<close>.\<close>

definition be_bytes :: "u32 \<Rightarrow> u8 list" where
  "be_bytes w = [ucast (drop_bit 24 w), ucast (drop_bit 16 w), ucast (drop_bit 8 w), ucast w]"

text \<open>
  Copies what the registers hold to \<open>rx_mem\<close> at offset \<open>buf\<close>, without the bytes that an earlier pass
  has read; \<open>rx_byte\<close> is 4 for a short answer.
\<close>

definition dsi_cmd_dma_rx :: "'h dsi_hw \<Rightarrow> nat \<Rightarrow> int \<Rightarrow> int \<Rightarrow> dsi_chan \<times> 'h \<Rightarrow> (int \<times> dsi_chan) option" where
  "dsi_cmd_dma_rx hw buf rx_byte pkt_size s =
     (case s of (c, h) \<Rightarrow>
        let cnt = nat ((rx_byte + 3) div 4); cnt = (if cnt > 4 then 4 else cnt);
            read_cnt = (if rx_byte = 4 then 4 else pkt_size + 6);
            repeated = (if read_cnt > 16 then int buf - (read_cnt - 16) else 0);
            regs = concat (map (\<lambda>i. be_bytes (hw_rdbk hw i h)) (rev [0..<cnt]));
            reg = regs @ take (16 - length regs) (stack c)
        in if repeated < 0 then None
           else do {
             b \<leftarrow> put buf (drop (nat repeated) reg) (rx_mem c);
             Some (int (length (drop (nat repeated) reg)), c\<lparr>rx_mem := b\<rparr>)
           })"

abbreviation MIPI_DSI_SET_MAXIMUM_RETURN_PACKET_SIZE :: u8 where "MIPI_DSI_SET_MAXIMUM_RETURN_PACKET_SIZE \<equiv> 0x37"

definition max_pkt_size_msg :: "dsi_msg \<Rightarrow> int \<Rightarrow> dsi_msg" where
  "max_pkt_size_msg m pkt_size =
     \<lparr>m_channel = m_channel m, m_type = MIPI_DSI_SET_MAXIMUM_RETURN_PACKET_SIZE,
      m_tx = [word_of_int (pkt_size mod 256), word_of_int (pkt_size div 256)], m_rx_len = 0\<rparr>"

text \<open>
  One turn of the loop: a return value, or the number of bytes that \<open>dsi_cmd_dma_rx\<close> has copied.
\<close>

definition read_pass :: "'h dsi_hw \<Rightarrow> dsi_msg \<Rightarrow> nat \<Rightarrow> int \<Rightarrow> int \<Rightarrow> dsi_chan \<times> 'h \<Rightarrow> ((int + int) \<times> dsi_chan \<times> 'h) option" where
  "read_pass hw m buf rx_byte pkt_size s = do {
     (r, c, h) \<leftarrow> dsi_cmds2buf_tx hw (max_pkt_size_msg m pkt_size) s;
     if r < 2 then Some (Inl (- EINVAL), c, h)
     else do {
       (r, c, h) \<leftarrow> dsi_cmds2buf_tx hw m (c, if clears c then hw_clear hw h else h);
       if r < 0 then Some (Inl r, c, h)
       else if r < int (length (m_tx m)) then Some (Inl (- ECOMM), c, h)
       else do {
         (dlen, c) \<leftarrow> dsi_cmd_dma_rx hw buf rx_byte pkt_size (c, h);
         Some (if dlen \<le> 0 then Inl 0 else Inr dlen, c, h)
       }
     }
   }"

text \<open>
  The loop of a long read. \<open>first\<close>: no pass has been made; \<open>rlen\<close>: bytes still to read. In the end
  the packet size and the last \<open>rlen\<close>.
\<close>

function read_loop :: "'h dsi_hw \<Rightarrow> dsi_msg \<Rightarrow> bool \<Rightarrow> nat \<Rightarrow> int \<Rightarrow> int \<Rightarrow> dsi_chan \<times> 'h \<Rightarrow>
    ((int + int \<times> int) \<times> dsi_chan \<times> 'h) option" where
  "read_loop hw m first buf rlen pkt_size s =
     (case read_pass hw m buf 16 pkt_size s of
        None \<Rightarrow> None
      | Some (Inl r, s) \<Rightarrow> Some (Inl r, s)
      | Some (Inr dlen, s) \<Rightarrow>
          let data_byte = (if first then 10 else 14) in
          if rlen \<le> data_byte then Some (Inr (pkt_size, rlen), s)
          else
            let rlen = rlen - data_byte
            in read_loop hw m False (buf + nat (dlen - 2)) rlen (pkt_size + (if rlen < 14 then rlen else 14)) s)"
  by pat_completeness auto

termination
  by (relation "measure (\<lambda>(hw, m, first, buf, rlen, pkt_size, s). nat rlen)") (auto split: if_splits)

declare read_loop.simps [simp del]

text \<open>
  The answers: the return value and what is written to \<open>msg->rx_buf\<close>, which has \<open>m_rx_len\<close> bytes.
\<close>

definition dsi_short_read1_resp :: "u8 list \<Rightarrow> dsi_msg \<Rightarrow> int \<times> u8 list" where
  "dsi_short_read1_resp buf m = (if m_rx_len m \<ge> 1 then (1, [buf ! 1]) else (- EINVAL, []))"

definition dsi_short_read2_resp :: "u8 list \<Rightarrow> dsi_msg \<Rightarrow> int \<times> u8 list" where
  "dsi_short_read2_resp buf m = (if m_rx_len m \<ge> 2 then (2, [buf ! 1, buf ! 2]) else (- EINVAL, []))"

definition dsi_long_read_resp :: "u8 list \<Rightarrow> dsi_msg \<Rightarrow> (int \<times> u8 list) option" where
  "dsi_long_read_resp buf m =
     (if 4 + m_rx_len m > length buf then None else Some (int (m_rx_len m), take (m_rx_len m) (drop 4 buf)))"

definition response :: "u8 list \<Rightarrow> dsi_msg \<Rightarrow> (int \<times> u8 list) option" where
  "response buf m =
     (let cmd = buf ! 0 in
      if cmd = 0x02 then Some (0, [])
      else if cmd = 0x11 \<or> cmd = 0x21 then Some (dsi_short_read1_resp buf m)
      else if cmd = 0x12 \<or> cmd = 0x22 then Some (dsi_short_read2_resp buf m)
      else if cmd = 0x1a \<or> cmd = 0x1c then dsi_long_read_resp buf m
      else Some (0, []))"

definition msm_dsi_host_cmd_rx :: "'h dsi_hw \<Rightarrow> dsi_msg \<Rightarrow> dsi_chan \<times> 'h \<Rightarrow> ((int \<times> u8 list) \<times> dsi_chan \<times> 'h) option" where
  "msm_dsi_host_cmd_rx hw m s =
     (let rlen = int (m_rx_len m) in
      if rlen \<le> 2 then
        case read_pass hw m 0 4 rlen s of
          None \<Rightarrow> None
        | Some (Inl r, s) \<Rightarrow> Some ((r, []), s)
        | Some (Inr _, s) \<Rightarrow> map_option (\<lambda>r. (r, s)) (response (rx_mem (fst s)) m)
      else
        case read_loop hw m True 0 rlen (if rlen < 10 then rlen else 10) s of
          None \<Rightarrow> None
        | Some (Inl r, s) \<Rightarrow> Some ((r, []), s)
        | Some (Inr (pkt_size, rlen), s) \<Rightarrow>
            map_option (\<lambda>r. (r, s))
              (response (drop (if pkt_size < 10 then nat (10 - rlen) else 0) (rx_mem (fst s))) m))"

definition msm_dsi_host_cmd_tx :: "'h dsi_hw \<Rightarrow> dsi_msg \<Rightarrow> dsi_chan \<times> 'h \<Rightarrow> (int \<times> dsi_chan \<times> 'h) option" where
  "msm_dsi_host_cmd_tx hw m s = dsi_cmds2buf_tx hw m s"

end
