(* ===== verification/Dsi_Read_Correct.thy ===== *)
theory Dsi_Read_Correct
  imports Dsi_Cmd
begin

text \<open>
  What is proved of Dsi_Cmd: how a message lies in memory, and that reading returns exactly the bytes
  the panel has. What the panel and the controller do is the locale \<open>dsi_panel\<close>; a simulated panel
  is an instance.
\<close>

section \<open>Packing\<close>

text \<open>The bytes of a message as the controller fetches them.\<close>

definition wire :: "'h dsi_hw \<Rightarrow> dsi_msg \<Rightarrow> dsi_packet \<Rightarrow> u8 list" where
  "wire hw m p =
     [p_header p ! 1, p_header p ! 2, p_header p ! 0, msg_flags hw m] @ p_payload p @ replicate (pad_len (p_size p) - p_size p) 0xff"

lemma put_at: "length a = k \<Longrightarrow> put k bs (a @ b) = (if length bs \<le> length b then Some (a @ bs @ drop (length bs) b) else None)"
  by (auto simp: put_def)

lemma pad_len_bounds: "n \<le> pad_len n" "pad_len n \<le> n + 3" "4 dvd pad_len n"
  by (auto simp: pad_len_def)

lemma pad_len_4: "4 \<le> n \<Longrightarrow> 4 \<le> pad_len n"
  using pad_len_bounds(1) [of n] by simp

lemma dma_add_ok:
  assumes "create_packet hw m = Inr p" and "p_size p = 4 + length (p_payload p)" and "pad_len (p_size p) \<le> length (tx_mem c)"
    and "buf_err c \<ge> 0"
  shows "dsi_cmd_dma_add hw m c =
    Some (int (pad_len (p_size p)), c\<lparr>tx_mem := wire hw m p @ drop (pad_len (p_size p)) (tx_mem c)\<rparr>)"
proof -
  let ?h = "[p_header p ! 1, p_header p ! 2, p_header p ! 0, msg_flags hw m]"
  let ?n = "pad_len (p_size p)"
  have n: "p_size p \<le> ?n" by (rule pad_len_bounds)
  have 1: "put 0 ?h (tx_mem c) = Some (?h @ drop 4 (tx_mem c))"
    using assms(2,3) n by (simp add: put_def eval_nat_numeral)
  have 2: "put 4 (p_payload p) (?h @ drop 4 (tx_mem c)) = Some (?h @ p_payload p @ drop (p_size p) (tx_mem c))"
    using assms(2,3) n by (subst put_at) (simp_all add: add.commute)
  have "put (p_size p) (replicate (?n - p_size p) 0xff) ((?h @ p_payload p) @ drop (p_size p) (tx_mem c)) =
      Some ((?h @ p_payload p) @ replicate (?n - p_size p) 0xff @ drop ?n (tx_mem c))"
    using assms(2,3) n by (subst put_at) (simp_all)
  with assms(3,4) show ?thesis by (simp add: dsi_cmd_dma_add_def assms(1) Let_def 1 [simplified] 2 [simplified] wire_def)
qed

lemma wire_length: "p_size p = 4 + length (p_payload p) \<Longrightarrow> length (wire hw m p) = pad_len (p_size p)"
  using pad_len_bounds(1) [of "p_size p"] by (simp add: wire_def)

text \<open>A channel that works, with the buffers the driver allocates.\<close>

definition chan_ok :: "dsi_chan \<Rightarrow> bool" where
  "chan_ok c \<longleftrightarrow> triggers c \<and> dma_err c = 0 \<and> buf_err c \<ge> 0 \<and> \<not> video_mode c \<and> length (tx_mem c) = 4096 \<and> length (rx_mem c) = 4096 \<and>
     length (stack c) \<ge> 16"

lemma chan_ok_tx: "chan_ok c \<Longrightarrow> length bs = 4096 \<Longrightarrow> chan_ok (c\<lparr>tx_mem := bs\<rparr>)"
  by (simp add: chan_ok_def)

lemma cmd_sent:
  assumes "chan_ok c" and "create_packet hw m = Inr p" and "p_size p = 4 + length (p_payload p)" and "p_size p \<le> 4093"
    and "hw_tx hw (wire hw m p) h = (True, h')"
  obtains c' where "dsi_cmds2buf_tx hw m (c, h) = Some (int (pad_len (p_size p)), c', h')" "chan_ok c'" "rx_mem c' = rx_mem c"
    "stack c' = stack c" "clears c' = clears c"
proof
  let ?c = "c\<lparr>tx_mem := wire hw m p @ drop (pad_len (p_size p)) (tx_mem c)\<rparr>"
  have n: "pad_len (p_size p) \<le> 4096" using assms(4) pad_len_bounds(2) [of "p_size p"] by simp
  have w: "length (wire hw m p) = pad_len (p_size p)" using assms(3) by (rule wire_length)
  have "dsi_cmd_dma_add hw m c = Some (int (pad_len (p_size p)), ?c)"
    using assms(1-3) n by (intro dma_add_ok) (simp_all add: chan_ok_def)
  then show "dsi_cmds2buf_tx hw m (c, h) = Some (int (pad_len (p_size p)), ?c, h')"
    using assms(1,5) w by (simp add: dsi_cmds2buf_tx_def dsi_cmd_dma_tx_def chan_ok_def)
  show "chan_ok ?c" using assms(1) n w by (intro chan_ok_tx) (simp_all add: chan_ok_def)
qed simp_all

section \<open>The panel's answers\<close>

text \<open>
  The registers hold the last 16 bytes that came in: a shift register, whose older content
  (\<open>old\<close>) stays in front of an answer shorter than 16 bytes.
\<close>

definition shifted_in :: "'h dsi_hw \<Rightarrow> 'h \<Rightarrow> u8 list \<Rightarrow> bool" where
  "shifted_in hw h xs \<longleftrightarrow>
     (\<exists>old. length old = 16 \<and> concat (map (\<lambda>i. be_bytes (hw_rdbk hw i h)) [3, 2, 1, 0]) = drop (length xs) (old @ xs))"

section \<open>The registers\<close>

lemma take_exact: "length xs = n \<Longrightarrow> take n (xs @ ys) = xs"
  by simp

lemma be_bytes_length [simp]: "length (be_bytes w) = 4"
  by (simp add: be_bytes_def)

text \<open>An answer of 16 bytes or more: what the buffer does not have yet is appended.\<close>

lemma dma_rx_long:
  assumes "shifted_in hw h xs" and "length xs = k + 6" and "10 \<le> k" and "if k = 10 then buf = 0 else k - 10 \<le> buf \<and> buf \<le> k + 6"
  shows "dsi_cmd_dma_rx hw buf 16 (int k) (c, h) =
    map_option (\<lambda>b. (int (length (drop buf xs)), c\<lparr>rx_mem := b\<rparr>)) (put buf (drop buf xs) (rx_mem c))"
proof -
  obtain old where old: "length old = 16" "concat (map (\<lambda>i. be_bytes (hw_rdbk hw i h)) [3, 2, 1, 0]) = drop (length xs) (old @ xs)"
    using assms(1) by (auto simp: shifted_in_def)
  have w: "concat (map (\<lambda>i. be_bytes (hw_rdbk hw i h)) [3, 2, 1, 0]) = drop (k - 10) xs"
    using old assms(2,3) by simp
  have rev4: "rev [0..<4] = [3, 2, 1, 0 :: nat]" by (simp add: upt_conv_Cons)
  define rep where "rep = (if int k + 6 > 16 then int buf - (int k + 6 - 16) else 0)"
  have "concat (map (\<lambda>i. be_bytes (hw_rdbk hw i h)) (rev [0..<4])) = drop (k - 10) xs" using w by (simp add: rev4)
  moreover have "length (drop (k - 10) xs) = 16" using assms(2,3) by simp
  ultimately have "dsi_cmd_dma_rx hw buf 16 (int k) (c, h) =
      (if rep < 0 then None
       else Option.bind (put buf (drop (nat rep) (drop (k - 10) xs)) (rx_mem c))
         (\<lambda>b. Some (int (length (drop (nat rep) (drop (k - 10) xs))), c\<lparr>rx_mem := b\<rparr>)))"
    unfolding dsi_cmd_dma_rx_def rep_def Let_def prod.case by (simp del: length_drop)
  moreover have "\<not> rep < 0" "nat rep + (k - 10) = buf"
    using assms(3,4) by (auto simp: rep_def split: if_splits)
  ultimately show ?thesis by (cases "put buf (drop buf xs) (rx_mem c)") simp_all
qed

text \<open>A shorter one stands at the end of the 16 bytes.\<close>

lemma dma_rx_single:
  assumes "shifted_in hw h xs" and "length xs = k + 6" and "k < 10" and "length (rx_mem c) = 4096"
  obtains b where "dsi_cmd_dma_rx hw 0 16 (int k) (c, h) = Some (16, c\<lparr>rx_mem := b\<rparr>)" "take (k + 6) (drop (10 - k) b) = xs"
    "length b = 4096"
proof -
  obtain old where old: "length old = 16" "concat (map (\<lambda>i. be_bytes (hw_rdbk hw i h)) [3, 2, 1, 0]) = drop (length xs) (old @ xs)"
    using assms(1) by (auto simp: shifted_in_def)
  have rev4: "rev [0..<4] = [3, 2, 1, 0 :: nat]" by (simp add: upt_conv_Cons)
  let ?b = "(drop (length xs) old @ xs) @ drop 16 (rx_mem c)"
  have 1: "dsi_cmd_dma_rx hw 0 16 (int k) (c, h) = Some (16, c\<lparr>rx_mem := ?b\<rparr>)"
    using old assms(2-4) unfolding dsi_cmd_dma_rx_def Let_def prod.case by (simp add: rev4 put_def)
  have 2: "take (k + 6) (drop (10 - k) ?b) = xs" using old(1) assms(2,3) by simp
  have 3: "length ?b = 4096" using old(1) assms(2-4) by simp
  show thesis by (rule that [OF 1 2 3])
qed

lemma dma_rx_short:
  assumes "shifted_in hw h xs" and "length xs = 4" and "chan_ok c"
  obtains b where "dsi_cmd_dma_rx hw 0 4 k (c, h) = Some (16, c\<lparr>rx_mem := b\<rparr>)" "take 4 b = xs" "length b = 4096"
proof -
  obtain old where old: "length old = 16" "concat (map (\<lambda>i. be_bytes (hw_rdbk hw i h)) [3, 2, 1, 0]) = drop (length xs) (old @ xs)"
    using assms(1) by (auto simp: shifted_in_def)
  have "be_bytes (hw_rdbk hw 0 h) = drop 12 (concat (map (\<lambda>i. be_bytes (hw_rdbk hw i h)) [3, 2, 1, 0]))" by simp
  also have "\<dots> = xs" using old assms(2) by simp
  finally have w: "be_bytes (hw_rdbk hw 0 h) = xs" .
  let ?b = "(xs @ take 12 (stack c)) @ drop 16 (rx_mem c)"
  have 1: "dsi_cmd_dma_rx hw 0 4 k (c, h) = Some (16, c\<lparr>rx_mem := ?b\<rparr>)"
    using assms(2,3) unfolding dsi_cmd_dma_rx_def Let_def prod.case by (simp add: w put_def chan_ok_def)
  have 2: "take 4 ?b = xs" using assms(2) by simp
  have 3: "length ?b = 4096" using assms(2,3) by (simp add: chan_ok_def)
  show thesis by (rule that [OF 1 2 3])
qed

text \<open>
  A panel that answers \<open>m\<close> with \<open>data\<close>, as the DSI standard says: \<open>limit\<close> is the maximum return packet size it was told.
  At most two bytes come in a short packet, more in a long one, with a header of four bytes and a
  check sum of two; a long packet carries the first \<open>limit\<close> bytes.
\<close>

locale dsi_panel =
  fixes hw :: "'h dsi_hw" and m :: dsi_msg and data :: "u8 list" and limit :: "'h \<Rightarrow> nat"
  assumes rx_len: "m_rx_len m = length data" "data \<noteq> []" "length data \<le> 4000"
    and packets: "m' = m \<or> (\<exists>n. m' = max_pkt_size_msg m n) \<Longrightarrow>
      \<exists>p. create_packet hw m' = Inr p \<and> p_size p = 4 + length (p_payload p) \<and> p_size p \<le> 4093 \<and> length (m_tx m') \<le> p_size p"
    and set_limit: "create_packet hw (max_pkt_size_msg m (int n)) = Inr p \<Longrightarrow> n < 65536 \<Longrightarrow>
      \<exists>h'. hw_tx hw (wire hw (max_pkt_size_msg m (int n)) p) h = (True, h') \<and> limit h' = n"
    and clear_limit: "limit (hw_clear hw h) = limit h"
    and answer: "create_packet hw m = Inr p \<Longrightarrow> n = limit h \<Longrightarrow> 0 < n \<Longrightarrow> n \<le> length data \<Longrightarrow>
      \<exists>h' ty hd crc. hw_tx hw (wire hw m p) h = (True, h') \<and> length hd = 3 \<and> length crc = 2 \<and>
        (if length data = 1 then ty \<in> {0x11, 0x21} \<and> shifted_in hw h' [ty, data ! 0, hd ! 0, hd ! 1]
         else if length data = 2 then ty \<in> {0x12, 0x22} \<and> shifted_in hw h' [ty, data ! 0, data ! 1, hd ! 0]
         else ty \<in> {0x1a, 0x1c} \<and> shifted_in hw h' (ty # hd @ take n data @ crc))"
begin

lemma pass_sent:
  assumes "chan_ok c" and "0 < n" and "n \<le> length data"
  obtains c' h' ty hd crc where "chan_ok c'" "rx_mem c' = rx_mem c" "length hd = 3" "length crc = 2"
    "if length data = 1 then ty \<in> {0x11, 0x21} \<and> shifted_in hw h' [ty, data ! 0, hd ! 0, hd ! 1]
         else if length data = 2 then ty \<in> {0x12, 0x22} \<and> shifted_in hw h' [ty, data ! 0, data ! 1, hd ! 0]
         else ty \<in> {0x1a, 0x1c} \<and> shifted_in hw h' (ty # hd @ take n data @ crc)"
    "read_pass hw m buf rx_byte (int n) (c, h) =
      map_option (\<lambda>(dlen, c). (if dlen \<le> 0 then Inl 0 else Inr dlen, c, h')) (dsi_cmd_dma_rx hw buf rx_byte (int n) (c', h'))"
proof -
  have n: "n < 65536" using assms(3) rx_len by simp
  obtain p1 where p1: "create_packet hw (max_pkt_size_msg m (int n)) = Inr p1" "p_size p1 = 4 + length (p_payload p1)" "p_size p1 \<le> 4093"
    using packets by blast
  obtain h1 where h1: "hw_tx hw (wire hw (max_pkt_size_msg m (int n)) p1) h = (True, h1)" "limit h1 = n"
    using set_limit [OF p1(1) n] by blast
  obtain c1 where c1: "dsi_cmds2buf_tx hw (max_pkt_size_msg m (int n)) (c, h) = Some (int (pad_len (p_size p1)), c1, h1)"
      "chan_ok c1" "rx_mem c1 = rx_mem c"
    by (rule cmd_sent [OF assms(1) p1 h1(1)])
  define h2 where "h2 = (if clears c1 then hw_clear hw h1 else h1)"
  have l2: "n = limit h2" by (simp add: h2_def clear_limit h1(2))
  obtain p2 where p2: "create_packet hw m = Inr p2" "p_size p2 = 4 + length (p_payload p2)" "p_size p2 \<le> 4093" "length (m_tx m) \<le> p_size p2"
    using packets by blast
  obtain h3 ty hd crc where h3: "hw_tx hw (wire hw m p2) h2 = (True, h3)" "length hd = 3" "length crc = 2"
    and cases: "if length data = 1 then ty \<in> {0x11, 0x21} \<and> shifted_in hw h3 [ty, data ! 0, hd ! 0, hd ! 1]
         else if length data = 2 then ty \<in> {0x12, 0x22} \<and> shifted_in hw h3 [ty, data ! 0, data ! 1, hd ! 0]
         else ty \<in> {0x1a, 0x1c} \<and> shifted_in hw h3 (ty # hd @ take n data @ crc)"
    using answer [OF p2(1) l2 assms(2,3)] by blast
  obtain c2 where c2: "dsi_cmds2buf_tx hw m (c1, h2) = Some (int (pad_len (p_size p2)), c2, h3)" "chan_ok c2" "rx_mem c2 = rx_mem c1"
    by (rule cmd_sent [OF c1(2) p2(1-3) h3(1)])
  have "4 \<le> pad_len (p_size p1)" using pad_len_4 [of "p_size p1"] p1(2) by simp
  moreover have "length (m_tx m) \<le> pad_len (p_size p2)" using p2(4) pad_len_bounds(1) [of "p_size p2"] by simp
  ultimately have "read_pass hw m buf rx_byte (int n) (c, h) =
      map_option (\<lambda>(dlen, c). (if dlen \<le> 0 then Inl 0 else Inr dlen, c, h3)) (dsi_cmd_dma_rx hw buf rx_byte (int n) (c2, h3))"
    by (simp add: read_pass_def c1(1) c2(1) h2_def [symmetric])
      (cases "dsi_cmd_dma_rx hw buf rx_byte (int n) (c2, h3)"; auto)
  with that [of c2 hd crc ty h3] c1(3) c2(2,3) h3(2,3) cases show thesis by simp
qed

lemma pass_sent_long:
  assumes "chan_ok c" and "0 < n" and "n \<le> length data" and "2 < length data"
  obtains c' h' ty hd crc where "chan_ok c'" "rx_mem c' = rx_mem c" "length hd = 3" "length crc = 2"
    "ty \<in> {0x1a, 0x1c}" "shifted_in hw h' (ty # hd @ take n data @ crc)"
    "read_pass hw m buf rx_byte (int n) (c, h) =
      map_option (\<lambda>(dlen, c). (if dlen \<le> 0 then Inl 0 else Inr dlen, c, h')) (dsi_cmd_dma_rx hw buf rx_byte (int n) (c', h'))"
proof (rule pass_sent [OF assms(1-3), of buf rx_byte h])
  fix c' h' ty hd crc
  assume "chan_ok c'" "rx_mem c' = rx_mem c" "length hd = 3" "length crc = 2"
    "if length data = 1 then ty \<in> {0x11, 0x21} \<and> shifted_in hw h' [ty, data ! 0, hd ! 0, hd ! 1]
         else if length data = 2 then ty \<in> {0x12, 0x22} \<and> shifted_in hw h' [ty, data ! 0, data ! 1, hd ! 0]
         else ty \<in> {0x1a, 0x1c} \<and> shifted_in hw h' (ty # hd @ take n data @ crc)"
    "read_pass hw m buf rx_byte (int n) (c, h) =
      map_option (\<lambda>(dlen, c). (if dlen \<le> 0 then Inl 0 else Inr dlen, c, h')) (dsi_cmd_dma_rx hw buf rx_byte (int n) (c', h'))"
  with assms(4) show thesis by (intro that [of c' hd crc ty h']) (auto split: if_splits)
qed

lemma put_end:
  assumes "buf + length bs \<le> length mem"
  shows "\<exists>b. put buf bs mem = Some b \<and> length b = length mem \<and> take (buf + length bs) b = take buf mem @ bs"
  using assms by (simp add: put_def)

text \<open>A pass that is not the first: \<open>d\<close> bytes have been read, and now the bytes up to \<open>k\<close> arrive.\<close>

lemma pass_long:
  assumes "chan_ok c" and "2 < length data" and "d < k" and "k \<le> d + 14" and "k \<le> length data" and "10 \<le> d"
    and "take (d + 4) (rx_mem c) = hd0 @ take d data"
  obtains c' h' where "read_pass hw m (d + 4) 16 (int k) (c, h) = Some (Inr (int (k - d + 2)), c', h')" "chan_ok c'"
    "take (k + 4) (rx_mem c') = hd0 @ take k data"
proof -
  have k: "0 < k" using assms(3) by simp
  obtain c1 h1 ty hd crc where 1: "chan_ok c1" "rx_mem c1 = rx_mem c" "length hd = 3" "length crc = 2"
      "ty \<in> {0x1a, 0x1c}" "shifted_in hw h1 (ty # hd @ take k data @ crc)"
      "read_pass hw m (d + 4) 16 (int k) (c, h) =
        map_option (\<lambda>(dlen, c). (if dlen \<le> 0 then Inl 0 else Inr dlen, c, h1)) (dsi_cmd_dma_rx hw (d + 4) 16 (int k) (c1, h1))"
    by (rule pass_sent_long [OF assms(1) k assms(5,2)])
  let ?xs = "ty # hd @ take k data @ crc"
  have len: "length ?xs = k + 6" using 1(3,4) assms(5) by simp
  have "drop 4 ?xs = take k data @ crc" using 1(3) by (simp add: drop_Cons')
  then have "drop d (drop 4 ?xs) = drop d (take k data) @ crc" using assms(3,5) by simp
  then have rest: "drop (d + 4) ?xs = drop d (take k data) @ crc" by (simp only: drop_drop)
  have rx: "dsi_cmd_dma_rx hw (d + 4) 16 (int k) (c1, h1) =
      map_option (\<lambda>b. (int (length (drop (d + 4) ?xs)), c1\<lparr>rx_mem := b\<rparr>)) (put (d + 4) (drop (d + 4) ?xs) (rx_mem c1))"
    using assms(3-6) by (intro dma_rx_long [OF _ len]) (use 1(6) in auto)
  have n: "length (drop (d + 4) ?xs) = k - d + 2" using len assms(3) by simp
  have "d + 4 + length (drop (d + 4) ?xs) \<le> length (rx_mem c1)"
    using n 1(1) assms(3,5) rx_len(3) by (simp add: chan_ok_def)
  from put_end [OF this] obtain b where b: "put (d + 4) (drop (d + 4) ?xs) (rx_mem c1) = Some b" "length b = length (rx_mem c1)"
      "take (d + 4 + length (drop (d + 4) ?xs)) b = take (d + 4) (rx_mem c1) @ drop (d + 4) ?xs" by blast
  show thesis
  proof (rule that)
    show "read_pass hw m (d + 4) 16 (int k) (c, h) = Some (Inr (int (k - d + 2)), c1\<lparr>rx_mem := b\<rparr>, h1)"
      using 1(7) rx b(1) n assms(3) by simp
    show "chan_ok (c1\<lparr>rx_mem := b\<rparr>)" using 1(1) b(2) by (simp add: chan_ok_def)
    have "take (k + 4) b = take (k + 4) (take (d + 4 + length (drop (d + 4) ?xs)) b)" using n assms(3) by simp
    also have "\<dots> = take (k + 4) ((hd0 @ take d data) @ drop d (take k data) @ crc)"
      by (subst b(3)) (simp only: 1(2) assms(7) rest)
    also have "\<dots> = hd0 @ take k data"
    proof -
      have l0: "length (hd0 @ take d data) = d + 4"
        unfolding assms(7) [symmetric] using assms(1,3,5) rx_len(3) by (simp add: chan_ok_def)
      have "take d data @ drop d (take k data) = take k data"
        using assms(3) by (metis append_take_drop_id min.absorb1 less_imp_le take_take)
      then have "(hd0 @ take d data) @ drop d (take k data) @ crc = (hd0 @ take k data) @ crc" by simp
      moreover have "length (hd0 @ take k data) = k + 4" using l0 assms(3,5) by simp
      ultimately show ?thesis using take_exact [of "hd0 @ take k data" "k + 4" crc] by (simp only:)
    qed
    finally show "take (k + 4) (rx_mem (c1\<lparr>rx_mem := b\<rparr>)) = hd0 @ take k data" by simp
  qed
qed

lemma loop_long:
  assumes "chan_ok c" and "2 < length data" and "0 < r" and "d + r = length data" and "10 \<le> d"
    and "take (d + 4) (rx_mem c) = hd0 @ take d data"
  shows "\<exists>c' h' k. read_loop hw m False (d + 4) (int r) (int (d + min r 14)) (c, h) = Some (Inr k, c', h') \<and> 10 \<le> fst k \<and>
    chan_ok c' \<and> take (length data + 4) (rx_mem c') = hd0 @ data"
  using assms
proof (induction r arbitrary: d c h rule: less_induct)
  case (less r)
  have 1: "d < d + min r 14" "d + min r 14 \<le> d + 14" "d + min r 14 \<le> length data" using less.prems by simp_all
  obtain c' h' where p: "read_pass hw m (d + 4) 16 (int (d + min r 14)) (c, h) = Some (Inr (int (d + min r 14 - d + 2)), c', h')"
      "chan_ok c'" "take (d + min r 14 + 4) (rx_mem c') = hd0 @ take (d + min r 14) data"
    by (rule pass_long [OF less.prems(1,2) 1 less.prems(5,6)])
  show ?case
  proof (cases "r \<le> 14")
    case True
    then show ?thesis
      using p less.prems by (subst read_loop.simps) (simp add: min_def)
  next
    case False
    have step: "read_loop hw m False (d + 4) (int r) (int (d + min r 14)) (c, h) =
        read_loop hw m False (d + 14 + 4) (int (r - 14)) (int (d + 14 + min (r - 14) 14)) (c', h')"
    proof -
      have a: "int (d + min r 14) = int (d + 14)" "\<not> int r \<le> 14" "int r - 14 = int (r - 14)" using False by simp_all
      have b: "int (d + 14) + (if int (r - 14) < 14 then int (r - 14) else 14) = int (d + 14 + min (r - 14) 14)" by simp
      have q: "read_pass hw m (d + 4) 16 (int (d + 14)) (c, h) = Some (Inr 16, c', h')" using p(1) False by (simp add: min_def)
      have n: "d + 4 + nat (16 - 2) = d + 14 + 4" by simp
      show ?thesis
        by (subst read_loop.simps) (simp only: a q b n option.case prod.case sum.case Let_def if_False if_True simp_thms)
    qed
    have "take (d + 14 + 4) (rx_mem c') = hd0 @ take (d + 14) data" using p(3) False by (simp add: min_def)
    then show ?thesis
      unfolding step using less.IH [of "r - 14" c' "d + 14" h'] less.prems(2,4) p(2) False by simp
  qed
qed

lemma response_long: "ty \<in> {0x1a, 0x1c} \<Longrightarrow> length hs = 3 \<Longrightarrow> 4 + length data \<le> length b \<Longrightarrow>
  take (length data + 4) b = ty # hs @ data \<Longrightarrow> response b m = Some (int (length data), data)"
proof -
  assume a: "ty \<in> {0x1a, 0x1c}" "length hs = 3" "4 + length data \<le> length b" "take (length data + 4) b = ty # hs @ data"
  have "b ! 0 = take (length data + 4) b ! 0" by simp
  also have "\<dots> = ty" using a(4) by simp
  finally have ty: "b ! 0 = ty" .
  have "take (length data) (drop 4 b) = drop 4 (take (length data + 4) b)" by (simp add: drop_take)
  also have "\<dots> = data" using a(2,4) by (simp add: drop_Cons')
  finally show "response b m = Some (int (length data), data)"
    using a(1,3) by (auto simp: response_def ty dsi_long_read_resp_def rx_len(1))
qed

text \<open>Up to ten bytes: one pass.\<close>

lemma read_once:
  assumes "chan_ok c" and "2 < length data" and "length data \<le> 10"
  shows "\<exists>c' h'. msm_dsi_host_cmd_rx hw m (c, h) = Some ((int (length data), data), c', h') \<and> chan_ok c'"
proof -
  let ?n = "length data"
  have n: "0 < ?n" using assms(2) by linarith
  obtain c1 h1 ty hd crc where 1: "chan_ok c1" "rx_mem c1 = rx_mem c" "length hd = 3" "length crc = 2"
      "ty \<in> {0x1a, 0x1c}" "shifted_in hw h1 (ty # hd @ take ?n data @ crc)"
      "read_pass hw m 0 16 (int ?n) (c, h) =
        map_option (\<lambda>(dlen, c). (if dlen \<le> 0 then Inl 0 else Inr dlen, c, h1)) (dsi_cmd_dma_rx hw 0 16 (int ?n) (c1, h1))"
    by (rule pass_sent_long [OF assms(1) n order_refl assms(2)])
  let ?xs = "ty # hd @ data @ crc"
  have len: "length ?xs = ?n + 6" using 1(3,4) by simp
  have sh: "shifted_in hw h1 ?xs" using 1(6) by simp
  obtain b where b: "dsi_cmd_dma_rx hw 0 16 (int ?n) (c1, h1) = Some (16, c1\<lparr>rx_mem := b\<rparr>)" "length b = 4096"
      "take (?n + 6) (drop (10 - ?n) b) = ?xs"
  proof (cases "?n < 10")
    case True
    have m: "length (rx_mem c1) = 4096" using 1(1) by (simp add: chan_ok_def)
    show thesis by (rule dma_rx_single [OF sh len True m]) (rule that)
  next
    case False
    with assms(3) have ten: "?n = 10" by simp
    have rx: "dsi_cmd_dma_rx hw 0 16 (int ?n) (c1, h1) =
        map_option (\<lambda>b. (int (length (drop 0 ?xs)), c1\<lparr>rx_mem := b\<rparr>)) (put 0 (drop 0 ?xs) (rx_mem c1))"
      by (rule dma_rx_long [OF sh len]) (simp_all add: ten)
    have "0 + length ?xs \<le> length (rx_mem c1)" using 1(1) len ten by (simp add: chan_ok_def)
    from put_end [OF this] obtain b where "put 0 ?xs (rx_mem c1) = Some b" "length b = length (rx_mem c1)" "take (length ?xs) b = ?xs"
      by auto
    with that [of b] rx len ten 1(1) show thesis by (simp add: chan_ok_def)
  qed
  have "take (?n + 4) (drop (10 - ?n) b) = take (?n + 4) (take (?n + 6) (drop (10 - ?n) b))" by simp
  also have "\<dots> = ty # hd @ data"
    unfolding b(3) using 1(3) take_exact [of "ty # hd @ data" "?n + 4" crc] by simp
  finally have "response (drop (10 - ?n) b) m = Some (int ?n, data)"
    using b(2) assms(3) by (intro response_long [OF 1(5,3)]) simp_all
  moreover have "read_loop hw m True 0 (int ?n) (int ?n) (c, h) = Some (Inr (int ?n, int ?n), c1\<lparr>rx_mem := b\<rparr>, h1)"
    using 1(7) b(1) assms(3) by (subst read_loop.simps) simp
  moreover have "nat (10 - int ?n) = 10 - ?n" by simp
  ultimately have "msm_dsi_host_cmd_rx hw m (c, h) = Some ((int ?n, data), c1\<lparr>rx_mem := b\<rparr>, h1)"
    using assms(2,3) by (cases "?n = 10") (simp_all add: msm_dsi_host_cmd_rx_def Let_def rx_len(1))
  moreover have "chan_ok (c1\<lparr>rx_mem := b\<rparr>)" using 1(1) b(2) by (simp add: chan_ok_def)
  ultimately show ?thesis by blast
qed

lemma read_many:
  assumes "chan_ok c" and "10 < length data"
  shows "\<exists>c' h'. msm_dsi_host_cmd_rx hw m (c, h) = Some ((int (length data), data), c', h') \<and> chan_ok c'"
proof -
  let ?n = "length data"
  have n: "0 < (10 :: nat)" "10 \<le> ?n" "2 < ?n" using assms(2) by simp_all
  obtain c1 h1 ty hd crc where 1: "chan_ok c1" "rx_mem c1 = rx_mem c" "length hd = 3" "length crc = 2"
      "ty \<in> {0x1a, 0x1c}" "shifted_in hw h1 (ty # hd @ take 10 data @ crc)"
      "read_pass hw m 0 16 (int 10) (c, h) =
        map_option (\<lambda>(dlen, c). (if dlen \<le> 0 then Inl 0 else Inr dlen, c, h1)) (dsi_cmd_dma_rx hw 0 16 (int 10) (c1, h1))"
    by (rule pass_sent_long [OF assms(1) n])
  let ?xs = "ty # hd @ take 10 data @ crc"
  have len: "length ?xs = 10 + 6" using 1(3,4) assms(2) by simp
  have rx: "dsi_cmd_dma_rx hw 0 16 (int 10) (c1, h1) =
      map_option (\<lambda>b. (int (length (drop 0 ?xs)), c1\<lparr>rx_mem := b\<rparr>)) (put 0 (drop 0 ?xs) (rx_mem c1))"
    by (rule dma_rx_long [OF 1(6) len]) simp_all
  have "0 + length ?xs \<le> length (rx_mem c1)" using 1(1) len by (simp add: chan_ok_def)
  from put_end [OF this] obtain b where b: "put 0 ?xs (rx_mem c1) = Some b" "length b = length (rx_mem c1)" "take (length ?xs) b = ?xs"
    by auto
  have pass: "read_pass hw m 0 16 10 (c, h) = Some (Inr 16, c1\<lparr>rx_mem := b\<rparr>, h1)" using 1(7) rx b(1) len by simp
  have ok: "chan_ok (c1\<lparr>rx_mem := b\<rparr>)" using 1(1) b(2) by (simp add: chan_ok_def)
  have "take (10 + 4) b = take 14 (take (length ?xs) b)" using len by simp
  also have "\<dots> = (ty # hd) @ take 10 data" unfolding b(3) using 1(3) assms(2) by simp
  finally have hd: "take (10 + 4) (rx_mem (c1\<lparr>rx_mem := b\<rparr>)) = (ty # hd) @ take 10 data" by simp
  obtain c2 h2 k where 2: "read_loop hw m False (10 + 4) (int (?n - 10)) (int (10 + min (?n - 10) 14)) (c1\<lparr>rx_mem := b\<rparr>, h1) = Some (Inr k, c2, h2)"
      "10 \<le> fst k" "chan_ok c2" "take (?n + 4) (rx_mem c2) = (ty # hd) @ data"
    using loop_long [OF ok n(3), of "?n - 10" 10 "ty # hd" h1] assms(2) hd by auto
  have "read_loop hw m True 0 (int ?n) 10 (c, h) = Some (Inr k, c2, h2)"
  proof -
    have a: "\<not> int ?n \<le> 10" "int ?n - 10 = int (?n - 10)" "10 + (if int (?n - 10) < 14 then int (?n - 10) else 14) = int (10 + min (?n - 10) 14)"
      "0 + nat (16 - 2) = 10 + 4" using assms(2) by simp_all
    show ?thesis
      by (subst read_loop.simps) (simp only: pass a 2(1) option.case prod.case sum.case Let_def if_False if_True simp_thms)
  qed
  moreover have "response (rx_mem c2) m = Some (int ?n, data)"
    using 2(3,4) rx_len(3) by (intro response_long [OF 1(5,3)]) (simp_all add: chan_ok_def)
  ultimately have "msm_dsi_host_cmd_rx hw m (c, h) = Some ((int ?n, data), c2, h2)"
    using assms(2) 2(2) by (cases k) (simp add: msm_dsi_host_cmd_rx_def Let_def rx_len(1))
  with 2(3) show ?thesis by blast
qed

lemma read_short:
  assumes "chan_ok c" and "length data \<le> 2"
  shows "\<exists>c' h'. msm_dsi_host_cmd_rx hw m (c, h) = Some ((int (length data), data), c', h') \<and> chan_ok c'"
proof -
  let ?n = "length data"
  have n: "0 < ?n" "?n \<le> ?n" using rx_len(2) by simp_all
  obtain c1 h1 ty hd crc where 1: "chan_ok c1" "rx_mem c1 = rx_mem c" "length hd = 3" "length crc = 2"
    "if ?n = 1 then ty \<in> {0x11, 0x21} \<and> shifted_in hw h1 [ty, data ! 0, hd ! 0, hd ! 1]
         else if ?n = 2 then ty \<in> {0x12, 0x22} \<and> shifted_in hw h1 [ty, data ! 0, data ! 1, hd ! 0]
         else ty \<in> {0x1a, 0x1c} \<and> shifted_in hw h1 (ty # hd @ take ?n data @ crc)"
    "read_pass hw m 0 4 (int ?n) (c, h) =
      map_option (\<lambda>(dlen, c). (if dlen \<le> 0 then Inl 0 else Inr dlen, c, h1)) (dsi_cmd_dma_rx hw 0 4 (int ?n) (c1, h1))"
    by (rule pass_sent [OF assms(1) n])
  define xs where "xs = (if ?n = 1 then [ty, data ! 0, hd ! 0, hd ! 1] else [ty, data ! 0, data ! 1, hd ! 0])"
  have one_two: "?n = 1 \<or> ?n = 2" using n(1) assms(2) by linarith
  then have sh: "shifted_in hw h1 xs" "length xs = 4" using 1(5) by (auto simp: xs_def split: if_splits)
  obtain b where b: "dsi_cmd_dma_rx hw 0 4 (int ?n) (c1, h1) = Some (16, c1\<lparr>rx_mem := b\<rparr>)" "take 4 b = xs" "length b = 4096"
    by (rule dma_rx_short [OF sh 1(1)])
  have nth: "b ! i = xs ! i" if "i < 4" for i unfolding b(2) [symmetric] using that by simp
  have data: "data = (if ?n = 1 then [data ! 0] else [data ! 0, data ! 1])"
    using n(1) assms(2) by (cases data rule: list.exhaust) (auto simp: le_Suc_eq length_Suc_conv)
  have "response b m = Some (int ?n, data)"
    using 1(5) one_two data
    by (auto simp: response_def nth xs_def dsi_short_read1_resp_def dsi_short_read2_resp_def rx_len(1) split: if_splits)
  then have "msm_dsi_host_cmd_rx hw m (c, h) = Some ((int ?n, data), c1\<lparr>rx_mem := b\<rparr>, h1)"
    using 1(6) b(1) assms(2) by (simp add: msm_dsi_host_cmd_rx_def Let_def rx_len(1))
  moreover have "chan_ok (c1\<lparr>rx_mem := b\<rparr>)" using 1(1) b(3) by (simp add: chan_ok_def)
  ultimately show ?thesis by blast
qed

lemma read_exact:
  "chan_ok c \<Longrightarrow> \<exists>c' h'. msm_dsi_host_cmd_rx hw m (c, h) = Some ((int (length data), data), c', h') \<and> chan_ok c'"
  using read_short read_once read_many by (cases "length data \<le> 2"; cases "length data \<le> 10") auto

end

section \<open>A panel\<close>

text \<open>A panel that gives the bytes 1 to 30, behind a controller with the packet format of the standard.\<close>

record sim_panel =
  sp_limit :: nat
  sp_window :: "u8 list"

definition sim_data :: "u8 list" where
  "sim_data = map word_of_nat [1..<31]"

definition sim_answer :: "nat \<Rightarrow> u8 list" where
  "sim_answer n = 0x1c # [word_of_nat n, word_of_nat (n div 256), 0] @ take n sim_data @ [0xaa, 0xbb]"

definition of_be :: "u8 list \<Rightarrow> u32" where
  "of_be bs = push_bit 24 (ucast (bs ! 0)) OR push_bit 16 (ucast (bs ! 1)) OR push_bit 8 (ucast (bs ! 2)) OR ucast (bs ! 3)"

definition std_packet :: "dsi_msg \<Rightarrow> int + dsi_packet" where
  "std_packet m =
     (if m_type m = 0x39 \<or> m_type m = 0x29 then
        Inr \<lparr>p_size = 4 + length (m_tx m),
             p_header = [push_bit 6 (m_channel m) OR m_type m, word_of_nat (length (m_tx m)), word_of_nat (length (m_tx m) div 256), 0],
             p_payload = m_tx m\<rparr>
      else
        Inr \<lparr>p_size = 4,
             p_header = [push_bit 6 (m_channel m) OR m_type m, if length (m_tx m) > 0 then m_tx m ! 0 else 0,
                         if length (m_tx m) > 1 then m_tx m ! 1 else 0, 0],
             p_payload = []\<rparr>)"

definition sim_hw :: "sim_panel dsi_hw" where
  "sim_hw =
     \<lparr>create_packet = std_packet, is_long = (\<lambda>t. t = 0x39 \<or> t = 0x29),
      hw_tx = (\<lambda>bs h. (True, if bs ! 2 = 0x37 then h\<lparr>sp_limit := unat (bs ! 0) + 256 * unat (bs ! 1)\<rparr>
                              else h\<lparr>sp_window := drop (length (sim_answer (sp_limit h))) (replicate 16 0 @ sim_answer (sp_limit h))\<rparr>)),
      hw_rdbk = (\<lambda>i h. of_be (take 4 (drop (12 - 4 * i) (sp_window h)))),
      hw_clear = (\<lambda>h. h\<lparr>sp_window := replicate 16 0\<rparr>)\<rparr>"

text \<open>The DCS command that reads the identification, 0xbf.\<close>

definition sim_msg :: dsi_msg where
  "sim_msg = \<lparr>m_channel = 0, m_type = 0x06, m_tx = [0xbf], m_rx_len = 30\<rparr>"

lemma be_bytes_of_be: "be_bytes (of_be [a, b, c, d]) = [a, b, c, d]"
  by (auto simp: be_bytes_def of_be_def bit_simps intro!: bit_word_eqI) (auto dest!: bit_imp_le_length)

lemma four_list: "length xs = 4 \<Longrightarrow> \<exists>a b c d. xs = [a, b, c, d]"
  by (auto simp: eval_nat_numeral length_Suc_conv)

lemma window_bytes:
  assumes "length w = 16"
  shows "concat (map (\<lambda>i. be_bytes (of_be (take 4 (drop (12 - 4 * i) w)))) [3, 2, 1, 0]) = w"
proof -
  have four: "be_bytes (of_be (take 4 (drop k w))) = take 4 (drop k w)" if "k \<le> 12" for k
  proof -
    have "length (take 4 (drop k w)) = 4" using that assms by simp
    from four_list [OF this] obtain a b c d where "take 4 (drop k w) = [a, b, c, d]" by blast
    then show ?thesis by (simp add: be_bytes_of_be)
  qed
  have split: "w = take 4 w @ take 4 (drop 4 w) @ take 4 (drop 8 w) @ take 4 (drop 12 w)"
    using assms append_take_drop_id [of 4 w] append_take_drop_id [of 4 "drop 4 w"] append_take_drop_id [of 4 "drop 8 w"] by simp
  show ?thesis using four [of 0] four [of 4] four [of 8] four [of 12] by (simp add: split [symmetric])
qed

lemma two_bytes: "n < 65536 \<Longrightarrow> unat (word_of_int (int n mod 256) :: u8) + 256 * unat (word_of_int (int n div 256) :: u8) = n"
proof -
  assume "n < 65536"
  then have "n div 256 < 256" by simp
  moreover have "unat (word_of_int (int k) :: u8) = k mod 256" for k
    by (simp add: unsigned_of_nat take_bit_eq_mod)
  ultimately have "unat (word_of_int (int (n mod 256)) :: u8) + 256 * unat (word_of_int (int (n div 256)) :: u8) = n mod 256 + 256 * (n div 256)"
    by simp
  then show ?thesis by (simp add: zmod_int zdiv_int)
qed

interpretation sim: dsi_panel sim_hw sim_msg sim_data sp_limit
proof
  show "m_rx_len sim_msg = length sim_data" "sim_data \<noteq> []" "length sim_data \<le> 4000"
    by (simp_all add: sim_msg_def sim_data_def)
  show "\<exists>p. create_packet sim_hw m' = Inr p \<and> p_size p = 4 + length (p_payload p) \<and> p_size p \<le> 4093 \<and> length (m_tx m') \<le> p_size p"
    if "m' = sim_msg \<or> (\<exists>n. m' = max_pkt_size_msg sim_msg n)" for m'
    using that by (auto simp: sim_hw_def std_packet_def sim_msg_def max_pkt_size_msg_def)
  show "\<exists>h'. hw_tx sim_hw (wire sim_hw (max_pkt_size_msg sim_msg (int n)) p) h = (True, h') \<and> sp_limit h' = n"
    if "create_packet sim_hw (max_pkt_size_msg sim_msg (int n)) = Inr p" "n < 65536" for n p h
    using that(1) two_bytes [OF that(2)]
    by (auto simp: sim_hw_def std_packet_def sim_msg_def max_pkt_size_msg_def wire_def)
  show "sp_limit (hw_clear sim_hw h) = sp_limit h" for h by (simp add: sim_hw_def)
  show "\<exists>h' ty hd crc. hw_tx sim_hw (wire sim_hw sim_msg p) h = (True, h') \<and> length hd = 3 \<and> length crc = 2 \<and>
        (if length sim_data = 1 then ty \<in> {0x11, 0x21} \<and> shifted_in sim_hw h' [ty, sim_data ! 0, hd ! 0, hd ! 1]
         else if length sim_data = 2 then ty \<in> {0x12, 0x22} \<and> shifted_in sim_hw h' [ty, sim_data ! 0, sim_data ! 1, hd ! 0]
         else ty \<in> {0x1a, 0x1c} \<and> shifted_in sim_hw h' (ty # hd @ take n sim_data @ crc))"
    if "create_packet sim_hw sim_msg = Inr p" "n = sp_limit h" "0 < n" "n \<le> length sim_data" for p n h
  proof -
    let ?h = "h\<lparr>sp_window := drop (length (sim_answer n)) (replicate 16 0 @ sim_answer n)\<rparr>"
    have tx: "hw_tx sim_hw (wire sim_hw sim_msg p) h = (True, ?h)"
      using that(1,2) by (auto simp: sim_hw_def std_packet_def sim_msg_def wire_def)
    have "length (drop (length (sim_answer n)) (replicate 16 0 @ sim_answer n)) = 16" by simp
    from window_bytes [OF this] have sh: "shifted_in sim_hw ?h (sim_answer n)"
      by (auto simp: shifted_in_def sim_hw_def intro!: exI [of _ "replicate 16 0"])
    have len: "length sim_data \<noteq> 1" "length sim_data \<noteq> 2" by (simp_all add: sim_data_def)
    show ?thesis
      using tx sh len unfolding sim_answer_def
      by (intro exI [of _ ?h] exI [of _ "0x1c"] exI [of _ "[word_of_nat n, word_of_nat (n div 256), 0]"] exI [of _ "[0xaa, 0xbb]"])
        (simp add: sim_answer_def)
  qed
qed

section \<open>Properties\<close>

text \<open>
  A message is laid out in the DMA buffer as the controller wants it: the header rotated, with
  the flag bits behind it, the payload, and 0xff up to a multiple of four bytes. It is refused,
  with the buffer untouched, if it does not fit.
\<close>

theorem dsi_packet_in_memory:
  assumes "create_packet hw m = Inr p" and "p_size p = 4 + length (p_payload p)" and "buf_err c \<ge> 0"
  shows "dsi_cmd_dma_add hw m c =
    (if pad_len (p_size p) \<le> length (tx_mem c)
     then Some (int (pad_len (p_size p)), c\<lparr>tx_mem := wire hw m p @ drop (pad_len (p_size p)) (tx_mem c)\<rparr>)
     else Some (- EINVAL, c)) \<and> length (wire hw m p) = pad_len (p_size p) \<and> 4 dvd pad_len (p_size p)"
  using dma_add_ok [OF assms(1,2) _ assms(3)] wire_length [OF assms(2)] pad_len_bounds(3)
  by (simp add: dsi_cmd_dma_add_def assms(1) Let_def)

text \<open>
  C31. Reading returns exactly what the panel has: for any length up to 4000 bytes the loop ends,
  asks for growing prefixes, puts the pieces together although each answer repeats bytes and only its last 16
  bytes are in the registers, and leaves no buffer.
\<close>

theorem dsi_read_exact:
  assumes "dsi_panel hw m data limit" and "chan_ok c"
  shows "\<exists>c' h'. msm_dsi_host_cmd_rx hw m (c, h) = Some ((int (length data), data), c', h') \<and> chan_ok c'"
  by (rule dsi_panel.read_exact [OF assms])

definition sim_chan :: dsi_chan where
  "sim_chan = \<lparr>tx_mem = replicate 4096 0, rx_mem = replicate 4096 0, video_mode = False, line_bytes = 0, triggers = True,
     clears = True, dma_err = 0, buf_err = 0, stack = replicate 16 0x55\<rparr>"

theorem dsi_packet_in_memory_witness:
  "map_option (\<lambda>(n, c). (n, take 8 (tx_mem c)))
     (dsi_cmd_dma_add sim_hw \<lparr>m_channel = 0, m_type = 0x29, m_tx = [0xb0, 0x04], m_rx_len = 0\<rparr> sim_chan) =
   Some (8, [2, 0, 0x29, 0xc0, 0xb0, 0x04, 0xff, 0xff])"
proof -
  let ?m = "\<lparr>m_channel = 0, m_type = 0x29, m_tx = [0xb0, 0x04], m_rx_len = 0\<rparr>"
  let ?p = "\<lparr>p_size = 6, p_header = [0x29, 2, 0, 0], p_payload = [0xb0, 0x04]\<rparr>"
  have c: "create_packet sim_hw ?m = Inr ?p" by (simp add: sim_hw_def std_packet_def)
  have w: "wire sim_hw ?m ?p = [2, 0, 0x29, 0xc0, 0xb0, 0x04, 0xff, 0xff]"
    by (simp add: wire_def msg_flags_def sim_hw_def pad_len_def numeral_2_eq_2)
  have n: "pad_len 6 = 8" by (simp add: pad_len_def)
  have t: "length (tx_mem sim_chan) = 4096" "buf_err sim_chan = 0" by (simp_all add: sim_chan_def)
  show ?thesis using dsi_packet_in_memory [OF c, of sim_chan] by (simp add: w n t)
qed

theorem dsi_read_exact_witness:
  "\<exists>c' h'. msm_dsi_host_cmd_rx sim_hw sim_msg (sim_chan, \<lparr>sp_limit = 1, sp_window = []\<rparr>) = Some ((30, sim_data), c', h')"
proof -
  have "chan_ok sim_chan" by (simp add: chan_ok_def sim_chan_def)
  moreover have "length sim_data = 30" by (simp add: sim_data_def)
  ultimately show ?thesis
    using dsi_read_exact [OF sim.dsi_panel_axioms, of sim_chan "\<lparr>sp_limit = 1, sp_window = []\<rparr>"] by auto
qed

end
