(* ===== verification/Dsi_Clock.thy ===== *)
theory Dsi_Clock
  imports Drm_Mode
begin

text \<open>
  Clock rates and the lane configuration of the DSI host
  (\<open>drivers/gpu/drm/msm/dsi/dsi_host.c\<close>). Rates are in Hz. Values that the kernel's display library
  computes for compression (DSC), and the bits per pixel of a format, are parameters.
\<close>

section \<open>Rates\<close>

datatype dsi_format = RGB888 | RGB666 | RGB666_PACKED | RGB565

record dsc_config =
  dsc_bpp_int :: nat
  bits_per_pixel :: nat
  bits_per_component :: nat
  slice_width :: int
  slice_height :: int
  slice_count :: nat
  slice_chunk_size :: nat
  bytes_per_line :: nat
  pic_width :: int
  pic_height :: int

text \<open>The part of \<open>struct msm_dsi_host\<close> that the rates depend on; \<open>bpp\<close> is that of its pixel format.\<close>

record link =
  lanes :: nat
  bpp :: nat
  l_dsc :: "dsc_config option"
  cphy_mode :: bool

text \<open>The kernel's \<open>mult_frac\<close>, and \<open>DIV_ROUND_UP\<close>.\<close>

definition mult_frac :: "nat \<Rightarrow> nat \<Rightarrow> nat \<Rightarrow> nat" where
  "mult_frac x n d = (x div d) * n + (x mod d) * n div d"

definition div_round_up :: "nat \<Rightarrow> nat \<Rightarrow> nat" where
  "div_round_up n d = (n + d - 1) div d"

text \<open>\<open>mode->clock * 1000u\<close> is computed with 32 bits.\<close>

definition clock_hz :: "drm_mode \<Rightarrow> u32" where
  "clock_hz mode = word_of_int (m_clock mode) * 1000"

definition dsi_adjust_pclk_for_compression :: "drm_mode \<Rightarrow> dsc_config \<Rightarrow> bool \<Rightarrow> nat" where
  "dsi_adjust_pclk_for_compression mode dsc bonded =
     (let hdisp = (if bonded then hdisplay mode sdiv 2 else hdisplay mode);
          new_hdisp = int (div_round_up (nat hdisp * dsc_bpp_int dsc) (bits_per_component dsc * 3));
          new_hdisp = (if bonded then new_hdisp * 2 else new_hdisp);
          new_htotal = word_of_int (htotal mode - hdisplay mode + new_hdisp);
          d = word_of_int (htotal mode); x = clock_hz mode
      in unat ((x div d) * new_htotal + (x mod d) * new_htotal div d))"

definition dsi_get_pclk_rate :: "drm_mode \<Rightarrow> dsc_config option \<Rightarrow> bool \<Rightarrow> nat" where
  "dsi_get_pclk_rate mode dsc bonded =
     (let rate = (case dsc of None \<Rightarrow> unat (clock_hz mode) | Some d \<Rightarrow> dsi_adjust_pclk_for_compression mode d bonded)
      in if bonded then rate div 2 else rate)"

definition dsi_byte_clk_get_rate :: "link \<Rightarrow> bool \<Rightarrow> drm_mode \<Rightarrow> nat" where
  "dsi_byte_clk_get_rate l bonded mode =
     (let n = (if lanes l = 0 then 1 else lanes l); rate = dsi_get_pclk_rate mode (l_dsc l) bonded
      in if cphy_mode l then mult_frac rate (bpp l) (16 * n) else mult_frac rate (bpp l) (8 * n))"

record clk_rates =
  pixel_clk_rate :: nat
  byte_clk_rate :: nat
  byte_intf_clk_rate :: nat
  esc_clk_rate :: nat
  src_clk_rate :: nat

definition dsi_calc_pclk :: "link \<Rightarrow> drm_mode \<Rightarrow> bool \<Rightarrow> clk_rates \<Rightarrow> clk_rates" where
  "dsi_calc_pclk l mode bonded r =
     r\<lparr>pixel_clk_rate := dsi_get_pclk_rate mode (l_dsc l) bonded, byte_clk_rate := dsi_byte_clk_get_rate l bonded mode\<rparr>"

text \<open>\<open>esc\<close> is what \<open>clk_get_rate\<close> says.\<close>

definition dsi_calc_clk_rate_6g :: "nat \<Rightarrow> link \<Rightarrow> drm_mode option \<Rightarrow> bool \<Rightarrow> clk_rates \<Rightarrow> int \<times> clk_rates" where
  "dsi_calc_clk_rate_6g esc l mode bonded r =
     (case mode of None \<Rightarrow> (- EINVAL, r) | Some m \<Rightarrow> (0, (dsi_calc_pclk l m bonded r)\<lparr>esc_clk_rate := esc\<rparr>))"

text \<open>
  The search for a divider of the escape clock, from \<open>mhz\<close> down to 5 MHz. The result None is the
  exit of the loop below 5.
\<close>

function esc_divider :: "nat \<Rightarrow> nat \<Rightarrow> nat option" where
  "esc_divider byte_mhz mhz =
     (if mhz < 5 then None
      else
        let d = div_round_up byte_mhz mhz
        in if d \<ge> 1 \<and> d \<le> 16 then Some d else esc_divider byte_mhz (mhz - 1))"
  by pat_completeness auto

termination
  by (relation "measure snd") auto

declare esc_divider.simps [simp del]

definition dsi_calc_clk_rate_v2 :: "link \<Rightarrow> drm_mode \<Rightarrow> bool \<Rightarrow> clk_rates \<Rightarrow> int \<times> clk_rates" where
  "dsi_calc_clk_rate_v2 l mode bonded r =
     (let r = dsi_calc_pclk l mode bonded r;
          r = r\<lparr>src_clk_rate := mult_frac (pixel_clk_rate r) (bpp l) 8\<rparr>
      in case esc_divider (byte_clk_rate r div 1000000) 20 of
           None \<Rightarrow> (- EINVAL, r)
         | Some d \<Rightarrow> (0, r\<lparr>esc_clk_rate := byte_clk_rate r div d\<rparr>))"

section \<open>Modes\<close>

datatype mode_status = MODE_OK | MODE_H_ILLEGAL | MODE_V_ILLEGAL | MODE_CLOCK_RANGE | MODE_ERROR

definition msm_dsi_host_check_dsc :: "dsc_config option \<Rightarrow> drm_mode \<Rightarrow> mode_status" where
  "msm_dsi_host_check_dsc dsc mode =
     (case dsc of
        None \<Rightarrow> MODE_OK
      | Some d \<Rightarrow>
          if hdisplay mode smod slice_width d \<noteq> 0 then MODE_H_ILLEGAL
          else if vdisplay mode smod slice_height d \<noteq> 0 then MODE_V_ILLEGAL
          else MODE_OK)"

section \<open>Lanes\<close>

definition supported_data_lane_swaps :: "nat list list" where
  "supported_data_lane_swaps =
     [[0, 1, 2, 3], [3, 0, 1, 2], [2, 3, 0, 1], [1, 2, 3, 0], [0, 3, 2, 1], [1, 0, 3, 2], [2, 1, 0, 3], [3, 2, 1, 0]]"

text \<open>
  The inner loop: how far it gets. An entry above 3 is only reported, and then used as an index
  (None).
\<close>

fun lane_match :: "nat list \<Rightarrow> nat \<Rightarrow> nat list \<Rightarrow> bool option" where
  "lane_match swap j [] = Some True"
| "lane_match swap j (l # ls) =
     (if l \<ge> length swap then None
      else if swap ! l \<noteq> j then Some False
      else lane_match swap (j + 1) ls)"

fun find_swap :: "nat list \<Rightarrow> nat \<Rightarrow> nat list list \<Rightarrow> nat option option" where
  "find_swap lane_map i [] = Some None"
| "find_swap lane_map i (s # ss) =
     (case lane_match s 0 lane_map of
        None \<Rightarrow> None
      | Some True \<Rightarrow> Some (Some i)
      | Some False \<Rightarrow> find_swap lane_map (i + 1) ss)"

text \<open>
  The device tree: whether there is a property \<open>data-lanes\<close>, the number of lanes or an error, and
  the array or an error. The result is the return value, \<open>num_data_lanes\<close> and \<open>dlane_swap\<close>.
\<close>

record lane_dt =
  dt_present :: bool
  dt_count :: int
  dt_map :: "int + nat list"

definition dsi_host_parse_lane_data :: "lane_dt \<Rightarrow> nat \<times> nat \<Rightarrow> (int \<times> nat \<times> nat) option" where
  "dsi_host_parse_lane_data dt old =
     (case old of (num, swap) \<Rightarrow>
        if \<not> dt_present dt then Some (0, 4, swap)
        else if dt_count dt < 0 then Some (dt_count dt, num, swap)
        else case dt_map dt of
            Inl e \<Rightarrow> Some (e, nat (dt_count dt), swap)
          | Inr lane_map \<Rightarrow>
              (case find_swap lane_map 0 supported_data_lane_swaps of
                 None \<Rightarrow> None
               | Some None \<Rightarrow> Some (- EINVAL, nat (dt_count dt), swap)
               | Some (Some i) \<Rightarrow> Some (0, nat (dt_count dt), i)))"

end
