(* ===== verification/Dsi_Clock_Correct.thy ===== *)
theory Dsi_Clock_Correct
  imports Dsi_Clock Panel_Jdi
begin

text \<open>
  What is proved of Dsi_Clock: the byte clock carries exactly the pixels, the search for the escape
  clock, and that the lane configuration found is the inverse of the wiring.
\<close>

section \<open>Rates\<close>

lemma mult_frac_exact: "0 < d \<Longrightarrow> mult_frac x n d = x * n div d"
proof -
  assume d: "0 < d"
  have "x * n = (x div d * n) * d + x mod d * n"
    by (metis (no_types) add_mult_distrib div_mult_mod_eq mult.assoc mult.commute)
  then show ?thesis using d by (simp add: mult_frac_def)
qed

text \<open>
  In one second the link carries, with 8 bits per lane and clock (16 for C-PHY), the bits of
  all pixels: no more than a clock short of it. With no lanes given, one is assumed.
\<close>

theorem dsi_byte_clock_carries_pixels:
  fixes l :: link
  defines "w \<equiv> (if cphy_mode l then 16 else 8) * (if lanes l = 0 then 1 else lanes l)"
  shows "dsi_byte_clk_get_rate l bonded mode * w \<le> dsi_get_pclk_rate mode (l_dsc l) bonded * bpp l \<and>
    dsi_get_pclk_rate mode (l_dsc l) bonded * bpp l < (dsi_byte_clk_get_rate l bonded mode + 1) * w"
proof -
  have w: "0 < w" by (simp add: w_def)
  have "dsi_byte_clk_get_rate l bonded mode = dsi_get_pclk_rate mode (l_dsc l) bonded * bpp l div w"
    by (simp add: dsi_byte_clk_get_rate_def Let_def mult_frac_exact w_def)
  then show ?thesis
    using w dividend_less_div_times [of w "dsi_get_pclk_rate mode (l_dsc l) bonded * bpp l"]
    by (simp add: div_times_less_eq_dividend add.commute)
qed

section \<open>The escape clock\<close>

lemma div_round_up_le: "0 < d \<Longrightarrow> div_round_up n d \<le> k \<longleftrightarrow> n \<le> k * d"
proof -
  assume d: "0 < d"
  have "(n + d - 1) div d \<le> k \<longleftrightarrow> (n + d - 1) div d < k + 1" by linarith
  also have "\<dots> \<longleftrightarrow> n + d - 1 < (k + 1) * d" using d by (rule div_less_iff_less_mult)
  also have "\<dots> \<longleftrightarrow> n \<le> k * d" using d by auto
  finally show ?thesis by (simp add: div_round_up_def)
qed

lemma div_round_up_0: "0 < d \<Longrightarrow> div_round_up n d = 0 \<longleftrightarrow> n = 0"
  using div_round_up_le [of d n 0] by auto

lemma esc_divider_out: "mhz \<le> 20 \<Longrightarrow> b = 0 \<or> 320 < b \<Longrightarrow> esc_divider b mhz = None"
proof (induction mhz)
  case (Suc mhz)
  have "\<not> (div_round_up b (Suc mhz) \<ge> 1 \<and> div_round_up b (Suc mhz) \<le> 16)"
    using Suc.prems div_round_up_0 [of "Suc mhz" b] div_round_up_le [of "Suc mhz" b 16] by auto
  then show ?case
    using Suc by (subst esc_divider.simps) (auto simp: Let_def)
qed (simp add: esc_divider.simps)

text \<open>
  The search for the escape clock ends at its first frequency or not at all: it succeeds
  exactly for byte clocks from 1 to 320 MHz (rounded down), with the divider for 20 MHz; no byte
  clock is helped by going down to 5 MHz. The rate found is below 21 MHz, but may be below 5 MHz.
\<close>

theorem dsi_escape_clock:
  "esc_divider b 20 = (if 1 \<le> b \<and> b \<le> 320 then Some (div_round_up b 20) else None) \<and>
   (\<forall>f d. esc_divider (f div 1000000) 20 = Some d \<longrightarrow> f div d < 21000000)"
proof -
  have 1: "esc_divider b 20 = (if 1 \<le> b \<and> b \<le> 320 then Some (div_round_up b 20) else None)" for b
  proof (cases "1 \<le> b \<and> b \<le> 320")
    case True
    then show ?thesis
      using div_round_up_0 [of 20 b] div_round_up_le [of 20 b 16] by (subst esc_divider.simps) (auto simp: Let_def)
  next
    case False
    then show ?thesis using esc_divider_out [of 20 b] by auto
  qed
  have "f div d < 21000000" if "esc_divider (f div 1000000) 20 = Some d" for f d
  proof -
    from that have d: "d = div_round_up (f div 1000000) 20" "1 \<le> f div 1000000" by (auto simp: 1 split: if_splits)
    then have pos: "1 \<le> d" using div_round_up_0 [of 20 "f div 1000000"] by simp
    have "f div 1000000 \<le> d * 20" using div_round_up_le [of 20 "f div 1000000" d] d(1) by simp
    then have "f < (d * 20 + 1) * 1000000" by (simp flip: div_less_iff_less_mult)
    also have "\<dots> \<le> 21000000 * d" using pos by simp
    finally show ?thesis using pos by (simp add: div_less_iff_less_mult)
  qed
  with 1 show ?thesis by blast
qed

section \<open>Lanes\<close>

lemma lane_match_True:
  "lane_match swap j ls = Some True \<longleftrightarrow> (\<forall>k<length ls. ls ! k < length swap \<and> swap ! (ls ! k) = j + k)"
proof (induction ls arbitrary: j)
  case (Cons l ls)
  have "(\<forall>k<length (l # ls). (l # ls) ! k < length swap \<and> swap ! ((l # ls) ! k) = j + k) \<longleftrightarrow>
      l < length swap \<and> swap ! l = j \<and> (\<forall>k<length ls. ls ! k < length swap \<and> swap ! (ls ! k) = j + 1 + k)"
    by (auto simp: less_Suc_eq_0_disj nth_Cons')
  then show ?case by (auto simp: Cons.IH)
qed simp

lemma lane_match_some: "\<forall>l\<in>set ls. l < length swap \<Longrightarrow> lane_match swap j ls \<noteq> None"
  by (induction ls arbitrary: j) auto

lemma find_swap_found:
  "find_swap lm i ss = Some (Some k) \<Longrightarrow> i \<le> k \<and> k - i < length ss \<and> lane_match (ss ! (k - i)) 0 lm = Some True"
  by (induction ss arbitrary: i) (fastforce split: option.splits bool.splits simp: nth_Cons')+

lemma find_swap_none:
  "find_swap lm i ss = Some None \<Longrightarrow> s \<in> set ss \<Longrightarrow> lane_match s 0 lm = Some False"
  by (induction ss arbitrary: i) (auto split: option.splits bool.splits)

lemma find_swap_some: "\<forall>s\<in>set ss. lane_match s 0 lm \<noteq> None \<Longrightarrow> find_swap lm i ss \<noteq> None"
  by (induction ss arbitrary: i) (auto split: option.splits bool.splits)

lemma supported_lengths: "s \<in> set supported_data_lane_swaps \<Longrightarrow> length s = 4"
  by (auto simp: supported_data_lane_swaps_def)

text \<open>
  If all entries of \<open>data-lanes\<close> are below 4, no table is read outside its bounds; the
  configuration that is found maps each physical lane back to its logical lane; and if none is
  found, there is none.
\<close>

theorem dsi_lanes_inverse:
  assumes "dt_present dt" and "dt_count dt \<ge> 0" and "dt_map dt = Inr lm" and "\<forall>l\<in>set lm. l < 4"
  shows "\<exists>r n i. dsi_host_parse_lane_data dt old = Some (r, n, i) \<and> n = nat (dt_count dt) \<and>
    (r = 0 \<and> i < 8 \<and> (\<forall>j<length lm. supported_data_lane_swaps ! i ! (lm ! j) = j) \<or>
     r = - EINVAL \<and> (\<forall>s\<in>set supported_data_lane_swaps. \<exists>j<length lm. s ! (lm ! j) \<noteq> j))"
proof -
  have some: "\<forall>s\<in>set supported_data_lane_swaps. lane_match s 0 lm \<noteq> None"
    using assms(4) supported_lengths lane_match_some by metis
  obtain f where f: "find_swap lm 0 supported_data_lane_swaps = Some f"
    using find_swap_some [OF some, of 0] by blast
  have eq: "dsi_host_parse_lane_data dt old =
      Some (case f of None \<Rightarrow> (- EINVAL, nat (dt_count dt), snd old) | Some i \<Rightarrow> (0, nat (dt_count dt), i))"
    using assms(1-3) f by (auto simp: dsi_host_parse_lane_data_def split: prod.split option.split)
  show ?thesis
  proof (cases f)
    case None
    have "\<exists>j<length lm. s ! (lm ! j) \<noteq> j" if "s \<in> set supported_data_lane_swaps" for s
    proof -
      have "lane_match s 0 lm \<noteq> Some True" using find_swap_none [OF f [unfolded None] that] by simp
      then show ?thesis using assms(4) supported_lengths [OF that] unfolding lane_match_True by auto
    qed
    then show ?thesis by (simp add: eq None)
  next
    case (Some i)
    have "length supported_data_lane_swaps = 8" by (simp add: supported_data_lane_swaps_def)
    then show ?thesis
      using find_swap_found [OF f [unfolded Some]] by (simp add: eq Some lane_match_True)
  qed
qed

text \<open>An entry above 3 is an access outside the table.\<close>

lemma dsi_lanes_out_of_bounds:
  "dsi_host_parse_lane_data \<lparr>dt_present = True, dt_count = 4, dt_map = Inr [4, 1, 2, 3]\<rparr> old = None"
  by (cases old) (simp add: dsi_host_parse_lane_data_def supported_data_lane_swaps_def)

section \<open>Examples\<close>

definition gemini_link :: link where
  "gemini_link = \<lparr>lanes = 4, bpp = 24, l_dsc = None, cphy_mode = False\<rparr>"

lemma gemini_byte_clock: "dsi_byte_clk_get_rate gemini_link False jdi_fhd_r63452_mode = 109083000"
proof -
  have "clock_hz jdi_fhd_r63452_mode = 145444000"
    by (simp add: clock_hz_def jdi_fhd_r63452_mode_def signed_divide_int_def)
  then show ?thesis
    by (simp add: dsi_byte_clk_get_rate_def dsi_get_pclk_rate_def gemini_link_def mult_frac_def Let_def)
qed

theorem dsi_escape_clock_witness: "esc_divider (109083000 div 1000000) 20 = Some 6 \<and> 109083000 div 6 < (21000000 :: nat)"
proof -
  have "esc_divider (109083000 div 1000000) 20 = Some 6"
    using dsi_escape_clock [of 109] by (simp add: div_round_up_def)
  with dsi_escape_clock [of 109] show ?thesis by blast
qed

theorem dsi_lanes_inverse_witness:
  "\<exists>r n i. dsi_host_parse_lane_data \<lparr>dt_present = True, dt_count = 4, dt_map = Inr [1, 2, 3, 0]\<rparr> (0, 0) = Some (r, n, i) \<and> r = 0"
proof -
  have "[3, 0, 1, 2] ! ([1, 2, 3, 0] ! j) = j" if "j < 4" for j :: nat
  proof -
    from that have "j = 0 \<or> j = 1 \<or> j = 2 \<or> j = 3" by auto
    then show ?thesis by auto
  qed
  moreover have "[3, 0, 1, 2] \<in> set supported_data_lane_swaps" by (simp add: supported_data_lane_swaps_def)
  ultimately have "\<not> (\<forall>s\<in>set supported_data_lane_swaps. \<exists>j<4. s ! ([1, 2, 3, 0] ! j) \<noteq> j)" by blast
  then show ?thesis
    using dsi_lanes_inverse [of "\<lparr>dt_present = True, dt_count = 4, dt_map = Inr [1, 2, 3, 0]\<rparr>" "[1, 2, 3, 0]" "(0, 0)"] by auto
qed

end
