(* ===== verification/Dsi_Host.thy ===== *)
theory Dsi_Host
  imports Dsi_Clock
begin

text \<open>
  The DSI host (\<open>drivers/gpu/drm/msm/dsi/dsi_host.c\<close>): its clocks and power, the control registers,
  interrupts and errors, and preparing for a command.

  The register offsets, masks and field macros come from a header that is generated when the kernel
  is built: registers, masks and fields have their names here, and a parameter gives the values. Clocks, regulators and
  pins are kernel parameters, whose results may depend on the state; the state counts what is
  switched on.
\<close>

abbreviation EOPNOTSUPP :: int where "EOPNOTSUPP \<equiv> 95"

section \<open>Registers\<close>

datatype dsi_reg =
    REG_DSI_CTRL | REG_DSI_STATUS0 | REG_DSI_FIFO_STATUS | REG_DSI_VID_CFG0 | REG_DSI_VID_CFG1
  | REG_DSI_CMD_CFG0 | REG_DSI_CMD_CFG1 | REG_DSI_CMD_MODE_MDP_CTRL2 | REG_DSI_CMD_DMA_CTRL | REG_DSI_TRIG_CTRL
  | REG_DSI_CLKOUT_TIMING_CTRL | REG_DSI_T_CLK_PRE_EXTEND | REG_DSI_EOT_PACKET_CTRL | REG_DSI_ERR_INT_MASK0
  | REG_DSI_CLK_CTRL | REG_DSI_LANE_SWAP_CTRL | REG_DSI_LANE_CTRL | REG_DSI_CPHY_MODE_CTRL | REG_DSI_INTR_CTRL
  | REG_DSI_ACTIVE_H | REG_DSI_ACTIVE_V | REG_DSI_TOTAL | REG_DSI_ACTIVE_HSYNC | REG_DSI_ACTIVE_VSYNC_HPOS
  | REG_DSI_ACTIVE_VSYNC_VPOS | REG_DSI_CMD_MDP_STREAM0_CTRL | REG_DSI_CMD_MDP_STREAM0_TOTAL | REG_DSI_RESET
  | REG_DSI_PHY_RESET | REG_DSI_DMA_BASE | REG_DSI_DMA_LEN | REG_DSI_TRIG_DMA | REG_DSI_ACK_ERR_STATUS
  | REG_DSI_TIMEOUT_STATUS | REG_DSI_DLN0_PHY_ERR | REG_DSI_CLK_STATUS | REG_DSI_COMMAND_COMPRESSION_MODE_CTRL
  | REG_DSI_COMMAND_COMPRESSION_MODE_CTRL2 | REG_DSI_VIDEO_COMPRESSION_MODE_CTRL | REG_DSI_TEST_PATTERN_GEN_CTRL
  | REG_DSI_TEST_PATTERN_GEN_VIDEO_INIT_VAL | REG_DSI_TPG_MAIN_CONTROL | REG_DSI_TPG_VIDEO_CONFIG
  | REG_DSI_TEST_PATTERN_GEN_CMD_MDP_INIT_VAL0 | REG_DSI_TPG_MAIN_CONTROL2 | REG_DSI_TEST_PATTERN_GEN_CMD_STREAM0_TRIGGER

datatype dsi_mask =
    DSI_CTRL_ENABLE | DSI_CTRL_VID_MODE_EN | DSI_CTRL_CMD_MODE_EN | DSI_CTRL_CLK_EN | DSI_CTRL_LANE0 | DSI_CLK_CTRL_ENABLE_CLKS
  | DSI_VID_CFG0_PULSE_MODE_HSA_HE | DSI_VID_CFG0_HFP_POWER_STOP | DSI_VID_CFG0_HBP_POWER_STOP | DSI_VID_CFG0_HSA_POWER_STOP
  | DSI_VID_CFG0_EOF_BLLP_POWER_STOP | DSI_VID_CFG0_BLLP_POWER_STOP | DSI_VID_CFG0_DATABUS_WIDEN
  | DSI_CMD_CFG1_INSERT_DCS_COMMAND | DSI_CMD_MODE_MDP_CTRL2_BURST_MODE | DSI_CMD_MODE_MDP_CTRL2_DATABUS_WIDEN
  | DSI_CMD_DMA_CTRL_FROM_FRAME_BUFFER | DSI_CMD_DMA_CTRL_LOW_POWER | DSI_TRIG_CTRL_TE | DSI_TRIG_CTRL_BLOCK_DMA_WITHIN_FRAME
  | DSI_T_CLK_PRE_EXTEND_INC_BY_2_BYTECLK | DSI_EOT_PACKET_CTRL_TX_EOT_APPEND | DSI_IRQ_MASK_ERROR | DSI_IRQ_MASK_VIDEO_DONE
  | DSI_IRQ_MASK_CMD_MDP_DONE | DSI_IRQ_MASK_CMD_DMA_DONE | DSI_IRQ_ERROR | DSI_IRQ_VIDEO_DONE | DSI_IRQ_CMD_DMA_DONE
  | DSI_LANE_CTRL_HS_REQ_SEL_PHY | DSI_LANE_CTRL_CLKLN_HS_FORCE_REQUEST | DSI_PHY_RESET_RESET
  | DSI_STATUS0_VIDEO_MODE_ENGINE_BUSY | DSI_STATUS0_INTERLEAVE_OP_CONTENTION | DSI_CLK_STATUS_PLL_UNLOCKED
  | DSI_FIFO_STATUS_CMD_MDP_FIFO_UNDERFLOW | DSI_DLN0_PHY_ERR_ANY | DSI_VIDEO_COMPRESSION_MODE_CTRL_EN
  | DSI_COMMAND_COMPRESSION_MODE_CTRL2_STREAM0_SLICE_WIDTH_MASK | DSI_TPG_MAIN_CONTROL_CHECKERED_RECTANGLE_PATTERN
  | DSI_TPG_VIDEO_CONFIG_RGB | DSI_TPG_MAIN_CONTROL2_CMD_MDP0_CHECKERED_RECTANGLE_PATTERN | DSI_TEST_PATTERN_GEN_CTRL_EN
  | DSI_TEST_PATTERN_GEN_CMD_STREAM0_TRIGGER_SW_TRIGGER

datatype dsi_field =
    DSI_VID_CFG0_TRAFFIC_MODE | DSI_VID_CFG0_DST_FORMAT | DSI_VID_CFG0_VIRT_CHANNEL | DSI_CMD_CFG0_RGB_SWAP | DSI_CMD_CFG0_DST_FORMAT
  | DSI_CMD_CFG1_WR_MEM_START | DSI_CMD_CFG1_WR_MEM_CONTINUE | DSI_TRIG_CTRL_MDP_TRIGGER | DSI_TRIG_CTRL_DMA_TRIGGER
  | DSI_TRIG_CTRL_STREAM | DSI_CLKOUT_TIMING_CTRL_T_CLK_POST | DSI_CLKOUT_TIMING_CTRL_T_CLK_PRE | DSI_LANE_SWAP_CTRL_DLN_SWAP_SEL
  | DSI_ACTIVE_H_START | DSI_ACTIVE_H_END | DSI_ACTIVE_V_START | DSI_ACTIVE_V_END | DSI_TOTAL_H_TOTAL | DSI_TOTAL_V_TOTAL
  | DSI_ACTIVE_HSYNC_START | DSI_ACTIVE_HSYNC_END | DSI_ACTIVE_VSYNC_VPOS_START | DSI_ACTIVE_VSYNC_VPOS_END
  | DSI_CMD_MDP_STREAM0_CTRL_WORD_COUNT | DSI_CMD_MDP_STREAM0_CTRL_VIRTUAL_CHANNEL | DSI_CMD_MDP_STREAM0_CTRL_DATA_TYPE
  | DSI_CMD_MDP_STREAM0_TOTAL_H_TOTAL | DSI_CMD_MDP_STREAM0_TOTAL_V_TOTAL
  | DSI_COMMAND_COMPRESSION_MODE_CTRL_STREAM0_DATATYPE | DSI_VIDEO_COMPRESSION_MODE_CTRL_DATATYPE
  | DSI_VIDEO_COMPRESSION_MODE_CTRL_PKT_PER_LINE | DSI_VIDEO_COMPRESSION_MODE_CTRL_EOL_BYTE_NUM
  | DSI_VIDEO_COMPRESSION_MODE_CTRL_WC | DSI_COMMAND_COMPRESSION_MODE_CTRL2_STREAM0_SLICE_WIDTH
  | DSI_TPG_VIDEO_CONFIG_BPP | DSI_TEST_PATTERN_GEN_CTRL_VIDEO_PATTERN_SEL
  | DSI_TEST_PATTERN_GEN_CTRL_CMD_MDP_STREAM0_PATTERN_SEL

text \<open>Values of enumerations that are fields: traffic modes, formats, triggers, packet types.\<close>

datatype dsi_enum =
    BURST_MODE | NON_BURST_SYNCH_PULSE | NON_BURST_SYNCH_EVENT
  | VID_DST_FORMAT_RGB888 | VID_DST_FORMAT_RGB666_LOOSE | VID_DST_FORMAT_RGB666 | VID_DST_FORMAT_RGB565
  | CMD_DST_FORMAT_RGB888 | CMD_DST_FORMAT_RGB666 | CMD_DST_FORMAT_RGB565
  | SWAP_RGB | TRIGGER_NONE | TRIGGER_SW | MIPI_DCS_WRITE_MEMORY_START | MIPI_DCS_WRITE_MEMORY_CONTINUE
  | MIPI_DSI_DCS_LONG_WRITE | MIPI_DSI_COMPRESSED_PIXEL_STREAM | VIDEO_CONFIG_24BPP | VID_MDSS_GENERAL_PATTERN
  | CMD_MDP_MDSS_GENERAL_PATTERN

record dsi_xml =
  mask_of :: "dsi_mask \<Rightarrow> u32"
  field_of :: "dsi_field \<Rightarrow> u32 \<Rightarrow> u32"
  enum_of :: "dsi_enum \<Rightarrow> u32"

section \<open>State\<close>

datatype dsi_flag =
    MODE_VIDEO | MODE_VIDEO_BURST | MODE_VIDEO_SYNC_PULSE | MODE_VIDEO_HSE | MODE_VIDEO_NO_HFP | MODE_VIDEO_NO_HBP
  | MODE_VIDEO_NO_HSA | MODE_NO_EOT_PACKET | CLOCK_NON_CONTINUOUS | MODE_LPM

datatype dsi_clk = Esc | Byte | Pixel | Byte_Intf | Src

text \<open>
  \<open>regs\<close> is what was written last to each register; what reading one gives is a parameter \<open>rd\<close>, which may
  depend on that, so that the hardware can set status bits. \<open>clk_on\<close>, \<open>supplies_on\<close> and \<open>pm_usage\<close> count
  the calls that are in force, \<open>irq_depth\<close> how often the interrupt is disabled (the kernel ignores,
  with a warning, an enabling at depth 0). \<open>sfpb\<close> is the port bit, or None without that register map.
\<close>

text \<open>The version of the hardware, as the code asks for it.\<close>

record dsi_cfg =
  is_6g :: bool
  above_v1_0 :: bool
  from_v1_1 :: bool
  from_v1_2 :: bool
  from_v1_3 :: bool
  from_v2_5 :: bool
  has_byte_intf :: bool

record dsi_host =
  h_id :: nat
  cfg :: dsi_cfg
  regs :: "dsi_reg \<Rightarrow> u32"
  h_link :: link
  channel :: u32
  format :: dsi_format
  mode_flags :: "dsi_flag set"
  dlane_swap :: nat
  num_data_lanes :: nat
  h_mode :: "drm_mode option"
  rates :: clk_rates
  clk_rate :: "dsi_clk \<Rightarrow> nat"
  clk_on :: "dsi_clk \<Rightarrow> int"
  supplies_on :: int
  pm_usage :: int
  sfpb :: "bool option"
  irq_depth :: nat
  err_work_state :: u32
  err_queued :: bool
  video_comp :: bool
  dma_comp :: bool
  dma_cmd_ctrl_restore :: u32
  registered :: bool
  power_on :: bool
  analog_held :: bool
  enabled :: bool

record dsi_env =
  xml :: dsi_xml
  clk_enable :: "dsi_clk \<Rightarrow> dsi_host \<Rightarrow> int"
  clk_set_rate :: "dsi_clk \<Rightarrow> nat \<Rightarrow> dsi_host \<Rightarrow> int"
  opp_set_rate :: "nat \<Rightarrow> dsi_host \<Rightarrow> int"
  vreg_enable :: "dsi_host \<Rightarrow> int"
  pinctrl_default :: "dsi_host \<Rightarrow> int"
  esc_clk_get_rate :: nat
  rd :: "dsi_reg \<Rightarrow> (dsi_reg \<Rightarrow> u32) \<Rightarrow> u32"
  dsc_params :: "dsc_config \<Rightarrow> int \<times> dsc_config"
  continuous_clock :: bool
  dev_attach :: int
  host_register :: int
  mode_duplicate :: bool

abbreviation mk :: "dsi_env \<Rightarrow> dsi_mask \<Rightarrow> u32" where "mk e \<equiv> mask_of (xml e)"
abbreviation fl :: "dsi_env \<Rightarrow> dsi_field \<Rightarrow> u32 \<Rightarrow> u32" where "fl e \<equiv> field_of (xml e)"
abbreviation en :: "dsi_env \<Rightarrow> dsi_enum \<Rightarrow> u32" where "en e \<equiv> enum_of (xml e)"

definition dsi_read :: "dsi_env \<Rightarrow> dsi_host \<Rightarrow> dsi_reg \<Rightarrow> u32" where
  "dsi_read e h r = rd e r (regs h)"

definition dsi_write :: "dsi_reg \<Rightarrow> u32 \<Rightarrow> dsi_host \<Rightarrow> dsi_host" where
  "dsi_write r v h = h\<lparr>regs := (regs h)(r := v)\<rparr>"

section \<open>Clocks\<close>

definition clk_prepare_enable :: "dsi_env \<Rightarrow> dsi_clk \<Rightarrow> dsi_host \<Rightarrow> int \<times> dsi_host" where
  "clk_prepare_enable e c h =
     (if c = Byte_Intf \<and> \<not> has_byte_intf (cfg h) then (0, h)
      else if clk_enable e c h \<noteq> 0 then (clk_enable e c h, h)
      else (0, h\<lparr>clk_on := (clk_on h)(c := clk_on h c + 1)\<rparr>))"

definition clk_disable_unprepare :: "dsi_clk \<Rightarrow> dsi_host \<Rightarrow> dsi_host" where
  "clk_disable_unprepare c h =
     (if c = Byte_Intf \<and> \<not> has_byte_intf (cfg h) then h else h\<lparr>clk_on := (clk_on h)(c := clk_on h c - 1)\<rparr>)"

definition set_rate :: "dsi_env \<Rightarrow> dsi_clk \<Rightarrow> nat \<Rightarrow> dsi_host \<Rightarrow> int \<times> dsi_host" where
  "set_rate e c r h =
     (if clk_set_rate e c r h \<noteq> 0 then (clk_set_rate e c r h, h) else (0, h\<lparr>clk_rate := (clk_rate h)(c := r)\<rparr>))"

text \<open>\<open>ret = f(...); if (ret) return ret;\<close>\<close>

definition then_int :: "int \<times> dsi_host \<Rightarrow> (dsi_host \<Rightarrow> int \<times> dsi_host) \<Rightarrow> int \<times> dsi_host" where
  "then_int r f = (if fst r \<noteq> 0 then r else f (snd r))"

definition dsi_link_clk_set_rate_6g :: "dsi_env \<Rightarrow> dsi_host \<Rightarrow> int \<times> dsi_host" where
  "dsi_link_clk_set_rate_6g e h =
     then_int (opp_set_rate e (byte_clk_rate (rates h)) h, h) (\<lambda>h.
     then_int (set_rate e Pixel (pixel_clk_rate (rates h)) h) (\<lambda>h.
       if has_byte_intf (cfg h) then set_rate e Byte_Intf (byte_intf_clk_rate (rates h)) h else (0, h)))"

definition dsi_link_clk_enable_6g :: "dsi_env \<Rightarrow> dsi_host \<Rightarrow> int \<times> dsi_host" where
  "dsi_link_clk_enable_6g e h =
     (case clk_prepare_enable e Esc h of (r, h) \<Rightarrow>
        if r \<noteq> 0 then (r, h)
        else case clk_prepare_enable e Byte h of (r, h) \<Rightarrow>
          if r \<noteq> 0 then (r, clk_disable_unprepare Esc h)
          else case clk_prepare_enable e Pixel h of (r, h) \<Rightarrow>
            if r \<noteq> 0 then (r, clk_disable_unprepare Esc (clk_disable_unprepare Byte h))
            else case clk_prepare_enable e Byte_Intf h of (r, h) \<Rightarrow>
              if r \<noteq> 0 then (r, clk_disable_unprepare Esc (clk_disable_unprepare Byte (clk_disable_unprepare Pixel h)))
              else (0, h))"

definition dsi_link_clk_set_rate_v2 :: "dsi_env \<Rightarrow> dsi_host \<Rightarrow> int \<times> dsi_host" where
  "dsi_link_clk_set_rate_v2 e h =
     then_int (set_rate e Byte (byte_clk_rate (rates h)) h) (\<lambda>h.
     then_int (set_rate e Esc (esc_clk_rate (rates h)) h) (\<lambda>h.
     then_int (set_rate e Src (src_clk_rate (rates h)) h) (\<lambda>h.
       set_rate e Pixel (pixel_clk_rate (rates h)) h)))"

definition dsi_link_clk_enable_v2 :: "dsi_env \<Rightarrow> dsi_host \<Rightarrow> int \<times> dsi_host" where
  "dsi_link_clk_enable_v2 e h =
     (case clk_prepare_enable e Byte h of (r, h) \<Rightarrow>
        if r \<noteq> 0 then (r, h)
        else case clk_prepare_enable e Esc h of (r, h) \<Rightarrow>
          if r \<noteq> 0 then (r, clk_disable_unprepare Byte h)
          else case clk_prepare_enable e Src h of (r, h) \<Rightarrow>
            if r \<noteq> 0 then (r, clk_disable_unprepare Byte (clk_disable_unprepare Esc h))
            else case clk_prepare_enable e Pixel h of (r, h) \<Rightarrow>
              if r \<noteq> 0 then (r, clk_disable_unprepare Byte (clk_disable_unprepare Esc (clk_disable_unprepare Src h)))
              else (0, h))"

text \<open>The vote that \<open>dev_pm_opp_set_rate(dev, 0)\<close> drops is not part of the state.\<close>

definition dsi_link_clk_disable_6g :: "dsi_host \<Rightarrow> dsi_host" where
  "dsi_link_clk_disable_6g h =
     clk_disable_unprepare Byte (clk_disable_unprepare Byte_Intf (clk_disable_unprepare Pixel (clk_disable_unprepare Esc h)))"

definition dsi_link_clk_disable_v2 :: "dsi_host \<Rightarrow> dsi_host" where
  "dsi_link_clk_disable_v2 h =
     clk_disable_unprepare Byte (clk_disable_unprepare Esc (clk_disable_unprepare Src (clk_disable_unprepare Pixel h)))"

text \<open>The table of operations \<open>cfg_hnd->ops\<close>.\<close>

definition link_clk_set_rate :: "dsi_env \<Rightarrow> dsi_host \<Rightarrow> int \<times> dsi_host" where
  "link_clk_set_rate e h = (if is_6g (cfg h) then dsi_link_clk_set_rate_6g e h else dsi_link_clk_set_rate_v2 e h)"

definition link_clk_enable :: "dsi_env \<Rightarrow> dsi_host \<Rightarrow> int \<times> dsi_host" where
  "link_clk_enable e h = (if is_6g (cfg h) then dsi_link_clk_enable_6g e h else dsi_link_clk_enable_v2 e h)"

definition link_clk_disable :: "dsi_host \<Rightarrow> dsi_host" where
  "link_clk_disable h = (if is_6g (cfg h) then dsi_link_clk_disable_6g h else dsi_link_clk_disable_v2 h)"

text \<open>Version 2 reads the mode without asking for it (None).\<close>

definition calc_clk_rate :: "dsi_env \<Rightarrow> bool \<Rightarrow> dsi_host \<Rightarrow> (int \<times> dsi_host) option" where
  "calc_clk_rate e bonded h =
     (if is_6g (cfg h) then
        case dsi_calc_clk_rate_6g (esc_clk_get_rate e) (h_link h) (h_mode h) bonded (rates h) of (r, rs) \<Rightarrow> Some (r, h\<lparr>rates := rs\<rparr>)
      else case h_mode h of
          None \<Rightarrow> None
        | Some m \<Rightarrow> (case dsi_calc_clk_rate_v2 (h_link h) m bonded (rates h) of (r, rs) \<Rightarrow> Some (r, h\<lparr>rates := rs\<rparr>)))"

section \<open>Control registers\<close>

definition dsi_intr_ctrl :: "dsi_env \<Rightarrow> u32 \<Rightarrow> bool \<Rightarrow> dsi_host \<Rightarrow> dsi_host" where
  "dsi_intr_ctrl e m enable h =
     (let intr = dsi_read e h REG_DSI_INTR_CTRL
      in dsi_write REG_DSI_INTR_CTRL (if enable then intr OR m else intr AND NOT m) h)"

definition dsi_get_traffic_mode :: "dsi_flag set \<Rightarrow> dsi_enum" where
  "dsi_get_traffic_mode flags =
     (if MODE_VIDEO_BURST \<in> flags then BURST_MODE
      else if MODE_VIDEO_SYNC_PULSE \<in> flags then NON_BURST_SYNCH_PULSE
      else NON_BURST_SYNCH_EVENT)"

fun dsi_get_vid_fmt :: "dsi_format \<Rightarrow> dsi_enum" where
  "dsi_get_vid_fmt RGB888 = VID_DST_FORMAT_RGB888"
| "dsi_get_vid_fmt RGB666 = VID_DST_FORMAT_RGB666_LOOSE"
| "dsi_get_vid_fmt RGB666_PACKED = VID_DST_FORMAT_RGB666"
| "dsi_get_vid_fmt RGB565 = VID_DST_FORMAT_RGB565"

fun dsi_get_cmd_fmt :: "dsi_format \<Rightarrow> dsi_enum" where
  "dsi_get_cmd_fmt RGB888 = CMD_DST_FORMAT_RGB888"
| "dsi_get_cmd_fmt RGB666_PACKED = CMD_DST_FORMAT_RGB666"
| "dsi_get_cmd_fmt RGB666 = CMD_DST_FORMAT_RGB666"
| "dsi_get_cmd_fmt RGB565 = CMD_DST_FORMAT_RGB565"

definition dsi_ctrl_disable :: "dsi_host \<Rightarrow> dsi_host" where
  "dsi_ctrl_disable h = dsi_write REG_DSI_CTRL 0 h"

definition msm_dsi_host_is_wide_bus_enabled :: "dsi_host \<Rightarrow> bool" where
  "msm_dsi_host_is_wide_bus_enabled h \<longleftrightarrow> l_dsc (h_link h) \<noteq> None \<and> is_6g (cfg h) \<and> from_v2_5 (cfg h)"

text \<open>The timings that the PHY driver computes for the host.\<close>

record shared_timings =
  clk_post :: u32
  clk_pre :: u32
  clk_pre_inc_by_2 :: bool
  byte_intf_clk_div_2 :: bool

definition bits :: "bool \<Rightarrow> u32 \<Rightarrow> u32" where
  "bits b m = (if b then m else 0)"

text \<open>\<open>dsi_ctrl_enable\<close>: the configuration of video mode, of command mode, what both share, and the lanes.\<close>

definition ctrl_video :: "dsi_env \<Rightarrow> dsi_host \<Rightarrow> dsi_host" where
  "ctrl_video e h =
     (let flags = mode_flags h in
      dsi_write REG_DSI_VID_CFG1 0
        (dsi_write REG_DSI_VID_CFG0
          (bits (MODE_VIDEO_HSE \<in> flags) (mk e DSI_VID_CFG0_PULSE_MODE_HSA_HE) OR
           bits (MODE_VIDEO_NO_HFP \<in> flags) (mk e DSI_VID_CFG0_HFP_POWER_STOP) OR
           bits (MODE_VIDEO_NO_HBP \<in> flags) (mk e DSI_VID_CFG0_HBP_POWER_STOP) OR
           bits (MODE_VIDEO_NO_HSA \<in> flags) (mk e DSI_VID_CFG0_HSA_POWER_STOP) OR
           mk e DSI_VID_CFG0_EOF_BLLP_POWER_STOP OR mk e DSI_VID_CFG0_BLLP_POWER_STOP OR
           fl e DSI_VID_CFG0_TRAFFIC_MODE (en e (dsi_get_traffic_mode flags)) OR
           fl e DSI_VID_CFG0_DST_FORMAT (en e (dsi_get_vid_fmt (format h))) OR
           fl e DSI_VID_CFG0_VIRT_CHANNEL (channel h) OR
           bits (msm_dsi_host_is_wide_bus_enabled h) (mk e DSI_VID_CFG0_DATABUS_WIDEN)) h))"

definition ctrl_command :: "dsi_env \<Rightarrow> dsi_host \<Rightarrow> dsi_host" where
  "ctrl_command e h =
     (let h = dsi_write REG_DSI_CMD_CFG0
                (fl e DSI_CMD_CFG0_RGB_SWAP (en e SWAP_RGB) OR fl e DSI_CMD_CFG0_DST_FORMAT (en e (dsi_get_cmd_fmt (format h)))) h;
          h = dsi_write REG_DSI_CMD_CFG1
                (fl e DSI_CMD_CFG1_WR_MEM_START (en e MIPI_DCS_WRITE_MEMORY_START) OR
                 fl e DSI_CMD_CFG1_WR_MEM_CONTINUE (en e MIPI_DCS_WRITE_MEMORY_CONTINUE) OR
                 mk e DSI_CMD_CFG1_INSERT_DCS_COMMAND) h
      in if is_6g (cfg h) then
           dsi_write REG_DSI_CMD_MODE_MDP_CTRL2
             (dsi_read e h REG_DSI_CMD_MODE_MDP_CTRL2 OR
              bits (from_v1_3 (cfg h)) (mk e DSI_CMD_MODE_MDP_CTRL2_BURST_MODE) OR
              bits (msm_dsi_host_is_wide_bus_enabled h) (mk e DSI_CMD_MODE_MDP_CTRL2_DATABUS_WIDEN)) h
         else h)"

definition ctrl_common :: "dsi_env \<Rightarrow> shared_timings \<Rightarrow> dsi_host \<Rightarrow> dsi_host" where
  "ctrl_common e t h =
     (let h = dsi_write REG_DSI_CMD_DMA_CTRL (mk e DSI_CMD_DMA_CTRL_FROM_FRAME_BUFFER OR mk e DSI_CMD_DMA_CTRL_LOW_POWER) h;
          h = dsi_write REG_DSI_TRIG_CTRL
                (mk e DSI_TRIG_CTRL_TE OR fl e DSI_TRIG_CTRL_MDP_TRIGGER (en e TRIGGER_NONE) OR
                 fl e DSI_TRIG_CTRL_DMA_TRIGGER (en e TRIGGER_SW) OR fl e DSI_TRIG_CTRL_STREAM (channel h) OR
                 bits (is_6g (cfg h) \<and> from_v1_2 (cfg h)) (mk e DSI_TRIG_CTRL_BLOCK_DMA_WITHIN_FRAME)) h;
          h = dsi_write REG_DSI_CLKOUT_TIMING_CTRL
                (fl e DSI_CLKOUT_TIMING_CTRL_T_CLK_POST (clk_post t) OR fl e DSI_CLKOUT_TIMING_CTRL_T_CLK_PRE (clk_pre t)) h;
          h = (if is_6g (cfg h) \<and> above_v1_0 (cfg h) \<and> clk_pre_inc_by_2 t
               then dsi_write REG_DSI_T_CLK_PRE_EXTEND (mk e DSI_T_CLK_PRE_EXTEND_INC_BY_2_BYTECLK) h else h);
          h = dsi_write REG_DSI_EOT_PACKET_CTRL (bits (MODE_NO_EOT_PACKET \<notin> mode_flags h) (mk e DSI_EOT_PACKET_CTRL_TX_EOT_APPEND)) h;
          h = dsi_write REG_DSI_ERR_INT_MASK0 0x13ff3fe0 h;
          h = dsi_intr_ctrl e (mk e DSI_IRQ_MASK_ERROR) True h
      in dsi_write REG_DSI_CLK_CTRL (mk e DSI_CLK_CTRL_ENABLE_CLKS) h)"

definition ctrl_lanes :: "dsi_env \<Rightarrow> dsi_host \<Rightarrow> dsi_host" where
  "ctrl_lanes e h =
     (let h = dsi_write REG_DSI_LANE_SWAP_CTRL (fl e DSI_LANE_SWAP_CTRL_DLN_SWAP_SEL (of_nat (dlane_swap h))) h;
          h = (if CLOCK_NON_CONTINUOUS \<in> mode_flags h then h
               else let lane_ctrl = dsi_read e h REG_DSI_LANE_CTRL;
                        lane_ctrl = (if continuous_clock e then lane_ctrl AND NOT (mk e DSI_LANE_CTRL_HS_REQ_SEL_PHY) else lane_ctrl)
                    in dsi_write REG_DSI_LANE_CTRL (lane_ctrl OR mk e DSI_LANE_CTRL_CLKLN_HS_FORCE_REQUEST) h);
          h = dsi_write REG_DSI_CTRL
                (mk e DSI_CTRL_CLK_EN OR (push_bit (lanes (h_link h)) (mk e DSI_CTRL_LANE0) - mk e DSI_CTRL_LANE0) OR mk e DSI_CTRL_ENABLE) h
      in if cphy_mode (h_link h) then dsi_write REG_DSI_CPHY_MODE_CTRL 1 h else h)"

definition dsi_ctrl_enable :: "dsi_env \<Rightarrow> shared_timings \<Rightarrow> dsi_host \<Rightarrow> dsi_host" where
  "dsi_ctrl_enable e t h =
     ctrl_lanes e (ctrl_common e t (if MODE_VIDEO \<in> mode_flags h then ctrl_video e h else ctrl_command e h))"

section \<open>Compression and timing\<close>

text \<open>The library's computations on the compression parameters are \<open>dsc_params\<close>.\<close>

definition dsi_populate_dsc_params :: "dsi_env \<Rightarrow> dsc_config \<Rightarrow> int \<times> dsc_config" where
  "dsi_populate_dsc_params e d =
     (if bits_per_pixel d mod 16 \<noteq> 0 then (- EINVAL, d)
      else if bits_per_component d \<notin> {8, 10, 12} then (- EOPNOTSUPP, d)
      else dsc_params e d)"

definition dsi_update_dsc_timing :: "dsi_env \<Rightarrow> dsc_config \<Rightarrow> bool \<Rightarrow> dsi_host \<Rightarrow> dsi_host" where
  "dsi_update_dsc_timing e d is_cmd_mode h =
     (let chunk = of_nat (slice_chunk_size d) :: u32; slices = of_nat (slice_count d) :: u32;
          eol = (chunk * slices) mod 3;
          reg = (if is_cmd_mode then fl e DSI_COMMAND_COMPRESSION_MODE_CTRL_STREAM0_DATATYPE (en e MIPI_DSI_DCS_LONG_WRITE)
                 else fl e DSI_VIDEO_COMPRESSION_MODE_CTRL_DATATYPE (en e MIPI_DSI_COMPRESSED_PIXEL_STREAM));
          reg = reg OR fl e DSI_VIDEO_COMPRESSION_MODE_CTRL_PKT_PER_LINE (drop_bit 1 slices) OR
                fl e DSI_VIDEO_COMPRESSION_MODE_CTRL_EOL_BYTE_NUM eol OR mk e DSI_VIDEO_COMPRESSION_MODE_CTRL_EN
      in if is_cmd_mode then
           let c = dsi_read e h REG_DSI_COMMAND_COMPRESSION_MODE_CTRL;
               c2 = dsi_read e h REG_DSI_COMMAND_COMPRESSION_MODE_CTRL2
           in dsi_write REG_DSI_COMMAND_COMPRESSION_MODE_CTRL2
                ((c2 AND NOT (mk e DSI_COMMAND_COMPRESSION_MODE_CTRL2_STREAM0_SLICE_WIDTH_MASK)) OR
                 fl e DSI_COMMAND_COMPRESSION_MODE_CTRL2_STREAM0_SLICE_WIDTH chunk)
                (dsi_write REG_DSI_COMMAND_COMPRESSION_MODE_CTRL ((c AND NOT 0xffff) OR reg) h)
         else dsi_write REG_DSI_VIDEO_COMPRESSION_MODE_CTRL (reg OR fl e DSI_VIDEO_COMPRESSION_MODE_CTRL_WC chunk) h)"

text \<open>The local variables of \<open>dsi_timing_setup\<close>, from the mode, halved for one of two bonded links.\<close>

record timing =
  h_total :: u32
  v_total :: u32
  hs_end :: u32
  vs_end :: u32
  ha_start :: u32
  ha_end :: u32
  va_start :: u32
  va_end :: u32
  t_hdisplay :: u32

definition timing_of :: "drm_mode \<Rightarrow> bool \<Rightarrow> timing" where
  "timing_of m bonded =
     (let w = (word_of_int :: int \<Rightarrow> u32); half = (\<lambda>x :: u32. if bonded then x div 2 else x);
          ha = w (htotal m) - w (hsync_start m); va = w (vtotal m) - w (vsync_start m)
      in \<lparr>h_total = half (w (htotal m)), v_total = w (vtotal m), hs_end = half (w (hsync_end m - hsync_start m)),
          vs_end = w (vsync_end m - vsync_start m), ha_start = half ha, ha_end = half (ha + w (hdisplay m)),
          va_start = va, va_end = va + w (vdisplay m), t_hdisplay = half (w (hdisplay m))\<rparr>)"

text \<open>With compression the active width is that of the compressed line.\<close>

definition timing_dsc :: "dsi_host \<Rightarrow> dsc_config \<Rightarrow> timing \<Rightarrow> timing" where
  "timing_dsc h d t =
     (let bpc = (if msm_dsi_host_is_wide_bus_enabled h then bpp (h_link h) else 24);
          hd = of_nat (div_round_up (bytes_per_line d * 8) bpc)
      in t\<lparr>h_total := h_total t - t_hdisplay t + hd, t_hdisplay := hd, ha_end := ha_start t + hd\<rparr>)"

definition write_timing :: "dsi_env \<Rightarrow> drm_mode \<Rightarrow> timing \<Rightarrow> dsi_host \<Rightarrow> dsi_host" where
  "write_timing e m t h =
     (if MODE_VIDEO \<in> mode_flags h then
        let h = (case l_dsc (h_link h) of None \<Rightarrow> h | Some d \<Rightarrow> dsi_update_dsc_timing e d False h);
            h = dsi_write REG_DSI_ACTIVE_H (fl e DSI_ACTIVE_H_START (ha_start t) OR fl e DSI_ACTIVE_H_END (ha_end t)) h;
            h = dsi_write REG_DSI_ACTIVE_V (fl e DSI_ACTIVE_V_START (va_start t) OR fl e DSI_ACTIVE_V_END (va_end t)) h;
            h = dsi_write REG_DSI_TOTAL (fl e DSI_TOTAL_H_TOTAL (h_total t - 1) OR fl e DSI_TOTAL_V_TOTAL (v_total t - 1)) h;
            h = dsi_write REG_DSI_ACTIVE_HSYNC (fl e DSI_ACTIVE_HSYNC_START 0 OR fl e DSI_ACTIVE_HSYNC_END (hs_end t)) h;
            h = dsi_write REG_DSI_ACTIVE_VSYNC_HPOS 0 h
        in dsi_write REG_DSI_ACTIVE_VSYNC_VPOS
             (fl e DSI_ACTIVE_VSYNC_VPOS_START 0 OR fl e DSI_ACTIVE_VSYNC_VPOS_END (vs_end t)) h
      else
        let h = (case l_dsc (h_link h) of None \<Rightarrow> h | Some d \<Rightarrow> dsi_update_dsc_timing e d True h);
            wc = (case l_dsc (h_link h) of
                    None \<Rightarrow> t_hdisplay t * of_nat (bpp (h_link h)) div 8 + 1
                  | Some d \<Rightarrow> of_nat (slice_chunk_size d) + 1);
            h = dsi_write REG_DSI_CMD_MDP_STREAM0_CTRL
                  (fl e DSI_CMD_MDP_STREAM0_CTRL_WORD_COUNT wc OR fl e DSI_CMD_MDP_STREAM0_CTRL_VIRTUAL_CHANNEL (channel h) OR
                   fl e DSI_CMD_MDP_STREAM0_CTRL_DATA_TYPE (en e MIPI_DSI_DCS_LONG_WRITE)) h
        in dsi_write REG_DSI_CMD_MDP_STREAM0_TOTAL
             (fl e DSI_CMD_MDP_STREAM0_TOTAL_H_TOTAL (t_hdisplay t) OR
              fl e DSI_CMD_MDP_STREAM0_TOTAL_V_TOTAL (word_of_int (vdisplay m))) h)"

text \<open>
  The mode is read without asking whether there is one (None). An unsupported compression ends the
  set-up without an error and without writing a register.
\<close>

definition dsi_timing_setup :: "dsi_env \<Rightarrow> bool \<Rightarrow> dsi_host \<Rightarrow> dsi_host option" where
  "dsi_timing_setup e bonded h =
     (case h_mode h of
        None \<Rightarrow> None
      | Some m \<Rightarrow>
          Some (case l_dsc (h_link h) of
            None \<Rightarrow> write_timing e m (timing_of m bonded) h
          | Some d \<Rightarrow>
              if hdisplay m = 0 \<or> vdisplay m = 0 then h
              else case dsi_populate_dsc_params e (d\<lparr>pic_width := hdisplay m, pic_height := vdisplay m\<rparr>) of (r, d) \<Rightarrow>
                let h = h\<lparr>h_link := (h_link h)\<lparr>l_dsc := Some d\<rparr>\<rparr>
                in if r \<noteq> 0 then h else write_timing e m (timing_dsc h d (timing_of m bonded)) h))"

section \<open>Reset and mode of operation\<close>

definition dsi_sw_reset :: "dsi_env \<Rightarrow> dsi_host \<Rightarrow> dsi_host" where
  "dsi_sw_reset e h =
     (let ctrl = dsi_read e h REG_DSI_CTRL; on = (ctrl AND mk e DSI_CTRL_ENABLE \<noteq> 0);
          h = (if on then dsi_write REG_DSI_CTRL (ctrl AND NOT (mk e DSI_CTRL_ENABLE)) h else h);
          h = dsi_write REG_DSI_CLK_CTRL (mk e DSI_CLK_CTRL_ENABLE_CLKS) h;
          h = dsi_write REG_DSI_RESET 0 (dsi_write REG_DSI_RESET 1 h)
      in if on then dsi_write REG_DSI_CTRL ctrl h else h)"

definition dsi_op_mode_config :: "dsi_env \<Rightarrow> bool \<Rightarrow> bool \<Rightarrow> dsi_host \<Rightarrow> dsi_host" where
  "dsi_op_mode_config e video enable h =
     (let ctrl = dsi_read e h REG_DSI_CTRL in
      if \<not> enable then
        dsi_write REG_DSI_CTRL (ctrl AND NOT (mk e DSI_CTRL_ENABLE OR mk e DSI_CTRL_VID_MODE_EN OR mk e DSI_CTRL_CMD_MODE_EN))
          (dsi_intr_ctrl e (mk e DSI_IRQ_MASK_CMD_MDP_DONE OR mk e DSI_IRQ_MASK_VIDEO_DONE) False h)
      else if video then dsi_write REG_DSI_CTRL (ctrl OR mk e DSI_CTRL_VID_MODE_EN OR mk e DSI_CTRL_ENABLE) h
      else dsi_write REG_DSI_CTRL (ctrl OR mk e DSI_CTRL_CMD_MODE_EN OR mk e DSI_CTRL_ENABLE)
             (dsi_intr_ctrl e (mk e DSI_IRQ_MASK_CMD_MDP_DONE) True h))"

definition dsi_set_tx_power_mode :: "dsi_env \<Rightarrow> bool \<Rightarrow> dsi_host \<Rightarrow> dsi_host" where
  "dsi_set_tx_power_mode e low h =
     (let data = dsi_read e h REG_DSI_CMD_DMA_CTRL; lp = mk e DSI_CMD_DMA_CTRL_LOW_POWER
      in dsi_write REG_DSI_CMD_DMA_CTRL (if low then data OR lp else data AND NOT lp) h)"

text \<open>Waiting takes the completion; whether it came in time is only reported.\<close>

definition dsi_wait4video_done :: "dsi_env \<Rightarrow> dsi_host \<Rightarrow> dsi_host" where
  "dsi_wait4video_done e h =
     dsi_intr_ctrl e (mk e DSI_IRQ_MASK_VIDEO_DONE) False
       ((dsi_intr_ctrl e (mk e DSI_IRQ_MASK_VIDEO_DONE) True h)\<lparr>video_comp := False\<rparr>)"

definition dsi_wait4video_eng_busy :: "dsi_env \<Rightarrow> dsi_host \<Rightarrow> dsi_host" where
  "dsi_wait4video_eng_busy e h =
     (if MODE_VIDEO \<in> mode_flags h \<and> dsi_read e h REG_DSI_STATUS0 AND mk e DSI_STATUS0_VIDEO_MODE_ENGINE_BUSY \<noteq> 0 \<and>
        power_on h \<and> enabled h
      then dsi_wait4video_done e h else h)"

section \<open>Interrupts and errors\<close>

abbreviation DSI_ERR_STATE_ACK :: u32 where "DSI_ERR_STATE_ACK \<equiv> 0"
abbreviation DSI_ERR_STATE_TIMEOUT :: u32 where "DSI_ERR_STATE_TIMEOUT \<equiv> 1"
abbreviation DSI_ERR_STATE_DLN0_PHY :: u32 where "DSI_ERR_STATE_DLN0_PHY \<equiv> 2"
abbreviation DSI_ERR_STATE_FIFO :: u32 where "DSI_ERR_STATE_FIFO \<equiv> 4"
abbreviation DSI_ERR_STATE_MDP_FIFO_UNDERFLOW :: u32 where "DSI_ERR_STATE_MDP_FIFO_UNDERFLOW \<equiv> 8"
abbreviation DSI_ERR_STATE_INTERLEAVE_OP_CONTENTION :: u32 where "DSI_ERR_STATE_INTERLEAVE_OP_CONTENTION \<equiv> 16"
abbreviation DSI_ERR_STATE_PLL_UNLOCKED :: u32 where "DSI_ERR_STATE_PLL_UNLOCKED \<equiv> 32"

definition dsi_err_worker :: "dsi_env \<Rightarrow> dsi_host \<Rightarrow> dsi_host" where
  "dsi_err_worker e h =
     (let status = err_work_state h;
          h = h\<lparr>err_queued := False\<rparr>;
          h = (if status AND DSI_ERR_STATE_MDP_FIFO_UNDERFLOW \<noteq> 0 then dsi_sw_reset e h else h)
      in dsi_intr_ctrl e (mk e DSI_IRQ_MASK_ERROR) True (h\<lparr>err_work_state := 0\<rparr>))"

definition add_err :: "u32 \<Rightarrow> dsi_host \<Rightarrow> dsi_host" where
  "add_err err h = h\<lparr>err_work_state := err_work_state h OR err\<rparr>"

definition dsi_ack_err_status :: "dsi_env \<Rightarrow> dsi_host \<Rightarrow> dsi_host" where
  "dsi_ack_err_status e h =
     (let status = dsi_read e h REG_DSI_ACK_ERR_STATUS in
      if status \<noteq> 0 then
        add_err DSI_ERR_STATE_ACK (dsi_write REG_DSI_ACK_ERR_STATUS 0 (dsi_write REG_DSI_ACK_ERR_STATUS status h))
      else h)"

definition dsi_timeout_status :: "dsi_env \<Rightarrow> dsi_host \<Rightarrow> dsi_host" where
  "dsi_timeout_status e h =
     (let status = dsi_read e h REG_DSI_TIMEOUT_STATUS in
      if status \<noteq> 0 then add_err DSI_ERR_STATE_TIMEOUT (dsi_write REG_DSI_TIMEOUT_STATUS status h) else h)"

text \<open>\<open>DSI_DLN0_PHY_ERR_ANY\<close> stands for the disjunction of the five error bits of lane 0.\<close>

definition dsi_dln0_phy_err :: "dsi_env \<Rightarrow> dsi_host \<Rightarrow> dsi_host" where
  "dsi_dln0_phy_err e h =
     (let status = dsi_read e h REG_DSI_DLN0_PHY_ERR in
      if status AND mk e DSI_DLN0_PHY_ERR_ANY \<noteq> 0 then add_err DSI_ERR_STATE_DLN0_PHY (dsi_write REG_DSI_DLN0_PHY_ERR status h)
      else h)"

definition dsi_fifo_status :: "dsi_env \<Rightarrow> dsi_host \<Rightarrow> dsi_host" where
  "dsi_fifo_status e h =
     (let status = dsi_read e h REG_DSI_FIFO_STATUS in
      if status \<noteq> 0 then
        let h = add_err DSI_ERR_STATE_FIFO (dsi_write REG_DSI_FIFO_STATUS status h)
        in if status AND mk e DSI_FIFO_STATUS_CMD_MDP_FIFO_UNDERFLOW \<noteq> 0 then add_err DSI_ERR_STATE_MDP_FIFO_UNDERFLOW h else h
      else h)"

definition dsi_status :: "dsi_env \<Rightarrow> dsi_host \<Rightarrow> dsi_host" where
  "dsi_status e h =
     (let status = dsi_read e h REG_DSI_STATUS0 in
      if status AND mk e DSI_STATUS0_INTERLEAVE_OP_CONTENTION \<noteq> 0
      then add_err DSI_ERR_STATE_INTERLEAVE_OP_CONTENTION (dsi_write REG_DSI_STATUS0 status h) else h)"

definition dsi_clk_status :: "dsi_env \<Rightarrow> dsi_host \<Rightarrow> dsi_host" where
  "dsi_clk_status e h =
     (let status = dsi_read e h REG_DSI_CLK_STATUS in
      if status AND mk e DSI_CLK_STATUS_PLL_UNLOCKED \<noteq> 0
      then add_err DSI_ERR_STATE_PLL_UNLOCKED (dsi_write REG_DSI_CLK_STATUS status h) else h)"

definition dsi_error :: "dsi_env \<Rightarrow> dsi_host \<Rightarrow> dsi_host" where
  "dsi_error e h =
     (let h = dsi_intr_ctrl e (mk e DSI_IRQ_MASK_ERROR) False h;
          h = dsi_dln0_phy_err e (dsi_status e (dsi_timeout_status e (dsi_ack_err_status e (dsi_fifo_status e (dsi_clk_status e h)))))
      in h\<lparr>err_queued := True\<rparr>)"

text \<open>\<open>ctrl_base\<close>, which the handler asks for, is set before the interrupt is requested.\<close>

definition dsi_host_irq :: "dsi_env \<Rightarrow> dsi_host \<Rightarrow> dsi_host" where
  "dsi_host_irq e h =
     (let isr = dsi_read e h REG_DSI_INTR_CTRL;
          h = dsi_write REG_DSI_INTR_CTRL isr h;
          h = (if isr AND mk e DSI_IRQ_ERROR \<noteq> 0 then dsi_error e h else h);
          h = (if isr AND mk e DSI_IRQ_VIDEO_DONE \<noteq> 0 then h\<lparr>video_comp := True\<rparr> else h)
      in if isr AND mk e DSI_IRQ_CMD_DMA_DONE \<noteq> 0 then h\<lparr>dma_comp := True\<rparr> else h)"

section \<open>The device on the bus\<close>

record dsi_dev =
  dv_channel :: u32
  dv_lanes :: nat
  dv_format :: dsi_format
  dv_bpp :: nat
  dv_flags :: "dsi_flag set"
  dv_dsc :: "dsc_config option"

definition dsi_host_attach :: "dsi_env \<Rightarrow> dsi_dev \<Rightarrow> dsi_host \<Rightarrow> int \<times> dsi_host" where
  "dsi_host_attach e d h =
     (if dv_lanes d > num_data_lanes h then (- EINVAL, h)
      else (dev_attach e,
            h\<lparr>channel := dv_channel d, format := dv_format d, mode_flags := dv_flags d,
              h_link := (h_link h)\<lparr>lanes := dv_lanes d, bpp := dv_bpp d,
                l_dsc := (if dv_dsc d \<noteq> None then dv_dsc d else l_dsc (h_link h))\<rparr>\<rparr>))"

definition msm_dsi_host_register :: "dsi_env \<Rightarrow> dsi_host \<Rightarrow> int \<times> dsi_host" where
  "msm_dsi_host_register e h =
     (if \<not> registered h then (if host_register e \<noteq> 0 then (host_register e, h) else (0, h\<lparr>registered := True\<rparr>))
      else (0, h))"

definition msm_dsi_host_unregister :: "dsi_host \<Rightarrow> dsi_host" where
  "msm_dsi_host_unregister h = (if registered h then h\<lparr>registered := False\<rparr> else h)"

section \<open>Preparing for a command\<close>

definition pm_get :: "dsi_host \<Rightarrow> dsi_host" where
  "pm_get h = h\<lparr>pm_usage := pm_usage h + 1\<rparr>"

definition pm_put :: "dsi_host \<Rightarrow> dsi_host" where
  "pm_put h = h\<lparr>pm_usage := pm_usage h - 1\<rparr>"

text \<open>\<open>lpm\<close>: the message has the flag for low power. What the clock operations return is not looked at.\<close>

definition msm_dsi_host_xfer_prepare :: "dsi_env \<Rightarrow> bool \<Rightarrow> dsi_host \<Rightarrow> int \<times> dsi_host" where
  "msm_dsi_host_xfer_prepare e lpm h =
     (let h = snd (link_clk_enable e (snd (link_clk_set_rate e (pm_get h))));
          h = (if lpm then h else dsi_set_tx_power_mode e False h);
          h = h\<lparr>dma_cmd_ctrl_restore := dsi_read e h REG_DSI_CTRL\<rparr>;
          h = dsi_write REG_DSI_CTRL (dma_cmd_ctrl_restore h OR mk e DSI_CTRL_CMD_MODE_EN OR mk e DSI_CTRL_ENABLE) h
      in (0, dsi_intr_ctrl e (mk e DSI_IRQ_MASK_CMD_DMA_DONE) True h))"

definition msm_dsi_host_xfer_restore :: "dsi_env \<Rightarrow> bool \<Rightarrow> dsi_host \<Rightarrow> dsi_host" where
  "msm_dsi_host_xfer_restore e lpm h =
     (let h = dsi_intr_ctrl e (mk e DSI_IRQ_MASK_CMD_DMA_DONE) False h;
          h = dsi_write REG_DSI_CTRL (dma_cmd_ctrl_restore h) h;
          h = (if lpm then h else dsi_set_tx_power_mode e True h)
      in pm_put (link_clk_disable h))"

definition msm_dsi_host_cmd_xfer_commit :: "u32 \<Rightarrow> u32 \<Rightarrow> dsi_host \<Rightarrow> dsi_host" where
  "msm_dsi_host_cmd_xfer_commit dma_base len h =
     dsi_write REG_DSI_TRIG_DMA 1 (dsi_write REG_DSI_DMA_LEN len (dsi_write REG_DSI_DMA_BASE dma_base h))"

section \<open>The PHY, as the host sees it\<close>

definition msm_dsi_host_set_phy_mode :: "bool \<Rightarrow> dsi_host \<Rightarrow> dsi_host" where
  "msm_dsi_host_set_phy_mode cphy h = h\<lparr>h_link := (h_link h)\<lparr>cphy_mode := cphy\<rparr>\<rparr>"

definition msm_dsi_host_reset_phy :: "dsi_env \<Rightarrow> dsi_host \<Rightarrow> dsi_host" where
  "msm_dsi_host_reset_phy e h = dsi_write REG_DSI_PHY_RESET 0 (dsi_write REG_DSI_PHY_RESET (mk e DSI_PHY_RESET_RESET) h)"

record clk_request =
  bitclk_rate :: nat
  escclk_rate :: nat

text \<open>\<open>req\<close> is what the caller's variable holds; it is left as it is when no rate can be computed.\<close>

definition msm_dsi_host_get_phy_clk_req :: "dsi_env \<Rightarrow> bool \<Rightarrow> clk_request \<Rightarrow> dsi_host \<Rightarrow> (clk_request \<times> dsi_host) option" where
  "msm_dsi_host_get_phy_clk_req e bonded req h =
     (case calc_clk_rate e bonded h of
        None \<Rightarrow> None
      | Some (r, h) \<Rightarrow>
          if r \<noteq> 0 then Some (req, h)
          else Some (\<lparr>bitclk_rate = byte_clk_rate (rates h) * (if cphy_mode (h_link h) then 7 else 8),
                      escclk_rate = esc_clk_rate (rates h)\<rparr>, h))"

section \<open>Power\<close>

definition msm_dsi_host_enable_irq :: "dsi_host \<Rightarrow> dsi_host" where
  "msm_dsi_host_enable_irq h = h\<lparr>irq_depth := irq_depth h - 1\<rparr>"

definition msm_dsi_host_disable_irq :: "dsi_host \<Rightarrow> dsi_host" where
  "msm_dsi_host_disable_irq h = h\<lparr>irq_depth := irq_depth h + 1\<rparr>"

definition msm_dsi_host_enable :: "dsi_env \<Rightarrow> dsi_host \<Rightarrow> int \<times> dsi_host" where
  "msm_dsi_host_enable e h = (0, (dsi_op_mode_config e (MODE_VIDEO \<in> mode_flags h) True h)\<lparr>enabled := True\<rparr>)"

definition msm_dsi_host_disable :: "dsi_env \<Rightarrow> dsi_host \<Rightarrow> int \<times> dsi_host" where
  "msm_dsi_host_disable e h =
     (0, dsi_sw_reset e (dsi_op_mode_config e (MODE_VIDEO \<in> mode_flags h) False (h\<lparr>enabled := False\<rparr>)))"

definition msm_dsi_sfpb_config :: "bool \<Rightarrow> dsi_host \<Rightarrow> dsi_host" where
  "msm_dsi_sfpb_config enable h = (if sfpb h = None then h else h\<lparr>sfpb := Some enable\<rparr>)"

text \<open>The end of \<open>msm_dsi_host_power_on\<close> on an error, from the label \<open>fail_disable_reg\<close>.\<close>

definition power_fail :: "int \<Rightarrow> dsi_host \<Rightarrow> (int \<times> dsi_host) option" where
  "power_fail r h = Some (r, if \<not> analog_held h then h\<lparr>supplies_on := supplies_on h - 1\<rparr> else h)"

text \<open>From \<open>pm_runtime_get_sync\<close>. The first setting of the rates may fail; the second may not.\<close>

definition power_clocks :: "dsi_env \<Rightarrow> shared_timings \<Rightarrow> bool \<Rightarrow> dsi_host \<Rightarrow> (int \<times> dsi_host) option" where
  "power_clocks e t bonded h =
     (case link_clk_enable e (snd (link_clk_set_rate e (pm_get h))) of (r, h) \<Rightarrow>
        if r \<noteq> 0 then power_fail r h
        else case link_clk_set_rate e h of (r, h) \<Rightarrow>
          if r \<noteq> 0 then power_fail r (pm_put (link_clk_disable h))
          else if pinctrl_default e h \<noteq> 0 then power_fail (pinctrl_default e h) (pm_put (link_clk_disable h))
          else case dsi_timing_setup e bonded h of
              None \<Rightarrow> None
            | Some h \<Rightarrow> Some (0, (dsi_ctrl_enable e t (dsi_sw_reset e h))\<lparr>power_on := True\<rparr>))"

definition msm_dsi_host_power_on :: "dsi_env \<Rightarrow> shared_timings \<Rightarrow> bool \<Rightarrow> dsi_host \<Rightarrow> (int \<times> dsi_host) option" where
  "msm_dsi_host_power_on e t bonded h =
     (if power_on h then Some (0, h)
      else
        let intf = byte_clk_rate (rates h);
            h = h\<lparr>rates := (rates h)\<lparr>byte_intf_clk_rate := (if byte_intf_clk_div_2 t then intf div 2 else intf)\<rparr>\<rparr>;
            h = msm_dsi_sfpb_config True h
        in if analog_held h then power_clocks e t bonded h
           else if vreg_enable e h \<noteq> 0 then Some (vreg_enable e h, h)
           else power_clocks e t bonded (h\<lparr>supplies_on := supplies_on h + 1, analog_held := True\<rparr>))"

definition msm_dsi_host_power_off :: "dsi_host \<Rightarrow> int \<times> dsi_host" where
  "msm_dsi_host_power_off h =
     (if \<not> power_on h then (0, h)
      else
        let h = pm_put (link_clk_disable (dsi_ctrl_disable h))
        in (0, (msm_dsi_sfpb_config False h)\<lparr>power_on := False\<rparr>))"

definition msm_dsi_host_set_display_mode :: "dsi_env \<Rightarrow> drm_mode \<Rightarrow> dsi_host \<Rightarrow> int \<times> dsi_host" where
  "msm_dsi_host_set_display_mode e m h =
     (if mode_duplicate e then (0, h\<lparr>h_mode := Some m\<rparr>) else (- ENOMEM, h\<lparr>h_mode := None\<rparr>))"

section \<open>Test pattern\<close>

definition msm_dsi_host_video_test_pattern_setup :: "dsi_env \<Rightarrow> dsi_host \<Rightarrow> dsi_host" where
  "msm_dsi_host_video_test_pattern_setup e h =
     (let reg = dsi_read e h REG_DSI_TEST_PATTERN_GEN_CTRL;
          h = dsi_write REG_DSI_TEST_PATTERN_GEN_VIDEO_INIT_VAL 0xff h;
          h = dsi_write REG_DSI_TPG_MAIN_CONTROL (mk e DSI_TPG_MAIN_CONTROL_CHECKERED_RECTANGLE_PATTERN) h;
          h = dsi_write REG_DSI_TPG_VIDEO_CONFIG (fl e DSI_TPG_VIDEO_CONFIG_BPP (en e VIDEO_CONFIG_24BPP) OR mk e DSI_TPG_VIDEO_CONFIG_RGB) h
      in dsi_write REG_DSI_TEST_PATTERN_GEN_CTRL
           (reg OR fl e DSI_TEST_PATTERN_GEN_CTRL_VIDEO_PATTERN_SEL (en e VID_MDSS_GENERAL_PATTERN)) h)"

definition msm_dsi_host_cmd_test_pattern_setup :: "dsi_env \<Rightarrow> dsi_host \<Rightarrow> dsi_host" where
  "msm_dsi_host_cmd_test_pattern_setup e h =
     (let reg = dsi_read e h REG_DSI_TEST_PATTERN_GEN_CTRL;
          h = dsi_write REG_DSI_TEST_PATTERN_GEN_CMD_MDP_INIT_VAL0 0xff h;
          h = dsi_write REG_DSI_TEST_PATTERN_GEN_CTRL
                (reg OR fl e DSI_TEST_PATTERN_GEN_CTRL_CMD_MDP_STREAM0_PATTERN_SEL (en e CMD_MDP_MDSS_GENERAL_PATTERN)) h
      in dsi_write REG_DSI_TPG_MAIN_CONTROL2 (mk e DSI_TPG_MAIN_CONTROL2_CMD_MDP0_CHECKERED_RECTANGLE_PATTERN) h)"

definition msm_dsi_host_test_pattern_en :: "dsi_env \<Rightarrow> dsi_host \<Rightarrow> dsi_host" where
  "msm_dsi_host_test_pattern_en e h =
     (let video = (MODE_VIDEO \<in> mode_flags h);
          h = (if video then msm_dsi_host_video_test_pattern_setup e h else msm_dsi_host_cmd_test_pattern_setup e h);
          h = dsi_write REG_DSI_TEST_PATTERN_GEN_CTRL
                (dsi_read e h REG_DSI_TEST_PATTERN_GEN_CTRL OR mk e DSI_TEST_PATTERN_GEN_CTRL_EN) h
      in if video then h
         else dsi_write REG_DSI_TEST_PATTERN_GEN_CMD_STREAM0_TRIGGER (mk e DSI_TEST_PATTERN_GEN_CMD_STREAM0_TRIGGER_SW_TRIGGER) h)"

end
