(* ===== verification/Dsi_Manager.thy ===== *)
theory Dsi_Manager
  imports Dsi_Host Dsi_Cmd
begin

text \<open>
  The DSI manager (\<open>drivers/gpu/drm/msm/dsi/dsi_manager.c\<close>): one or two hosts with their PHYs, the
  bridge operations that the display framework calls, and commands through one or both links.

  The PHY driver and the device tree are parameters. A null pointer that is followed is the result
  None. The hosts are 0 and 1; \<open>d_reg\<close> says which are registered.
\<close>

section \<open>State\<close>

datatype phy_usecase = PHY_STANDALONE | PHY_MASTER | PHY_SLAVE

record 'h dsim =
  d_reg :: "nat \<Rightarrow> bool"
  is_bonded_dsi :: bool
  is_sync_needed :: bool
  master_dsi_link_id :: nat
  d_host :: "nat \<Rightarrow> dsi_host"
  d_chan :: "nat \<Rightarrow> dsi_chan"
  d_hw :: 'h
  phy_enabled :: "nat \<Rightarrow> bool"
  saved_phy_timings :: "nat \<Rightarrow> shared_timings"
  phy_on :: "nat \<Rightarrow> int"
  usecase :: "nat \<Rightarrow> phy_usecase"

text \<open>
  \<open>phy_enable\<close> is the PHY driver's answer to a request, and the timings it writes; \<open>stack_timings\<close> and \<open>stack_req\<close> are what
  uninitialised local variables hold; \<open>opp_ceil\<close> looks for an operating point for a byte clock.
\<close>

record 'h dsim_env =
  e_host :: "nat \<Rightarrow> dsi_env"
  e_hw :: "'h dsi_hw"
  phy_enable :: "nat \<Rightarrow> clk_request \<Rightarrow> int \<times> shared_timings"
  phy_cphy :: "nat \<Rightarrow> bool"
  stack_timings :: "nat \<Rightarrow> shared_timings"
  stack_req :: clk_request
  of_dual :: bool
  of_master :: bool
  of_sync :: bool
  opp_ceil :: "nat \<Rightarrow> int"
  opp_count :: int

definition on_host :: "nat \<Rightarrow> (dsi_host \<Rightarrow> dsi_host) \<Rightarrow> 'h dsim \<Rightarrow> 'h dsim" where
  "on_host i f s = s\<lparr>d_host := (d_host s)(i := f (d_host s i))\<rparr>"

text \<open>An operation of a host that returns a code.\<close>

definition at_host :: "nat \<Rightarrow> (dsi_host \<Rightarrow> int \<times> dsi_host) \<Rightarrow> 'h dsim \<Rightarrow> int \<times> 'h dsim" where
  "at_host i f s = (case f (d_host s i) of (r, h) \<Rightarrow> (r, on_host i (\<lambda>_. h) s))"

definition at_host_opt :: "nat \<Rightarrow> (dsi_host \<Rightarrow> (int \<times> dsi_host) option) \<Rightarrow> 'h dsim \<Rightarrow> (int \<times> 'h dsim) option" where
  "at_host_opt i f s = map_option (\<lambda>(r, h). (r, on_host i (\<lambda>_. h) s)) (f (d_host s i))"

definition other :: "nat \<Rightarrow> nat" where
  "other i = (i + 1) mod 2"

section \<open>Registration\<close>

definition dsi_mgr_parse_of :: "'h dsim_env \<Rightarrow> nat \<Rightarrow> 'h dsim \<Rightarrow> 'h dsim" where
  "dsi_mgr_parse_of e i s =
     (let s = (if is_bonded_dsi s then s else s\<lparr>is_bonded_dsi := of_dual e\<rparr>) in
      if is_bonded_dsi s then
        let s = (if of_master e then s\<lparr>master_dsi_link_id := i\<rparr> else s)
        in if is_sync_needed s then s else s\<lparr>is_sync_needed := of_sync e\<rparr>
      else s)"

definition dsi_mgr_setup_components :: "'h dsim_env \<Rightarrow> nat \<Rightarrow> 'h dsim \<Rightarrow> int \<times> 'h dsim" where
  "dsi_mgr_setup_components e i s =
     (let register = (\<lambda>j. at_host j (msm_dsi_host_register (e_host e j))) in
      if \<not> is_bonded_dsi s then
        register i (on_host i (msm_dsi_host_set_phy_mode (phy_cphy e i)) (s\<lparr>usecase := (usecase s)(i := PHY_STANDALONE)\<rparr>))
      else if d_reg s (other i) then
        let master = (if master_dsi_link_id s = i then i else other i);
            slave = (if master_dsi_link_id s = i then other i else i);
            s = s\<lparr>usecase := (usecase s)(0 := PHY_MASTER, 1 := PHY_SLAVE)\<rparr>;
            s = on_host (other i) (msm_dsi_host_set_phy_mode (phy_cphy e (other i)))
                  (on_host i (msm_dsi_host_set_phy_mode (phy_cphy e i)) s)
        in case register slave s of (r, s) \<Rightarrow> if r \<noteq> 0 then (r, s) else register master s
      else (0, s))"

definition msm_dsi_manager_register :: "'h dsim_env \<Rightarrow> nat \<Rightarrow> 'h dsim \<Rightarrow> int \<times> 'h dsim" where
  "msm_dsi_manager_register e i s =
     (if i \<ge> 2 then (- EINVAL, s)
      else if d_reg s i then (- EBUSY, s)
      else
        case dsi_mgr_setup_components e i (dsi_mgr_parse_of e i (s\<lparr>d_reg := (d_reg s)(i := True)\<rparr>)) of (r, s) \<Rightarrow>
          if r \<noteq> 0 then (r, s\<lparr>d_reg := (d_reg s)(i := False)\<rparr>) else (0, s))"

definition msm_dsi_manager_unregister :: "nat \<Rightarrow> 'h dsim \<Rightarrow> 'h dsim" where
  "msm_dsi_manager_unregister i s = (on_host i msm_dsi_host_unregister s)\<lparr>d_reg := (d_reg s)(i := False)\<rparr>"

section \<open>PHYs\<close>

text \<open>The timings are written to the array \<open>ts\<close> of the caller.\<close>

definition enable_phy :: "'h dsim_env \<Rightarrow> nat \<Rightarrow> (nat \<Rightarrow> shared_timings) \<Rightarrow> 'h dsim \<Rightarrow>
    (int \<times> (nat \<Rightarrow> shared_timings) \<times> 'h dsim) option" where
  "enable_phy e i ts s =
     (case msm_dsi_host_get_phy_clk_req (e_host e i) (is_bonded_dsi s) (stack_req e) (d_host s i) of
        None \<Rightarrow> None
      | Some (req, h) \<Rightarrow>
          let s = on_host i (\<lambda>_. h) s
          in case phy_enable e i req of (r, t) \<Rightarrow>
               Some (r, ts(i := t), if r = 0 then s\<lparr>phy_on := (phy_on s)(i := phy_on s i + 1)\<rparr> else s))"

definition phy_now_enabled :: "nat \<Rightarrow> (nat \<Rightarrow> shared_timings) \<Rightarrow> 'h dsim \<Rightarrow> (int \<times> (nat \<Rightarrow> shared_timings) \<times> 'h dsim) option" where
  "phy_now_enabled i ts s =
     Some (0, ts, s\<lparr>phy_enabled := (phy_enabled s)(i := True), saved_phy_timings := (saved_phy_timings s)(i := ts i)\<rparr>)"

definition dsi_mgr_phy_enable :: "'h dsim_env \<Rightarrow> nat \<Rightarrow> (nat \<Rightarrow> shared_timings) \<Rightarrow> 'h dsim \<Rightarrow>
    (int \<times> (nat \<Rightarrow> shared_timings) \<times> 'h dsim) option" where
  "dsi_mgr_phy_enable e i ts s =
     (if phy_enabled s i then Some (0, ts(i := saved_phy_timings s i), s)
      else if is_bonded_dsi s \<and> d_reg s 0 \<and> d_reg s 1 then
        if \<not> phy_enabled s 0 \<and> \<not> phy_enabled s 1 then
          case enable_phy e 0 ts
                 (on_host 1 (msm_dsi_host_reset_phy (e_host e 1)) (on_host 0 (msm_dsi_host_reset_phy (e_host e 0)) s)) of
            None \<Rightarrow> None
          | Some (r, ts, s) \<Rightarrow>
              if r \<noteq> 0 then Some (r, ts, s)
              else case enable_phy e 1 ts s of
                  None \<Rightarrow> None
                | Some (r, ts, s) \<Rightarrow>
                    if r \<noteq> 0 then Some (r, ts, s\<lparr>phy_on := (phy_on s)(0 := phy_on s 0 - 1)\<rparr>)
                    else phy_now_enabled i ts s
        else phy_now_enabled i ts s
      else
        case enable_phy e i ts (on_host i (msm_dsi_host_reset_phy (e_host e i)) s) of
          None \<Rightarrow> None
        | Some (r, ts, s) \<Rightarrow> if r \<noteq> 0 then Some (r, ts, s) else phy_now_enabled i ts s)"

text \<open>\<open>dsi_mgr_phy_disable\<close> does nothing: the PHY stays on.\<close>

definition dsi_mgr_phy_disable :: "nat \<Rightarrow> 'h dsim \<Rightarrow> 'h dsim" where
  "dsi_mgr_phy_disable i s = s"

section \<open>Bridge operations\<close>

definition second :: "'h dsim \<Rightarrow> bool" where
  "second s \<longleftrightarrow> is_bonded_dsi s \<and> d_reg s 1"

definition dsi_mgr_bridge_power_on :: "'h dsim_env \<Rightarrow> nat \<Rightarrow> 'h dsim \<Rightarrow> (int \<times> 'h dsim) option" where
  "dsi_mgr_bridge_power_on e i s = do {
     (r, ts, s) \<leftarrow> dsi_mgr_phy_enable e i (stack_timings e) s;
     if r \<noteq> 0 then Some (r, s)
     else do {
       (r, s) \<leftarrow> at_host_opt i (msm_dsi_host_power_on (e_host e i) (ts i) (is_bonded_dsi s)) s;
       if r \<noteq> 0 then Some (r, dsi_mgr_phy_disable i s)
       else if second s then do {
         (r, s) \<leftarrow> at_host_opt 1 (msm_dsi_host_power_on (e_host e 1) (ts 1) (is_bonded_dsi s)) s;
         if r \<noteq> 0 then Some (r, dsi_mgr_phy_disable i (snd (at_host i msm_dsi_host_power_off s)))
         else Some (0, on_host 1 msm_dsi_host_enable_irq (on_host i msm_dsi_host_enable_irq s))
       }
       else Some (0, on_host i msm_dsi_host_enable_irq s)
     }
   }"

definition dsi_mgr_bridge_power_off :: "nat \<Rightarrow> 'h dsim \<Rightarrow> 'h dsim" where
  "dsi_mgr_bridge_power_off i s =
     (let s = on_host i msm_dsi_host_disable_irq s;
          s = (if second s then snd (at_host 1 msm_dsi_host_power_off (on_host 1 msm_dsi_host_disable_irq s)) else s)
      in dsi_mgr_phy_disable i (snd (at_host i msm_dsi_host_power_off s)))"

definition dsi_mgr_bridge_pre_enable :: "'h dsim_env \<Rightarrow> nat \<Rightarrow> 'h dsim \<Rightarrow> 'h dsim option" where
  "dsi_mgr_bridge_pre_enable e i s =
     (if \<not> d_reg s i then None
      else if is_bonded_dsi s \<and> master_dsi_link_id s \<noteq> i then Some s
      else do {
        (r, s) \<leftarrow> dsi_mgr_bridge_power_on e i s;
        if r \<noteq> 0 then Some s
        else case at_host i (msm_dsi_host_enable (e_host e i)) s of (r, s) \<Rightarrow>
          if r \<noteq> 0 then Some (dsi_mgr_bridge_power_off i s)
          else if second s then
            case at_host 1 (msm_dsi_host_enable (e_host e 1)) s of (r, s) \<Rightarrow>
              Some (if r \<noteq> 0 then dsi_mgr_bridge_power_off i (snd (at_host i (msm_dsi_host_disable (e_host e i)) s)) else s)
          else Some s
      })"

text \<open>What \<open>msm_dsi_phy_pll_save_state\<close> saves is not part of the state; return values are only reported.\<close>

definition dsi_mgr_bridge_post_disable :: "'h dsim_env \<Rightarrow> nat \<Rightarrow> 'h dsim \<Rightarrow> 'h dsim option" where
  "dsi_mgr_bridge_post_disable e i s =
     (if \<not> d_reg s i then None
      else if is_bonded_dsi s \<and> master_dsi_link_id s \<noteq> i then Some (dsi_mgr_phy_disable i s)
      else
        let s = snd (at_host i (msm_dsi_host_disable (e_host e i)) s);
            s = (if second s then snd (at_host 1 (msm_dsi_host_disable (e_host e 1)) s) else s);
            s = on_host i msm_dsi_host_disable_irq s;
            s = (if second s then on_host 1 msm_dsi_host_disable_irq s else s);
            s = snd (at_host i msm_dsi_host_power_off s);
            s = (if second s then snd (at_host 1 msm_dsi_host_power_off s) else s)
        in Some (dsi_mgr_phy_disable i s))"

definition dsi_mgr_bridge_mode_set :: "'h dsim_env \<Rightarrow> nat \<Rightarrow> drm_mode \<Rightarrow> 'h dsim \<Rightarrow> 'h dsim option" where
  "dsi_mgr_bridge_mode_set e i m s =
     (if \<not> d_reg s i then None
      else if is_bonded_dsi s \<and> master_dsi_link_id s \<noteq> i then Some s
      else
        let s = snd (at_host i (msm_dsi_host_set_display_mode (e_host e i) m) s)
        in Some (if is_bonded_dsi s \<and> d_reg s (other i)
                 then snd (at_host (other i) (msm_dsi_host_set_display_mode (e_host e (other i)) m) s) else s))"

abbreviation ERANGE :: int where "ERANGE \<equiv> 34"

definition dsi_mgr_bridge_mode_valid :: "'h dsim_env \<Rightarrow> nat \<Rightarrow> drm_mode \<Rightarrow> 'h dsim \<Rightarrow> mode_status" where
  "dsi_mgr_bridge_mode_valid e i m s =
     (let l = h_link (d_host s i); r = opp_ceil e (dsi_byte_clk_get_rate l (is_bonded_dsi s) m) in
      if r = 0 then msm_dsi_host_check_dsc (l_dsc l) m
      else if r = - ERANGE then (if opp_count e \<noteq> 0 then MODE_CLOCK_RANGE else msm_dsi_host_check_dsc (l_dsc l) m)
      else MODE_ERROR)"

definition msm_dsi_manager_tpg_enable :: "'h dsim_env \<Rightarrow> 'h dsim \<Rightarrow> 'h dsim" where
  "msm_dsi_manager_tpg_enable e s =
     (if d_reg s 0 then
        let s = on_host 0 (msm_dsi_host_test_pattern_en (e_host e 0)) s
        in if second s then on_host 1 (msm_dsi_host_test_pattern_en (e_host e 1)) s else s
      else s)"

section \<open>Commands\<close>

definition msm_dsi_manager_cmd_xfer_trigger :: "nat \<Rightarrow> u32 \<Rightarrow> u32 \<Rightarrow> 'h dsim \<Rightarrow> bool \<times> 'h dsim" where
  "msm_dsi_manager_cmd_xfer_trigger i dma_base len s =
     (if is_sync_needed s \<and> i = 0 then (False, s)
      else
        let s = (if is_sync_needed s \<and> d_reg s 0 then on_host 0 (msm_dsi_host_cmd_xfer_commit dma_base len) s else s)
        in (True, on_host i (msm_dsi_host_cmd_xfer_commit dma_base len) s))"

text \<open>
  The host as the functions of Dsi_Cmd see it. A command looks at the mode (None without one). What
  sending writes to the DMA registers is left to the controller of Dsi_Cmd.
\<close>

definition chan_of :: "nat \<Rightarrow> 'h dsim \<Rightarrow> dsi_chan option" where
  "chan_of i s =
     (let h = d_host s i in
      case h_mode h of
        None \<Rightarrow> None
      | Some m \<Rightarrow>
          Some ((d_chan s i)\<lparr>video_mode := MODE_VIDEO \<in> mode_flags h, line_bytes := hdisplay m * int (bpp (h_link h)) sdiv 8,
            triggers := \<not> (is_sync_needed s \<and> i = 0), clears := is_6g (cfg h) \<and> from_v1_1 (cfg h)\<rparr>))"

definition send_cmd :: "'h dsim_env \<Rightarrow> nat \<Rightarrow> dsi_msg \<Rightarrow> 'h dsim \<Rightarrow> ((int \<times> u8 list) \<times> 'h dsim) option" where
  "send_cmd e i m s = do {
     c \<leftarrow> chan_of i s;
     (r, c, h) \<leftarrow> (if m_rx_len m \<noteq> 0 then msm_dsi_host_cmd_rx (e_hw e) m (c, d_hw s)
                  else map_option (\<lambda>(r, c, h). ((r, []), c, h)) (msm_dsi_host_cmd_tx (e_hw e) m (c, d_hw s)));
     Some (r, s\<lparr>d_chan := (d_chan s)(i := c), d_hw := h\<rparr>)
   }"

text \<open>The result is the return value and what is written to the buffer of a read.\<close>

definition msm_dsi_manager_cmd_xfer :: "'h dsim_env \<Rightarrow> nat \<Rightarrow> bool \<Rightarrow> dsi_msg \<Rightarrow> 'h dsim \<Rightarrow> ((int \<times> u8 list) \<times> 'h dsim) option" where
  "msm_dsi_manager_cmd_xfer e i lpm m s =
     (let is_read = m_rx_len m \<noteq> 0; need_sync = is_sync_needed s \<and> \<not> is_read in
      if m_tx m = [] then Some ((0, []), s)
      else if need_sync \<and> i = 0 then Some ((if is_read then int (m_rx_len m) else int (length (m_tx m)), []), s)
      else
        let prep = (\<lambda>j. at_host j (msm_dsi_host_xfer_prepare (e_host e j) lpm));
            rest = (\<lambda>j. on_host j (msm_dsi_host_xfer_restore (e_host e j) lpm));
            both = need_sync \<and> d_reg s 0
        in case (if both then prep 0 s else (0, s)) of (r, s) \<Rightarrow>
             if r \<noteq> 0 then Some ((r, []), s)
             else case prep i s of (r, s) \<Rightarrow>
               if r \<noteq> 0 then Some ((r, []), if both then rest 0 s else s)
               else do {
                 (r, s) \<leftarrow> send_cmd e i m s;
                 let s = rest i s;
                 Some (r, if both then rest 0 s else s)
               })"

definition dsi_host_transfer :: "'h dsim_env \<Rightarrow> nat \<Rightarrow> bool \<Rightarrow> dsi_msg \<Rightarrow> 'h dsim \<Rightarrow> ((int \<times> u8 list) \<times> 'h dsim) option" where
  "dsi_host_transfer e i lpm m s =
     (if \<not> power_on (d_host s i) then Some ((- EINVAL, []), s) else msm_dsi_manager_cmd_xfer e i lpm m s)"

end
