(* ===== verification/Dsi_Power_Correct.thy ===== *)
theory Dsi_Power_Correct
  imports Dsi_Manager
begin

text \<open>
  What is proved of the power of the DSI hosts and their manager: clocks, regulators, PHYs, the
  interrupt, and the rates, over any sequence of operations, whatever fails.
\<close>

section \<open>What register accesses leave alone\<close>

text \<open>The part of a host that register accesses do not touch.\<close>

definition pw :: "dsi_host \<Rightarrow> (dsi_clk \<Rightarrow> int) \<times> int \<times> int \<times> bool \<times> bool \<times> nat \<times> clk_rates \<times> dsi_cfg" where
  "pw h = (clk_on h, supplies_on h, pm_usage h, power_on h, analog_held h, irq_depth h, rates h, cfg h)"

lemma pw_writes [simp]:
  "pw (dsi_write r v h) = pw h" "pw (add_err err h) = pw h" "pw (dsi_intr_ctrl e m on h) = pw h"
  "pw (h\<lparr>err_work_state := es\<rparr>) = pw h" "pw (h\<lparr>err_queued := q\<rparr>) = pw h" "pw (h\<lparr>video_comp := b\<rparr>) = pw h"
  "pw (h\<lparr>dma_comp := b\<rparr>) = pw h" "pw (h\<lparr>h_link := l\<rparr>) = pw h" "pw (h\<lparr>enabled := b\<rparr>) = pw h"
  "pw (h\<lparr>dma_cmd_ctrl_restore := u\<rparr>) = pw h" "pw (h\<lparr>h_mode := mo\<rparr>) = pw h" "pw (h\<lparr>registered := b\<rparr>) = pw h"
  "pw (h\<lparr>sfpb := f\<rparr>) = pw h" "pw (h\<lparr>clk_rate := k\<rparr>) = pw h"
  by (simp_all add: pw_def dsi_write_def add_err_def dsi_intr_ctrl_def Let_def)

lemma pw_ops [simp]:
  "pw (dsi_sw_reset e h) = pw h" "pw (dsi_op_mode_config e v on h) = pw h" "pw (dsi_set_tx_power_mode e low h) = pw h"
  "pw (dsi_ctrl_enable e t h) = pw h" "pw (dsi_ctrl_disable h) = pw h" "pw (dsi_update_dsc_timing e d c h) = pw h"
  "pw (write_timing e m tm h) = pw h" "pw (msm_dsi_sfpb_config on h) = pw h" "pw (msm_dsi_host_reset_phy e h) = pw h"
  "pw (snd (msm_dsi_host_set_display_mode e m h)) = pw h" "pw (snd (msm_dsi_host_enable e h)) = pw h"
  "pw (snd (msm_dsi_host_disable e h)) = pw h" "pw (dsi_err_worker e h) = pw h" "pw (dsi_host_irq e h) = pw h"
  "pw (msm_dsi_host_set_phy_mode c h) = pw h"
  by (simp_all add: dsi_sw_reset_def dsi_op_mode_config_def dsi_set_tx_power_mode_def dsi_ctrl_enable_def
      ctrl_lanes_def ctrl_common_def ctrl_video_def ctrl_command_def dsi_ctrl_disable_def dsi_update_dsc_timing_def
      write_timing_def msm_dsi_sfpb_config_def msm_dsi_host_reset_phy_def msm_dsi_host_set_display_mode_def
      msm_dsi_host_enable_def msm_dsi_host_disable_def dsi_err_worker_def dsi_host_irq_def dsi_error_def
      dsi_ack_err_status_def dsi_timeout_status_def dsi_dln0_phy_err_def dsi_fifo_status_def dsi_status_def
      dsi_clk_status_def msm_dsi_host_set_phy_mode_def Let_def split: option.split)

lemma pw_timing_setup: "dsi_timing_setup e b h = Some h' \<Longrightarrow> pw h' = pw h"
  by (auto simp: dsi_timing_setup_def Let_def split: option.splits prod.splits if_splits)

section \<open>Clocks\<close>

text \<open>The clocks that a host of this version has on its link.\<close>

definition link_clk :: "dsi_cfg \<Rightarrow> dsi_clk \<Rightarrow> bool" where
  "link_clk c k \<longleftrightarrow> (case k of Src \<Rightarrow> \<not> is_6g c | Byte_Intf \<Rightarrow> is_6g c \<and> has_byte_intf c | _ \<Rightarrow> True)"

definition bump :: "int \<Rightarrow> dsi_host \<Rightarrow> dsi_host" where
  "bump n h = h\<lparr>clk_on := (\<lambda>k. clk_on h k + (if link_clk (cfg h) k then n else 0))\<rparr>"

lemma link_clk_simps [simp]:
  "link_clk c Esc" "link_clk c Byte" "link_clk c Pixel" "link_clk c Src \<longleftrightarrow> \<not> is_6g c"
  "link_clk c Byte_Intf \<longleftrightarrow> is_6g c \<and> has_byte_intf c"
  by (simp_all add: link_clk_def)

definition clk_add :: "dsi_clk \<Rightarrow> int \<Rightarrow> dsi_host \<Rightarrow> dsi_host" where
  "clk_add c n h =
     (if c = Byte_Intf \<and> \<not> has_byte_intf (cfg h) then h else h\<lparr>clk_on := (clk_on h)(c := clk_on h c + n)\<rparr>)"

lemma clk_add_cancel: "clk_add c (- 1) (clk_add c 1 h) = h"
  by (simp add: clk_add_def)

lemma disable_add: "clk_disable_unprepare c h = clk_add c (- 1) h"
  by (simp add: clk_disable_unprepare_def clk_add_def)

lemma clk_add_cfg [simp]: "cfg (clk_add c n h) = cfg h"
  by (simp add: clk_add_def)

lemma prepare_cases:
  obtains (fail) r where "clk_prepare_enable e c h = (r, h)" "r \<noteq> 0" | (ok) "clk_prepare_enable e c h = (0, clk_add c 1 h)"
proof -
  have "(\<exists>r. clk_prepare_enable e c h = (r, h) \<and> r \<noteq> 0) \<or> clk_prepare_enable e c h = (0, clk_add c 1 h)"
    by (simp add: clk_prepare_enable_def clk_add_def)
  then show thesis using that by blast
qed

lemma bump_add:
  "bump n h = (if is_6g (cfg h) then clk_add Byte_Intf n (clk_add Pixel n (clk_add Byte n (clk_add Esc n h)))
    else clk_add Pixel n (clk_add Src n (clk_add Esc n (clk_add Byte n h))))"
proof -
  have "(\<lambda>k. clk_on h k + (if link_clk (cfg h) k then n else 0)) =
      clk_on (if is_6g (cfg h) then clk_add Byte_Intf n (clk_add Pixel n (clk_add Byte n (clk_add Esc n h)))
        else clk_add Pixel n (clk_add Src n (clk_add Esc n (clk_add Byte n h))))"
    (is "?l = ?r")
  proof
    show "?l k = ?r k" for k by (cases k) (auto simp: clk_add_def)
  qed
  then show ?thesis by (auto simp: bump_def clk_add_def)
qed

text \<open>
  Switching the clocks on switches all of them on, or none: those before the failing one are taken
  back. Both versions have four clocks and undo in the same way.
\<close>

lemma enable_four:
  fixes e a b c d h
  defines "r \<equiv>
    (case clk_prepare_enable e a h of (r, h) \<Rightarrow>
       if r \<noteq> 0 then (r, h)
       else case clk_prepare_enable e b h of (r, h) \<Rightarrow>
         if r \<noteq> 0 then (r, clk_disable_unprepare a h)
         else case clk_prepare_enable e c h of (r, h) \<Rightarrow>
           if r \<noteq> 0 then (r, clk_disable_unprepare a (clk_disable_unprepare b h))
           else case clk_prepare_enable e d h of (r, h) \<Rightarrow>
             if r \<noteq> 0 then (r, clk_disable_unprepare a (clk_disable_unprepare b (clk_disable_unprepare c h)))
             else (0, h))"
  shows "(\<exists>x. r = (x, h) \<and> x \<noteq> 0) \<or> r = (0, clk_add d 1 (clk_add c 1 (clk_add b 1 (clk_add a 1 h))))"
proof (cases rule: prepare_cases [of e a h])
  case ok1: ok
  show ?thesis
  proof (cases rule: prepare_cases [of e b "clk_add a 1 h"])
    case ok2: ok
    show ?thesis
    proof (cases rule: prepare_cases [of e c "clk_add b 1 (clk_add a 1 h)"])
      case ok3: ok
      show ?thesis
        by (cases rule: prepare_cases [of e d "clk_add c 1 (clk_add b 1 (clk_add a 1 h))"])
          (simp_all add: r_def ok1 ok2 ok3 disable_add clk_add_cancel)
    qed (simp add: r_def ok1 ok2 disable_add clk_add_cancel)
  qed (simp add: r_def ok1 disable_add clk_add_cancel)
qed (simp add: r_def)

lemma link_clk_enable_outcome:
  obtains (fail) r where "link_clk_enable e h = (r, h)" "r \<noteq> 0" | (ok) "link_clk_enable e h = (0, bump 1 h)"
proof -
  have "(\<exists>r. link_clk_enable e h = (r, h) \<and> r \<noteq> 0) \<or> link_clk_enable e h = (0, bump 1 h)"
    unfolding link_clk_enable_def dsi_link_clk_enable_6g_def dsi_link_clk_enable_v2_def bump_add
    using enable_four [where e = e and h = h and a = Esc and b = Byte and c = Pixel and d = Byte_Intf]
      enable_four [where e = e and h = h and a = Byte and b = Esc and c = Src and d = Pixel]
    by (cases "is_6g (cfg h)") (simp_all only: if_True if_False simp_thms)
  then show thesis using that by blast
qed

lemma link_clk_disable_bump: "link_clk_disable h = bump (- 1) h"
proof -
  have "dsi_link_clk_disable_6g h = clk_add Byte_Intf (- 1) (clk_add Pixel (- 1) (clk_add Byte (- 1) (clk_add Esc (- 1) h)))"
    "dsi_link_clk_disable_v2 h = clk_add Pixel (- 1) (clk_add Src (- 1) (clk_add Esc (- 1) (clk_add Byte (- 1) h)))"
    by (simp_all add: dsi_link_clk_disable_6g_def dsi_link_clk_disable_v2_def disable_add clk_add_def fun_upd_twist)
  then show ?thesis by (simp add: link_clk_disable_def bump_add)
qed

lemma pw_then_int: "(\<And>h. pw (snd (f h)) = pw h) \<Longrightarrow> pw (snd (then_int r f)) = pw (snd r)"
  by (simp add: then_int_def)

lemma pw_set_rate1 [simp]: "pw (snd (set_rate e c r h)) = pw h"
  by (simp add: set_rate_def)

lemma pw_set_rate [simp]: "pw (snd (link_clk_set_rate e h)) = pw h"
  by (simp add: link_clk_set_rate_def dsi_link_clk_set_rate_6g_def dsi_link_clk_set_rate_v2_def pw_then_int)

section \<open>One host\<close>

text \<open>
  A host is balanced when exactly its link clocks are on while it is powered, and none otherwise,
  its regulators are on once from the first power-on for good, and a powered host holds its device
  awake. Failing to switch the clocks on leaves a reference to the device behind, so \<open>pm_usage\<close> has
  only a lower bound.
\<close>

definition balanced :: "dsi_host \<Rightarrow> bool" where
  "balanced h \<longleftrightarrow>
     (\<forall>k. clk_on h k = of_bool (power_on h \<and> link_clk (cfg h) k)) \<and> supplies_on h = of_bool (analog_held h) \<and>
     (power_on h \<longrightarrow> analog_held h) \<and> of_bool (power_on h) \<le> pm_usage h"

lemma balanced_pw: "pw h' = pw h \<Longrightarrow> balanced h' \<longleftrightarrow> balanced h"
  by (auto simp: pw_def balanced_def)

lemma balanced_writes: "balanced h \<Longrightarrow> pw h' = pw h \<Longrightarrow> balanced h'"
  using balanced_pw by blast

lemma pw_pm [simp]: "pw (pm_put (pm_get h)) = pw h" "pw (pm_put (bump (- 1) (bump 1 (pm_get h)))) = pw h"
  by (simp_all add: pw_def pm_get_def pm_put_def bump_def fun_eq_iff)

text \<open>A change of the power state that depends on nothing but the part \<open>pw\<close>.\<close>

lemma pw_cong:
  "pw h' = pw h \<Longrightarrow> pw (bump n h') = pw (bump n h)" "pw h' = pw h \<Longrightarrow> pw (pm_get h') = pw (pm_get h)"
  "pw h' = pw h \<Longrightarrow> pw (pm_put h') = pw (pm_put h)"
  "pw h' = pw h \<Longrightarrow> pw (h'\<lparr>power_on := b\<rparr>) = pw (h\<lparr>power_on := b\<rparr>)"
  by (simp_all add: pw_def pm_get_def pm_put_def bump_def)

text \<open>What switching a host on can do, by the parts \<open>pw\<close>: nothing but the reference, or all of it.\<close>

lemma power_clocks_outcome:
  assumes "power_clocks e t b h = Some (r, h')" and "analog_held h"
  obtains (fail) "r \<noteq> 0" "pw h' = pw h" | (leak) "r \<noteq> 0" "pw h' = pw (pm_get h)"
  | (ok) "r = 0" "pw h' = pw ((bump 1 (pm_get h))\<lparr>power_on := True\<rparr>)"
proof -
  let ?h0 = "snd (link_clk_set_rate e (pm_get h))"
  have 0: "pw ?h0 = pw (pm_get h)" by simp
  from 0 have held: "analog_held ?h0" using assms(2) by (simp add: pw_def pm_get_def)
  show thesis
  proof (cases rule: link_clk_enable_outcome [of e ?h0])
    case (fail x)
    then have "r \<noteq> 0" "h' = ?h0" using assms(1) held by (auto simp: power_clocks_def power_fail_def)
    then show thesis using leak by simp
  next
    case ok: ok
    let ?h1 = "bump 1 ?h0"
    have 1: "pw ?h1 = pw (bump 1 (pm_get h))" using 0 by (rule pw_cong)
    obtain x h2 where x: "link_clk_set_rate e ?h1 = (x, h2)" by (cases "link_clk_set_rate e ?h1")
    then have 2: "pw h2 = pw (bump 1 (pm_get h))" using pw_set_rate [of e ?h1] 1 by simp
    have down: "pw (pm_put (link_clk_disable h2)) = pw h"
      using pw_cong(3) [OF pw_cong(1) [OF 2, of "- 1"]] by (simp add: link_clk_disable_bump)
    then have held: "analog_held (pm_put (link_clk_disable h2))" using assms(2) by (simp add: pw_def)
    show thesis
    proof (cases "x \<noteq> 0 \<or> pinctrl_default e h2 \<noteq> 0")
      case True
      then have "r \<noteq> 0 \<and> h' = pm_put (link_clk_disable h2)"
        using assms(1) held by (auto simp: power_clocks_def ok x power_fail_def split: if_splits)
      then show thesis using fail down by blast
    next
      case False
      then obtain h3 where h3: "dsi_timing_setup e b h2 = Some h3" "r = 0"
        "h' = (dsi_ctrl_enable e t (dsi_sw_reset e h3))\<lparr>power_on := True\<rparr>"
        using assms(1) by (auto simp: power_clocks_def ok x split: option.splits)
      have "pw (dsi_ctrl_enable e t (dsi_sw_reset e h3)) = pw (bump 1 (pm_get h))"
        using pw_timing_setup [OF h3(1)] 2 by simp
      then show thesis using h3(2,3) pw_cong(4) that(3) by metis
    qed
  qed
qed

definition core_rates :: "dsi_host \<Rightarrow> nat \<times> nat \<times> nat \<times> nat" where
  "core_rates h = (pixel_clk_rate (rates h), byte_clk_rate (rates h), esc_clk_rate (rates h), src_clk_rate (rates h))"

text \<open>What the operations on the power of a host keep of it.\<close>

definition same_host :: "dsi_host \<Rightarrow> dsi_host \<Rightarrow> bool" where
  "same_host h h' \<longleftrightarrow> core_rates h' = core_rates h \<and> irq_depth h' = irq_depth h \<and> cfg h' = cfg h \<and>
     (analog_held h \<longrightarrow> analog_held h')"

lemma same_host_refl [simp]: "same_host h h"
  by (simp add: same_host_def)

lemma same_host_trans: "same_host h h' \<Longrightarrow> same_host h' h'' \<Longrightarrow> same_host h h''"
  by (simp add: same_host_def)

lemma same_host_pw: "pw h' = pw h \<Longrightarrow> same_host h h'"
  by (simp add: same_host_def core_rates_def pw_def)

lemma host_power_on:
  assumes on: "msm_dsi_host_power_on e t b h = Some (r, h')" and bal: "balanced h"
  shows "balanced h' \<and> same_host h h' \<and> (power_on h' \<longleftrightarrow> r = 0) \<and> (r \<noteq> 0 \<longrightarrow> \<not> power_on h)"
proof (cases "power_on h")
  case True
  then show ?thesis using assms by (simp add: msm_dsi_host_power_on_def)
next
  case off: False
  define h1 where "h1 = msm_dsi_sfpb_config True
    (h\<lparr>rates := (rates h)\<lparr>byte_intf_clk_rate := (if byte_intf_clk_div_2 t then byte_clk_rate (rates h) div 2 else byte_clk_rate (rates h))\<rparr>\<rparr>)"
  define h2 where "h2 = (if analog_held h1 then h1 else h1\<lparr>supplies_on := supplies_on h1 + 1, analog_held := True\<rparr>)"
  have 1: "balanced h1" "\<not> power_on h1" "same_host h h1"
    using bal off by (simp_all add: h1_def msm_dsi_sfpb_config_def balanced_def same_host_def core_rates_def)
  then have 2: "balanced h2" "\<not> power_on h2" "same_host h h2" "analog_held h2"
    by (simp_all add: h2_def balanced_def same_host_def core_rates_def)
  have "r \<noteq> 0 \<and> h' = h1 \<or> power_clocks e t b h2 = Some (r, h')"
    using on off by (auto simp: msm_dsi_host_power_on_def h1_def [symmetric] h2_def Let_def split: if_splits)
  then consider "r \<noteq> 0" "h' = h1" | (clocks) "power_clocks e t b h2 = Some (r, h')" by blast
  then show ?thesis
  proof cases
    case clocks
    show ?thesis
    proof (cases rule: power_clocks_outcome [OF clocks 2(4)])
      case 1
      then show ?thesis using 2 off by (auto simp: pw_def balanced_def same_host_def core_rates_def)
    next
      case leak: 2
      then show ?thesis using 2 off by (auto simp: pw_def pm_get_def balanced_def same_host_def core_rates_def)
    next
      case 3
      then show ?thesis using 2 off by (auto simp: pw_def pm_get_def bump_def balanced_def same_host_def core_rates_def)
    qed
  qed (use 1 off in auto)
qed

lemma host_power_off:
  assumes "balanced h"
  shows "balanced (snd (msm_dsi_host_power_off h)) \<and> same_host h (snd (msm_dsi_host_power_off h)) \<and>
    \<not> power_on (snd (msm_dsi_host_power_off h))"
proof (cases "power_on h")
  case True
  have "pw (msm_dsi_sfpb_config False (pm_put (link_clk_disable (dsi_ctrl_disable h)))) = pw (pm_put (bump (- 1) h))"
    using pw_cong(3) [OF pw_cong(1) [of "dsi_ctrl_disable h" h "- 1"]] by (simp add: link_clk_disable_bump)
  from pw_cong(4) [OF this, of False] show ?thesis
    using assms True
    by (auto simp: msm_dsi_host_power_off_def Let_def balanced_def same_host_def core_rates_def pw_def pm_put_def bump_def)
qed (use assms in \<open>simp add: msm_dsi_host_power_off_def\<close>)

text \<open>
  In the kernel, enabling a clock that is on only counts. With that, the clocks of a powered host
  are on during a command and as before after it.
\<close>

definition counted_clks :: "dsi_env \<Rightarrow> bool" where
  "counted_clks e \<longleftrightarrow> (\<forall>c h. 0 < clk_on h c \<longrightarrow> clk_enable e c h = 0)"

lemma prepare_counted:
  "counted_clks e \<Longrightarrow> 0 < clk_on h c \<or> c = Byte_Intf \<and> \<not> has_byte_intf (cfg h) \<Longrightarrow>
    clk_prepare_enable e c h = (0, clk_add c 1 h)"
  by (auto simp: counted_clks_def clk_prepare_enable_def clk_add_def)

lemma clk_add_pos: "0 < clk_on h c \<Longrightarrow> 0 < clk_on (clk_add d 1 h) c"
  by (auto simp: clk_add_def)

lemma enable_counted:
  assumes "counted_clks e" and "balanced h" and "power_on h"
  shows "link_clk_enable e h = (0, bump 1 h)"
proof (cases "is_6g (cfg h)")
  case True
  have on: "0 < clk_on h Esc" "0 < clk_on h Byte" "0 < clk_on h Pixel" "has_byte_intf (cfg h) \<Longrightarrow> 0 < clk_on h Byte_Intf"
    using assms(2,3) True by (simp_all add: balanced_def)
  show ?thesis
    unfolding link_clk_enable_def dsi_link_clk_enable_6g_def bump_add
    using True on by (cases "has_byte_intf (cfg h)") (simp_all add: prepare_counted [OF assms(1)] clk_add_pos)
next
  case False
  have on: "0 < clk_on h Byte" "0 < clk_on h Esc" "0 < clk_on h Src" "0 < clk_on h Pixel"
    using assms(2,3) False by (simp_all add: balanced_def)
  show ?thesis
    unfolding link_clk_enable_def dsi_link_clk_enable_v2_def bump_add
    using False on by (simp add: prepare_counted [OF assms(1)] clk_add_pos)
qed

text \<open>The state of the power during a command.\<close>

definition in_xfer :: "dsi_host \<Rightarrow> dsi_host \<Rightarrow> bool" where
  "in_xfer h h' \<longleftrightarrow> pw h' = pw (bump 1 (pm_get h))"

lemma xfer_prepare_power:
  assumes "counted_clks e" and "balanced h" and "power_on h"
  shows "fst (msm_dsi_host_xfer_prepare e lpm h) = 0" "in_xfer h (snd (msm_dsi_host_xfer_prepare e lpm h))"
proof -
  define h1 where "h1 = snd (link_clk_set_rate e (pm_get h))"
  have 1: "pw h1 = pw (pm_get h)" by (simp add: h1_def)
  then have "balanced h1" "power_on h1" using assms(2,3) by (auto simp: pw_def pm_get_def balanced_def)
  then have "link_clk_enable e h1 = (0, bump 1 h1)" by (rule enable_counted [OF assms(1)])
  moreover have "pw (bump 1 h1) = pw (bump 1 (pm_get h))" by (rule pw_cong(1) [OF 1])
  ultimately show "in_xfer h (snd (msm_dsi_host_xfer_prepare e lpm h))"
    by (simp add: in_xfer_def msm_dsi_host_xfer_prepare_def h1_def [symmetric] Let_def)
qed (simp add: msm_dsi_host_xfer_prepare_def Let_def)

lemma xfer_restore_power:
  assumes "in_xfer h h'"
  shows "pw (msm_dsi_host_xfer_restore e lpm h') = pw h"
proof -
  have "pw (msm_dsi_host_xfer_restore e lpm h') = pw (pm_put (bump (- 1) h'))"
    unfolding msm_dsi_host_xfer_restore_def Let_def link_clk_disable_bump by (intro pw_cong) simp
  also have "\<dots> = pw (pm_put (bump (- 1) (bump 1 (pm_get h))))"
    using assms unfolding in_xfer_def by (intro pw_cong)
  finally show ?thesis by simp
qed

section \<open>The manager\<close>

abbreviation dual :: "'h dsim \<Rightarrow> bool" where
  "dual s \<equiv> is_bonded_dsi s \<and> d_reg s 0 \<and> d_reg s 1"

text \<open>What registration has set up stays.\<close>

definition setup_of :: "'h dsim \<Rightarrow> (nat \<Rightarrow> bool) \<times> bool \<times> bool \<times> nat" where
  "setup_of s = (d_reg s, is_bonded_dsi s, is_sync_needed s, master_dsi_link_id s)"

text \<open>
  All hosts are balanced; the PHY of each host is on once from its first enabling for good; a powered host
  has its PHY; and two bonded hosts are powered together. In bonded mode the first host is the
  master, as the device trees have it.
\<close>

definition phy_of :: "'h dsim \<Rightarrow> nat \<Rightarrow> nat" where
  "phy_of s j = (if dual s then 0 else j)"

definition phys_ok :: "'h dsim \<Rightarrow> bool" where
  "phys_ok s \<longleftrightarrow>
     (dual s \<longrightarrow> \<not> phy_enabled s 1) \<and>
     (\<forall>j<2. phy_on s j = of_bool (phy_enabled s (phy_of s j)) \<and> (power_on (d_host s j) \<longrightarrow> phy_enabled s (phy_of s j)))"

definition mid_inv :: "'h dsim \<Rightarrow> bool" where
  "mid_inv s \<longleftrightarrow> (\<forall>j. balanced (d_host s j)) \<and> phys_ok s \<and> (is_bonded_dsi s \<longrightarrow> master_dsi_link_id s = 0) \<and>
     (is_sync_needed s \<longrightarrow> is_bonded_dsi s)"

definition dsi_inv :: "'h dsim \<Rightarrow> bool" where
  "dsi_inv s \<longleftrightarrow> mid_inv s \<and> (dual s \<longrightarrow> power_on (d_host s 0) = power_on (d_host s 1))"

lemma on_host_simps [simp]:
  "d_host (on_host i f s) = (d_host s)(i := f (d_host s i))" "setup_of (on_host i f s) = setup_of s"
  "d_reg (on_host i f s) = d_reg s" "is_bonded_dsi (on_host i f s) = is_bonded_dsi s" "is_sync_needed (on_host i f s) = is_sync_needed s"
  "master_dsi_link_id (on_host i f s) = master_dsi_link_id s" "phy_on (on_host i f s) = phy_on s"
  "phy_enabled (on_host i f s) = phy_enabled s" "saved_phy_timings (on_host i f s) = saved_phy_timings s"
  "d_chan (on_host i f s) = d_chan s" "d_hw (on_host i f s) = d_hw s"
  by (simp_all add: on_host_def setup_of_def)

lemma at_host_snd [simp]: "snd (at_host i f s) = on_host i (\<lambda>h. snd (f h)) s"
  by (simp add: at_host_def on_host_def split: prod.split)

lemma at_host_fst [simp]: "fst (at_host i f s) = fst (f (d_host s i))"
  by (simp add: at_host_def split: prod.split)

lemma at_host_eq: "at_host i f s = (fst (f (d_host s i)), on_host i (\<lambda>h. snd (f h)) s)"
  by (simp add: prod_eq_iff)

text \<open>An operation that keeps the part \<open>pw\<close> of every host and the PHYs keeps the invariant.\<close>

definition quiet :: "'h dsim \<Rightarrow> 'h dsim \<Rightarrow> bool" where
  "quiet s s' \<longleftrightarrow> (\<forall>j. pw (d_host s' j) = pw (d_host s j)) \<and> setup_of s' = setup_of s \<and> phy_on s' = phy_on s \<and>
     phy_enabled s' = phy_enabled s \<and> saved_phy_timings s' = saved_phy_timings s"

lemma quiet_refl [simp]: "quiet s s"
  by (simp add: quiet_def)

lemma quiet_trans: "quiet s s' \<Longrightarrow> quiet s' s'' \<Longrightarrow> quiet s s''"
  by (simp add: quiet_def)

lemma quiet_on_host: "(\<And>h. pw (f h) = pw h) \<Longrightarrow> quiet s (on_host i f s)"
  by (simp add: quiet_def)

lemma quiet_power: "quiet s s' \<Longrightarrow> power_on (d_host s' j) = power_on (d_host s j)"
  by (simp add: quiet_def pw_def)

lemma quiet_setup:
  "setup_of s' = setup_of s \<Longrightarrow>
    d_reg s' = d_reg s \<and> is_bonded_dsi s' = is_bonded_dsi s \<and> is_sync_needed s' = is_sync_needed s \<and>
    master_dsi_link_id s' = master_dsi_link_id s"
  by (simp add: setup_of_def)

lemma phys_ok_cong:
  assumes "setup_of s' = setup_of s" and "\<And>j. power_on (d_host s' j) = power_on (d_host s j)"
    and "phy_on s' = phy_on s" and "phy_enabled s' = phy_enabled s"
  shows "phys_ok s' = phys_ok s"
  using quiet_setup [OF assms(1)] unfolding phys_ok_def phy_of_def by (simp only: assms(2-4))

lemma phys_ok_single:
  assumes "\<not> dual s"
    and "\<And>j. j < 2 \<Longrightarrow> phy_on s j = of_bool (phy_enabled s j) \<and> (power_on (d_host s j) \<longrightarrow> phy_enabled s j)"
  shows "phys_ok s"
  unfolding phys_ok_def phy_of_def using assms by (simp only: if_False simp_thms) blast

lemma dsi_inv_cong:
  assumes "setup_of s' = setup_of s" and "\<And>j. power_on (d_host s' j) = power_on (d_host s j)"
    and "phys_ok s'" and "\<And>j. balanced (d_host s' j)" and "dsi_inv s"
  shows "dsi_inv s'"
  using quiet_setup [OF assms(1)] assms(3-5) unfolding dsi_inv_def mid_inv_def by (simp only: assms(2)) simp

lemma quiet_inv:
  assumes "quiet s s'" and "dsi_inv s"
  shows "dsi_inv s'"
proof (rule dsi_inv_cong [OF _ _ _ _ assms(2)])
  show "balanced (d_host s' j)" for j using assms balanced_writes by (auto simp: quiet_def dsi_inv_def mid_inv_def)
  show "phys_ok s'" "setup_of s' = setup_of s" "power_on (d_host s' j) = power_on (d_host s j)" for j
    using assms phys_ok_cong [of s' s] quiet_power [OF assms(1)] by (simp_all add: quiet_def dsi_inv_def mid_inv_def)
qed

text \<open>Enabling a PHY changes nothing of a host but its rates, and register contents.\<close>

definition same_power :: "'h dsim \<Rightarrow> 'h dsim \<Rightarrow> bool" where
  "same_power s s' \<longleftrightarrow> setup_of s' = setup_of s \<and>
     (\<forall>j. (balanced (d_host s j) \<longrightarrow> balanced (d_host s' j)) \<and> power_on (d_host s' j) = power_on (d_host s j) \<and>
       irq_depth (d_host s' j) = irq_depth (d_host s j) \<and> (analog_held (d_host s j) \<longrightarrow> analog_held (d_host s' j)))"

lemma same_power_refl [simp]: "same_power s s"
  by (simp add: same_power_def)

lemma same_power_trans: "same_power s s' \<Longrightarrow> same_power s' s'' \<Longrightarrow> same_power s s''"
  by (simp add: same_power_def)

lemma quiet_same_power: "quiet s s' \<Longrightarrow> same_power s s'"
  using balanced_writes by (auto simp: quiet_def same_power_def pw_def)

lemma clk_req_rates:
  "msm_dsi_host_get_phy_clk_req e b req h = Some (q, h') \<Longrightarrow> \<exists>rs. h' = h\<lparr>rates := rs\<rparr>"
  by (auto simp: msm_dsi_host_get_phy_clk_req_def calc_clk_rate_def split: option.splits prod.splits if_splits)

lemma enable_phy_outcome:
  assumes "enable_phy e i ts s = Some (r, ts', s')"
  shows "same_power s s'" "phy_enabled s' = phy_enabled s" "saved_phy_timings s' = saved_phy_timings s"
    "phy_on s' = (if r = 0 then (phy_on s)(i := phy_on s i + 1) else phy_on s)"
proof -
  obtain q h where q: "msm_dsi_host_get_phy_clk_req (e_host e i) (is_bonded_dsi s) (stack_req e) (d_host s i) = Some (q, h)"
    using assms by (auto simp: enable_phy_def split: option.splits)
  obtain rs where rs: "h = (d_host s i)\<lparr>rates := rs\<rparr>" using clk_req_rates [OF q] by blast
  obtain t where pe: "phy_enable e i q = (r, t)"
    and s': "s' = (let s = on_host i (\<lambda>_. h) s in if r = 0 then s\<lparr>phy_on := (phy_on s)(i := phy_on s i + 1)\<rparr> else s)"
    using assms q by (auto simp: enable_phy_def Let_def split: prod.splits if_splits)
  show "same_power s s'" "phy_enabled s' = phy_enabled s" "saved_phy_timings s' = saved_phy_timings s"
    "phy_on s' = (if r = 0 then (phy_on s)(i := phy_on s i + 1) else phy_on s)"
    by (simp_all add: s' rs Let_def same_power_def setup_of_def balanced_def)
qed

lemma quiet_reset_phy: "quiet s (on_host i (msm_dsi_host_reset_phy e) s)"
  by (rule quiet_on_host) simp

text \<open>Once enabled, a PHY is not touched; its timings are the saved ones.\<close>

lemma phy_enable_again: "phy_enabled s i \<Longrightarrow> dsi_mgr_phy_enable e i ts s = Some (0, ts(i := saved_phy_timings s i), s)"
  by (simp add: dsi_mgr_phy_enable_def)

lemma phy_enable_inv:
  assumes "dsi_mgr_phy_enable e i ts s = Some (r, ts', s')" and "dsi_inv s" and "i < 2" and "d_reg s i"
    and "is_bonded_dsi s \<Longrightarrow> i = 0"
  shows "dsi_inv s' \<and> same_power s s' \<and> (r = 0 \<longrightarrow> phy_enabled s' i \<and> saved_phy_timings s' i = ts' i)"
proof (cases "phy_enabled s i")
  case True
  then show ?thesis using assms(1,2) phy_enable_again by (auto simp: phy_enable_again)
next
  case off: False
  have inv': "dsi_inv s'" if "same_power s s'" "phys_ok s'"
    by (rule dsi_inv_cong [OF _ _ _ _ assms(2)]) (use that assms(2) in \<open>simp_all add: same_power_def dsi_inv_def mid_inv_def\<close>)
  show ?thesis
  proof (cases "dual s")
    case True
    then have i: "i = 0" "d_reg s 1" "\<not> phy_enabled s 1" using assms(2,5) by (auto simp: dsi_inv_def mid_inv_def phys_ok_def phy_of_def)
    have on0: "\<And>j. j < 2 \<Longrightarrow> phy_on s j = 0 \<and> \<not> power_on (d_host s j)"
      using assms(2) off True i by (auto simp: dsi_inv_def mid_inv_def phys_ok_def phy_of_def)
    let ?s = "on_host 1 (msm_dsi_host_reset_phy (e_host e 1)) (on_host 0 (msm_dsi_host_reset_phy (e_host e 0)) s)"
    have q: "quiet s ?s" by (rule quiet_trans [OF quiet_reset_phy quiet_reset_phy])
    obtain r1 ts1 s1 where 1: "enable_phy e 0 ts ?s = Some (r1, ts1, s1)"
      using assms(1) off True i by (auto simp: dsi_mgr_phy_enable_def split: option.splits)
    note e1 = enable_phy_outcome [OF 1]
    have sp1: "same_power s s1" using quiet_same_power [OF q] e1(1) by (rule same_power_trans)
    show ?thesis
    proof (cases "r1 = 0")
      case False
      then have s': "s' = s1" "r = r1" using assms(1) off True i 1 by (simp_all add: dsi_mgr_phy_enable_def)
      have "phys_ok s1 = phys_ok s"
        using sp1 e1(2,4) False by (intro phys_ok_cong) (simp_all add: same_power_def)
      then have "phys_ok s1" using assms(2) by (simp add: dsi_inv_def mid_inv_def)
      then show ?thesis using False s' sp1 inv' by simp
    next
      case r1: True
      obtain r2 ts2 s2 where 2: "enable_phy e 1 ts1 s1 = Some (r2, ts2, s2)"
        using assms(1) off True i 1 r1 by (auto simp: dsi_mgr_phy_enable_def split: option.splits)
      note e2 = enable_phy_outcome [OF 2]
      have sp2: "same_power s s2" using sp1 e2(1) by (rule same_power_trans)
      have on2: "phy_enabled s2 = phy_enabled s" "phy_on s2 = (if r2 = 0 then (phy_on s)(0 := 1, 1 := 1) else (phy_on s)(0 := 1))"
        using e1 e2 q on0 r1 by (auto simp: quiet_def)
      have off2: "\<not> power_on (d_host s2 j)" if "j < 2" for j using sp2 on0 that by (simp add: same_power_def)
      have dual2: "dual s2" using sp2 True quiet_setup [of s2 s] by (simp add: same_power_def)
      show ?thesis
      proof (cases "r2 = 0")
        case False
        then have s': "s' = s2\<lparr>phy_on := (phy_on s2)(0 := 0)\<rparr>" "r = r2"
          using assms(1) off True i 1 r1 2 on2 by (simp_all add: dsi_mgr_phy_enable_def)
        have "same_power s s'" using sp2 by (simp add: s' same_power_def setup_of_def)
        moreover have "phys_ok s'"
          using on0 off2 off i on2 False dual2 by (auto simp: s' phys_ok_def phy_of_def)
        ultimately show ?thesis using False s' inv' by simp
      next
        case r2: True
        then have s': "phy_now_enabled i ts2 s2 = Some (r, ts', s')"
          using assms(1) off True i 1 r1 2 by (simp add: dsi_mgr_phy_enable_def)
        then have s'_eq: "s' = s2\<lparr>phy_enabled := (phy_enabled s2)(i := True), saved_phy_timings := (saved_phy_timings s2)(i := ts2 i)\<rparr>"
          "ts' = ts2" "r = 0"
          by (auto simp: phy_now_enabled_def)
        have "same_power s s'" using sp2 by (simp add: s'_eq same_power_def setup_of_def)
        moreover have "phys_ok s'"
          using on2 r2 i dual2 off2 by (auto simp: s'_eq phys_ok_def phy_of_def less_2_cases_iff)
        ultimately show ?thesis using s'_eq inv' by simp
      qed
    qed
  next
    case single: False
    have nb: "\<not> (is_bonded_dsi s \<and> d_reg s 0 \<and> d_reg s (Suc 0))" using single by simp
    let ?s = "on_host i (msm_dsi_host_reset_phy (e_host e i)) s"
    have q: "quiet s ?s" by (rule quiet_reset_phy)
    obtain r1 ts1 s1 where 1: "enable_phy e i ts ?s = Some (r1, ts1, s1)"
      using assms(1) off nb by (auto simp: dsi_mgr_phy_enable_def split: option.splits if_splits)
    note e1 = enable_phy_outcome [OF 1]
    have sp1: "same_power s s1" using quiet_same_power [OF q] e1(1) by (rule same_power_trans)
    have dual1: "\<not> dual s1" using sp1 nb quiet_setup [of s1 s] by (simp add: same_power_def)
    have ok: "\<forall>j<2. phy_on s j = of_bool (phy_enabled s j) \<and> (power_on (d_host s j) \<longrightarrow> phy_enabled s j)"
      using assms(2) single by (auto simp: dsi_inv_def mid_inv_def phys_ok_def phy_of_def)
    show ?thesis
    proof (cases "r1 = 0")
      case False
      then have s': "s' = s1" "r = r1" using assms(1) off nb 1 by (auto simp: dsi_mgr_phy_enable_def)
      have "phys_ok s1 = phys_ok s"
        using sp1 e1(2,4) False by (intro phys_ok_cong) (simp_all add: same_power_def)
      then have "phys_ok s1" using assms(2) by (simp add: dsi_inv_def mid_inv_def)
      then show ?thesis using False s' sp1 inv' by simp
    next
      case r1: True
      then have "phy_now_enabled i ts1 s1 = Some (r, ts', s')"
        using assms(1) off nb 1 by (auto simp: dsi_mgr_phy_enable_def)
      then have s'_eq: "s' = s1\<lparr>phy_enabled := (phy_enabled s1)(i := True), saved_phy_timings := (saved_phy_timings s1)(i := ts1 i)\<rparr>"
        "ts' = ts1" "r = 0"
        by (auto simp: phy_now_enabled_def)
      have "same_power s s'" using sp1 by (simp add: s'_eq same_power_def setup_of_def)
      moreover have "phys_ok s'"
      proof -
        have on1: "phy_on s1 = (phy_on s)(i := phy_on s i + 1)" "phy_enabled s1 = phy_enabled s"
          using e1(2,4) r1 by simp_all
        have "phy_on s1 j = of_bool (((phy_enabled s)(i := True)) j) \<and> (power_on (d_host s1 j) \<longrightarrow> ((phy_enabled s)(i := True)) j)" if "j < 2" for j
        proof -
          have "power_on (d_host s1 j) = power_on (d_host s j)" using sp1 by (simp add: same_power_def)
          then show ?thesis using ok [rule_format, OF that] off by (cases "j = i") (auto simp: on1)
        qed
        then show ?thesis using dual1 by (intro phys_ok_single) (simp_all add: s'_eq on1(2))
      qed
      ultimately show ?thesis using s'_eq inv' by simp
    qed
  qed
qed

lemma at_host_opt_Some:
  "at_host_opt i f s = Some (r, s') \<longleftrightarrow> (\<exists>h. f (d_host s i) = Some (r, h) \<and> s' = on_host i (\<lambda>_. h) s)"
  by (auto simp: at_host_opt_def)

lemma phys_ok_host:
  assumes "phys_ok s" and "i < 2 \<Longrightarrow> power_on h \<Longrightarrow> phy_enabled s (phy_of s i)"
  shows "phys_ok (on_host i (\<lambda>_. h) s)"
proof -
  have "phy_of (on_host i (\<lambda>_. h) s) j = phy_of s j" for j by (simp add: phy_of_def)
  then show ?thesis using assms unfolding phys_ok_def by auto
qed

lemma mid_host:
  assumes "mid_inv s" and "balanced h" and "power_on h \<Longrightarrow> i < 2 \<Longrightarrow> phy_enabled s (phy_of s i)"
  shows "mid_inv (on_host i (\<lambda>_. h) s)"
  using assms phys_ok_host [of s i h] by (simp add: mid_inv_def)

text \<open>Which host an operation may be for, and how the counters of disabled interrupts change.\<close>

definition bridge :: "nat \<Rightarrow> 'h dsim \<Rightarrow> bool" where
  "bridge i s \<longleftrightarrow> i < 2 \<and> d_reg s i \<and> (is_bonded_dsi s \<longrightarrow> i = 0)"

definition depth :: "'h dsim \<Rightarrow> nat \<Rightarrow> nat" where
  "depth s j = irq_depth (d_host s j)"

definition mine :: "nat \<Rightarrow> 'h dsim \<Rightarrow> nat \<Rightarrow> bool" where
  "mine i s j \<longleftrightarrow> j = i \<or> second s \<and> j = 1"

lemma second_dual: "bridge i s \<Longrightarrow> second s \<longleftrightarrow> dual s"
  by (auto simp: bridge_def second_def)

lemma mid_dsi: "mid_inv s \<Longrightarrow> (dual s \<Longrightarrow> power_on (d_host s 0) = power_on (d_host s 1)) \<Longrightarrow> dsi_inv s"
  by (simp add: dsi_inv_def)

lemma second_setup: "setup_of s' = setup_of s \<Longrightarrow> second s' = second s \<and> bridge i s' = bridge i s"
  using quiet_setup [of s' s] by (simp add: second_def bridge_def)

lemma bridge_phy: "bridge i s \<Longrightarrow> phy_of s i = i" "bridge i s \<Longrightarrow> second s \<Longrightarrow> phy_of s 1 = i \<and> i = 0"
  by (auto simp: bridge_def phy_of_def second_def)

lemma depth_irq [simp]:
  "depth (on_host i msm_dsi_host_enable_irq s) = (depth s)(i := depth s i - 1)"
  "depth (on_host i msm_dsi_host_disable_irq s) = (depth s)(i := depth s i + 1)"
  by (simp_all add: depth_def msm_dsi_host_enable_irq_def msm_dsi_host_disable_irq_def fun_eq_iff)

lemma depth_same: "same_host (d_host s i) (f (d_host s i)) \<Longrightarrow> depth (on_host i f s) = depth s"
  by (simp add: depth_def same_host_def fun_eq_iff)

lemma second_host [simp]: "second (on_host i f s) = second s"
  by (simp add: second_def)

lemma phy_of_host [simp]: "phy_of (on_host i f s) = phy_of s"
  by (simp add: phy_of_def fun_eq_iff)

lemma inv_host_op:
  assumes "dsi_inv s" and "\<And>h. balanced (f h) = balanced h" and "\<And>h. power_on (f h) = power_on h"
  shows "dsi_inv (on_host i f s)"
proof (rule dsi_inv_cong [OF _ _ _ _ assms(1)])
  have "phys_ok s" using assms(1) by (simp add: dsi_inv_def mid_inv_def)
  then show "phys_ok (on_host i f s)" by (subst phys_ok_cong [of _ s]) (simp_all add: assms(3))
  show "balanced (d_host (on_host i f s) j)" for j using assms(1) by (simp add: assms(2) dsi_inv_def mid_inv_def)
qed (simp_all add: assms(3))

lemma irq_inv:
  "dsi_inv s \<Longrightarrow> dsi_inv (on_host i msm_dsi_host_enable_irq s)" "dsi_inv s \<Longrightarrow> dsi_inv (on_host i msm_dsi_host_disable_irq s)"
  by (erule inv_host_op; simp add: balanced_def msm_dsi_host_enable_irq_def msm_dsi_host_disable_irq_def)+

lemma bridge_power_on_inv:
  assumes run: "dsi_mgr_bridge_power_on e i s = Some (r, s')" and inv: "dsi_inv s" and br: "bridge i s"
  shows "dsi_inv s' \<and> setup_of s' = setup_of s \<and> (power_on (d_host s' i) \<longleftrightarrow> r = 0 \<or> power_on (d_host s i) \<and> power_on (d_host s' i)) \<and>
    depth s' = (\<lambda>j. if r = 0 \<and> mine i s j then depth s j - 1 else depth s j) \<and> (r = 0 \<longrightarrow> phy_enabled s' i)"
proof -
  have i: "i < 2" "d_reg s i" "is_bonded_dsi s \<Longrightarrow> i = 0" using br by (auto simp: bridge_def)
  obtain r1 ts s1 where 1: "dsi_mgr_phy_enable e i (stack_timings e) s = Some (r1, ts, s1)"
    using run by (auto simp: dsi_mgr_bridge_power_on_def split: Option.bind_splits)
  have inv1: "dsi_inv s1" and same: "same_power s s1" and on1: "r1 = 0 \<Longrightarrow> phy_enabled s1 i"
    using phy_enable_inv [OF 1 inv i] by auto
  have set1: "setup_of s1 = setup_of s" and dep1: "depth s1 = depth s"
    using same by (auto simp: same_power_def depth_def)
  have br1: "bridge i s1" "second s1 = second s" using br second_setup [OF set1, of i] by simp_all
  have mid1: "mid_inv s1" using inv1 by (simp add: dsi_inv_def)
  show ?thesis
  proof (cases "r1 = 0")
    case False
    then have "r = r1" "s' = s1" using run 1 by (simp_all add: dsi_mgr_bridge_power_on_def)
    then show ?thesis using False inv1 same set1 dep1 by (auto simp: same_power_def)
  next
    case r1: True
    note phy1 = on1 [OF r1]
    obtain r2 h where 2: "msm_dsi_host_power_on (e_host e i) (ts i) (is_bonded_dsi s1) (d_host s1 i) = Some (r2, h)"
      using run 1 r1 by (auto simp: dsi_mgr_bridge_power_on_def at_host_opt_def split: Option.bind_splits)
    have h: "balanced h" "same_host (d_host s1 i) h" "power_on h \<longleftrightarrow> r2 = 0" "r2 \<noteq> 0 \<Longrightarrow> \<not> power_on (d_host s1 i)"
      using host_power_on [OF 2] mid1 by (auto simp: mid_inv_def)
    let ?s2 = "on_host i (\<lambda>_. h) s1"
    have mid2: "mid_inv ?s2" using mid1 h(1) phy1 bridge_phy(1) [OF br1(1)] by (intro mid_host) simp_all
    have dep2: "depth ?s2 = depth s" using h(2) dep1 by (auto simp: depth_def same_host_def fun_eq_iff)
    show ?thesis
    proof (cases "r2 = 0")
      case False
      then have s': "r = r2" "s' = ?s2"
        using run 1 r1 2 by (simp_all add: dsi_mgr_bridge_power_on_def at_host_opt_def dsi_mgr_phy_disable_def)
      have "dsi_inv ?s2"
        using mid2 inv1 h(3,4) False br1 by (intro mid_dsi) (auto simp: dsi_inv_def bridge_def)
      then show ?thesis using False s' h set1 dep2 by auto
    next
      case r2: True
      show ?thesis
      proof (cases "second s")
        case single: False
        then have s': "r = 0" "s' = on_host i msm_dsi_host_enable_irq ?s2"
          using run 1 r1 2 r2 single by (simp_all add: dsi_mgr_bridge_power_on_def at_host_opt_def br1(2))
        have "dsi_inv ?s2" using mid2 single br1(2) second_dual [of i ?s2] br1(1) by (intro mid_dsi) (auto simp: bridge_def second_def)
        then have "dsi_inv s'" by (simp add: s' irq_inv)
        moreover have "depth s' = (\<lambda>j. if mine i s j then depth s j - 1 else depth s j)"
          using single by (auto simp: s' dep2 mine_def)
        moreover have "power_on (d_host s' i)" "setup_of s' = setup_of s" "phy_enabled s' i"
          using h(3) r2 set1 phy1 by (simp_all add: s' msm_dsi_host_enable_irq_def)
        ultimately show ?thesis using s'(1) by simp
      next
        case sec: True
        then have i0: "i = 0" using br by (simp add: bridge_def second_def)
        obtain r3 k where 3: "msm_dsi_host_power_on (e_host e 1) (ts 1) (is_bonded_dsi s1) (d_host ?s2 1) = Some (r3, k)"
          using run 1 r1 2 r2 sec
          by (auto simp: dsi_mgr_bridge_power_on_def at_host_opt_def br1(2) split: Option.bind_splits)
        have k: "balanced k" "same_host (d_host ?s2 1) k" "power_on k \<longleftrightarrow> r3 = 0" "r3 \<noteq> 0 \<Longrightarrow> \<not> power_on (d_host ?s2 1)"
          using host_power_on [OF 3] mid2 by (auto simp: mid_inv_def)
        let ?s3 = "on_host 1 (\<lambda>_. k) ?s2"
        have mid3: "mid_inv ?s3"
          by (rule mid_host [OF mid2 k(1)]) (use phy1 bridge_phy(2) [OF br1(1)] br1(2) sec in simp)
        have dep3: "depth ?s3 = depth s" using k(2) dep2 by (auto simp: depth_def same_host_def fun_eq_iff)
        show ?thesis
        proof (cases "r3 = 0")
          case False
          have s': "r = r3" "s' = on_host 0 (\<lambda>h. snd (msm_dsi_host_power_off h)) ?s3"
            using run 1 r1 2 r2 sec 3 False i0
            by (simp_all add: dsi_mgr_bridge_power_on_def at_host_opt_def br1(2) dsi_mgr_phy_disable_def)
          have off: "balanced (snd (msm_dsi_host_power_off h))" "same_host h (snd (msm_dsi_host_power_off h))"
            "\<not> power_on (snd (msm_dsi_host_power_off h))"
            using host_power_off [OF h(1)] by auto
          have "s' = on_host 0 (\<lambda>_. snd (msm_dsi_host_power_off h)) ?s3" using i0 by (simp add: s' on_host_def)
          then have "mid_inv s'" using off mid_host [OF mid3 off(1), of 0] by simp
          then have "dsi_inv s'" using off k(3) False i0 by (intro mid_dsi) (simp_all add: s')
          moreover have "depth s' = depth s" using off(2) i0 unfolding s'(2) dep3 [symmetric] by (intro depth_same) simp
          ultimately show ?thesis using s' set1 False off i0 by auto
        next
          case r3: True
          have s': "r = 0" "s' = on_host 1 msm_dsi_host_enable_irq (on_host 0 msm_dsi_host_enable_irq ?s3)"
            using run 1 r1 2 r2 sec 3 r3 i0
            by (simp_all add: dsi_mgr_bridge_power_on_def at_host_opt_def br1(2))
          have "dsi_inv ?s3" using mid3 h(3) k(3) r2 r3 i0 by (intro mid_dsi) simp_all
          then have "dsi_inv s'" by (simp add: s' irq_inv)
          moreover have "depth s' = (\<lambda>j. if mine i s j then depth s j - 1 else depth s j)"
            using sec by (auto simp: s' dep3 [unfolded i0 One_nat_def] mine_def i0)
          moreover have "power_on (d_host s' i)" "setup_of s' = setup_of s" "phy_enabled s' i"
            using h(3) r2 set1 phy1 i0 by (simp_all add: s' msm_dsi_host_enable_irq_def)
          ultimately show ?thesis using s'(1) by simp
        qed
      qed
    qed
  qed
qed

lemma host_enable_0 [simp]: "fst (msm_dsi_host_enable e h) = 0"
  by (simp add: msm_dsi_host_enable_def)

text \<open>Enabling a host never fails, so a bridge is enabled as soon as it is powered.\<close>

definition enables :: "'h dsim_env \<Rightarrow> nat \<Rightarrow> 'h dsim \<Rightarrow> 'h dsim" where
  "enables e i s =
     (let s = on_host i (\<lambda>h. snd (msm_dsi_host_enable (e_host e i) h)) s
      in if second s then on_host 1 (\<lambda>h. snd (msm_dsi_host_enable (e_host e 1) h)) s else s)"

lemma pre_enable_eq:
  assumes "bridge i s" and "dsi_inv s"
  shows "dsi_mgr_bridge_pre_enable e i s =
    map_option (\<lambda>(r, s). if r \<noteq> 0 then s else enables e i s) (dsi_mgr_bridge_power_on e i s)"
proof -
  have "d_reg s i" "\<not> (is_bonded_dsi s \<and> master_dsi_link_id s \<noteq> i)"
    using assms by (auto simp: bridge_def dsi_inv_def mid_inv_def)
  then show ?thesis
    by (auto simp: dsi_mgr_bridge_pre_enable_def at_host_eq enables_def Let_def split: option.splits Option.bind_splits)
qed

lemma quiet_enables: "quiet s (enables e i s)"
  by (simp add: quiet_def enables_def Let_def)

lemma quiet_depth: "quiet s s' \<Longrightarrow> depth s' = depth s"
  by (simp add: quiet_def depth_def pw_def fun_eq_iff)

lemma pre_enable_inv:
  assumes run: "dsi_mgr_bridge_pre_enable e i s = Some s'" and inv: "dsi_inv s" and br: "bridge i s"
  shows "dsi_inv s'" "setup_of s' = setup_of s" "power_on (d_host s' i) \<Longrightarrow> phy_enabled s' i"
    "\<not> power_on (d_host s i) \<Longrightarrow>
      depth s' = (\<lambda>j. if power_on (d_host s' i) \<and> mine i s j then depth s j - 1 else depth s j)"
proof -
  obtain r t where on: "dsi_mgr_bridge_power_on e i s = Some (r, t)" and s': "s' = (if r \<noteq> 0 then t else enables e i t)"
    using run by (auto simp: pre_enable_eq [OF br inv])
  note b = bridge_power_on_inv [OF on inv br]
  have q: "quiet t s'" unfolding s' by (simp add: quiet_enables)
  show inv': "dsi_inv s'" using b quiet_inv [OF q] by blast
  show "setup_of s' = setup_of s" using b q by (simp add: quiet_def)
  show "power_on (d_host s' i) \<Longrightarrow> phy_enabled s' i"
    using inv' bridge_phy(1) [of i s'] br second_setup [OF \<open>setup_of s' = setup_of s\<close>, of i]
    by (auto simp: dsi_inv_def mid_inv_def phys_ok_def bridge_def)
  show "depth s' = (\<lambda>j. if power_on (d_host s' i) \<and> mine i s j then depth s j - 1 else depth s j)" if "\<not> power_on (d_host s i)"
    using b that quiet_depth [OF q] quiet_power [OF q, of i] by auto
qed

lemma other_bridge:
  assumes "dsi_inv s" and "i < 2" and "d_reg s i" and "\<not> bridge i s"
  shows "dsi_mgr_bridge_pre_enable e i s = Some s" "dsi_mgr_bridge_post_disable e i s = Some s"
    "dsi_mgr_bridge_mode_set e i m s = Some s"
proof -
  have "is_bonded_dsi s" "master_dsi_link_id s \<noteq> i"
    using assms by (auto simp: bridge_def dsi_inv_def mid_inv_def)
  then show "dsi_mgr_bridge_pre_enable e i s = Some s" "dsi_mgr_bridge_post_disable e i s = Some s"
    "dsi_mgr_bridge_mode_set e i m s = Some s"
    using assms(3) by (simp_all add: dsi_mgr_bridge_pre_enable_def dsi_mgr_bridge_post_disable_def
        dsi_mgr_bridge_mode_set_def dsi_mgr_phy_disable_def)
qed

text \<open>Switching off: a quiet part, the interrupts, and the hosts.\<close>

definition quiet_off :: "'h dsim_env \<Rightarrow> nat \<Rightarrow> 'h dsim \<Rightarrow> 'h dsim" where
  "quiet_off e i s =
     (let s = on_host i (\<lambda>h. snd (msm_dsi_host_disable (e_host e i) h)) s
      in if second s then on_host 1 (\<lambda>h. snd (msm_dsi_host_disable (e_host e 1) h)) s else s)"

definition irqs_off :: "nat \<Rightarrow> 'h dsim \<Rightarrow> 'h dsim" where
  "irqs_off i s =
     (let s = on_host i msm_dsi_host_disable_irq s in if second s then on_host 1 msm_dsi_host_disable_irq s else s)"

definition hosts_off :: "nat \<Rightarrow> 'h dsim \<Rightarrow> 'h dsim" where
  "hosts_off i s =
     (let s = on_host i (\<lambda>h. snd (msm_dsi_host_power_off h)) s
      in if second s then on_host 1 (\<lambda>h. snd (msm_dsi_host_power_off h)) s else s)"

lemma post_disable_eq:
  assumes "bridge i s" and "dsi_inv s"
  shows "dsi_mgr_bridge_post_disable e i s = Some (hosts_off i (irqs_off i (quiet_off e i s)))"
proof -
  have "d_reg s i" "\<not> (is_bonded_dsi s \<and> master_dsi_link_id s \<noteq> i)"
    using assms by (auto simp: bridge_def dsi_inv_def mid_inv_def)
  then show ?thesis
    by (auto simp: dsi_mgr_bridge_post_disable_def hosts_off_def irqs_off_def quiet_off_def dsi_mgr_phy_disable_def Let_def)
qed

lemma quiet_quiet_off: "quiet s (quiet_off e i s)"
  by (simp add: quiet_def quiet_off_def Let_def)

lemma irqs_off_inv:
  "dsi_inv s \<Longrightarrow> dsi_inv (irqs_off i s)" "setup_of (irqs_off i s) = setup_of s"
  "i = 0 \<or> \<not> second s \<Longrightarrow> depth (irqs_off i s) = (\<lambda>j. if mine i s j then depth s j + 1 else depth s j)"
  by (auto simp: irqs_off_def Let_def mine_def fun_eq_iff intro!: irq_inv)

lemma hosts_off_inv:
  assumes "dsi_inv s" and "bridge i s"
  shows "dsi_inv (hosts_off i s)" "setup_of (hosts_off i s) = setup_of s" "depth (hosts_off i s) = depth s"
    "\<not> power_on (d_host (hosts_off i s) i)"
proof -
  have bal: "balanced (d_host s j)" for j using assms(1) by (simp add: dsi_inv_def mid_inv_def)
  note off = host_power_off [OF bal]
  let ?f = "\<lambda>h. snd (msm_dsi_host_power_off h)"
  let ?s1 = "on_host i ?f s"
  have mid1: "mid_inv ?s1"
    using mid_host [of s "?f (d_host s i)" i] assms(1) off [of i] by (simp add: dsi_inv_def on_host_def)
  have dep1: "depth ?s1 = depth s" by (rule depth_same) (use off in simp)
  show "setup_of (hosts_off i s) = setup_of s" by (simp add: hosts_off_def Let_def)
  show "dsi_inv (hosts_off i s)"
  proof (cases "second s")
    case True
    then have i0: "i = 0" using assms(2) by (simp add: bridge_def second_def)
    have "mid_inv (on_host 1 ?f ?s1)"
      using mid_host [OF mid1, of "?f (d_host ?s1 1)" 1] off [of 1] i0 by (simp add: on_host_def)
    then show ?thesis using True i0 off by (intro mid_dsi) (simp_all add: hosts_off_def Let_def)
  next
    case False
    have "\<not> dual ?s1" using False second_dual [OF assms(2)] by simp
    then have "dsi_inv ?s1" using mid1 by (intro mid_dsi) blast+
    then show ?thesis using False by (simp add: hosts_off_def)
  qed
  show "depth (hosts_off i s) = depth s"
  proof (cases "second s")
    case True
    then have i0: "i = 0" using assms(2) by (simp add: bridge_def second_def)
    have "depth (on_host 1 ?f ?s1) = depth ?s1" by (rule depth_same) (use off [of 1] i0 in simp)
    then show ?thesis using True dep1 by (simp add: hosts_off_def)
  qed (simp add: hosts_off_def dep1)
  show "\<not> power_on (d_host (hosts_off i s) i)"
    using off [of i] off [of 1] assms(2) by (auto simp: hosts_off_def Let_def bridge_def second_def)
qed

lemma post_disable_inv:
  assumes "dsi_mgr_bridge_post_disable e i s = Some s'" and "dsi_inv s" and "bridge i s"
  shows "dsi_inv s'" "setup_of s' = setup_of s" "\<not> power_on (d_host s' i)"
    "depth s' = (\<lambda>j. if mine i s j then depth s j + 1 else depth s j)"
proof -
  let ?q = "quiet_off e i s"
  have s': "s' = hosts_off i (irqs_off i ?q)" using assms(1) post_disable_eq [OF assms(3,2)] by simp
  have q: "quiet s ?q" by (rule quiet_quiet_off)
  then have set: "setup_of ?q = setup_of s" by (simp add: quiet_def)
  have br: "bridge i (irqs_off i ?q)" "second ?q = second s"
    using second_setup [of "irqs_off i ?q" s i] second_setup [OF set, of i] assms(3) set by (simp_all add: irqs_off_inv)
  have inv: "dsi_inv (irqs_off i ?q)" using irqs_off_inv(1) quiet_inv [OF q assms(2)] by blast
  show "dsi_inv s'" "setup_of s' = setup_of s" "\<not> power_on (d_host s' i)"
    unfolding s' using hosts_off_inv [OF inv br(1)] set by (simp_all add: irqs_off_inv(2))
  have "i = 0 \<or> \<not> second ?q" using assms(3) br(2) by (auto simp: bridge_def second_def)
  then have "depth s' = (\<lambda>j. if mine i ?q j then depth ?q j + 1 else depth ?q j)"
    unfolding s' hosts_off_inv(3) [OF inv br(1)] by (rule irqs_off_inv(3))
  then show "depth s' = (\<lambda>j. if mine i s j then depth s j + 1 else depth s j)"
    unfolding mine_def br(2) quiet_depth [OF q] .
qed

lemma mode_set_quiet:
  "dsi_mgr_bridge_mode_set e i m s = Some s' \<Longrightarrow> quiet s s'"
  by (auto simp: dsi_mgr_bridge_mode_set_def quiet_def Let_def split: if_splits)

lemma pw_test_pattern [simp]: "pw (msm_dsi_host_test_pattern_en e h) = pw h"
  by (simp add: msm_dsi_host_test_pattern_en_def msm_dsi_host_video_test_pattern_setup_def
      msm_dsi_host_cmd_test_pattern_setup_def Let_def)

lemma tpg_quiet: "quiet s (msm_dsi_manager_tpg_enable e s)"
  by (simp add: quiet_def msm_dsi_manager_tpg_enable_def Let_def)

lemma pw_attach [simp]: "pw (snd (dsi_host_attach e d h)) = pw h"
  by (simp add: dsi_host_attach_def pw_def)

text \<open>A command, on a powered host: everything is as before.\<close>

lemma send_cmd_frame:
  "send_cmd e i m s = Some (r, s') \<Longrightarrow> \<exists>c h. s' = s\<lparr>d_chan := c, d_hw := h\<rparr>"
  by (auto simp: send_cmd_def split: Option.bind_splits)

lemma prepare_0 [simp]: "fst (msm_dsi_host_xfer_prepare e lpm h) = 0"
  by (simp add: msm_dsi_host_xfer_prepare_def Let_def)

lemma cmd_xfer_eq:
  "msm_dsi_manager_cmd_xfer e i lpm m s =
     (let both = is_sync_needed s \<and> m_rx_len m = 0 \<and> d_reg s 0;
          prep = (\<lambda>j. on_host j (\<lambda>h. snd (msm_dsi_host_xfer_prepare (e_host e j) lpm h)));
          rest = (\<lambda>j. on_host j (msm_dsi_host_xfer_restore (e_host e j) lpm))
      in if m_tx m = [] then Some ((0, []), s)
         else if is_sync_needed s \<and> m_rx_len m = 0 \<and> i = 0 then Some ((int (length (m_tx m)), []), s)
         else map_option (\<lambda>(r, s). (r, if both then rest 0 (rest i s) else rest i s))
                (send_cmd e i m (prep i (if both then prep 0 s else s))))"
  by (auto simp: msm_dsi_manager_cmd_xfer_def at_host_eq Let_def bind_map_option split: option.splits Option.bind_splits)

lemma pw_restore:
  assumes "counted_clks e" and "balanced h" and "power_on h"
  shows "pw (msm_dsi_host_xfer_restore e lpm (snd (msm_dsi_host_xfer_prepare e lpm h))) = pw h"
  using xfer_restore_power xfer_prepare_power [OF assms] by blast

definition env_ok :: "'h dsim_env \<Rightarrow> bool" where
  "env_ok e \<longleftrightarrow> (\<forall>j. counted_clks (e_host e j))"

lemma transfer_quiet:
  assumes run: "dsi_host_transfer e i lpm m s = Some (r, s')" and inv: "dsi_inv s" and i: "i < 2" "d_reg s i" and e: "env_ok e"
  shows "quiet s s'"
proof (cases "power_on (d_host s i) \<and> m_tx m \<noteq> [] \<and> \<not> (is_sync_needed s \<and> m_rx_len m = 0 \<and> i = 0)")
  case False
  then show ?thesis using run by (auto simp: dsi_host_transfer_def cmd_xfer_eq Let_def split: if_splits)
next
  case True
  have bal: "balanced (d_host s j)" for j using inv by (simp add: dsi_inv_def mid_inv_def)
  have cl: "counted_clks (e_host e j)" for j using e by (simp add: env_ok_def)
  let ?both = "is_sync_needed s \<and> m_rx_len m = 0 \<and> d_reg s 0"
  let ?p = "\<lambda>j h. snd (msm_dsi_host_xfer_prepare (e_host e j) lpm h)"
  let ?r = "\<lambda>j. msm_dsi_host_xfer_restore (e_host e j) lpm"
  obtain t where t: "send_cmd e i m (on_host i (?p i) (if ?both then on_host 0 (?p 0) s else s)) = Some (r, t)"
    and s': "s' = (if ?both then on_host 0 (?r 0) (on_host i (?r i) t) else on_host i (?r i) t)"
    using run True by (auto simp: dsi_host_transfer_def cmd_xfer_eq Let_def split: if_splits)
  obtain c h where ch: "t = (on_host i (?p i) (if ?both then on_host 0 (?p 0) s else s))\<lparr>d_chan := c, d_hw := h\<rparr>"
    using send_cmd_frame [OF t] by blast
  have i1: "i = 1" if ?both using that True i(1) by auto
  have on0: "power_on (d_host s 0)" if ?both
    using that i1 [OF that] True inv i(2) by (auto simp: dsi_inv_def mid_inv_def)
  have ri: "pw (?r i (?p i (d_host s i))) = pw (d_host s i)" using cl bal True by (intro pw_restore) auto
  have r0: "pw (?r 0 (?p 0 (d_host s 0))) = pw (d_host s 0)" if ?both using cl bal on0 [OF that] by (intro pw_restore) auto
  show ?thesis
  proof (cases ?both)
    case True
    then show ?thesis using ri r0 i1 by (simp add: quiet_def s' ch setup_of_def)
  next
    case False
    then show ?thesis using ri by (auto simp: quiet_def s' ch setup_of_def)
  qed
qed

section \<open>Any sequence of operations\<close>

text \<open>
  The steps: the bridge operations that the display framework calls, commands, interrupts, the
  error worker, the test pattern, and a panel attaching itself. Each comes with answers of its own
  from the kernel and the hardware.
\<close>

inductive dsi_step :: "'h dsim \<Rightarrow> 'h dsim \<Rightarrow> bool" where
  pre_enable: "i < 2 \<Longrightarrow> d_reg s i \<Longrightarrow> dsi_mgr_bridge_pre_enable e i s = Some s' \<Longrightarrow> dsi_step s s'"
| post_disable: "i < 2 \<Longrightarrow> d_reg s i \<Longrightarrow> dsi_mgr_bridge_post_disable e i s = Some s' \<Longrightarrow> dsi_step s s'"
| mode_set: "i < 2 \<Longrightarrow> d_reg s i \<Longrightarrow> dsi_mgr_bridge_mode_set e i m s = Some s' \<Longrightarrow> dsi_step s s'"
| transfer: "i < 2 \<Longrightarrow> d_reg s i \<Longrightarrow> env_ok e \<Longrightarrow> dsi_host_transfer e i lpm msg s = Some (r, s') \<Longrightarrow> dsi_step s s'"
| irq: "dsi_step s (on_host i (dsi_host_irq e') s)"
| err_work: "dsi_step s (on_host i (dsi_err_worker e') s)"
| test_pattern: "dsi_step s (msm_dsi_manager_tpg_enable e s)"
| attach: "dsi_step s (on_host i (\<lambda>h. snd (dsi_host_attach e' d h)) s)"

text \<open>Every step is quiet, or enables or disables a bridge.\<close>

lemma dsi_step_cases:
  assumes "dsi_step s s'" and "dsi_inv s"
  obtains (quiet) "quiet s s'"
  | (on) e i where "bridge i s" "dsi_mgr_bridge_pre_enable e i s = Some s'"
  | (off) e i where "bridge i s" "dsi_mgr_bridge_post_disable e i s = Some s'"
  using assms(1)
proof cases
  case (pre_enable i e)
  then show ?thesis using on quiet other_bridge(1) [OF assms(2) pre_enable(1,2)] by (cases "bridge i s") auto
next
  case (post_disable i e)
  then show ?thesis using off quiet other_bridge(2) [OF assms(2) post_disable(1,2)] by (cases "bridge i s") auto
next
  case (mode_set i e m)
  then show ?thesis using quiet mode_set_quiet by blast
next
  case (transfer i e lpm msg r)
  then show ?thesis using quiet transfer_quiet [OF _ assms(2)] by blast
qed (use quiet in \<open>simp_all add: quiet_on_host tpg_quiet\<close>)

lemma dsi_step_inv: "dsi_step s s' \<Longrightarrow> dsi_inv s \<Longrightarrow> dsi_inv s' \<and> setup_of s' = setup_of s"
proof (erule dsi_step_cases)
  assume "quiet s s'" "dsi_inv s"
  then show "dsi_inv s' \<and> setup_of s' = setup_of s" using quiet_inv by (auto simp: quiet_def)
qed (auto dest: pre_enable_inv(1,2) post_disable_inv(1,2))

lemma dsi_steps_inv: "dsi_step\<^sup>*\<^sup>* s s' \<Longrightarrow> dsi_inv s \<Longrightarrow> dsi_inv s' \<and> setup_of s' = setup_of s"
  by (induction rule: rtranclp_induct) (auto dest: dsi_step_inv)

text \<open>After registration: everything off, one host or two with the first as master.\<close>

definition dsi_start :: "'h dsim \<Rightarrow> bool" where
  "dsi_start s \<longleftrightarrow>
     (\<forall>j. \<not> power_on (d_host s j) \<and> \<not> analog_held (d_host s j) \<and> clk_on (d_host s j) = (\<lambda>_. 0) \<and>
       supplies_on (d_host s j) = 0 \<and> pm_usage (d_host s j) = 0 \<and> irq_depth (d_host s j) = 1 \<and>
       \<not> phy_enabled s j \<and> phy_on s j = 0) \<and>
     (is_bonded_dsi s \<longrightarrow> master_dsi_link_id s = 0) \<and> (is_sync_needed s \<longrightarrow> is_bonded_dsi s)"

lemma dsi_start_inv: "dsi_start s \<Longrightarrow> dsi_inv s"
  by (auto simp: dsi_start_def dsi_inv_def mid_inv_def balanced_def phys_ok_def)

section \<open>What is set once\<close>

text \<open>A PHY that is enabled stays so, and the rates and the regulators of its host stay.\<close>

definition kept :: "nat \<Rightarrow> 'h dsim \<Rightarrow> 'h dsim \<Rightarrow> bool" where
  "kept j s s' \<longleftrightarrow> (phy_enabled s (phy_of s j) \<longrightarrow>
     phy_enabled s' (phy_of s' j) \<and> core_rates (d_host s' j) = core_rates (d_host s j) \<and>
     (analog_held (d_host s j) \<longrightarrow> analog_held (d_host s' j)))"

lemma kept_refl: "kept j s s"
  by (simp add: kept_def)

lemma kept_trans: "kept j s s' \<Longrightarrow> kept j s' s'' \<Longrightarrow> kept j s s''"
  by (simp add: kept_def)

lemma phy_of_setup: "setup_of s' = setup_of s \<Longrightarrow> phy_of s' = phy_of s"
  using quiet_setup [of s' s] by (simp add: phy_of_def fun_eq_iff)

lemma kept_same:
  assumes "phy_enabled s' = phy_enabled s" and "setup_of s' = setup_of s" and "\<And>j. same_host (d_host s j) (d_host s' j)"
  shows "kept j s s'"
  using assms phy_of_setup [OF assms(2)] by (simp add: kept_def same_host_def)

lemma quiet_kept: "quiet s s' \<Longrightarrow> kept j s s'"
  by (rule kept_same) (auto simp: quiet_def intro: same_host_pw)

lemma same_host_irq [simp]:
  "core_rates (msm_dsi_host_enable_irq h) = core_rates h" "analog_held (msm_dsi_host_enable_irq h) = analog_held h"
  by (simp_all add: core_rates_def msm_dsi_host_enable_irq_def)

text \<open>With its PHY enabled, powering a bridge only touches what \<open>kept\<close> leaves open.\<close>

lemma power_on_kept:
  assumes run: "dsi_mgr_bridge_power_on e i s = Some (r, s')" and inv: "dsi_inv s" and br: "bridge i s" and phy: "phy_enabled s i"
  shows "kept j s s'"
proof -
  have bal: "balanced (d_host s k)" for k using inv by (simp add: dsi_inv_def mid_inv_def)
  let ?ts = "(stack_timings e)(i := saved_phy_timings s i)"
  obtain r2 h where 2: "msm_dsi_host_power_on (e_host e i) (?ts i) (is_bonded_dsi s) (d_host s i) = Some (r2, h)"
    using run phy by (auto simp: dsi_mgr_bridge_power_on_def phy_enable_again at_host_opt_def split: Option.bind_splits)
  have h: "same_host (d_host s i) h" "balanced h" using host_power_on [OF 2 bal] by auto
  let ?s2 = "on_host i (\<lambda>_. h) s"
  have "kept j s ?s2" using h by (simp add: kept_def same_host_def)
  moreover have "kept j ?s2 s'"
  proof (cases "r2 = 0 \<and> second s")
    case False
    then have "s' = ?s2 \<or> s' = on_host i msm_dsi_host_enable_irq ?s2"
      using run phy 2
      by (auto simp: dsi_mgr_bridge_power_on_def phy_enable_again at_host_opt_def dsi_mgr_phy_disable_def split: if_splits)
    then show ?thesis by (auto simp: kept_def)
  next
    case True
    then have i0: "i = 0" using br by (simp add: bridge_def second_def)
    obtain r3 k where 3: "msm_dsi_host_power_on (e_host e 1) (?ts 1) (is_bonded_dsi s) (d_host s 1) = Some (r3, k)"
      using run phy 2 True i0
      by (auto simp: dsi_mgr_bridge_power_on_def phy_enable_again at_host_opt_def split: Option.bind_splits)
    have k: "same_host (d_host s 1) k" using host_power_on [OF 3 bal] by auto
    let ?s3 = "on_host 1 (\<lambda>_. k) ?s2"
    have "kept j ?s2 ?s3" using k i0 by (simp add: kept_def same_host_def)
    moreover have "kept j ?s3 s'"
    proof -
      have "s' = (if r3 \<noteq> 0 then on_host 0 (\<lambda>h. snd (msm_dsi_host_power_off h)) ?s3
          else on_host 1 msm_dsi_host_enable_irq (on_host 0 msm_dsi_host_enable_irq ?s3))"
        using run phy 2 True i0 3
        by (auto simp: dsi_mgr_bridge_power_on_def phy_enable_again at_host_opt_def dsi_mgr_phy_disable_def)
      then show ?thesis using host_power_off [OF h(2)] i0 by (auto simp: kept_def same_host_def)
    qed
    ultimately show ?thesis by (rule kept_trans)
  qed
  ultimately show ?thesis by (rule kept_trans)
qed

text \<open>A single bridge does not touch the other host.\<close>

lemma power_on_other:
  assumes run: "dsi_mgr_bridge_power_on e i s = Some (r, s')" and br: "bridge i s" and "\<not> dual s" and "j \<noteq> i"
  shows "d_host s' j = d_host s j \<and> (phy_enabled s j \<longrightarrow> phy_enabled s' j)"
proof -
  have sec: "\<not> second s" using assms(3) second_dual [OF br] by simp
  obtain r1 ts s1 where 1: "dsi_mgr_phy_enable e i (stack_timings e) s = Some (r1, ts, s1)"
    using run by (auto simp: dsi_mgr_bridge_power_on_def split: Option.bind_splits)
  have "d_host s1 j = d_host s j \<and> (phy_enabled s j \<longrightarrow> phy_enabled s1 j) \<and> setup_of s1 = setup_of s"
    using 1 assms(3,4)
    by (auto simp: dsi_mgr_phy_enable_def enable_phy_def phy_now_enabled_def Let_def setup_of_def
        split: if_splits option.splits prod.splits)
  then have s1: "d_host s1 j = d_host s j" "phy_enabled s j \<longrightarrow> phy_enabled s1 j" "\<not> second s1"
    using sec second_setup [of s1 s i] by auto
  then show ?thesis
    using run 1 assms(4)
    by (auto simp: dsi_mgr_bridge_power_on_def at_host_opt_Some dsi_mgr_phy_disable_def split: if_splits Option.bind_splits)
qed

lemma pre_enable_kept:
  assumes "dsi_mgr_bridge_pre_enable e i s = Some s'" and "dsi_inv s" and "bridge i s"
  shows "kept j s s'"
proof -
  obtain r t where on: "dsi_mgr_bridge_power_on e i s = Some (r, t)" and s': "s' = (if r \<noteq> 0 then t else enables e i t)"
    using assms(1) by (auto simp: pre_enable_eq [OF assms(3,2)])
  have "kept j t s'" unfolding s' by (simp add: kept_refl quiet_kept quiet_enables)
  moreover have "kept j s t"
  proof (cases "phy_enabled s i")
    case True
    then show ?thesis by (rule power_on_kept [OF on assms(2,3)])
  next
    case False
    have set: "setup_of t = setup_of s" using bridge_power_on_inv [OF on assms(2,3)] by blast
    show ?thesis
    proof (cases "dual s \<or> j = i")
      case True
      then have "phy_of s j = i" using assms(3) by (auto simp: phy_of_def bridge_def)
      then show ?thesis using False by (simp add: kept_def)
    next
      case False
      then have "phy_of t j = j" "phy_of s j = j" using phy_of_setup [OF set] by (auto simp: phy_of_def)
      then show ?thesis using power_on_other [OF on assms(3), of j] False by (simp add: kept_def)
    qed
  qed
  ultimately show ?thesis by (rule kept_trans [rotated])
qed

lemma post_disable_kept:
  assumes "dsi_mgr_bridge_post_disable e i s = Some s'" and "dsi_inv s" and "bridge i s"
  shows "kept j s s'"
proof -
  let ?q = "quiet_off e i s"
  have s': "s' = hosts_off i (irqs_off i ?q)" using assms(1) post_disable_eq [OF assms(3,2)] by simp
  have q: "quiet s ?q" by (rule quiet_quiet_off)
  have irq: "core_rates (msm_dsi_host_disable_irq h) = core_rates h" "analog_held (msm_dsi_host_disable_irq h) = analog_held h" for h
    by (simp_all add: core_rates_def msm_dsi_host_disable_irq_def)
  have off: "core_rates (snd (msm_dsi_host_power_off h)) = core_rates h"
    "analog_held (snd (msm_dsi_host_power_off h)) = analog_held h" for h
  proof -
    have "pw (snd (msm_dsi_host_power_off h)) = (if power_on h then pw ((pm_put (bump (- 1) h))\<lparr>power_on := False\<rparr>) else pw h)"
      unfolding msm_dsi_host_power_off_def Let_def link_clk_disable_bump by (auto intro!: pw_cong)
    then show "core_rates (snd (msm_dsi_host_power_off h)) = core_rates h"
      "analog_held (snd (msm_dsi_host_power_off h)) = analog_held h"
      by (simp_all add: pw_def core_rates_def pm_put_def bump_def split: if_splits)
  qed
  have "kept j ?q s'"
    unfolding s' by (simp add: kept_def hosts_off_def irqs_off_def Let_def irq off)
  with quiet_kept [OF q] show ?thesis by (rule kept_trans)
qed

lemma dsi_step_kept: "dsi_step s s' \<Longrightarrow> dsi_inv s \<Longrightarrow> kept j s s'"
  by (erule dsi_step_cases) (auto dest: quiet_kept pre_enable_kept post_disable_kept)

lemma dsi_steps_kept: "dsi_step\<^sup>*\<^sup>* s s' \<Longrightarrow> dsi_inv s \<Longrightarrow> kept j s s'"
proof (induction rule: rtranclp_induct)
  case (step t u)
  then show ?case using dsi_steps_inv dsi_step_kept kept_trans by blast
qed (rule kept_refl)

section \<open>Results\<close>



text \<open>
  The display framework calls \<open>post_disable\<close> after \<open>pre_enable\<close>, which has no result. The number of
  the enablings that failed:
\<close>

fun cycles :: "'h dsim_env list \<Rightarrow> nat \<Rightarrow> 'h dsim \<Rightarrow> (nat \<times> 'h dsim) option" where
  "cycles [] i s = Some (0, s)"
| "cycles (e # es) i s = do {
     t \<leftarrow> dsi_mgr_bridge_pre_enable e i s;
     u \<leftarrow> dsi_mgr_bridge_post_disable e i t;
     (n, v) \<leftarrow> cycles es i u;
     Some (n + (if power_on (d_host t i) then 0 else 1), v)
   }"

lemma cycles_depth:
  assumes "cycles es i s = Some (n, s')" and "dsi_inv s" and "bridge i s" and "\<not> power_on (d_host s i)" and "0 < depth s i"
  shows "dsi_inv s' \<and> bridge i s' \<and> \<not> power_on (d_host s' i) \<and> depth s' i = depth s i + n"
  using assms
proof (induction es arbitrary: s n)
  case (Cons e es)
  obtain t u k where t: "dsi_mgr_bridge_pre_enable e i s = Some t" and u: "dsi_mgr_bridge_post_disable e i t = Some u"
    and k: "cycles es i u = Some (k, s')" and n: "n = k + (if power_on (d_host t i) then 0 else 1)"
    using Cons.prems(1) by (auto split: Option.bind_splits prod.splits)
  note pre = pre_enable_inv [OF t Cons.prems(2,3)]
  have br: "bridge i t" using second_setup [OF pre(2)] Cons.prems(3) by blast
  note post = post_disable_inv [OF u pre(1) br]
  have br': "bridge i u" using second_setup [OF post(2)] br by blast
  have d: "depth u i = depth s i + (if power_on (d_host t i) then 0 else 1)"
    using pre(4) [OF Cons.prems(4)] post(4) Cons.prems(5) by (simp add: mine_def)
  then show ?case using Cons.IH [OF k post(1) br' post(3)] n Cons.prems(5) by simp
qed simp

text \<open>
  C36. Each enabling that fails leaves the interrupt of the host disabled once more than before: after any
  number of enablings, each followed by a disabling, an enabling that succeeds leaves the
  interrupt disabled as often as one has failed. The host is powered then, and after a single
  failure it never gets its interrupt again.
\<close>

theorem dsi_irq_lost:
  assumes "dsi_start s" and "bridge i s" and "cycles es i s = Some (n, t)" and "dsi_mgr_bridge_pre_enable e i t = Some u"
    and "power_on (d_host u i)"
  shows "irq_depth (d_host u i) = n"
proof -
  have "depth s i = 1" "\<not> power_on (d_host s i)" using assms(1) by (simp_all add: dsi_start_def depth_def)
  then have c: "dsi_inv t" "bridge i t" "\<not> power_on (d_host t i)" "depth t i = 1 + n"
    using cycles_depth [OF assms(3) dsi_start_inv [OF assms(1)] assms(2)] by simp_all
  show ?thesis using pre_enable_inv(4) [OF assms(4) c(1-3)] assms(5) c(4) by (simp add: depth_def mine_def fun_eq_iff)
qed

section \<open>Situations the code does not handle\<close>

text \<open>A host whose clocks cannot be switched on keeps its device awake for good: the error path from there skips the put.\<close>

lemma dsi_power_on_leaks:
  assumes "analog_held h" and "link_clk_enable e (snd (link_clk_set_rate e (pm_get h))) = (r, k)" and "r \<noteq> 0"
  shows "\<exists>h'. power_clocks e t b h = Some (r, h') \<and> pm_usage h' = pm_usage h + 1 \<and> \<not> (power_on h' \<and> \<not> power_on h)"
proof (cases rule: link_clk_enable_outcome [of e "snd (link_clk_set_rate e (pm_get h))"])
  case (fail x)
  let ?k = "snd (link_clk_set_rate e (pm_get h))"
  have "pw ?k = pw (pm_get h)" by simp
  then have "analog_held ?k = analog_held h" "pm_usage ?k = pm_usage h + 1" "power_on ?k = power_on h"
    by (simp_all add: pw_def pm_get_def)
  then show ?thesis using assms fail by (simp add: power_clocks_def power_fail_def)
qed (use assms in simp)

text \<open>
  From the second power-on of bonded hosts, the timings of the second one are what the stack holds.
\<close>

lemma dsi_second_timings_unset:
  assumes "phy_enabled s 0"
  shows "dsi_mgr_phy_enable e 0 (stack_timings e) s =
    Some (0, (stack_timings e)(0 := saved_phy_timings s 0), s)"
    "((stack_timings e)(0 := saved_phy_timings s 0)) 1 = stack_timings e 1"
  by (simp_all add: phy_enable_again [OF assms])

text \<open>An acknowledged error report of the panel leaves no trace: its code is 0.\<close>

lemma dsi_ack_error_lost: "err_work_state (dsi_ack_err_status e h) = err_work_state h"
  by (simp add: dsi_ack_err_status_def add_err_def dsi_write_def Let_def)

section \<open>Examples\<close>

text \<open>A kernel in which everything succeeds: then a bridge with a mode is powered.\<close>

definition fine :: "dsi_env \<Rightarrow> bool" where
  "fine e \<longleftrightarrow> (\<forall>c h. clk_enable e c h = 0) \<and> (\<forall>c r h. clk_set_rate e c r h = 0) \<and> (\<forall>r h. opp_set_rate e r h = 0) \<and>
     (\<forall>h. vreg_enable e h = 0) \<and> (\<forall>h. pinctrl_default e h = 0)"

lemma fine_set_rate:
  assumes "fine e"
  shows "\<exists>h'. link_clk_set_rate e h = (0, h') \<and> h_mode h' = h_mode h"
proof -
  have 1: "set_rate e c r h = (0, h\<lparr>clk_rate := (clk_rate h)(c := r)\<rparr>)" for c r h
    using assms by (simp add: fine_def set_rate_def)
  show ?thesis
    using assms by (simp add: link_clk_set_rate_def dsi_link_clk_set_rate_6g_def dsi_link_clk_set_rate_v2_def then_int_def 1 fine_def)
qed

lemma fine_enable: "fine e \<Longrightarrow> link_clk_enable e h = (0, bump 1 h)"
  by (cases rule: link_clk_enable_outcome [of e h])
    (auto simp: fine_def link_clk_enable_def dsi_link_clk_enable_6g_def dsi_link_clk_enable_v2_def clk_prepare_enable_def
      split: if_splits)

lemma fine_power_on:
  assumes "fine e" and "h_mode h \<noteq> None" and "balanced h"
  shows "\<exists>h'. msm_dsi_host_power_on e t b h = Some (0, h')"
proof -
  have clocks: "\<exists>h'. power_clocks e t b k = Some (0, h')" if m: "h_mode k \<noteq> None" for k
  proof -
    obtain k1 where k1: "link_clk_set_rate e (pm_get k) = (0, k1)" "h_mode k1 = h_mode k"
      using fine_set_rate [OF assms(1), of "pm_get k"] by (auto simp: pm_get_def)
    obtain k2 where k2: "link_clk_set_rate e (bump 1 k1) = (0, k2)" "h_mode k2 = h_mode k1"
      using fine_set_rate [OF assms(1), of "bump 1 k1"] by (auto simp: bump_def)
    obtain m where "h_mode k2 = Some m" using m k1 k2 by auto
    then have "\<exists>k3. dsi_timing_setup e b k2 = Some k3" by (auto simp: dsi_timing_setup_def)
    then show ?thesis
      using k1 k2 assms(1) by (auto simp: power_clocks_def fine_enable [OF assms(1)]) (simp_all add: fine_def)
  qed
  show ?thesis
    using assms(1,2) by (auto simp: msm_dsi_host_power_on_def Let_def msm_dsi_sfpb_config_def fine_def intro!: clocks)
qed

definition demo_link :: link where
  "demo_link = \<lparr>lanes = 4, bpp = 24, l_dsc = None, cphy_mode = False\<rparr>"

definition demo_mode :: "int \<Rightarrow> drm_mode" where
  "demo_mode khz = \<lparr>m_clock = khz, hdisplay = 1080, hsync_start = 1180, hsync_end = 1190, htotal = 1250,
     vdisplay = 1920, vsync_start = 1924, vsync_end = 1926, vtotal = 1940, width_mm = 64, height_mm = 114\<rparr>"

definition demo_dsi :: dsi_host where
  "demo_dsi = \<lparr>h_id = 0, cfg = \<lparr>is_6g = True, above_v1_0 = True, from_v1_1 = True, from_v1_2 = True, from_v1_3 = True,
     from_v2_5 = False, has_byte_intf = False\<rparr>, regs = (\<lambda>_. 0), h_link = demo_link, channel = 0, format = RGB888,
     mode_flags = {}, dlane_swap = 0, num_data_lanes = 4, h_mode = Some (demo_mode 145444),
     rates = \<lparr>pixel_clk_rate = 0, byte_clk_rate = 0, byte_intf_clk_rate = 0, esc_clk_rate = 0, src_clk_rate = 0\<rparr>,
     clk_rate = (\<lambda>_. 0), clk_on = (\<lambda>_. 0), supplies_on = 0, pm_usage = 0, sfpb = None, irq_depth = 1, err_work_state = 0,
     err_queued = False, video_comp = False, dma_comp = False, dma_cmd_ctrl_restore = 0, registered = True,
     power_on = False, analog_held = False, enabled = False\<rparr>"

definition demo_dsc :: "dsc_config \<Rightarrow> int \<times> dsc_config" where
  "demo_dsc d = (0, d)"

text \<open>\<open>ok\<close>: whether the regulators come on.\<close>

definition demo_dsi_env :: "bool \<Rightarrow> dsi_env" where
  "demo_dsi_env ok = \<lparr>xml = \<lparr>mask_of = (\<lambda>_. 0), field_of = (\<lambda>_ x. x), enum_of = (\<lambda>_. 0)\<rparr>, clk_enable = (\<lambda>_ _. 0),
     clk_set_rate = (\<lambda>_ _ _. 0), opp_set_rate = (\<lambda>_ _. 0), vreg_enable = (\<lambda>_. if ok then 0 else - EINVAL),
     pinctrl_default = (\<lambda>_. 0), esc_clk_get_rate = 19200000, rd = (\<lambda>r f. f r), dsc_params = demo_dsc,
     continuous_clock = False, dev_attach = 0, host_register = 0, mode_duplicate = True\<rparr>"

definition demo_timings :: shared_timings where
  "demo_timings = \<lparr>clk_post = 5, clk_pre = 44, clk_pre_inc_by_2 = False, byte_intf_clk_div_2 = False\<rparr>"

definition demo_hw :: "unit dsi_hw" where
  "demo_hw = \<lparr>create_packet = (\<lambda>_. Inl (- EINVAL)), is_long = (\<lambda>_. False), hw_tx = (\<lambda>_ h. (True, h)), hw_rdbk = (\<lambda>_ _. 0),
     hw_clear = id\<rparr>"

definition demo_env :: "bool \<Rightarrow> unit dsim_env" where
  "demo_env ok = \<lparr>e_host = (\<lambda>_. demo_dsi_env ok), e_hw = demo_hw, phy_enable = (\<lambda>_ _. (0, demo_timings)), phy_cphy = (\<lambda>_. False),
     stack_timings = (\<lambda>_. demo_timings), stack_req = \<lparr>bitclk_rate = 0, escclk_rate = 0\<rparr>, of_dual = False, of_master = False,
     of_sync = False, opp_ceil = (\<lambda>_. 0), opp_count = 0\<rparr>"

definition demo_chan :: dsi_chan where
  "demo_chan = \<lparr>tx_mem = [], rx_mem = [], video_mode = False, line_bytes = 0, triggers = True, clears = True, dma_err = 0,
     buf_err = 0, stack = []\<rparr>"

definition demo_sys :: "unit dsim" where
  "demo_sys = \<lparr>d_reg = (\<lambda>j. j = 0), is_bonded_dsi = False, is_sync_needed = False, master_dsi_link_id = 0,
     d_host = (\<lambda>_. demo_dsi), d_chan = (\<lambda>_. demo_chan), d_hw = (), phy_enabled = (\<lambda>_. False),
     saved_phy_timings = (\<lambda>_. demo_timings), phy_on = (\<lambda>_. 0), usecase = (\<lambda>_. PHY_STANDALONE)\<rparr>"

lemma demo_start: "dsi_start demo_sys" "bridge 0 demo_sys" "\<not> second demo_sys"
  by (simp_all add: dsi_start_def demo_sys_def demo_dsi_def bridge_def second_def)

lemma demo_fine: "fine (demo_dsi_env True)"
  by (simp add: fine_def demo_dsi_env_def)

text \<open>The first enabling of the bridge: the host after its PHY has been enabled, and then powered.\<close>

definition demo_phy_host :: "bool \<Rightarrow> dsi_host" where
  "demo_phy_host ok = (msm_dsi_host_reset_phy (demo_dsi_env ok) demo_dsi)\<lparr>rates :=
     \<lparr>pixel_clk_rate = 145444000, byte_clk_rate = 109083000, byte_intf_clk_rate = 0, esc_clk_rate = 19200000, src_clk_rate = 0\<rparr>\<rparr>"

definition demo_phy_sys :: "bool \<Rightarrow> unit dsim" where
  "demo_phy_sys ok = demo_sys\<lparr>d_host := (d_host demo_sys)(0 := demo_phy_host ok), phy_on := (phy_on demo_sys)(0 := 1),
     phy_enabled := (phy_enabled demo_sys)(0 := True)\<rparr>"

lemma demo_phy:
  "dsi_mgr_phy_enable (demo_env ok) 0 (stack_timings (demo_env ok)) demo_sys = Some (0, stack_timings (demo_env ok), demo_phy_sys ok)"
proof -
  let ?h = "msm_dsi_host_reset_phy (demo_dsi_env ok) demo_dsi"
  have h: "cfg ?h = cfg demo_dsi" "h_link ?h = demo_link" "h_mode ?h = Some (demo_mode 145444)" "rates ?h = rates demo_dsi"
    by (simp_all add: msm_dsi_host_reset_phy_def dsi_write_def demo_dsi_def)
  have hz: "clock_hz (demo_mode 145444) = 145444000" by (simp add: clock_hz_def demo_mode_def)
  have d: "is_6g (cfg demo_dsi)" "esc_clk_get_rate (demo_dsi_env ok) = 19200000"
    "rates demo_dsi = \<lparr>pixel_clk_rate = 0, byte_clk_rate = 0, byte_intf_clk_rate = 0, esc_clk_rate = 0, src_clk_rate = 0\<rparr>"
    by (simp_all add: demo_dsi_def demo_dsi_env_def)
  have "calc_clk_rate (demo_dsi_env ok) False ?h = Some (0, demo_phy_host ok)"
    by (simp add: calc_clk_rate_def h d dsi_calc_clk_rate_6g_def dsi_calc_pclk_def dsi_byte_clk_get_rate_def dsi_get_pclk_rate_def
        hz demo_link_def mult_frac_def Let_def demo_phy_host_def)
  moreover have "(\<lambda>_ :: nat. demo_timings)(0 := demo_timings) = (\<lambda>_. demo_timings)" by auto
  moreover have "e_host (demo_env ok) 0 = demo_dsi_env ok" "phy_enable (demo_env ok) = (\<lambda>_ _. (0, demo_timings))"
    "stack_timings (demo_env ok) = (\<lambda>_. demo_timings)" "\<not> is_bonded_dsi demo_sys" "\<not> phy_enabled demo_sys 0"
    "d_host demo_sys 0 = demo_dsi" "saved_phy_timings demo_sys = (\<lambda>_. demo_timings)" "phy_on demo_sys = (\<lambda>_. 0)"
    by (simp_all add: demo_env_def demo_sys_def)
  ultimately show ?thesis
    by (simp add: dsi_mgr_phy_enable_def enable_phy_def msm_dsi_host_get_phy_clk_req_def phy_now_enabled_def demo_phy_sys_def
        Let_def on_host_def)
qed

lemma fine_pre_enable:
  assumes phy: "dsi_mgr_phy_enable e i (stack_timings e) s = Some (0, ts, s1)" and "dsi_inv s" and "bridge i s" and "\<not> second s"
    and "fine (e_host e i)" and "h_mode (d_host s1 i) \<noteq> None"
  shows "\<exists>u. dsi_mgr_bridge_pre_enable e i s = Some u \<and> power_on (d_host u i)"
proof -
  have i: "i < 2" "d_reg s i" "is_bonded_dsi s \<Longrightarrow> i = 0" using assms(3) by (auto simp: bridge_def)
  have s1: "dsi_inv s1" "same_power s s1" using phy_enable_inv [OF phy assms(2) i] by auto
  then have "balanced (d_host s1 i)" "\<not> second s1"
    using assms(4) second_setup [of s1 s i] by (simp_all add: dsi_inv_def mid_inv_def same_power_def)
  moreover obtain h where h: "msm_dsi_host_power_on (e_host e i) (ts i) (is_bonded_dsi s1) (d_host s1 i) = Some (0, h)"
    using fine_power_on [OF assms(5,6)] calculation(1) by blast
  ultimately have on: "dsi_mgr_bridge_power_on e i s = Some (0, on_host i msm_dsi_host_enable_irq (on_host i (\<lambda>_. h) s1))"
    by (simp add: dsi_mgr_bridge_power_on_def phy at_host_opt_def)
  have "power_on h" using host_power_on [OF h] s1 by (simp add: dsi_inv_def mid_inv_def)
  then have "power_on (d_host (enables e i (on_host i msm_dsi_host_enable_irq (on_host i (\<lambda>_. h) s1))) i)"
    unfolding quiet_power [OF quiet_enables] by (simp add: msm_dsi_host_enable_irq_def)
  then show ?thesis by (simp add: pre_enable_eq [OF assms(3,2)] on)
qed

lemma demo_mode_phy: "h_mode (d_host (demo_phy_sys ok) 0) = Some (demo_mode 145444)"
  by (simp add: demo_phy_sys_def demo_phy_host_def msm_dsi_host_reset_phy_def dsi_write_def demo_dsi_def)

lemma demo_powered: "\<exists>u. dsi_mgr_bridge_pre_enable (demo_env True) 0 demo_sys = Some u \<and> power_on (d_host u 0)"
  by (rule fine_pre_enable [OF demo_phy dsi_start_inv [OF demo_start(1)] demo_start(2,3)])
    (simp_all add: demo_mode_phy, simp add: demo_env_def demo_fine)



lemma h_mode_keeps:
  "h_mode (dsi_write r v h) = h_mode h" "h_mode (dsi_intr_ctrl e m on h) = h_mode h" "h_mode (dsi_sw_reset e h) = h_mode h"
  "h_mode (snd (msm_dsi_host_disable e h)) = h_mode h" "h_mode (msm_dsi_host_disable_irq h) = h_mode h"
  "\<not> power_on h \<Longrightarrow> h_mode (snd (msm_dsi_host_power_off h)) = h_mode h"
  by (simp_all add: dsi_write_def dsi_intr_ctrl_def dsi_sw_reset_def msm_dsi_host_disable_def dsi_op_mode_config_def
      msm_dsi_host_disable_irq_def msm_dsi_host_power_off_def Let_def)

text \<open>The regulators fail once: the next enabling powers the host, with its interrupt disabled.\<close>

lemma demo_fails:
  "\<exists>t. dsi_mgr_bridge_pre_enable (demo_env False) 0 demo_sys = Some t \<and> \<not> power_on (d_host t 0) \<and> phy_enabled t 0 \<and>
    h_mode (d_host t 0) \<noteq> None"
proof -
  let ?h = "d_host (demo_phy_sys False) 0"
  have h: "\<not> power_on ?h" "\<not> analog_held ?h" "sfpb ?h = None"
    by (simp_all add: demo_phy_sys_def demo_phy_host_def msm_dsi_host_reset_phy_def dsi_write_def demo_dsi_def)
  have v: "e_host (demo_env False) 0 = demo_dsi_env False" "vreg_enable (demo_dsi_env False) k = - EINVAL" for k
    by (simp_all add: demo_env_def demo_dsi_env_def)
  obtain k where k: "msm_dsi_host_power_on (demo_dsi_env False) demo_timings False ?h = Some (- EINVAL, k)"
    "\<not> power_on k" "h_mode k = h_mode ?h"
    using h by (auto simp: msm_dsi_host_power_on_def v Let_def msm_dsi_sfpb_config_def)
  have "dsi_mgr_bridge_power_on (demo_env False) 0 demo_sys = Some (- EINVAL, on_host 0 (\<lambda>_. k) (demo_phy_sys False))"
  proof -
    have "stack_timings (demo_env False) 0 = demo_timings" "is_bonded_dsi (demo_phy_sys False) = False"
      by (simp_all add: demo_env_def demo_phy_sys_def demo_sys_def)
    then show ?thesis
      by (simp add: dsi_mgr_bridge_power_on_def demo_phy at_host_opt_def v k(1) dsi_mgr_phy_disable_def)
  qed
  then show ?thesis
    using k(2,3) by (simp add: pre_enable_eq [OF demo_start(2) dsi_start_inv [OF demo_start(1)]] demo_mode_phy)
      (simp add: demo_phy_sys_def)
qed

theorem dsi_irq_lost_witness:
  "\<exists>t u. cycles [demo_env False] 0 demo_sys = Some (1, t) \<and> dsi_mgr_bridge_pre_enable (demo_env True) 0 t = Some u \<and>
     power_on (d_host u 0) \<and> irq_depth (d_host u 0) = 1"
proof -
  obtain s where s: "dsi_mgr_bridge_pre_enable (demo_env False) 0 demo_sys = Some s" "\<not> power_on (d_host s 0)" "phy_enabled s 0"
    "h_mode (d_host s 0) \<noteq> None"
    using demo_fails by blast
  have inv: "dsi_inv demo_sys" by (rule dsi_start_inv [OF demo_start(1)])
  note pre = pre_enable_inv [OF s(1) inv demo_start(2)]
  have br: "bridge 0 s" "\<not> second s" using second_setup [OF pre(2), of 0] demo_start(2,3) by simp_all
  let ?t = "hosts_off 0 (irqs_off 0 (quiet_off (demo_env False) 0 s))"
  have t: "dsi_mgr_bridge_post_disable (demo_env False) 0 s = Some ?t" by (rule post_disable_eq [OF br(1) pre(1)])
  have c: "cycles [demo_env False] 0 demo_sys = Some (1, ?t)" using s(2) by (simp add: s(1) t)
  note post = post_disable_inv [OF t pre(1) br(1)]
  have br': "bridge 0 ?t" "\<not> second ?t" using second_setup [OF post(2), of 0] br by simp_all
  have phy: "phy_enabled ?t 0"
    using s(3) br by (simp add: hosts_off_def irqs_off_def quiet_off_def Let_def)
  have "\<not> power_on (msm_dsi_host_disable_irq (snd (msm_dsi_host_disable e (d_host s 0))))" for e
    using s(2) arg_cong [OF pw_ops(12) [of e "d_host s 0"], of "\<lambda>p. fst (snd (snd (snd p)))"]
    by (simp add: pw_def msm_dsi_host_disable_irq_def)
  then have "h_mode (d_host ?t 0) \<noteq> None"
    using s(4) br by (simp add: hosts_off_def irqs_off_def quiet_off_def Let_def h_mode_keeps)
  moreover have "fine (e_host (demo_env True) 0)" by (simp add: demo_env_def demo_fine)
  ultimately obtain u where u: "dsi_mgr_bridge_pre_enable (demo_env True) 0 ?t = Some u" "power_on (d_host u 0)"
    using fine_pre_enable [OF phy_enable_again [OF phy] post(1) br', of "demo_env True"] by blast
  have "irq_depth (d_host u 0) = 1" by (rule dsi_irq_lost [OF demo_start(1,2) c u])
  then show ?thesis using c u by blast
qed

end
