(* ===== verification/Spec2Isabelle.thy ===== *)
theory Spec2Isabelle
  imports Fuel_Gauge_Correct Fuel_Gauge_Protocol Smbchg_Correct Wifi_Hud_Probe Wifi_Scan_Correct
    Wled_Correct Wled_Bright Wled_Config_Correct Hud_Text_Correct Hud_Touch_Correct Hud_Sheets_Correct
    Panel_Correct Dsi_Read_Correct Dsi_Clock_Correct Dsi_Power_Correct
begin

text \<open>
  A verification library for the drivers and the boot display of the mainline Linux port to the
  Xiaomi Mi 5 (gemini).

  The repository holds kernel drivers laid over mainline Linux
  (\<open>src/overlays/linux/drivers\<close>: the PMIC fuel gauge, charger, backlight, panel and display
  controller) and the programs of the initial RAM disk (\<open>src/initramfs\<close>: init, and a status
  display with a touch user interface for joining Wi-Fi networks). They share no state; within a
  driver the entry points (property access, interrupts, probe) share the register map.

  Kernel side. Kernel_Prelude has the state-and-error monad in which drivers are written (an
  \<open>int\<close> error code or a value, and the new state), its Hoare triples, and the locale of the
  register bus. Regmap is the register map over an abstract bus, with write logs; the bus, the
  waits and the notifications are parameters, and each locale is interpreted on the model's own
  operations.

    Pmic_Sec_Write   \<open>drivers/soc/qcom/pmic-sec-write.c\<close>: writes to locked registers
    Fuel_Gauge_Io, Fuel_Gauge_Sram, Fuel_Gauge_Sim, Fuel_Gauge   \<open>power/supply/qcom_fg.c\<close>: register and
      SRAM access, a memory device that answers it, readings, thresholds, properties, probe
    Fuel_Gauge_Protocol   the SRAM arbitration of the same file as a step relation over any
      interleaving of threads, the release worker, the interrupt and the hardware
    Smbchg_Tables, Smbchg, Smbchg_Driver   \<open>power/supply/qcom-smbchg.[ch]\<close>: tables and search, charge
      path, charging and OTG, interrupts, properties, probe
    Power_Supply   the property identifiers both use
    Wled, Wled_Probe   \<open>video/backlight/qcom-wled.c\<close>: brightness, module switch, short-circuit and
      over-voltage handlers, string detection; configuration from the device tree, set-up, probe
    Wled_Irq   the backlight's events in any interleaving; Wled_Correct, Wled_Bright and
      Wled_Config_Correct hold what is proved: the interrupt stays balanced, a short circuit
      latches, the brightness registers, the search for configuration values

    Drm_Mode   the display mode, which panel and controller share
    Panel_Jdi   \<open>gpu/drm/panel/panel-jdi-fhd-r63452.c\<close>: the panel; Panel_Correct
    Dsi_Cmd   the commands of \<open>gpu/drm/msm/dsi/dsi_host.c\<close>; Dsi_Read_Correct: a locale for the panel
      and the controller in between, and that reading returns what the panel has
    Dsi_Clock   clock rates and lane configuration of the same file; Dsi_Clock_Correct: the byte
      clock carries the pixels, the escape clock, lanes are mapped back to their order
    Dsi_Host, Dsi_Manager   power, registers, interrupts of the same file and \<open>dsi_manager.c\<close>: one or two
      hosts with their PHYs; what reading a register gives is a parameter, what was written is state
    Dsi_Power_Correct   the steps of all operations, and in every reachable state: clocks, regulators
      and PHYs are balanced, rates stay those of the first mode; the interrupt after failures

  The theories ending in \<open>_Correct\<close> and Smbchg_Regs hold what is proved of them: readings are
  exact and bounded, limits never exceed what was asked for, what is set is read back, every
  access to a locked register is preceded by its unlocking, error paths restore what they took.

  Display side. C_Strings has the C string functions that \<open>gemini-status.c\<close> uses.

    Wifi_Flow   \<open>gemini-wifi-flow.h\<close>: the decisions (join, ask, queue, confirm, forget)
    Wifi_Hud   the Wi-Fi globals of \<open>gemini-status.c\<close> as one record, and the operations on them
    Wifi_Parse   the parsers for what \<open>nmcli\<close> and \<open>iw\<close> print
    Wifi_Events   the ends of the helper processes (\<open>poll_job\<close>), keys, buttons, the main loop, and
      the states reachable by any sequence of these events
    Wifi_Runs   concrete runs
    Wifi_Hud_Correct, Wifi_Hud_Traps, Wifi_Hud_Probe, Wifi_Scan_Correct   invariants of the
      reachable states, two situations the code does not handle, round trips of the parsers
    Hud_Canvas   drawing: rectangles, glyphs, text, buttons, on a buffer whose bounds are checked;
      Hud_Canvas_Correct, Hud_Text_Correct: what is painted, and that nothing else is touched
    Hud_Keyboard   the keys of the touch keyboard, where they lie, and which one a point is on
    Hud_Touch   touch slots, taps, drags, the power key, brightness: \<open>handle_ev\<close>, \<open>drain_inputs\<close>
    Hud_Touch_Correct   array bounds; input refines the events of Wifi_Events; the dark screen; keys

  Conventions. A C integer is a word of its width where it can wrap or is masked, and an \<open>int\<close> or
  \<open>nat\<close> where the code keeps it in range; a buffer of n characters is a string, and \<open>fits n\<close>
  truncates it as \<open>snprintf\<close> does. The polling loops of the fuel gauge carry the retry counter of
  the code, so no fuel is needed; the loops over SRAM bytes and table entries recurse on the
  number of bytes or entries left.

  Not modelled: the graphics path (\<open>gemini-status-gpu.c\<close>, third-party GL), glyph data
  (generated), the composition of the sheets from the drawing operations, system meters, \<open>init.c\<close>
  (mounts and starts programs), the reboot helper, platform-bus tables and debug output,
  and of the display controller the probing of its resources, DMA buffer allocation, and the
  creation of bridge and connector objects.
\<close>

end
